(* ===== verification/Prelude.thy ===== *)
theory Prelude
  imports Complex_Main "HOL-Library.Sublist"
begin

section \<open>Prelude: Python computations as a state and exception monad\<close>

text \<open>
  The scripts of the repository are Python methods that read and write object attributes, call
  out to the operating system through the Avocado library, and stop by raising. A method body is
  modelled as a function of type \<open>('s, 'a) py\<close>: it takes the state and returns either the
  exception it raised (\<open>Inl\<close>) or its value (\<open>Inr\<close>), together with the state it left behind.
  The state survives an exception, as it does in Python.

  The theory holds the exceptions, the combinators the bodies are written with (sequencing,
  \<^verbatim>\<open>if\<close>, \<^verbatim>\<open>for\<close>, \<^verbatim>\<open>try/except\<close>, \<^verbatim>\<open>try/finally\<close>), and a weakest-precondition calculus
  over them: \<open>wp m Q R s\<close> says that running \<open>m\<close> from \<open>s\<close> ends either normally in a value
  and state that satisfy \<open>Q\<close>, or in an exception and state that satisfy \<open>R\<close>. The rules are
  collected in \<open>wp\<close> and rewrite a precondition backwards through a body.
\<close>

named_theorems wp \<open>weakest-precondition equations of the combinators and operations\<close>

subsection \<open>Exceptions\<close>

text \<open>
  \<open>TestFail\<close> and \<open>TestCancel\<close> are what Avocado's \<^verbatim>\<open>self.fail\<close> and \<^verbatim>\<open>self.cancel\<close> raise.
  \<open>TestException\<close> is the class of \<^verbatim>\<open>dlpar_api/api.py\<close>. The others are Python's built-in
  exceptions and those of the external libraries. \<open>NoReturn\<close> is no exception of the program:
  it marks a loop of the model that ran out of its bound, and the theorems exclude it.
\<close>

datatype exn =
    TestFail string
  | TestCancel string
  | TestException string
  | TypeError
  | ValueError
  | IndexError
  | KeyError
  | AttributeError
  | UnboundLocalError
  | ZeroDivisionError
  | FileNotFoundError
  | IOError
  | CmdError string
  | LibError string
  | JSONDecodeError
  | NWException
  | PMemException string
  | NoReturn

type_synonym 'a result = "exn + 'a"
type_synonym ('s, 'a) py = "'s \<Rightarrow> 'a result \<times> 's"

subsection \<open>Combinators\<close>

definition ret :: "'a \<Rightarrow> ('s, 'a) py" where
  "ret x = (\<lambda>s. (Inr x, s))"

definition raise :: "exn \<Rightarrow> ('s, 'a) py" where
  "raise e = (\<lambda>s. (Inl e, s))"

definition bnd :: "('s, 'a) py \<Rightarrow> ('a \<Rightarrow> ('s, 'b) py) \<Rightarrow> ('s, 'b) py" where
  "bnd m f = (\<lambda>s. case m s of (Inl e, t) \<Rightarrow> (Inl e, t) | (Inr x, t) \<Rightarrow> f x t)"

definition sq :: "('s, 'a) py \<Rightarrow> ('s, 'b) py \<Rightarrow> ('s, 'b) py" where
  "sq m n = bnd m (\<lambda>_. n)"

definition gets :: "('s \<Rightarrow> 'a) \<Rightarrow> ('s, 'a) py" where
  "gets f = (\<lambda>s. (Inr (f s), s))"

definition modify :: "('s \<Rightarrow> 's) \<Rightarrow> ('s, unit) py" where
  "modify f = (\<lambda>s. (Inr (), f s))"

definition lift :: "'a result \<Rightarrow> ('s, 'a) py" where
  "lift r = (\<lambda>s. (r, s))"

definition whenb :: "bool \<Rightarrow> ('s, unit) py \<Rightarrow> ('s, unit) py" where
  "whenb b m = (if b then m else ret ())"

text \<open>\<open>try_except m h\<close>: the handler decides on the exception and may raise it again.\<close>

definition try_except :: "('s, 'a) py \<Rightarrow> (exn \<Rightarrow> ('s, 'a) py) \<Rightarrow> ('s, 'a) py" where
  "try_except m h = (\<lambda>s. case m s of (Inl e, t) \<Rightarrow> h e t | (Inr x, t) \<Rightarrow> (Inr x, t))"

text \<open>\<open>try_finally m f\<close>: \<open>f\<close> always runs; an exception of \<open>f\<close> replaces the outcome of \<open>m\<close>.\<close>

definition try_finally :: "('s, 'a) py \<Rightarrow> ('s, unit) py \<Rightarrow> ('s, 'a) py" where
  "try_finally m f = (\<lambda>s. case m s of (r, t) \<Rightarrow>
     (case f t of (Inl e, u) \<Rightarrow> (Inl e, u) | (Inr _, u) \<Rightarrow> (r, u)))"

text \<open>
  \<open>for_each xs f\<close> is \<^verbatim>\<open>for x in xs: f(x)\<close>; \<open>for_acc xs f a\<close> threads the local variables the
  body assigns; \<open>for_ret xs f\<close> is a loop whose body may \<^verbatim>\<open>return\<close> (\<open>Some v\<close>) or go on
  (\<open>None\<close>).
\<close>

fun for_each :: "'x list \<Rightarrow> ('x \<Rightarrow> ('s, unit) py) \<Rightarrow> ('s, unit) py" where
  "for_each [] f = ret ()"
| "for_each (x # xs) f = sq (f x) (for_each xs f)"

fun for_acc :: "'x list \<Rightarrow> ('x \<Rightarrow> 'a \<Rightarrow> ('s, 'a) py) \<Rightarrow> 'a \<Rightarrow> ('s, 'a) py" where
  "for_acc [] f a = ret a"
| "for_acc (x # xs) f a = bnd (f x a) (for_acc xs f)"

fun for_ret :: "'x list \<Rightarrow> ('x \<Rightarrow> ('s, 'r option) py) \<Rightarrow> ('s, 'r option) py" where
  "for_ret [] f = ret None"
| "for_ret (x # xs) f =
     bnd (f x) (\<lambda>r. case r of None \<Rightarrow> for_ret xs f | Some v \<Rightarrow> ret (Some v))"

lemmas py_defs = ret_def raise_def bnd_def sq_def gets_def modify_def lift_def whenb_def
  try_except_def try_finally_def

subsection \<open>Monad laws\<close>

lemma bnd_ret_left [simp]: "bnd (ret x) f = f x"
  by (simp add: py_defs)

lemma bnd_ret_right [simp]: "bnd m ret = m"
  by (rule ext) (simp add: py_defs split: prod.split sum.split)

lemma bnd_assoc: "bnd (bnd m f) g = bnd m (\<lambda>x. bnd (f x) g)"
  by (rule ext) (simp add: py_defs split: prod.split sum.split)

lemma sq_ret_left [simp]: "sq (ret x) m = m"
  by (simp add: sq_def)

lemma sq_assoc: "sq (sq m n) k = sq m (sq n k)" "sq (bnd m f) k = bnd m (\<lambda>x. sq (f x) k)"
  by (simp_all add: sq_def bnd_assoc)

lemma bnd_raise [simp]: "bnd (raise e) f = raise e"
  by (simp add: py_defs)

lemma sq_raise [simp]: "sq (raise e) m = raise e"
  by (simp add: sq_def)

lemma lift_simps [simp]: "lift (Inr x) = ret x" "lift (Inl e) = raise e"
  by (simp_all add: py_defs)

lemma for_each_map: "for_each (map g xs) f = for_each xs (\<lambda>x. f (g x))"
  by (induction xs) simp_all

lemma for_each_append: "for_each (xs @ ys) f = sq (for_each xs f) (for_each ys f)"
  by (induction xs) (auto simp: sq_def bnd_assoc)

subsection \<open>Weakest preconditions\<close>

definition wp :: "('s, 'a) py \<Rightarrow> ('a \<Rightarrow> 's \<Rightarrow> bool) \<Rightarrow> (exn \<Rightarrow> 's \<Rightarrow> bool) \<Rightarrow> 's \<Rightarrow> bool" where
  "wp m Q R s = (case m s of (Inl e, t) \<Rightarrow> R e t | (Inr x, t) \<Rightarrow> Q x t)"

lemma wp_ret [wp]: "wp (ret x) Q R s = Q x s"
  by (simp add: wp_def py_defs)

lemma wp_raise [wp]: "wp (raise e) Q R s = R e s"
  by (simp add: wp_def py_defs)

lemma wp_bnd [wp]: "wp (bnd m f) Q R s = wp m (\<lambda>x. wp (f x) Q R) R s"
  by (simp add: wp_def py_defs split: prod.split sum.split)

lemma wp_sq [wp]: "wp (sq m n) Q R s = wp m (\<lambda>_. wp n Q R) R s"
  by (simp add: sq_def wp_bnd)

lemma wp_gets [wp]: "wp (gets f) Q R s = Q (f s) s"
  by (simp add: wp_def py_defs)

lemma wp_modify [wp]: "wp (modify f) Q R s = Q () (f s)"
  by (simp add: wp_def py_defs)

lemma wp_lift [wp]: "wp (lift r) Q R s = (case r of Inl e \<Rightarrow> R e s | Inr x \<Rightarrow> Q x s)"
  by (simp add: wp_def py_defs split: sum.split)

lemma wp_whenb [wp]: "wp (whenb b m) Q R s = (if b then wp m Q R s else Q () s)"
  by (simp add: whenb_def wp_ret)

lemma wp_if [wp]:
  "wp (if b then m else n) Q R s = (if b then wp m Q R s else wp n Q R s)"
  by simp

lemma wp_try_except [wp]:
  "wp (try_except m h) Q R s = wp m Q (\<lambda>e. wp (h e) Q R) s"
  by (simp add: wp_def py_defs split: prod.split sum.split)

lemma wp_try_finally [wp]:
  "wp (try_finally m f) Q R s =
     wp m (\<lambda>x. wp f (\<lambda>_. Q x) R) (\<lambda>e. wp f (\<lambda>_. R e) R) s"
  by (simp add: wp_def py_defs split: prod.split sum.split)

lemma wp_case_option [wp]:
  "wp (case x of None \<Rightarrow> m | Some v \<Rightarrow> f v) Q R s =
     (case x of None \<Rightarrow> wp m Q R s | Some v \<Rightarrow> wp (f v) Q R s)"
  by (simp split: option.split)

lemma wp_case_prod [wp]:
  "wp (case x of (a, b) \<Rightarrow> f a b) Q R s = (case x of (a, b) \<Rightarrow> wp (f a b) Q R s)"
  by (simp split: prod.split)

lemma wp_Let [wp]: "wp (let x = a in f x) Q R s = (let x = a in wp (f x) Q R s)"
  by simp

lemma wp_for_each_Nil [wp]: "wp (for_each [] f) Q R s = Q () s"
  by (simp add: wp_ret)

lemma wp_for_acc_Nil [wp]: "wp (for_acc [] f a) Q R s = Q a s"
  by (simp add: wp_ret)

text \<open>Reading a triple off a run, and building a run from a triple.\<close>

lemma wpI:
  assumes "\<And>x t. m s = (Inr x, t) \<Longrightarrow> Q x t"
    and "\<And>e t. m s = (Inl e, t) \<Longrightarrow> R e t"
  shows "wp m Q R s"
  using assms by (auto simp: wp_def split: prod.split sum.split)

lemma wp_okD: "wp m Q R s \<Longrightarrow> m s = (Inr x, t) \<Longrightarrow> Q x t"
  by (simp add: wp_def)

lemma wp_exnD: "wp m Q R s \<Longrightarrow> m s = (Inl e, t) \<Longrightarrow> R e t"
  by (simp add: wp_def)

lemma wp_conseq:
  assumes "wp m Q R s" "\<And>x t. Q x t \<Longrightarrow> Q' x t" "\<And>e t. R e t \<Longrightarrow> R' e t"
  shows "wp m Q' R' s"
  using assms by (auto simp: wp_def split: prod.splits sum.splits)

text \<open>Sequential composition with the intermediate conditions given.\<close>

lemma wp_bnd_step:
  assumes "wp m P R' s" "\<And>x t. P x t \<Longrightarrow> wp (f x) Q R t" "\<And>e t. R' e t \<Longrightarrow> R e t"
  shows "wp (bnd m f) Q R s"
  unfolding wp_bnd by (rule wp_conseq[OF assms])

lemma wp_sq_step:
  assumes "wp m P R' s" "\<And>x t. P x t \<Longrightarrow> wp n Q R t" "\<And>e t. R' e t \<Longrightarrow> R e t"
  shows "wp (sq m n) Q R s"
  unfolding sq_def by (rule wp_bnd_step[OF assms])

lemma wp_conj: "wp m Q R s \<Longrightarrow> wp m Q' R' s \<Longrightarrow> wp m (\<lambda>x t. Q x t \<and> Q' x t) (\<lambda>e t. R e t \<and> R' e t) s"
  by (auto simp: wp_def split: prod.splits sum.splits)

lemma wp_True: "wp m (\<lambda>_ _. True) (\<lambda>_ _. True) s"
  by (simp add: wp_def split: prod.split sum.split)

lemma wp_not_exn_iff: "wp m Q (\<lambda>_ _. False) s \<longleftrightarrow> (\<exists>x t. m s = (Inr x, t) \<and> Q x t)"
  by (auto simp: wp_def split: prod.splits sum.splits)

subsection \<open>Loop rules\<close>

text \<open>
  The invariant of a \<^verbatim>\<open>for\<close> loop speaks of the items that are already done and of the state;
  the rule is total, because the list is finite.
\<close>

lemma wp_for_each_done:
  assumes init: "I done s"
    and step: "\<And>ys x t. I (done @ ys) t \<Longrightarrow> (\<exists>zs. xs = ys @ x # zs) \<Longrightarrow>
                 wp (f x) (\<lambda>_. I (done @ ys @ [x])) R t"
  shows "wp (for_each xs f) (\<lambda>_. I (done @ xs)) R s"
  using assms
proof (induction xs arbitrary: "done" s)
  case Nil
  then show ?case by (simp add: wp)
next
  case (Cons x xs)
  have "wp (f x) (\<lambda>_. I (done @ [x])) R s"
    using Cons.prems(2)[of "[]" s x] Cons.prems(1) by auto
  moreover have "wp (for_each xs f) (\<lambda>_. I (done @ x # xs)) R t" if "I (done @ [x]) t" for t
  proof -
    have "wp (for_each xs f) (\<lambda>_. I ((done @ [x]) @ xs)) R t"
    proof (rule Cons.IH[OF that])
      fix ys y u
      assume "I ((done @ [x]) @ ys) u" "\<exists>zs. xs = ys @ y # zs"
      then show "wp (f y) (\<lambda>_. I ((done @ [x]) @ ys @ [y])) R u"
        using Cons.prems(2)[of "x # ys" u y] by auto
    qed
    then show ?thesis by simp
  qed
  ultimately show ?case
    by (simp add: wp) (erule wp_conseq, auto)
qed

lemma wp_for_each:
  assumes "I [] s"
    and "\<And>ys x t. I ys t \<Longrightarrow> (\<exists>zs. xs = ys @ x # zs) \<Longrightarrow> wp (f x) (\<lambda>_. I (ys @ [x])) R t"
  shows "wp (for_each xs f) (\<lambda>_. I xs) R s"
  using wp_for_each_done[of I "[]" s xs f R] assms by simp

text \<open>The special case of an invariant of the state alone.\<close>

lemma wp_for_each_inv:
  assumes "I s" and "\<And>x t. x \<in> set xs \<Longrightarrow> I t \<Longrightarrow> wp (f x) (\<lambda>_. I) R t"
  shows "wp (for_each xs f) (\<lambda>_. I) R s"
  by (rule wp_for_each [where I = "\<lambda>_. I"]) (use assms in auto)

lemma wp_for_acc:
  assumes init: "I [] a s"
    and step: "\<And>ys x b t. I ys b t \<Longrightarrow> (\<exists>zs. xs = ys @ x # zs) \<Longrightarrow>
                 wp (f x b) (I (ys @ [x])) R t"
  shows "wp (for_acc xs f a) (I xs) R s"
proof -
  have gen: "wp (for_acc zs f b) (I (ys @ zs)) R t" if "I ys b t" "xs = ys @ zs" for ys zs b t
    using that
  proof (induction zs arbitrary: ys b t)
    case Nil
    then show ?case by (simp add: wp)
  next
    case (Cons z zs)
    have "wp (f z b) (I (ys @ [z])) R t"
      using step Cons.prems by blast
    moreover have "wp (for_acc zs f c) (I (ys @ z # zs)) R u" if "I (ys @ [z]) c u" for c u
      using Cons.IH[OF that] Cons.prems by simp
    ultimately show ?case
      by (simp add: wp) (erule wp_conseq, auto)
  qed
  show ?thesis using gen[OF init, of xs] by simp
qed

subsection \<open>Errors as values\<close>

text \<open>The pure fragment: \<open>rbind\<close> chains computations that may raise but touch no state.\<close>

definition rbind :: "'a result \<Rightarrow> ('a \<Rightarrow> 'b result) \<Rightarrow> 'b result" where
  "rbind r f = (case r of Inl e \<Rightarrow> Inl e | Inr x \<Rightarrow> f x)"

lemma rbind_simps [simp]: "rbind (Inl e) f = Inl e" "rbind (Inr x) f = f x"
  by (simp_all add: rbind_def)

lemma rbind_Inr_iff: "rbind r f = Inr y \<longleftrightarrow> (\<exists>x. r = Inr x \<and> f x = Inr y)"
  by (cases r) auto

lemma lift_rbind: "lift (rbind r f) = bnd (lift r) (\<lambda>x. lift (f x))"
  by (rule ext) (simp add: py_defs rbind_def split: sum.split)

fun mapM_r :: "('a \<Rightarrow> 'b result) \<Rightarrow> 'a list \<Rightarrow> 'b list result" where
  "mapM_r f [] = Inr []"
| "mapM_r f (x # xs) = rbind (f x) (\<lambda>y. rbind (mapM_r f xs) (\<lambda>ys. Inr (y # ys)))"

lemma mapM_r_total: "(\<And>x. x \<in> set xs \<Longrightarrow> f x = Inr (g x)) \<Longrightarrow> mapM_r f xs = Inr (map g xs)"
  by (induction xs) auto

text \<open>Python's \<^verbatim>\<open>xs[i]\<close>, with negative indices counted from the end.\<close>

definition py_nth :: "'a list \<Rightarrow> int \<Rightarrow> 'a result" where
  "py_nth xs i =
     (if 0 \<le> i \<and> i < int (length xs) then Inr (xs ! nat i)
      else if - int (length xs) \<le> i \<and> i < 0 then Inr (xs ! nat (int (length xs) + i))
      else Inl IndexError)"

lemma py_nth_last: "xs \<noteq> [] \<Longrightarrow> py_nth xs (-1) = Inr (last xs)"
  by (cases xs) (auto simp: py_nth_def last_conv_nth nat_diff_distrib Let_def)

lemma py_nth_0: "xs \<noteq> [] \<Longrightarrow> py_nth xs 0 = Inr (hd xs)"
  by (auto simp: py_nth_def hd_conv_nth)

text \<open>\<^verbatim>\<open>range(a, b, step)\<close>; Python refuses a step of 0, which no script uses.\<close>

definition py_range3 :: "int \<Rightarrow> int \<Rightarrow> int \<Rightarrow> int list" where
  "py_range3 a b st =
     map (\<lambda>k. a + st * int k)
       [0..<nat (if 0 < st then (b - a + st - 1) div st else (a - b - st - 1) div (- st))]"

abbreviation range1 :: "int \<Rightarrow> int list" where
  "range1 b \<equiv> py_range3 0 b 1"

lemma set_py_range3_up: "set (py_range3 a b 1) = {a..<b}"
proof -
  have "x \<in> (\<lambda>k. a + int k) ` {0..<nat (b - a)} \<longleftrightarrow> a \<le> x \<and> x < b" for x
    by (auto simp: image_iff intro!: bexI[of _ "nat (x - a)"])
  then show ?thesis by (auto simp: py_range3_def)
qed

lemma set_py_range3_down: "set (py_range3 a b (- 1)) = {b<..a}"
proof -
  have "x \<in> (\<lambda>k. a - int k) ` {0..<nat (a - b)} \<longleftrightarrow> b < x \<and> x \<le> a" for x
    by (auto simp: image_iff intro!: bexI[of _ "nat (a - x)"])
  then show ?thesis by (auto simp: py_range3_def)
qed

end
