(* ===== verification/Py_Str.thy ===== *)
theory Py_Str
  imports Prelude
begin

section \<open>Python strings\<close>

text \<open>
  The string methods the scripts parse command output with. A \<open>string\<close> holds the bytes of
  the text in UTF-8: an ASCII character is one \<open>char\<close>, another code point is several with
  codes from 128 on, and a substring test on the bytes agrees with one on the code points. White
  space and line boundaries are those of Python's \<^verbatim>\<open>str.strip\<close>, \<^verbatim>\<open>str.split\<close> and
  \<^verbatim>\<open>str.splitlines\<close> within ASCII; the separators outside ASCII are not recognised.
\<close>

subsection \<open>White space\<close>

definition is_space :: "char \<Rightarrow> bool" where
  "is_space c = (of_char c \<in> {9, 10, 11, 12, 13, 28, 29, 30, 31, 32 :: nat})"

definition is_line_break :: "char \<Rightarrow> bool" where
  "is_line_break c = (of_char c \<in> {10, 11, 12, 13, 28, 29, 30 :: nat})"

definition newline :: char where "newline = CHR 0x0A"
definition carriage_return :: char where "carriage_return = CHR 0x0D"

text \<open>A string between single quotes, as the messages of the scripts show names.\<close>

definition quoted :: "string \<Rightarrow> string" where
  "quoted s = CHR 0x27 # s @ [CHR 0x27]"

subsection \<open>strip, replace, in, startswith\<close>

definition strip_by :: "(char \<Rightarrow> bool) \<Rightarrow> string \<Rightarrow> string" where
  "strip_by p s = rev (dropWhile p (rev (dropWhile p s)))"

definition strip :: "string \<Rightarrow> string" where
  "strip = strip_by is_space"

definition strip_chars :: "string \<Rightarrow> string \<Rightarrow> string" where
  "strip_chars cs = strip_by (\<lambda>c. c \<in> set cs)"

fun contains :: "string \<Rightarrow> string \<Rightarrow> bool" where
  "contains p [] = (p = [])"
| "contains p (c # s) = (take (length p) (c # s) = p \<or> contains p s)"

definition startswith :: "string \<Rightarrow> string \<Rightarrow> bool" where
  "startswith s p = (take (length p) s = p)"

definition replace_char :: "char \<Rightarrow> string \<Rightarrow> string \<Rightarrow> string" where
  "replace_char c r s = concat (map (\<lambda>d. if d = c then r else [d]) s)"

lemma contains_iff_sublist: "contains p s \<longleftrightarrow> sublist p s"
proof (induction s)
  case Nil
  then show ?case by simp
next
  case (Cons c s)
  have "take (length p) (c # s) = p \<longleftrightarrow> prefix p (c # s)"
    by (metis prefix_def append_eq_conv_conj append_take_drop_id)
  with Cons show ?case by (simp add: sublist_Cons_right)
qed

lemma contains_append: "contains p (xs @ p @ ys)"
  by (auto simp: contains_iff_sublist)

lemma strip_by_no_ends:
  assumes "s = [] \<or> \<not> p (hd s) \<and> \<not> p (last s)"
  shows "strip_by p s = s"
proof -
  have "dropWhile p s = s" "dropWhile p (rev s) = rev s"
    using assms by (auto simp: dropWhile_eq_self_iff hd_rev)
  then show ?thesis by (simp add: strip_by_def)
qed

lemma strip_by_both:
  assumes "\<And>c. c \<in> set a \<union> set b \<Longrightarrow> p c" "x \<noteq> []" "\<not> p (hd x)" "\<not> p (last x)"
  shows "strip_by p (a @ x @ b) = x"
proof -
  have "dropWhile p (a @ x @ b) = x @ b"
    using assms by (cases x) (auto simp: dropWhile_append)
  moreover have "dropWhile p (rev b @ rev x) = rev x"
    using assms by (cases x rule: rev_cases) (auto simp: dropWhile_append)
  ultimately show ?thesis by (simp add: strip_by_def)
qed

lemma strip_id: "(\<And>c. c \<in> set s \<Longrightarrow> \<not> is_space c) \<Longrightarrow> strip s = s"
  unfolding strip_def by (rule strip_by_no_ends) auto

text \<open>What follows the first occurrence of \<open>p\<close>.\<close>

fun after_first :: "string \<Rightarrow> string \<Rightarrow> string option" where
  "after_first p [] = (if p = [] then Some [] else None)"
| "after_first p (c # s) =
     (if startswith (c # s) p then Some (drop (length p) (c # s)) else after_first p s)"

lemma after_first_None_iff: "after_first p s = None \<longleftrightarrow> \<not> contains p s"
  by (induction s) (auto simp: startswith_def)

lemma startswith_append [simp]: "startswith (p @ s) p"
  by (simp add: startswith_def)

subsection \<open>split, splitlines, join\<close>

text \<open>\<^verbatim>\<open>s.split()\<close>: the maximal runs of non-space characters.\<close>

fun split_ws_acc :: "string \<Rightarrow> string \<Rightarrow> string list" where
  "split_ws_acc w [] = (if w = [] then [] else [rev w])"
| "split_ws_acc w (c # s) =
     (if is_space c then (if w = [] then split_ws_acc [] s else rev w # split_ws_acc [] s)
      else split_ws_acc (c # w) s)"

definition split_ws :: "string \<Rightarrow> string list" where
  "split_ws s = split_ws_acc [] s"

text \<open>\<^verbatim>\<open>s.split(c)\<close> for a separator of one character; it never returns an empty list.\<close>

fun split_on :: "char \<Rightarrow> string \<Rightarrow> string list" where
  "split_on d [] = [[]]"
| "split_on d (c # s) =
     (if c = d then [] # split_on d s
      else (case split_on d s of [] \<Rightarrow> [[c]] | w # ws \<Rightarrow> (c # w) # ws))"

text \<open>\<^verbatim>\<open>s.split(sep)\<close> for a longer separator, which is not empty.\<close>

function split_str_acc :: "string \<Rightarrow> string \<Rightarrow> string \<Rightarrow> string list" where
  "split_str_acc sep w [] = [rev w]"
| "split_str_acc sep w (c # s) =
     (if startswith (c # s) sep then rev w # split_str_acc sep [] (drop (length sep - 1) s)
      else split_str_acc sep (c # w) s)"
  by pat_completeness auto
termination
  by (relation "measure (\<lambda>(_, _, s). length s)") auto

definition split_str :: "string \<Rightarrow> string \<Rightarrow> string list" where
  "split_str sep s = split_str_acc sep [] s"

text \<open>\<^verbatim>\<open>s.splitlines()\<close>: \<^verbatim>\<open>\r\n\<close> is one boundary, and a final boundary starts no line.\<close>

fun splitlines_acc :: "string \<Rightarrow> string \<Rightarrow> string list" where
  "splitlines_acc w [] = (if w = [] then [] else [rev w])"
| "splitlines_acc w [c] = (if is_line_break c then [rev w] else [rev (c # w)])"
| "splitlines_acc w (c # d # s) =
     (if c = carriage_return \<and> d = newline then rev w # splitlines_acc [] s
      else if is_line_break c then rev w # splitlines_acc [] (d # s)
      else splitlines_acc (c # w) (d # s))"

definition splitlines :: "string \<Rightarrow> string list" where
  "splitlines s = splitlines_acc [] s"

text \<open>\<^verbatim>\<open>sep.join(xs)\<close>.\<close>

fun join :: "string \<Rightarrow> string list \<Rightarrow> string" where
  "join sep [] = []"
| "join sep [x] = x"
| "join sep (x # y # zs) = x @ sep @ join sep (y # zs)"

lemma split_on_nonempty [simp]: "split_on d s \<noteq> []"
  by (induction s) (auto split: list.split)

lemma split_on_no_sep: "d \<notin> set s \<Longrightarrow> split_on d s = [s]"
  by (induction s) auto

lemma split_on_parts: "w \<in> set (split_on d s) \<Longrightarrow> d \<notin> set w"
proof (induction s arbitrary: w)
  case Nil
  then show ?case by simp
next
  case (Cons c s)
  then show ?case by (cases "split_on d s") (auto split: if_splits)
qed

lemma split_on_append: "d \<notin> set w \<Longrightarrow> split_on d (w @ d # s) = w # split_on d s"
  by (induction w) auto

lemma split_join:
  "(\<And>w. w \<in> set ws \<Longrightarrow> d \<notin> set w) \<Longrightarrow> ws \<noteq> [] \<Longrightarrow> split_on d (join [d] ws) = ws"
proof (induction "[d]" ws rule: join.induct)
  case (3 x y zs)
  then show ?case by (simp add: split_on_append)
qed (auto simp: split_on_no_sep)

lemma is_line_break_newline [simp]: "is_line_break newline"
  by (simp add: is_line_break_def newline_def)

lemma splitlines_acc_break:
  "(\<And>c. c \<in> set l \<Longrightarrow> \<not> is_line_break c) \<Longrightarrow>
   splitlines_acc w (l @ newline # s) = (rev w @ l) # splitlines_acc [] s"
proof (induction l arbitrary: w)
  case Nil
  have "newline \<noteq> carriage_return" by (simp add: newline_def carriage_return_def)
  then show ?case by (cases s) simp_all
next
  case (Cons c l)
  have "\<not> is_line_break c" "c \<noteq> carriage_return"
    using Cons.prems[of c] by (auto simp: is_line_break_def carriage_return_def)
  then have "splitlines_acc w ((c # l) @ newline # s) = splitlines_acc (c # w) (l @ newline # s)"
    by (cases l) simp_all
  with Cons show ?case by simp
qed

lemma splitlines_lines:
  "(\<And>l c. l \<in> set ls \<Longrightarrow> c \<in> set l \<Longrightarrow> \<not> is_line_break c) \<Longrightarrow>
   splitlines (concat (map (\<lambda>l. l @ [newline]) ls)) = ls"
  unfolding splitlines_def
proof (induction ls)
  case (Cons l ls)
  have "splitlines_acc [] (l @ newline # s) = l # splitlines_acc [] s" for s
    using splitlines_acc_break[of l "[]" s, OF Cons.prems[of l]] by simp
  moreover have "splitlines_acc [] (concat (map (\<lambda>l. l @ [newline]) ls)) = ls"
    by (rule Cons.IH) (use Cons.prems in auto)
  ultimately show ?case by simp
qed simp

lemma split_ws_acc_word:
  "(\<And>c. c \<in> set s \<Longrightarrow> \<not> is_space c) \<Longrightarrow>
   split_ws_acc w s = (if w = [] \<and> s = [] then [] else [rev w @ s])"
  by (induction s arbitrary: w) auto

lemma split_ws_word: "(\<And>c. c \<in> set s \<Longrightarrow> \<not> is_space c) \<Longrightarrow> s \<noteq> [] \<Longrightarrow> split_ws s = [s]"
  by (simp add: split_ws_def split_ws_acc_word)

lemma split_ws_acc_parts:
  "\<forall>c \<in> set w. \<not> is_space c \<Longrightarrow> x \<in> set (split_ws_acc w s) \<Longrightarrow>
   x \<noteq> [] \<and> (\<forall>c \<in> set x. \<not> is_space c)"
proof (induction s arbitrary: w)
  case Nil
  then show ?case by (cases "w = []") simp_all
next
  case (Cons c s)
  show ?case
  proof (cases "is_space c")
    case True
    with Cons.prems have "x \<in> set (split_ws_acc [] s) \<or> (x = rev w \<and> w \<noteq> [])"
      by (simp split: if_splits) blast
    with Cons.IH[of "[]"] Cons.prems(1) show ?thesis by auto
  next
    case False
    with Cons.IH[of "c # w"] Cons.prems show ?thesis by simp
  qed
qed

lemma split_ws_parts: "x \<in> set (split_ws s) \<Longrightarrow> x \<noteq> [] \<and> (\<forall>c \<in> set x. \<not> is_space c)"
  unfolding split_ws_def by (rule split_ws_acc_parts) auto

text \<open>Words with blanks between them.\<close>

lemma split_ws_acc_append_word:
  "(\<And>c. c \<in> set u \<Longrightarrow> \<not> is_space c) \<Longrightarrow> split_ws_acc w (u @ s) = split_ws_acc (rev u @ w) s"
  by (induction u arbitrary: w) auto

lemma split_ws_blank: "is_space c \<Longrightarrow> split_ws (c # s) = split_ws s"
  by (simp add: split_ws_def)

lemma split_ws_blanks: "(\<And>c. c \<in> set b \<Longrightarrow> is_space c) \<Longrightarrow> split_ws (b @ s) = split_ws s"
  by (induction b) (auto simp: split_ws_blank)

lemma split_ws_word_then:
  assumes "\<And>c. c \<in> set u \<Longrightarrow> \<not> is_space c" "u \<noteq> []" "s = [] \<or> is_space (hd s)"
  shows "split_ws (u @ s) = u # split_ws s"
  using assms(2,3) split_ws_acc_append_word[of u "[]" s] assms(1)
  by (cases s) (auto simp: split_ws_def)

lemma split_ws_at_blank:
  assumes "is_space c"
  shows "split_ws (a @ c # s) = split_ws a @ split_ws s"
proof -
  have "split_ws_acc w (a @ c # s) = split_ws_acc w a @ split_ws s" for w
    using assms by (induction a arbitrary: w) (auto simp: split_ws_def)
  then show ?thesis by (simp add: split_ws_def)
qed

lemma split_ws_blanks_end: "(\<And>c. c \<in> set b \<Longrightarrow> is_space c) \<Longrightarrow> split_ws (s @ b) = split_ws s"
proof -
  assume b: "\<And>c. c \<in> set b \<Longrightarrow> is_space c"
  have "split_ws_acc w b = (if w = [] then [] else [rev w])" for w
    using b by (induction b arbitrary: w) auto
  then have "split_ws_acc w (s @ b) = split_ws_acc w s" for w
    by (induction s arbitrary: w) auto
  then show ?thesis by (simp add: split_ws_def)
qed

text \<open>\<^verbatim>\<open>s.rstrip()\<close>, which \<^verbatim>\<open>strip\<close> is for a text that does not begin with a blank.\<close>

definition rstrip :: "string \<Rightarrow> string" where
  "rstrip s = rev (dropWhile is_space (rev s))"

lemma strip_rstrip: "s = [] \<or> \<not> is_space (hd s) \<Longrightarrow> strip s = rstrip s"
  by (cases s) (auto simp: strip_def strip_by_def rstrip_def)

lemma rstrip_end: "is_space c \<Longrightarrow> rstrip (s @ [c]) = rstrip s"
  by (simp add: rstrip_def)

lemma rstrip_append: "rstrip t \<noteq> [] \<Longrightarrow> rstrip (s @ t) = s @ rstrip t"
  by (auto simp: rstrip_def dropWhile_append)

lemma rstrip_split: "\<exists>b. s = rstrip s @ b \<and> (\<forall>c \<in> set b. is_space c)"
proof (intro exI conjI)
  show "s = rstrip s @ rev (takeWhile is_space (rev s))"
    by (metis rev_append rev_rev_ident rstrip_def takeWhile_dropWhile_id)
qed (auto dest: set_takeWhileD)

lemma split_ws_rstrip: "split_ws (rstrip s) = split_ws s"
  using rstrip_split[of s] split_ws_blanks_end by metis

lemma splitlines_last_line:
  assumes "\<And>l c. l \<in> set (ls @ [t]) \<Longrightarrow> c \<in> set l \<Longrightarrow> \<not> is_line_break c" "t \<noteq> []"
  shows "splitlines (concat (map (\<lambda>l. l @ [newline]) ls) @ t) = ls @ [t]"
proof -
  have "splitlines_acc w t = [rev w @ t]" if "t \<noteq> []" "\<And>c. c \<in> set t \<Longrightarrow> \<not> is_line_break c" for w
    using that
  proof (induction t arbitrary: w rule: induct_list012)
    case (3 c d t)
    have "c \<noteq> carriage_return" using 3(4)[of c] by (auto simp: is_line_break_def carriage_return_def)
    with 3 show ?case by simp
  qed auto
  moreover have "\<not> is_line_break c" if "c \<in> set t" for c using assms(1)[of t c] that by simp
  ultimately have last: "splitlines_acc [] t = [t]" using assms(2) by simp
  have "splitlines_acc [] (concat (map (\<lambda>l. l @ [newline]) ls) @ t) = ls @ [t]"
    using assms(1)
  proof (induction ls)
    case (Cons l ls)
    have "splitlines_acc [] (l @ newline # s) = l # splitlines_acc [] s" for s
      using splitlines_acc_break[of l "[]" s] Cons.prems[of l] by simp
    moreover have "splitlines_acc [] (concat (map (\<lambda>l. l @ [newline]) ls) @ t) = ls @ [t]"
      by (rule Cons.IH) (use Cons.prems in auto)
    ultimately show ?case by simp
  qed (simp add: last)
  then show ?thesis by (simp add: splitlines_def)
qed

subsection \<open>Integers in text\<close>

definition digit_char :: "int \<Rightarrow> char" where
  "digit_char d = char_of (48 + d)"

definition char_digit :: "char \<Rightarrow> int option" where
  "char_digit c = (let n = of_char c :: int in if 48 \<le> n \<and> n \<le> 57 then Some (n - 48) else None)"

text \<open>The decimal digits of a number that is not negative.\<close>

function str_digits :: "int \<Rightarrow> string" where
  "str_digits n =
     (if n < 10 then [digit_char n] else str_digits (n div 10) @ [digit_char (n mod 10)])"
  by pat_completeness auto
termination
  by (relation "measure nat") auto

declare str_digits.simps [simp del]

text \<open>\<^verbatim>\<open>str(n)\<close> of an integer.\<close>

definition str_int :: "int \<Rightarrow> string" where
  "str_int n = (if n < 0 then CHR ''-'' # str_digits (- n) else str_digits n)"

text \<open>
  \<^verbatim>\<open>int(s)\<close> of a string: white space around the number is dropped, a sign and single
  underscores between digits are allowed, anything else raises \<^verbatim>\<open>ValueError\<close>. The flag of
  \<open>parse_digits\<close> says that the last character was a digit.
\<close>

fun parse_digits :: "bool \<Rightarrow> int \<Rightarrow> string \<Rightarrow> int option" where
  "parse_digits b a [] = (if b then Some a else None)"
| "parse_digits b a (c # s) =
     (if c = CHR ''_'' then (if b \<and> s \<noteq> [] then parse_digits False a s else None)
      else (case char_digit c of None \<Rightarrow> None | Some d \<Rightarrow> parse_digits True (10 * a + d) s))"

definition py_int :: "string \<Rightarrow> int result" where
  "py_int s =
     (let t = strip s;
          neg = (t \<noteq> [] \<and> hd t = CHR ''-'');
          body = (if t \<noteq> [] \<and> (hd t = CHR ''-'' \<or> hd t = CHR ''+'') then tl t else t)
      in case parse_digits False 0 body of
           None \<Rightarrow> Inl ValueError
         | Some n \<Rightarrow> Inr (if neg then - n else n))"

lemma of_char_digit [simp]: "0 \<le> d \<Longrightarrow> d < 10 \<Longrightarrow> (of_char (digit_char d) :: int) = 48 + d"
  by (simp add: digit_char_def)

lemma char_digit_digit [simp]: "0 \<le> d \<Longrightarrow> d < 10 \<Longrightarrow> char_digit (digit_char d) = Some d"
  by (simp add: char_digit_def Let_def)

definition is_digit :: "char \<Rightarrow> bool" where
  "is_digit c = (char_digit c \<noteq> None)"

lemma is_digit_digit_char [simp]: "0 \<le> d \<Longrightarrow> d < 10 \<Longrightarrow> is_digit (digit_char d)"
  by (simp add: is_digit_def)

lemma is_digit_not_space: "is_digit c \<Longrightarrow> \<not> is_space c"
proof
  assume d: "is_digit c" and "is_space c"
  then have "(of_char c :: nat) < 48 \<or> 57 < (of_char c :: nat)"
    by (auto simp: is_space_def)
  then have "\<not> (48 \<le> (of_char c :: int) \<and> (of_char c :: int) \<le> 57)"
    by (metis of_nat_of_char of_nat_le_iff of_nat_numeral not_le)
  with d show False by (simp add: is_digit_def char_digit_def Let_def)
qed

lemma is_digit_not_sign [simp]:
  "\<not> is_digit CHR ''-''" "\<not> is_digit CHR ''+''" "\<not> is_digit CHR ''_''" "\<not> is_digit CHR ''.''"
  "\<not> is_digit CHR '',''"
  by (simp_all add: is_digit_def char_digit_def)

lemma str_digits_nonempty [simp]: "str_digits n \<noteq> []"
  by (subst str_digits.simps) simp

lemma str_digits_chars: "0 \<le> n \<Longrightarrow> c \<in> set (str_digits n) \<Longrightarrow> is_digit c"
proof (induction n rule: str_digits.induct)
  case (1 n)
  show ?case
  proof (cases "n < 10")
    case True
    with 1 show ?thesis by (subst (asm) (2) str_digits.simps) auto
  next
    case False
    with "1.prems" have "c \<in> set (str_digits (n div 10)) \<or> c = digit_char (n mod 10)"
      by (subst (asm) str_digits.simps) auto
    with "1.IH" False show ?thesis by auto
  qed
qed

definition digits_value :: "int \<Rightarrow> string \<Rightarrow> int" where
  "digits_value a xs = foldl (\<lambda>a c. 10 * a + the (char_digit c)) a xs"

lemma parse_digits_digits:
  "(\<And>c. c \<in> set xs \<Longrightarrow> is_digit c) \<Longrightarrow>
   parse_digits b a xs = (if b \<or> xs \<noteq> [] then Some (digits_value a xs) else None)"
proof (induction xs arbitrary: a b)
  case Nil
  then show ?case by (simp add: digits_value_def)
next
  case (Cons x xs)
  then have "is_digit x" by simp
  then obtain d where "char_digit x = Some d" "x \<noteq> CHR ''_''"
    by (metis is_digit_def is_digit_not_sign(3) not_None_eq)
  with Cons show ?case by (simp add: digits_value_def)
qed

lemma digits_value_str_digits: "0 \<le> n \<Longrightarrow> digits_value 0 (str_digits n) = n"
proof (induction n rule: str_digits.induct)
  case (1 n)
  then show ?case
    by (subst str_digits.simps) (simp add: digits_value_def)
qed

lemma parse_digits_str_digits: "0 \<le> n \<Longrightarrow> parse_digits False 0 (str_digits n) = Some n"
  by (subst parse_digits_digits) (auto simp: digits_value_str_digits intro: str_digits_chars)

lemma hd_str_digits:
  assumes "0 \<le> n"
  shows "hd (str_digits n) \<noteq> CHR ''-''" "hd (str_digits n) \<noteq> CHR ''+''"
proof -
  have "is_digit (hd (str_digits n))"
    using assms by (intro str_digits_chars[of n]) auto
  then show "hd (str_digits n) \<noteq> CHR ''-''" "hd (str_digits n) \<noteq> CHR ''+''"
    by (metis is_digit_not_sign)+
qed

lemma str_int_no_space: "c \<in> set (str_int n) \<Longrightarrow> \<not> is_space c"
  using str_digits_chars[of n c] str_digits_chars[of "- n" c] is_digit_not_space
  by (auto simp: str_int_def is_space_def [of "CHR ''-''"] split: if_splits)

text \<open>Reading back what \<^verbatim>\<open>str\<close> wrote.\<close>

lemma py_int_str_int [simp]: "py_int (str_int n) = Inr n"
proof -
  have "strip (str_int n) = str_int n"
    by (rule strip_id) (rule str_int_no_space)
  then show ?thesis
    by (simp add: py_int_def Let_def str_int_def hd_str_digits parse_digits_str_digits)
qed

lemma strip_str_int [simp]: "strip (str_int n) = str_int n"
  by (rule strip_id) (rule str_int_no_space)

lemma str_int_nonempty [simp]: "str_int n \<noteq> []"
  by (simp add: str_int_def)

lemma str_int_inj: "str_int m = str_int n \<longleftrightarrow> m = n"
  by (metis py_int_str_int sum.inject(2))

subsection \<open>Paths and digits\<close>

text \<open>\<^verbatim>\<open>re.findall(r"\d+", s)[0]\<close>, and \<^verbatim>\<open>os.path.basename\<close>.\<close>

definition first_digits :: "string \<Rightarrow> string result" where
  "first_digits s =
     (let t = dropWhile (\<lambda>c. \<not> is_digit c) s
      in if t = [] then Inl IndexError else Inr (takeWhile is_digit t))"

definition basename :: "string \<Rightarrow> string" where
  "basename p = last (split_on (CHR ''/'') p)"

text \<open>\<^verbatim>\<open>os.path.join\<close> with a relative second argument.\<close>

definition path_join :: "string \<Rightarrow> string \<Rightarrow> string" where
  "path_join a b = (if a = [] \<or> last a = CHR ''/'' then a @ b else a @ ''/'' @ b)"

definition spaces :: "nat \<Rightarrow> string" where
  "spaces n = replicate n (CHR '' '')"

text \<open>\<^verbatim>\<open>s.lower()\<close> within ASCII.\<close>

definition lower :: "string \<Rightarrow> string" where
  "lower s = map (\<lambda>c. let n = (of_char c :: int) in if 65 \<le> n \<and> n \<le> 90 then char_of (n + 32) else c) s"

end
