(* ===== verification/Py_Float.thy ===== *)
theory Py_Float
  imports Prelude "HOL-Library.Log_Nat"
begin

section \<open>Python floats\<close>

text \<open>
  A Python \<^verbatim>\<open>float\<close> is an IEEE 754 double. It is modelled by the rational number it denotes;
  \<open>fl\<close> rounds a rational to the nearest number with a 53-bit significand, ties to even, and every
  float operation is the exact operation followed by \<open>fl\<close>. The exponent is unbounded: overflow
  to infinity, subnormals, signed zeros and NaN are outside the model (the scripts compute with
  counts of processors, megabytes and small fractions of them). \<open>fl\<close> computes.
\<close>

subsection \<open>The binary exponent\<close>

definition ilog2 :: "rat \<Rightarrow> int" where
  "ilog2 x = (case quotient_of x of (a, b) \<Rightarrow>
     (let k = bitlen a - bitlen b in if 2 powi k \<le> x then k else k - 1))"

definition round_even :: "rat \<Rightarrow> int" where
  "round_even y =
     (let f = \<lfloor>y\<rfloor>; d = y - of_int f
      in if d < 1 / 2 then f else if 1 / 2 < d then f + 1 else if even f then f else f + 1)"

definition ulp_exp :: "rat \<Rightarrow> int" where
  "ulp_exp x = ilog2 \<bar>x\<bar> - 52"

definition fl :: "rat \<Rightarrow> rat" where
  "fl x = (if x = 0 then 0
           else of_int (round_even (x / 2 powi ulp_exp x)) * 2 powi ulp_exp x)"

text \<open>\<open>is_float x\<close>: the rational is a value a float can have.\<close>

definition is_float :: "rat \<Rightarrow> bool" where
  "is_float x = (fl x = x)"

lemma bitlen_bounds_rat:
  assumes "0 < a"
  shows "2 powi (bitlen a - 1) \<le> (of_int a :: rat) \<and> (of_int a :: rat) < 2 powi (bitlen a)"
proof -
  have pos: "0 < bitlen a"
    using assms bitlen_nonneg[of a] bitlen_eq_zero_iff[of a] by linarith
  have "2 ^ nat (bitlen a - 1) \<le> a" "a < 2 ^ nat (bitlen a)"
    using bitlen_bounds[OF assms] by auto
  then have "of_int (2 ^ nat (bitlen a - 1)) \<le> (of_int a :: rat)"
    "(of_int a :: rat) < of_int (2 ^ nat (bitlen a))"
    using of_int_le_iff of_int_less_iff by blast+
  then show ?thesis
    using pos by (simp add: power_int_def)
qed

lemma powi2_add: "(2::rat) powi (a + b) = 2 powi a * 2 powi b"
  by (rule power_int_add) simp

lemma powi2_pos [simp]: "0 < (2::rat) powi k"
  by simp

lemma powi2_less_iff [simp]: "(2::rat) powi a < 2 powi b \<longleftrightarrow> a < b"
  using power_int_strict_increasing[of a b "2::rat"] power_int_strict_increasing[of b a "2::rat"]
  by (cases a b rule: linorder_cases) auto

lemma powi2_le_iff [simp]: "(2::rat) powi a \<le> 2 powi b \<longleftrightarrow> a \<le> b"
  by (simp flip: not_less)

lemma ilog2_bounds:
  assumes "0 < x"
  shows "2 powi ilog2 x \<le> x \<and> x < 2 powi (ilog2 x + 1)"
proof -
  obtain a b where q: "quotient_of x = (a, b)" by (cases "quotient_of x") auto
  have b: "0 < b" and x: "x = of_int a / of_int b"
    using q quotient_of_denom_pos quotient_of_div by blast+
  with assms have a: "0 < a" by (simp add: zero_less_divide_iff)
  define k where "k = bitlen a - bitlen b"
  have A: "2 powi (bitlen a - 1) \<le> (of_int a :: rat)" "(of_int a :: rat) < 2 powi (bitlen a)"
    and B: "2 powi (bitlen b - 1) \<le> (of_int b :: rat)" "(of_int b :: rat) < 2 powi (bitlen b)"
    using bitlen_bounds_rat a b by auto
  have "x < 2 powi (bitlen a) / 2 powi (bitlen b - 1)"
    unfolding x using A B a b
    by (intro frac_less) auto
  also have "\<dots> = 2 powi (k + 1)"
    by (simp add: k_def algebra_simps flip: power_int_diff)
  finally have up: "x < 2 powi (k + 1)" .
  have "2 powi (bitlen a - 1) / 2 powi (bitlen b) \<le> x"
    unfolding x using A B a b by (intro frac_le) auto
  moreover have "2 powi (bitlen a - 1) / 2 powi (bitlen b) = (2::rat) powi (k - 1)"
    by (simp add: k_def algebra_simps flip: power_int_diff)
  ultimately have lo: "2 powi (k - 1) \<le> x" by simp
  show ?thesis
    using up lo by (auto simp: ilog2_def q k_def[symmetric] Let_def)
qed

lemma ilog2_unique:
  assumes "2 powi k \<le> x" "x < 2 powi (k + 1)"
  shows "ilog2 x = k"
proof -
  have "0 < x" using assms(1) by (rule less_le_trans[rotated]) simp
  note b = ilog2_bounds[OF this]
  have "(2::rat) powi k < 2 powi (ilog2 x + 1)" "(2::rat) powi ilog2 x < 2 powi (k + 1)"
    using b assms by linarith+
  then show ?thesis by simp
qed

lemma ilog2_mono: "0 < x \<Longrightarrow> x \<le> y \<Longrightarrow> ilog2 x \<le> ilog2 y"
proof -
  assume "0 < x" "x \<le> y"
  then have "2 powi ilog2 x < (2::rat) powi (ilog2 y + 1)"
    using ilog2_bounds[of x] ilog2_bounds[of y] by linarith
  then show ?thesis by simp
qed

subsection \<open>Rounding to an integer\<close>

lemma round_even_of_int [simp]: "round_even (of_int n) = n"
  by (simp add: round_even_def Let_def)

lemma round_even_mono: "x \<le> y \<Longrightarrow> round_even x \<le> round_even y"
proof -
  assume le: "x \<le> y"
  then have f: "\<lfloor>x\<rfloor> \<le> \<lfloor>y\<rfloor>" by (rule floor_mono)
  show ?thesis
  proof (cases "\<lfloor>x\<rfloor> = \<lfloor>y\<rfloor>")
    case True
    with le show ?thesis by (auto simp: round_even_def Let_def)
  next
    case False
    with f have "\<lfloor>x\<rfloor> + 1 \<le> \<lfloor>y\<rfloor>" by simp
    moreover have "round_even x \<le> \<lfloor>x\<rfloor> + 1" "\<lfloor>y\<rfloor> \<le> round_even y"
      by (auto simp: round_even_def Let_def)
    ultimately show ?thesis by simp
  qed
qed

lemma round_even_bounds: "\<bar>of_int (round_even y) - y\<bar> \<le> 1 / 2"
proof -
  have fy: "of_int \<lfloor>y\<rfloor> \<le> y" "y < of_int \<lfloor>y\<rfloor> + 1" by linarith+
  have "round_even y = \<lfloor>y\<rfloor> \<and> y - of_int \<lfloor>y\<rfloor> \<le> 1 / 2 \<or>
        round_even y = \<lfloor>y\<rfloor> + 1 \<and> 1 / 2 \<le> y - of_int \<lfloor>y\<rfloor>"
    by (auto simp: round_even_def Let_def)
  then have "of_int (round_even y) - y \<le> 1 / 2 \<and> - (of_int (round_even y) - y) \<le> 1 / 2"
    using fy by (elim disjE conjE; simp only: of_int_add of_int_1; linarith)
  then show ?thesis by (simp only: abs_le_iff)
qed

lemma round_even_minus: "round_even (- y) = - round_even y"
proof (cases "y \<in> \<int>")
  case True
  then obtain n where "y = of_int n" by (auto elim: Ints_cases)
  moreover have "round_even (- of_int n) = - n"
    using round_even_of_int[of "- n"] by (simp only: of_int_minus)
  ultimately show ?thesis by simp
next
  case False
  then have "y \<noteq> of_int \<lfloor>y\<rfloor>" by (metis Ints_of_int)
  then have n: "of_int \<lfloor>y\<rfloor> < y" by linarith
  have "\<lfloor>- y\<rfloor> = - \<lfloor>y\<rfloor> - 1"
    using n by linarith
  then show ?thesis
    by (auto simp: round_even_def Let_def)
qed

subsection \<open>Properties of the rounding\<close>

lemma fl_0 [simp]: "fl 0 = 0"
  by (simp add: fl_def)

lemma fl_minus: "fl (- x) = - fl x"
  by (simp add: fl_def ulp_exp_def round_even_minus)

lemma fl_nonneg: "0 \<le> x \<Longrightarrow> 0 \<le> fl x"
  using round_even_mono[of 0 "x / 2 powi ulp_exp x"] round_even_of_int[of 0]
  by (simp add: fl_def)

text \<open>A number with at most 53 significant bits is exact.\<close>

lemma fl_exact:
  assumes "x = of_int m * 2 powi e" "\<bar>m\<bar> \<le> 2 ^ 53"
  shows "fl x = x"
proof (cases "m = 0")
  case True
  with assms show ?thesis by simp
next
  case False
  define u where "u = ulp_exp x"
  have ax: "\<bar>x\<bar> = of_int \<bar>m\<bar> * 2 powi e" and pos: "0 < \<bar>x\<bar>"
    using assms(1) False by (simp_all add: abs_mult)
  have lo: "2 powi ilog2 \<bar>x\<bar> \<le> \<bar>x\<bar>"
    using ilog2_bounds[OF pos] by simp
  have "\<exists>n::int. x = of_int n * 2 powi u"
  proof (cases "u \<le> e")
    case True
    have "(2::rat) powi e = 2 powi u * 2 powi (e - u)"
      by (simp flip: powi2_add)
    moreover have "(2::rat) powi (e - u) = of_int (2 ^ nat (e - u))"
      using True by (simp add: power_int_def)
    ultimately have "x = of_int (m * 2 ^ nat (e - u)) * 2 powi u"
      using assms(1) by (simp add: mult_ac)
    then show ?thesis by blast
  next
    case False
    have "\<bar>x\<bar> \<le> of_int (2 ^ 53) * 2 powi e"
      unfolding ax using assms(2) by (intro mult_right_mono) (auto simp del: of_int_power)
    also have "of_int (2 ^ 53) * 2 powi e = (2::rat) powi (e + 53)"
      by (simp add: powi2_add)
    finally have le: "\<bar>x\<bar> \<le> 2 powi (e + 53)" .
    with lo have "(2::rat) powi ilog2 \<bar>x\<bar> \<le> 2 powi (e + 53)" by linarith
    then have "u \<le> e + 1" by (simp add: u_def ulp_exp_def)
    with False have ue: "u = e + 1" by simp
    then have "ilog2 \<bar>x\<bar> = e + 53" by (simp add: u_def ulp_exp_def)
    with lo le have "\<bar>x\<bar> = 2 powi (e + 53)" by simp
    then have "\<bar>x\<bar> = of_int (2 ^ 52) * 2 powi u"
      by (simp add: ue powi2_add)
    then have "x = of_int (2 ^ 52) * 2 powi u \<or> x = of_int (- (2 ^ 52)) * 2 powi u"
      by (auto simp: abs_if split: if_splits)
    then show ?thesis by blast
  qed
  then obtain n where n: "x = of_int n * 2 powi u" by blast
  then have "x / 2 powi u = of_int n" by simp
  then have "fl x = of_int n * 2 powi u"
    using pos unfolding fl_def u_def[symmetric] by simp
  with n show ?thesis by simp
qed

lemma fl_of_int [simp]: "\<bar>n\<bar> \<le> 2 ^ 53 \<Longrightarrow> fl (of_int n) = of_int n"
  by (rule fl_exact[of _ n 0]) auto

lemma fl_of_nat [simp]: "n \<le> 2 ^ 53 \<Longrightarrow> fl (of_nat n) = of_nat n"
  using fl_of_int[of "int n"] by (simp add: of_nat_le_iff[of n "2 ^ 53", symmetric] del: of_nat_le_iff)

lemma fl_powi [simp]: "fl (2 powi k) = 2 powi k"
  by (rule fl_exact[of _ 1 k]) auto

text \<open>The rounded value stays within the binade, hence rounding is monotone.\<close>

lemma fl_binade:
  assumes "0 < x"
  shows "2 powi ilog2 x \<le> fl x" and "fl x \<le> 2 powi (ilog2 x + 1)"
proof -
  define u where "u = ilog2 x - 52"
  have fl: "fl x = of_int (round_even (x / 2 powi u)) * 2 powi u"
    using assms by (simp add: fl_def ulp_exp_def u_def)
  note b = ilog2_bounds[OF assms]
  have "(2::rat) powi ilog2 x = 2 powi (52 + u)" "(2::rat) powi (ilog2 x + 1) = 2 powi (53 + u)"
    by (simp_all add: u_def algebra_simps)
  then have e1: "(2::rat) powi ilog2 x = of_int (2 ^ 52) * 2 powi u"
    and e2: "(2::rat) powi (ilog2 x + 1) = of_int (2 ^ 53) * 2 powi u"
    by (simp_all only: powi2_add) simp_all
  have "of_int (2 ^ 52) \<le> x / 2 powi u" "x / 2 powi u \<le> of_int (2 ^ 53)"
    using b unfolding e1 e2 by (simp_all only: pos_le_divide_eq pos_divide_le_eq powi2_pos less_imp_le)
  then have "2 ^ 52 \<le> round_even (x / 2 powi u)" "round_even (x / 2 powi u) \<le> 2 ^ 53"
    using round_even_mono round_even_of_int by metis+
  then have "of_int (2 ^ 52) * (2::rat) powi u \<le> of_int (round_even (x / 2 powi u)) * 2 powi u"
    "of_int (round_even (x / 2 powi u)) * (2::rat) powi u \<le> of_int (2 ^ 53) * 2 powi u"
    by (intro mult_right_mono; simp del: of_int_power)+
  then show "2 powi ilog2 x \<le> fl x" "fl x \<le> 2 powi (ilog2 x + 1)"
    unfolding fl e1 e2 by simp_all
qed

lemma fl_mono_pos:
  assumes "0 < x" "x \<le> y"
  shows "fl x \<le> fl y"
proof (cases "ilog2 x = ilog2 y")
  case True
  then have u: "ulp_exp x = ulp_exp y"
    using assms by (simp add: ulp_exp_def)
  have "x / 2 powi ulp_exp x \<le> y / 2 powi ulp_exp x"
    using assms by (intro divide_right_mono) auto
  then have "of_int (round_even (x / 2 powi ulp_exp x)) * (2::rat) powi ulp_exp x
             \<le> of_int (round_even (y / 2 powi ulp_exp x)) * 2 powi ulp_exp x"
    by (intro mult_right_mono) (auto intro: round_even_mono)
  with assms u show ?thesis by (simp add: fl_def)
next
  case False
  with ilog2_mono[OF assms] have "ilog2 x + 1 \<le> ilog2 y" by simp
  then have "(2::rat) powi (ilog2 x + 1) \<le> 2 powi ilog2 y" by simp
  with fl_binade(2)[OF assms(1)] fl_binade(1)[of y] assms show ?thesis by linarith
qed

lemma fl_mono: "x \<le> y \<Longrightarrow> fl x \<le> fl y"
proof -
  assume le: "x \<le> y"
  consider "0 < x" | "x \<le> 0" "0 \<le> y" | "y < 0" by linarith
  then show ?thesis
  proof cases
    case 1
    then show ?thesis using fl_mono_pos le by blast
  next
    case 2
    then show ?thesis
      using fl_nonneg[of y] fl_nonneg[of "- x"] by (simp add: fl_minus)
  next
    case 3
    then have "fl (- y) \<le> fl (- x)"
      using le by (intro fl_mono_pos) auto
    then show ?thesis by (simp add: fl_minus)
  qed
qed

lemma is_float_fl [simp]: "is_float (fl x)"
proof (cases "x = 0")
  case True
  then show ?thesis by (simp add: is_float_def)
next
  case False
  then have p: "0 < \<bar>x\<bar>" by simp
  define u where "u = ulp_exp x"
  define n where "n = round_even (x / 2 powi u)"
  have f: "fl x = of_int n * 2 powi u"
    using False by (simp add: fl_def u_def n_def)
  have "fl \<bar>x\<bar> \<le> 2 powi (u + 53)"
    using fl_binade(2)[OF p] by (simp add: u_def ulp_exp_def add.commute)
  moreover have "fl \<bar>x\<bar> = \<bar>fl x\<bar>"
    using fl_nonneg[of x] fl_nonneg[of "- x"] by (auto simp: abs_if fl_minus)
  ultimately have "of_int \<bar>n\<bar> * 2 powi u \<le> (2::rat) powi 53 * 2 powi u"
    using f by (simp add: abs_mult powi2_add)
  then have "of_int \<bar>n\<bar> \<le> (of_int (2 ^ 53) :: rat)" by simp
  then have "\<bar>n\<bar> \<le> 2 ^ 53" by (simp only: of_int_le_iff)
  then have "fl (fl x) = fl x" using f by (rule fl_exact[rotated])
  then show ?thesis by (simp add: is_float_def)
qed

lemma fl_fl [simp]: "fl (fl x) = fl x"
  using is_float_fl by (simp add: is_float_def)

lemma is_float_of_int: "\<bar>n\<bar> \<le> 2 ^ 53 \<Longrightarrow> is_float (of_int n)"
  by (simp add: is_float_def)

lemma fl_le_float: "is_float y \<Longrightarrow> x \<le> y \<Longrightarrow> fl x \<le> y"
  using fl_mono[of x y] by (simp add: is_float_def)

lemma fl_ge_float: "is_float y \<Longrightarrow> y \<le> x \<Longrightarrow> y \<le> fl x"
  using fl_mono[of y x] by (simp add: is_float_def)

lemma fl_floor:
  assumes "0 \<le> x" "x \<le> 2 ^ 53"
  shows "\<lfloor>x\<rfloor> \<le> \<lfloor>fl x\<rfloor>"
proof -
  have "\<bar>\<lfloor>x\<rfloor>\<bar> \<le> 2 ^ 53"
    using assms floor_mono[of x "of_int (2 ^ 53)"] by simp
  then have "of_int \<lfloor>x\<rfloor> \<le> fl x"
    by (intro fl_ge_float is_float_of_int) auto
  then show ?thesis by (simp add: le_floor_iff)
qed

subsection \<open>Operations\<close>

definition fl_add :: "rat \<Rightarrow> rat \<Rightarrow> rat" where "fl_add x y = fl (x + y)"
definition fl_sub :: "rat \<Rightarrow> rat \<Rightarrow> rat" where "fl_sub x y = fl (x - y)"
definition fl_mul :: "rat \<Rightarrow> rat \<Rightarrow> rat" where "fl_mul x y = fl (x * y)"
definition fl_div :: "rat \<Rightarrow> rat \<Rightarrow> rat" where "fl_div x y = fl (x / y)"

text \<open>
  \<open>fl_mod x y\<close> is Python's \<^verbatim>\<open>x % y\<close> for a positive divisor: the remainder of \<^verbatim>\<open>fmod\<close> is a
  float already, so the rounding only matters for a negative dividend. \<open>fl_floordiv\<close> follows
  CPython's \<^verbatim>\<open>float_floor_div\<close>. \<open>py_trunc\<close> is \<^verbatim>\<open>int(x)\<close>.
\<close>

definition rat_mod :: "rat \<Rightarrow> rat \<Rightarrow> rat" where
  "rat_mod x y = x - of_int \<lfloor>x / y\<rfloor> * y"

definition fl_mod :: "rat \<Rightarrow> rat \<Rightarrow> rat" where
  "fl_mod x y = fl (rat_mod x y)"

definition fl_floordiv :: "rat \<Rightarrow> rat \<Rightarrow> rat" where
  "fl_floordiv x y =
     (let q = fl_div (fl_sub x (fl_mod x y)) y; f = of_int \<lfloor>q\<rfloor>
      in if 1 / 2 < q - f then fl_add f 1 else f)"

definition py_trunc :: "rat \<Rightarrow> int" where
  "py_trunc x = (if 0 \<le> x then \<lfloor>x\<rfloor> else - \<lfloor>- x\<rfloor>)"

lemma rat_mod_bounds: "0 < y \<Longrightarrow> 0 \<le> rat_mod x y \<and> rat_mod x y < y"
proof -
  assume "0 < y"
  moreover have "of_int \<lfloor>x / y\<rfloor> \<le> x / y" "x / y < of_int \<lfloor>x / y\<rfloor> + 1" by linarith+
  ultimately have "of_int \<lfloor>x / y\<rfloor> * y \<le> x" "x < (of_int \<lfloor>x / y\<rfloor> + 1) * y"
    by (simp_all only: pos_le_divide_eq pos_divide_less_eq)
  then show ?thesis by (simp add: rat_mod_def distrib_right)
qed

lemma py_trunc_of_int [simp]: "py_trunc (of_int n) = n"
  by (simp add: py_trunc_def flip: of_int_minus)

lemma py_trunc_le: "0 \<le> x \<Longrightarrow> of_int (py_trunc x) \<le> x"
  by (simp add: py_trunc_def)

text \<open>
  Remainders by an integer of moderate size are exact, and so is the step to the next multiple.
\<close>

lemma rat_mod_grid:
  assumes "is_float x" "0 < y" "of_int y \<le> x" "x \<le> 2 ^ 52"
  shows "fl_mod x (of_int y) = rat_mod x (of_int y)"
    and "fl_sub (of_int y) (rat_mod x (of_int y)) = of_int y - rat_mod x (of_int y)"
    and "fl_add x (of_int y - rat_mod x (of_int y)) = of_int ((\<lfloor>x / of_int y\<rfloor> + 1) * y)"
proof -
  define u where "u = ulp_exp x"
  have "(0::rat) < of_int y" using assms(2) by simp
  with assms(3) have x: "0 < x" by linarith
  define n where "n = round_even (x / 2 powi u)"
  have xn: "x = of_int n * 2 powi u"
    using assms(1) x by (simp add: is_float_def fl_def u_def n_def)
  have n0: "0 < n"
    using x xn by (metis mult_nonpos_nonneg not_le of_int_le_0_iff powi2_pos less_imp_le)
  have "(2::rat) powi (ilog2 x + 1) = 2 powi (53 + u)"
    using x by (simp add: u_def ulp_exp_def algebra_simps)
  then have "(2::rat) powi (ilog2 x + 1) = of_int (2 ^ 53) * 2 powi u"
    by (simp only: powi2_add) simp
  then have "x \<le> of_int (2 ^ 53) * 2 powi u"
    using ilog2_bounds[OF x] by linarith
  then have "of_int n * (2::rat) powi u \<le> of_int (2 ^ 53) * 2 powi u" using xn by argo
  then have n53: "n \<le> 2 ^ 53"
    using powi2_pos[of u] by (simp only: mult_le_cancel_right_pos of_int_le_iff)
  have u0: "u \<le> 0"
  proof -
    have "(2::rat) powi ilog2 x \<le> 2 powi 52"
      using ilog2_bounds[OF x] assms(4) by simp
    then have "ilog2 x \<le> 52" by (simp only: powi2_le_iff)
    then show ?thesis using x by (simp add: u_def ulp_exp_def)
  qed
  define g where "g = (2::int) ^ nat (- u)"
  have g: "of_int g * (2::rat) powi u = 1"
    using u0 by (simp add: g_def power_int_def flip: power_mult_distrib)
  define q where "q = \<lfloor>x / of_int y\<rfloor>"
  define r where "r = rat_mod x (of_int y)"
  have r: "0 \<le> r" "r < of_int y"
    using rat_mod_bounds[of "of_int y" x] assms(2) by (simp_all add: r_def)
  have grid: "of_int k = of_int (k * g) * (2::rat) powi u" for k
    using g by (simp add: mult.assoc)
  have rn: "r = of_int (n - q * y * g) * 2 powi u"
  proof -
    have "r = x - of_int (q * y)" by (simp add: r_def rat_mod_def q_def)
    also have "\<dots> = of_int n * 2 powi u - of_int (q * y * g) * 2 powi u"
      by (simp only: grid[of "q * y", symmetric] xn[symmetric])
    also have "\<dots> = of_int (n - q * y * g) * 2 powi u"
      by (simp only: of_int_diff left_diff_distrib)
    finally show ?thesis .
  qed
  have yg: "y * g \<le> n"
  proof -
    have "of_int (y * g) * (2::rat) powi u \<le> of_int n * 2 powi u"
      using assms(3) by (simp only: grid[of y, symmetric] xn[symmetric])
    then show ?thesis
      using powi2_pos[of u] by (simp only: mult_le_cancel_right_pos of_int_le_iff)
  qed
  have rb: "0 \<le> n - q * y * g" "n - q * y * g < y * g"
  proof -
    have "0 \<le> of_int (n - q * y * g) * (2::rat) powi u" using r(1) by (simp only: rn)
    then show "0 \<le> n - q * y * g"
      using powi2_pos[of u] by (metis mult_neg_pos not_le of_int_0_le_iff)
    have "of_int (n - q * y * g) * (2::rat) powi u < of_int (y * g) * 2 powi u"
      using r(2) by (simp only: rn grid[of y, symmetric])
    then show "n - q * y * g < y * g"
      using powi2_pos[of u] by (simp only: mult_less_cancel_right_pos of_int_less_iff)
  qed
  show 1: "fl_mod x (of_int y) = rat_mod x (of_int y)"
    unfolding fl_mod_def r_def[symmetric] using rb n53 yg
    by (intro fl_exact[OF rn]) auto
  have s: "of_int y - r = of_int (y * g - (n - q * y * g)) * 2 powi u"
    by (simp only: rn of_int_diff left_diff_distrib grid[of y, symmetric])
  show "fl_sub (of_int y) (rat_mod x (of_int y)) = of_int y - rat_mod x (of_int y)"
    unfolding fl_sub_def r_def[symmetric] using rb n53 yg
    by (intro fl_exact[OF s]) auto
  have "x + (of_int y - r) = of_int ((q + 1) * y)"
    by (simp add: r_def rat_mod_def q_def distrib_right)
  moreover have "\<bar>(q + 1) * y\<bar> \<le> 2 ^ 53"
  proof -
    have q0: "0 \<le> q" using x assms(2) by (simp add: q_def)
    have "of_int ((q + 1) * y) \<le> x + of_int y"
      using r by (simp add: r_def rat_mod_def q_def distrib_right)
    also have "\<dots> \<le> of_int (2 ^ 53)" using assms(3,4) by simp
    finally have "(q + 1) * y \<le> 2 ^ 53" by (simp only: of_int_le_iff)
    with q0 assms(2) show ?thesis by simp
  qed
  ultimately show "fl_add x (of_int y - rat_mod x (of_int y)) = of_int ((\<lfloor>x / of_int y\<rfloor> + 1) * y)"
    unfolding fl_add_def r_def[symmetric] q_def[symmetric] by (metis fl_of_int)
qed

lemma fl_floordiv_int:
  assumes "is_float x" "0 \<le> x" "x \<le> 2 ^ 52" "0 < y"
  shows "fl_floordiv x (of_int y) = of_int \<lfloor>x / of_int y\<rfloor>"
proof -
  define k where "k = \<lfloor>x / of_int y\<rfloor>"
  have y: "(0::rat) < of_int y" using assms(4) by simp
  have k0: "0 \<le> k" using assms(2) y by (simp add: k_def)
  have m: "fl_mod x (of_int y) = x - of_int (k * y)"
  proof (cases "of_int y \<le> x")
    case True
    from rat_mod_grid(1)[OF assms(1,4) True assms(3)] show ?thesis by (simp add: rat_mod_def k_def)
  next
    case False
    then have "k = 0" using assms(2) y by (simp add: k_def floor_eq_iff)
    with assms(1) show ?thesis by (simp add: fl_mod_def rat_mod_def is_float_def flip: k_def)
  qed
  have "of_int (k * y) \<le> x" using rat_mod_bounds[OF y, of x] by (simp add: rat_mod_def k_def)
  also have "x \<le> of_int (2 ^ 52)" using assms(3) by simp
  finally have ky: "k * y \<le> 2 ^ 52" by (simp only: of_int_le_iff)
  have "0 \<le> k * y" using k0 assms(4) by simp
  with ky have "fl (of_int (k * y)) = (of_int (k * y) :: rat)" by (intro fl_of_int) simp
  then have s: "fl_sub x (fl_mod x (of_int y)) = of_int (k * y)" by (simp add: fl_sub_def m)
  have "k * 1 \<le> k * y" using k0 assms(4) by (intro mult_left_mono) simp_all
  with ky k0 have "fl (of_int k) = (of_int k :: rat)" by (intro fl_of_int) simp
  then have "fl_div (of_int (k * y)) (of_int y) = of_int k" using y by (simp add: fl_div_def)
  then show ?thesis by (simp add: fl_floordiv_def Let_def s flip: k_def)
qed

end
