(* ===== verification/Py_Val.thy ===== *)
theory Py_Val
  imports Py_Str Py_Float
begin

section \<open>Dynamically typed values\<close>

text \<open>
  A parameter of a test comes from a YAML file, so its type is only known when it is used: a
  quantity may be \<^verbatim>\<open>2\<close>, \<^verbatim>\<open>0.60\<close>, an empty string or absent. \<open>pyval\<close> is the part of
  Python's values that occurs there, with the operations the scripts apply: arithmetic (an
  \<^verbatim>\<open>int\<close> operand is converted when the other is a \<^verbatim>\<open>float\<close>), comparison with an integer,
  \<^verbatim>\<open>str\<close>, \<^verbatim>\<open>int\<close>, \<^verbatim>\<open>float\<close>, and the \<^verbatim>\<open>%s\<close> and \<^verbatim>\<open>%d\<close> conversions. A misuse raises
  \<^verbatim>\<open>TypeError\<close> or \<^verbatim>\<open>ValueError\<close>, as in Python.
\<close>

datatype pyval = VNone | VBool bool | VInt int | VFloat rat | VStr string

datatype num = NInt int | NFloat rat

fun num_of :: "pyval \<Rightarrow> num option" where
  "num_of (VBool b) = Some (NInt (if b then 1 else 0))"
| "num_of (VInt n) = Some (NInt n)"
| "num_of (VFloat x) = Some (NFloat x)"
| "num_of _ = None"

fun to_float :: "num \<Rightarrow> rat" where
  "to_float (NInt n) = fl (of_int n)"
| "to_float (NFloat x) = x"

fun exact :: "num \<Rightarrow> rat" where
  "exact (NInt n) = of_int n"
| "exact (NFloat x) = x"

subsection \<open>Arithmetic and comparison\<close>

definition narith :: "(int \<Rightarrow> int \<Rightarrow> int) \<Rightarrow> (rat \<Rightarrow> rat \<Rightarrow> rat) \<Rightarrow> num \<Rightarrow> num \<Rightarrow> num" where
  "narith fi ff x y =
     (case (x, y) of
        (NInt m, NInt n) \<Rightarrow> NInt (fi m n)
      | _ \<Rightarrow> NFloat (ff (to_float x) (to_float y)))"

definition nadd :: "num \<Rightarrow> num \<Rightarrow> num" where "nadd = narith (+) fl_add"
definition nsub :: "num \<Rightarrow> num \<Rightarrow> num" where "nsub = narith (-) fl_sub"
definition nmul :: "num \<Rightarrow> num \<Rightarrow> num" where "nmul = narith (\<lambda>a b. a * b) fl_mul"

text \<open>\<^verbatim>\<open>min(x, y)\<close> keeps the first argument when they are equal.\<close>

definition nmin :: "num \<Rightarrow> num \<Rightarrow> num" where
  "nmin x y = (if exact y < exact x then y else x)"

fun val_of :: "num \<Rightarrow> pyval" where
  "val_of (NInt n) = VInt n"
| "val_of (NFloat x) = VFloat x"

definition varith :: "(num \<Rightarrow> num \<Rightarrow> num) \<Rightarrow> pyval \<Rightarrow> pyval \<Rightarrow> pyval result" where
  "varith f a b =
     (case (num_of a, num_of b) of
        (Some x, Some y) \<Rightarrow> Inr (val_of (f x y))
      | _ \<Rightarrow> Inl TypeError)"

definition vadd :: "pyval \<Rightarrow> pyval \<Rightarrow> pyval result" where
  "vadd a b = (case (a, b) of (VStr s, VStr t) \<Rightarrow> Inr (VStr (s @ t)) | _ \<Rightarrow> varith nadd a b)"

definition vsub :: "pyval \<Rightarrow> pyval \<Rightarrow> pyval result" where
  "vsub = varith nsub"

definition vmul :: "pyval \<Rightarrow> pyval \<Rightarrow> pyval result" where
  "vmul = varith nmul"

text \<open>Equality is numeric between numbers of either type and never raises.\<close>

definition veq :: "pyval \<Rightarrow> pyval \<Rightarrow> bool" where
  "veq a b = (case (num_of a, num_of b) of
     (Some x, Some y) \<Rightarrow> exact x = exact y | _ \<Rightarrow> a = b)"

text \<open>\<^verbatim>\<open>v <= n\<close> for an integer \<open>n\<close>.\<close>

definition vle_int :: "pyval \<Rightarrow> int \<Rightarrow> bool result" where
  "vle_int v n = (case num_of v of None \<Rightarrow> Inl TypeError | Some x \<Rightarrow> Inr (exact x \<le> of_int n))"

fun truthy :: "pyval \<Rightarrow> bool" where
  "truthy VNone = False"
| "truthy (VBool b) = b"
| "truthy (VInt n) = (n \<noteq> 0)"
| "truthy (VFloat x) = (x \<noteq> 0)"
| "truthy (VStr s) = (s \<noteq> [])"

subsection \<open>Floats as text\<close>

text \<open>
  \<^verbatim>\<open>repr\<close> of a float is the shortest decimal that reads back as the same float: the number
  of significant digits \<open>k\<close> grows until the decimal nearest to the value with \<open>k\<close> digits rounds
  to it. Every float is a finite decimal, so the search succeeds; 1100 digits bound it.
\<close>

fun dec_exp_small :: "nat \<Rightarrow> rat \<Rightarrow> int" where
  "dec_exp_small 0 x = 0"
| "dec_exp_small (Suc f) x = (if 1 \<le> x then 0 else dec_exp_small f (x * 10) - 1)"

definition dec_exp :: "rat \<Rightarrow> int" where
  "dec_exp x = (if 1 \<le> x then int (length (str_digits \<lfloor>x\<rfloor>)) - 1 else dec_exp_small 400 x)"

definition dec_round :: "int \<Rightarrow> nat \<Rightarrow> rat \<Rightarrow> int" where
  "dec_round e k x = round_even (x / 10 powi (e - int k + 1))"

fun shortest :: "nat \<Rightarrow> nat \<Rightarrow> int \<Rightarrow> rat \<Rightarrow> nat" where
  "shortest 0 k e x = k"
| "shortest (Suc f) k e x =
     (if fl (of_int (dec_round e k x) * 10 powi (e - int k + 1)) = x then k
      else shortest f (Suc k) e x)"

definition pad_left :: "nat \<Rightarrow> string \<Rightarrow> string" where
  "pad_left n s = replicate (n - length s) (CHR ''0'') @ s"

definition repr_pos :: "rat \<Rightarrow> string" where
  "repr_pos x =
     (let e = dec_exp x; k = shortest 1100 1 e x; m = dec_round e k x; p = e - int k + 1
      in if - 4 \<le> e \<and> e < 16 then
           (if 0 \<le> p then str_digits (m * 10 ^ nat p) @ ''.0''
            else str_digits (m div 10 ^ nat (- p)) @ ''.'' @
                 pad_left (nat (- p)) (str_digits (m mod 10 ^ nat (- p))))
         else
           (let ds = str_digits m; ex = str_digits \<bar>e\<bar>
            in hd ds # (if tl ds = [] then [] else CHR ''.'' # tl ds) @
               (if e < 0 then ''e-'' else ''e+'') @ pad_left 2 ex))"

definition str_float :: "rat \<Rightarrow> string" where
  "str_float x = (if x = 0 then ''0.0'' else if x < 0 then CHR ''-'' # repr_pos (- x) else repr_pos x)"

text \<open>
  \<^verbatim>\<open>float(s)\<close>: an optional sign, digits with an optional fraction and exponent. The literals
  for infinity and NaN have no value in the model and are reported as \<open>LibError\<close>.
\<close>

definition digits_opt :: "string \<Rightarrow> int option" where
  "digits_opt s = (if s = [] then Some 0 else parse_digits False 0 s)"

definition py_float_body :: "string \<Rightarrow> rat result" where
  "py_float_body t =
     (let (mant, ex) = (case split_on (CHR ''e'') (map (\<lambda>c. if c = CHR ''E'' then CHR ''e'' else c) t) of
                          [m] \<Rightarrow> (m, Inr 0)
                        | [m, x] \<Rightarrow> (m, if x = strip x then py_int x else Inl ValueError)
                        | _ \<Rightarrow> ([], Inl ValueError));
          (ip, fp) = (case split_on (CHR ''.'') mant of [i] \<Rightarrow> (i, []) | [i, f] \<Rightarrow> (i, f) | _ \<Rightarrow> ([], []))
      in if length (split_on (CHR ''.'') mant) > 2 \<or> (ip = [] \<and> fp = []) then Inl ValueError
         else rbind ex (\<lambda>e. case (digits_opt ip, digits_opt fp) of
                (Some i, Some f) \<Rightarrow>
                  (let n = length (filter (\<lambda>c. c \<noteq> CHR ''_'') fp)
                   in Inr (fl (of_int (i * 10 ^ n + f) * 10 powi (e - int n))))
              | _ \<Rightarrow> Inl ValueError))"

definition py_float :: "string \<Rightarrow> rat result" where
  "py_float s =
     (let t = strip s;
          neg = (t \<noteq> [] \<and> hd t = CHR ''-'');
          body = (if t \<noteq> [] \<and> (hd t = CHR ''-'' \<or> hd t = CHR ''+'') then tl t else t)
      in if body \<in> {''inf'', ''nan'', ''infinity''} then Inl (LibError ''inf or nan'')
         else rbind (py_float_body body) (\<lambda>x. Inr (if neg then - x else x)))"

subsection \<open>Conversions\<close>

fun vstr :: "pyval \<Rightarrow> string" where
  "vstr VNone = ''None''"
| "vstr (VBool b) = (if b then ''True'' else ''False'')"
| "vstr (VInt n) = str_int n"
| "vstr (VFloat x) = str_float x"
| "vstr (VStr s) = s"

text \<open>\<^verbatim>\<open>'%d' % v\<close>, \<^verbatim>\<open>int(v)\<close>, and \<^verbatim>\<open>s + v\<close> for a string \<open>s\<close>.\<close>

fun fmt_d :: "pyval \<Rightarrow> string result" where
  "fmt_d (VBool b) = Inr (str_int (if b then 1 else 0))"
| "fmt_d (VInt n) = Inr (str_int n)"
| "fmt_d (VFloat x) = Inr (str_int (py_trunc x))"
| "fmt_d _ = Inl TypeError"

fun vint :: "pyval \<Rightarrow> int result" where
  "vint VNone = Inl TypeError"
| "vint (VBool b) = Inr (if b then 1 else 0)"
| "vint (VInt n) = Inr n"
| "vint (VFloat x) = Inr (py_trunc x)"
| "vint (VStr s) = py_int s"

text \<open>\<^verbatim>\<open>float(v)\<close>.\<close>

definition vfloat :: "pyval \<Rightarrow> rat result" where
  "vfloat v = (case v of
     VStr s \<Rightarrow> py_float s
   | _ \<Rightarrow> (case num_of v of None \<Rightarrow> Inl TypeError | Some n \<Rightarrow> Inr (to_float n)))"

text \<open>\<^verbatim>\<open>'%.nf' % x\<close>: rounded half to even from the exact value.\<close>

definition fixed :: "nat \<Rightarrow> rat \<Rightarrow> string" where
  "fixed n x =
     (let m = round_even (\<bar>x\<bar> * 10 ^ n)
      in (if x < 0 then ''-'' else []) @ str_digits (m div 10 ^ n) @ ''.'' @ pad_left n (str_digits (m mod 10 ^ n)))"

fun as_str :: "pyval \<Rightarrow> string result" where
  "as_str (VStr s) = Inr s"
| "as_str _ = Inl TypeError"

text \<open>\<^verbatim>\<open>a + b + c + \<dots>\<close> where the source concatenates strings with \<^verbatim>\<open>+\<close>.\<close>

fun vcat :: "pyval list \<Rightarrow> string result" where
  "vcat [] = Inr []"
| "vcat (v # vs) = rbind (as_str v) (\<lambda>s. rbind (vcat vs) (\<lambda>t. Inr (s @ t)))"

text \<open>\<^verbatim>\<open>str(xs)\<close> of a list of numbers.\<close>

definition str_vlist :: "pyval list \<Rightarrow> string" where
  "str_vlist xs = ''['' @ join '', '' (map vstr xs) @ '']''"

subsection \<open>repr of strings and lists\<close>

text \<open>
  \<^verbatim>\<open>repr\<close> of a string: single quotes, unless it holds a single and no double quote; the quote,
  backslashes and control characters are escaped.
\<close>

definition hex2 :: "int \<Rightarrow> string" where
  "hex2 n = (let h = (\<lambda>d. if d < 10 then digit_char d else char_of (87 + d)) in [h (n div 16), h (n mod 16)])"

definition repr_char :: "char \<Rightarrow> char \<Rightarrow> string" where
  "repr_char q c =
     (if c = q \<or> c = CHR 0x5C then [CHR 0x5C, c]
      else if c = CHR 0x0A then [CHR 0x5C, CHR ''n'']
      else if c = CHR 0x0D then [CHR 0x5C, CHR ''r'']
      else if c = CHR 0x09 then [CHR 0x5C, CHR ''t'']
      else if (of_char c :: int) < 32 \<or> (of_char c :: int) = 127 then [CHR 0x5C, CHR ''x''] @ hex2 (of_char c)
      else [c])"

definition repr_str :: "string \<Rightarrow> string" where
  "repr_str s =
     (let q = (if CHR 0x27 \<in> set s \<and> CHR 0x22 \<notin> set s then CHR 0x22 else CHR 0x27)
      in [q] @ concat (map (repr_char q) s) @ [q])"

definition brackets :: "string list \<Rightarrow> string" where
  "brackets xs = ''['' @ join '', '' xs @ '']''"

text \<open>
  \<^verbatim>\<open>str\<close> of bytes is the literal that denotes them, with the prefix \<^verbatim>\<open>b\<close>, quotes and escapes.
\<close>

definition repr_byte :: "char \<Rightarrow> char \<Rightarrow> string" where
  "repr_byte q c =
     (if (of_char c :: int) < 128 then repr_char q c else [CHR 0x5C, CHR ''x''] @ hex2 (of_char c))"

definition repr_bytes :: "string \<Rightarrow> string" where
  "repr_bytes s =
     (let q = (if CHR 0x27 \<in> set s \<and> CHR 0x22 \<notin> set s then CHR 0x22 else CHR 0x27)
      in CHR ''b'' # [q] @ concat (map (repr_byte q) s) @ [q])"

subsection \<open>Lemmas\<close>

lemmas narith_defs = nadd_def nsub_def nmul_def narith_def

lemma narith_int [simp]:
  "nadd (NInt m) (NInt n) = NInt (m + n)" "nsub (NInt m) (NInt n) = NInt (m - n)"
  "nmul (NInt m) (NInt n) = NInt (m * n)"
  by (simp_all add: narith_defs)

lemma num_of_val_of [simp]: "num_of (val_of x) = Some x"
  by (cases x) simp_all

lemma vadd_int [simp]: "vadd (VInt m) (VInt n) = Inr (VInt (m + n))"
  by (simp add: vadd_def varith_def)

lemma vsub_int [simp]: "vsub (VInt m) (VInt n) = Inr (VInt (m - n))"
  by (simp add: vsub_def varith_def)

lemma vmul_int [simp]: "vmul (VInt m) (VInt n) = Inr (VInt (m * n))"
  by (simp add: vmul_def varith_def)

lemma vadd_float [simp]: "vadd (VFloat x) (VFloat y) = Inr (VFloat (fl_add x y))"
  by (simp add: vadd_def varith_def narith_defs)

lemma vsub_float [simp]: "vsub (VFloat x) (VFloat y) = Inr (VFloat (fl_sub x y))"
  by (simp add: vsub_def varith_def narith_defs)

text \<open>
  Numbers that denote an integer a float can hold exactly: on them the arithmetic is that of the
  integers, whichever of the two types they have.
\<close>

definition intlike :: "num \<Rightarrow> int \<Rightarrow> bool" where
  "intlike x n \<longleftrightarrow> \<bar>n\<bar> \<le> 2 ^ 53 \<and> (x = NInt n \<or> x = NFloat (of_int n))"

lemma intlikeI [intro]: "\<bar>n\<bar> \<le> 2 ^ 53 \<Longrightarrow> intlike (NInt n) n" "\<bar>n\<bar> \<le> 2 ^ 53 \<Longrightarrow> intlike (NFloat (of_int n)) n"
  by (simp_all add: intlike_def)

lemma intlike_exact: "intlike x n \<Longrightarrow> exact x = of_int n"
  by (auto simp: intlike_def)

lemma intlike_to_float: "intlike x n \<Longrightarrow> to_float x = of_int n"
  by (auto simp: intlike_def)

lemma intlike_arith:
  assumes "intlike x m" "intlike y n"
  shows "\<bar>m + n\<bar> \<le> 2 ^ 53 \<Longrightarrow> intlike (nadd x y) (m + n)"
    and "\<bar>m - n\<bar> \<le> 2 ^ 53 \<Longrightarrow> intlike (nsub x y) (m - n)"
    and "\<bar>m * n\<bar> \<le> 2 ^ 53 \<Longrightarrow> intlike (nmul x y) (m * n)"
proof -
  note tf = intlike_to_float[OF assms(1)] intlike_to_float[OF assms(2)]
  have gen: "intlike (narith fi ff x y) (fi m n)"
    if "\<bar>fi m n\<bar> \<le> 2 ^ 53" "ff (of_int m) (of_int n) = fl (of_int (fi m n))" for fi ff
  proof (cases "\<exists>a b. x = NInt a \<and> y = NInt b")
    case True
    with assms that show ?thesis by (auto simp: intlike_def narith_def)
  next
    case False
    then have "narith fi ff x y = NFloat (ff (to_float x) (to_float y))"
      by (cases x; cases y) (auto simp: narith_def)
    with that tf show ?thesis by (simp add: intlike_def)
  qed
  show "\<bar>m + n\<bar> \<le> 2 ^ 53 \<Longrightarrow> intlike (nadd x y) (m + n)"
    unfolding nadd_def by (rule gen) (simp_all add: fl_add_def)
  show "\<bar>m - n\<bar> \<le> 2 ^ 53 \<Longrightarrow> intlike (nsub x y) (m - n)"
    unfolding nsub_def by (rule gen) (simp_all add: fl_sub_def)
  show "\<bar>m * n\<bar> \<le> 2 ^ 53 \<Longrightarrow> intlike (nmul x y) (m * n)"
    unfolding nmul_def by (rule gen) (simp_all add: fl_mul_def)
qed

lemma intlike_min: "intlike x m \<Longrightarrow> intlike y n \<Longrightarrow> intlike (nmin x y) (min m n)"
  by (auto simp: nmin_def intlike_exact min_def)

lemma veq_int [simp]: "veq (VInt m) (VInt n) \<longleftrightarrow> m = n"
  by (simp add: veq_def)

lemma veq_refl [simp]: "veq v v"
  by (cases v) (simp_all add: veq_def)

lemma vle_int_int [simp]: "vle_int (VInt m) n = Inr (m \<le> n)"
  by (simp add: vle_int_def)

lemma vcat_strs [simp]: "vcat (map VStr ss) = Inr (concat ss)"
  by (induction ss) auto

lemma vcat_error: "v \<in> set vs \<Longrightarrow> (\<And>s. v \<noteq> VStr s) \<Longrightarrow> vcat vs = Inl TypeError"
proof (induction vs)
  case Nil
  then show ?case by simp
next
  case (Cons w vs)
  show ?case
  proof (cases w)
    case (VStr s)
    with Cons show ?thesis by auto
  qed simp_all
qed

end
