(* ===== verification/Avocado.thy ===== *)
theory Avocado
  imports Py_Val
begin

section \<open>The Avocado interface\<close>

text \<open>
  Every script talks to the world through the Avocado library: it runs commands, calls utility
  functions, logs, and ends by \<^verbatim>\<open>self.fail\<close> or \<^verbatim>\<open>self.cancel\<close>. That library and the system
  behind it are not part of the repository. The model keeps them abstract: the system is a value
  of an arbitrary type \<open>'w\<close>, and an external call is an arbitrary function of type
  \<open>('w, 'a) ext\<close>, which may raise and may change the system. The state of a test is a record
  with the system and the trace of what the test did, in order; a component that keeps attributes
  on \<^verbatim>\<open>self\<close> extends the record.
\<close>

datatype level = Debug | Info | Warning | Error

datatype event =
    Log level string
  | Call string "string list"
  | Sleep pyval

record 'w st =
  world :: 'w
  trace :: "event list"

type_synonym ('w, 'a) ext = "'w \<Rightarrow> 'a result \<times> 'w"

text \<open>What \<^verbatim>\<open>process.run\<close> and \<^verbatim>\<open>Session.cmd\<close> return.\<close>

record cmd_result =
  exit_status :: int
  stdout_text :: string
  stderr_text :: string

definition emit :: "event \<Rightarrow> (('w, 'm) st_scheme, unit) py" where
  "emit e = modify (\<lambda>s. s\<lparr>trace := trace s @ [e]\<rparr>)"

definition log :: "level \<Rightarrow> string \<Rightarrow> (('w, 'm) st_scheme, unit) py" where
  "log l m = emit (Log l m)"

text \<open>An external call: it is recorded, then the system answers.\<close>

definition call :: "string \<Rightarrow> string list \<Rightarrow> ('w, 'a) ext \<Rightarrow> (('w, 'm) st_scheme, 'a) py" where
  "call f args x = (\<lambda>s. case x (world s) of
     (r, w) \<Rightarrow> (r, s\<lparr>world := w, trace := trace s @ [Call f args]\<rparr>))"

definition fail :: "string \<Rightarrow> ('s, 'a) py" where
  "fail m = raise (TestFail m)"

definition cancel :: "string \<Rightarrow> ('s, 'a) py" where
  "cancel m = raise (TestCancel m)"

text \<open>
  \<^verbatim>\<open>time.sleep\<close>: a value that is not a number raises \<^verbatim>\<open>TypeError\<close>, a negative one
  \<^verbatim>\<open>ValueError\<close>.
\<close>

definition sleep :: "pyval \<Rightarrow> (('w, 'm) st_scheme, unit) py" where
  "sleep v = (case num_of v of
     None \<Rightarrow> raise TypeError
   | Some x \<Rightarrow> if exact x < 0 then raise ValueError else emit (Sleep v))"

text \<open>
  \<^verbatim>\<open>wait.wait_for(f, timeout)\<close> calls \<open>f\<close> until it returns a true value or the time is over.
  How many calls fit in the time is not under the control of the script: it is the parameter \<open>n\<close>.
  The result says whether a call returned a true value.
\<close>

fun wait_for :: "nat \<Rightarrow> ('s, bool) py \<Rightarrow> ('s, bool) py" where
  "wait_for 0 f = ret False"
| "wait_for (Suc n) f = bnd f (\<lambda>b. if b then ret True else wait_for n f)"

text \<open>The same for a callback that returns a string, of which an empty one is false.\<close>

fun wait_str :: "nat \<Rightarrow> ('s, string) py \<Rightarrow> ('s, string option) py" where
  "wait_str 0 f = ret None"
| "wait_str (Suc n) f = bnd f (\<lambda>v. if v \<noteq> [] then ret (Some v) else wait_str n f)"

text \<open>An attribute of \<^verbatim>\<open>self\<close> that no assignment has set yet.\<close>

definition attr :: "'a option \<Rightarrow> 'a result" where
  "attr x = (case x of None \<Rightarrow> Inl AttributeError | Some v \<Rightarrow> Inr v)"

lemma attr_simps [simp]: "attr None = Inl AttributeError" "attr (Some v) = Inr v"
  by (simp_all add: attr_def)

subsection \<open>Weakest preconditions of the operations\<close>

lemma wp_emit [wp]: "wp (emit e) Q R s = Q () (s\<lparr>trace := trace s @ [e]\<rparr>)"
  by (simp add: emit_def wp)

lemma wp_log [wp]: "wp (log l m) Q R s = Q () (s\<lparr>trace := trace s @ [Log l m]\<rparr>)"
  by (simp add: log_def wp)

lemma wp_call [wp]:
  "wp (call f args x) Q R s =
     (case x (world s) of
        (Inl e, w) \<Rightarrow> R e (s\<lparr>world := w, trace := trace s @ [Call f args]\<rparr>)
      | (Inr a, w) \<Rightarrow> Q a (s\<lparr>world := w, trace := trace s @ [Call f args]\<rparr>))"
  by (simp add: wp_def call_def split: prod.split)

lemma wp_fail [wp]: "wp (fail m) Q R s = R (TestFail m) s"
  by (simp add: fail_def wp)

lemma wp_cancel [wp]: "wp (cancel m) Q R s = R (TestCancel m) s"
  by (simp add: cancel_def wp)

lemma wp_sleep [wp]:
  "wp (sleep v) Q R s =
     (case num_of v of
        None \<Rightarrow> R TypeError s
      | Some x \<Rightarrow> if exact x < 0 then R ValueError s else Q () (s\<lparr>trace := trace s @ [Sleep v]\<rparr>))"
  by (simp add: sleep_def wp split: option.split)

lemma wp_wait_for:
  assumes inv: "\<And>s. I s \<Longrightarrow> wp f (\<lambda>b t. if b then Q True t else I t) R s"
    and timeout: "\<And>s. I s \<Longrightarrow> Q False s"
    and start: "I s"
  shows "wp (wait_for n f) Q R s"
  using start
proof (induction n arbitrary: s)
  case 0
  then show ?case by (simp add: wp timeout)
next
  case (Suc n)
  show ?case
    unfolding wait_for.simps wp
    by (rule wp_conseq [OF inv [OF Suc.prems]]) (auto intro: Suc.IH)
qed

lemma wp_wait_str:
  assumes inv: "\<And>s. I s \<Longrightarrow> wp f (\<lambda>v t. if v \<noteq> [] then Q (Some v) t else I t) R s"
    and timeout: "\<And>s. I s \<Longrightarrow> Q None s"
    and start: "I s"
  shows "wp (wait_str n f) Q R s"
  using start
proof (induction n arbitrary: s)
  case 0
  then show ?case by (simp add: wp timeout)
next
  case (Suc n)
  show ?case
    unfolding wait_str.simps wp
    by (rule wp_conseq [OF inv [OF Suc.prems]]) (auto intro: Suc.IH)
qed

subsection \<open>What a computation may emit\<close>

text \<open>
  \<open>emits P m\<close>: whatever the outcome, \<open>m\<close> only appends to the trace, and every event it appends
  satisfies \<open>P\<close>. The rules in \<open>emits\<close> follow the structure of a body.
\<close>

named_theorems emits \<open>introduction rules for emits\<close>

definition emits :: "(event \<Rightarrow> bool) \<Rightarrow> (('w, 'm) st_scheme, 'a) py \<Rightarrow> bool" where
  "emits P m \<longleftrightarrow>
     (\<forall>s. \<exists>es. trace (snd (m s)) = trace s @ es \<and> (\<forall>e \<in> set es. P e))"

lemma emitsD: "emits P m \<Longrightarrow> m s = (r, t) \<Longrightarrow> \<exists>es. trace t = trace s @ es \<and> (\<forall>e \<in> set es. P e)"
  unfolding emits_def by (metis snd_conv)

lemma emits_mono: "emits P m \<Longrightarrow> (\<And>e. P e \<Longrightarrow> P' e) \<Longrightarrow> emits P' m"
  unfolding emits_def by meson

lemma emits_pure [emits]: "emits P (ret x)" "emits P (raise e)" "emits P (lift r)" "emits P (gets f)"
  "emits P (fail m)" "emits P (cancel m)"
  by (simp_all add: emits_def py_defs fail_def cancel_def)

lemma emits_emit [emits]: "P e \<Longrightarrow> emits P (emit e)"
  by (simp add: emits_def emit_def py_defs)

lemma emits_log [emits]: "P (Log l m) \<Longrightarrow> emits P (log l m)"
  by (simp add: log_def emits_emit)

lemma emits_call [emits]: "P (Call f args) \<Longrightarrow> emits P (call f args x)"
  by (simp add: emits_def call_def split: prod.split)

lemma emits_sleep [emits]: "P (Sleep v) \<Longrightarrow> emits P (sleep v)"
  by (simp add: sleep_def emits_pure emits_emit split: option.split)

lemma emits_bnd [emits]:
  assumes "emits P m" "\<And>x. emits P (f x)"
  shows "emits P (bnd m f)"
  unfolding emits_def
proof
  fix s
  obtain r t where mt: "m s = (r, t)" by (cases "m s")
  from emitsD[OF assms(1) mt] obtain es where es: "trace t = trace s @ es" "\<forall>e \<in> set es. P e"
    by auto
  show "\<exists>es. trace (snd (bnd m f s)) = trace s @ es \<and> (\<forall>e \<in> set es. P e)"
  proof (cases r)
    case (Inl e)
    with mt es show ?thesis by (simp add: bnd_def)
  next
    case (Inr x)
    obtain r' u where u: "f x t = (r', u)" by (cases "f x t")
    from emitsD[OF assms(2) u] obtain es' where
      "trace u = trace t @ es'" "\<forall>e \<in> set es'. P e" by auto
    with mt Inr u es show ?thesis by (intro exI[of _ "es @ es'"]) (auto simp: bnd_def)
  qed
qed

lemma emits_sq [emits]: "emits P m \<Longrightarrow> emits P n \<Longrightarrow> emits P (sq m n)"
  by (simp add: sq_def emits_bnd)

lemma emits_if [emits]: "(b \<Longrightarrow> emits P m) \<Longrightarrow> (\<not> b \<Longrightarrow> emits P n) \<Longrightarrow> emits P (if b then m else n)"
  by simp

lemma emits_whenb [emits]: "(b \<Longrightarrow> emits P m) \<Longrightarrow> emits P (whenb b m)"
  by (simp add: whenb_def emits_pure)

lemma emits_case_option [emits]:
  "(x = None \<Longrightarrow> emits P m) \<Longrightarrow> (\<And>v. x = Some v \<Longrightarrow> emits P (f v)) \<Longrightarrow>
   emits P (case x of None \<Rightarrow> m | Some v \<Rightarrow> f v)"
  by (simp split: option.split)

lemma emits_for_each [emits]: "(\<And>x. x \<in> set xs \<Longrightarrow> emits P (f x)) \<Longrightarrow> emits P (for_each xs f)"
  by (induction xs) (auto intro: emits)

lemma emits_for_acc [emits]:
  "(\<And>x a. x \<in> set xs \<Longrightarrow> emits P (f x a)) \<Longrightarrow> emits P (for_acc xs f a)"
  by (induction xs arbitrary: a) (auto intro: emits)

lemma emits_wait_for [emits]: "emits P f \<Longrightarrow> emits P (wait_for n f)"
  by (induction n) (auto intro!: emits)

lemma emits_modify [emits]: "(\<And>s. trace (g s) = trace s) \<Longrightarrow> emits P (modify g)"
  by (simp add: emits_def py_defs)

lemma emits_try_except [emits]:
  assumes "emits P m" "\<And>e. emits P (h e)"
  shows "emits P (try_except m h)"
  unfolding emits_def
proof
  fix s
  obtain r t where mt: "m s = (r, t)" by (cases "m s")
  from emitsD[OF assms(1) mt] obtain es where es: "trace t = trace s @ es" "\<forall>e \<in> set es. P e" by auto
  show "\<exists>es. trace (snd (try_except m h s)) = trace s @ es \<and> (\<forall>e \<in> set es. P e)"
  proof (cases r)
    case (Inr x)
    with mt es show ?thesis by (simp add: try_except_def)
  next
    case (Inl e)
    obtain r' u where u: "h e t = (r', u)" by (cases "h e t")
    from emitsD[OF assms(2) u] obtain es' where "trace u = trace t @ es'" "\<forall>e \<in> set es'. P e" by auto
    with mt Inl u es show ?thesis by (intro exI[of _ "es @ es'"]) (auto simp: try_except_def)
  qed
qed

lemma emits_try_finally [emits]:
  assumes "emits P m" "emits P f"
  shows "emits P (try_finally m f)"
  unfolding emits_def
proof
  fix s
  obtain r t where mt: "m s = (r, t)" by (cases "m s")
  obtain r' u where u: "f t = (r', u)" by (cases "f t")
  from emitsD[OF assms(1) mt] emitsD[OF assms(2) u] obtain es es' where
    "trace t = trace s @ es" "\<forall>e \<in> set es. P e" "trace u = trace t @ es'" "\<forall>e \<in> set es'. P e" by auto
  with mt u show "\<exists>es. trace (snd (try_finally m f s)) = trace s @ es \<and> (\<forall>e \<in> set es. P e)"
    by (intro exI[of _ "es @ es'"]) (auto simp: try_finally_def split: sum.split)
qed

lemma emits_for_ret [emits]: "(\<And>x. x \<in> set xs \<Longrightarrow> emits P (f x)) \<Longrightarrow> emits P (for_ret xs f)"
  by (induction xs) (auto intro!: emits)

text \<open>What follows a call only runs on an answer the call can give.\<close>

lemma emits_call_bnd:
  fixes g :: "'a \<Rightarrow> (('w, 'm) st_scheme, 'b) py"
  assumes "P (Call f args)" "\<And>w x w'. ext w = (Inr x, w') \<Longrightarrow> emits P (g x)"
  shows "emits P (bnd (call f args ext) g)"
  unfolding emits_def
proof
  fix s :: "('w, 'm) st_scheme"
  obtain r w where r: "ext (world s) = (r, w)" by (cases "ext (world s)")
  let ?t = "s\<lparr>world := w, trace := trace s @ [Call f args]\<rparr>"
  show "\<exists>es. trace (snd (bnd (call f args ext) g s)) = trace s @ es \<and> (\<forall>e \<in> set es. P e)"
  proof (cases r)
    case (Inl e)
    with r assms(1) show ?thesis by (simp add: bnd_def call_def)
  next
    case (Inr x)
    obtain r' u where u: "g x ?t = (r', u)" by (cases "g x ?t")
    from emitsD[OF assms(2)[OF r[unfolded Inr]] u] obtain es where
      "trace u = trace ?t @ es" "\<forall>e \<in> set es. P e" by auto
    with r Inr u assms(1) show ?thesis
      by (intro exI[of _ "Call f args # es"]) (auto simp: bnd_def call_def)
  qed
qed

subsection \<open>What a computation leaves alone\<close>

text \<open>
  \<open>keeps F m\<close>: whatever the outcome, \<open>m\<close> does not change the part \<open>F\<close> of the state. The rules
  in \<open>keeps\<close> follow the structure of a body; \<open>wp_keeps\<close> turns the result into a triple.
\<close>

named_theorems keeps \<open>introduction rules for keeps\<close>

definition keeps :: "('s \<Rightarrow> 'b) \<Rightarrow> ('s, 'a) py \<Rightarrow> bool" where
  "keeps F m \<longleftrightarrow> (\<forall>s. F (snd (m s)) = F s)"

lemma wp_keeps:
  assumes "keeps F m" "\<And>x t. F t = F s \<Longrightarrow> Q x t" "\<And>e t. F t = F s \<Longrightarrow> R e t"
  shows "wp m Q R s"
  using assms(1)[unfolded keeps_def, rule_format, of s] assms(2,3)
  by (auto simp: wp_def split: prod.split sum.split)

lemma keeps_pure [keeps]: "keeps F (ret x)" "keeps F (raise e)" "keeps F (lift r)" "keeps F (gets f)"
  "keeps F (fail m)" "keeps F (cancel m)"
  by (simp_all add: keeps_def py_defs fail_def cancel_def)

lemma keeps_modify [keeps]: "(\<And>s. F (g s) = F s) \<Longrightarrow> keeps F (modify g)"
  by (simp add: keeps_def py_defs)

lemma keeps_bnd [keeps]:
  assumes "keeps F m" "\<And>x. keeps F (f x)"
  shows "keeps F (bnd m f)"
  unfolding keeps_def
proof
  fix s
  show "F (snd (bnd m f s)) = F s"
    using assms(1)[unfolded keeps_def, rule_format, of s] assms(2)[unfolded keeps_def]
    by (cases "m s") (auto simp: bnd_def split: sum.split)
qed

lemma keeps_sq [keeps]: "keeps F m \<Longrightarrow> keeps F n \<Longrightarrow> keeps F (sq m n)"
  by (simp add: sq_def keeps_bnd)

lemma keeps_whenb [keeps]: "keeps F m \<Longrightarrow> keeps F (whenb b m)"
  by (simp add: whenb_def keeps_pure)

lemma keeps_if [keeps]: "keeps F m \<Longrightarrow> keeps F n \<Longrightarrow> keeps F (if b then m else n)"
  by simp

lemma keeps_case_option [keeps]:
  "keeps F m \<Longrightarrow> (\<And>v. keeps F (f v)) \<Longrightarrow> keeps F (case x of None \<Rightarrow> m | Some v \<Rightarrow> f v)"
  by (simp split: option.split)

lemma keeps_try_except [keeps]:
  assumes "keeps F m" "\<And>e. keeps F (h e)"
  shows "keeps F (try_except m h)"
  unfolding keeps_def
proof
  fix s
  show "F (snd (try_except m h s)) = F s"
    using assms(1)[unfolded keeps_def, rule_format, of s] assms(2)[unfolded keeps_def]
    by (cases "m s") (auto simp: try_except_def split: sum.split)
qed

lemma keeps_for_each [keeps]: "(\<And>x. keeps F (f x)) \<Longrightarrow> keeps F (for_each xs f)"
  by (induction xs) (auto intro: keeps)

lemma keeps_try_finally [keeps]:
  assumes "keeps F m" "keeps F f"
  shows "keeps F (try_finally m f)"
  unfolding keeps_def
proof
  fix s
  obtain r t where m: "m s = (r, t)" by (cases "m s")
  obtain r' u where u: "f t = (r', u)" by (cases "f t")
  have "F t = F s" "F u = F t" using assms m u unfolding keeps_def by (metis snd_conv)+
  then show "F (snd (try_finally m f s)) = F s"
    using m u by (auto simp: try_finally_def split: sum.split)
qed

lemma keeps_for_ret [keeps]: "(\<And>x. keeps F (f x)) \<Longrightarrow> keeps F (for_ret xs f)"
  by (induction xs) (auto intro!: keeps)

lemma keeps_for_acc [keeps]: "(\<And>x a. keeps F (f x a)) \<Longrightarrow> keeps F (for_acc xs f a)"
  by (induction xs arbitrary: a) (auto intro: keeps)

lemma keeps_wait_for [keeps]: "keeps F f \<Longrightarrow> keeps F (wait_for n f)"
  by (induction n) (auto intro!: keeps)

text \<open>Logging, calls and pauses change the system and the trace only.\<close>

lemma keeps_events [keeps]:
  assumes "\<And>s w tr. F (s\<lparr>world := w, trace := tr\<rparr>) = F s"
  shows "keeps F (emit e)" "keeps F (log l m)" "keeps F (call f args x)" "keeps F (sleep v)"
proof -
  have t: "F (s\<lparr>trace := tr\<rparr>) = F s" for s tr
    using assms[where s = s and w = "world s" and tr = tr] by simp
  then show "keeps F (emit e)" "keeps F (log l m)"
    by (simp_all add: keeps_def emit_def log_def py_defs)
  show "keeps F (call f args x)"
    by (simp add: keeps_def call_def assms split: prod.split)
  show "keeps F (sleep v)"
    using t by (simp add: keeps_def sleep_def emit_def py_defs split: option.split)
qed

subsection \<open>The calls in a trace\<close>

definition is_call :: "event \<Rightarrow> bool" where
  "is_call e = (case e of Call _ _ \<Rightarrow> True | _ \<Rightarrow> False)"

definition calls :: "event list \<Rightarrow> event list" where
  "calls es = filter is_call es"

lemma calls_simps [simp]:
  "calls [] = []" "calls (xs @ ys) = calls xs @ calls ys" "calls (Call f a # es) = Call f a # calls es"
  "calls (Log l m # es) = calls es" "calls (Sleep v # es) = calls es"
  by (simp_all add: calls_def is_call_def)

subsection \<open>What a completed computation has appended\<close>

text \<open>
  \<open>adds s es t\<close>: from \<open>s\<close> to \<open>t\<close> the events \<open>es\<close> were appended and nothing but the system has
  changed besides. The rules walk through a body that is followed as long as it completes.
\<close>

named_theorems adds \<open>triples that state the appended events\<close>

definition adds :: "('w, 'm) st_scheme \<Rightarrow> event list \<Rightarrow> ('w, 'm) st_scheme \<Rightarrow> bool" where
  "adds s es t \<longleftrightarrow> (\<exists>w. t = s\<lparr>world := w, trace := trace s @ es\<rparr>)"

abbreviation (input) any_end :: "exn \<Rightarrow> 's \<Rightarrow> bool" where
  "any_end \<equiv> \<lambda>_ _. True"

lemma adds_refl: "adds s [] s"
proof -
  have "s = s\<lparr>world := world s, trace := trace s @ []\<rparr>" by simp
  then show ?thesis unfolding adds_def by blast
qed

lemma adds_trans: "adds s es t \<Longrightarrow> adds t fs u \<Longrightarrow> adds s (es @ fs) u"
  by (auto simp: adds_def)

lemma adds_trace: "adds s es t \<Longrightarrow> trace t = trace s @ es"
  by (auto simp: adds_def)

lemma adds_bnd:
  assumes "adds s0 es s" "wp m (\<lambda>x t. P x \<and> adds s fs t) any_end s"
    and "\<And>x t. P x \<Longrightarrow> adds s0 (es @ fs) t \<Longrightarrow> wp (f x) Q any_end t"
  shows "wp (bnd m f) Q any_end s"
  unfolding wp_bnd
  by (rule wp_conseq[OF assms(2)]) (use assms(3) adds_trans[OF assms(1)] in auto)

lemma adds_sq:
  assumes "adds s0 es s" "wp m (\<lambda>x t. P x \<and> adds s fs t) any_end s"
    and "\<And>x t. P x \<Longrightarrow> adds s0 (es @ fs) t \<Longrightarrow> wp n Q any_end t"
  shows "wp (sq m n) Q any_end s"
  unfolding sq_def by (rule adds_bnd[OF assms])

lemma adds_last:
  assumes "adds s0 es s" "wp m (\<lambda>x t. P x \<and> adds s fs t) any_end s"
    and "\<And>x t. P x \<Longrightarrow> adds s0 (es @ fs) t \<Longrightarrow> Q x t"
  shows "wp m Q any_end s"
  by (rule wp_conseq[OF assms(2)]) (use assms(3) adds_trans[OF assms(1)] in auto)

lemma adds_end:
  assumes "adds s0 es s" "wp m (\<lambda>x t. P x \<and> adds s fs t) any_end s"
    and "\<And>x t. P x \<Longrightarrow> trace t = trace s0 @ es @ fs \<Longrightarrow> Q x t"
  shows "wp m Q any_end s"
  by (rule adds_last[OF assms(1,2)]) (use assms(3) in \<open>auto dest: adds_trace\<close>)

lemma adds_call [adds]: "wp (call f args x) (\<lambda>_ t. True \<and> adds s [Call f args] t) any_end s"
  by (auto simp: wp adds_def split: prod.split sum.split)

lemma adds_log [adds]: "wp (log l m) (\<lambda>_ t. True \<and> adds s [Log l m] t) any_end s"
proof -
  have "s\<lparr>trace := trace s @ [Log l m]\<rparr> = s\<lparr>world := world s, trace := trace s @ [Log l m]\<rparr>" by simp
  then have "adds s [Log l m] (s\<lparr>trace := trace s @ [Log l m]\<rparr>)" unfolding adds_def by metis
  then show ?thesis by (simp add: wp)
qed

lemma adds_guard [adds]: "wp (whenb b (fail m)) (\<lambda>_ t. \<not> b \<and> adds s [] t) any_end s"
  "wp (whenb b (cancel m)) (\<lambda>_ t. \<not> b \<and> adds s [] t) any_end s"
  by (simp_all add: wp adds_refl)

lemma adds_for_each:
  assumes "\<And>x s. wp (f x) (\<lambda>_ t. adds s [g x] t) any_end s"
  shows "wp (for_each xs f) (\<lambda>_ t. True \<and> adds s (map g xs) t) any_end s"
proof -
  have "wp (for_each xs f) (\<lambda>_ t. adds s (map g xs) t) any_end s"
  proof (rule wp_for_each[where I = "\<lambda>ys t. adds s (map g ys) t"])
    fix ys x t assume "adds s (map g ys) t"
    then show "wp (f x) (\<lambda>_ u. adds s (map g (ys @ [x])) u) any_end t"
      by (intro wp_conseq[OF assms]) (auto dest: adds_trans)
  qed (simp add: adds_refl)
  then show ?thesis by simp
qed

end
