(* ===== verification/Dlpar_Api.thy ===== *)
theory Dlpar_Api
  imports Avocado
begin

section \<open>The DLPAR interface (dlpar/dlpar\_api/api.py)\<close>

text \<open>
  Dynamic logical partitioning adds, removes and moves processors and memory of the partitions of
  a Power machine. The commands run on its management console (HMC), which a script reaches over
  ssh. This theory models the classes of \<^verbatim>\<open>dlpar/dlpar_api/api.py\<close>: the machines, the log
  that turns a check into an exception, the commands of \<^verbatim>\<open>TestCase\<close> with the validation that
  follows each of them, and the three kinds of resources, \<^verbatim>\<open>DedicatedCpu\<close>, \<^verbatim>\<open>CpuUnit\<close> and
  \<^verbatim>\<open>Memory\<close>. The ssh session and the local command runner are the parameter \<open>dlpar_env\<close>.

  An object is the record \<open>test_case\<close> of the attributes its constructor sets. The only attribute
  that changes later is \<^verbatim>\<open>cmd_result\<close>, the answer to the last HMC command: it is the state
  component \<open>last_result\<close>. The other component, \<open>config_file\<close>, is the file the tests of
  \<^verbatim>\<open>dlpar_main.py\<close> hand their payload over in.
\<close>

subsection \<open>External operations and state\<close>

record 'w dlpar_env =
  session_cleanup :: "pyval \<Rightarrow> ('w, unit) ext"
  session_connect :: "pyval \<Rightarrow> pyval \<Rightarrow> pyval \<Rightarrow> ('w, bool) ext"
  session_cmd :: "pyval \<Rightarrow> string \<Rightarrow> ('w, cmd_result) ext"
  process_run :: "string \<Rightarrow> ('w, cmd_result) ext"
  system_output :: "string \<Rightarrow> bool \<Rightarrow> ('w, string) ext"
  check_installed :: "string \<Rightarrow> ('w, bool) ext"
  install :: "string \<Rightarrow> ('w, bool) ext"
  randint :: "int \<Rightarrow> int \<Rightarrow> ('w, int) ext"
  result_str :: "cmd_result \<Rightarrow> string"

record 'w dlpar_st = "'w st" +
  last_result :: "cmd_result option"
  config_file :: "string option"

type_synonym ('w, 'a) dlpar = "('w dlpar_st, 'a) py"

text \<open>The payload dictionary; \<^verbatim>\<open>config_payload.get(k)\<close> is \<^verbatim>\<open>None\<close> for a missing key.\<close>

type_synonym payload = "string \<rightharpoonup> pyval"

definition get :: "payload \<Rightarrow> string \<Rightarrow> pyval" where
  "get c k = (case c k of None \<Rightarrow> VNone | Some v \<Rightarrow> v)"

subsection \<open>Machines\<close>

record ssh_machine =
  mac_con :: int
  name :: pyval
  machine :: pyval
  partition :: pyval
  sshcnx :: bool

datatype machine_type = Hmc | Linux_primary | Linux_secondary

definition init_ssh :: "'w dlpar_env \<Rightarrow> pyval \<Rightarrow> pyval \<Rightarrow> pyval \<Rightarrow> ('w, int) dlpar" where
  "init_ssh E user pwd host =
     sq (call ''cleanup_master'' [vstr host] (session_cleanup E host))
    (bnd (call ''connect'' [vstr host] (session_connect E host user pwd)) (\<lambda>ok.
     if ok then ret 0
     else sq (emit (Call ''print'' [''failed connecting to HMC''])) (ret 1)))"

definition ssh_machine :: "'w dlpar_env \<Rightarrow> payload \<Rightarrow> machine_type \<Rightarrow> ('w, ssh_machine) dlpar" where
  "ssh_machine E c t =
     (case t of
        Linux_primary \<Rightarrow>
          ret \<lparr>mac_con = 0, name = get c ''src_name'', machine = get c ''hmc_manageSystem'',
               partition = get c ''src_partition'', sshcnx = False\<rparr>
      | Linux_secondary \<Rightarrow>
          bnd (init_ssh E (get c ''target_user'') (get c ''target_passwd'')
                 (get c ''target_lpar_hostname'')) (\<lambda>mc.
          ret \<lparr>mac_con = mc, name = get c ''target_lpar_hostname'',
               machine = get c ''hmc_manageSystem'', partition = get c ''target_partition'',
               sshcnx = True\<rparr>)
      | Hmc \<Rightarrow>
          bnd (init_ssh E (get c ''hmc_user'') (get c ''hmc_passwd'') (get c ''hmc_name'')) (\<lambda>mc.
          ret \<lparr>mac_con = mc, name = get c ''hmc_name'', machine = get c ''hmc_manageSystem'',
               partition = get c ''hmc_manageSystem'', sshcnx = True\<rparr>))"

subsection \<open>The log and its checks\<close>

text \<open>
  \<^verbatim>\<open>TestLog.check_log\<close>: an integer passes when it is not negative, a Boolean when it is true;
  for any other value no branch is taken and the method returns \<^verbatim>\<open>None\<close>.
\<close>

definition check_log :: "string \<Rightarrow> pyval \<Rightarrow> bool \<Rightarrow> ('w, pyval) dlpar" where
  "check_log message code die =
     (let failed = sq (log Error (''[FAILED] '' @ message))
                  (if die then raise (TestException ''Check failed. Aborting test.'')
                   else ret (VBool False));
          passed = sq (log Info (''[PASS] '' @ message)) (ret (VBool True))
      in case code of
           VInt n \<Rightarrow> if n < 0 then failed else passed
         | VBool b \<Rightarrow> if \<not> b then failed else passed
         | _ \<Rightarrow> ret VNone)"

subsection \<open>TestCase\<close>

record test_case =
  cpu_per_processor :: int
  hmc :: "ssh_machine option"
  linux_1 :: "ssh_machine option"
  linux_2 :: "ssh_machine option"
  quant_to_test :: pyval
  sleep_time :: pyval
  conn_value :: int
  linux :: "ssh_machine option"

definition test_case_init :: "string \<Rightarrow> payload \<Rightarrow> ('w, test_case) dlpar" where
  "test_case_init test_name c =
     sq (modify (\<lambda>s. s\<lparr>last_result := None\<rparr>))
    (sq (log Info (''Starting '' @ test_name @ '' Test Case.''))
    (bnd (lift (vint (get c ''cfg_cpu_per_proc''))) (\<lambda>n.
     ret \<lparr>cpu_per_processor = n, hmc = None, linux_1 = None, linux_2 = None,
          quant_to_test = VNone, sleep_time = VNone, conn_value = 0, linux = None\<rparr>)))"

datatype clients = Primary | Secondary | Both

text \<open>
  \<^verbatim>\<open>get_connections\<close> sets the machines the caller asks for and returns the connection status
  of the second one. It reports a failure of any kind in the log and raises it again.
\<close>

definition get_connections ::
  "'w dlpar_env \<Rightarrow> payload \<Rightarrow> clients \<Rightarrow> test_case \<Rightarrow> ('w, test_case \<times> int) dlpar" where
  "get_connections E c cl tc =
     try_except
       (bnd (ssh_machine E c Hmc) (\<lambda>h.
        sq (log Debug ''Login to HMC successful.'')
       (let tc = tc\<lparr>hmc := Some h\<rparr> in
        bnd (if cl = Primary \<or> cl = Both then
               bnd (ssh_machine E c Linux_primary) (\<lambda>m.
               sq (log Debug ''Login to 1st linux LPAR successful.'')
              (ret (tc\<lparr>linux_1 := Some m\<rparr>)))
             else ret tc) (\<lambda>tc.
        bnd (if cl = Secondary \<or> cl = Both then
               bnd (ssh_machine E c Linux_secondary) (\<lambda>m.
               sq (log Debug ''Login to 2nd linux LPAR successful.'')
              (ret (tc\<lparr>linux_2 := Some m\<rparr>)))
             else ret tc) (\<lambda>tc.
        sq (check_log ''Getting Machine connections.'' (VBool True) True)
       (bnd (lift (attr (linux_2 tc))) (\<lambda>m.
        ret (tc, mac_con m))))))))
       (\<lambda>e. sq (check_log ''Getting Machine connections.'' (VBool False) False) (raise e))"

subsection \<open>Commands on the management console\<close>

definition hmc_cmd :: "'w dlpar_env \<Rightarrow> test_case \<Rightarrow> string \<Rightarrow> ('w, cmd_result) dlpar" where
  "hmc_cmd E tc cmd =
     bnd (lift (attr (hmc tc))) (\<lambda>h. call ''hmc'' [cmd] (session_cmd E (name h) cmd))"

text \<open>The text of the query and of the change commands, as the source concatenates it.\<close>

definition query_cmd :: "string \<Rightarrow> ssh_machine \<Rightarrow> string \<Rightarrow> string result" where
  "query_cmd r m option =
     vcat [VStr ''lshwres -m '', machine m, VStr ('' --level lpar -r '' @ r @ '' --filter lpar_names=\"''),
           partition m, VStr ''\" -F '', VStr option]"

definition get_option ::
  "string \<Rightarrow> 'w dlpar_env \<Rightarrow> test_case \<Rightarrow> ssh_machine \<Rightarrow> string \<Rightarrow> ('w, string) dlpar" where
  "get_option r E tc m option =
     bnd (lift (query_cmd r m option)) (\<lambda>o_cmd.
     bnd (hmc_cmd E tc o_cmd) (\<lambda>res.
     let opt_value = strip (stdout_text res) in
     bnd (lift (vcat [VStr option, VStr '': '', VStr opt_value, VStr '' for partition '', partition m]))
       (\<lambda>d_msg.
     sq (log Debug d_msg) (ret opt_value))))"

definition get_cpu_option ::
  "'w dlpar_env \<Rightarrow> test_case \<Rightarrow> ssh_machine \<Rightarrow> string \<Rightarrow> ('w, string) dlpar" where
  "get_cpu_option = get_option ''proc''"

definition get_mem_option ::
  "'w dlpar_env \<Rightarrow> test_case \<Rightarrow> ssh_machine \<Rightarrow> string \<Rightarrow> ('w, string) dlpar" where
  "get_mem_option = get_option ''mem''"

definition get_lmb_value ::
  "'w dlpar_env \<Rightarrow> test_case \<Rightarrow> ssh_machine \<Rightarrow> string \<Rightarrow> ('w, string) dlpar" where
  "get_lmb_value E tc m option =
     bnd (lift (vcat [VStr ''lshwres -r mem -m '', machine m, VStr '' --level sys -F '', VStr option]))
       (\<lambda>o_cmd.
     bnd (hmc_cmd E tc o_cmd) (\<lambda>res.
     let opt_value = strip (stdout_text res) in
     bnd (lift (vcat [VStr option, VStr '': '', VStr opt_value, VStr '' for CEC '', machine m]))
       (\<lambda>d_msg.
     sq (log Debug d_msg) (ret opt_value))))"

definition int_cpu_option ::
  "'w dlpar_env \<Rightarrow> test_case \<Rightarrow> ssh_machine \<Rightarrow> string \<Rightarrow> ('w, int) dlpar" where
  "int_cpu_option E tc m option = bnd (get_cpu_option E tc m option) (\<lambda>s. lift (py_int s))"

definition float_cpu_option ::
  "'w dlpar_env \<Rightarrow> test_case \<Rightarrow> ssh_machine \<Rightarrow> string \<Rightarrow> ('w, rat) dlpar" where
  "float_cpu_option E tc m option = bnd (get_cpu_option E tc m option) (\<lambda>s. lift (py_float s))"

definition int_mem_option ::
  "'w dlpar_env \<Rightarrow> test_case \<Rightarrow> ssh_machine \<Rightarrow> string \<Rightarrow> ('w, int) dlpar" where
  "int_mem_option E tc m option = bnd (get_mem_option E tc m option) (\<lambda>s. lift (py_int s))"

text \<open>
  The argument \<^verbatim>\<open>linux_machine\<close> is one machine, or the list of the source and the target of a
  move; the flag is the list of the resource, the operation and the option that names the
  quantity. Using one shape where the other is meant raises, as in Python.
\<close>

datatype target = One ssh_machine | Two ssh_machine ssh_machine

definition change_cmd :: "string \<times> string \<times> string \<Rightarrow> ssh_machine \<Rightarrow> pyval \<Rightarrow> string result" where
  "change_cmd flag m q =
     (case flag of (r, oper, opt) \<Rightarrow>
        vcat [VStr ''chhwres -m '', machine m, VStr '' -r '', VStr r, VStr '' -o '', VStr oper,
              VStr '' '', VStr opt, VStr '' '', VStr (vstr q), VStr '' -p \"'', partition m, VStr ''\"'',
              VStr '' -w 0 ''])"

definition move_cmd ::
  "string \<times> string \<times> string \<Rightarrow> ssh_machine \<Rightarrow> ssh_machine \<Rightarrow> pyval \<Rightarrow> string result" where
  "move_cmd flag m1 m2 q =
     (case flag of (r, oper, opt) \<Rightarrow>
        vcat [VStr ''chhwres -m '', machine m1, VStr '' -r '', VStr r, VStr '' -o '', VStr oper,
              VStr '' '', VStr opt, VStr '' '', VStr (vstr q), VStr '' -p \"'', partition m1, VStr ''\"'',
              VStr '' -t \"'', partition m2, VStr ''\"'', VStr '' -w 0 ''])"

definition Dlpar_engine ::
  "'w dlpar_env \<Rightarrow> test_case \<Rightarrow> string \<times> string \<times> string \<Rightarrow> target \<Rightarrow> pyval \<Rightarrow> ('w, cmd_result) dlpar"
where
  "Dlpar_engine E tc flag t q =
     bnd (if fst (snd flag) = ''a'' \<or> fst (snd flag) = ''r'' then
            (case t of One m \<Rightarrow> lift (change_cmd flag m q) | Two _ _ \<Rightarrow> raise AttributeError)
          else if fst (snd flag) = ''m'' then
            (case t of Two m1 m2 \<Rightarrow> lift (move_cmd flag m1 m2 q) | One _ \<Rightarrow> raise TypeError)
          else sq (log Error ''Invalid DLPAR flag'') (ret [])) (\<lambda>cmd.
     bnd (hmc_cmd E tc cmd) (\<lambda>res.
     sq (modify (\<lambda>s. s\<lparr>last_result := Some res\<rparr>)) (ret res)))"

subsection \<open>Validation of an operation\<close>

text \<open>
  After an operation the script reads the resource back and compares it with the value before
  plus or minus the quantity. A mismatch is logged and raised. The exception of a failed move of
  processors or memory is \<^verbatim>\<open>TestException()\<close> without the argument its constructor needs, so what
  is raised there is \<^verbatim>\<open>TypeError\<close>.
\<close>

datatype info = Before pyval | Befores pyval pyval

definition check_or :: "string \<Rightarrow> bool \<Rightarrow> string \<Rightarrow> exn \<Rightarrow> ('w, unit) dlpar" where
  "check_or msg cond e_msg ex =
     bnd (check_log msg (VBool cond) False) (\<lambda>r.
     if \<not> truthy r then sq (log Error e_msg) (raise ex) else ret ())"

definition validate_add ::
  "string \<Rightarrow> (ssh_machine \<Rightarrow> ('w, int) dlpar) \<Rightarrow> ssh_machine \<Rightarrow> pyval \<Rightarrow> pyval \<Rightarrow> ('w, unit) dlpar"
where
  "validate_add noun rd m q before =
     bnd (lift (fmt_d q)) (\<lambda>qd.
     let what = qd @ '' '' @ noun @ '' to partition '' @ vstr (partition m) @ ''.'';
         e_msg = ''Error adding '' @ what in
     bnd (rd m) (\<lambda>after.
     bnd (lift (vadd before q)) (\<lambda>expected.
     check_or (''Adding '' @ what) (veq (VInt after) expected) e_msg (TestException e_msg))))"

definition validate_rm ::
  "string \<Rightarrow> (ssh_machine \<Rightarrow> ('w, int) dlpar) \<Rightarrow> ssh_machine \<Rightarrow> pyval \<Rightarrow> pyval \<Rightarrow> ('w, unit) dlpar"
where
  "validate_rm noun rd m q before =
    (let what = vstr q @ '' '' @ noun @ '' from partition '' @ vstr (partition m) @ ''.'';
         e_msg = ''Error removing '' @ what in
     bnd (rd m) (\<lambda>after.
     bnd (lift (vsub before q)) (\<lambda>expected.
     check_or (''Removing '' @ what) (veq (VInt after) expected) e_msg (TestException e_msg))))"

definition validate_move ::
  "string \<Rightarrow> string \<Rightarrow> (ssh_machine \<Rightarrow> ('w, int) dlpar) \<Rightarrow> ssh_machine \<Rightarrow> ssh_machine \<Rightarrow> pyval \<Rightarrow>
   pyval \<Rightarrow> pyval \<Rightarrow> ('w, unit) dlpar"
where
  "validate_move noun e_msg rd m1 m2 q before1 before2 =
    (let m_msg = ''Moving '' @ vstr q @ '' '' @ noun @ '' from '' @ vstr (partition m1) @ '' to '' @
                 vstr (partition m2) @ ''.'' in
     bnd (rd m1) (\<lambda>after1.
     bnd (lift (vsub before1 q)) (\<lambda>expected1.
     bnd (if veq (VInt after1) expected1 then
            bnd (rd m2) (\<lambda>after2.
            bnd (lift (vadd before2 q)) (\<lambda>expected2.
            ret (veq (VInt after2) expected2)))
          else ret False) (\<lambda>m_condition.
     check_or m_msg m_condition e_msg TypeError))))"

text \<open>Processing units are compared as text: the console's answer with Python's \<^verbatim>\<open>str\<close>.\<close>

definition validate_units ::
  "string \<Rightarrow> string \<Rightarrow> string \<Rightarrow> (pyval \<Rightarrow> pyval \<Rightarrow> pyval result) \<Rightarrow>
   'w dlpar_env \<Rightarrow> test_case \<Rightarrow> ssh_machine \<Rightarrow> pyval \<Rightarrow> pyval \<Rightarrow> ('w, unit) dlpar"
where
  "validate_units doing failing prep oper E tc m q before =
    (let what = vstr q @ '' proc units '' @ prep @ '' partition '' @ vstr (partition m) @ ''.'';
         e_msg = failing @ what in
     bnd (get_cpu_option E tc m ''curr_proc_units'') (\<lambda>after.
     bnd (lift (oper before q)) (\<lambda>expected.
     check_or (doing @ what) (after = vstr expected) e_msg (TestException e_msg))))"

definition validate_units_move ::
  "'w dlpar_env \<Rightarrow> test_case \<Rightarrow> ssh_machine \<Rightarrow> ssh_machine \<Rightarrow> pyval \<Rightarrow> pyval \<Rightarrow> pyval \<Rightarrow> ('w, unit) dlpar"
where
  "validate_units_move E tc m1 m2 q before1 before2 =
    (let m_msg = ''Moving '' @ vstr q @ '' proc units from '' @ vstr (partition m1) @ '' to '' @
                 vstr (partition m2) @ ''.'' in
     sq (float_cpu_option E tc m1 ''curr_proc_units'')
    (sq (float_cpu_option E tc m2 ''curr_proc_units'')
    (bnd (get_cpu_option E tc m1 ''curr_proc_units'') (\<lambda>after1.
     bnd (lift (vsub before1 q)) (\<lambda>expected1.
     bnd (if after1 = vstr expected1 then
            bnd (get_cpu_option E tc m2 ''curr_proc_units'') (\<lambda>after2.
            bnd (lift (vadd before2 q)) (\<lambda>expected2.
            ret (after2 = vstr expected2)))
          else ret False) (\<lambda>m_condition.
     check_or m_msg m_condition m_msg (TestException m_msg)))))))"

subsection \<open>Checks on the partitions\<close>

text \<open>
  The lines \<^verbatim>\<open>re.findall\<close> of \<^verbatim>\<open>processor.*:.*\\n\<close> finds: the lines that end in a newline and
  have a colon after the word. The added processors are counted in the stripped output of the
  second partition, the removed ones in the unstripped output of the local command.
\<close>

definition proc_line :: "string \<Rightarrow> bool" where
  "proc_line l = (case after_first ''processor'' l of None \<Rightarrow> False | Some r \<Rightarrow> CHR '':'' \<in> set r)"

definition cpuinfo_proc_lines :: "string \<Rightarrow> string list" where
  "cpuinfo_proc_lines s = filter proc_line (butlast (split_on newline s))"

definition linux_check_add_cpu ::
  "'w dlpar_env \<Rightarrow> test_case \<Rightarrow> ssh_machine \<Rightarrow> pyval \<Rightarrow> ('w, unit) dlpar" where
  "linux_check_add_cpu E tc m q =
     bnd (int_cpu_option E tc m ''curr_procs'') (\<lambda>proc_before.
     bnd (if sshcnx m then call ''ssh'' [''cat /proc/cpuinfo''] (session_cmd E (name m) ''cat /proc/cpuinfo'')
          else raise AttributeError) (\<lambda>res.
     let n = length (cpuinfo_proc_lines (strip (stdout_text res))) in
     sq (check_log ''Checking if /proc/cpuinfo shows all processors correctly.''
           (VBool (int n = proc_before * cpu_per_processor tc)) True) (ret ())))"

definition linux_check_rm_cpu ::
  "'w dlpar_env \<Rightarrow> test_case \<Rightarrow> ssh_machine \<Rightarrow> pyval \<Rightarrow> pyval \<Rightarrow> ('w, unit) dlpar" where
  "linux_check_rm_cpu E tc m before removed =
     bnd (call ''process.run'' [''cat /proc/cpuinfo''] (process_run E ''cat /proc/cpuinfo'')) (\<lambda>res.
     sq (log Debug (stdout_text res))
    (let n = length (cpuinfo_proc_lines (stdout_text res)) in
     bnd (lift (rbind (vsub before removed) (\<lambda>d. vmul d (VInt (cpu_per_processor tc))))) (\<lambda>expected.
     sq (check_log ''Checking if /proc/cpuinfo shows all processors correctly.''
           (VBool (veq (VInt (int n)) expected)) True) (ret ()))))"

definition Dlpar_cpu_validation ::
  "'w dlpar_env \<Rightarrow> test_case \<Rightarrow> string \<Rightarrow> target \<Rightarrow> pyval \<Rightarrow> info \<Rightarrow> ('w, unit) dlpar"
where
  "Dlpar_cpu_validation E tc flag t q i =
    (let rd = (\<lambda>m. int_cpu_option E tc m ''curr_procs'') in
     case (t, i) of
       (One m, Before before) \<Rightarrow>
         if flag = ''a'' then validate_add ''dedicated cpus'' rd m q before
         else if flag = ''r'' then validate_rm ''dedicated cpus'' rd m q before
         else if flag = ''cpu_a'' then
           validate_units ''Adding '' ''Error adding '' ''to'' vadd E tc m q before
         else if flag = ''cpu_r'' then
           validate_units ''Removing '' ''Error removing '' ''from'' vsub E tc m q before
         else if flag = ''m'' \<or> flag = ''cpu_m'' then raise TypeError
         else ret ()
     | (Two m1 m2, Befores before1 before2) \<Rightarrow>
         if flag = ''m'' then
           sq (validate_move ''dedicated cpus'' ''Error happened when moving cpu'' rd m1 m2 q before1 before2)
          (sq (linux_check_rm_cpu E tc m1 before1 q)
              (linux_check_add_cpu E tc m2 q))
         else if flag = ''cpu_m'' then validate_units_move E tc m1 m2 q before1 before2
         else if flag \<in> {''a'', ''r'', ''cpu_a'', ''cpu_r''} then raise AttributeError
         else ret ()
     | _ \<Rightarrow> raise TypeError)"

definition Dlpar_mem_validation ::
  "'w dlpar_env \<Rightarrow> test_case \<Rightarrow> string \<Rightarrow> target \<Rightarrow> pyval \<Rightarrow> info \<Rightarrow> ('w, unit) dlpar"
where
  "Dlpar_mem_validation E tc flag t q i =
    (let rd = (\<lambda>m. int_mem_option E tc m ''curr_mem'') in
     case (t, i) of
       (One m, Before before) \<Rightarrow>
         if flag = ''a'' then validate_add ''memory'' rd m q before
         else if flag = ''r'' then validate_rm ''memory'' rd m q before
         else if flag = ''m'' then raise TypeError
         else ret ()
     | (Two m1 m2, Befores before1 before2) \<Rightarrow>
         if flag = ''m'' then
           validate_move ''memory'' ''Error happened when moving memory'' rd m1 m2 q before1 before2
         else if flag \<in> {''a'', ''r''} then raise AttributeError
         else ret ()
     | _ \<Rightarrow> raise TypeError)"

subsection \<open>DedicatedCpu\<close>

text \<open>
  The private methods return \<^verbatim>\<open>1\<close> when the console printed something, and nothing (\<open>None\<close>)
  otherwise; \<open>finish\<close> is the wrapper all public methods share.
\<close>

definition finish :: "int option \<Rightarrow> ('w, int) dlpar" where
  "finish rvalue =
     (if rvalue = Some 1 then ret 1 else sq (log Info ''Test finished successfully.'') (ret 0))"

definition pause :: "test_case \<Rightarrow> ('w, unit) dlpar" where
  "pause tc =
     sq (log Debug (''Sleeping for '' @ vstr (sleep_time tc) @ '' seconds before proceeding''))
        (sleep (sleep_time tc))"

definition ded_check_set_cfg :: "'w dlpar_env \<Rightarrow> test_case \<Rightarrow> ssh_machine \<Rightarrow> ('w, unit) dlpar" where
  "ded_check_set_cfg E tc m =
     sq (log Info (''Checking partition '' @ quoted (vstr (partition m)) @ '' configuration.''))
    (sq (log Debug (''Machine: '' @ vstr (name m)))
    (bnd (get_cpu_option E tc m ''curr_proc_mode'') (\<lambda>curr_proc_mode.
     sq (log Info (''DEBUG: curr_proc_node '' @ curr_proc_mode))
    (sq (check_log (''Checking if linux partition '' @ quoted (vstr (partition m)) @ '' is at dedicated mode'')
           (VBool (curr_proc_mode = ''ded'')) True)
    (bnd (int_cpu_option E tc m ''curr_min_procs'') (\<lambda>curr_min_procs.
     bnd (int_cpu_option E tc m ''curr_procs'') (\<lambda>curr_procs.
     sq (log Debug (''curr_min_procs: '' @ str_int curr_min_procs))
    (sq (log Debug (''curr_procs: '' @ str_int curr_procs))
        (log Info (''Configuration settings for partition '' @ vstr (partition m) @ '' all correct.''))))))))))"

definition dedicated_cpu :: "'w dlpar_env \<Rightarrow> payload \<Rightarrow> ('w, test_case) dlpar" where
  "dedicated_cpu E c =
     bnd (test_case_init ''Dedicated CPU'' c) (\<lambda>tc.
     let tc = tc\<lparr>quant_to_test := get c ''ded_quantity_to_test'', sleep_time := get c ''sleep_time''\<rparr> in
     sq (check_log ''Getting Test configuration.'' (VBool (quant_to_test tc \<noteq> VNone)) True)
    (sq (log Debug (''Testing with '' @ vstr (quant_to_test tc) @ '' Dedicated CPU units.''))
    (bnd (get_connections E c Both tc) (\<lambda>(tc, v).
     let tc = tc\<lparr>conn_value := v\<rparr> in
     bnd (lift (attr (linux_1 tc))) (\<lambda>m1.
     sq (ded_check_set_cfg E tc m1)
    (bnd (lift (attr (linux_2 tc))) (\<lambda>m2.
     sq (ded_check_set_cfg E tc m2) (ret tc))))))))"

definition add_dedicated_cpu ::
  "'w dlpar_env \<Rightarrow> test_case \<Rightarrow> ssh_machine \<Rightarrow> pyval \<Rightarrow> ('w, int option) dlpar" where
  "add_dedicated_cpu E tc m q =
     bnd (int_cpu_option E tc m ''curr_procs'') (\<lambda>before.
     sq (sleep (sleep_time tc))
    (bnd (Dlpar_engine E tc (''proc'', ''a'', ''--procs'') (One m) q) (\<lambda>res.
     sq (pause tc)
    (if stdout_text res \<noteq> [] then ret (Some 1)
     else sq (Dlpar_cpu_validation E tc ''a'' (One m) q (Before (VInt before))) (ret None)))))"

definition remove_dedicated_cpu ::
  "'w dlpar_env \<Rightarrow> test_case \<Rightarrow> ssh_machine \<Rightarrow> pyval \<Rightarrow> ('w, int option) dlpar" where
  "remove_dedicated_cpu E tc m q =
     bnd (int_cpu_option E tc m ''curr_procs'') (\<lambda>before.
     bnd (Dlpar_engine E tc (''proc'', ''r'', ''--procs'') (One m) q) (\<lambda>res.
     if stdout_text res \<noteq> [] then ret (Some 1)
     else sq (pause tc)
         (sq (Dlpar_cpu_validation E tc ''r'' (One m) q (Before (VInt before))) (ret None))))"

definition move_dedicated_cpu ::
  "'w dlpar_env \<Rightarrow> test_case \<Rightarrow> ssh_machine \<Rightarrow> ssh_machine \<Rightarrow> pyval \<Rightarrow> ('w, int option) dlpar" where
  "move_dedicated_cpu E tc m1 m2 q =
     bnd (int_cpu_option E tc m1 ''curr_procs'') (\<lambda>before1.
     bnd (int_cpu_option E tc m2 ''curr_procs'') (\<lambda>before2.
     bnd (Dlpar_engine E tc (''proc'', ''m'', ''--procs'') (Two m1 m2) q) (\<lambda>res.
     if stdout_text res \<noteq> [] then ret (Some 1)
     else sq (pause tc)
         (sq (Dlpar_cpu_validation E tc ''m'' (Two m1 m2) q (Befores (VInt before1) (VInt before2)))
             (ret None)))))"

definition on_linux_1 :: "test_case \<Rightarrow> (ssh_machine \<Rightarrow> ('w, 'a) dlpar) \<Rightarrow> ('w, 'a) dlpar" where
  "on_linux_1 tc f = bnd (lift (attr (linux_1 tc))) f"

definition get_max_proc :: "'w dlpar_env \<Rightarrow> test_case \<Rightarrow> ('w, int) dlpar" where
  "get_max_proc E tc = on_linux_1 tc (\<lambda>m. int_cpu_option E tc m ''curr_max_procs'')"

definition get_curr_proc :: "'w dlpar_env \<Rightarrow> test_case \<Rightarrow> ('w, int) dlpar" where
  "get_curr_proc E tc = on_linux_1 tc (\<lambda>m. int_cpu_option E tc m ''curr_procs'')"

definition add_ded_cpu :: "'w dlpar_env \<Rightarrow> test_case \<Rightarrow> pyval \<Rightarrow> ('w, int) dlpar" where
  "add_ded_cpu E tc cpu = bnd (on_linux_1 tc (\<lambda>m. add_dedicated_cpu E tc m cpu)) finish"

definition rem_ded_cpu :: "'w dlpar_env \<Rightarrow> test_case \<Rightarrow> pyval \<Rightarrow> ('w, int) dlpar" where
  "rem_ded_cpu E tc cpu = bnd (on_linux_1 tc (\<lambda>m. remove_dedicated_cpu E tc m cpu)) finish"

definition move_ded_cpu :: "'w dlpar_env \<Rightarrow> test_case \<Rightarrow> ('w, int) dlpar" where
  "move_ded_cpu E tc =
     bnd (on_linux_1 tc (\<lambda>m1. bnd (lift (attr (linux_2 tc))) (\<lambda>m2.
            move_dedicated_cpu E tc m1 m2 (quant_to_test tc)))) finish"

subsection \<open>CpuUnit\<close>

definition unit_check_set_cfg :: "'w dlpar_env \<Rightarrow> test_case \<Rightarrow> ssh_machine \<Rightarrow> ('w, unit) dlpar" where
  "unit_check_set_cfg E tc m =
     sq (log Info (''Checking partition '' @ quoted (vstr (partition m)) @ '' configuration.''))
    (sq (log Debug (''Machine: '' @ vstr (name m)))
    (bnd (get_cpu_option E tc m ''curr_proc_mode'') (\<lambda>curr_proc_mode.
     sq (check_log (''Checking if linux partition '' @ quoted (vstr (partition m)) @ '' is at shared mode'')
           (VBool (curr_proc_mode = ''shared'')) True)
    (bnd (int_cpu_option E tc m ''curr_max_procs'') (\<lambda>_.
     bnd (float_cpu_option E tc m ''curr_min_proc_units'') (\<lambda>curr_min_proc_units.
     bnd (float_cpu_option E tc m ''curr_max_proc_units'') (\<lambda>curr_max_proc_units.
     sq (log Debug (''curr_min_proc_units: '' @ str_float curr_min_proc_units))
    (sq (log Debug (''curr_max_proc_units: '' @ str_float curr_max_proc_units))
        (log Info (''Configuration settings for partition '' @ vstr (partition m) @ '' all correct.''))))))))))"

definition cpu_unit :: "'w dlpar_env \<Rightarrow> payload \<Rightarrow> ('w, test_case) dlpar" where
  "cpu_unit E c =
     bnd (test_case_init ''CPU Unit'' c) (\<lambda>tc.
     let tc = tc\<lparr>quant_to_test := get c ''cpu_quantity_to_test'', sleep_time := get c ''sleep_time''\<rparr> in
     sq (check_log ''Getting Test configuration.'' (VBool (quant_to_test tc \<noteq> VNone)) True)
    (sq (log Debug (''Testing with '' @ vstr (quant_to_test tc) @ '' CPU Units.''))
    (bnd (get_connections E c Both tc) (\<lambda>(tc, v).
     let tc = tc\<lparr>conn_value := v\<rparr> in
     bnd (lift (attr (linux_1 tc))) (\<lambda>m1.
     sq (unit_check_set_cfg E tc m1)
    (bnd (lift (attr (linux_2 tc))) (\<lambda>m2.
     sq (unit_check_set_cfg E tc m2) (ret tc))))))))"

definition get_shared_max_proc :: "'w dlpar_env \<Rightarrow> test_case \<Rightarrow> ('w, int) dlpar" where
  "get_shared_max_proc E tc = on_linux_1 tc (\<lambda>m. int_cpu_option E tc m ''curr_max_procs'')"

definition get_shared_curr_proc :: "'w dlpar_env \<Rightarrow> test_case \<Rightarrow> ('w, int) dlpar" where
  "get_shared_curr_proc E tc = on_linux_1 tc (\<lambda>m. int_cpu_option E tc m ''curr_procs'')"

definition get_max_proc_units :: "'w dlpar_env \<Rightarrow> test_case \<Rightarrow> ('w, rat) dlpar" where
  "get_max_proc_units E tc =
     bnd (on_linux_1 tc (\<lambda>m. float_cpu_option E tc m ''curr_max_proc_units'')) (\<lambda>x.
     sq (emit (Call ''print'' [''float''])) (ret x))"

definition get_curr_proc_unit :: "'w dlpar_env \<Rightarrow> test_case \<Rightarrow> ('w, rat) dlpar" where
  "get_curr_proc_unit E tc = on_linux_1 tc (\<lambda>m. float_cpu_option E tc m ''curr_proc_units'')"

text \<open>
  The flag chooses what is changed and how it is validated: whole virtual processors with
  \<^verbatim>\<open>--procs\<close>, processing units with any other option.
\<close>

definition add_cpu_units ::
  "'w dlpar_env \<Rightarrow> test_case \<Rightarrow> ssh_machine \<Rightarrow> pyval \<Rightarrow> string \<Rightarrow> ('w, int option) dlpar" where
  "add_cpu_units E tc m q flag =
     bnd (float_cpu_option E tc m ''curr_proc_units'') (\<lambda>units_before.
     bnd (int_cpu_option E tc m ''curr_procs'') (\<lambda>procs_before.
     bnd (Dlpar_engine E tc (''proc'', ''a'', flag) (One m) q) (\<lambda>res.
     if stdout_text res \<noteq> [] then ret (Some 1)
     else sq (pause tc)
         (sq (if flag = ''--procs''
              then Dlpar_cpu_validation E tc ''a'' (One m) q (Before (VInt procs_before))
              else Dlpar_cpu_validation E tc ''cpu_a'' (One m) q (Before (VFloat units_before)))
             (ret None)))))"

definition move_cpu_units ::
  "'w dlpar_env \<Rightarrow> test_case \<Rightarrow> ssh_machine \<Rightarrow> ssh_machine \<Rightarrow> pyval \<Rightarrow> ('w, int option) dlpar" where
  "move_cpu_units E tc m1 m2 q =
     bnd (float_cpu_option E tc m1 ''curr_proc_units'') (\<lambda>before1.
     bnd (float_cpu_option E tc m2 ''curr_proc_units'') (\<lambda>before2.
     bnd (Dlpar_engine E tc (''proc'', ''m'', ''--procunits'') (Two m1 m2) q) (\<lambda>res.
     if stdout_text res \<noteq> [] then ret (Some 1)
     else sq (log Debug (result_str E res))
         (sq (pause tc)
         (sq (Dlpar_cpu_validation E tc ''cpu_m'' (Two m1 m2) q (Befores (VFloat before1) (VFloat before2)))
             (ret None))))))"

definition remove_cpu_units ::
  "'w dlpar_env \<Rightarrow> test_case \<Rightarrow> ssh_machine \<Rightarrow> pyval \<Rightarrow> string \<Rightarrow> ('w, int option) dlpar" where
  "remove_cpu_units E tc m q flag =
     bnd (float_cpu_option E tc m ''curr_proc_units'') (\<lambda>units_before.
     bnd (int_cpu_option E tc m ''curr_procs'') (\<lambda>procs_before.
     bnd (Dlpar_engine E tc (''proc'', ''r'', flag) (One m) q) (\<lambda>res.
     if stdout_text res \<noteq> [] then ret (Some 1)
     else sq (log Debug (result_str E res))
         (sq (pause tc)
         (sq (if flag = ''--procs''
              then Dlpar_cpu_validation E tc ''r'' (One m) q (Before (VInt procs_before))
              else Dlpar_cpu_validation E tc ''cpu_r'' (One m) q (Before (VFloat units_before)))
             (ret None))))))"

definition add_proc :: "'w dlpar_env \<Rightarrow> test_case \<Rightarrow> pyval \<Rightarrow> string \<Rightarrow> ('w, int) dlpar" where
  "add_proc E tc cpu flag = bnd (on_linux_1 tc (\<lambda>m. add_cpu_units E tc m cpu flag)) finish"

definition remove_proc :: "'w dlpar_env \<Rightarrow> test_case \<Rightarrow> pyval \<Rightarrow> string \<Rightarrow> ('w, int) dlpar" where
  "remove_proc E tc cpu flag = bnd (on_linux_1 tc (\<lambda>m. remove_cpu_units E tc m cpu flag)) finish"

definition move_proc :: "'w dlpar_env \<Rightarrow> test_case \<Rightarrow> ('w, int) dlpar" where
  "move_proc E tc =
     bnd (on_linux_1 tc (\<lambda>m1. bnd (lift (attr (linux_2 tc))) (\<lambda>m2.
            move_cpu_units E tc m1 m2 (quant_to_test tc)))) finish"

subsection \<open>Memory\<close>

text \<open>
  The check of the memory configuration. The flag \<^verbatim>\<open>r\<close> asks whether the quantity can be removed;
  otherwise whether it can be added, which needs available system memory and must stay below the
  maximum of the partition's profile.
\<close>

definition mem_check_set_cfg ::
  "'w dlpar_env \<Rightarrow> test_case \<Rightarrow> ssh_machine \<Rightarrow> pyval \<Rightarrow> ('w, unit) dlpar" where
  "mem_check_set_cfg E tc m flag =
     sq (log Info (''Checking partition '' @ quoted (vstr (partition m)) @ '' configuration.''))
    (sq (log Debug (''Machine: '' @ vstr (name m)))
    (bnd (lift (vcat [VStr ''lshwres -m '', machine m,
                      VStr '' --level sys -r mem -F curr_avail_sys_mem''])) (\<lambda>m_cmd.
     bnd (hmc_cmd E tc m_cmd) (\<lambda>res.
     bnd (lift (py_int (strip (stdout_text res)))) (\<lambda>avail.
     bnd (int_mem_option E tc m ''curr_max_mem'') (\<lambda>max_mem.
     bnd (int_mem_option E tc m ''curr_mem'') (\<lambda>curr_mem.
     bnd (if veq flag (VStr ''r'') then
            bnd (lift (vle_int (quant_to_test tc) curr_mem)) (\<lambda>ok.
            sq (check_log ''Checking if the system has enough available memory to remove.'' (VBool ok) True)
           (bnd (lift (vsub (VInt curr_mem) (quant_to_test tc))) (\<lambda>rest.
            bnd (lift (vle_int rest max_mem)) (\<lambda>p. ret (rest, p)))))
          else
            bnd (lift (vle_int (quant_to_test tc) avail)) (\<lambda>ok.
            sq (check_log ''Checking if the system has enough available memory to add.'' (VBool ok) True)
           (bnd (lift (vadd (quant_to_test tc) (VInt curr_mem))) (\<lambda>total.
            bnd (lift (vle_int total max_mem)) (\<lambda>p. ret (total, p)))))) (\<lambda>(v, p_condition).
     sq (check_log (''Checking if the system'' @ [CHR 0x27] @ ''s profile supports '' @ vstr v @ '' of memory.'')
           (VBool p_condition) True)
        (log Info (''Configuration data for LPAR '' @ vstr (partition m) @ '' is OK.''))))))))))"

definition mem_try_check ::
  "'w dlpar_env \<Rightarrow> test_case \<Rightarrow> ssh_machine option \<Rightarrow> string \<Rightarrow> pyval \<Rightarrow> ('w, unit) dlpar" where
  "mem_try_check E tc m which flag =
     try_except (bnd (lift (attr m)) (\<lambda>m. mem_check_set_cfg E tc m flag))
       (\<lambda>e. if e = AttributeError then log Debug (which @ '' not found, so not checking it.'')
            else raise e)"

definition memory :: "'w dlpar_env \<Rightarrow> payload \<Rightarrow> pyval \<Rightarrow> ('w, test_case) dlpar" where
  "memory E c flag =
     bnd (test_case_init ''Memory'' c) (\<lambda>tc.
     let tc = tc\<lparr>quant_to_test := get c ''mem_quantity_to_test'', sleep_time := get c ''sleep_time''\<rparr> in
     bnd (get_connections E c Both tc) (\<lambda>(tc, v).
     let tc = tc\<lparr>conn_value := v\<rparr>; lm = get c ''mem_linux_machine'';
         e_msg_1 = ''Invalid '' @ quoted ''linux_machine'' @ '' at the configuration file.'';
         e_msg_2 = ''Please use either '' @ quoted ''primary'' @ '' or '' @ quoted ''secondary'' @ ''.'' in
     bnd (if veq lm (VStr ''primary'') then
            bnd (get_connections E c Primary tc) (\<lambda>(tc, _). ret (tc\<lparr>linux := linux_1 tc\<rparr>))
          else if veq lm (VStr ''secondary'') then
            bnd (get_connections E c Secondary tc) (\<lambda>(tc, _). ret (tc\<lparr>linux := linux_2 tc\<rparr>))
          else sq (log Error e_msg_1) (sq (log Error e_msg_2)
                 (raise (TestException (e_msg_1 @ '' '' @ e_msg_2))))) (\<lambda>tc.
     sq (log Debug (''Testing with '' @ vstr (quant_to_test tc) @ '' megabytes of memory.''))
    (sq (check_log ''Getting Test configuration.'' (VBool (quant_to_test tc \<noteq> VNone)) True)
    (sq (mem_try_check E tc (linux_1 tc) ''linux_1'' flag)
    (sq (mem_try_check E tc (linux_2 tc) ''linux_2'' flag)
        (ret tc)))))))"

definition on_linux :: "test_case \<Rightarrow> (ssh_machine \<Rightarrow> ('w, 'a) dlpar) \<Rightarrow> ('w, 'a) dlpar" where
  "on_linux tc f = bnd (lift (attr (linux tc))) f"

definition get_max_mem :: "'w dlpar_env \<Rightarrow> test_case \<Rightarrow> ('w, int) dlpar" where
  "get_max_mem E tc = on_linux tc (\<lambda>m. int_mem_option E tc m ''curr_max_mem'')"

definition get_curr_mem :: "'w dlpar_env \<Rightarrow> test_case \<Rightarrow> ('w, int) dlpar" where
  "get_curr_mem E tc = on_linux tc (\<lambda>m. int_mem_option E tc m ''curr_mem'')"

definition get_lmb_size :: "'w dlpar_env \<Rightarrow> test_case \<Rightarrow> ('w, int) dlpar" where
  "get_lmb_size E tc = on_linux tc (\<lambda>m. bnd (get_lmb_value E tc m ''mem_region_size'') (\<lambda>s. lift (py_int s)))"

definition add_memory ::
  "'w dlpar_env \<Rightarrow> test_case \<Rightarrow> ssh_machine \<Rightarrow> pyval \<Rightarrow> ('w, int option) dlpar" where
  "add_memory E tc m q =
     bnd (int_mem_option E tc m ''curr_mem'') (\<lambda>before.
     bnd (Dlpar_engine E tc (''mem'', ''a'', ''-q'') (One m) q) (\<lambda>res.
     if stdout_text res \<noteq> [] then ret (Some 1)
     else sq (pause tc)
         (sq (Dlpar_mem_validation E tc ''a'' (One m) q (Before (VInt before))) (ret None))))"

definition remove_memory ::
  "'w dlpar_env \<Rightarrow> test_case \<Rightarrow> ssh_machine \<Rightarrow> pyval \<Rightarrow> ('w, int option) dlpar" where
  "remove_memory E tc m q =
     bnd (int_mem_option E tc m ''curr_mem'') (\<lambda>before.
     bnd (Dlpar_engine E tc (''mem'', ''r'', ''-q'') (One m) q) (\<lambda>res.
     if stdout_text res \<noteq> [] then ret (Some 1)
     else sq (pause tc)
         (sq (Dlpar_mem_validation E tc ''r'' (One m) q (Before (VInt before))) (ret None))))"

definition move_memory ::
  "'w dlpar_env \<Rightarrow> test_case \<Rightarrow> ssh_machine \<Rightarrow> ssh_machine \<Rightarrow> pyval \<Rightarrow> ('w, int option) dlpar" where
  "move_memory E tc m1 m2 q =
     bnd (int_mem_option E tc m1 ''curr_mem'') (\<lambda>before1.
     bnd (int_mem_option E tc m2 ''curr_mem'') (\<lambda>before2.
     bnd (Dlpar_engine E tc (''mem'', ''m'', ''-q'') (Two m1 m2) q) (\<lambda>res.
     if stdout_text res \<noteq> [] then ret (Some 1)
     else sq (log Debug (''Going to sleep for '' @ vstr (sleep_time tc) @ '' s''))
         (sq (sleep (sleep_time tc))
         (sq (Dlpar_mem_validation E tc ''m'' (Two m1 m2) q (Befores (VInt before1) (VInt before2)))
             (ret None))))))"

definition mem_add :: "'w dlpar_env \<Rightarrow> test_case \<Rightarrow> pyval \<Rightarrow> ('w, int) dlpar" where
  "mem_add E tc mem = bnd (on_linux tc (\<lambda>m. add_memory E tc m mem)) finish"

definition mem_rem :: "'w dlpar_env \<Rightarrow> test_case \<Rightarrow> pyval \<Rightarrow> ('w, int) dlpar" where
  "mem_rem E tc mem = bnd (on_linux tc (\<lambda>m. remove_memory E tc m mem)) finish"

definition mem_move :: "'w dlpar_env \<Rightarrow> test_case \<Rightarrow> ('w, int) dlpar" where
  "mem_move E tc =
     bnd (on_linux_1 tc (\<lambda>m1. bnd (lift (attr (linux_2 tc))) (\<lambda>m2.
            move_memory E tc m1 m2 (quant_to_test tc)))) finish"

end
