(* ===== verification/Dlpar_Payload.thy ===== *)
theory Dlpar_Payload
  imports Dlpar_Api
begin

section \<open>Payloads of the DLPAR tests (dlpar/dlpar\_main.py)\<close>

text \<open>
  The static methods of \<^verbatim>\<open>DlparTests\<close> that decide how much is added or removed in each step.
  They mix integers and floats the way Python does. Their \<^verbatim>\<open>while\<close> loops are partial functions
  whose value is \<open>None\<close> when the loop does not end; the lemmas show when it does.
\<close>

subsection \<open>cpu\_payload\_data\<close>

partial_function (option) cpu_payload_loop :: "rat \<Rightarrow> rat \<Rightarrow> rat \<Rightarrow> rat \<Rightarrow> rat list option" where
  "cpu_payload_loop max_value step current_sum index =
     (if max_value < fl_add current_sum index then Some []
      else Option.bind
             (cpu_payload_loop max_value step (fl_add current_sum index) (fl_add index step))
             (\<lambda>xs. Some (index # xs)))"

definition cpu_payload_data :: "num \<Rightarrow> num \<Rightarrow> num \<Rightarrow> rat list option" where
  "cpu_payload_data max_value curr_proc step =
     map_option (filter (\<lambda>v. v \<noteq> 0))
       (cpu_payload_loop (exact max_value) (to_float step) (to_float curr_proc) 0)"

text \<open>
  The steps are multiples of a quarter, so the indices \<open>0, step, 2 * step, \<dots>\<close> are exact. A sum
  that starts at a value that is not negative is never below the index added last, hence the loop
  stops when the index passes the maximum, whatever the rounding of the sum did.
\<close>

definition quarters :: "nat \<Rightarrow> nat \<Rightarrow> rat" where
  "quarters q i = of_nat (i * q) / 4"

lemma fl_quarters:
  assumes "i * q \<le> 2 ^ 53"
  shows "fl (quarters q i) = quarters q i"
proof (rule fl_exact)
  show "quarters q i = of_int (int (i * q)) * 2 powi (- 2)"
    by (simp add: quarters_def power_int_def power2_eq_square)
  show "\<bar>int (i * q)\<bar> \<le> 2 ^ 53"
    using assms by (metis abs_of_nat of_nat_le_iff of_nat_numeral of_nat_power)
qed

lemma quarters_step: "Suc i * q \<le> 2 ^ 53 \<Longrightarrow> fl_add (quarters q i) (quarters q 1) = quarters q (Suc i)"
proof -
  assume a: "Suc i * q \<le> 2 ^ 53"
  have "quarters q i + quarters q 1 = quarters q (Suc i)"
    by (simp add: quarters_def add_divide_distrib)
  with fl_quarters[OF a] show ?thesis by (simp add: fl_add_def)
qed

text \<open>The sums the loop computes, with their rounding.\<close>

definition running_sum :: "rat \<Rightarrow> rat list \<Rightarrow> rat" where
  "running_sum s xs = foldl fl_add s xs"

lemma cpu_payload_loop_steps:
  assumes q: "0 < q" and s: "0 \<le> s" and m: "m < of_nat n" "4 * n + 2 * q \<le> 2 ^ 53"
    and i: "i * q \<le> 4 * n + q"
  shows "\<exists>k \<ge> i. cpu_payload_loop m (quarters q 1) s (quarters q i) = Some (map (quarters q) [i..<k]) \<and>
           (\<forall>j. i < j \<and> j \<le> k \<longrightarrow> running_sum s (map (quarters q) [i..<j]) \<le> m) \<and>
           m < running_sum s (map (quarters q) [i..<Suc k])"
  using s i
proof (induction "4 * n + q - i * q" arbitrary: s i rule: less_induct)
  case less
  define t where "t = fl_add s (quarters q i)"
  have nn: "0 \<le> quarters q i" by (simp add: quarters_def)
  have iq: "i * q \<le> 2 ^ 53" using less.prems(2) m(2) by linarith
  have t_ge: "quarters q i \<le> t"
    unfolding t_def fl_add_def
    by (rule fl_ge_float) (use less.prems(1) fl_quarters[OF iq] in \<open>auto simp: is_float_def\<close>)
  show ?case
  proof (cases "m < t")
    case True
    then show ?thesis
      by (intro exI[of _ i]) (simp add: cpu_payload_loop.simps t_def[symmetric] running_sum_def)
  next
    case False
    with t_ge have "quarters q i \<le> m" by simp
    with m(1) have "quarters q i < of_nat n" by linarith
    then have "(of_nat (i * q) :: rat) < of_nat (4 * n)" by (simp add: quarters_def)
    then have lt: "i * q < 4 * n" by (simp only: of_nat_less_iff)
    then have ub: "Suc i * q \<le> 4 * n + q" by simp
    have dec: "4 * n + q - Suc i * q < 4 * n + q - i * q"
      using q lt by simp
    have t0: "0 \<le> t" using t_ge nn by simp
    from less.hyps[OF dec t0 ub] obtain k where k: "Suc i \<le> k"
      "cpu_payload_loop m (quarters q 1) t (quarters q (Suc i)) = Some (map (quarters q) [Suc i..<k])"
      "\<forall>j. Suc i < j \<and> j \<le> k \<longrightarrow> running_sum t (map (quarters q) [Suc i..<j]) \<le> m"
      "m < running_sum t (map (quarters q) [Suc i..<Suc k])"
      by blast
    have e: "fl_add (quarters q i) (quarters q 1) = quarters q (Suc i)"
      by (rule quarters_step) (use ub m(2) in linarith)
    have up: "[i..<j] = i # [Suc i..<j]" if "i < j" for j
      using that by (rule upt_conv_Cons)
    have "cpu_payload_loop m (quarters q 1) s (quarters q i) = Some (map (quarters q) [i..<k])"
      using k(1,2) False e
      by (subst cpu_payload_loop.simps) (simp add: t_def[symmetric] up)
    moreover have "running_sum s (map (quarters q) [i..<j]) \<le> m" if "i < j" "j \<le> k" for j
    proof (cases "j = Suc i")
      case True
      with False show ?thesis by (simp add: running_sum_def t_def)
    next
      case False
      with that k(3) show ?thesis by (simp add: up running_sum_def t_def)
    qed
    moreover have "m < running_sum s (map (quarters q) [i..<Suc k])"
      using k(1,4) by (simp add: up running_sum_def t_def del: upt_Suc)
    ultimately show ?thesis using k(1) by (intro exI[of _ k]) auto
  qed
qed

text \<open>
  The payload of \<open>cpu_payload_data\<close>: the multiples of the step, as many of them as keep the sum
  within the maximum.
\<close>

lemma filter_quarters: "0 < q \<Longrightarrow> 0 < k \<Longrightarrow>
    filter (\<lambda>v. v \<noteq> 0) (map (quarters q) [0..<k]) = map (quarters q) [1..<k]"
  by (simp add: upt_conv_Cons[of 0] filter_map o_def quarters_def)

lemma running_sum_0: "is_float s \<Longrightarrow> running_sum s (0 # xs) = running_sum s xs"
  by (simp add: running_sum_def fl_add_def is_float_def)

lemma cpu_payload_data_steps:
  assumes "0 < q" "to_float step = quarters q 1" "0 \<le> to_float cp" "is_float (to_float cp)"
    "exact mx < of_nat n" "4 * n + 2 * q \<le> 2 ^ 53"
  shows "\<exists>k. cpu_payload_data mx cp step = Some (map (quarters q) [1..<Suc k]) \<and>
     (to_float cp \<le> exact mx \<longrightarrow>
        (\<forall>j \<le> k. running_sum (to_float cp) (map (quarters q) [1..<Suc j]) \<le> exact mx) \<and>
        exact mx < running_sum (to_float cp) (map (quarters q) [1..<Suc (Suc k)])) \<and>
     (exact mx < to_float cp \<longrightarrow> k = 0)"
proof -
  let ?s = "to_float cp" and ?m = "exact mx"
  obtain k where k: "cpu_payload_loop ?m (quarters q 1) ?s (quarters q 0) = Some (map (quarters q) [0..<k])"
    "\<forall>j. 0 < j \<and> j \<le> k \<longrightarrow> running_sum ?s (map (quarters q) [0..<j]) \<le> ?m"
    "?m < running_sum ?s (map (quarters q) [0..<Suc k])"
    using cpu_payload_loop_steps[OF assms(1,3,5,6), of 0] by auto
  have rs: "running_sum ?s (map (quarters q) [0..<Suc j]) = running_sum ?s (map (quarters q) [1..<Suc j])" for j
    using running_sum_0[OF assms(4)] by (simp add: upt_conv_Cons quarters_def del: upt_Suc)
  have q0: "quarters q 0 = 0" by (simp add: quarters_def)
  show ?thesis
  proof (cases k)
    case 0
    with k(3) assms(4) have lt: "?m < ?s"
      by (simp add: running_sum_def q0 fl_add_def is_float_def)
    with 0 k(1) show ?thesis
      by (intro exI[of _ 0]) (simp add: cpu_payload_data_def assms(2) q0)
  next
    case (Suc k')
    have "?s \<le> ?m"
      using k(2) Suc assms(4) by (auto simp: running_sum_def q0 fl_add_def is_float_def dest: spec[of _ 1])
    moreover have "cpu_payload_data mx cp step = Some (map (quarters q) [1..<Suc k'])"
      using k(1) Suc filter_quarters[OF assms(1), of k]
      by (simp add: cpu_payload_data_def assms(2) q0 del: upt_Suc)
    moreover have "running_sum ?s (map (quarters q) [1..<Suc j]) \<le> ?m" if "j \<le> k'" for j
    proof -
      have "running_sum ?s (map (quarters q) [0..<Suc j]) \<le> ?m"
        using k(2)[rule_format, of "Suc j"] that Suc by (simp del: upt_Suc)
      then show ?thesis by (simp only: rs)
    qed
    moreover have "?m < running_sum ?s (map (quarters q) [1..<Suc (Suc k')])"
      using k(3) Suc by (simp add: rs del: upt_Suc)
    ultimately show ?thesis
      by (intro exI[of _ k']) auto
  qed
qed

text \<open>With whole processors and step 1 the sums are exact: triangular numbers.\<close>

definition tri :: "nat \<Rightarrow> int" where
  "tri k = int (\<Sum>{1..k})"

lemma tri_simps [simp]: "tri 0 = 0" "tri (Suc k) = tri k + int (Suc k)"
  by (simp_all add: tri_def)

lemma tri_ge: "int k \<le> tri k"
  by (induction k) auto

lemma quarters_4: "quarters 4 i = of_nat i"
  by (simp add: quarters_def)

lemma running_sum_snoc:
  "running_sum s (map f [1..<Suc (Suc j)]) = fl_add (running_sum s (map f [1..<Suc j])) (f (Suc j))"
  by (simp add: running_sum_def)

lemma running_sum_tri:
  assumes "0 \<le> c" "M \<le> 2 ^ 40"
    and "\<And>j. j \<le> k \<Longrightarrow> running_sum (of_int c) (map (quarters 4) [1..<Suc j]) \<le> of_int M"
  shows "j \<le> Suc k \<Longrightarrow> running_sum (of_int c) (map (quarters 4) [1..<Suc j]) = of_int (c + tri j)"
proof (induction j)
  case 0
  then show ?case by (simp add: running_sum_def)
next
  case (Suc j)
  then have e: "running_sum (of_int c) (map (quarters 4) [1..<Suc j]) = of_int (c + tri j)"
    by simp
  with assms(3)[of j] Suc.prems have "(of_int (c + tri j) :: rat) \<le> of_int M" by simp
  then have le: "c + tri j \<le> 2 ^ 40" using assms(2) by (simp only: of_int_le_iff)
  with assms(1) tri_ge[of j] have j: "int j \<le> 2 ^ 40" by linarith
  have "\<bar>c + tri (Suc j)\<bar> \<le> 2 ^ 53"
    using le j assms(1) tri_ge[of "Suc j"] by (simp add: abs_of_nonneg)
  then have "fl (of_int (c + tri (Suc j))) = of_int (c + tri (Suc j))" by (rule fl_of_int)
  moreover have "of_int (c + tri j) + quarters 4 (Suc j) = (of_int (c + tri (Suc j)) :: rat)"
    by (simp add: quarters_4)
  ultimately show ?case
    unfolding running_sum_snoc e fl_add_def by (simp add: add.assoc)
qed

lemma cpu_payload_data_int:
  assumes "0 \<le> cp" "cp \<le> 2 ^ 40" "0 \<le> mx" "mx \<le> 2 ^ 40"
  shows "\<exists>k. cpu_payload_data (NInt mx) (NInt cp) (NInt 1) = Some (map of_nat [1..<Suc k]) \<and>
     (cp \<le> mx \<longrightarrow> cp + tri k \<le> mx \<and> mx < cp + tri (Suc k)) \<and> (mx < cp \<longrightarrow> k = 0)"
proof -
  define n where "n = nat mx + 1"
  have tf: "to_float (NInt cp) = of_int cp" using assms by simp
  have n: "exact (NInt mx) < of_nat n"
    using assms(3) by (simp add: n_def)
  have "n \<le> 2 ^ 40 + 1"
    using assms(3,4) by (simp add: n_def nat_le_iff)
  then have b: "4 * n + 2 * 4 \<le> 2 ^ 53" by simp
  have st: "to_float (NInt 1) = quarters 4 1"
    using fl_of_int[of 1] by (simp add: quarters_def)
  obtain k where k: "cpu_payload_data (NInt mx) (NInt cp) (NInt 1) = Some (map (quarters 4) [1..<Suc k])"
    "cp \<le> mx \<longrightarrow> (\<forall>j \<le> k. running_sum (of_int cp) (map (quarters 4) [1..<Suc j]) \<le> of_int mx) \<and>
        of_int mx < running_sum (of_int cp) (map (quarters 4) [1..<Suc (Suc k)])"
    "mx < cp \<longrightarrow> k = 0"
    using cpu_payload_data_steps[OF _ st _ _ n b, of "NInt cp"] assms(1) tf
    by (auto simp: is_float_def)
  have "cp + tri k \<le> mx \<and> mx < cp + tri (Suc k)" if "cp \<le> mx"
  proof -
    have r: "running_sum (of_int cp) (map (quarters 4) [1..<Suc j]) = of_int (cp + tri j)"
      if "j \<le> Suc k" for j
      by (rule running_sum_tri[of cp mx k j]) (use k(2) \<open>cp \<le> mx\<close> assms that in auto)
    from k(2) that have "(of_int (cp + tri k) :: rat) \<le> of_int mx"
      "(of_int mx :: rat) < of_int (cp + tri (Suc k))"
      using r[of k] r[of "Suc k"] by (auto simp del: upt_Suc)
    then show ?thesis by (simp only: of_int_le_iff of_int_less_iff)
  qed
  with k(1,3) show ?thesis
    by (intro exI[of _ k]) (simp add: quarters_4)
qed

subsection \<open>mix\_payload\_data\<close>

text \<open>
  The total of the given payload is split at random. Every draw takes at least 1 of what remains,
  so the total bounds the number of draws; with a generator that keeps its contract the bound is
  never used up (\<open>NoReturn\<close>).
\<close>

fun sum_vals :: "pyval \<Rightarrow> pyval list \<Rightarrow> pyval result" where
  "sum_vals a [] = Inr a"
| "sum_vals a (v # vs) = rbind (vadd a v) (\<lambda>b. sum_vals b vs)"

fun mix_loop :: "'w dlpar_env \<Rightarrow> nat \<Rightarrow> int \<Rightarrow> ('w, int list) dlpar" where
  "mix_loop E n remaining_sum =
     (if remaining_sum > 0 then
        (case n of
           0 \<Rightarrow> raise NoReturn
         | Suc n' \<Rightarrow>
             bnd (call ''randint'' [''1'', str_int remaining_sum] (randint E 1 remaining_sum)) (\<lambda>value.
             bnd (mix_loop E n' (remaining_sum - value)) (\<lambda>vs. ret (value # vs))))
      else ret [])"

declare mix_loop.simps [simp del]

definition mix_payload_data :: "'w dlpar_env \<Rightarrow> pyval list \<Rightarrow> ('w, int list) dlpar" where
  "mix_payload_data E values =
     bnd (lift (rbind (sum_vals (VInt 0) values) vint)) (\<lambda>total_sum.
     mix_loop E (nat total_sum) total_sum)"

definition randint_ok :: "'w dlpar_env \<Rightarrow> bool" where
  "randint_ok E \<longleftrightarrow>
     (\<forall>a b w. a \<le> b \<longrightarrow> (\<exists>v w'. randint E a b w = (Inr v, w') \<and> a \<le> v \<and> v \<le> b))"

lemma mix_loop_total:
  assumes "randint_ok E" "r \<le> int n"
  shows "wp (mix_loop E n r)
           (\<lambda>vs t. sum_list vs = max 0 r \<and> (\<forall>v \<in> set vs. 1 \<le> v) \<and> last_result t = last_result s \<and>
                   config_file t = config_file s)
           (\<lambda>_ _. False) s"
  using assms(2)
proof (induction n arbitrary: r s)
  case 0
  then show ?case by (simp add: mix_loop.simps wp)
next
  case (Suc n)
  show ?case
  proof (cases "r > 0")
    case False
    then show ?thesis by (simp add: mix_loop.simps wp)
  next
    case True
    then have "1 \<le> r" by simp
    with assms(1) obtain v w' where v: "randint E 1 r (world s) = (Inr v, w')" "1 \<le> v" "v \<le> r"
      unfolding randint_ok_def by blast
    let ?t = "s\<lparr>world := w', trace := trace s @ [Call ''randint'' [''1'', str_int r]]\<rparr>"
    have "wp (mix_loop E n (r - v))
           (\<lambda>vs t. sum_list vs = max 0 (r - v) \<and> (\<forall>v \<in> set vs. 1 \<le> v) \<and>
                   last_result t = last_result ?t \<and> config_file t = config_file ?t)
           (\<lambda>_ _. False) ?t"
      using Suc.prems v by (intro Suc.IH) simp
    with True v show ?thesis
      by (subst mix_loop.simps) (auto simp: wp elim!: wp_conseq)
  qed
qed

subsection \<open>mem\_payload\_data\<close>

text \<open>
  Memory grows in blocks of the size \<open>lmb\<close>. A payload starts with one block and doubles; the last
  element is what remains up to the maximum. Without a maximum the amounts are for a removal: 40 or
  80 per cent of the current memory, depending on whether the HTX tool is idle, rounded up to the
  next multiple of \<open>lmb\<close>, and counted from 0. The numbers are integers or floats as in Python.
\<close>

partial_function (option) mem_payload_loop :: "num \<Rightarrow> num \<Rightarrow> num \<Rightarrow> num list option" where
  "mem_payload_loop max_value current_sum index_value =
     (if exact (nadd current_sum index_value) \<le> exact max_value then
        (let current_sum = nadd current_sum index_value;
             remaining_capacity = nsub max_value current_sum
         in if exact remaining_capacity \<le> 0 then Some [index_value]
            else Option.bind
                   (mem_payload_loop max_value current_sum
                      (if exact remaining_capacity < exact index_value then remaining_capacity
                       else nmin (nmul index_value (NInt 2)) remaining_capacity))
                   (\<lambda>xs. Some (index_value # xs)))
      else Some [])"

definition mem_limit :: "bool \<Rightarrow> int \<Rightarrow> int \<Rightarrow> rat" where
  "mem_limit idle curr_mem lmb =
     (let max_value = fl_mul (fl (of_int curr_mem)) (fl (if idle then 8 / 10 else 4 / 10))
      in fl_add max_value (fl_sub (fl (of_int lmb)) (fl_mod max_value (fl (of_int lmb)))))"

definition mem_payload_data :: "'w dlpar_env \<Rightarrow> int \<Rightarrow> int \<Rightarrow> int \<Rightarrow> ('w, num list) dlpar" where
  "mem_payload_data E curr_mem lmb max_value =
    (let run = (\<lambda>m c. case mem_payload_loop m c (NInt lmb) of None \<Rightarrow> raise NoReturn | Some xs \<Rightarrow> ret xs) in
     if max_value = 0 then
       bnd (call ''system_output'' [''htxcmdline -query  -mdt mdt.*'']
              (system_output E ''htxcmdline -query  -mdt mdt.*'' True)) (\<lambda>cmd_output.
       if lmb = 0 then raise ZeroDivisionError
       else run (NFloat (mem_limit (contains ''IDLE'' cmd_output) curr_mem lmb)) (NInt 0))
     else run (NInt max_value) (NInt curr_mem))"

text \<open>
  With a positive block the loop ends, and if the first block fits, the elements add up to exactly
  the distance to the maximum. They are multiples of the block when that distance is.
\<close>

lemma mem_payload_loop_sum:
  assumes "intlike mx m" "m \<le> 2 ^ 51"
    and "intlike cs c" "0 \<le> c" "c \<le> 2 ^ 51" "intlike ix i" "0 < i" "i \<le> 2 ^ 51"
  shows "\<exists>xs is. mem_payload_loop mx cs ix = Some xs \<and> list_all2 intlike xs is \<and>
           (if c + i \<le> m then is \<noteq> [] \<and> hd is = i \<and> c + sum_list is = m else is = []) \<and>
           (\<forall>x \<in> set is. 0 < x) \<and> (\<forall>d. d dvd i \<and> d dvd m - c \<longrightarrow> (\<forall>x \<in> set is. d dvd x)) \<and>
           (ix = NInt i \<or> c + i = m \<longrightarrow> (\<forall>x \<in> set (butlast xs). \<exists>n. x = NInt n))"
  using assms(3-)
proof (induction "nat (m - c)" arbitrary: cs c ix i rule: less_induct)
  case less
  note cs = \<open>intlike cs c\<close> and ix = \<open>intlike ix i\<close>
  define cs' where "cs' = nadd cs ix"
  have cs': "intlike cs' (c + i)"
    unfolding cs'_def using less.prems by (intro intlike_arith(1)[OF cs ix]) simp
  show ?case
  proof (cases "c + i \<le> m")
    case False
    then have "mem_payload_loop mx cs ix = Some []"
      using intlike_exact[OF cs'] intlike_exact[OF assms(1)]
      by (subst mem_payload_loop.simps) (simp flip: cs'_def)
    with False show ?thesis by (intro exI[of _ "[]"]) simp
  next
    case True
    define rem where "rem = nsub mx cs'"
    have rem: "intlike rem (m - (c + i))"
      unfolding rem_def using less.prems True assms(2) by (intro intlike_arith(2)[OF assms(1) cs']) simp
    have step: "mem_payload_loop mx cs ix =
      (if m - (c + i) \<le> 0 then Some [ix]
       else Option.bind (mem_payload_loop mx cs'
              (if m - (c + i) < i then rem else nmin (nmul ix (NInt 2)) rem)) (\<lambda>xs. Some (ix # xs)))"
    proof -
      have "exact cs' \<le> exact mx" "exact rem \<le> 0 \<longleftrightarrow> m - (c + i) \<le> 0"
        "exact rem < exact ix \<longleftrightarrow> m - (c + i) < i"
        using True intlike_exact[OF cs'] intlike_exact[OF assms(1)] intlike_exact[OF rem] intlike_exact[OF ix]
        by (simp_all only: of_int_le_iff of_int_less_iff of_int_le_0_iff)
      then show ?thesis
        by (subst mem_payload_loop.simps) (simp add: Let_def flip: cs'_def rem_def)
    qed
    show ?thesis
    proof (cases "m - (c + i) \<le> 0")
      case last: True
      with True have "c + i = m" by simp
      with last step ix less.prems show ?thesis
        by (intro exI[of _ "[ix]"] exI[of _ "[i]"]) auto
    next
      case False
      define i' where "i' = (if m - (c + i) < i then m - (c + i) else min (i * 2) (m - (c + i)))"
      define ix' where "ix' = (if m - (c + i) < i then rem else nmin (nmul ix (NInt 2)) rem)"
      have i': "0 < i'" "i' \<le> m - (c + i)" using False less.prems(5) by (auto simp: i'_def)
      have "intlike (nmul ix (NInt 2)) (i * 2)"
        using less.prems by (intro intlike_arith(3)[OF ix]) auto
      then have ix': "intlike ix' i'"
        using rem intlike_min by (auto simp: ix'_def i'_def)
      have "nat (m - (c + i)) < nat (m - c)" using less.prems(5) True False by simp
      from less.hyps[OF this cs' _ _ ix' i'(1)] obtain xs "is" where h:
        "mem_payload_loop mx cs' ix' = Some xs" "list_all2 intlike xs is"
        "if (c + i) + i' \<le> m then is \<noteq> [] \<and> hd is = i' \<and> (c + i) + sum_list is = m else is = []"
        "\<forall>x \<in> set is. 0 < x" "\<forall>d. d dvd i' \<and> d dvd m - (c + i) \<longrightarrow> (\<forall>x \<in> set is. d dvd x)"
        "ix' = NInt i' \<or> (c + i) + i' = m \<longrightarrow> (\<forall>x \<in> set (butlast xs). \<exists>n. x = NInt n)"
        using less.prems i' assms(2) True by auto
      have dv: "d dvd i'" "d dvd m - (c + i)" if "d dvd i" "d dvd m - c" for d
      proof -
        have "m - (c + i) = (m - c) - i" by simp
        with that show "d dvd m - (c + i)" by (metis dvd_diff)
        with that show "d dvd i'" by (auto simp: i'_def min_def)
      qed
      have "mem_payload_loop mx cs ix = Option.bind (mem_payload_loop mx cs' ix') (\<lambda>xs. Some (ix # xs))"
        using step unfolding ix'_def by (simp only: False if_False)
      then have run: "mem_payload_loop mx cs ix = Some (ix # xs)"
        using h(1) by simp
      have "(c + i) + i' \<le> m" using i'(2) by simp
      with h(3) have "(c + i) + sum_list is = m" by simp
      then have sum: "c + sum_list (i # is) = m" by simp
      have dvd: "\<forall>d. d dvd i \<and> d dvd m - c \<longrightarrow> (\<forall>x \<in> set (i # is). d dvd x)"
        using h(5) dv by (metis set_ConsD)
      have pos: "\<forall>x \<in> set (i # is). 0 < x" using h(4) less.prems(5) by simp
      have rel: "list_all2 intlike (ix # xs) (i # is)" using h(2) ix by simp
      have next_int: "ix' = NInt i' \<or> (c + i) + i' = m" if "ix = NInt i"
        using that intlike_exact[OF rem] by (auto simp: ix'_def i'_def nmin_def min_def)
      have ints: "ix = NInt i \<or> c + i = m \<longrightarrow> (\<forall>x \<in> set (butlast (ix # xs)). \<exists>n. x = NInt n)"
        using h(6) next_int False by auto
      have ne: "i # is \<noteq> [] \<and> hd (i # is) = i \<and> c + sum_list (i # is) = m" using sum by simp
      show ?thesis
        by (rule exI[of _ "ix # xs"], rule exI[of _ "i # is"])
           (simp only: True if_True, intro conjI run rel ne[THEN conjunct1]
              ne[THEN conjunct2, THEN conjunct1] ne[THEN conjunct2, THEN conjunct2] pos dvd ints)
    qed
  qed
qed

text \<open>The limit of a removal is the multiple of the block just above the percentage.\<close>

lemma fl_percent: "4 / 10 \<le> fl (4 / 10)" "8 / 10 \<le> fl (8 / 10)" "fl (4 / 10) \<le> 1" "fl (8 / 10) \<le> 1"
  by code_simp+

definition usable_mem :: "bool \<Rightarrow> int \<Rightarrow> rat" where
  "usable_mem idle curr_mem = fl_mul (fl (of_int curr_mem)) (fl (if idle then 8 / 10 else 4 / 10))"

lemma usable_mem_bounds:
  assumes "0 < lmb" "5 * lmb \<le> 2 * cm" "cm \<le> 2 ^ 50"
  shows "of_int lmb \<le> usable_mem idle cm" "usable_mem idle cm \<le> of_int cm"
proof -
  have cm: "fl (of_int cm) = (of_int cm :: rat)" "fl (of_int lmb) = (of_int lmb :: rat)"
    using assms by (intro fl_of_int; simp)+
  let ?p = "fl (if idle then 8 / 10 else 4 / 10) :: rat"
  have p: "4 / 10 \<le> ?p" "?p \<le> 1" using fl_percent by auto
  have cm0: "(0::rat) \<le> of_int cm" using assms by simp
  have "(of_int (5 * lmb) :: rat) \<le> of_int (2 * cm)" using assms(2) by (simp only: of_int_le_iff)
  then have "(of_int lmb :: rat) \<le> of_int cm * (4 / 10)" by simp
  also have "\<dots> \<le> of_int cm * ?p" using p(1) cm0 by (rule mult_left_mono)
  finally show "of_int lmb \<le> usable_mem idle cm"
    unfolding usable_mem_def fl_mul_def cm(1) using cm(2) by (intro fl_ge_float) (simp_all add: is_float_def)
  have "of_int cm * ?p \<le> of_int cm" using p(2) cm0 by (metis mult_left_mono mult.right_neutral)
  then show "usable_mem idle cm \<le> of_int cm"
    unfolding usable_mem_def fl_mul_def cm(1) using cm(1) by (intro fl_le_float) (simp_all add: is_float_def)
qed

lemma mem_limit_grid:
  assumes "0 < lmb" "5 * lmb \<le> 2 * cm" "cm \<le> 2 ^ 50"
  shows "mem_limit idle cm lmb = of_int ((\<lfloor>usable_mem idle cm / of_int lmb\<rfloor> + 1) * lmb)"
proof -
  note b = usable_mem_bounds[OF assms, of idle]
  have l: "fl (of_int lmb) = (of_int lmb :: rat)" using assms by (intro fl_of_int) simp
  have "(of_int cm :: rat) \<le> of_int (2 ^ 50)" using assms(3) by (simp only: of_int_le_iff)
  with b(2) have x: "usable_mem idle cm \<le> 2 ^ 52" by simp
  have f: "is_float (usable_mem idle cm)" by (simp add: usable_mem_def fl_mul_def)
  show ?thesis
    using rat_mod_grid[OF f assms(1) b(1) x] by (simp add: mem_limit_def l flip: usable_mem_def)
qed

text \<open>The payload of a removal, of an addition, and what is common to them.\<close>

definition mem_payload_ok :: "int \<Rightarrow> int \<Rightarrow> num list \<Rightarrow> bool" where
  "mem_payload_ok lmb tot xs \<longleftrightarrow>
     (\<exists>is. list_all2 intlike xs is \<and> sum_list is = tot \<and> (\<forall>x \<in> set is. 0 < x \<and> lmb dvd x) \<and>
           xs \<noteq> [] \<and> hd xs = NInt lmb \<and> (\<forall>x \<in> set (butlast xs). \<exists>n. x = NInt n))"

lemma mem_payload_loop_hd:
  "mem_payload_loop mx cs ix = Some xs \<Longrightarrow> xs \<noteq> [] \<Longrightarrow> hd xs = ix"
  by (subst (asm) mem_payload_loop.simps) (auto simp: Let_def Option.bind_eq_Some_conv split: if_splits)

lemma mem_payload_loop_ok:
  assumes "intlike mx m" "m \<le> 2 ^ 51" "intlike cs c" "0 \<le> c" "0 < lmb" "c + lmb \<le> m" "lmb dvd m - c"
  shows "\<exists>xs. mem_payload_loop mx cs (NInt lmb) = Some xs \<and> mem_payload_ok lmb (m - c) xs"
proof -
  have "intlike (NInt lmb) lmb" using assms by (intro intlikeI) simp
  with mem_payload_loop_sum[OF assms(1,2,3,4) _ this assms(5)] assms(2,4-7)
  obtain xs "is" where r: "mem_payload_loop mx cs (NInt lmb) = Some xs" "list_all2 intlike xs is"
    "is \<noteq> []" "hd is = lmb" "c + sum_list is = m" "\<forall>x \<in> set is. 0 < x" "\<forall>x \<in> set is. lmb dvd x"
    "\<forall>x \<in> set (butlast xs). \<exists>n. x = NInt n"
    by auto
  have "xs \<noteq> []" using r(2,3) by auto
  with r mem_payload_loop_hd[OF r(1)] show ?thesis
    by (intro exI[of _ xs]) (auto simp: mem_payload_ok_def)
qed

end
