(* ===== verification/Dlpar_Main.thy ===== *)
theory Dlpar_Main
  imports Dlpar_Payload
begin

section \<open>The DLPAR tests (dlpar/dlpar\_main.py)\<close>

text \<open>
  The class \<^verbatim>\<open>DlparTests\<close>: how \<^verbatim>\<open>setUp\<close> finds the partition and its console, the file that
  carries a payload from one test to the next, and the tests, which add, remove and move
  processors and memory through the classes of \<open>Dlpar_Api\<close>. The attributes \<^verbatim>\<open>setUp\<close> leaves on
  \<^verbatim>\<open>self\<close> are the record \<open>dlpar_test\<close>. The method \<^verbatim>\<open>run_cmd\<close>, which nothing calls, is left out.
\<close>

subsection \<open>Probing the partition\<close>

definition get_mcp_component :: "'w dlpar_env \<Rightarrow> string \<Rightarrow> ('w, string) dlpar" where
  "get_mcp_component E component =
     bnd (call ''system_output'' [''lsrsrc IBM.MCP '' @ component]
            (system_output E (''lsrsrc IBM.MCP '' @ component) True)) (\<lambda>out.
     bnd (for_ret (splitlines out) (\<lambda>line.
            if contains component line then
              bnd (lift (py_nth (split_ws line) (-1))) (\<lambda>w. ret (Some (strip_chars ''{}\"'' w)))
            else ret None)) (\<lambda>r.
     ret (case r of None \<Rightarrow> [] | Some v \<Rightarrow> v)))"

text \<open>
  \<^verbatim>\<open>re.match\<close> of \<^verbatim>\<open>\s*Hostname:\s*(\S+)\<close> on a line, and \<^verbatim>\<open>re.search\<close> of \<^verbatim>\<open>=\s*(\d+)\<close> in a
  text: the value is the group, \<open>None\<close> when nothing matches.
\<close>

definition match_hostname :: "string \<Rightarrow> string option" where
  "match_hostname line =
     (let t = dropWhile is_space line
      in if startswith t ''Hostname:'' then
           (let g = takeWhile (\<lambda>c. \<not> is_space c) (dropWhile is_space (drop (length ''Hostname:'') t))
            in if g = [] then None else Some g)
         else None)"

fun search_eq_digits :: "string \<Rightarrow> string option" where
  "search_eq_digits [] = None"
| "search_eq_digits (c # s) =
     (let g = takeWhile is_digit (dropWhile is_space s)
      in if c = CHR ''='' \<and> g \<noteq> [] then Some g else search_eq_digits s)"

definition get_hmc_from_mcproxy :: "'w dlpar_env \<Rightarrow> ('w, string) dlpar" where
  "get_hmc_from_mcproxy E =
     bnd (call ''system_output'' [''lssrc -ls mcproxy''] (system_output E ''lssrc -ls mcproxy'' True))
       (\<lambda>out.
     bnd (for_ret (splitlines out) (\<lambda>line. ret (match_hostname line))) (\<lambda>r.
     ret (case r of None \<Rightarrow> [] | Some v \<Rightarrow> v)))"

definition get_partition_name :: "'w dlpar_env \<Rightarrow> string \<Rightarrow> ('w, string) dlpar" where
  "get_partition_name E component =
     bnd (call ''system_output'' [''lparstat -i''] (system_output E ''lparstat -i'' True)) (\<lambda>out.
     bnd (for_ret (splitlines out) (\<lambda>line.
            if contains component line then
              bnd (lift (py_nth (split_on (CHR '':'') line) (-1))) (\<lambda>w.
              sq (emit (Call ''print'' [strip w])) (ret (Some (strip w))))
            else ret None)) (\<lambda>r.
     ret (case r of None \<Rightarrow> [] | Some v \<Rightarrow> v)))"

subsection \<open>The payload file\<close>

text \<open>
  The file is appended to. A line holds \<^verbatim>\<open>str\<close> of a list of numbers; \<open>eval_list\<close> is \<^verbatim>\<open>eval\<close> on
  such a line. Python would evaluate any other expression found there; the model covers literal
  lists of integers and floats only and reports any other text as \<open>LibError\<close>.
\<close>

definition data_payload_backup :: "pyval list \<Rightarrow> ('w, unit) dlpar" where
  "data_payload_backup payload_data =
     modify (\<lambda>s. s\<lparr>config_file :=
       Some ((case config_file s of None \<Rightarrow> [] | Some t \<Rightarrow> t) @ str_vlist payload_data @ [newline])\<rparr>)"

text \<open>\<^verbatim>\<open>readlines\<close> keeps the newline of every line.\<close>

fun readlines_acc :: "string \<Rightarrow> string \<Rightarrow> string list" where
  "readlines_acc w [] = (if w = [] then [] else [rev w])"
| "readlines_acc w (c # s) =
     (if c = newline then rev (c # w) # readlines_acc [] s else readlines_acc (c # w) s)"

definition data_payload_extract :: "('w, string list) dlpar" where
  "data_payload_extract =
     bnd (gets config_file) (\<lambda>f.
     case f of None \<Rightarrow> raise FileNotFoundError | Some t \<Rightarrow> ret (readlines_acc [] t))"

definition eval_num :: "string \<Rightarrow> pyval result" where
  "eval_num w =
     (let t = strip w in
      case py_int t of
        Inr n \<Rightarrow> Inr (VInt n)
      | Inl _ \<Rightarrow> (case py_float t of Inr x \<Rightarrow> Inr (VFloat x) | Inl _ \<Rightarrow> Inl (LibError ''eval'')))"

definition eval_list :: "string \<Rightarrow> pyval list result" where
  "eval_list line =
     (let t = strip line in
      if length t < 2 \<or> hd t \<noteq> CHR ''['' \<or> last t \<noteq> CHR '']'' then Inl (LibError ''eval'')
      else if strip (butlast (tl t)) = [] then Inr []
      else mapM_r eval_num (split_on (CHR '','') (butlast (tl t))))"

definition payload_line :: "string list \<Rightarrow> int \<Rightarrow> pyval list result" where
  "payload_line lines i = rbind (py_nth lines i) eval_list"

definition remove_payload_file :: "('w, unit) dlpar" where
  "remove_payload_file =
     bnd (gets config_file) (\<lambda>f.
     case f of None \<Rightarrow> raise FileNotFoundError | Some _ \<Rightarrow> modify (\<lambda>s. s\<lparr>config_file := None\<rparr>))"

subsection \<open>setUp\<close>

definition list_payload :: "string list" where
  "list_payload =
     [''cfg_cpu_per_proc'', ''hmc_manageSystem'', ''hmc_user'', ''hmc_passwd'', ''target_lpar_hostname'',
      ''target_partition'', ''target_user'', ''target_passwd'', ''ded_quantity_to_test'', ''sleep_time'',
      ''iterations'', ''vir_quantity_to_test'', ''cpu_quantity_to_test'', ''mem_quantity_to_test'',
      ''mem_linux_machine'']"

record dlpar_test =
  lpar_mode :: pyval
  sorted_payload :: payload
  iterations :: pyval

text \<open>
  \<^verbatim>\<open>params\<close> are the parameters of the test. The address of the console is polled for \<open>n\<close> times;
  the fallback is asked when no poll found one.
\<close>

definition setUp :: "'w dlpar_env \<Rightarrow> nat \<Rightarrow> payload \<Rightarrow> ('w, dlpar_test) dlpar" where
  "setUp E n params =
     bnd (wait_str n (get_mcp_component E ''HMCIPAddr'')) (\<lambda>ip.
     bnd (case ip of
            Some v \<Rightarrow> ret v
          | None \<Rightarrow>
              sq (log Info (''HMCIPAddr not found via lsrsrc IBM.MCP, '' @
                            ''falling back to lssrc -ls mcproxy for hostname''))
                 (get_hmc_from_mcproxy E)) (\<lambda>hmc_ip.
     bnd (get_partition_name E ''Partition Name'') (\<lambda>pri_partition.
     bnd (get_partition_name E ''Node Name'') (\<lambda>pri_name.
     sq (log Info ''Calling Config file creation method--!!'')
    (let res = (\<lambda>k. if k \<in> set list_payload then
                       Some (case params k of None \<Rightarrow> VStr [] | Some v \<Rightarrow> v)
                     else if k = ''src_partition'' then Some (VStr pri_partition)
                     else if k = ''src_name'' then Some (VStr pri_name)
                     else if k = ''hmc_name'' then Some (VStr hmc_ip)
                     else None)
     in ret \<lparr>lpar_mode = (case params ''lp_mode'' of None \<Rightarrow> VStr ''dedicated'' | Some v \<Rightarrow> v),
             sorted_payload = res, iterations = get res ''iterations''\<rparr>)))))"

subsection \<open>When a command fails\<close>

text \<open>The text of the console is UTF-8; one of the messages holds a typographic apostrophe.\<close>

definition capacity_messages :: "string list" where
  "capacity_messages =
     [''The operation failed because the ratio of assigned processing units to assigned virtual processors'',
      ''processing units to exceed the maximum capacity allowed with the virtual processor setting'',
      ''The quantity to be added exceeds the available resources.'',
      ''Your memory request exceeds the profile'' @ [CHR 0x27] @ ''s Maximum memory limit.'',
      ''Your memory request is below the profile'' @ [CHR 0xE2, CHR 0x80, CHR 0x99] @
        ''s Minimum memory limit.'',
      ''Not enough memory resources to meet the allocation setting'']"

definition cancel_on_capacity_exceeded :: "string \<Rightarrow> ('w, unit) dlpar" where
  "cancel_on_capacity_exceeded stdout =
     (if stdout = [] then ret ()
      else if \<exists>m \<in> set capacity_messages. contains m stdout then cancel stdout
      else ret ())"

text \<open>
  The block that follows every command: a return value of 1 ends the test, as cancelled when the
  console reported a lack of capacity and as failed otherwise.
\<close>

definition on_error :: "string \<Rightarrow> int \<Rightarrow> ('w, unit) dlpar" where
  "on_error msg rvalue =
     (if rvalue = 1 then
        bnd (gets last_result) (\<lambda>r.
        bnd (lift (attr r)) (\<lambda>res.
        sq (cancel_on_capacity_exceeded (stdout_text res)) (fail msg)))
      else ret ())"

definition done_msg :: "string \<Rightarrow> pyval \<Rightarrow> string \<Rightarrow> string" where
  "done_msg pre v post = pre @ vstr v @ post @ [newline] @ '' ''"

subsection \<open>Processor tests\<close>

definition ded_add_step :: "'w dlpar_env \<Rightarrow> test_case \<Rightarrow> pyval \<Rightarrow> string \<Rightarrow> string \<Rightarrow> string \<Rightarrow> ('w, unit) dlpar"
where
  "ded_add_step E tc cpu msg pre post =
     bnd (lift (vint cpu)) (\<lambda>n.
     bnd (add_ded_cpu E tc (VInt n)) (\<lambda>rvalue.
     sq (on_error msg rvalue)
        (log Info (done_msg pre cpu post))))"

definition ded_rem_step :: "'w dlpar_env \<Rightarrow> test_case \<Rightarrow> pyval \<Rightarrow> string \<Rightarrow> string \<Rightarrow> string \<Rightarrow> ('w, unit) dlpar"
where
  "ded_rem_step E tc cpu msg pre post =
     bnd (lift (vint cpu)) (\<lambda>n.
     bnd (rem_ded_cpu E tc (VInt n)) (\<lambda>rvalue.
     sq (on_error msg rvalue)
        (log Info (done_msg pre cpu post))))"

definition proc_add_step ::
  "'w dlpar_env \<Rightarrow> test_case \<Rightarrow> pyval \<Rightarrow> string \<Rightarrow> string \<Rightarrow> string \<Rightarrow> ('w, unit) dlpar" where
  "proc_add_step E tc q flag msg done_text =
     bnd (add_proc E tc q flag) (\<lambda>result.
     sq (on_error msg result) (log Info done_text))"

definition proc_rem_step ::
  "'w dlpar_env \<Rightarrow> test_case \<Rightarrow> pyval \<Rightarrow> string \<Rightarrow> string \<Rightarrow> string \<Rightarrow> ('w, unit) dlpar" where
  "proc_rem_step E tc q flag msg done_text =
     bnd (remove_proc E tc q flag) (\<lambda>result.
     sq (on_error msg result) (log Info done_text))"

definition run_loop :: "'a option \<Rightarrow> ('w, 'a) dlpar" where
  "run_loop x = (case x of None \<Rightarrow> raise NoReturn | Some v \<Rightarrow> ret v)"

text \<open>
  In shared mode the two payloads are cut to the same length, and a pair of processing units and
  virtual processors is kept when its ratio is between 0.05 and 1.
\<close>

definition cut_payloads :: "rat list \<Rightarrow> rat list \<Rightarrow> rat list \<times> rat list" where
  "cut_payloads proc_units virtual_procs =
     (take (length virtual_procs) proc_units, take (length proc_units) virtual_procs)"

definition ratio_ok :: "rat \<Rightarrow> rat \<Rightarrow> bool" where
  "ratio_ok pu vp = (let result = fl_div pu vp in fl (5 / 100) \<le> result \<and> result \<le> 1)"

definition pair_payloads :: "rat list \<Rightarrow> rat list \<Rightarrow> (rat list \<times> int list) result" where
  "pair_payloads proc_units virtual_procs =
    (let ps = zip proc_units virtual_procs
     in if \<exists>p \<in> set ps. snd p = 0 then Inl ZeroDivisionError
        else let ok = filter (\<lambda>(pu, vp). ratio_ok pu vp) ps
             in Inr (map fst ok, map (\<lambda>p. py_trunc (snd p)) ok))"

definition test_cpu_add_ded :: "'w dlpar_env \<Rightarrow> dlpar_test \<Rightarrow> ('w, unit) dlpar" where
  "test_cpu_add_ded E t =
     bnd (dedicated_cpu E (sorted_payload t)) (\<lambda>Ded_obj.
     bnd (get_max_proc E Ded_obj) (\<lambda>max_procs.
     bnd (get_curr_proc E Ded_obj) (\<lambda>curr_proc.
     bnd (run_loop (cpu_payload_data (NInt max_procs) (NInt curr_proc) (NInt 1))) (\<lambda>xs.
     let cpu_payload = map VFloat xs in
     sq (data_payload_backup cpu_payload)
    (sq (log Info (''======list of cpu'' @ [CHR 0x27] @ ''s to be added :'' @ str_vlist cpu_payload @ ''======''))
        (for_each cpu_payload (\<lambda>cpu.
           ded_add_step E Ded_obj cpu ''CPU add Command failed please check the logs''
             ''===============> '' '' cpu got added=======>'')))))))"

definition test_cpu_add_shared :: "'w dlpar_env \<Rightarrow> dlpar_test \<Rightarrow> ('w, unit) dlpar" where
  "test_cpu_add_shared E t =
     bnd (cpu_unit E (sorted_payload t)) (\<lambda>Sha_obj.
     bnd (get_max_proc_units E Sha_obj) (\<lambda>max_proc_units.
     sq (log Info (''max proc units: '' @ str_float max_proc_units))
    (bnd (get_curr_proc_unit E Sha_obj) (\<lambda>curr_proc_units.
     sq (log Info (''current proc units :'' @ str_float curr_proc_units))
    (bnd (get_shared_max_proc E Sha_obj) (\<lambda>max_procs.
     sq (log Info (''max proc value:'' @ str_int max_procs))
    (bnd (get_shared_curr_proc E Sha_obj) (\<lambda>curr_proc.
     sq (log Info (''current proc value :'' @ str_int curr_proc))
    (bnd (run_loop (cpu_payload_data (NInt max_procs) (NInt curr_proc)
            (NInt (if max_procs > 20 then 2 else 1)))) (\<lambda>vps.
     bnd (run_loop (cpu_payload_data (NFloat max_proc_units) (NFloat curr_proc_units)
            (NFloat (3 / 4)))) (\<lambda>pus.
     let (proc_units, virtual_procs) = cut_payloads pus vps in
     sq (log Info (''proc units list: '' @ str_vlist (map VFloat proc_units)))
    (sq (log Info (''virtual procs list: '' @ str_vlist (map VFloat virtual_procs)))
    (bnd (lift (pair_payloads proc_units virtual_procs)) (\<lambda>(Pu, Vp).
     sq (data_payload_backup (map VInt Vp))
    (sq (data_payload_backup (map VFloat Pu))
        (for_each (zip Pu Vp) (\<lambda>(pu, vp).
           sq (proc_add_step E Sha_obj (VFloat pu) ''--procunits''
                 ''proc_units add Command failed please check the logs''
                 (done_msg ''====>'' (VFloat pu) '' procunits got added====>''))
              (proc_add_step E Sha_obj (VInt vp) ''--procs''
                 ''CPU add Command failed please check the logs''
                 (done_msg ''===============>'' (VInt vp) '' cpus got added=======>'')))))))))))))))))))"

definition test_cpu_add :: "'w dlpar_env \<Rightarrow> dlpar_test \<Rightarrow> ('w, unit) dlpar" where
  "test_cpu_add E t =
     (if veq (lpar_mode t) (VStr ''dedicated'') then test_cpu_add_ded E t
      else if veq (lpar_mode t) (VStr ''shared'') then test_cpu_add_shared E t
      else ret ())"

definition test_cpu_rm :: "'w dlpar_env \<Rightarrow> dlpar_test \<Rightarrow> ('w, unit) dlpar" where
  "test_cpu_rm E t =
     (if veq (lpar_mode t) (VStr ''dedicated'') then
        bnd (dedicated_cpu E (sorted_payload t)) (\<lambda>Ded_obj.
        bnd data_payload_extract (\<lambda>loaded_payload_data.
        bnd (lift (payload_line loaded_payload_data 0)) (\<lambda>cpupayload.
        sq (log Info (''list of cpu'' @ [CHR 0x27] @ ''s to be removed :'' @ str_vlist cpupayload))
           (for_each cpupayload (\<lambda>cpu.
              ded_rem_step E Ded_obj cpu
                (''CPU remove Command failed please '' @ spaces 30 @ ''check the logs'')
                ''=====> '' '' cpus got removed====>'')))))
      else if veq (lpar_mode t) (VStr ''shared'') then
        bnd (cpu_unit E (sorted_payload t)) (\<lambda>Sha_obj.
        bnd data_payload_extract (\<lambda>loaded_payload_data.
        bnd (lift (payload_line loaded_payload_data 0)) (\<lambda>Vp.
        bnd (lift (payload_line loaded_payload_data 1)) (\<lambda>Pu.
        for_each (zip (rev Vp) (rev Pu)) (\<lambda>(vp, pu).
          sq (proc_rem_step E Sha_obj vp ''--procs''
                (''Cpu remove Command failed please '' @ spaces 30 @ ''check the logs'')
                (done_msg ''====>'' vp '' cpu got removed====>''))
             (proc_rem_step E Sha_obj pu ''--procunits''
                (''proc units remove Command failed '' @ spaces 30 @ ''please check the logs'')
                (done_msg ''===============>'' pu '' procunits got removed=======>'')))))))
      else ret ())"

definition ded_mix_step :: "'w dlpar_env \<Rightarrow> test_case \<Rightarrow> pyval \<Rightarrow> ('w, unit) dlpar" where
  "ded_mix_step E Ded_obj cpu =
     sq (ded_add_step E Ded_obj cpu ''CPU add Command failed please check the logs''
           ''===============>'' '' cpus got added=======>'')
        (ded_rem_step E Ded_obj cpu
           (''CPU remove Command failed please '' @ spaces 30 @ ''check the logs'')
           ''===============>'' '' cpus got removed=======>'')"

definition mix_cpu_ded :: "'w dlpar_env \<Rightarrow> test_case \<Rightarrow> ('w, unit) dlpar" where
  "mix_cpu_ded E Ded_obj =
     bnd data_payload_extract (\<lambda>loaded_payload_data.
     bnd (lift (payload_line loaded_payload_data 0)) (\<lambda>cpu_payload.
     bnd (mix_payload_data E cpu_payload) (\<lambda>mix.
     let cpu_mix = map VInt (mix @ [sum_list mix]) in
     sq (log Info (''list of cpu'' @ [CHR 0x27] @ ''s :'' @ str_vlist cpu_mix))
        (for_each cpu_mix (ded_mix_step E Ded_obj)))))"

definition shared_mix_step :: "'w dlpar_env \<Rightarrow> test_case \<Rightarrow> pyval \<Rightarrow> pyval \<Rightarrow> ('w, unit) dlpar" where
  "shared_mix_step E Sha_obj pu vp =
     bnd (lift (vint vp)) (\<lambda>n.
     sq (proc_add_step E Sha_obj (VInt n) ''--procs''
           ''CPU add Command failed please check the logs''
           (done_msg ''===============>'' vp '' cpus got added=======>''))
    (sq (proc_add_step E Sha_obj pu ''--procunits''
           ''proc_units add Command failed please check the logs''
           (done_msg ''====>'' pu '' procunits got added====>''))
    (sq (proc_rem_step E Sha_obj pu ''--procunits''
           (''proc units remove Command failed '' @ spaces 30 @ ''please check the logs'')
           (done_msg ''===============>'' pu '' procunits got removed=======>''))
        (proc_rem_step E Sha_obj (VInt n) ''--procs''
           (''Cpu remove Command failed '' @ spaces 30 @ ''please check the logs'')
           (done_msg ''====>'' vp '' cpu got removed====>'')))))"

definition mix_cpu_shared :: "'w dlpar_env \<Rightarrow> test_case \<Rightarrow> ('w, unit) dlpar" where
  "mix_cpu_shared E Sha_obj =
     bnd data_payload_extract (\<lambda>loaded_payload_data.
     bnd (lift (payload_line loaded_payload_data 0)) (\<lambda>Vp.
     bnd (lift (payload_line loaded_payload_data 1)) (\<lambda>Pu.
     for_each (zip Pu Vp) (\<lambda>(pu, vp). shared_mix_step E Sha_obj pu vp))))"

definition test_mix_cpu :: "'w dlpar_env \<Rightarrow> dlpar_test \<Rightarrow> ('w, unit) dlpar" where
  "test_mix_cpu E t =
     sq (if veq (lpar_mode t) (VStr ''dedicated'') then
           bnd (dedicated_cpu E (sorted_payload t)) (mix_cpu_ded E)
         else if veq (lpar_mode t) (VStr ''shared'') then
           bnd (cpu_unit E (sorted_payload t)) (mix_cpu_shared E)
         else ret ())
        remove_payload_file"

subsection \<open>Memory tests\<close>

definition mem_add_step :: "'w dlpar_env \<Rightarrow> test_case \<Rightarrow> pyval \<Rightarrow> string \<Rightarrow> string \<Rightarrow> ('w, unit) dlpar" where
  "mem_add_step E tc mem msg done_text =
     bnd (mem_add E tc mem) (\<lambda>rvalue. sq (on_error msg rvalue) (log Info done_text))"

definition mem_rem_step :: "'w dlpar_env \<Rightarrow> test_case \<Rightarrow> pyval \<Rightarrow> string \<Rightarrow> string \<Rightarrow> ('w, unit) dlpar" where
  "mem_rem_step E tc mem msg done_text =
     bnd (mem_rem E tc mem) (\<lambda>rvalue. sq (on_error msg rvalue) (log Info done_text))"

text \<open>Both tests leave the last element of the payload out.\<close>

definition test_mem_add :: "'w dlpar_env \<Rightarrow> dlpar_test \<Rightarrow> ('w, unit) dlpar" where
  "test_mem_add E t =
     bnd (memory E (sorted_payload t) (VStr [])) (\<lambda>Mem_obj.
     bnd (get_max_mem E Mem_obj) (\<lambda>max_mem.
     bnd (get_curr_mem E Mem_obj) (\<lambda>curr_mem.
     bnd (get_lmb_size E Mem_obj) (\<lambda>lmb_value.
     bnd (mem_payload_data E curr_mem lmb_value max_mem) (\<lambda>mem_payload.
     sq (log Info (''=====list of memory to be added=====:'' @ str_vlist (map val_of mem_payload)))
        (for_each (map val_of (butlast mem_payload)) (\<lambda>mem.
           mem_add_step E Mem_obj mem (vstr mem @ '' Memory add Command failed please check the logs'')
             (done_msg ''===============> '' mem '' Memory got added=======>''))))))))"

definition test_mem_rem :: "'w dlpar_env \<Rightarrow> dlpar_test \<Rightarrow> ('w, unit) dlpar" where
  "test_mem_rem E t =
     bnd (memory E (sorted_payload t) (VStr ''r'')) (\<lambda>Mem_obj.
     bnd (get_curr_mem E Mem_obj) (\<lambda>curr_mem.
     bnd (get_lmb_size E Mem_obj) (\<lambda>lmb_value.
     bnd (mem_payload_data E curr_mem lmb_value 0) (\<lambda>mem_remove.
     sq (log Info (''==list of memory values to be removed==:'' @ str_vlist (map val_of mem_remove) @ '' ''))
        (for_each (map val_of (butlast mem_remove)) (\<lambda>mem.
           mem_rem_step E Mem_obj mem ''Memory remove Command failed please check the logs''
             (done_msg ''===============> '' mem '' memory got removed=======>'')))))))"

text \<open>
  The amount removed after an addition of \<open>i\<close>: 80 per cent of it, truncated, and rounded up to the
  next multiple of the block.
\<close>

definition mix_rem :: "int \<Rightarrow> num \<Rightarrow> int result" where
  "mix_rem lmb i =
    (let j = py_trunc (exact (nmul i (NFloat (fl (8 / 10)))))
     in if lmb = 0 then Inl ZeroDivisionError else Inr (j + (lmb - j mod lmb)))"

definition test_mem_mix :: "'w dlpar_env \<Rightarrow> dlpar_test \<Rightarrow> ('w, unit) dlpar" where
  "test_mem_mix E t =
     bnd (memory E (sorted_payload t) (VStr [])) (\<lambda>Mem_obj.
     bnd (get_max_mem E Mem_obj) (\<lambda>max_mem.
     sq (log Info (str_int max_mem))
    (bnd (get_curr_mem E Mem_obj) (\<lambda>curr_mem.
     bnd (get_lmb_size E Mem_obj) (\<lambda>lmb_value.
     sq (log Info (str_int lmb_value))
    (bnd (mem_payload_data E curr_mem lmb_value max_mem) (\<lambda>mem_adds.
     sq (log Info (''memory add list values: '' @ str_vlist (map val_of mem_adds)))
    (bnd (lift (mapM_r (mix_rem lmb_value) mem_adds)) (\<lambda>mem_rems.
     sq (log Info (''memory remove list values: '' @ str_vlist (map VInt mem_rems)))
        (for_each (zip (map val_of mem_adds) (map VInt mem_rems)) (\<lambda>(add, rem).
           sq (mem_add_step E Mem_obj add ''MEM add Command failed please check the logs''
                 (done_msg ''=====>'' add '' memory got added====>''))
              (mem_rem_step E Mem_obj rem ''MEM remove Command failed please check the logs''
                 (done_msg ''====>'' rem '' memory got removed====>'')))))))))))))"

subsection \<open>Moves\<close>

text \<open>\<^verbatim>\<open>range(v)\<close>: only an integer will do.\<close>

fun py_range :: "pyval \<Rightarrow> int list result" where
  "py_range (VInt n) = Inr [0..n - 1]"
| "py_range (VBool b) = Inr (if b then [0] else [])"
| "py_range _ = Inl TypeError"

definition test_cpu_move :: "'w dlpar_env \<Rightarrow> dlpar_test \<Rightarrow> ('w, unit) dlpar" where
  "test_cpu_move E t =
     (if veq (lpar_mode t) (VStr ''dedicated'') then
        bnd (dedicated_cpu E (sorted_payload t)) (\<lambda>Ded_obj.
        bnd (lift (py_range (iterations t))) (\<lambda>is.
        for_each is (\<lambda>_.
          bnd (move_ded_cpu E Ded_obj) (\<lambda>rvalue.
          whenb (rvalue = 1) (fail ''CPU move Command failed please check the logs'')))))
      else if veq (lpar_mode t) (VStr ''shared'') then
        bnd (cpu_unit E (sorted_payload t)) (\<lambda>Sha_obj.
        bnd (lift (py_range (iterations t))) (\<lambda>is.
        for_each is (\<lambda>_.
          bnd (move_proc E Sha_obj) (\<lambda>rvalue.
          whenb (rvalue = 1) (fail ''Proc move Command failed please check the logs'')))))
      else ret ())"

definition test_mem_mov :: "'w dlpar_env \<Rightarrow> dlpar_test \<Rightarrow> ('w, unit) dlpar" where
  "test_mem_mov E t =
     bnd (memory E (sorted_payload t) (VStr [])) (\<lambda>Mem_obj.
     bnd (mem_move E Mem_obj) (\<lambda>rvalue_move.
     whenb (rvalue_move = 1) (fail ''Memory move Command failed please check the logs'')))"

subsection \<open>Persistence of the SMT mode and of offline processors\<close>

definition require_packages :: "'w dlpar_env \<Rightarrow> ('w, unit) dlpar" where
  "require_packages E =
     for_each [''powerpc-utils'', ''util-linux''] (\<lambda>package.
       bnd (call ''check_installed'' [package] (check_installed E package)) (\<lambda>b.
       if b then ret ()
       else bnd (call ''install'' [package] (install E package)) (\<lambda>b'.
            whenb (\<not> b') (cancel (package @ '' is needed for the test to be run'')))))"

definition shell_output :: "'w dlpar_env \<Rightarrow> string \<Rightarrow> ('w, string) dlpar" where
  "shell_output E cmd = call ''system_output'' [cmd] (system_output E cmd False)"

definition smt_option_cmd :: string where
  "smt_option_cmd = ''lparstat | grep -o '' @ quoted ''smt=[0-9]*''"

datatype operation = Op_add | Op_remove

text \<open>
  One operation in each of the two modes. In shared mode the values of both commands are kept, and
  the operation counts as failed when neither is 0.
\<close>

definition ded_operation :: "'w dlpar_env \<Rightarrow> test_case \<Rightarrow> operation \<Rightarrow> string \<Rightarrow> ('w, unit) dlpar" where
  "ded_operation E tc oper msg =
     bnd (case oper of Op_add \<Rightarrow> add_ded_cpu E tc (VInt 1) | Op_remove \<Rightarrow> rem_ded_cpu E tc (VInt 1))
       (\<lambda>rvalue. whenb (rvalue \<noteq> 0) (log Error msg))"

definition shared_operation :: "'w dlpar_env \<Rightarrow> test_case \<Rightarrow> operation \<Rightarrow> string \<Rightarrow> ('w, unit) dlpar" where
  "shared_operation E tc oper msg =
    (let f = (case oper of Op_add \<Rightarrow> add_proc | Op_remove \<Rightarrow> remove_proc) in
     bnd (f E tc (VInt 1) ''--procs'') (\<lambda>rvalue.
     bnd (f E tc (VInt 1) ''--procunits'') (\<lambda>rvalue1.
     whenb (rvalue \<noteq> 0 \<and> rvalue1 \<noteq> 0) (log Error msg))))"

text \<open>What the check compares: the outputs of the given commands, before and after.\<close>

definition outputs :: "'w dlpar_env \<Rightarrow> string list \<Rightarrow> ('w, string list) dlpar" where
  "outputs E cmds = for_acc cmds (\<lambda>c acc. bnd (shell_output E c) (\<lambda>v. ret (acc @ [v]))) []"

definition compare_outputs ::
  "'w dlpar_env \<Rightarrow> string list \<Rightarrow> string list \<Rightarrow> string \<Rightarrow> string \<Rightarrow> ('w, unit) dlpar" where
  "compare_outputs E before cmds bad good =
     bnd (outputs E cmds) (\<lambda>after.
     if before \<noteq> after then log Error bad else log Info good)"

definition test_check_smt_state :: "'w dlpar_env \<Rightarrow> dlpar_test \<Rightarrow> ('w, unit) dlpar" where
  "test_check_smt_state E t =
     sq (require_packages E)
    (sq (shell_output E ''ppc64_cpu --smt=8'')
    (bnd (outputs E [''ppc64_cpu --smt'', ''lscpu | grep -i thread'', smt_option_cmd]) (\<lambda>before.
     if veq (lpar_mode t) (VStr ''dedicated'') then
       bnd (dedicated_cpu E (sorted_payload t)) (\<lambda>Ded_obj.
       for_each [Op_add, Op_remove] (\<lambda>oper.
         sq (ded_operation E Ded_obj oper
               (''CPU operation failed,'' @ spaces 28 @ ''Please check the logs''))
            (compare_outputs E before [''ppc64_cpu --smt'', ''lscpu | grep -i thread'', smt_option_cmd]
               ''SMT state did not match after CPU operations.Test failed.''
               ''SMT state remained consistent,Test passed.'')))
     else if veq (lpar_mode t) (VStr ''shared'') then
       bnd (cpu_unit E (sorted_payload t)) (\<lambda>Sha_obj.
       for_each [Op_add, Op_remove] (\<lambda>oper.
         sq (shared_operation E Sha_obj oper
               (''CPU operation failed.'' @ spaces 28 @ ''Please check the logs.''))
            (compare_outputs E before
               [''ppc64_cpu --smt'', ''lscpu | grep -i thread'', ''lparstat | grep -i smt'']
               ''SMT state did not match afterCPU operations. Test failed.''
               ''SMT state remained consistent,Test passed.'')))
     else ret ())))"

definition cpu1_online :: string where
  "cpu1_online = ''/sys/devices/system/cpu/cpu1/online''"

definition test_offline_cpu_persistence :: "'w dlpar_env \<Rightarrow> dlpar_test \<Rightarrow> ('w, unit) dlpar" where
  "test_offline_cpu_persistence E t =
    (let check = (\<lambda>before. compare_outputs E before [''cat '' @ cpu1_online]
                     ''Failed since CPU state.changed after dlpar operation''
                     ''CPU is still offline even afterproc operation,Test passed.'')
     in
     sq (require_packages E)
    (sq (shell_output E (''echo 0 > '' @ cpu1_online))
    (bnd (outputs E [''cat '' @ cpu1_online]) (\<lambda>before.
     sq (if veq (lpar_mode t) (VStr ''dedicated'') then
           bnd (dedicated_cpu E (sorted_payload t)) (\<lambda>Ded_obj.
           for_each [Op_add, Op_remove] (\<lambda>oper.
             sq (ded_operation E Ded_obj oper ''CPU operation failed,Please check the logs'')
                (check before)))
         else
           bnd (cpu_unit E (sorted_payload t)) (\<lambda>Sha_obj.
           for_each [Op_add, Op_remove] (\<lambda>oper.
             sq (shared_operation E Sha_obj oper ''CPU operation failed.Please check the logs.'')
                (check before))))
    (sq (log Info ''Setting cpu online back after TC complete'')
    (sq (shell_output E (''echo 1 > '' @ cpu1_online)) (ret ())))))))"

definition test_offline_proc_persistence :: "'w dlpar_env \<Rightarrow> dlpar_test \<Rightarrow> ('w, unit) dlpar" where
  "test_offline_proc_persistence E t =
     sq (require_packages E)
    (sq (shell_output E ''ppc64_cpu --smt=6'')
    (bnd (call ''process.run'' [''ppc64_cpu --cores-on''] (process_run E ''ppc64_cpu --cores-on'')) (\<lambda>res.
     bnd (lift (rbind (attr (search_eq_digits (stdout_text res))) py_int)) (\<lambda>before_online_cores.
     bnd (outputs E [''ppc64_cpu --smt'']) (\<lambda>before.
     sq (shell_output E ''ppc64_cpu --offline-cores=1'')
    (sq (if veq (lpar_mode t) (VStr ''dedicated'') then
           bnd (dedicated_cpu E (sorted_payload t)) (\<lambda>Ded_obj.
           for_each [Op_add, Op_remove] (\<lambda>oper.
             sq (ded_operation E Ded_obj oper ''CPU operation failed,Please check the logs'')
                (compare_outputs E before [''ppc64_cpu --smt'']
                   ''Failed since SMT state.changed after dlpar operation''
                   ''SMT is unchanged,Test passed.'')))
         else
           bnd (cpu_unit E (sorted_payload t)) (\<lambda>Sha_obj.
           for_each [Op_add, Op_remove] (\<lambda>oper.
             sq (shared_operation E Sha_obj oper ''CPU operation failed.Please check the logs.'')
                (compare_outputs E before [''ppc64_cpu --smt'']
                   ''Failed since SMT state.changed after dlpar operation''
                   ''SMT is unchanged ,Test passed.''))))
    (sq (log Info ''Setting back the value after TC compelte'')
    (sq (shell_output E ''ppc64_cpu --smt=8'') (ret ())))))))))"

end
