(* ===== verification/Dlpar_Spec.thy ===== *)
theory Dlpar_Spec
  imports Dlpar_Main
begin

section \<open>What the DLPAR operations guarantee\<close>

text \<open>
  The operations of the three resource classes against an abstract console. A console that keeps
  its documented behaviour answers a query with the current value of the resource and changes
  nothing; a change command either prints nothing and changes the value by the quantity, or prints
  a message and leaves the value alone. \<open>counter\<close> says this for one resource of one partition,
  with \<open>v\<close> the value in a state of the system.

  The locale \<open>resource_ops\<close> is the interface the tests use: an addition and a removal that report
  0 after a change by the quantity and 1 when the console refused. Its lemmas are about the loops
  of the tests; it is interpreted for the dedicated processors, the virtual processors and the
  memory.
\<close>

subsection \<open>The console\<close>

definition query_text :: "string \<Rightarrow> string \<Rightarrow> string \<Rightarrow> string \<Rightarrow> string" where
  "query_text r mm p opt =
     ''lshwres -m '' @ mm @ '' --level lpar -r '' @ r @ '' --filter lpar_names=\"'' @ p @ ''\" -F '' @ opt"

definition change_text :: "string \<times> string \<times> string \<Rightarrow> string \<Rightarrow> string \<Rightarrow> int \<Rightarrow> string" where
  "change_text flag mm p q =
     (case flag of (r, oper, opt) \<Rightarrow>
        ''chhwres -m '' @ mm @ '' -r '' @ r @ '' -o '' @ oper @ '' '' @ opt @ '' '' @ str_int q @
        '' -p \"'' @ p @ ''\"'' @ '' -w 0 '')"

lemma query_cmd_text:
  "machine m = VStr mm \<Longrightarrow> partition m = VStr p \<Longrightarrow> query_cmd r m opt = Inr (query_text r mm p opt)"
  by (simp add: query_cmd_def query_text_def)

lemma change_cmd_text:
  "machine m = VStr mm \<Longrightarrow> partition m = VStr p \<Longrightarrow>
   change_cmd flag m (VInt q) = Inr (change_text flag mm p q)"
  by (simp add: change_cmd_def change_text_def split: prod.split)

definition answers :: "'w dlpar_env \<Rightarrow> pyval \<Rightarrow> string \<Rightarrow> ('w \<Rightarrow> string) \<Rightarrow> bool" where
  "answers E h cmd f \<longleftrightarrow>
     (\<forall>w. \<exists>res. session_cmd E h cmd w = (Inr res, w) \<and> strip (stdout_text res) = f w)"

definition changes :: "'w dlpar_env \<Rightarrow> pyval \<Rightarrow> string \<Rightarrow> ('w \<Rightarrow> int) \<Rightarrow> int \<Rightarrow> bool" where
  "changes E h cmd v d \<longleftrightarrow>
     (\<forall>w. \<exists>res w'. session_cmd E h cmd w = (Inr res, w') \<and>
        v w' = (if stdout_text res = [] then v w + d else v w))"

definition counter ::
  "string \<times> string \<times> string \<Rightarrow> 'w dlpar_env \<Rightarrow> test_case \<Rightarrow> ssh_machine \<Rightarrow> ('w \<Rightarrow> int) \<Rightarrow> bool"
where
  "counter kind E tc m v \<longleftrightarrow>
     (case kind of (r, fld, opt) \<Rightarrow>
      \<exists>h mm p. hmc tc = Some h \<and> machine m = VStr mm \<and> partition m = VStr p \<and>
        answers E (name h) (query_text r mm p fld) (\<lambda>w. str_int (v w)) \<and>
        (\<forall>q > 0. changes E (name h) (change_text (r, ''a'', opt) mm p q) v q \<and>
                 changes E (name h) (change_text (r, ''r'', opt) mm p q) v (- q))) \<and>
     (\<exists>x. num_of (sleep_time tc) = Some x \<and> 0 \<le> exact x)"

subsection \<open>Reads\<close>

text \<open>A query changes nothing but the trace.\<close>

definition quiet :: "'w dlpar_st \<Rightarrow> 'w dlpar_st \<Rightarrow> bool" where
  "quiet s t \<longleftrightarrow> world t = world s \<and> last_result t = last_result s \<and> config_file t = config_file s"

lemma quiet_refl [simp]: "quiet s s"
  by (simp add: quiet_def)

lemma quiet_trans: "quiet s t \<Longrightarrow> quiet t u \<Longrightarrow> quiet s u"
  by (simp add: quiet_def)

lemma quiet_trace [simp]: "quiet s (t\<lparr>trace := x\<rparr>) = quiet s t"
  by (simp add: quiet_def)

lemma wp_get_option:
  assumes "hmc tc = Some h" "machine m = VStr mm" "partition m = VStr p"
    and "answers E (name h) (query_text r mm p opt) f"
  shows "wp (get_option r E tc m opt) (\<lambda>x t. x = f (world s) \<and> quiet s t) (\<lambda>_ _. False) s"
proof -
  obtain res where "session_cmd E (name h) (query_text r mm p opt) (world s) = (Inr res, world s)"
    "strip (stdout_text res) = f (world s)"
    using assms(4) unfolding answers_def by metis
  then show ?thesis
    using assms(1-3)
    by (simp add: get_option_def query_cmd_text hmc_cmd_def wp Let_def quiet_def)
qed

lemma wp_read_int:
  assumes "hmc tc = Some h" "machine m = VStr mm" "partition m = VStr p"
    and "answers E (name h) (query_text r mm p opt) (\<lambda>w. str_int (v w))"
  shows "wp (bnd (get_option r E tc m opt) (\<lambda>x. lift (py_int x)))
           (\<lambda>n t. n = v (world s) \<and> quiet s t) (\<lambda>_ _. False) s"
  unfolding wp
  by (rule wp_conseq[OF wp_get_option[OF assms]]) auto

lemmas reads = int_cpu_option_def int_mem_option_def get_cpu_option_def get_mem_option_def

subsection \<open>Changes\<close>

lemma wp_Dlpar_engine_One:
  assumes "hmc tc = Some h" "machine m = VStr mm" "partition m = VStr p"
    and "oper = ''a'' \<or> oper = ''r''"
    and "changes E (name h) (change_text (r, oper, opt) mm p q) v d"
  shows "wp (Dlpar_engine E tc (r, oper, opt) (One m) (VInt q))
           (\<lambda>res t. last_result t = Some res \<and> config_file t = config_file s \<and>
              v (world t) = (if stdout_text res = [] then v (world s) + d else v (world s)))
           (\<lambda>_ _. False) s"
proof -
  obtain res w' where
    "session_cmd E (name h) (change_text (r, oper, opt) mm p q) (world s) = (Inr res, w')"
    "v w' = (if stdout_text res = [] then v (world s) + d else v (world s))"
    using assms(5) unfolding changes_def by metis
  then show ?thesis
    using assms(1-4)
    by (auto simp add: Dlpar_engine_def change_cmd_text hmc_cmd_def wp)
qed

lemma wp_pause:
  assumes "num_of (sleep_time tc) = Some x" "0 \<le> exact x"
  shows "wp (pause tc) (\<lambda>_. quiet s) (\<lambda>_ _. False) s"
  using assms by (simp add: pause_def wp quiet_def)

lemma wp_check_or:
  "cond \<Longrightarrow> quiet s t \<Longrightarrow> wp (check_or msg cond e_msg ex) (\<lambda>_. quiet s) R t"
  by (simp add: check_or_def check_log_def wp quiet_def)

text \<open>The result of an operation that meets its contract.\<close>

definition verdict :: "('w \<Rightarrow> int) \<Rightarrow> int \<Rightarrow> 'w dlpar_st \<Rightarrow> int \<Rightarrow> 'w dlpar_st \<Rightarrow> bool" where
  "verdict v d s r t \<longleftrightarrow> config_file t = config_file s \<and>
     (if r = 0 then v (world t) = v (world s) + d
      else r = 1 \<and> v (world t) = v (world s) \<and>
           (\<exists>res. last_result t = Some res \<and> stdout_text res \<noteq> []))"

lemma wp_validate_add:
  assumes "wp (rd m) (\<lambda>n t. n = b + q \<and> quiet s t) (\<lambda>_ _. False) s"
  shows "wp (validate_add noun rd m (VInt q) (VInt b)) (\<lambda>_. quiet s) (\<lambda>_ _. False) s"
  unfolding validate_add_def Let_def
  by (simp add: wp) (rule wp_conseq[OF assms], auto simp: wp intro: wp_check_or)

lemma wp_validate_rm:
  assumes "wp (rd m) (\<lambda>n t. n = b - q \<and> quiet s t) (\<lambda>_ _. False) s"
  shows "wp (validate_rm noun rd m (VInt q) (VInt b)) (\<lambda>_. quiet s) (\<lambda>_ _. False) s"
  unfolding validate_rm_def Let_def
  by (simp add: wp) (rule wp_conseq[OF assms], auto simp: wp intro: wp_check_or)

subsection \<open>The operations meet the contract\<close>

abbreviation ded_kind :: "string \<times> string \<times> string" where
  "ded_kind \<equiv> (''proc'', ''curr_procs'', ''--procs'')"

abbreviation mem_kind :: "string \<times> string \<times> string" where
  "mem_kind \<equiv> (''mem'', ''curr_mem'', ''-q'')"

lemma counterE:
  assumes "counter (r, fld, opt) E tc m v"
  obtains h mm p x where "hmc tc = Some h" "machine m = VStr mm" "partition m = VStr p"
    "answers E (name h) (query_text r mm p fld) (\<lambda>w. str_int (v w))"
    "\<And>q. 0 < q \<Longrightarrow> changes E (name h) (change_text (r, ''a'', opt) mm p q) v q"
    "\<And>q. 0 < q \<Longrightarrow> changes E (name h) (change_text (r, ''r'', opt) mm p q) v (- q)"
    "num_of (sleep_time tc) = Some x" "0 \<le> exact x"
  using assms unfolding counter_def by auto

definition op_result :: "('w \<Rightarrow> int) \<Rightarrow> int \<Rightarrow> 'w dlpar_st \<Rightarrow> int option \<Rightarrow> 'w dlpar_st \<Rightarrow> bool" where
  "op_result v d s r t \<longleftrightarrow> config_file t = config_file s \<and>
     (case r of None \<Rightarrow> v (world t) = v (world s) + d
      | Some n \<Rightarrow> n = 1 \<and> v (world t) = v (world s) \<and>
           (\<exists>res. last_result t = Some res \<and> stdout_text res \<noteq> []))"

lemma wp_finish:
  assumes "wp m (op_result v d s) (\<lambda>_ _. False) s"
  shows "wp (bnd m finish) (verdict v d s) (\<lambda>_ _. False) s"
  unfolding wp
  by (rule wp_conseq[OF assms]) (auto simp: finish_def wp op_result_def verdict_def split: option.splits)

lemma op_result_quiet:
  assumes "quiet s s'" "op_result v d s' r t"
  shows "op_result v d s r t"
  using assms by (auto simp: op_result_def quiet_def split: option.splits)

text \<open>The tail all operations share: nothing printed means pause, validate, return nothing.\<close>

lemma wp_tail:
  assumes "last_result t = Some res \<and> config_file t = config_file s \<and>
              v (world t) = (if stdout_text res = [] then v (world s) + d else v (world s))"
    and "v (world t) = v (world s) + d \<Longrightarrow> wp body (\<lambda>r u. r = None \<and> quiet t u) (\<lambda>_ _. False) t"
  shows "wp (if stdout_text res \<noteq> [] then ret (Some 1) else body) (op_result v d s) (\<lambda>_ _. False) t"
proof (cases "stdout_text res = []")
  case True
  have q: "quiet t u \<Longrightarrow> op_result v d s None u" for u
    using assms(1) True by (auto simp: op_result_def quiet_def)
  from True assms(1) have "wp body (\<lambda>r u. r = None \<and> quiet t u) (\<lambda>_ _. False) t"
    by (intro assms(2)) simp
  with True show ?thesis by (auto elim!: wp_conseq intro: q)
next
  case False
  with assms(1) show ?thesis by (simp add: wp op_result_def)
qed

lemma wp_pause_validate:
  assumes "num_of (sleep_time tc) = Some x" "0 \<le> exact x"
    and "\<And>u. quiet t u \<Longrightarrow> wp val (\<lambda>_. quiet u) (\<lambda>_ _. False) u"
  shows "wp (sq (pause tc) (sq val (ret None))) (\<lambda>r u. r = None \<and> quiet t u) (\<lambda>_ _. False) t"
  unfolding wp_sq
  by (rule wp_conseq[OF wp_pause[OF assms(1,2)]])
     (auto simp: wp intro!: wp_conseq[OF assms(3)] intro: quiet_trans)

lemma wp_read_num:
  assumes "wp m (\<lambda>x t. x = str_int n \<and> quiet u t) (\<lambda>_ _. False) u"
  shows "wp (bnd m (\<lambda>x. lift (py_int x))) (\<lambda>k t. k = n \<and> quiet u t) (\<lambda>_ _. False) u"
  unfolding wp_bnd by (rule wp_conseq[OF assms]) (auto simp: wp)

lemma wp_cpu_validation:
  assumes "wp (get_option ''proc'' E tc m ''curr_procs'') (\<lambda>x t. x = str_int (b + d) \<and> quiet u t) (\<lambda>_ _. False) u"
    and "oper = ''a'' \<and> d = q \<or> oper = ''r'' \<and> d = - q"
  shows "wp (Dlpar_cpu_validation E tc oper (One m) (VInt q) (Before (VInt b))) (\<lambda>_. quiet u) (\<lambda>_ _. False) u"
  using assms(2)
proof (elim disjE conjE)
  assume "oper = ''a''" "d = q"
  with wp_read_num[OF assms(1)] show ?thesis
    by (simp add: Dlpar_cpu_validation_def reads wp_validate_add)
next
  assume "oper = ''r''" "d = - q"
  with wp_read_num[OF assms(1)] show ?thesis
    by (simp add: Dlpar_cpu_validation_def reads wp_validate_rm)
qed

lemma wp_mem_validation:
  assumes "wp (get_option ''mem'' E tc m ''curr_mem'') (\<lambda>x t. x = str_int (b + d) \<and> quiet u t) (\<lambda>_ _. False) u"
    and "oper = ''a'' \<and> d = q \<or> oper = ''r'' \<and> d = - q"
  shows "wp (Dlpar_mem_validation E tc oper (One m) (VInt q) (Before (VInt b))) (\<lambda>_. quiet u) (\<lambda>_ _. False) u"
  using assms(2)
proof (elim disjE conjE)
  assume "oper = ''a''" "d = q"
  with wp_read_num[OF assms(1)] show ?thesis
    by (simp add: Dlpar_mem_validation_def reads wp_validate_add)
next
  assume "oper = ''r''" "d = - q"
  with wp_read_num[OF assms(1)] show ?thesis
    by (simp add: Dlpar_mem_validation_def reads wp_validate_rm)
qed

text \<open>
  The six private operations. Each reads the value, runs the command, and goes through the shared
  tail; \<open>ready\<close> adds what the operations on virtual processors read besides.
\<close>

lemma counter_changes:
  assumes "counter (r, fld, opt) E tc m v" "0 < q" "oper = ''a'' \<and> d = q \<or> oper = ''r'' \<and> d = - q"
  shows "wp (Dlpar_engine E tc (r, oper, opt) (One m) (VInt q))
           (\<lambda>res t. last_result t = Some res \<and> config_file t = config_file s \<and>
              v (world t) = (if stdout_text res = [] then v (world s) + d else v (world s)))
           (\<lambda>_ _. False) s"
  by (rule counterE[OF assms(1)], rule wp_Dlpar_engine_One) (use assms(2,3) in auto)

lemma counter_read:
  assumes "counter (r, fld, opt) E tc m v"
  shows "wp (get_option r E tc m fld) (\<lambda>x t. x = str_int (v (world s)) \<and> quiet s t) (\<lambda>_ _. False) s"
  by (rule counterE[OF assms], rule wp_get_option) auto

lemma counter_read_int:
  assumes "counter (r, fld, opt) E tc m v"
  shows "wp (bnd (get_option r E tc m fld) (\<lambda>x. lift (py_int x)))
           (\<lambda>n t. n = v (world s) \<and> quiet s t) (\<lambda>_ _. False) s"
  by (rule wp_read_num[OF counter_read[OF assms]])

lemma counter_sleep:
  assumes "counter (r, fld, opt) E tc m v"
  shows "wp (sleep (sleep_time tc)) (\<lambda>_. quiet s) (\<lambda>_ _. False) s"
    and "wp (pause tc) (\<lambda>_. quiet s) (\<lambda>_ _. False) s"
  by (rule counterE[OF assms], simp add: wp quiet_def)
     (rule counterE[OF assms], rule wp_pause, auto)

lemma counter_validate:
  assumes "counter (''proc'', ''curr_procs'', opt) E tc m v" "oper = ''a'' \<and> d = q \<or> oper = ''r'' \<and> d = - q"
    and "v (world u) = b + d"
  shows "wp (Dlpar_cpu_validation E tc oper (One m) (VInt q) (Before (VInt b))) (\<lambda>_. quiet u) (\<lambda>_ _. False) u"
  using counter_read[OF assms(1), of u] assms(2,3) by (intro wp_cpu_validation) simp_all

lemma counter_validate_mem:
  assumes "counter mem_kind E tc m v" "oper = ''a'' \<and> d = q \<or> oper = ''r'' \<and> d = - q"
    and "v (world u) = b + d"
  shows "wp (Dlpar_mem_validation E tc oper (One m) (VInt q) (Before (VInt b))) (\<lambda>_. quiet u) (\<lambda>_ _. False) u"
  using counter_read[OF assms(1), of u] assms(2,3) by (intro wp_mem_validation) simp_all

lemma counter_tail:
  assumes "counter (r, fld, opt) E tc m v"
    and "last_result t = Some res \<and> config_file t = config_file s \<and>
           v (world t) = (if stdout_text res = [] then v (world s) + d else v (world s))"
    and "\<And>u. v (world u) = v (world s) + d \<Longrightarrow> wp val (\<lambda>_. quiet u) (\<lambda>_ _. False) u"
  shows "wp (if stdout_text res \<noteq> [] then ret (Some 1) else sq (pause tc) (sq val (ret None)))
           (op_result v d s) (\<lambda>_ _. False) t"
    and "wp (if stdout_text res \<noteq> [] then ret (Some 1)
             else sq (log l x) (sq (pause tc) (sq val (ret None))))
           (op_result v d s) (\<lambda>_ _. False) t"
    and "wp (sq (pause tc) (if stdout_text res \<noteq> [] then ret (Some 1) else sq val (ret None)))
           (op_result v d s) (\<lambda>_ _. False) t"
proof -
  note sl = counter_sleep(2)[OF assms(1)]
  have pv: "wp (sq (pause tc) (sq val (ret None))) (\<lambda>r u. r = None \<and> quiet t' u) (\<lambda>_ _. False) t'"
    if "v (world t') = v (world s) + d" for t'
    unfolding wp_sq
    by (rule wp_conseq[OF sl])
       (use that in \<open>auto simp: wp quiet_def intro!: wp_conseq[OF assms(3)]\<close>)
  show "wp (if stdout_text res \<noteq> [] then ret (Some 1) else sq (pause tc) (sq val (ret None)))
           (op_result v d s) (\<lambda>_ _. False) t"
    by (rule wp_tail[OF assms(2)]) (rule pv)
  show "wp (if stdout_text res \<noteq> [] then ret (Some 1)
             else sq (log l x) (sq (pause tc) (sq val (ret None))))
           (op_result v d s) (\<lambda>_ _. False) t"
    by (rule wp_tail[OF assms(2)]) (subst wp_sq, auto simp: wp_log quiet_def intro!: wp_conseq[OF pv])
  have "wp (if stdout_text res \<noteq> [] then ret (Some 1) else sq val (ret None))
           (op_result v d s) (\<lambda>_ _. False) u" if "quiet t u" for u
    using assms(2) that
    by (intro wp_tail) (auto simp: quiet_def wp intro!: wp_conseq[OF assms(3)])
  then show "wp (sq (pause tc) (if stdout_text res \<noteq> [] then ret (Some 1) else sq val (ret None)))
           (op_result v d s) (\<lambda>_ _. False) t"
    unfolding wp_sq by (intro wp_conseq[OF sl]) auto
qed

lemma wp_op_quiet:
  "quiet s u \<Longrightarrow> wp m (op_result v d u) (\<lambda>_ _. False) u \<Longrightarrow> wp m (op_result v d s) (\<lambda>_ _. False) u"
  by (erule wp_conseq) (auto intro: op_result_quiet)

lemma wp_engine_quiet:
  assumes "counter (r, fld, opt) E tc m v" "0 < q" "oper = ''a'' \<and> d = q \<or> oper = ''r'' \<and> d = - q"
    and "quiet s u"
    and "\<And>res t. last_result t = Some res \<and> config_file t = config_file u \<and>
           v (world t) = (if stdout_text res = [] then v (world u) + d else v (world u)) \<Longrightarrow>
           wp (f res) (op_result v d u) (\<lambda>_ _. False) t"
  shows "wp (bnd (Dlpar_engine E tc (r, oper, opt) (One m) (VInt q)) f) (op_result v d s) (\<lambda>_ _. False) u"
  by (rule wp_op_quiet[OF assms(4)], subst wp_bnd, rule wp_conseq[OF counter_changes[OF assms(1-3)]])
     (use assms(5) in auto)

lemma wp_simple_op:
  assumes c: "counter (r, fld, opt) E tc m v" "0 < q" "oper = ''a'' \<and> d = q \<or> oper = ''r'' \<and> d = - q"
    and val: "\<And>u b. v (world u) = b + d \<Longrightarrow> wp (val b) (\<lambda>_. quiet u) (\<lambda>_ _. False) u"
  shows "wp (bnd (bnd (get_option r E tc m fld) (\<lambda>x. lift (py_int x))) (\<lambda>before.
             bnd (Dlpar_engine E tc (r, oper, opt) (One m) (VInt q)) (\<lambda>res.
             if stdout_text res \<noteq> [] then ret (Some 1)
             else sq (pause tc) (sq (val before) (ret None)))))
           (op_result v d s) (\<lambda>_ _. False) s"
  unfolding wp_bnd[of "bnd _ _"]
proof (rule wp_conseq[OF counter_read_int[OF c(1)]])
  fix b u assume b: "b = v (world s) \<and> quiet s u"
  show "wp (bnd (Dlpar_engine E tc (r, oper, opt) (One m) (VInt q)) (\<lambda>res.
             if stdout_text res \<noteq> [] then ret (Some 1)
             else sq (pause tc) (sq (val b) (ret None)))) (op_result v d s) (\<lambda>_ _. False) u"
    by (rule wp_engine_quiet[OF c], simp add: b, rule counter_tail(1)[OF c(1)])
       (use b in \<open>auto simp: quiet_def intro!: val\<close>)
qed

lemma wp_add_dedicated:
  assumes c: "counter ded_kind E tc m v" "0 < q"
  shows "wp (add_dedicated_cpu E tc m (VInt q)) (op_result v q s) (\<lambda>_ _. False) s"
  unfolding add_dedicated_cpu_def reads wp_bnd[of "bnd _ _"]
proof (rule wp_conseq[OF counter_read_int[OF c(1)]])
  fix b t assume b: "b = v (world s) \<and> quiet s t"
  have ch: "''a'' = ''a'' \<and> q = q \<or> ''a'' = ''r'' \<and> q = - q" by simp
  have "wp (bnd (Dlpar_engine E tc (''proc'', ''a'', ''--procs'') (One m) (VInt q)) (\<lambda>res.
          sq (pause tc) (if stdout_text res \<noteq> [] then ret (Some 1)
             else sq (Dlpar_cpu_validation E tc ''a'' (One m) (VInt q) (Before (VInt b))) (ret None))))
        (op_result v q s) (\<lambda>_ _. False) u" if "quiet t u" for u
    by (rule wp_engine_quiet[OF c ch], rule quiet_trans[OF _ that], simp add: b, rule counter_tail(3)[OF c(1)])
       (use b that in \<open>auto simp: quiet_def intro!: counter_validate[OF c(1) ch]\<close>)
  then show "wp (sq (sleep (sleep_time tc))
          (bnd (Dlpar_engine E tc (''proc'', ''a'', ''--procs'') (One m) (VInt q)) (\<lambda>res.
          sq (pause tc) (if stdout_text res \<noteq> [] then ret (Some 1)
             else sq (Dlpar_cpu_validation E tc ''a'' (One m) (VInt q) (Before (VInt b))) (ret None)))))
        (op_result v q s) (\<lambda>_ _. False) t"
    by (subst wp_sq) (rule wp_conseq[OF counter_sleep(1)[OF c(1)]], auto)
qed simp

lemma wp_remove_dedicated:
  assumes c: "counter ded_kind E tc m v" "0 < q"
  shows "wp (remove_dedicated_cpu E tc m (VInt q)) (op_result v (- q) s) (\<lambda>_ _. False) s"
  unfolding remove_dedicated_cpu_def reads
  by (rule wp_simple_op[OF c], simp, rule counter_validate[OF c(1)]) auto

lemma wp_add_memory:
  assumes c: "counter mem_kind E tc m v" "0 < q"
  shows "wp (add_memory E tc m (VInt q)) (op_result v q s) (\<lambda>_ _. False) s"
  unfolding add_memory_def reads
  by (rule wp_simple_op[OF c], simp, rule counter_validate_mem[OF c(1)]) auto

lemma wp_remove_memory:
  assumes c: "counter mem_kind E tc m v" "0 < q"
  shows "wp (remove_memory E tc m (VInt q)) (op_result v (- q) s) (\<lambda>_ _. False) s"
  unfolding remove_memory_def reads
  by (rule wp_simple_op[OF c], simp, rule counter_validate_mem[OF c(1)]) auto

text \<open>The operations on virtual processors also read the processing units.\<close>

definition units_readable :: "'w dlpar_env \<Rightarrow> test_case \<Rightarrow> ssh_machine \<Rightarrow> bool" where
  "units_readable E tc m \<longleftrightarrow>
     (\<exists>h mm p f. hmc tc = Some h \<and> machine m = VStr mm \<and> partition m = VStr p \<and>
        answers E (name h) (query_text ''proc'' mm p ''curr_proc_units'') f \<and>
        (\<forall>w. \<exists>x. py_float (f w) = Inr x))"

lemma wp_read_units:
  assumes "units_readable E tc m"
  shows "wp (float_cpu_option E tc m ''curr_proc_units'') (\<lambda>_. quiet s) (\<lambda>_ _. False) s"
proof -
  from assms obtain h mm p f where u: "hmc tc = Some h" "machine m = VStr mm" "partition m = VStr p"
    "answers E (name h) (query_text ''proc'' mm p ''curr_proc_units'') f" "\<And>w. \<exists>x. py_float (f w) = Inr x"
    unfolding units_readable_def by blast
  obtain x where "py_float (f (world s)) = Inr x" using u(5) by blast
  then show ?thesis
    unfolding float_cpu_option_def reads wp_bnd
    by (intro wp_conseq[OF wp_get_option[OF u(1-4)]]) (auto simp: wp)
qed

lemma wp_add_cpu_units:
  assumes c: "counter ded_kind E tc m v" "0 < q" and u: "units_readable E tc m"
  shows "wp (add_cpu_units E tc m (VInt q) ''--procs'') (op_result v q s) (\<lambda>_ _. False) s"
  unfolding add_cpu_units_def wp_bnd[of "float_cpu_option _ _ _ _"]
  by (rule wp_conseq[OF wp_read_units[OF u]], rule wp_op_quiet, assumption,
      simp only: reads simp_thms if_True, rule wp_simple_op[OF c], simp,
      rule counter_validate[OF c(1)]) auto

lemma wp_remove_cpu_units:
  assumes c: "counter ded_kind E tc m v" "0 < q" and u: "units_readable E tc m"
  shows "wp (remove_cpu_units E tc m (VInt q) ''--procs'') (op_result v (- q) s) (\<lambda>_ _. False) s"
  unfolding remove_cpu_units_def wp_bnd[of "float_cpu_option _ _ _ _"]
proof (rule wp_conseq[OF wp_read_units[OF u]], rule wp_op_quiet, assumption)
  fix x t assume "quiet s t"
  have ch: "''r'' = ''a'' \<and> - q = q \<or> ''r'' = ''r'' \<and> - q = - q" by simp
  show "wp (bnd (int_cpu_option E tc m ''curr_procs'') (\<lambda>procs_before.
     bnd (Dlpar_engine E tc (''proc'', ''r'', ''--procs'') (One m) (VInt q)) (\<lambda>res.
     if stdout_text res \<noteq> [] then ret (Some 1)
     else sq (log Debug (result_str E res))
         (sq (pause tc)
         (sq (if ''--procs'' = ''--procs''
              then Dlpar_cpu_validation E tc ''r'' (One m) (VInt q) (Before (VInt procs_before))
              else Dlpar_cpu_validation E tc ''cpu_r'' (One m) (VInt q) (Before (VFloat x)))
             (ret None)))))) (op_result v (- q) t) (\<lambda>_ _. False) t"
    unfolding reads wp_bnd[of "bnd _ _"]
  proof (rule wp_conseq[OF counter_read_int[OF c(1)]])
    fix b u assume b: "b = v (world t) \<and> quiet t u"
    show "wp (bnd (Dlpar_engine E tc (''proc'', ''r'', ''--procs'') (One m) (VInt q)) (\<lambda>res.
     if stdout_text res \<noteq> [] then ret (Some 1)
     else sq (log Debug (result_str E res))
         (sq (pause tc)
         (sq (if ''--procs'' = ''--procs''
              then Dlpar_cpu_validation E tc ''r'' (One m) (VInt q) (Before (VInt b))
              else Dlpar_cpu_validation E tc ''cpu_r'' (One m) (VInt q) (Before (VFloat x)))
             (ret None))))) (op_result v (- q) t) (\<lambda>_ _. False) u"
      by (rule wp_engine_quiet[OF c ch], simp add: b, simp only: simp_thms if_True, rule counter_tail(2)[OF c(1)])
         (use b in \<open>auto simp: quiet_def intro!: counter_validate[OF c(1) ch]\<close>)
  qed simp
qed simp

subsection \<open>The interface of the tests\<close>

definition ded_ready :: "'w dlpar_env \<Rightarrow> test_case \<Rightarrow> ('w \<Rightarrow> int) \<Rightarrow> bool" where
  "ded_ready E tc v \<longleftrightarrow> (\<exists>m. linux_1 tc = Some m \<and> counter ded_kind E tc m v)"

definition unit_ready :: "'w dlpar_env \<Rightarrow> test_case \<Rightarrow> ('w \<Rightarrow> int) \<Rightarrow> bool" where
  "unit_ready E tc v \<longleftrightarrow>
     (\<exists>m. linux_1 tc = Some m \<and> counter ded_kind E tc m v \<and> units_readable E tc m)"

definition mem_ready :: "'w dlpar_env \<Rightarrow> test_case \<Rightarrow> ('w \<Rightarrow> int) \<Rightarrow> bool" where
  "mem_ready E tc v \<longleftrightarrow> (\<exists>m. linux tc = Some m \<and> counter mem_kind E tc m v)"

text \<open>How a test ends when the console refused a change.\<close>

definition ended :: "exn \<Rightarrow> bool" where
  "ended e \<longleftrightarrow> (\<exists>m. e = TestFail m \<or> e = TestCancel m)"

definition same_but :: "('w \<Rightarrow> int) \<Rightarrow> int \<Rightarrow> 'w dlpar_st \<Rightarrow> 'w dlpar_st \<Rightarrow> bool" where
  "same_but v d s t \<longleftrightarrow> v (world t) = v (world s) + d \<and> config_file t = config_file s"

lemma same_but_trans: "same_but v d s t \<Longrightarrow> same_but v d' t u \<Longrightarrow> same_but v (d + d') s u"
  by (simp add: same_but_def)

lemma same_but_trace [simp]: "same_but v d s (t\<lparr>trace := x\<rparr>) = same_but v d s t"
  by (simp add: same_but_def)

lemma wp_on_error:
  assumes "verdict v d s r t" "\<And>u. same_but v d s u \<Longrightarrow> r = 0 \<Longrightarrow> Q u"
    and "\<And>e u. ended e \<Longrightarrow> same_but v 0 s u \<Longrightarrow> R e u"
  shows "wp (sq (on_error msg r) (log l x)) (\<lambda>_. Q) R t"
proof (cases "r = 0")
  case True
  with assms(1,2) show ?thesis by (simp add: on_error_def wp verdict_def same_but_def)
next
  case False
  with assms(1) obtain res where r: "r = 1" "last_result t = Some res" "stdout_text res \<noteq> []"
    "same_but v 0 s t"
    by (auto simp: verdict_def same_but_def)
  then show ?thesis
    using assms(3)[of _ t] by (auto simp: on_error_def cancel_on_capacity_exceeded_def wp ended_def)
qed

locale resource_ops =
  fixes ready :: "'w dlpar_env \<Rightarrow> test_case \<Rightarrow> ('w \<Rightarrow> int) \<Rightarrow> bool"
    and add_op :: "'w dlpar_env \<Rightarrow> test_case \<Rightarrow> int \<Rightarrow> ('w, int) dlpar"
    and rem_op :: "'w dlpar_env \<Rightarrow> test_case \<Rightarrow> int \<Rightarrow> ('w, int) dlpar"
  assumes add_law: "ready E tc v \<Longrightarrow> 0 < q \<Longrightarrow> wp (add_op E tc q) (verdict v q s) (\<lambda>_ _. False) s"
    and rem_law: "ready E tc v \<Longrightarrow> 0 < q \<Longrightarrow> wp (rem_op E tc q) (verdict v (- q) s) (\<lambda>_ _. False) s"
begin

definition add_step :: "'w dlpar_env \<Rightarrow> test_case \<Rightarrow> int \<Rightarrow> string \<Rightarrow> string \<Rightarrow> ('w, unit) dlpar" where
  "add_step E tc q msg done_text =
     bnd (add_op E tc q) (\<lambda>r. sq (on_error msg r) (log Info done_text))"

definition rem_step :: "'w dlpar_env \<Rightarrow> test_case \<Rightarrow> int \<Rightarrow> string \<Rightarrow> string \<Rightarrow> ('w, unit) dlpar" where
  "rem_step E tc q msg done_text =
     bnd (rem_op E tc q) (\<lambda>r. sq (on_error msg r) (log Info done_text))"

lemma wp_add_step:
  assumes "ready E tc v" "0 < q"
  shows "wp (add_step E tc q msg x) (\<lambda>_. same_but v q s) (\<lambda>e t. ended e \<and> same_but v 0 s t) s"
  unfolding add_step_def wp_bnd
  by (rule wp_conseq[OF add_law[OF assms]], erule wp_on_error) auto

lemma wp_rem_step:
  assumes "ready E tc v" "0 < q"
  shows "wp (rem_step E tc q msg x) (\<lambda>_. same_but v (- q) s) (\<lambda>e t. ended e \<and> same_but v 0 s t) s"
  unfolding rem_step_def wp_bnd
  by (rule wp_conseq[OF rem_law[OF assms]], erule wp_on_error) auto

text \<open>Adding a payload: after an early end only a prefix of it has been added.\<close>

lemma wp_add_all:
  assumes "ready E tc v" "\<And>x. x \<in> set xs \<Longrightarrow> 0 < g x \<and> (\<exists>msg d. f x = add_step E tc (g x) msg d)"
  shows "wp (for_each xs f) (\<lambda>_. same_but v (sum_list (map g xs)) s)
           (\<lambda>e t. ended e \<and> (\<exists>j < length xs. same_but v (sum_list (map g (take j xs))) s t)) s"
proof (rule wp_for_each[where I = "\<lambda>ys. same_but v (sum_list (map g ys)) s"])
  show "same_but v (sum_list (map g [])) s s" by (simp add: same_but_def)
next
  fix ys x t assume t: "same_but v (sum_list (map g ys)) s t" and "\<exists>zs. xs = ys @ x # zs"
  then obtain zs where xs: "xs = ys @ x # zs" by blast
  with assms(2)[of x] obtain msg d where f: "0 < g x" "f x = add_step E tc (g x) msg d" by auto
  have pre: "take (length ys) xs = ys" "length ys < length xs" using xs by simp_all
  show "wp (f x) (\<lambda>_. same_but v (sum_list (map g (ys @ [x]))) s)
          (\<lambda>e t. ended e \<and> (\<exists>j < length xs. same_but v (sum_list (map g (take j xs))) s t)) t"
    unfolding f(2)
    by (rule wp_conseq[OF wp_add_step[OF assms(1) f(1)]])
       (use t pre same_but_trans[OF t] in \<open>auto intro!: exI[of _ "length ys"] dest: same_but_trans[OF t]\<close>)
qed

text \<open>Removing one: the same with the signs changed.\<close>

lemma wp_rem_all:
  assumes "ready E tc v" "\<And>x. x \<in> set xs \<Longrightarrow> 0 < g x \<and> (\<exists>msg d. f x = rem_step E tc (g x) msg d)"
  shows "wp (for_each xs f) (\<lambda>_. same_but v (- sum_list (map g xs)) s)
           (\<lambda>e t. ended e \<and> (\<exists>j < length xs. same_but v (- sum_list (map g (take j xs))) s t)) s"
proof (rule wp_for_each[where I = "\<lambda>ys. same_but v (- sum_list (map g ys)) s"])
  show "same_but v (- sum_list (map g [])) s s" by (simp add: same_but_def)
next
  fix ys x t assume t: "same_but v (- sum_list (map g ys)) s t" and "\<exists>zs. xs = ys @ x # zs"
  then obtain zs where xs: "xs = ys @ x # zs" by blast
  with assms(2)[of x] obtain msg d where f: "0 < g x" "f x = rem_step E tc (g x) msg d" by auto
  have pre: "take (length ys) xs = ys" "length ys < length xs" using xs by simp_all
  show "wp (f x) (\<lambda>_. same_but v (- sum_list (map g (ys @ [x]))) s)
          (\<lambda>e t. ended e \<and> (\<exists>j < length xs. same_but v (- sum_list (map g (take j xs))) s t)) t"
    unfolding f(2)
    by (rule wp_conseq[OF wp_rem_step[OF assms(1) f(1)]])
       (use t pre in \<open>auto intro!: exI[of _ "length ys"] dest: same_but_trans[OF t]\<close>)
qed

text \<open>Adding and removing the same amount in every round: the value is restored.\<close>

lemma wp_mix_all:
  assumes "ready E tc v"
    and "\<And>x. x \<in> set xs \<Longrightarrow> 0 < g x \<and> (\<exists>msg d msg' d'.
           f x = sq (add_step E tc (g x) msg d) (rem_step E tc (g x) msg' d'))"
  shows "wp (for_each xs f) (\<lambda>_. same_but v 0 s)
           (\<lambda>e t. ended e \<and> (same_but v 0 s t \<or> (\<exists>x \<in> set xs. same_but v (g x) s t))) s"
proof (rule wp_for_each_inv)
  show "same_but v 0 s s" by (simp add: same_but_def)
next
  fix x t assume x: "x \<in> set xs" and t: "same_but v 0 s t"
  from assms(2)[OF x] obtain msg d msg' d' where
    f: "0 < g x" "f x = sq (add_step E tc (g x) msg d) (rem_step E tc (g x) msg' d')" by blast
  show "wp (f x) (\<lambda>_. same_but v 0 s)
         (\<lambda>e t. ended e \<and> (same_but v 0 s t \<or> (\<exists>x \<in> set xs. same_but v (g x) s t))) t"
    unfolding f(2) wp_sq
  proof (rule wp_conseq[OF wp_add_step[OF assms(1) f(1)]])
    fix u assume u: "same_but v (g x) t u"
    show "wp (rem_step E tc (g x) msg' d') (\<lambda>_. same_but v 0 s)
         (\<lambda>e t. ended e \<and> (same_but v 0 s t \<or> (\<exists>x \<in> set xs. same_but v (g x) s t))) u"
      by (rule wp_conseq[OF wp_rem_step[OF assms(1) f(1)]])
         (use t u x in \<open>auto simp: same_but_def\<close>)
  qed (use t in \<open>auto simp: same_but_def\<close>)
qed

end

interpretation ded: resource_ops ded_ready "\<lambda>E tc q. add_ded_cpu E tc (VInt q)" "\<lambda>E tc q. rem_ded_cpu E tc (VInt q)"
  by unfold_locales
     (auto simp: ded_ready_def add_ded_cpu_def rem_ded_cpu_def on_linux_1_def
       intro!: wp_finish wp_add_dedicated wp_remove_dedicated)

interpretation vproc: resource_ops unit_ready "\<lambda>E tc q. add_proc E tc (VInt q) ''--procs''"
    "\<lambda>E tc q. remove_proc E tc (VInt q) ''--procs''"
  by unfold_locales
     (auto simp: unit_ready_def add_proc_def remove_proc_def on_linux_1_def
       intro!: wp_finish wp_add_cpu_units wp_remove_cpu_units)

interpretation mem: resource_ops mem_ready "\<lambda>E tc q. mem_add E tc (VInt q)" "\<lambda>E tc q. mem_rem E tc (VInt q)"
  by unfold_locales
     (auto simp: mem_ready_def mem_add_def mem_rem_def on_linux_def
       intro!: wp_finish wp_add_memory wp_remove_memory)

end
