(* ===== verification/Dlpar_File.thy ===== *)
theory Dlpar_File
  imports Dlpar_Main
begin

section \<open>The payload file, written and read back\<close>

text \<open>
  A test writes the payload with \<^verbatim>\<open>str\<close> and a later one reads it with \<^verbatim>\<open>eval\<close>. The lemmas show
  that reading gives back the list that was written, for lists of integers and for lists of floats
  with whole values, which are what the dedicated mode writes.
\<close>

subsection \<open>Whole floats as text\<close>

lemma shortest_found:
  assumes "k \<le> j" "j < k + f" "fl (of_int (dec_round e j x) * 10 powi (e - int j + 1)) = x"
  shows "shortest f k e x \<le> j \<and>
         fl (of_int (dec_round e (shortest f k e x) x) * 10 powi (e - int (shortest f k e x) + 1)) = x"
  using assms
proof (induction f arbitrary: k)
  case 0
  then show ?case by simp
next
  case (Suc f)
  show ?case
  proof (cases "fl (of_int (dec_round e k x) * 10 powi (e - int k + 1)) = x")
    case True
    with Suc.prems show ?thesis by simp
  next
    case False
    with Suc.prems have "k \<noteq> j" by auto
    with Suc.prems Suc.IH[of "Suc k"] False show ?thesis by simp
  qed
qed

lemma shortest_ge: "k \<le> shortest f k e x"
  by (induction f arbitrary: k) (auto intro: Suc_leD)

lemma str_digits_length: "0 < n \<Longrightarrow> 10 ^ (length (str_digits n) - 1) \<le> n \<and> n < 10 ^ length (str_digits n)"
proof (induction n rule: str_digits.induct)
  case (1 n)
  show ?case
  proof (cases "n < 10")
    case True
    with 1 show ?thesis by (simp add: str_digits.simps)
  next
    case False
    define l where "l = length (str_digits (n div 10))"
    have l0: "l \<noteq> 0" by (simp add: l_def)
    have len: "length (str_digits n) = Suc l" using False by (simp add: str_digits.simps[of n] l_def)
    have ih: "10 ^ (l - 1) \<le> n div 10" "n div 10 < 10 ^ l"
      using "1.IH"[OF False] False by (auto simp: l_def)
    have "(10::int) ^ l = 10 * 10 ^ (l - 1)" using l0 by (cases l) auto
    with ih(1) have "10 ^ l \<le> n" by linarith
    moreover have "n < 10 ^ Suc l" using ih(2) by simp
    ultimately show ?thesis by (simp add: len)
  qed
qed

lemma repr_whole:
  assumes "0 < n" "n < 10 ^ 15"
  shows "repr_pos (of_int n) = str_digits n @ ''.0''"
proof -
  define L where "L = length (str_digits n)"
  define e where "e = dec_exp (of_int n)"
  define k where "k = shortest 1100 1 e (of_int n)"
  define m where "m = dec_round e k (of_int n)"
  have L0: "L \<noteq> 0" by (simp add: L_def)
  have e: "e = int L - 1" using assms(1) by (simp add: e_def dec_exp_def L_def)
  have Lb: "L \<le> 15"
  proof (rule ccontr)
    assume "\<not> L \<le> 15"
    then have "(10::int) ^ 15 \<le> 10 ^ (L - 1)" by (intro power_increasing) auto
    with str_digits_length[OF assms(1)] assms(2) show False by (simp add: L_def)
  qed
  have n53: "\<bar>n\<bar> \<le> 2 ^ 53" using assms by simp
  have "fl (of_int (dec_round e L (of_int n)) * 10 powi (e - int L + 1)) = of_int n"
    using n53 by (simp add: e dec_round_def)
  then have kL: "k \<le> L" and fk: "fl (of_int m * 10 powi (e - int k + 1)) = of_int n"
    using shortest_found[of 1 L 1100 e "of_int n"] L0 Lb by (simp_all add: k_def m_def)
  define p where "p = L - k"
  have p: "e - int k + 1 = int p" using kL by (simp add: e p_def)
  have k1: "1 \<le> k" unfolding k_def by (rule shortest_ge)
  have "(10::int) ^ p \<le> 10 ^ (L - 1)" using k1 by (intro power_increasing) (auto simp: p_def)
  with str_digits_length[OF assms(1)] have pn: "10 ^ p \<le> n" unfolding L_def by linarith
  have m: "m = round_even (of_int n / of_int (10 ^ p))"
    by (simp add: m_def dec_round_def p power_int_def)
  have "\<bar>of_int m - of_int n / of_int (10 ^ p)\<bar> \<le> (1 / 2 :: rat)"
    unfolding m by (rule round_even_bounds)
  then have "\<bar>of_int m * of_int (10 ^ p) - of_int n\<bar> \<le> (of_int (10 ^ p) / 2 :: rat)"
    by (simp add: abs_le_iff field_simps)
  moreover have "of_int (2 * (m * 10 ^ p) - 2 * n) = 2 * (of_int m * of_int (10 ^ p) - of_int n :: rat)"
    by simp
  ultimately have "\<bar>of_int (2 * (m * 10 ^ p) - 2 * n)\<bar> \<le> (of_int (10 ^ p) :: rat)"
    by (simp only: abs_mult) simp
  then have "\<bar>2 * (m * 10 ^ p) - 2 * n\<bar> \<le> 10 ^ p"
    by (simp only: of_int_abs[symmetric] of_int_le_iff)
  with pn assms have "\<bar>m * 10 ^ p\<bar> \<le> 2 ^ 53" by simp
  then have "fl (of_int (m * 10 ^ p)) = of_int (m * 10 ^ p)" by (rule fl_of_int)
  moreover have "of_int (m * 10 ^ p) = (of_int m * 10 powi (e - int k + 1) :: rat)"
    by (simp add: p power_int_def)
  ultimately have N: "m * 10 ^ p = n" using fk by (metis of_int_eq_iff)
  have "- 4 \<le> e" "e < 16" using L0 Lb by (simp_all add: e)
  with N show ?thesis
    unfolding repr_pos_def Let_def e_def[symmetric] k_def[symmetric] m_def[symmetric] p by simp
qed

lemma str_float_whole: "n < 10 ^ 15 \<Longrightarrow> str_float (of_nat n) = str_int (int n) @ ''.0''"
proof -
  assume "n < 10 ^ 15"
  then have "int n < 10 ^ 15" by (metis of_nat_less_iff of_nat_numeral of_nat_power)
  then show ?thesis
    using repr_whole[of "int n"]
    by (cases "n = 0") (simp_all add: str_float_def str_int_def str_digits.simps[of 0] digit_char_def char_of_def)
qed

subsection \<open>Reading a number back\<close>

lemma parse_digits_stop:
  "(\<And>c. c \<in> set xs \<Longrightarrow> is_digit c) \<Longrightarrow> \<not> is_digit d \<Longrightarrow> d \<noteq> CHR ''_'' \<Longrightarrow>
   parse_digits b a (xs @ d # ys) = None"
proof (induction xs arbitrary: a b)
  case Nil
  then show ?case by (simp add: is_digit_def)
next
  case (Cons x xs)
  then have "x \<noteq> CHR ''_''" by (metis is_digit_not_sign(3) list.set_intros(1))
  with Cons show ?case by (auto split: option.split)
qed

lemma str_int_digits: "c \<in> set (str_int (int n)) \<Longrightarrow> is_digit c"
  using str_digits_chars[of "int n" c] by (simp add: str_int_def)

lemma whole_text_no_space: "c \<in> set (str_int (int n) @ ''.0'') \<Longrightarrow> \<not> is_space c"
  using str_int_digits is_digit_not_space by (auto simp: is_space_def)

lemma str_int_nat_head: "hd (str_int (int n)) \<noteq> CHR ''-''" "hd (str_int (int n)) \<noteq> CHR ''+''"
  using hd_str_digits[of "int n"] by (simp_all add: str_int_def)

lemma py_int_whole: "py_int (str_int (int n) @ ''.0'') = Inl ValueError"
proof -
  have "strip (str_int (int n) @ ''.0'') = str_int (int n) @ ''.0''"
    by (rule strip_id) (rule whole_text_no_space)
  moreover have "parse_digits False 0 (str_int (int n) @ ''.0'') = None"
    by (rule parse_digits_stop) (auto intro: str_int_digits)
  ultimately show ?thesis by (simp add: py_int_def Let_def str_int_nat_head)
qed

lemma py_float_whole:
  assumes "int n \<le> 2 ^ 53"
  shows "py_float (str_int (int n) @ ''.0'') = Inr (of_nat n)"
proof -
  let ?t = "str_int (int n) @ ''.0''"
  have strip: "strip ?t = ?t" by (rule strip_id) (rule whole_text_no_space)
  have dig: "is_digit c \<Longrightarrow> c \<noteq> CHR ''E'' \<and> c \<noteq> CHR ''e'' \<and> c \<noteq> CHR ''.'' \<and> c \<noteq> CHR ''i'' \<and> c \<noteq> CHR ''n''" for c
    by (auto simp: is_digit_def char_digit_def)
  have noE: "map (\<lambda>c. if c = CHR ''E'' then CHR ''e'' else c) ?t = ?t"
    by (rule map_idI) (auto dest!: str_int_digits dest: dig)
  have sp_e: "split_on (CHR ''e'') ?t = [?t]"
    by (rule split_on_no_sep) (auto dest!: str_int_digits dest: dig)
  have sp_dot: "split_on (CHR ''.'') ?t = [str_int (int n), ''0'']"
    using split_on_append[of "CHR ''.''" "str_int (int n)" "''0''"]
    by (auto dest!: str_int_digits dest: dig)
  have d1: "digits_opt (str_int (int n)) = Some (int n)"
    by (simp add: digits_opt_def str_int_def parse_digits_str_digits)
  have d2: "digits_opt ''0'' = Some 0"
    by (simp add: digits_opt_def char_digit_def)
  have "py_float_body ?t = Inr (fl (of_int (int n * 10) * 10 powi (- 1)))"
    unfolding py_float_body_def noE sp_e Let_def by (simp add: sp_dot d1 d2 del: append_is_Nil_conv)
  also have "of_int (int n * 10) * 10 powi (- 1) = (of_int (int n) :: rat)"
    by (simp add: power_int_def)
  finally have body: "py_float_body ?t = Inr (of_nat n)"
    using fl_of_int[of "int n"] assms by simp
  have "hd ?t \<noteq> CHR ''i'' \<and> hd ?t \<noteq> CHR ''n''"
    using str_int_digits[of "hd (str_int (int n))" n] dig by (simp add: hd_append)
  then have lit: "?t \<notin> {''inf'', ''nan'', ''infinity''}"
    by (metis insert_iff empty_iff list.sel(1))
  show ?thesis
    using lit body by (simp add: py_float_def Let_def strip str_int_nat_head)
qed

lemma eval_num_str:
  "eval_num (str_int k) = Inr (VInt k)"
  "n < 10 ^ 15 \<Longrightarrow> eval_num (str_float (of_nat n)) = Inr (VFloat (of_nat n))"
proof -
  show "eval_num (str_int k) = Inr (VInt k)" by (simp add: eval_num_def)
  assume n: "n < 10 ^ 15"
  then have "int n \<le> 2 ^ 53" by simp
  moreover have "strip (str_int (int n) @ ''.0'') = str_int (int n) @ ''.0''"
    by (rule strip_id) (rule whole_text_no_space)
  ultimately show "eval_num (str_float (of_nat n)) = Inr (VFloat (of_nat n))"
    using n by (simp add: eval_num_def str_float_whole py_int_whole py_float_whole)
qed

subsection \<open>Reading a list back\<close>

lemma split_join_sep:
  "(\<And>w. w \<in> set ws \<Longrightarrow> d \<notin> set w) \<Longrightarrow> d \<notin> set sp \<Longrightarrow>
   split_on d (join (d # sp) (w # ws)) = w # map (\<lambda>v. sp @ v) ws" if "d \<notin> set w" for w
  using that
proof (induction ws arbitrary: w)
  case Nil
  then show ?case by (simp add: split_on_no_sep)
next
  case (Cons v ws)
  then have "d \<notin> set v" by simp
  have shift: "split_on d (sp @ join (d # sp) (v # ws)) = (sp @ v) # map (\<lambda>v. sp @ v) ws"
  proof (cases ws)
    case Nil
    with \<open>d \<notin> set v\<close> Cons.prems show ?thesis by (simp add: split_on_no_sep)
  next
    case (Cons u us)
    have "split_on d ((sp @ v) @ d # sp @ join (d # sp) (u # us)) =
          (sp @ v) # split_on d (sp @ join (d # sp) (u # us))"
      using \<open>d \<notin> set v\<close> Cons.prems by (intro split_on_append) simp
    moreover have "split_on d (v @ d # sp @ join (d # sp) (u # us)) = v # split_on d (sp @ join (d # sp) (u # us))"
      using \<open>d \<notin> set v\<close> by (rule split_on_append)
    ultimately show ?thesis
      using Cons.IH[of v] Cons.prems \<open>d \<notin> set v\<close> by (simp add: Cons)
  qed
  show ?case
    using Cons.prems(3) shift split_on_append[of d w "sp @ join (d # sp) (v # ws)"] by simp
qed

lemma strip_Cons_space: "is_space c \<Longrightarrow> strip (c # s) = strip s"
  by (simp add: strip_def strip_by_def)

lemma strip_snoc_space: "is_space c \<Longrightarrow> s \<noteq> [] \<Longrightarrow> \<not> is_space (hd s) \<Longrightarrow> strip (s @ [c]) = strip s"
  by (cases s) (simp_all add: strip_def strip_by_def)

lemma strip_eq_Nil: "strip s = [] \<longleftrightarrow> (\<forall>c \<in> set s. is_space c)"
proof
  assume "strip s = []"
  then have r: "\<forall>c \<in> set (dropWhile is_space s). is_space c"
    by (simp add: strip_def strip_by_def dropWhile_eq_Nil_conv)
  then have "dropWhile is_space s = []"
    by (metis hd_dropWhile list.set_sel(1))
  then show "\<forall>c \<in> set s. is_space c" by (subst (asm) dropWhile_eq_Nil_conv)
next
  assume "\<forall>c \<in> set s. is_space c"
  then have "dropWhile is_space s = []" using dropWhile_eq_Nil_conv[of is_space s] by blast
  then show "strip s = []" unfolding strip_def strip_by_def by (simp only: rev.simps dropWhile.simps)
qed

lemma eval_num_space: "eval_num (CHR '' '' # w) = eval_num w"
  by (simp add: eval_num_def strip_Cons_space is_space_def)

definition readable :: "pyval \<Rightarrow> bool" where
  "readable x \<longleftrightarrow> eval_num (vstr x) = Inr x \<and> vstr x \<noteq> [] \<and>
     (\<forall>c \<in> set (vstr x). \<not> is_space c \<and> c \<noteq> CHR '','')"

lemma readableD:
  assumes "readable x"
  shows "eval_num (vstr x) = Inr x" "vstr x \<noteq> []" "c \<in> set (vstr x) \<Longrightarrow> \<not> is_space c"
    "c \<in> set (vstr x) \<Longrightarrow> c \<noteq> CHR '',''"
  using assms unfolding readable_def by blast+

lemma readable_int: "readable (VInt n)"
proof -
  have "c \<in> set (str_int n) \<Longrightarrow> c \<noteq> CHR '',''" for c
    using str_digits_chars[of n c] str_digits_chars[of "- n" c] is_digit_not_sign
    by (auto simp: str_int_def split: if_splits)
  then show ?thesis by (auto simp: readable_def eval_num_str dest: str_int_no_space)
qed

lemma readable_whole: "n < 10 ^ 15 \<Longrightarrow> readable (VFloat (of_nat n))"
proof -
  assume n: "n < 10 ^ 15"
  have "c \<in> set (str_int (int n) @ ''.0'') \<Longrightarrow> c \<noteq> CHR '',''" for c
    using str_int_digits[of c n] is_digit_not_sign by auto
  with n show ?thesis
    using whole_text_no_space[of _ n] eval_num_str(2)[OF n]
    by (auto simp: readable_def str_float_whole)
qed

text \<open>The round trip of one line.\<close>

lemma eval_list_written:
  assumes "\<And>x. x \<in> set xs \<Longrightarrow> readable x"
  shows "eval_list (str_vlist xs @ [newline]) = Inr xs"
proof -
  let ?body = "join '', '' (map vstr xs)"
  have nl: "is_space newline" "\<not> is_space CHR ''[''" "\<not> is_space CHR '']''" by (simp_all add: is_space_def newline_def)
  have "strip (str_vlist xs) = str_vlist xs"
    unfolding strip_def by (rule strip_by_no_ends) (simp add: str_vlist_def nl)
  then have t: "strip (str_vlist xs @ [newline]) = str_vlist xs"
    using strip_snoc_space[of newline "str_vlist xs"] nl by (simp add: str_vlist_def)
  have parts: "butlast (tl (str_vlist xs)) = ?body" by (simp add: str_vlist_def butlast_append)
  have ends: "hd (str_vlist xs) = CHR ''[''" "last (str_vlist xs) = CHR '']''" "\<not> length (str_vlist xs) < 2"
    by (simp_all add: str_vlist_def)
  show ?thesis
  proof (cases xs)
    case Nil
    then have "strip ?body = []" by (simp add: strip_def strip_by_def)
    with Nil show ?thesis
      unfolding eval_list_def t Let_def parts using ends by simp
  next
    case (Cons y ys)
    have y: "readable y" using assms Cons by simp
    have sp: "split_on (CHR '','') ?body = vstr y # map ((#) CHR '' '') (map vstr ys)"
      using split_join_sep[of "CHR '',''" "vstr y" "map vstr ys" "'' ''"] readableD(4)[OF assms] Cons
      by (auto simp del: map_map)
    obtain c where "c \<in> set (vstr y)" "\<not> is_space c"
      using y unfolding readable_def by (metis last_in_set)
    moreover have "set (vstr y) \<subseteq> set ?body"
      unfolding Cons by (cases ys) auto
    ultimately have "strip ?body \<noteq> []" by (auto simp: strip_eq_Nil)
    moreover have "mapM_r eval_num (map ((#) CHR '' '') (map vstr zs)) = Inr zs" if "set zs \<subseteq> set xs" for zs
      using that by (induction zs) (simp_all add: eval_num_space readableD(1)[OF assms])
    then have "mapM_r eval_num (vstr y # map ((#) CHR '' '') (map vstr ys)) = Inr xs"
      using y Cons by (simp add: readableD(1) subset_insertI)
    ultimately show ?thesis
      unfolding eval_list_def t Let_def parts sp using ends by (simp del: map_map mapM_r.simps)
  qed
qed

lemma readlines_line: "newline \<notin> set l \<Longrightarrow> readlines_acc w (l @ newline # r) = (rev w @ l @ [newline]) # readlines_acc [] r"
  by (induction l arbitrary: w) auto

lemma set_join: "set (join sep ws) \<subseteq> set sep \<union> (\<Union>w \<in> set ws. set w)"
  by (induction sep ws rule: join.induct) auto

lemma newline_str_vlist:
  assumes "\<And>x. x \<in> set xs \<Longrightarrow> readable x"
  shows "newline \<notin> set (str_vlist xs)"
proof -
  have j: "set (join '', '' (map vstr xs)) \<subseteq> set '', '' \<union> (\<Union>x \<in> set xs. set (vstr x))"
    using set_join[of "'', ''" "map vstr xs"] by simp
  have v: "newline \<notin> set (vstr x)" if "x \<in> set xs" for x
    using readableD(3)[OF assms[OF that], of newline] by (auto simp: is_space_def newline_def)
  have "newline \<notin> set '', ''" by (simp add: newline_def)
  with j v have "newline \<notin> set (join '', '' (map vstr xs))" by blast
  then show ?thesis by (simp add: str_vlist_def newline_def)
qed

text \<open>The first line of a file that started with this payload, whatever was appended later.\<close>

lemma payload_line_written:
  assumes "\<And>x. x \<in> set xs \<Longrightarrow> readable x"
  shows "payload_line (readlines_acc [] (str_vlist xs @ newline # rest)) 0 = Inr xs"
proof -
  have "readlines_acc [] (str_vlist xs @ newline # rest) =
          (str_vlist xs @ [newline]) # readlines_acc [] rest"
    using readlines_line[of "str_vlist xs" "[]"] newline_str_vlist[of xs] assms by simp
  then show ?thesis
    using eval_list_written[OF assms] by (simp add: payload_line_def py_nth_def)
qed

end
