(* ===== verification/Dlpar_Tests.thy ===== *)
theory Dlpar_Tests
  imports Dlpar_Spec Dlpar_File
begin

section \<open>What the DLPAR tests do to a partition\<close>

text \<open>
  The constructors connect to the machines and check the configuration; with a console that keeps
  its documented behaviour they return an object that is ready for the operations. The tests are
  then the loops of \<open>resource_ops\<close> over the payloads of \<open>Dlpar_Payload\<close>.
\<close>

subsection \<open>Connecting\<close>

definition connects :: "'w dlpar_env \<Rightarrow> bool" where
  "connects E \<longleftrightarrow> (\<forall>h w. session_cleanup E h w = (Inr (), w)) \<and>
     (\<forall>h u p w. \<exists>b. session_connect E h u p w = (Inr b, w))"

definition primary_machine :: "payload \<Rightarrow> ssh_machine" where
  "primary_machine c =
     \<lparr>mac_con = 0, name = get c ''src_name'', machine = get c ''hmc_manageSystem'',
      partition = get c ''src_partition'', sshcnx = False\<rparr>"

definition secondary_machine :: "payload \<Rightarrow> int \<Rightarrow> ssh_machine" where
  "secondary_machine c mc =
     \<lparr>mac_con = mc, name = get c ''target_lpar_hostname'', machine = get c ''hmc_manageSystem'',
      partition = get c ''target_partition'', sshcnx = True\<rparr>"

definition hmc_machine :: "payload \<Rightarrow> int \<Rightarrow> ssh_machine" where
  "hmc_machine c mc =
     \<lparr>mac_con = mc, name = get c ''hmc_name'', machine = get c ''hmc_manageSystem'',
      partition = get c ''hmc_manageSystem'', sshcnx = True\<rparr>"

lemma wp_init_ssh: "connects E \<Longrightarrow> wp (init_ssh E u p h) (\<lambda>_. quiet s) (\<lambda>_ _. False) s"
proof -
  assume c: "connects E"
  then obtain b where b: "session_connect E h u p (world s) = (Inr b, world s)"
    unfolding connects_def by blast
  show ?thesis
    using c b by (simp add: connects_def init_ssh_def wp quiet_def)
qed

lemma wp_ssh_machine:
  assumes "connects E"
  shows "wp (ssh_machine E c Hmc) (\<lambda>m t. quiet s t \<and> (\<exists>mc. m = hmc_machine c mc)) (\<lambda>_ _. False) s"
    and "wp (ssh_machine E c Linux_primary) (\<lambda>m t. quiet s t \<and> m = primary_machine c) (\<lambda>_ _. False) s"
    and "wp (ssh_machine E c Linux_secondary) (\<lambda>m t. quiet s t \<and> (\<exists>mc. m = secondary_machine c mc))
           (\<lambda>_ _. False) s"
proof -
  note i = wp_init_ssh[OF assms]
  show "wp (ssh_machine E c Hmc) (\<lambda>m t. quiet s t \<and> (\<exists>mc. m = hmc_machine c mc)) (\<lambda>_ _. False) s"
    by (simp add: ssh_machine_def wp_bnd) (rule wp_conseq[OF i], auto simp: wp hmc_machine_def)
  show "wp (ssh_machine E c Linux_primary) (\<lambda>m t. quiet s t \<and> m = primary_machine c) (\<lambda>_ _. False) s"
    by (simp add: ssh_machine_def wp primary_machine_def)
  show "wp (ssh_machine E c Linux_secondary) (\<lambda>m t. quiet s t \<and> (\<exists>mc. m = secondary_machine c mc))
           (\<lambda>_ _. False) s"
    by (simp add: ssh_machine_def wp_bnd) (rule wp_conseq[OF i], auto simp: wp secondary_machine_def)
qed

definition connected :: "payload \<Rightarrow> test_case \<Rightarrow> test_case \<Rightarrow> bool" where
  "connected c tc tc' \<longleftrightarrow>
     (\<exists>mc mc'. tc' = tc\<lparr>hmc := Some (hmc_machine c mc), linux_1 := Some (primary_machine c),
                        linux_2 := Some (secondary_machine c mc')\<rparr>)"

lemma connectedI:
  "connected c tc (tc\<lparr>hmc := Some (hmc_machine c mc), linux_1 := Some (primary_machine c),
                     linux_2 := Some (secondary_machine c mc')\<rparr>)"
  unfolding connected_def by blast

lemma wp_try_except_ok:
  "wp m Q (\<lambda>_ _. False) s \<Longrightarrow> wp (try_except m h) Q (\<lambda>_ _. False) s"
  unfolding wp_try_except by (erule wp_conseq) auto

lemma wp_get_connections:
  assumes "connects E"
  shows "wp (get_connections E c Both tc) (\<lambda>(tc', v) t. quiet s t \<and> connected c tc tc') (\<lambda>_ _. False) s"
  unfolding get_connections_def
proof (rule wp_try_except_ok, subst wp_bnd, rule wp_conseq[OF wp_ssh_machine(1)[OF assms]])
  fix h t assume h: "quiet s t \<and> (\<exists>mc. h = hmc_machine c mc)"
  have 2: "wp (ssh_machine E c Linux_secondary)
        (\<lambda>m t. quiet s t \<and> (\<exists>mc. m = secondary_machine c mc)) (\<lambda>_ _. False) u" if "quiet s u" for u
    by (rule wp_conseq[OF wp_ssh_machine(3)[OF assms]]) (use that in \<open>auto intro: quiet_trans\<close>)
  have 1: "wp (ssh_machine E c Linux_primary)
        (\<lambda>m t. quiet s t \<and> m = primary_machine c) (\<lambda>_ _. False) u" if "quiet s u" for u
    by (rule wp_conseq[OF wp_ssh_machine(2)[OF assms]]) (use that in \<open>auto intro: quiet_trans\<close>)
  show "wp (sq (log Debug ''Login to HMC successful.'')
     (let tc = tc\<lparr>hmc := Some h\<rparr>
      in bnd (if Both = Primary \<or> Both = Both
              then bnd (ssh_machine E c Linux_primary)
                    (\<lambda>m. sq (log Debug ''Login to 1st linux LPAR successful.'') (ret (tc\<lparr>linux_1 := Some m\<rparr>)))
              else ret tc)
          (\<lambda>tc. bnd (if Both = Secondary \<or> Both = Both
                     then bnd (ssh_machine E c Linux_secondary)
                           (\<lambda>m. sq (log Debug ''Login to 2nd linux LPAR successful.'')
                                 (ret (tc\<lparr>linux_2 := Some m\<rparr>)))
                     else ret tc)
                 (\<lambda>tc. sq (check_log ''Getting Machine connections.'' (VBool True) True)
                        (bnd (lift (attr (linux_2 tc))) (\<lambda>m. ret (tc, mac_con m)))))))
     (\<lambda>(tc', v) t. quiet s t \<and> connected c tc tc') (\<lambda>_ _. False) t"
    using h
    by (auto simp: wp check_log_def intro!: wp_conseq[OF 1] wp_conseq[OF 2] connectedI)
qed simp

subsection \<open>Dedicated processors\<close>

text \<open>
  The documented behaviour of the console for a payload \<open>c\<close>: both partitions are in dedicated
  mode, their settings are readable, \<open>v\<close> is the number of processors of the source partition and
  \<open>M\<close> the maximum of its profile.
\<close>

definition ded_console :: "'w dlpar_env \<Rightarrow> payload \<Rightarrow> ('w \<Rightarrow> int) \<Rightarrow> int \<Rightarrow> bool" where
  "ded_console E c v M \<longleftrightarrow> connects E \<and>
     get c ''ded_quantity_to_test'' \<noteq> VNone \<and> (\<exists>n. vint (get c ''cfg_cpu_per_proc'') = Inr n) \<and>
     (\<exists>x. num_of (get c ''sleep_time'') = Some x \<and> 0 \<le> exact x) \<and>
     (\<exists>mm p1 p2. get c ''hmc_manageSystem'' = VStr mm \<and> get c ''src_partition'' = VStr p1 \<and>
        get c ''target_partition'' = VStr p2 \<and>
        (let ans = (\<lambda>p opt f. answers E (get c ''hmc_name'') (query_text ''proc'' mm p opt) f);
             chg = (\<lambda>oper q d. changes E (get c ''hmc_name'') (change_text (''proc'', oper, ''--procs'') mm p1 q) v d)
         in (\<forall>p \<in> {p1, p2}. ans p ''curr_proc_mode'' (\<lambda>_. ''ded'') \<and>
               (\<exists>f. ans p ''curr_min_procs'' (\<lambda>w. str_int (f w))) \<and>
               (\<exists>f. ans p ''curr_procs'' (\<lambda>w. str_int (f w)))) \<and>
            ans p1 ''curr_procs'' (\<lambda>w. str_int (v w)) \<and> ans p1 ''curr_max_procs'' (\<lambda>_. str_int M) \<and>
            (\<forall>q > 0. chg ''a'' q q \<and> chg ''r'' q (- q))))"

lemma wp_ded_check_set_cfg:
  assumes h: "hmc tc = Some h" "machine m = VStr mm" "partition m = VStr p"
    and "answers E (name h) (query_text ''proc'' mm p ''curr_proc_mode'') (\<lambda>_. ''ded'')"
    and "answers E (name h) (query_text ''proc'' mm p ''curr_min_procs'') (\<lambda>w. str_int (f w))"
    and "answers E (name h) (query_text ''proc'' mm p ''curr_procs'') (\<lambda>w. str_int (g w))"
  shows "wp (ded_check_set_cfg E tc m) (\<lambda>_. quiet s) (\<lambda>_ _. False) s"
proof -
  have mode: "wp (get_option ''proc'' E tc m ''curr_proc_mode'') (\<lambda>x t. x = ''ded'' \<and> quiet s t)
      (\<lambda>_ _. False) u" if "quiet s u" for u
    by (rule wp_conseq[OF wp_get_option[OF h assms(4)]]) (use that in \<open>auto intro: quiet_trans\<close>)
  have min: "wp (bnd (get_option ''proc'' E tc m ''curr_min_procs'') (\<lambda>x. lift (py_int x)))
      (\<lambda>_. quiet s) (\<lambda>_ _. False) u" if "quiet s u" for u
    by (rule wp_conseq[OF wp_read_int[OF h assms(5)]]) (use that in \<open>auto intro: quiet_trans\<close>)
  have cur: "wp (bnd (get_option ''proc'' E tc m ''curr_procs'') (\<lambda>x. lift (py_int x)))
      (\<lambda>_. quiet s) (\<lambda>_ _. False) u" if "quiet s u" for u
    by (rule wp_conseq[OF wp_read_int[OF h assms(6)]]) (use that in \<open>auto intro: quiet_trans\<close>)
  show ?thesis
    unfolding ded_check_set_cfg_def reads
    by (simp only: wp_sq wp_log wp_bnd[of "get_option _ _ _ _ _"] wp_bnd[of "bnd _ _"])
       (auto simp: check_log_def wp_ret wp_log wp_sq wp_bnd[of "bnd _ _"]
         intro!: wp_conseq[OF mode] wp_conseq[OF min] wp_conseq[OF cur])
qed

definition kept :: "'w dlpar_st \<Rightarrow> 'w dlpar_st \<Rightarrow> bool" where
  "kept s t \<longleftrightarrow> world t = world s \<and> config_file t = config_file s"

lemma keptI: "quiet s t \<Longrightarrow> kept s t"
  by (simp add: quiet_def kept_def)

lemma kept_quiet: "kept s t \<Longrightarrow> quiet t u \<Longrightarrow> kept s u"
  by (simp add: quiet_def kept_def)

lemma kept_trace [simp]: "kept s (t\<lparr>trace := x\<rparr>) = kept s t"
  by (simp add: kept_def)

lemma wp_test_case_init:
  assumes "vint (get c ''cfg_cpu_per_proc'') = Inr n"
  shows "wp (test_case_init nm c) (\<lambda>tc t. kept s t \<and>
           tc = \<lparr>cpu_per_processor = n, hmc = None, linux_1 = None, linux_2 = None,
                 quant_to_test = VNone, sleep_time = VNone, conn_value = 0, linux = None\<rparr>)
         (\<lambda>_ _. False) s"
  using assms by (simp add: test_case_init_def wp kept_def)

lemma ded_console_ready:
  assumes "ded_console E c v M" "hmc tc = Some (hmc_machine c mc)" "linux_1 tc = Some (primary_machine c)"
    and "sleep_time tc = get c ''sleep_time''"
  shows "ded_ready E tc v"
    and "wp (get_max_proc E tc) (\<lambda>n t. n = M \<and> quiet u t) (\<lambda>_ _. False) u"
    and "wp (get_curr_proc E tc) (\<lambda>n t. n = v (world u) \<and> quiet u t) (\<lambda>_ _. False) u"
proof -
  from assms(1) obtain mm p1 p2 where g: "get c ''hmc_manageSystem'' = VStr mm" "get c ''src_partition'' = VStr p1"
    and cur: "answers E (get c ''hmc_name'') (query_text ''proc'' mm p1 ''curr_procs'') (\<lambda>w. str_int (v w))"
    and mxa: "answers E (get c ''hmc_name'') (query_text ''proc'' mm p1 ''curr_max_procs'') (\<lambda>_. str_int M)"
    and ch: "\<And>q. 0 < q \<Longrightarrow> changes E (get c ''hmc_name'') (change_text (''proc'', ''a'', ''--procs'') mm p1 q) v q \<and>
               changes E (get c ''hmc_name'') (change_text (''proc'', ''r'', ''--procs'') mm p1 q) v (- q)"
    and sl: "\<exists>x. num_of (get c ''sleep_time'') = Some x \<and> 0 \<le> exact x"
    unfolding ded_console_def Let_def by blast
  have m: "machine (primary_machine c) = VStr mm" "partition (primary_machine c) = VStr p1"
    using g by (simp_all add: primary_machine_def)
  have nm: "name (hmc_machine c mc) = get c ''hmc_name''" by (simp add: hmc_machine_def)
  have "counter ded_kind E tc (primary_machine c) v"
    using assms(2,4) cur ch sl m nm unfolding counter_def by auto
  with assms(3) show "ded_ready E tc v" by (auto simp: ded_ready_def)
  show "wp (get_max_proc E tc) (\<lambda>n t. n = M \<and> quiet u t) (\<lambda>_ _. False) u"
    using wp_read_int[OF assms(2) m, of E "''proc''" "''curr_max_procs''" "\<lambda>_. M" u] mxa nm assms(3)
    by (simp add: get_max_proc_def on_linux_1_def reads)
  show "wp (get_curr_proc E tc) (\<lambda>n t. n = v (world u) \<and> quiet u t) (\<lambda>_ _. False) u"
    using wp_read_int[OF assms(2) m, of E "''proc''" "''curr_procs''" v u] cur nm assms(3)
    by (simp add: get_curr_proc_def on_linux_1_def reads)
qed

lemma ded_console_cfg:
  assumes "ded_console E c v M" "hmc tc = Some (hmc_machine c mc)"
    and "m = primary_machine c \<or> m = secondary_machine c mc'"
  shows "wp (ded_check_set_cfg E tc m) (\<lambda>_. quiet u) (\<lambda>_ _. False) u"
proof -
  from assms(1) obtain mm p1 p2 where g: "get c ''hmc_manageSystem'' = VStr mm"
    "get c ''src_partition'' = VStr p1" "get c ''target_partition'' = VStr p2"
    and all: "\<forall>p \<in> {p1, p2}. answers E (get c ''hmc_name'') (query_text ''proc'' mm p ''curr_proc_mode'') (\<lambda>_. ''ded'') \<and>
         (\<exists>f. answers E (get c ''hmc_name'') (query_text ''proc'' mm p ''curr_min_procs'') (\<lambda>w. str_int (f w))) \<and>
         (\<exists>f. answers E (get c ''hmc_name'') (query_text ''proc'' mm p ''curr_procs'') (\<lambda>w. str_int (f w)))"
    unfolding ded_console_def Let_def by blast
  obtain p where p: "p \<in> {p1, p2}" "machine m = VStr mm" "partition m = VStr p"
    using assms(3) g by (auto simp: primary_machine_def secondary_machine_def)
  have nm: "name (hmc_machine c mc) = get c ''hmc_name''" by (simp add: hmc_machine_def)
  from all p(1) obtain f g where
    "answers E (name (hmc_machine c mc)) (query_text ''proc'' mm p ''curr_proc_mode'') (\<lambda>_. ''ded'')"
    "answers E (name (hmc_machine c mc)) (query_text ''proc'' mm p ''curr_min_procs'') (\<lambda>w. str_int (f w))"
    "answers E (name (hmc_machine c mc)) (query_text ''proc'' mm p ''curr_procs'') (\<lambda>w. str_int (g w))"
    unfolding nm by blast
  then show ?thesis by (rule wp_ded_check_set_cfg[OF assms(2) p(2,3)])
qed

definition has_hmc :: "payload \<Rightarrow> test_case \<Rightarrow> bool" where
  "has_hmc c tc \<longleftrightarrow> (\<exists>mc. hmc tc = Some (hmc_machine c mc))"

lemma has_hmc_simp [simp]: "hmc tc = Some (hmc_machine c mc) \<Longrightarrow> has_hmc c tc"
  by (auto simp: has_hmc_def)

definition is_partition :: "payload \<Rightarrow> ssh_machine \<Rightarrow> bool" where
  "is_partition c m \<longleftrightarrow> m = primary_machine c \<or> (\<exists>mc. m = secondary_machine c mc)"

lemma is_partition_simps [simp]: "is_partition c (primary_machine c)" "is_partition c (secondary_machine c mc)"
  by (auto simp: is_partition_def)

lemma wp_dedicated_cpu:
  assumes con: "ded_console E c v M"
  shows "wp (dedicated_cpu E c) (\<lambda>tc t. kept s t \<and> has_hmc c tc \<and>
           linux_1 tc = Some (primary_machine c) \<and> sleep_time tc = get c ''sleep_time'')
         (\<lambda>_ _. False) s"
proof -
  from con obtain n where n: "vint (get c ''cfg_cpu_per_proc'') = Inr n" unfolding ded_console_def by blast
  have q: "get c ''ded_quantity_to_test'' \<noteq> VNone" and co: "connects E"
    using con unfolding ded_console_def by blast+
  have gc: "wp (get_connections E c Both tc) (\<lambda>(tc', v) t. kept s t \<and> connected c tc tc') (\<lambda>_ _. False) u"
    if "kept s u" for tc u
    by (rule wp_conseq[OF wp_get_connections[OF co]]) (use that in \<open>auto intro: kept_quiet\<close>)
  have cfg: "wp (ded_check_set_cfg E tc m) (\<lambda>_. kept s) (\<lambda>_ _. False) u"
    if k: "kept s u" and "has_hmc c tc" "is_partition c m" for tc m u
  proof -
    from that(2,3) obtain mc mc' where "hmc tc = Some (hmc_machine c mc)"
      "m = primary_machine c \<or> m = secondary_machine c mc'"
      unfolding has_hmc_def is_partition_def by blast
    from ded_console_cfg[OF con this] show ?thesis
      by (rule wp_conseq) (use k in \<open>auto intro: kept_quiet\<close>)
  qed
  show ?thesis
    unfolding dedicated_cpu_def wp_bnd[of "test_case_init _ _"]
    by (rule wp_conseq[OF wp_test_case_init[OF n]])
       (auto simp: Let_def q check_log_def wp_sq wp_ret wp_log wp_bnd connected_def
         intro!: wp_conseq[OF gc] wp_conseq[OF cfg])
qed

lemma ded_steps:
  assumes "vint cpu = Inr n"
  shows "ded_add_step E tc cpu msg pre post = ded.add_step E tc n msg (done_msg pre cpu post)"
    and "ded_rem_step E tc cpu msg pre post = ded.rem_step E tc n msg (done_msg pre cpu post)"
  using assms by (simp_all add: ded_add_step_def ded_rem_step_def ded.add_step_def ded.rem_step_def)

definition val_int :: "pyval \<Rightarrow> int" where
  "val_int x = (case vint x of Inr n \<Rightarrow> n | Inl _ \<Rightarrow> 0)"

definition cpu_list :: "nat \<Rightarrow> pyval list" where
  "cpu_list k = map (\<lambda>i. VFloat (of_nat i)) [1..<Suc k]"

lemma py_trunc_of_nat [simp]: "py_trunc (of_nat i) = int i"
  using py_trunc_of_int[of "int i"] by simp

lemma val_int_of_nat [simp]: "val_int (VFloat (of_nat i)) = int i"
  by (simp add: val_int_def)

lemma map_val_int_cpu_list: "map val_int (cpu_list k) = map int [1..<Suc k]"
  by (simp add: cpu_list_def del: upt_Suc)

lemma cpu_list_sums: "sum_list (map val_int (cpu_list k)) = tri k"
  unfolding map_val_int_cpu_list by (induction k) simp_all

lemma take_cpu_list: "j \<le> k \<Longrightarrow> take j (cpu_list k) = cpu_list j"
  by (simp add: cpu_list_def take_map take_upt del: upt_Suc)

lemma length_cpu_list [simp]: "length (cpu_list k) = k"
  by (simp add: cpu_list_def)

lemma tri_mono: "j \<le> k \<Longrightarrow> tri j \<le> tri k"
  by (induction rule: inc_induct) auto

lemma cpu_list_elems: "x \<in> set (cpu_list k) \<Longrightarrow> 0 < val_int x \<and> vint x = Inr (val_int x)"
  by (auto simp: cpu_list_def val_int_def)

definition file_text :: "string option \<Rightarrow> string" where
  "file_text f = (case f of None \<Rightarrow> [] | Some t \<Rightarrow> t)"

text \<open>The object the constructor returns, as the tests use it.\<close>

definition ded_object :: "payload \<Rightarrow> test_case \<Rightarrow> bool" where
  "ded_object c tc \<longleftrightarrow> has_hmc c tc \<and> linux_1 tc = Some (primary_machine c) \<and>
     sleep_time tc = get c ''sleep_time''"

lemma ded_object:
  assumes con: "ded_console E c v M" and k: "kept s u" and "ded_object c tc"
  shows "ded_ready E tc v"
    and "wp (get_max_proc E tc) (\<lambda>n t. n = M \<and> kept s t) (\<lambda>_ _. False) u"
    and "wp (get_curr_proc E tc) (\<lambda>n t. n = v (world s) \<and> kept s t) (\<lambda>_ _. False) u"
proof -
  from assms(3) obtain mc where mc: "hmc tc = Some (hmc_machine c mc)"
    "linux_1 tc = Some (primary_machine c)" "sleep_time tc = get c ''sleep_time''"
    unfolding ded_object_def has_hmc_def by blast
  note r = ded_console_ready[OF con mc]
  show "ded_ready E tc v" by (rule r(1))
  show "wp (get_max_proc E tc) (\<lambda>n t. n = M \<and> kept s t) (\<lambda>_ _. False) u"
    by (rule wp_conseq[OF r(2)]) (use k in \<open>auto intro: kept_quiet\<close>)
  show "wp (get_curr_proc E tc) (\<lambda>n t. n = v (world s) \<and> kept s t) (\<lambda>_ _. False) u"
    by (rule wp_conseq[OF r(3)]) (use k in \<open>auto intro: kept_quiet simp: kept_def quiet_def\<close>)
qed

lemma wp_with_ded_object:
  assumes con: "ded_console E c v M"
    and "\<And>tc u. kept s u \<Longrightarrow> ded_object c tc \<Longrightarrow> wp (f tc) Q R u"
  shows "wp (bnd (dedicated_cpu E c) f) Q R s"
  unfolding wp_bnd
  by (rule wp_conseq[OF wp_dedicated_cpu[OF con]]) (auto simp: ded_object_def intro!: assms(2))

lemma wp_add_cpu_list:
  assumes "ded_ready E tc v" "v (world u) = b" "config_file u = F"
  shows "wp (for_each (cpu_list k) (\<lambda>cpu. ded_add_step E tc cpu msg pre post))
       (\<lambda>_ u. v (world u) = b + tri k \<and> config_file u = F)
       (\<lambda>e u. ended e \<and> (\<exists>j < k. v (world u) = b + tri j)) u"
proof -
  have "0 < val_int x \<and> (\<exists>msg' d. ded_add_step E tc x msg pre post = ded.add_step E tc (val_int x) msg' d)"
    if "x \<in> set (cpu_list k)" for x
    using cpu_list_elems[OF that] ded_steps(1) by blast
  from ded.wp_add_all[of E tc v "cpu_list k" val_int, OF assms(1) this]
  show ?thesis
    by (rule wp_conseq) (use assms(2,3) in \<open>auto simp: same_but_def cpu_list_sums take_cpu_list\<close>)
qed

lemma wp_rem_cpu_list:
  assumes "ded_ready E tc v" "v (world u) = b" "config_file u = F"
  shows "wp (for_each (cpu_list k) (\<lambda>cpu. ded_rem_step E tc cpu msg pre post))
       (\<lambda>_ u. v (world u) = b - tri k \<and> config_file u = F)
       (\<lambda>e u. ended e \<and> (\<exists>j < k. v (world u) = b - tri j) \<and> config_file u = F) u"
proof -
  have "0 < val_int x \<and> (\<exists>msg' d. ded_rem_step E tc x msg pre post = ded.rem_step E tc (val_int x) msg' d)"
    if "x \<in> set (cpu_list k)" for x
    using cpu_list_elems[OF that] ded_steps(2) by blast
  from ded.wp_rem_all[of E tc v "cpu_list k" val_int, OF assms(1) this]
  show ?thesis
    by (rule wp_conseq) (use assms(2,3) in \<open>auto simp: same_but_def cpu_list_sums take_cpu_list\<close>)
qed

text \<open>
  The addition test as a whole, with \<open>k\<close> the length of the payload: the largest for which the
  triangular number still fits.
\<close>

lemma wp_add_payload:
  assumes "ded_ready E tc v" "kept s u"
    and "cpu_payload_data mx cp (NInt 1) = Some (map of_nat [1..<Suc k])"
  shows "wp (bnd (run_loop (cpu_payload_data mx cp (NInt 1))) (\<lambda>xs.
      let cpu_payload = map VFloat xs in
      sq (data_payload_backup cpu_payload)
     (sq (log Info (''======list of cpu'' @ [CHR 0x27] @ ''s to be added :'' @ str_vlist cpu_payload @ ''======''))
         (for_each cpu_payload (\<lambda>cpu. ded_add_step E tc cpu msg pre post)))))
       (\<lambda>_ u. v (world u) = v (world s) + tri k \<and>
              config_file u = Some (file_text (config_file s) @ str_vlist (cpu_list k) @ [newline]))
       (\<lambda>e u. ended e \<and> (\<exists>j < k. v (world u) = v (world s) + tri j)) u"
proof -
  have cl: "map VFloat (map of_nat [1..<Suc k]) = cpu_list k" by (simp add: cpu_list_def)
  show ?thesis
    unfolding assms(3) run_loop_def option.case bnd_ret_left Let_def cl wp_sq wp_log data_payload_backup_def wp_modify
    by (rule wp_add_cpu_list[OF assms(1)])
       (use assms(2) in \<open>simp_all add: kept_def file_text_def split: option.split\<close>)
qed

lemma wp_cpu_add_ded:
  assumes con: "ded_console E (sorted_payload t) v M"
    and k: "cpu_payload_data (NInt M) (NInt (v (world s))) (NInt 1) = Some (map of_nat [1..<Suc k])"
  shows "wp (test_cpu_add_ded E t)
       (\<lambda>_ u. v (world u) = v (world s) + tri k \<and>
              config_file u = Some (file_text (config_file s) @ str_vlist (cpu_list k) @ [newline]))
       (\<lambda>e u. ended e \<and> (\<exists>j < k. v (world u) = v (world s) + tri j)) s"
  unfolding test_cpu_add_ded_def
proof (rule wp_with_ded_object[OF con], subst wp_bnd)
  fix tc u
  assume u: "kept s u" "ded_object (sorted_payload t) tc"
  note obj = ded_object[OF con _ u(2)]
  show "wp (get_max_proc E tc) (\<lambda>max_procs. wp (bnd (get_curr_proc E tc) (\<lambda>curr_proc.
      bnd (run_loop (cpu_payload_data (NInt max_procs) (NInt curr_proc) (NInt 1))) (\<lambda>xs.
      let cpu_payload = map VFloat xs in
      sq (data_payload_backup cpu_payload)
     (sq (log Info (''======list of cpu'' @ [CHR 0x27] @ ''s to be added :'' @ str_vlist cpu_payload @ ''======''))
         (for_each cpu_payload (\<lambda>cpu.
            ded_add_step E tc cpu ''CPU add Command failed please check the logs''
              ''===============> '' '' cpu got added=======>'')))))) (\<lambda>_ u. v (world u) = v (world s) + tri k \<and>
              config_file u = Some (file_text (config_file s) @ str_vlist (cpu_list k) @ [newline]))
       (\<lambda>e u. ended e \<and> (\<exists>j < k. v (world u) = v (world s) + tri j)))
       (\<lambda>e u. ended e \<and> (\<exists>j < k. v (world u) = v (world s) + tri j)) u"
    by (rule wp_conseq[OF obj(2)[OF u(1)]], elim conjE, hypsubst, subst wp_bnd, rule wp_conseq[OF obj(3)],
        assumption, elim conjE, hypsubst, rule wp_add_payload[OF obj(1)[OF u(1)] _ k]) auto
qed

text \<open>The removal test takes its list from the first line of the file.\<close>

lemma wp_cpu_rm_ded:
  assumes con: "ded_console E (sorted_payload t) v M" and mode: "veq (lpar_mode t) (VStr ''dedicated'')"
    and f: "config_file s = Some (str_vlist (cpu_list k) @ newline # rest)" "k < 10 ^ 15"
  shows "wp (test_cpu_rm E t)
       (\<lambda>_ u. v (world u) = v (world s) - tri k \<and> config_file u = config_file s)
       (\<lambda>e u. ended e \<and> (\<exists>j < k. v (world u) = v (world s) - tri j) \<and> config_file u = config_file s) s"
  unfolding test_cpu_rm_def
proof (simp only: mode if_True, rule wp_with_ded_object[OF con])
  fix tc u
  assume u: "kept s u" "ded_object (sorted_payload t) tc"
  have "readable x" if "x \<in> set (cpu_list k)" for x
    using that f(2) by (auto simp: cpu_list_def simp del: upt_Suc intro!: readable_whole)
  from payload_line_written[OF this] have line:
    "payload_line (readlines_acc [] (str_vlist (cpu_list k) @ newline # rest)) 0 = Inr (cpu_list k)" by blast
  show "wp (bnd data_payload_extract (\<lambda>loaded_payload_data.
        bnd (lift (payload_line loaded_payload_data 0)) (\<lambda>cpupayload.
        sq (log Info (''list of cpu'' @ [CHR 0x27] @ ''s to be removed :'' @ str_vlist cpupayload))
           (for_each cpupayload (\<lambda>cpu.
              ded_rem_step E tc cpu
                (''CPU remove Command failed please '' @ spaces 30 @ ''check the logs'')
                ''=====> '' '' cpus got removed====>'')))))
       (\<lambda>_ u. v (world u) = v (world s) - tri k \<and> config_file u = config_file s)
       (\<lambda>e u. ended e \<and> (\<exists>j < k. v (world u) = v (world s) - tri j) \<and> config_file u = config_file s) u"
    using u(1) f(1)
    by (simp add: data_payload_extract_def wp_bnd wp_gets wp_ret wp_sq wp_log line kept_def)
       (rule wp_rem_cpu_list[OF ded_object(1)[OF con u]], auto)
qed

end
