(* ===== verification/Dlpar_Trace.thy ===== *)
theory Dlpar_Trace
  imports Dlpar_Tests
begin

section \<open>The change commands a DLPAR test sends\<close>

text \<open>
  The texts of the \<^verbatim>\<open>chhwres\<close> commands in the trace, in order. Everything but the engine of an operation leaves
  them alone, and an operation on dedicated processors sends exactly one.
\<close>

definition sent_by :: "event \<Rightarrow> string list" where
  "sent_by e = (case e of Call f as \<Rightarrow> if f = ''hmc'' then filter (\<lambda>c. startswith c ''chhwres'') as else [] | _ \<Rightarrow> [])"

definition sent :: "('w, 'm) st_scheme \<Rightarrow> string list" where
  "sent s = concat (map sent_by (trace s))"

definition proc_change :: "payload \<Rightarrow> string \<Rightarrow> int \<Rightarrow> string" where
  "proc_change c oper q = change_text (''proc'', oper, ''--procs'') (vstr (get c ''hmc_manageSystem'')) (vstr (get c ''src_partition'')) q"

lemma sent_simps [simp]:
  "sent (s\<lparr>trace := trace s @ [e]\<rparr>) = sent s @ sent_by e"
  "sent (s\<lparr>world := w, trace := trace s @ [e]\<rparr>) = sent s @ sent_by e"
  "sent_by (Log l m) = []" "sent_by (Sleep v) = []"
  by (simp_all add: sent_def sent_by_def)

lemma keeps_sent:
  "keeps sent (log l m)" "keeps sent (sleep v)" "sent_by (Call f as) = [] \<Longrightarrow> keeps sent (call f as x)"
  "sent_by e = [] \<Longrightarrow> keeps sent (emit e)"
  by (auto simp: keeps_def log_def emit_def sleep_def call_def py_defs split: prod.split option.split)

lemma keeps_after_lift: "(\<And>x. r = Inr x \<Longrightarrow> keeps F (f x)) \<Longrightarrow> keeps F (bnd (lift r) f)"
  by (cases r) (simp_all add: keeps_def py_defs)

lemma vcat_head: "vcat (VStr a # vs) = Inr x \<Longrightarrow> \<exists>y. x = a @ y"
  by (auto simp: rbind_def split: sum.splits)

lemma keeps_query: "keeps sent (get_option r E tc m opt)"
proof -
  have "keeps sent (hmc_cmd E tc c)" if "query_cmd r m opt = Inr c" for c
  proof -
    from that obtain y where "c = ''lshwres -m '' @ y" unfolding query_cmd_def by (blast dest: vcat_head)
    then have "sent_by (Call ''hmc'' [c]) = []" by (simp add: sent_by_def startswith_def)
    then show ?thesis unfolding hmc_cmd_def by (intro keeps_after_lift keeps_sent)
  qed
  then show ?thesis
    unfolding get_option_def Let_def by (intro keeps_after_lift keeps_bnd keeps keeps_sent)
qed

lemmas keeps_dlpar = keeps_query keeps_sent keeps_pure keeps_bnd keeps_sq keeps_whenb keeps_if keeps_case_option keeps_try_except

lemma keeps_reads:
  "keeps sent (get_cpu_option E tc m opt)" "keeps sent (int_cpu_option E tc m opt)" "keeps sent (pause tc)"
  "keeps sent (check_log x v b)" "keeps sent (check_or x b y e)" "keeps sent (finish r)" "keeps sent (on_error x k)"
  unfolding reads pause_def check_log_def check_or_def finish_def on_error_def cancel_on_capacity_exceeded_def
  by (auto simp: Let_def split: pyval.split intro!: keeps_dlpar)

lemma keeps_validation: "oper = ''a'' \<or> oper = ''r'' \<Longrightarrow> keeps sent (Dlpar_cpu_validation E tc oper (One m) q (Before b))"
  unfolding Dlpar_cpu_validation_def validate_add_def validate_rm_def Let_def
  by (auto intro!: keeps_dlpar keeps_reads)

lemma keeps_connect: "keeps sent (get_connections E c cl tc)" "keeps sent (ssh_machine E c t)"
proof -
  have i: "keeps sent (init_ssh E u p h)" for u p h
    unfolding init_ssh_def by (intro keeps_dlpar; simp add: sent_by_def)
  then show m: "keeps sent (ssh_machine E c t)" for t
    unfolding ssh_machine_def by (cases t) (auto intro!: keeps_dlpar)
  show "keeps sent (get_connections E c cl tc)"
    unfolding get_connections_def Let_def by (intro keeps_dlpar keeps_reads m)
qed

lemma keeps_cfg: "keeps sent (ded_check_set_cfg E tc m)"
  unfolding ded_check_set_cfg_def by (intro keeps_dlpar keeps_reads)

lemma keeps_dedicated_cpu: "keeps sent (dedicated_cpu E c)"
  unfolding dedicated_cpu_def test_case_init_def Let_def
  by (auto intro!: keeps_dlpar keeps_reads keeps_cfg keeps_connect keeps_modify simp: sent_def split: prod.split)


text \<open>An addition or a removal sends its own command, and no other.\<close>

lemma wp_keeps_ok: "keeps F m \<Longrightarrow> (\<And>x t. F t = F s \<Longrightarrow> Q x t) \<Longrightarrow> wp m Q (\<lambda>_ _. True) s"
  by (rule wp_keeps) simp_all

lemma wp_engine_sends:
  assumes "machine m = VStr mm" "partition m = VStr p" "oper = ''a'' \<or> oper = ''r''"
  shows "wp (Dlpar_engine E tc (''proc'', oper, ''--procs'') (One m) (VInt q))
    (\<lambda>_ t. sent t = sent s @ [change_text (''proc'', oper, ''--procs'') mm p q]) (\<lambda>_ _. True) s"
proof -
  have "sent_by (Call ''hmc'' [change_text (''proc'', oper, ''--procs'') mm p q]) = [change_text (''proc'', oper, ''--procs'') mm p q]"
    by (simp add: sent_by_def change_text_def startswith_def)
  then show ?thesis
    using assms by (auto simp: Dlpar_engine_def change_cmd_text hmc_cmd_def wp sent_def split: prod.split sum.split)
qed

lemma wp_ded_op_sends:
  assumes "linux_1 tc = Some m" "machine m = VStr mm" "partition m = VStr p"
  shows "wp (add_ded_cpu E tc (VInt q)) (\<lambda>_ t. sent t = sent s @ [change_text (''proc'', ''a'', ''--procs'') mm p q]) (\<lambda>_ _. True) s"
    and "wp (rem_ded_cpu E tc (VInt q)) (\<lambda>_ t. sent t = sent s @ [change_text (''proc'', ''r'', ''--procs'') mm p q]) (\<lambda>_ _. True) s"
proof -
  have tail: "wp (sq (pause tc) (if stdout_text res \<noteq> [] then ret (Some 1)
        else sq (Dlpar_cpu_validation E tc ''a'' (One m) x (Before b)) (ret None))) (\<lambda>_ u. sent u = sent t) (\<lambda>_ _. True) t"
    "wp (if stdout_text res \<noteq> [] then ret (Some 1) else sq (pause tc)
         (sq (Dlpar_cpu_validation E tc ''r'' (One m) x (Before b)) (ret None))) (\<lambda>_ u. sent u = sent t) (\<lambda>_ _. True) t" for t res b x
    by (rule wp_keeps_ok[where F = sent],
        (rule keeps_dlpar keeps_reads keeps_validation[of "''a''", simplified] keeps_validation[of "''r''", simplified])+, assumption)+
  have fin: "wp (bnd m' finish) (\<lambda>_ t. P (sent t)) (\<lambda>_ _. True) s" if "wp m' (\<lambda>_ t. P (sent t)) (\<lambda>_ _. True) s" for m' P s
    unfolding wp_bnd by (rule wp_conseq[OF that], rule wp_keeps_ok[OF keeps_reads(6)]) simp_all
  have l: "on_linux_1 tc f = f m" for f :: "ssh_machine \<Rightarrow> ('a, 'b) dlpar"
    using assms(1) by (simp add: on_linux_1_def attr_def)
  show "wp (add_ded_cpu E tc (VInt q)) (\<lambda>_ t. sent t = sent s @ [change_text (''proc'', ''a'', ''--procs'') mm p q]) (\<lambda>_ _. True) s"
    unfolding add_ded_cpu_def l
    by (rule fin, unfold add_dedicated_cpu_def wp_bnd wp_sq, rule wp_keeps_ok[OF keeps_reads(2)], rule wp_keeps_ok[OF keeps_sent(2)],
        rule wp_conseq[OF wp_engine_sends[OF assms(2,3)]], simp, unfold wp_sq[symmetric], rule wp_conseq[OF tail(1)]) simp_all
  show "wp (rem_ded_cpu E tc (VInt q)) (\<lambda>_ t. sent t = sent s @ [change_text (''proc'', ''r'', ''--procs'') mm p q]) (\<lambda>_ _. True) s"
    unfolding rem_ded_cpu_def l
    by (rule fin, unfold remove_dedicated_cpu_def wp_bnd, rule wp_keeps_ok[OF keeps_reads(2)],
        rule wp_conseq[OF wp_engine_sends[OF assms(2,3)]], simp, rule wp_conseq[OF tail(2)]) simp_all
qed

end
