(* ===== verification/Dlpar_Props.thy ===== *)
theory Dlpar_Props
  imports Dlpar_Trace
begin

section \<open>Properties of the DLPAR tests\<close>

text \<open>
  The claims about \<^verbatim>\<open>dlpar/dlpar_main.py\<close> and \<^verbatim>\<open>dlpar/dlpar_api/api.py\<close>, each with a witness on a
  concrete console. The console of the witnesses keeps a number of processors; it parses the
  quantity out of the command, refuses to go above 9 or below 1, and knows the settings of two
  partitions.
\<close>

subsection \<open>A concrete console\<close>

definition demo_out :: "string \<Rightarrow> cmd_result" where
  "demo_out x = \<lparr>exit_status = 0, stdout_text = x, stderr_text = []\<rparr>"

definition demo_quantity :: "string \<Rightarrow> string \<Rightarrow> int" where
  "demo_quantity pre cmd =
     (case py_int (takeWhile is_digit (drop (length pre) cmd)) of Inr n \<Rightarrow> n | Inl _ \<Rightarrow> 0)"

definition demo_settings :: "(string \<times> string) list" where
  "demo_settings =
     map (\<lambda>(p, opt, val). (query_text ''proc'' ''mc1'' p opt, val))
       [(''lpar1'', ''curr_proc_mode'', ''ded''), (''lpar1'', ''curr_min_procs'', ''1''),
        (''lpar1'', ''curr_max_procs'', ''9''), (''lpar1'', ''curr_proc_units'', ''0.5''), (''lpar2'', ''curr_proc_mode'', ''ded''),
        (''lpar2'', ''curr_min_procs'', ''1''), (''lpar2'', ''curr_procs'', ''4'')]"

definition add_prefix :: string where
  "add_prefix = ''chhwres -m mc1 -r proc -o a --procs ''"

definition rem_prefix :: string where
  "rem_prefix = ''chhwres -m mc1 -r proc -o r --procs ''"

definition demo_session :: "string \<Rightarrow> (int, cmd_result) ext" where
  "demo_session cmd w =
     (case map_of demo_settings cmd of
        Some a \<Rightarrow> (Inr (demo_out a), w)
      | None \<Rightarrow>
          if cmd = query_text ''proc'' ''mc1'' ''lpar1'' ''curr_procs'' then (Inr (demo_out (str_int w)), w)
          else if startswith cmd add_prefix then
            (let n = w + demo_quantity add_prefix cmd
             in if n \<le> 9 then (Inr (demo_out []), n)
                else (Inr (demo_out ''The quantity to be added exceeds the available resources.''), w))
          else if startswith cmd rem_prefix then
            (let n = w - demo_quantity rem_prefix cmd
             in if 1 \<le> n then (Inr (demo_out []), n) else (Inr (demo_out ''HSCL294C''), w))
          else (Inr (demo_out ''unknown command''), w))"

definition demo_env :: "int dlpar_env" where
  "demo_env =
     \<lparr>session_cleanup = \<lambda>_ w. (Inr (), w), session_connect = \<lambda>_ _ _ w. (Inr True, w),
      session_cmd = \<lambda>_. demo_session, process_run = \<lambda>_ w. (Inr (demo_out []), w),
      system_output = \<lambda>_ _ w. (Inr [], w), check_installed = \<lambda>_ w. (Inr True, w),
      install = \<lambda>_ w. (Inr True, w), randint = \<lambda>_ b w. (Inr b, w), result_str = \<lambda>_. []\<rparr>"

definition demo_payload :: payload where
  "demo_payload = map_of
     [(''hmc_manageSystem'', VStr ''mc1''), (''src_partition'', VStr ''lpar1''),
      (''target_partition'', VStr ''lpar2''), (''cfg_cpu_per_proc'', VInt 8),
      (''ded_quantity_to_test'', VInt 1), (''sleep_time'', VInt 5), (''hmc_name'', VStr ''hmc'')]"

definition demo_test :: dlpar_test where
  "demo_test = \<lparr>lpar_mode = VStr ''dedicated'', sorted_payload = demo_payload, iterations = VInt 1\<rparr>"

definition demo_state :: "int \<Rightarrow> string option \<Rightarrow> int dlpar_st" where
  "demo_state n f = \<lparr>world = n, trace = [], last_result = None, config_file = f\<rparr>"

lemma demo_quantity_text:
  assumes "0 < q"
  shows "demo_quantity pre (pre @ str_int q @ CHR '' '' # xs) = q"
proof -
  have "is_digit c" if "c \<in> set (str_int q)" for c
    using str_digits_chars[of q c] that assms by (simp add: str_int_def)
  then have "takeWhile is_digit (str_int q @ CHR '' '' # xs) = str_int q"
    by (subst takeWhile_append2) (auto simp: is_digit_def char_digit_def)
  then show ?thesis by (simp add: demo_quantity_def)
qed

lemma demo_change_text:
  "change_text (''proc'', ''a'', ''--procs'') ''mc1'' ''lpar1'' q = add_prefix @ str_int q @ CHR '' '' # ''-p \"lpar1\" -w 0 ''"
  "change_text (''proc'', ''r'', ''--procs'') ''mc1'' ''lpar1'' q = rem_prefix @ str_int q @ CHR '' '' # ''-p \"lpar1\" -w 0 ''"
  by (simp_all add: change_text_def add_prefix_def rem_prefix_def)

lemma demo_settings_chh:
  "map_of demo_settings (add_prefix @ xs) = None" "map_of demo_settings (rem_prefix @ xs) = None"
  by (simp_all add: demo_settings_def query_text_def add_prefix_def rem_prefix_def)

lemma demo_changes:
  assumes "0 < q"
  shows "changes demo_env h (change_text (''proc'', ''a'', ''--procs'') ''mc1'' ''lpar1'' q) id q"
    and "changes demo_env h (change_text (''proc'', ''r'', ''--procs'') ''mc1'' ''lpar1'' q) id (- q)"
proof -
  have ne: "add_prefix @ xs \<noteq> query_text ''proc'' ''mc1'' ''lpar1'' ''curr_procs''"
    "rem_prefix @ xs \<noteq> query_text ''proc'' ''mc1'' ''lpar1'' ''curr_procs''"
    "\<not> startswith (rem_prefix @ xs) add_prefix" for xs
    by (simp_all add: query_text_def add_prefix_def rem_prefix_def startswith_def)
  show "changes demo_env h (change_text (''proc'', ''a'', ''--procs'') ''mc1'' ''lpar1'' q) id q"
    unfolding demo_change_text changes_def
    using demo_quantity_text[OF assms, of add_prefix "''-p \"lpar1\" -w 0 ''"]
    by (simp add: demo_env_def demo_session_def demo_settings_chh ne demo_out_def Let_def
        del: append_assoc split: if_split)
  show "changes demo_env h (change_text (''proc'', ''r'', ''--procs'') ''mc1'' ''lpar1'' q) id (- q)"
    unfolding demo_change_text changes_def
    using demo_quantity_text[OF assms, of rem_prefix "''-p \"lpar1\" -w 0 ''"]
    by (simp add: demo_env_def demo_session_def demo_settings_chh ne demo_out_def Let_def
        del: append_assoc split: if_split)
qed

lemma demo_ded_console: "ded_console demo_env demo_payload id 9"
proof -
  have g: "get demo_payload ''hmc_manageSystem'' = VStr ''mc1''" "get demo_payload ''src_partition'' = VStr ''lpar1''"
    "get demo_payload ''target_partition'' = VStr ''lpar2''" "get demo_payload ''hmc_name'' = VStr ''hmc''"
    "get demo_payload ''ded_quantity_to_test'' = VInt 1" "get demo_payload ''sleep_time'' = VInt 5"
    "get demo_payload ''cfg_cpu_per_proc'' = VInt 8"
    by (simp_all add: get_def demo_payload_def)
  have s: "session_cmd demo_env h = demo_session" for h by (simp add: demo_env_def)
  have const: "answers demo_env h (query_text ''proc'' ''mc1'' p opt) (\<lambda>_. a)"
    if "map_of demo_settings (query_text ''proc'' ''mc1'' p opt) = Some a" "strip a = a" for h p opt a
    using that by (simp add: answers_def s demo_session_def demo_out_def)
  have m: "map_of demo_settings (query_text ''proc'' ''mc1'' ''lpar1'' ''curr_proc_mode'') = Some ''ded''"
    "map_of demo_settings (query_text ''proc'' ''mc1'' ''lpar1'' ''curr_min_procs'') = Some ''1''"
    "map_of demo_settings (query_text ''proc'' ''mc1'' ''lpar1'' ''curr_max_procs'') = Some ''9''"
    "map_of demo_settings (query_text ''proc'' ''mc1'' ''lpar2'' ''curr_proc_mode'') = Some ''ded''"
    "map_of demo_settings (query_text ''proc'' ''mc1'' ''lpar2'' ''curr_min_procs'') = Some ''1''"
    "map_of demo_settings (query_text ''proc'' ''mc1'' ''lpar2'' ''curr_procs'') = Some ''4''"
    "map_of demo_settings (query_text ''proc'' ''mc1'' ''lpar1'' ''curr_procs'') = None"
    by (simp_all add: demo_settings_def query_text_def)
  have t: "''1'' = str_int 1" "''4'' = str_int 4" "''9'' = str_int 9"
    by (code_simp)+
  note n = const[OF _ strip_str_int]
  have ints: "answers demo_env h (query_text ''proc'' ''mc1'' ''lpar1'' ''curr_min_procs'') (\<lambda>_. str_int 1)"
    "answers demo_env h (query_text ''proc'' ''mc1'' ''lpar1'' ''curr_max_procs'') (\<lambda>_. str_int 9)"
    "answers demo_env h (query_text ''proc'' ''mc1'' ''lpar2'' ''curr_min_procs'') (\<lambda>_. str_int 1)"
    "answers demo_env h (query_text ''proc'' ''mc1'' ''lpar2'' ''curr_procs'') (\<lambda>_. str_int 4)" for h
    by (rule n, simp add: m flip: t)+
  have cur: "answers demo_env h (query_text ''proc'' ''mc1'' ''lpar1'' ''curr_procs'') (\<lambda>w. str_int (id w))" for h
    by (simp add: answers_def s demo_session_def demo_out_def m)
  have ex: "\<exists>f. answers demo_env h q (\<lambda>w. str_int (f w))"
    if "answers demo_env h q (\<lambda>w. str_int (g w))" for h q g
    using that by blast
  note exs = ex[OF ints(1)] ex[OF ints(3)] ex[OF ints(4)] ex[OF cur]
  have strip: "strip ''ded'' = ''ded''" by code_simp
  show ?thesis
    unfolding ded_console_def g
  proof (intro conjI)
    show "connects demo_env" by (auto simp: connects_def demo_env_def intro: exI[of "\<lambda>b. b" True])
    show "\<exists>mm p1 p2. VStr ''mc1'' = VStr mm \<and> VStr ''lpar1'' = VStr p1 \<and> VStr ''lpar2'' = VStr p2 \<and>
        (let ans = (\<lambda>p opt f. answers demo_env (VStr ''hmc'') (query_text ''proc'' mm p opt) f);
             chg = (\<lambda>oper q d. changes demo_env (VStr ''hmc'') (change_text (''proc'', oper, ''--procs'') mm p1 q) id d)
         in (\<forall>p \<in> {p1, p2}. ans p ''curr_proc_mode'' (\<lambda>_. ''ded'') \<and>
               (\<exists>f. ans p ''curr_min_procs'' (\<lambda>w. str_int (f w))) \<and>
               (\<exists>f. ans p ''curr_procs'' (\<lambda>w. str_int (f w)))) \<and>
            ans p1 ''curr_procs'' (\<lambda>w. str_int (id w)) \<and> ans p1 ''curr_max_procs'' (\<lambda>_. str_int 9) \<and>
            (\<forall>q > 0. chg ''a'' q q \<and> chg ''r'' q (- q)))"
      using const[OF m(1) strip] const[OF m(4) strip] ints(2) exs cur demo_changes
      by (auto simp: Let_def)
  qed simp_all
qed

subsection \<open>Adding and removing dedicated processors\<close>

text \<open>
  C1. Adding dedicated processors, the whole test: on a console with the documented behaviour
  the test either adds 1, 2, ..., k processors, where k is the largest number for which the total
  stays within the maximum of the profile, and appends that list to the payload file; or the
  console refused one step, and then the test ends as failed or cancelled with the earlier steps
  done and nothing of the refused one.
\<close>

theorem cpu_add_dedicated:
  assumes "ded_console E (sorted_payload t) v M" "veq (lpar_mode t) (VStr ''dedicated'')"
    and "0 \<le> v (world s)" "v (world s) \<le> M" "M \<le> 2 ^ 40"
  shows "\<exists>k. v (world s) + tri k \<le> M \<and> M < v (world s) + tri (Suc k) \<and>
     wp (test_cpu_add E t)
       (\<lambda>_ u. v (world u) = v (world s) + tri k \<and>
              config_file u = Some (file_text (config_file s) @ str_vlist (cpu_list k) @ [newline]))
       (\<lambda>e u. ended e \<and> (\<exists>j < k. v (world u) = v (world s) + tri j)) s"
proof -
  obtain k where k: "cpu_payload_data (NInt M) (NInt (v (world s))) (NInt 1) = Some (map of_nat [1..<Suc k])"
    "v (world s) + tri k \<le> M" "M < v (world s) + tri (Suc k)"
    using cpu_payload_data_int[of "v (world s)" M] assms(3-5) by auto
  with wp_cpu_add_ded[OF assms(1) k(1)] assms(2) show ?thesis
    by (auto simp: test_cpu_add_def)
qed

theorem cpu_add_dedicated_witness:
  "\<exists>k. id (world (demo_state 2 None)) + tri k \<le> 9 \<and> 9 < id (world (demo_state 2 None)) + tri (Suc k) \<and>
     wp (test_cpu_add demo_env demo_test)
       (\<lambda>_ u. id (world u) = id (world (demo_state 2 None)) + tri k \<and>
              config_file u = Some (file_text (config_file (demo_state 2 None)) @ str_vlist (cpu_list k) @ [newline]))
       (\<lambda>e u. ended e \<and> (\<exists>j < k. id (world u) = id (world (demo_state 2 None)) + tri j)) (demo_state 2 None)"
  by (rule cpu_add_dedicated[where v = id and M = 9])
     (simp_all add: demo_ded_console demo_test_def demo_state_def)

text \<open>
  C26. Removing dedicated processors: when the payload file starts with the line the addition test
  wrote, the test reads back exactly that list and removes as much as was added, or ends early
  with only the first steps done; it never changes the file.
\<close>

theorem cpu_rm_dedicated:
  assumes "ded_console E (sorted_payload t) v M" "veq (lpar_mode t) (VStr ''dedicated'')"
    and "config_file s = Some (str_vlist (cpu_list k) @ newline # rest)" "k < 10 ^ 15"
  shows "wp (test_cpu_rm E t)
       (\<lambda>_ u. v (world u) = v (world s) - tri k \<and> config_file u = config_file s)
       (\<lambda>e u. ended e \<and> (\<exists>j < k. v (world u) = v (world s) - tri j) \<and> config_file u = config_file s) s"
  by (rule wp_cpu_rm_ded[OF assms])

theorem cpu_rm_dedicated_witness:
  "wp (test_cpu_rm demo_env demo_test)
     (\<lambda>_ u. id (world u) = id (world (demo_state 8 (Some (str_vlist (cpu_list 3) @ newline # [])))) - tri 3 \<and>
            config_file u = config_file (demo_state 8 (Some (str_vlist (cpu_list 3) @ newline # []))))
     (\<lambda>e u. ended e \<and> (\<exists>j < 3. id (world u) = id (world (demo_state 8 (Some (str_vlist (cpu_list 3) @ newline # [])))) - tri j) \<and>
        config_file u = config_file (demo_state 8 (Some (str_vlist (cpu_list 3) @ newline # []))))
     (demo_state 8 (Some (str_vlist (cpu_list 3) @ newline # [])))"
  by (rule cpu_rm_dedicated[where v = id and M = 9])
     (simp_all add: demo_ded_console demo_test_def demo_state_def)

subsection \<open>Mixing additions and removals\<close>

lemma sum_vals_cpu_list:
  "tri k \<le> 2 ^ 53 \<Longrightarrow> 0 < k \<Longrightarrow> sum_vals (VInt 0) (cpu_list k) = Inr (VFloat (of_int (tri k)))"
proof -
  have app: "sum_vals a (xs @ ys) = rbind (sum_vals a xs) (\<lambda>b. sum_vals b ys)" for a xs ys
    by (induction xs arbitrary: a) (auto simp: rbind_def split: sum.splits)
  have snoc: "cpu_list (Suc j) = cpu_list j @ [VFloat (of_nat (Suc j))]" for j by (simp add: cpu_list_def)
  show "tri k \<le> 2 ^ 53 \<Longrightarrow> 0 < k \<Longrightarrow> sum_vals (VInt 0) (cpu_list k) = Inr (VFloat (of_int (tri k)))"
  proof (induction k)
    case (Suc k)
    have num: "vadd (VInt 0) (VFloat 1) = Inr (VFloat 1)"
      using fl_of_int[of 1] by (simp add: vadd_def varith_def narith_defs fl_add_def)
    have le: "tri k \<le> 2 ^ 53" "\<bar>tri (Suc k)\<bar> \<le> 2 ^ 53" "0 \<le> tri k"
      using Suc.prems(1) tri_ge[of k] tri_ge[of "Suc k"] by auto
    show ?case
    proof (cases "k = 0")
      case True
      then show ?thesis using num by (simp add: cpu_list_def)
    next
      case False
      have "fl_add (of_int (tri k)) (of_nat (Suc k)) = of_int (tri (Suc k))"
        using fl_of_int[OF le(2)] by (simp add: fl_add_def add.assoc)
      with Suc.IH[OF le(1)] False show ?thesis by (simp add: snoc app)
    qed
  qed simp
qed

lemma tri_3: "tri 3 = 6"
  unfolding tri_def by code_simp

lemma mix_payload_total:
  assumes "randint_ok E" "rbind (sum_vals (VInt 0) values) vint = Inr n"
  shows "wp (mix_payload_data E values)
     (\<lambda>vs t. sum_list vs = max 0 n \<and> (\<forall>v \<in> set vs. 1 \<le> v) \<and> config_file t = config_file s)
     (\<lambda>_ _. False) s"
  unfolding mix_payload_data_def assms(2)
  by (simp add: wp_bnd wp_ret) (rule wp_conseq[OF mix_loop_total[OF assms(1)]], auto)

text \<open>
  C30. The random split used for mixed runs: with a random generator that keeps its contract the
  loop ends for every payload, its values are at least 1, and they add up to the whole part of the
  payload's sum (nothing for a sum below 1).
\<close>

theorem mix_payload_sum:
  assumes "randint_ok E" "rbind (sum_vals (VInt 0) values) vint = Inr n"
  shows "wp (mix_payload_data E values)
     (\<lambda>vs t. sum_list vs = max 0 n \<and> (\<forall>v \<in> set vs. 1 \<le> v)) (\<lambda>_ _. False) s"
  by (rule wp_conseq[OF mix_payload_total[OF assms]]) auto

theorem mix_payload_sum_witness:
  "wp (mix_payload_data demo_env (cpu_list 3))
     (\<lambda>vs t. sum_list vs = max 0 6 \<and> (\<forall>v \<in> set vs. 1 \<le> v)) (\<lambda>_ _. False) (demo_state 2 None)"
  by (rule mix_payload_sum)
     (simp add: randint_ok_def demo_env_def, subst sum_vals_cpu_list, simp_all add: tri_3 py_trunc_of_int[of 6, simplified])

lemma mix_payload_keeps:
  assumes "\<And>a b w. v (snd (randint E a b w)) = v w"
  shows "wp (mix_payload_data E values) (\<lambda>_ t. v (world t) = v (world s)) (\<lambda>_ t. v (world t) = v (world s)) s"
proof -
  have "wp (mix_loop E n r) (\<lambda>_ t. v (world t) = c) (\<lambda>_ t. v (world t) = c) s" if "v (world s) = c" for n r s c
    using that
  proof (induction n arbitrary: r s)
    case 0
    then show ?case by (subst mix_loop.simps) (simp add: wp)
  next
    case (Suc n)
    have "v (snd (randint E 1 r (world s))) = c" using assms Suc.prems by simp
    then show ?case
      using Suc.prems
      by (subst mix_loop.simps)
         (auto simp: wp split: prod.split sum.split intro!: wp_conseq[OF Suc.IH])
  qed
  then show ?thesis by (simp add: mix_payload_data_def wp split: sum.split)
qed

lemma keeps_mix_payload: "keeps sent (mix_payload_data E values)"
proof -
  have "keeps sent (mix_loop E n r)" for n r
  proof (induction n arbitrary: r)
    case 0
    show ?case by (subst mix_loop.simps) (auto intro!: keeps_dlpar)
  next
    case (Suc n)
    show ?case by (subst mix_loop.simps) (auto simp: sent_by_def intro!: keeps_dlpar Suc.IH)
  qed
  then show ?thesis unfolding mix_payload_data_def by (auto intro!: keeps_dlpar)
qed

text \<open>The commands of the rounds: every amount is added and removed again.\<close>

definition rounds :: "payload \<Rightarrow> int list \<Rightarrow> string list" where
  "rounds c ns = concat (map (\<lambda>n. [proc_change c ''a'' n, proc_change c ''r'' n]) ns)"

lemma wp_step_sent:
  assumes "wp m (verdict v d s) (\<lambda>_ _. False) s" "wp m (\<lambda>_ t. sent t = sent s @ [x]) (\<lambda>_ _. True) s"
  shows "wp (bnd m (\<lambda>r. sq (on_error msg r) (log l y))) (\<lambda>_ t. same_but v d s t \<and> sent t = sent s @ [x])
    (\<lambda>e t. ended e \<and> same_but v 0 s t \<and> sent t = sent s @ [x]) s"
  unfolding wp_bnd
proof (rule wp_conseq[OF wp_conj[OF assms]])
  fix r t assume t: "verdict v d s r t \<and> sent t = sent s @ [x]"
  have "wp (sq (on_error msg r) (log l y)) (\<lambda>_. same_but v d s) (\<lambda>e u. ended e \<and> same_but v 0 s u) t"
    by (rule wp_on_error) (use t in auto)
  moreover have "wp (sq (on_error msg r) (log l y)) (\<lambda>_ u. sent u = sent s @ [x]) (\<lambda>_ u. sent u = sent s @ [x]) t"
    by (rule wp_keeps[where F = sent], intro keeps_dlpar keeps_reads) (use t in simp_all)
  ultimately show "wp (sq (on_error msg r) (log l y)) (\<lambda>_ u. same_but v d s u \<and> sent u = sent s @ [x])
      (\<lambda>e u. ended e \<and> same_but v 0 s u \<and> sent u = sent s @ [x]) t"
    by (rule wp_conseq[OF wp_conj]) auto
qed simp

lemma wp_ded_mix_step:
  assumes "ded_ready E tc v" "0 < n" "linux_1 tc = Some (primary_machine c)"
    and "get c ''hmc_manageSystem'' = VStr mm" "get c ''src_partition'' = VStr p"
  shows "wp (ded_mix_step E tc (VInt n)) (\<lambda>_ t. same_but v 0 s t \<and> sent t = sent s @ rounds c [n])
    (\<lambda>e t. ended e \<and> (same_but v 0 s t \<and> sent t = sent s @ [proc_change c ''a'' n] \<or>
      same_but v n s t \<and> sent t = sent s @ rounds c [n])) s"
proof -
  have m: "machine (primary_machine c) = VStr mm" "partition (primary_machine c) = VStr p"
    using assms(4,5) by (simp_all add: primary_machine_def)
  have cmd: "change_text (''proc'', oper, ''--procs'') mm p n = proc_change c oper n" for oper
    using assms(4,5) by (simp add: proc_change_def)
  note sends = wp_ded_op_sends[OF assms(3) m, of E n, unfolded cmd]
  have add: "wp (ded.add_step E tc n msg d) (\<lambda>_ t. same_but v n s t \<and> sent t = sent s @ [proc_change c ''a'' n])
      (\<lambda>e t. ended e \<and> same_but v 0 s t \<and> sent t = sent s @ [proc_change c ''a'' n]) s" for msg d
    unfolding ded.add_step_def by (rule wp_step_sent[OF ded.add_law[OF assms(1,2)] sends(1)])
  have rem: "wp (ded.rem_step E tc n msg d) (\<lambda>_ u. same_but v (- n) t u \<and> sent u = sent t @ [proc_change c ''r'' n])
      (\<lambda>e u. ended e \<and> same_but v 0 t u \<and> sent u = sent t @ [proc_change c ''r'' n]) t" for msg d t
    unfolding ded.rem_step_def by (rule wp_step_sent[OF ded.rem_law[OF assms(1,2)] sends(2)])
  show ?thesis
    unfolding ded_mix_step_def ded_steps[of "VInt n" n, simplified] wp_sq
    by (rule wp_conseq[OF add], rule wp_conseq[OF rem]) (auto simp: same_but_def rounds_def)
qed

lemma wp_mix_ints:
  assumes "ded_ready E tc v" "\<And>n. n \<in> set ns \<Longrightarrow> 0 < n" "linux_1 tc = Some (primary_machine c)"
    and "get c ''hmc_manageSystem'' = VStr mm" "get c ''src_partition'' = VStr p"
  shows "wp (for_each (map VInt ns) (ded_mix_step E tc)) (\<lambda>_ t. same_but v 0 s t \<and> sent t = sent s @ rounds c ns)
    (\<lambda>e t. ended e \<and> (\<exists>ys n zs. ns = ys @ n # zs \<and>
      (same_but v 0 s t \<and> sent t = sent s @ rounds c ys @ [proc_change c ''a'' n] \<or>
       same_but v n s t \<and> sent t = sent s @ rounds c (ys @ [n])))) s"
  unfolding for_each_map
proof (rule wp_for_each[where I = "\<lambda>ys t. same_but v 0 s t \<and> sent t = sent s @ rounds c ys"])
  show "same_but v 0 s s \<and> sent s = sent s @ rounds c []" by (simp add: same_but_def rounds_def)
next
  fix ys n t assume t: "same_but v 0 s t \<and> sent t = sent s @ rounds c ys" and "\<exists>zs. ns = ys @ n # zs"
  then obtain zs where ns: "ns = ys @ n # zs" by blast
  then have "0 < n" using assms(2) by simp
  from wp_ded_mix_step[OF assms(1) this assms(3-5), of t]
  show "wp (ded_mix_step E tc (VInt n)) (\<lambda>_ u. same_but v 0 s u \<and> sent u = sent s @ rounds c (ys @ [n]))
    (\<lambda>e u. ended e \<and> (\<exists>ys n zs. ns = ys @ n # zs \<and>
      (same_but v 0 s u \<and> sent u = sent s @ rounds c ys @ [proc_change c ''a'' n] \<or>
       same_but v n s u \<and> sent u = sent s @ rounds c (ys @ [n])))) t"
    by (rule wp_conseq) (use t ns in \<open>auto simp: same_but_def rounds_def\<close>)
qed

text \<open>The amounts of a mixed run: a random split of the sum of the payload, and the sum itself.\<close>

definition mixed :: "nat \<Rightarrow> int list \<Rightarrow> bool" where
  "mixed k ns \<longleftrightarrow> (\<exists>mix. ns = mix @ [tri k] \<and> sum_list mix = tri k \<and> (\<forall>n \<in> set mix. 1 \<le> n))"

text \<open>How a mixed run ends early: all rounds before the last are complete, and the last stops at one of its commands.\<close>

definition stopped_in_round :: "payload \<Rightarrow> int list \<Rightarrow> (int \<Rightarrow> string list \<Rightarrow> bool) \<Rightarrow> bool" where
  "stopped_in_round c ns P \<longleftrightarrow> (\<exists>ys n zs. ns = ys @ n # zs \<and>
     (P 0 (rounds c ys @ [proc_change c ''a'' n]) \<or> P n (rounds c (ys @ [n]))))"

lemma wp_mix_cpu_ded:
  assumes "ded_ready E tc v" "randint_ok E" "0 < k" "k < 10 ^ 15" "tri k \<le> 2 ^ 53"
    and "config_file s = Some (str_vlist (cpu_list k) @ newline # rest)"
    and keeps: "\<And>a b w. v (snd (randint E a b w)) = v w"
    and part: "linux_1 tc = Some (primary_machine c)" "get c ''hmc_manageSystem'' = VStr mm" "get c ''src_partition'' = VStr p"
  shows "wp (mix_cpu_ded E tc)
    (\<lambda>_ u. same_but v 0 s u \<and> (\<exists>ns. mixed k ns \<and> sent u = sent s @ rounds c ns))
    (\<lambda>e u. ended e \<and> (\<exists>ns. mixed k ns \<and> stopped_in_round c ns (\<lambda>n cs. same_but v n s u \<and> sent u = sent s @ cs))) s"
proof -
  have "readable x" if "x \<in> set (cpu_list k)" for x
    using that assms(4) by (auto simp: cpu_list_def simp del: upt_Suc intro!: readable_whole)
  from payload_line_written[OF this] have line:
    "payload_line (readlines_acc [] (str_vlist (cpu_list k) @ newline # rest)) 0 = Inr (cpu_list k)" by blast
  have tk: "0 < tri k" using tri_ge[of k] assms(3) by linarith
  have total: "rbind (sum_vals (VInt 0) (cpu_list k)) vint = Inr (tri k)"
    using assms(3,5) by (simp add: sum_vals_cpu_list)
  have quiet: "keeps sent (mix_payload_data E (cpu_list k))"
    by (rule keeps_mix_payload)
  have mix: "wp (mix_payload_data E (cpu_list k))
      (\<lambda>vs t. sum_list vs = tri k \<and> (\<forall>v \<in> set vs. 1 \<le> v) \<and> same_but v 0 s t \<and> sent t = sent s) (\<lambda>_ _. False) s"
    by (rule wp_conseq[OF wp_conj[OF wp_conj[OF mix_payload_total[OF assms(2) total] mix_payload_keeps[OF keeps]]
        wp_keeps_ok[where F = sent and Q = "\<lambda>_ t. sent t = sent s", OF quiet]]])
       (use tk in \<open>auto simp: same_but_def\<close>)
  have loop: "wp (for_each (map VInt (vs @ [sum_list vs])) (ded_mix_step E tc))
      (\<lambda>_ u. same_but v 0 s u \<and> (\<exists>ns. mixed k ns \<and> sent u = sent s @ rounds c ns))
      (\<lambda>e u. ended e \<and> (\<exists>ns. mixed k ns \<and> stopped_in_round c ns (\<lambda>n cs. same_but v n s u \<and> sent u = sent s @ cs))) t"
    if vs: "sum_list vs = tri k" "\<forall>v \<in> set vs. 1 \<le> v" and t: "same_but v 0 s t" "sent t = sent s" for vs t
  proof -
    have m: "mixed k (vs @ [sum_list vs])" using vs by (auto simp: mixed_def)
    have pos: "0 < n" if "n \<in> set (vs @ [sum_list vs])" for n using that vs tk by force
    have sb: "same_but v n t u \<longleftrightarrow> same_but v n s u" for n u using t(1) by (auto simp: same_but_def)
    show ?thesis
      by (rule wp_conseq[OF wp_mix_ints[OF assms(1) pos part]])
         (use m in \<open>auto simp: stopped_in_round_def sb t(2) simp del: append.simps\<close>)
  qed
  show ?thesis
    using assms(6) loop
    by (simp add: mix_cpu_ded_def data_payload_extract_def wp_bnd[of "bnd _ _"] wp_bnd[of "gets _"]
          wp_bnd[of "ret _"] wp_bnd[of "mix_payload_data _ _"] wp_gets wp_ret line del: map_append list.map)
       (rule wp_conseq[OF mix], auto simp: Let_def wp_sq wp_log same_but_def simp del: map_append list.map)
qed

text \<open>
  C2. The mixed test for dedicated processors: with a payload written by the addition test in the file, the test
  splits the sum of the payload into random amounts, appends the sum, and sends for each amount in turn the command
  that adds it and the command that removes it, and no other change command. A normal end has sent all of them,
  leaves the number of processors as it was and removes the payload file. An early end comes after all rounds before
  one are complete: either the addition of that round was sent and the number is as it was, or its removal was sent
  as well and the number is larger by exactly the amount of that round; the file is still there.
\<close>

theorem mix_cpu_restores:
  assumes "ded_console E (sorted_payload t) v M" "veq (lpar_mode t) (VStr ''dedicated'')"
    and "config_file s = Some (str_vlist (cpu_list k) @ newline # rest)" "0 < k" "k < 10 ^ 15"
    and "randint_ok E" "\<And>a b w. v (snd (randint E a b w)) = v w" "tri k \<le> 2 ^ 53"
  shows "wp (test_mix_cpu E t)
    (\<lambda>_ u. v (world u) = v (world s) \<and> config_file u = None \<and>
       (\<exists>ns. mixed k ns \<and> sent u = sent s @ rounds (sorted_payload t) ns))
    (\<lambda>e u. ended e \<and> (\<exists>ns. mixed k ns \<and> stopped_in_round (sorted_payload t) ns (\<lambda>n cs.
       v (world u) = v (world s) + n \<and> config_file u = config_file s \<and> sent u = sent s @ cs))) s"
proof -
  let ?c = "sorted_payload t"
  let ?Q = "\<lambda>_ u. same_but v 0 s u \<and> (\<exists>ns. mixed k ns \<and> sent u = sent s @ rounds ?c ns)"
  let ?R = "\<lambda>e u. ended e \<and> (\<exists>ns. mixed k ns \<and> stopped_in_round ?c ns (\<lambda>n cs. same_but v n s u \<and> sent u = sent s @ cs))"
  obtain mm p where part: "get ?c ''hmc_manageSystem'' = VStr mm" "get ?c ''src_partition'' = VStr p"
    using assms(1) unfolding ded_console_def by blast
  have "wp (bnd (dedicated_cpu E ?c) (mix_cpu_ded E)) ?Q ?R s"
    unfolding wp_bnd
  proof (rule wp_conseq[OF wp_conj[OF wp_dedicated_cpu[OF assms(1)] wp_keeps_ok[where F = sent, OF keeps_dedicated_cpu]]])
    fix tc u
    assume u: "(kept s u \<and> has_hmc ?c tc \<and> linux_1 tc = Some (primary_machine ?c) \<and> sleep_time tc = get ?c ''sleep_time'') \<and> sent u = sent s"
    then have ob: "ded_object ?c tc" by (simp add: ded_object_def)
    have "wp (mix_cpu_ded E tc) (\<lambda>_ w. same_but v 0 u w \<and> (\<exists>ns. mixed k ns \<and> sent w = sent u @ rounds ?c ns))
      (\<lambda>e w. ended e \<and> (\<exists>ns. mixed k ns \<and> stopped_in_round ?c ns (\<lambda>n cs. same_but v n u w \<and> sent w = sent u @ cs))) u"
      by (rule wp_mix_cpu_ded[OF ded_object(1)[OF assms(1) _ ob] assms(6,4,5,8) _ assms(7) _ part])
         (use u assms(3) in \<open>auto simp: kept_def\<close>)
    moreover have "same_but v n u w = same_but v n s w" for n w
      using u by (auto simp: kept_def same_but_def)
    ultimately show "wp (mix_cpu_ded E tc) ?Q ?R u" using u by simp
  qed simp_all
  then show ?thesis
    unfolding test_mix_cpu_def wp_sq if_P[OF assms(2)] using assms(3)
    by (auto simp: remove_payload_file_def same_but_def sent_def wp elim!: wp_conseq)
qed

theorem mix_cpu_restores_witness:
  "wp (test_mix_cpu demo_env demo_test)
    (\<lambda>_ u. id (world u) = id (world (demo_state 2 (Some (str_vlist (cpu_list 3) @ newline # [])))) \<and> config_file u = None \<and>
       (\<exists>ns. mixed 3 ns \<and> sent u = sent (demo_state 2 (Some (str_vlist (cpu_list 3) @ newline # []))) @ rounds (sorted_payload demo_test) ns))
    (\<lambda>e u. ended e \<and> (\<exists>ns. mixed 3 ns \<and> stopped_in_round (sorted_payload demo_test) ns (\<lambda>n cs.
       id (world u) = id (world (demo_state 2 (Some (str_vlist (cpu_list 3) @ newline # [])))) + n \<and>
       config_file u = config_file (demo_state 2 (Some (str_vlist (cpu_list 3) @ newline # []))) \<and>
       sent u = sent (demo_state 2 (Some (str_vlist (cpu_list 3) @ newline # []))) @ cs)))
    (demo_state 2 (Some (str_vlist (cpu_list 3) @ newline # [])))"
  by (rule mix_cpu_restores[where v = id and M = 9])
     (simp_all add: demo_ded_console demo_test_def demo_state_def randint_ok_def tri_3, simp_all add: demo_env_def)

subsection \<open>Payloads\<close>

text \<open>
  C33. The list of processors to add in dedicated mode: for whole numbers the loop of
  \<^verbatim>\<open>cpu_payload_data\<close> ends and returns 1.0, 2.0, ..., k, where k is the largest number whose
  triangular number fits between the current and the maximal number of processors; nothing when
  the maximum is already exceeded.
\<close>

theorem cpu_payload_greedy:
  assumes "0 \<le> cp" "cp \<le> 2 ^ 40" "0 \<le> mx" "mx \<le> 2 ^ 40"
  shows "\<exists>k. cpu_payload_data (NInt mx) (NInt cp) (NInt 1) = Some (map of_nat [1..<Suc k]) \<and>
     (cp \<le> mx \<longrightarrow> cp + tri k \<le> mx \<and> mx < cp + tri (Suc k)) \<and> (mx < cp \<longrightarrow> k = 0)"
  by (rule cpu_payload_data_int[OF assms])

theorem cpu_payload_greedy_witness:
  "\<exists>k. cpu_payload_data (NInt 9) (NInt 2) (NInt 1) = Some (map of_nat [1..<Suc k]) \<and>
     ((2::int) \<le> 9 \<longrightarrow> 2 + tri k \<le> 9 \<and> 9 < 2 + tri (Suc k)) \<and> ((9::int) < 2 \<longrightarrow> k = 0)"
  by (rule cpu_payload_greedy) simp_all

text \<open>
  The list of processing units in shared mode, with fractional numbers and the step 0.75: the
  loop ends whatever the rounding of the sums does, the list is 0.75, 1.5, 2.25, ..., and every
  partial sum, computed in floating point as the code computes it, stays within the maximum, while
  one more element would exceed it.
\<close>

theorem unit_payload_greedy:
  assumes "is_float cp" "0 \<le> cp" "cp \<le> mx" "mx < 2 ^ 40"
  shows "\<exists>k. cpu_payload_data (NFloat mx) (NFloat cp) (NFloat (3 / 4)) = Some (map (quarters 3) [1..<Suc k]) \<and>
     (\<forall>j \<le> k. running_sum cp (map (quarters 3) [1..<Suc j]) \<le> mx) \<and>
     mx < running_sum cp (map (quarters 3) [1..<Suc (Suc k)])"
proof -
  have "exact (NFloat mx) < of_nat (2 ^ 40)" using assms(4) by simp
  moreover have "4 * 2 ^ 40 + 2 * 3 \<le> (2::nat) ^ 53" by simp
  ultimately show ?thesis
    using cpu_payload_data_steps[of 3 "NFloat (3 / 4)" "NFloat cp" "NFloat mx" "2 ^ 40"] assms(1-3)
    by (simp add: quarters_def)
qed

theorem unit_payload_greedy_witness:
  "\<exists>k. cpu_payload_data (NFloat 4) (NFloat (1 / 2)) (NFloat (3 / 4)) = Some (map (quarters 3) [1..<Suc k]) \<and>
     (\<forall>j \<le> k. running_sum (1 / 2) (map (quarters 3) [1..<Suc j]) \<le> 4) \<and>
     4 < running_sum (1 / 2) (map (quarters 3) [1..<Suc (Suc k)])"
  by (rule unit_payload_greedy) (simp_all, code_simp)

text \<open>
  C28. The amounts of memory to remove: with a block size of at most 40 per cent of the memory
  the loop ends, every amount is a positive multiple of the block, the first is one block, all but
  the last are integers, and together they are the multiple of the block just above 40 or 80 per
  cent of the memory: 40 when the answer of the HTX query does not contain the word IDLE, 80 when it does. The only
  exception is one the query itself raised.
\<close>

theorem mem_payload_removal:
  assumes "0 < lmb" "5 * lmb \<le> 2 * cm" "cm \<le> 2 ^ 50"
  shows "wp (mem_payload_data E cm lmb 0)
     (\<lambda>xs t. \<exists>out w. system_output E ''htxcmdline -query  -mdt mdt.*'' True (world s) = (Inr out, w) \<and>
        mem_payload_ok lmb ((\<lfloor>fl_mul (fl (of_int cm)) (fl (if contains ''IDLE'' out then 80 / 100 else 40 / 100)) / of_int lmb\<rfloor> + 1) * lmb) xs)
     (\<lambda>e t. \<exists>w. system_output E ''htxcmdline -query  -mdt mdt.*'' True (world s) = (Inl e, w)) s"
proof -
  have run: "\<exists>xs. mem_payload_loop (NFloat (mem_limit idle cm lmb)) (NInt 0) (NInt lmb) = Some xs \<and>
       mem_payload_ok lmb ((\<lfloor>usable_mem idle cm / of_int lmb\<rfloor> + 1) * lmb) xs" for idle
  proof -
    let ?x = "usable_mem idle cm" and ?q = "\<lfloor>usable_mem idle cm / of_int lmb\<rfloor>"
    note b = usable_mem_bounds[OF assms, of idle]
    have lp: "(0::rat) < of_int lmb" using assms(1) by simp
    have q0: "0 \<le> ?q" using b(1) lp by (simp add: zero_le_divide_iff order.trans[OF less_imp_le])
    have "of_int (?q * lmb) \<le> ?x" using rat_mod_bounds[OF lp, of ?x] by (simp add: rat_mod_def)
    with b(2) have "(of_int (?q * lmb) :: rat) \<le> of_int cm" by linarith
    then have "?q * lmb \<le> cm" by (simp only: of_int_le_iff)
    then have m: "(?q + 1) * lmb \<le> 2 ^ 51" using assms by (simp add: distrib_right)
    have lq: "lmb \<le> (?q + 1) * lmb" using q0 assms(1) by (simp add: distrib_right)
    have "intlike (NFloat (mem_limit idle cm lmb)) ((?q + 1) * lmb)"
      unfolding mem_limit_grid[OF assms] using m lq assms(1) by (intro intlikeI) simp
    from mem_payload_loop_ok[OF this m _ _ assms(1), of "NInt 0" 0] lq show ?thesis
      by (auto simp: intlike_def)
  qed
  have split: "wp (case mem_payload_loop (NFloat (mem_limit idle cm lmb)) (NInt 0) (NInt lmb) of
        None \<Rightarrow> raise NoReturn | Some xs \<Rightarrow> ret xs)
      (\<lambda>xs t. mem_payload_ok lmb ((\<lfloor>usable_mem idle cm / of_int lmb\<rfloor> + 1) * lmb) xs) R t" for idle R t
    using run[of idle] by (auto simp: wp)
  have percent: "fl_mul (fl (of_int cm)) (fl (if b then 80 / 100 else 40 / 100)) = usable_mem b cm" for b
    by (simp add: usable_mem_def)
  show ?thesis
    unfolding percent using assms(1) by (auto simp: mem_payload_data_def wp_bnd wp_call Let_def intro!: wp_conseq[OF split] split: prod.split sum.split)
qed

theorem mem_payload_removal_witness:
  "wp (mem_payload_data demo_env 4096 256 0)
     (\<lambda>xs t. \<exists>out w. system_output demo_env ''htxcmdline -query  -mdt mdt.*'' True (world (demo_state 2 None)) = (Inr out, w) \<and>
        mem_payload_ok 256 ((\<lfloor>fl_mul (fl (of_int 4096)) (fl (if contains ''IDLE'' out then 80 / 100 else 40 / 100)) / of_int 256\<rfloor> + 1) * 256) xs)
     (\<lambda>e t. \<exists>w. system_output demo_env ''htxcmdline -query  -mdt mdt.*'' True (world (demo_state 2 None)) = (Inl e, w))
     (demo_state 2 None)"
  by (rule mem_payload_removal) simp_all

text \<open>
  The amounts of memory to add: with a maximum that leaves room for at least one block and
  whose distance to the current memory is a multiple of the block, the loop ends and the amounts
  are positive multiples of the block that add up to exactly that distance.
\<close>

theorem mem_payload_addition:
  assumes "0 < lmb" "0 \<le> cm" "cm + lmb \<le> mx" "mx \<le> 2 ^ 50" "lmb dvd mx - cm"
  shows "wp (mem_payload_data E cm lmb mx) (\<lambda>xs t. mem_payload_ok lmb (mx - cm) xs \<and> t = s) (\<lambda>_ _. False) s"
proof -
  have "intlike (NInt mx) mx" "intlike (NInt cm) cm" using assms by (intro intlikeI; simp)+
  with mem_payload_loop_ok[of "NInt mx" mx "NInt cm" cm lmb] assms
  obtain xs where "mem_payload_loop (NInt mx) (NInt cm) (NInt lmb) = Some xs" "mem_payload_ok lmb (mx - cm) xs"
    by auto
  with assms show ?thesis by (simp add: mem_payload_data_def wp)
qed

theorem mem_payload_addition_witness:
  "wp (mem_payload_data demo_env 4096 256 8192)
     (\<lambda>xs t. mem_payload_ok 256 (8192 - 4096) xs \<and> t = demo_state 2 None) (\<lambda>_ _. False) (demo_state 2 None)"
  by (rule mem_payload_addition) simp_all

text \<open>
  The memory removed in the mixed test after an addition of \<open>i\<close>, a positive multiple of the
  block: again a positive multiple of the block, and never more than was added.
\<close>

theorem mix_rem_bounds:
  assumes "0 < lmb" "0 < i" "i \<le> 2 ^ 49" "lmb dvd i"
  shows "\<exists>r. mix_rem lmb (NInt i) = Inr r \<and> lmb dvd r \<and> 0 < r \<and> r \<le> i"
proof -
  define x where "x = fl_mul (of_int i) (fl (8 / 10))"
  have p: "0 \<le> fl (8 / 10)" "fl (8 / 10) \<le> (13 / 16 :: rat)" by code_simp+
  have i0: "(0::rat) < of_int i" using assms(2) by simp
  have "\<bar>i * 13\<bar> \<le> 2 ^ 53" using assms(2,3) by simp
  then have f: "fl (of_int i * (13 / 16)) = of_int i * (13 / 16)"
    by (intro fl_exact[of _ "i * 13" "- 4"]) (simp_all add: power_int_def power_divide)
  have "of_int i * fl (8 / 10) \<le> of_int i * (13 / 16)"
    using p(2) i0 by (intro mult_left_mono) simp_all
  then have "x \<le> of_int i * (13 / 16)"
    unfolding x_def fl_mul_def by (intro fl_le_float) (unfold is_float_def, rule f)
  then have xi: "x < of_int i" using i0 by linarith
  have x0: "0 \<le> x" unfolding x_def fl_mul_def using p(1) i0 by (intro fl_nonneg) simp
  define j where "j = py_trunc x"
  have "of_int j \<le> x" unfolding j_def by (rule py_trunc_le[OF x0])
  with xi have "(of_int j :: rat) < of_int i" by linarith
  then have ji: "j < i" by (simp only: of_int_less_iff)
  have j0: "0 \<le> j" using x0 by (simp add: j_def py_trunc_def)
  have r: "j + (lmb - j mod lmb) = (j div lmb + 1) * lmb"
    by (simp add: distrib_right) (metis add.commute mult.commute add_diff_eq diff_add_eq minus_mod_eq_mult_div)
  obtain k where k: "i = lmb * k" using assms(4) by blast
  have q0: "0 \<le> j div lmb" using j0 assms(1) by (simp add: pos_imp_zdiv_nonneg_iff)
  have "j div lmb * lmb \<le> j" using assms(1) by (metis div_mult_mod_eq le_add_same_cancel1 pos_mod_sign)
  with ji k have "j div lmb * lmb < k * lmb" by (simp add: mult.commute)
  then have "j div lmb + 1 \<le> k" using assms(1) by (simp add: mult_less_cancel_right)
  then have "(j div lmb + 1) * lmb \<le> i" using assms(1) k by (simp add: mult.commute mult_left_mono)
  moreover have "0 < (j div lmb + 1) * lmb" using q0 assms(1) by (intro mult_pos_pos) simp_all
  moreover have "fl (of_int i) = (of_int i :: rat)" using assms(2,3) by (intro fl_of_int) simp
  then have nm: "nmul (NInt i) (NFloat (fl (8 / 10))) = NFloat x" by (simp add: narith_defs x_def)
  have "mix_rem lmb (NInt i) = Inr ((j div lmb + 1) * lmb)"
    unfolding mix_rem_def nm exact.simps j_def[symmetric] Let_def using assms(1) r by simp
  ultimately show ?thesis by simp
qed

theorem mix_rem_bounds_witness:
  "\<exists>r. mix_rem 256 (NInt 1024) = Inr r \<and> 256 dvd r \<and> 0 < r \<and> r \<le> 1024"
  by (rule mix_rem_bounds) simp_all

subsection \<open>The single operations\<close>

text \<open>
  C29. Changing virtual processors of a shared partition: on a console with the documented
  behaviour both operations always return, with 0 when the number of processors changed by exactly
  the quantity, and with 1, the number unchanged and the console's message kept, when the console
  printed something.
\<close>

theorem virtual_processor_contract:
  assumes "unit_ready E tc v" "0 < q"
  shows "wp (add_proc E tc (VInt q) ''--procs'') (verdict v q s) (\<lambda>_ _. False) s \<and>
         wp (remove_proc E tc (VInt q) ''--procs'') (verdict v (- q) s) (\<lambda>_ _. False) s"
  by (rule conjI[OF vproc.add_law[OF assms] vproc.rem_law[OF assms]])

definition demo_case :: test_case where
  "demo_case =
     \<lparr>cpu_per_processor = 8, hmc = Some (hmc_machine demo_payload 0),
      linux_1 = Some (primary_machine demo_payload), linux_2 = Some (secondary_machine demo_payload 0),
      quant_to_test = VInt 1, sleep_time = VInt 5, conn_value = 0, linux = None\<rparr>"

lemma demo_machines:
  "machine (primary_machine demo_payload) = VStr ''mc1''" "partition (primary_machine demo_payload) = VStr ''lpar1''"
  "machine (secondary_machine demo_payload 0) = VStr ''mc1''"
  "partition (secondary_machine demo_payload 0) = VStr ''lpar2''"
  by (simp_all add: primary_machine_def secondary_machine_def demo_payload_def get_def)

lemma demo_answers:
  "map_of demo_settings (query_text ''proc'' ''mc1'' p opt) = Some a \<Longrightarrow> strip a = a \<Longrightarrow>
   answers demo_env h (query_text ''proc'' ''mc1'' p opt) (\<lambda>_. a)"
  "answers demo_env h (query_text ''proc'' ''mc1'' ''lpar1'' ''curr_procs'') (\<lambda>w. str_int (id w))"
  by (simp_all add: answers_def demo_env_def demo_session_def demo_out_def)
     (simp add: demo_settings_def query_text_def demo_out_def)

lemma demo_unit_ready: "unit_ready demo_env demo_case id"
proof -
  have "counter ded_kind demo_env demo_case (primary_machine demo_payload) id"
    unfolding counter_def by (auto simp: demo_case_def demo_machines demo_changes
        demo_answers(2)[simplified])
  moreover have "py_float ''0.5'' = Inr (1 / 2)" "strip ''0.5'' = ''0.5''" by code_simp+
  moreover have "map_of demo_settings (query_text ''proc'' ''mc1'' ''lpar1'' ''curr_proc_units'') = Some ''0.5''"
    by (simp add: demo_settings_def query_text_def)
  ultimately show ?thesis
    using demo_answers(1)[of "''lpar1''" "''curr_proc_units''" "''0.5''"]
    by (auto simp: unit_ready_def units_readable_def demo_case_def demo_machines)
qed

theorem virtual_processor_contract_witness:
  "wp (add_proc demo_env demo_case (VInt 2) ''--procs'') (verdict id 2 (demo_state 3 None)) (\<lambda>_ _. False) (demo_state 3 None) \<and>
   wp (remove_proc demo_env demo_case (VInt 2) ''--procs'') (verdict id (- 2) (demo_state 3 None)) (\<lambda>_ _. False) (demo_state 3 None)"
  by (rule virtual_processor_contract[OF demo_unit_ready]) simp

text \<open>
  A move of dedicated processors that does not add up: when the number read back from one of
  the two partitions is not the expected one, the validation raises \<^verbatim>\<open>TypeError\<close> and not the
  \<^verbatim>\<open>TestException\<close> the code names, because that class cannot be built without its message.
\<close>

theorem failed_move_raises_TypeError:
  assumes "hmc tc = Some h" "machine m1 = VStr mm" "partition m1 = VStr p1"
    and "machine m2 = VStr mm" "partition m2 = VStr p2"
    and "answers E (name h) (query_text ''proc'' mm p1 ''curr_procs'') (\<lambda>w. str_int (f1 w))"
    and "answers E (name h) (query_text ''proc'' mm p2 ''curr_procs'') (\<lambda>w. str_int (f2 w))"
    and "f1 (world s) \<noteq> b1 - q \<or> f2 (world s) \<noteq> b2 + q"
  shows "wp (Dlpar_cpu_validation E tc ''m'' (Two m1 m2) (VInt q) (Befores (VInt b1) (VInt b2)))
           (\<lambda>_ _. False) (\<lambda>e _. e = TypeError) s"
proof -
  note rd1 = wp_read_int[OF assms(1-3) assms(6)] and rd2 = wp_read_int[OF assms(1) assms(4,5) assms(7)]
  have cond: "wp (check_or msg False e_msg TypeError) Q (\<lambda>e _. e = TypeError) u" for msg e_msg Q and u :: "'a dlpar_st"
    by (simp add: check_or_def check_log_def wp)
  show ?thesis
    unfolding Dlpar_cpu_validation_def Let_def target.case info.case reads validate_move_def
    by (simp add: wp_sq wp_bnd[of "bnd (get_option _ _ _ _ _) _"])
       (rule wp_conseq[OF rd1], use assms(8) in \<open>auto simp: wp_bnd[of "ret _"] wp_bnd[of "bnd (get_option _ _ _ _ _) _"] wp_bnd[of "bnd (bnd _ _) _"] wp_ret quiet_def intro!: cond wp_conseq[OF rd2]\<close>)
qed

theorem failed_move_raises_TypeError_witness:
  "wp (Dlpar_cpu_validation demo_env demo_case ''m''
        (Two (primary_machine demo_payload) (secondary_machine demo_payload 0)) (VInt 1)
        (Befores (VInt 3) (VInt 4)))
     (\<lambda>_ _. False) (\<lambda>e _. e = TypeError) (demo_state 3 None)"
proof (rule failed_move_raises_TypeError)
  show "answers demo_env (name (hmc_machine demo_payload 0)) (query_text ''proc'' ''mc1'' ''lpar1'' ''curr_procs'')
          (\<lambda>w. str_int (id w))"
    by (rule demo_answers(2))
  have "str_int 4 = ''4''" by code_simp
  then have "map_of demo_settings (query_text ''proc'' ''mc1'' ''lpar2'' ''curr_procs'') = Some (str_int 4)"
    by (simp add: demo_settings_def query_text_def)
  then show "answers demo_env (name (hmc_machine demo_payload 0)) (query_text ''proc'' ''mc1'' ''lpar2'' ''curr_procs'')
          (\<lambda>w. str_int 4)"
    by (rule demo_answers(1)) simp
qed (simp_all add: demo_case_def demo_machines demo_state_def)

text \<open>
  Processing units are compared as text: after adding 0.1 to 0.7 units the console reports
  0.8, but the sum in floating point prints as 0.7999999999999999, so a correct addition is
  reported as an error.
\<close>

theorem units_added_reported_as_error:
  assumes "hmc tc = Some h" "machine m = VStr mm" "partition m = VStr p"
    and "answers E (name h) (query_text ''proc'' mm p ''curr_proc_units'') (\<lambda>_. ''0.8'')"
  shows "wp (Dlpar_cpu_validation E tc ''cpu_a'' (One m) (VFloat (fl (1 / 10))) (Before (VFloat (fl (7 / 10)))))
           (\<lambda>_ _. False) (\<lambda>e _. \<exists>msg. e = TestException msg) s"
proof -
  have "str_float (fl_add (fl (7 / 10)) (fl (1 / 10))) = ''0.7999999999999999''" by code_simp
  then have ne: "''0.8'' \<noteq> str_float (fl_add (fl (7 / 10)) (fl (1 / 10)))" by simp
  show ?thesis
    unfolding Dlpar_cpu_validation_def Let_def target.case info.case reads validate_units_def
    by (simp add: wp_bnd[of "get_option _ _ _ _ _"])
       (rule wp_conseq[OF wp_get_option[OF assms]], use ne in \<open>auto simp: wp check_or_def check_log_def\<close>)
qed

definition demo_units_env :: "int dlpar_env" where
  "demo_units_env = demo_env\<lparr>session_cmd := \<lambda>_ _ w. (Inr (demo_out ''0.8''), w)\<rparr>"

theorem units_added_reported_as_error_witness:
  "wp (Dlpar_cpu_validation demo_units_env demo_case ''cpu_a'' (One (primary_machine demo_payload))
         (VFloat (fl (1 / 10))) (Before (VFloat (fl (7 / 10)))))
     (\<lambda>_ _. False) (\<lambda>e _. \<exists>msg. e = TestException msg) (demo_state 3 None)"
proof (rule units_added_reported_as_error)
  have "strip ''0.8'' = ''0.8''" by code_simp
  then show "answers demo_units_env (name (hmc_machine demo_payload 0))
       (query_text ''proc'' ''mc1'' ''lpar1'' ''curr_proc_units'') (\<lambda>_. ''0.8'')"
    by (simp add: answers_def demo_units_env_def demo_out_def)
qed (simp_all add: demo_case_def demo_machines)

subsection \<open>Text\<close>

text \<open>
  C36. The payload file: the first line of a file that the tests wrote reads back as the list that
  was written, when its values are integers or whole floats below 10 ^ 15, whatever was appended
  behind it.
\<close>

theorem payload_roundtrip:
  assumes "\<And>x. x \<in> set xs \<Longrightarrow> (\<exists>n. x = VInt n) \<or> (\<exists>n < 10 ^ 15. x = VFloat (of_nat n))"
    and "config_file s = None"
  shows "wp (sq (data_payload_backup xs) (sq (data_payload_backup ys)
            (bnd data_payload_extract (\<lambda>lines. lift (payload_line lines 0)))))
          (\<lambda>zs _. zs = xs) (\<lambda>_ _. False) s"
proof -
  have "readable x" if "x \<in> set xs" for x
    using assms(1)[OF that] readable_int readable_whole by auto
  from payload_line_written[OF this] show ?thesis
    using assms(2) by (simp add: wp data_payload_backup_def data_payload_extract_def)
qed

theorem payload_roundtrip_witness:
  "wp (sq (data_payload_backup [VInt 3, VFloat (of_nat 12)]) (sq (data_payload_backup [VFloat (3 / 4)])
        (bnd data_payload_extract (\<lambda>lines. lift (payload_line lines 0)))))
      (\<lambda>zs _. zs = [VInt 3, VFloat (of_nat 12)]) (\<lambda>_ _. False) (demo_state 3 None)"
proof (rule payload_roundtrip)
  fix x assume "x \<in> set [VInt 3, VFloat (of_nat 12)]"
  then have "x = VInt 3 \<or> x = VFloat (of_nat 12)" by auto
  moreover have "(12::nat) < 10 ^ 15" by simp
  ultimately show "(\<exists>n. x = VInt n) \<or> (\<exists>n < 10 ^ 15. x = VFloat (of_nat n))" by blast
qed (simp add: demo_state_def)

end
