(* ===== verification/Switching.thy ===== *)
theory Switching
  imports Avocado
begin

section \<open>Units that are switched on and off\<close>

text \<open>
  Several tests take processors or memory blocks out of the running system and bring them back.
  The locale \<open>switches\<close> is what they rely on: an operation that brings a unit up and one that takes
  it down, each of which changes the unit it is called for and no other, in an environment that
  obeys. \<open>on s c\<close> says that unit \<open>c\<close> is up in state \<open>s\<close>, and \<open>C\<close> is the set of units the environment
  knows. The lemmas are about the loops over such units; the components interpret the locale on
  their own operations.
\<close>

locale switches =
  fixes up :: "'e \<Rightarrow> 'k \<Rightarrow> ('s, unit) py"
    and down :: "'e \<Rightarrow> 'k \<Rightarrow> ('s, unit) py"
    and obeys :: "'e \<Rightarrow> ('s \<Rightarrow> 'k \<Rightarrow> bool) \<Rightarrow> 'k set \<Rightarrow> bool"
  assumes up_law: "obeys E on C \<Longrightarrow> c \<in> C \<Longrightarrow> wp (up E c) (\<lambda>_ t. on t = (on s)(c := True)) (\<lambda>_ _. False) s"
    and down_law: "obeys E on C \<Longrightarrow> c \<in> C \<Longrightarrow> wp (down E c) (\<lambda>_ t. on t = (on s)(c := False)) (\<lambda>_ _. False) s"
begin

lemma up_all:
  assumes "obeys E on C" "set cs \<subseteq> C"
  shows "wp (for_each cs (up E)) (\<lambda>_ t. on t = (\<lambda>d. d \<in> set cs \<or> on s d)) (\<lambda>_ _. False) s"
proof (rule wp_for_each)
  fix ys x t
  assume t: "on t = (\<lambda>d. d \<in> set ys \<or> on s d)" and "\<exists>zs. cs = ys @ x # zs"
  then have "x \<in> C" using assms(2) by auto
  then show "wp (up E x) (\<lambda>_ u. on u = (\<lambda>d. d \<in> set (ys @ [x]) \<or> on s d)) (\<lambda>_ _. False) t"
    by (intro wp_conseq[OF up_law[OF assms(1)]]) (auto simp: t fun_eq_iff)
qed simp

lemma down_all:
  assumes "obeys E on C" "set cs \<subseteq> C"
  shows "wp (for_each cs (down E)) (\<lambda>_ t. on t = (\<lambda>d. d \<notin> set cs \<and> on s d)) (\<lambda>_ _. False) s"
proof (rule wp_for_each)
  fix ys x t
  assume t: "on t = (\<lambda>d. d \<notin> set ys \<and> on s d)" and "\<exists>zs. cs = ys @ x # zs"
  then have "x \<in> C" using assms(2) by auto
  then show "wp (down E x) (\<lambda>_ u. on u = (\<lambda>d. d \<notin> set (ys @ [x]) \<and> on s d)) (\<lambda>_ _. False) t"
    by (intro wp_conseq[OF down_law[OF assms(1)]]) (auto simp: t fun_eq_iff)
qed simp

text \<open>Down and up again: what was switched is up, the rest is as before.\<close>

lemma down_then_up:
  assumes "obeys E on C" "set cs \<subseteq> C"
  shows "wp (sq (for_each cs (down E)) (for_each cs (up E))) (\<lambda>_ t. on t = (\<lambda>d. d \<in> set cs \<or> on s d))
     (\<lambda>_ _. False) s"
proof (rule wp_sq_step[OF down_all[OF assms, of s]])
  fix x t assume t: "on t = (\<lambda>d. d \<notin> set cs \<and> on s d)"
  show "wp (for_each cs (up E)) (\<lambda>_ u. on u = (\<lambda>d. d \<in> set cs \<or> on s d)) (\<lambda>_ _. False) t"
    by (rule wp_conseq[OF up_all[OF assms]]) (auto simp: t fun_eq_iff)
qed auto

text \<open>A unit that is never switched keeps its state, so the system is never without it.\<close>

lemma down_all_spares:
  assumes "obeys E on C" "set cs \<subseteq> C" "d \<notin> set cs" "on s d"
  shows "wp (for_each cs (down E)) (\<lambda>_ t. on t d) (\<lambda>_ _. False) s"
  by (rule wp_conseq[OF down_all[OF assms(1,2)]]) (use assms(3,4) in auto)

end

end
