(* ===== verification/Cpu_Hotplug.thy ===== *)
theory Cpu_Hotplug
  imports Switching
begin

section \<open>CPU hotplug stress (cpu/cpuhotplug.py)\<close>

text \<open>
  The test takes processors offline and online in several orders. The operations on a processor,
  the commands and the other library calls are the parameter \<open>hp_env\<close>. \<open>T\<close> is the module's
  \<^verbatim>\<open>totalcpus\<close>, the number of processors minus one, so the processors are \<open>0, ..., T\<close>. The
  state extends the system and the trace by the attributes of the object and the module's list
  \<^verbatim>\<open>pids\<close>.
\<close>

subsection \<open>External operations and state\<close>

record 'w hp_env =
  detect_arch :: "('w, string) ext"
  cpu_count :: "('w, int) ext"
  cpu_online :: "int \<Rightarrow> ('w, unit) ext"
  cpu_offline :: "int \<Rightarrow> ('w, unit) ext"
  cpu_status :: "int \<Rightarrow> ('w, bool) ext"
  shell :: "string \<Rightarrow> ('w, string) ext"
  spawn :: "string \<Rightarrow> ('w, int) ext"
  pkg_check :: "string \<Rightarrow> ('w, bool) ext"
  pkg_install :: "string \<Rightarrow> ('w, bool) ext"
  rand :: "int \<Rightarrow> int \<Rightarrow> ('w, int) ext"
  read_file :: "string \<Rightarrow> ('w, string) ext"
  clear_dmesg :: "('w, unit) ext"

record 'w hp_st = "'w st" +
  pids :: "int list"
  curr_smt :: "string option"
  iteration :: int
  tests_param :: pyval
  whiteboard :: string

type_synonym ('w, 'a) hp = "('w hp_st, 'a) py"

text \<open>
  A command, and one whose text the log shows; \<^verbatim>\<open>process.run\<close> and \<^verbatim>\<open>process.system_output\<close> differ
  only in what the script does with the answer.
\<close>

definition sh :: "'w hp_env \<Rightarrow> string \<Rightarrow> ('w, string) hp" where
  "sh E cmd = call ''shell'' [cmd] (shell E cmd)"

definition run_cmd :: "'w hp_env \<Rightarrow> string \<Rightarrow> ('w, unit) hp" where
  "run_cmd E cmd = sq (sh E cmd) (ret ())"

definition online :: "'w hp_env \<Rightarrow> int \<Rightarrow> ('w, unit) hp" where
  "online E c = call ''cpu.online'' [str_int c] (cpu_online E c)"

definition offline :: "'w hp_env \<Rightarrow> int \<Rightarrow> ('w, unit) hp" where
  "offline E c = call ''cpu.offline'' [str_int c] (cpu_offline E c)"

definition errorlog :: "string list" where
  "errorlog = [''WARNING: CPU:'', ''Oops'', ''Segfault'', ''soft lockup'', ''ard LOCKUP'',
     ''Unable to handle paging request'', ''rcu_sched detected stalls'', ''NMI backtrace for cpu'',
     ''Call Trace:'']"

subsection \<open>setUp\<close>

definition smt_cmd :: string where
  "smt_cmd = ''ppc64_cpu --smt | awk -F'' @ quoted ''='' @ '' '' @ quoted ''{print $NF}'' @ '' | awk '' @
     quoted ''{print $NF}''"

definition hp_setUp :: "'w hp_env \<Rightarrow> (string \<rightharpoonup> pyval) \<Rightarrow> ('w, unit) hp" where
  "hp_setUp E params =
     bnd (call ''distro.detect'' [] (detect_arch E)) (\<lambda>arch.
     sq (whenb (\<not> contains ''ppc'' arch) (cancel ''Processor is not powerpc''))
    (bnd (sh E smt_cmd) (\<lambda>smt.
     sq (modify (\<lambda>s. s\<lparr>curr_smt := Some smt\<rparr>))
    (sq (for_each [''util-linux'', ''powerpc-utils'', ''numactl''] (\<lambda>pkg.
           bnd (call ''check_installed'' [pkg] (pkg_check E pkg)) (\<lambda>b.
           if b then ret ()
           else bnd (call ''install'' [pkg] (pkg_install E pkg)) (\<lambda>b'.
                whenb (\<not> b') (cancel (pkg @ '' is required to continue...''))))))
    (bnd (lift (vint (case params ''iteration'' of None \<Rightarrow> VStr ''10'' | Some v \<Rightarrow> v))) (\<lambda>n.
     sq (modify (\<lambda>s. s\<lparr>iteration := n\<rparr>))
        (modify (\<lambda>s. s\<lparr>tests_param := (case params ''test'' of None \<Rightarrow> VStr ''all'' | Some v \<Rightarrow> v)\<rparr>))))))))"

subsection \<open>Helpers\<close>

definition error_check :: "'w hp_env \<Rightarrow> ('w, string) hp" where
  "error_check E =
     bnd (sh E ''dmesg -Txl 1,2,3,4'') (\<lambda>out.
     ret (join [newline]
       (concat (map (\<lambda>error. filter (contains error) (splitlines out)) errorlog))))"

text \<open>
  \<^verbatim>\<open>collect_dmesg\<close> is a function of one argument, the test object. A call gives it a list of arguments; with any other
  number of them it raises before its body runs.
\<close>

datatype hp_arg = Self

definition collect_dmesg :: "'w hp_env \<Rightarrow> hp_arg list \<Rightarrow> ('w, unit) hp" where
  "collect_dmesg E args =
     (case args of
        [Self] \<Rightarrow> bnd (sh E ''dmesg'') (\<lambda>out. modify (\<lambda>s. s\<lparr>whiteboard := out\<rparr>))
      | _ \<Rightarrow> raise TypeError)"

definition isSMT :: "'w hp_env \<Rightarrow> ('w, bool) hp" where
  "isSMT E = bnd (sh E ''ppc64_cpu --smt'') (\<lambda>out. ret (\<not> contains ''is not SMT capable'' out))"

definition online_cpus :: "'w hp_env \<Rightarrow> int \<Rightarrow> ('w, unit) hp" where
  "online_cpus E cores = for_each (range1 cores) (online E)"

definition offline_cpus :: "'w hp_env \<Rightarrow> int \<Rightarrow> ('w, unit) hp" where
  "offline_cpus E cores = for_each (range1 cores) (offline E)"

definition cpu_toggle :: "'w hp_env \<Rightarrow> int \<Rightarrow> ('w, unit) hp" where
  "cpu_toggle E core =
     bnd (call ''cpu.status'' [str_int core] (cpu_status E core)) (\<lambda>b.
     if b then offline E core else online E core)"

definition kill_process :: "'w hp_env \<Rightarrow> int list \<Rightarrow> ('w, unit) hp" where
  "kill_process E ps = for_each ps (\<lambda>pid. run_cmd E (''kill -9 '' @ str_int pid))"

text \<open>A loop over \<^verbatim>\<open>range(self.iteration)\<close>.\<close>

definition iterate :: "('w, unit) hp \<Rightarrow> ('w, unit) hp" where
  "iterate body = bnd (gets iteration) (\<lambda>n. for_each (range1 n) (\<lambda>_. body))"

subsection \<open>The tests\<close>

definition off_log :: "'w hp_env \<Rightarrow> int \<Rightarrow> ('w, unit) hp" where
  "off_log E c = sq (log Info (''Offlining cpu'' @ str_int c)) (offline E c)"

definition on_log :: "'w hp_env \<Rightarrow> int \<Rightarrow> ('w, unit) hp" where
  "on_log E c = sq (log Info (''Onlining cpu'' @ str_int c)) (online E c)"

definition serial_round :: "'w hp_env \<Rightarrow> int \<Rightarrow> ('w, unit) hp" where
  "serial_round E T =
     sq (log Info (''OFF-ON Serial Test '' @ str_int T))
    (sq (whenb (T \<noteq> 0) (for_each (py_range3 1 T 1) (off_log E)))
    (sq (log Info (''Online CPU'' @ [CHR 0x27] @ ''s in reverse order '' @ str_int T))
    (sq (for_each (py_range3 T (- 1) (- 1)) (on_log E))
    (sq (log Info (''Offline CPU'' @ [CHR 0x27] @ ''s in reverse order '' @ str_int T))
    (sq (whenb (T \<noteq> 0) (for_each (py_range3 T (- 1) (- 2)) (off_log E)))
    (sq (log Info (''Online CPU'' @ [CHR 0x27] @ ''s in serial''))
        (for_each (py_range3 0 T 1) (on_log E))))))))"

definition cpu_serial_off_on :: "'w hp_env \<Rightarrow> int \<Rightarrow> ('w, unit) hp" where
  "cpu_serial_off_on E T = iterate (serial_round E T)"

definition toggle_once :: "'w hp_env \<Rightarrow> int \<Rightarrow> int \<Rightarrow> ('w, unit) hp" where
  "toggle_once E T c = sq (whenb (T \<noteq> 0) (off_log E c)) (on_log E c)"

definition single_cpu_toggle :: "'w hp_env \<Rightarrow> int \<Rightarrow> ('w, unit) hp" where
  "single_cpu_toggle E T = for_each (py_range3 1 T 1) (\<lambda>c. iterate (toggle_once E T c))"

definition cpu_toggle_one_by_one :: "'w hp_env \<Rightarrow> int \<Rightarrow> ('w, unit) hp" where
  "cpu_toggle_one_by_one E T = iterate (for_each (range1 T) (toggle_once E T))"

definition multiple_cpus_toggle :: "'w hp_env \<Rightarrow> int \<Rightarrow> ('w, unit) hp" where
  "multiple_cpus_toggle E T =
     bnd (isSMT E) (\<lambda>b.
     if b then iterate (sq (log Info ''SMT toggle'')
                           (run_cmd E ''ppc64_cpu --smt=off && ppc64_cpu --smt=on''))
     else log Info ''Machine is not SMT capable'')"

definition taskset_shift :: "int \<Rightarrow> string" where
  "taskset_shift c = ''taskset -pc $(('' @ str_int c @ ''<<1)) $$''"

definition pinned_start :: "'w hp_env \<Rightarrow> int \<Rightarrow> ('w, unit) hp" where
  "pinned_start E T =
     for_each (range1 T) (\<lambda>proc.
       bnd (call ''SubProcess'' [''while :; do :; done''] (spawn E ''while :; do :; done'')) (\<lambda>pid.
       sq (modify (\<lambda>s. s\<lparr>pids := pids s @ [pid]\<rparr>))
          (run_cmd E (''taskset -pc '' @ str_int proc @ '' '' @ str_int pid))))"

text \<open>The processors of a node: what follows the last \<^verbatim>\<open>': '\<close>, with commas for the blanks.\<close>

definition node_cores :: "string \<Rightarrow> string" where
  "node_cores node = replace_char (CHR '' '') '','' (last (split_str '': '' node))"

definition pinned_shift :: "'w hp_env \<Rightarrow> int \<Rightarrow> int list \<Rightarrow> ('w, unit) hp" where
  "pinned_shift E T ps =
     sq (for_each (zip ps (range1 (int (length ps)))) (\<lambda>(pid, count).
           sq (offline E count) (run_cmd E (''taskset -pc '' @ str_int pid))))
    (sq (online_cpus E T)
    (sq (log Info (newline # ''Shift affinity for the same process and toggle''))
    (sq (for_each (range1 T) (\<lambda>proc. sq (run_cmd E (taskset_shift proc)) (offline E proc)))
    (sq (online_cpus E T)
    (sq (log Info (newline # ''Set all process affine to single NUMA node''))
    (bnd (sh E ''numactl --hardware | grep cpus:'') (\<lambda>out.
     sq (for_each (split_on newline out) (\<lambda>node.
           whenb (node_cores node \<noteq> [])
             (for_each ps (\<lambda>pid. run_cmd E (''taskset -pc '' @ node_cores node @ '' '' @ str_int pid)))))
    (sq (log Info (newline # ''toggle random cpu, while shifting affinity of same pid''))
    (sq (iterate (bnd (call ''randint'' [''0'', str_int T] (rand E 0 T)) (\<lambda>core.
                  sq (run_cmd E (taskset_shift core)) (cpu_toggle E core))))
        (kill_process E ps))))))))))"

definition pinned_cpu_stress :: "'w hp_env \<Rightarrow> int \<Rightarrow> ('w, unit) hp" where
  "pinned_cpu_stress E T =
     sq (log Info (newline # ''Create '' @ str_int T @ '' pids and set proc affinity''))
    (sq (pinned_start E T)
    (sq (log Info (newline # ''offline cpus and see the affinity change''))
    (bnd (gets pids) (pinned_shift E T))))"

definition count_cpus :: "'w hp_env \<Rightarrow> ('w, int) hp" where
  "count_cpus E = call ''cpu_count'' [] (cpu_count E)"

definition dlpar_cpu_hotplug :: "'w hp_env \<Rightarrow> int \<Rightarrow> ('w, unit) hp" where
  "dlpar_cpu_hotplug E T =
     bnd (call ''read'' [''/proc/cpuinfo''] (read_file E ''/proc/cpuinfo'')) (\<lambda>info.
     if \<not> contains ''PowerNV'' info then
       bnd (sh E ''drmgr -C'') (\<lambda>out.
       if contains ''cpu_dlpar=yes'' out then
         iterate
           (sq (log Info ''DLPAR remove cpu operation'')
           (bnd (count_cpus E) (\<lambda>init_count.
            sq (run_cmd E ''drmgr -c cpu -d 5 -w 30 -r -q 1'')
           (bnd (count_cpus E) (\<lambda>n.
            sq (whenb (n \<ge> init_count) (log Info ''no more hotunpluggable cpus''))
           (sq (log Info ''DLPAR add cpu operation'')
           (sq (run_cmd E ''drmgr -c cpu -d 5 -w 30 -a -q 1'')
           (bnd (count_cpus E) (\<lambda>n'.
            whenb (init_count \<noteq> n') (log Info ''no more hotpluggable cpus'')))))))))) 
       else log Info ''UNSUPPORTED: dlpar not configured..'')
     else log Info ''UNSUPPORTED: Test not supported on bare-metal'')"

subsection \<open>test and tearDown\<close>

text \<open>
  \<^verbatim>\<open>eval\<close> calls the method of the given name; a name that is no method raises. (The three
  methods of the life cycle, which nobody names in a parameter file, are not dispatched to.)
  After errors in the kernel log \<^verbatim>\<open>collect_dmesg()\<close> is called without its argument, which raises.
\<close>

definition run_method :: "'w hp_env \<Rightarrow> int \<Rightarrow> string \<Rightarrow> ('w, unit) hp" where
  "run_method E T m =
     (if m = ''cpu_serial_off_on'' then cpu_serial_off_on E T
      else if m = ''single_cpu_toggle'' then single_cpu_toggle E T
      else if m = ''cpu_toggle_one_by_one'' then cpu_toggle_one_by_one E T
      else if m = ''multiple_cpus_toggle'' then multiple_cpus_toggle E T
      else if m = ''pinned_cpu_stress'' then pinned_cpu_stress E T
      else if m = ''dlpar_cpu_hotplug'' then dlpar_cpu_hotplug E T
      else raise AttributeError)"

definition hp_test_names :: "pyval \<Rightarrow> string list result" where
  "hp_test_names v =
     rbind (as_str v) (\<lambda>s.
     Inr (if contains ''all'' s then
            [''cpu_serial_off_on'', ''single_cpu_toggle'', ''cpu_toggle_one_by_one'',
             ''multiple_cpus_toggle'', ''pinned_cpu_stress'', ''dlpar_cpu_hotplug'']
          else split_ws s))"

definition hp_test_one :: "'w hp_env \<Rightarrow> int \<Rightarrow> string \<Rightarrow> ('w, unit) hp" where
  "hp_test_one E T method =
     sq (log Info (newline # ''TEST: '' @ method @ [newline]))
    (sq (call ''dmesg.clear_dmesg'' [] (clear_dmesg E))
    (sq (run_method E T method)
    (bnd (error_check E) (\<lambda>msg.
     sq (whenb (msg \<noteq> [])
           (sq (collect_dmesg E [])
               (log Info (''Test: self.'' @ method @ ''(). ERROR Message: '' @ msg))))
        (log Info (newline # ''END: '' @ method @ [newline]))))))"

definition hp_test :: "'w hp_env \<Rightarrow> int \<Rightarrow> ('w, unit) hp" where
  "hp_test E T =
     sq (online_cpus E T)
    (bnd (gets tests_param) (\<lambda>v.
     bnd (lift (hp_test_names v)) (\<lambda>tests.
     for_each tests (hp_test_one E T))))"

definition hp_tearDown :: "'w hp_env \<Rightarrow> int \<Rightarrow> ('w, unit) hp" where
  "hp_tearDown E T =
     bnd (gets curr_smt) (\<lambda>smt.
     sq (case smt of
           None \<Rightarrow> ret ()
         | Some v \<Rightarrow> run_cmd E (''ppc64_cpu --smt=off && ppc64_cpu --smt=on && ppc64_cpu --smt='' @ v))
        (online_cpus E T))"

subsection \<open>Processors that obey\<close>

text \<open>
  \<open>on w c\<close> says that processor \<open>c\<close> is online in the system \<open>w\<close>. The documented behaviour of the
  library for the processors \<open>0, ..., T\<close>: \<^verbatim>\<open>cpu.online\<close> and \<^verbatim>\<open>cpu.offline\<close> change the processor
  they are called for and no other.
\<close>

definition cpu_laws :: "'w hp_env \<Rightarrow> int \<Rightarrow> ('w \<Rightarrow> int \<Rightarrow> bool) \<Rightarrow> bool" where
  "cpu_laws E T on \<longleftrightarrow> (\<forall>w c. 0 \<le> c \<and> c \<le> T \<longrightarrow>
     (\<exists>w'. cpu_online E c w = (Inr (), w') \<and> on w' = (on w)(c := True)) \<and>
     (\<exists>w'. cpu_offline E c w = (Inr (), w') \<and> on w' = (on w)(c := False)))"

lemma wp_on_off_log:
  assumes "cpu_laws E T on" "0 \<le> c" "c \<le> T"
  shows "wp (on_log E c) (\<lambda>_ t. on (world t) = (on (world s))(c := True)) (\<lambda>_ _. False) s"
    and "wp (off_log E c) (\<lambda>_ t. on (world t) = (on (world s))(c := False)) (\<lambda>_ _. False) s"
proof -
  obtain w1 w2 where "cpu_online E c (world s) = (Inr (), w1)" "on w1 = (on (world s))(c := True)"
    "cpu_offline E c (world s) = (Inr (), w2)" "on w2 = (on (world s))(c := False)"
    using assms unfolding cpu_laws_def by meson
  then show "wp (on_log E c) (\<lambda>_ t. on (world t) = (on (world s))(c := True)) (\<lambda>_ _. False) s"
    "wp (off_log E c) (\<lambda>_ t. on (world t) = (on (world s))(c := False)) (\<lambda>_ _. False) s"
    by (simp_all add: on_log_def off_log_def online_def offline_def wp)
qed

text \<open>The switching operations of this test are an instance of the common interface.\<close>

definition hp_obeys :: "'w hp_env \<Rightarrow> ('w hp_st \<Rightarrow> int \<Rightarrow> bool) \<Rightarrow> int set \<Rightarrow> bool" where
  "hp_obeys E f C \<longleftrightarrow> (\<exists>T on. cpu_laws E T on \<and> f = (\<lambda>s. on (world s)) \<and> C = {0..T})"

interpretation hp: switches on_log off_log hp_obeys
proof
  fix E :: "'w hp_env" and f C c s
  assume "hp_obeys E f C" "c \<in> C"
  then obtain T on where o': "cpu_laws E T on" "0 \<le> c" "c \<le> T" "f = (\<lambda>s. on (world s))"
    unfolding hp_obeys_def by auto
  show "wp (on_log E c) (\<lambda>_ t. f t = (f s)(c := True)) (\<lambda>_ _. False) s"
    "wp (off_log E c) (\<lambda>_ t. f t = (f s)(c := False)) (\<lambda>_ _. False) s"
    unfolding o'(4) by (rule wp_on_off_log[OF o'(1-3)])+
qed

lemma wp_on_off_all:
  assumes "cpu_laws E T on" "set cs \<subseteq> {0..T}"
  shows "wp (for_each cs (on_log E)) (\<lambda>_ t. on (world t) = (\<lambda>d. d \<in> set cs \<or> on (world s) d)) (\<lambda>_ _. False) s"
    and "wp (for_each cs (off_log E)) (\<lambda>_ t. on (world t) = (\<lambda>d. d \<notin> set cs \<and> on (world s) d)) (\<lambda>_ _. False) s"
proof -
  have o': "hp_obeys E (\<lambda>s. on (world s)) {0..T}" unfolding hp_obeys_def using assms(1) by blast
  show "wp (for_each cs (on_log E)) (\<lambda>_ t. on (world t) = (\<lambda>d. d \<in> set cs \<or> on (world s) d)) (\<lambda>_ _. False) s"
    by (rule hp.up_all[OF o' assms(2)])
  show "wp (for_each cs (off_log E)) (\<lambda>_ t. on (world t) = (\<lambda>d. d \<notin> set cs \<and> on (world s) d)) (\<lambda>_ _. False) s"
    by (rule hp.down_all[OF o' assms(2)])
qed

lemma set_range_down2:
  assumes "0 \<le> T"
  shows "set (py_range3 T (- 1) (- 2)) \<subseteq> {0..T}" "T \<in> set (py_range3 T (- 1) (- 2))"
proof -
  have n: "py_range3 T (- 1) (- 2) = map (\<lambda>k. T - 2 * int k) [0..<nat ((T + 2) div 2)]"
    by (simp add: py_range3_def)
  show "set (py_range3 T (- 1) (- 2)) \<subseteq> {0..T}" unfolding n by auto
  show "T \<in> set (py_range3 T (- 1) (- 2))"
    unfolding n using assms by (auto simp: image_iff intro!: bexI[of _ 0])
qed

definition after_serial :: "int \<Rightarrow> (int \<Rightarrow> bool) \<Rightarrow> int \<Rightarrow> bool" where
  "after_serial T before c = (if c = T then False else if 0 \<le> c \<and> c < T then True else before c)"

lemma wp_serial_round:
  assumes "cpu_laws E T on" "1 \<le> T"
  shows "wp (serial_round E T) (\<lambda>_ t. on (world t) = after_serial T (on (world s))) (\<lambda>_ _. False) s"
proof -
  note up = wp_on_off_all(1)[OF assms(1)] and down = wp_on_off_all(2)[OF assms(1)]
  have T: "T \<noteq> 0" "0 \<le> T" using assms(2) by auto
  have s1: "set (py_range3 1 T 1) \<subseteq> {0..T}" "set (py_range3 T (- 1) (- 1)) \<subseteq> {0..T}" "set (py_range3 0 T 1) \<subseteq> {0..T}"
    by (auto simp: set_py_range3_up set_py_range3_down)
  have fin: "f4 = after_serial T f"
    if "f1 = (\<lambda>d. d \<notin> set (py_range3 1 T 1) \<and> f d)" "f2 = (\<lambda>d. d \<in> set (py_range3 T (- 1) (- 1)) \<or> f1 d)"
      "f3 = (\<lambda>d. d \<notin> set (py_range3 T (- 1) (- 2)) \<and> f2 d)" "f4 = (\<lambda>d. d \<in> set (py_range3 0 T 1) \<or> f3 d)"
    for f f1 f2 f3 f4
    unfolding that using set_range_down2[OF T(2)] assms(2)
    by (auto simp: fun_eq_iff after_serial_def set_py_range3_up set_py_range3_down)
  show ?thesis
    unfolding serial_round_def wp_sq wp_log wp_whenb if_P[OF T(1)]
    apply (rule wp_conseq[OF down[OF s1(1)]])
     apply (rule wp_conseq[OF up[OF s1(2)]])
      apply (rule wp_conseq[OF down[OF set_range_down2(1)[OF T(2)]]])
       apply (rule wp_conseq[OF up[OF s1(3)]])
        apply (rule fin, simp_all)
    done
qed

lemma after_serial_idem: "after_serial T (after_serial T f) = after_serial T f"
  by (rule ext) (simp add: after_serial_def)

lemma wp_cpu_serial:
  assumes "cpu_laws E T on" "1 \<le> T" "1 \<le> iteration s"
  shows "wp (cpu_serial_off_on E T) (\<lambda>_ t. on (world t) = after_serial T (on (world s))) (\<lambda>_ _. False) s"
proof -
  let ?I = "\<lambda>ys t. on (world t) = (if ys = [] then on (world s) else after_serial T (on (world s)))"
  have "range1 (iteration s) \<noteq> []"
    using set_py_range3_up[of 0 "iteration s"] assms(3) by (metis atLeastLessThan_empty_iff empty_set not_less zero_less_one order_less_le_trans)
  moreover have "wp (for_each (range1 (iteration s)) (\<lambda>_. serial_round E T)) (\<lambda>_. ?I (range1 (iteration s))) (\<lambda>_ _. False) s"
    by (rule wp_for_each)
       (auto intro!: wp_conseq[OF wp_serial_round[OF assms(1,2)]] simp: after_serial_idem)
  ultimately show ?thesis
    by (simp add: cpu_serial_off_on_def iterate_def wp_bnd wp_gets)
qed

subsection \<open>Which processors are touched\<close>

text \<open>An event is within range when, if it switches a processor, the processor exists.\<close>

fun in_range :: "int \<Rightarrow> event \<Rightarrow> bool" where
  "in_range T (Call f args) =
     (f = ''cpu.online'' \<or> f = ''cpu.offline'' \<longrightarrow> (\<exists>c. 0 \<le> c \<and> c \<le> T \<and> args = [str_int c]))"
| "in_range T e = True"

lemma emits_switch:
  assumes "0 \<le> c" "c \<le> T"
  shows "emits (in_range T) (online E c)" "emits (in_range T) (offline E c)"
    "emits (in_range T) (on_log E c)" "emits (in_range T) (off_log E c)"
  using assms by (auto simp: online_def offline_def on_log_def off_log_def intro!: emits)

lemma emits_sh [emits]: "emits (in_range T) (sh E cmd)" "emits (in_range T) (run_cmd E cmd)"
  by (auto simp: sh_def run_cmd_def intro!: emits)

lemma emits_modify_trace: "(\<And>s. trace (f s) = trace s) \<Longrightarrow> emits P (modify f)"
  by (simp add: emits_def py_defs)

lemma emits_iterate [emits]: "emits P m \<Longrightarrow> emits P (iterate m)"
  unfolding iterate_def by (intro emits)

lemma emits_online_cpus [emits]: "emits (in_range T) (online_cpus E T)"
  unfolding online_cpus_def by (auto intro!: emits emits_switch simp: set_py_range3_up)

lemma emits_toggle_once: "0 \<le> c \<Longrightarrow> c \<le> T \<Longrightarrow> emits (in_range T) (toggle_once E T c)"
  unfolding toggle_once_def by (intro emits emits_switch)

lemma emits_methods:
  "emits (in_range T) (cpu_serial_off_on E T)"
  "emits (in_range T) (single_cpu_toggle E T)"
  "emits (in_range T) (cpu_toggle_one_by_one E T)"
  "emits (in_range T) (multiple_cpus_toggle E T)"
  "emits (in_range T) (dlpar_cpu_hotplug E T)"
proof -
  have "emits (in_range T) (serial_round E T)" if "0 \<le> T"
    using set_range_down2[OF that] unfolding serial_round_def
    by (auto intro!: emits emits_switch simp: set_py_range3_up set_py_range3_down)
  moreover have "py_range3 T (- 1) (- 1) = []" "py_range3 T (- 1) (- 2) = []" "py_range3 1 T 1 = []"
    "py_range3 0 T 1 = []" if "\<not> 0 \<le> T"
    using that by (simp_all add: py_range3_def)
  then have "emits (in_range T) (serial_round E T)" if "\<not> 0 \<le> T"
    using that unfolding serial_round_def by (auto intro!: emits)
  ultimately show "emits (in_range T) (cpu_serial_off_on E T)"
    unfolding cpu_serial_off_on_def by (intro emits) blast
  show "emits (in_range T) (single_cpu_toggle E T)" "emits (in_range T) (cpu_toggle_one_by_one E T)"
    unfolding single_cpu_toggle_def cpu_toggle_one_by_one_def
    by (auto intro!: emits emits_toggle_once simp: set_py_range3_up)
  show "emits (in_range T) (multiple_cpus_toggle E T)" "emits (in_range T) (dlpar_cpu_hotplug E T)"
    unfolding multiple_cpus_toggle_def dlpar_cpu_hotplug_def isSMT_def count_cpus_def
    by (auto intro!: emits)
qed

definition rand_ok :: "'w hp_env \<Rightarrow> bool" where
  "rand_ok E \<longleftrightarrow> (\<forall>a b w x w'. rand E a b w = (Inr x, w') \<longrightarrow> a \<le> x \<and> x \<le> b)"

lemma emits_pinned_shift:
  assumes "rand_ok E" "int (length ps) \<le> T + 1"
  shows "emits (in_range T) (pinned_shift E T ps)"
proof -
  have c: "0 \<le> c \<and> c \<le> T" if "(pid, c) \<in> set (zip ps (range1 (int (length ps))))" for pid c
    using set_zip_rightD[OF that] assms(2) by (auto simp: set_py_range3_up)
  have r: "emits (in_range T) (bnd (call ''randint'' [''0'', str_int T] (rand E 0 T)) (\<lambda>core.
                  sq (run_cmd E (taskset_shift core)) (cpu_toggle E core)))"
  proof (rule emits_call_bnd)
    fix w x w' assume "rand E 0 T w = (Inr x, w')"
    with assms(1) have "0 \<le> x" "x \<le> T" unfolding rand_ok_def by blast+
    then show "emits (in_range T) (sq (run_cmd E (taskset_shift x)) (cpu_toggle E x))"
      unfolding cpu_toggle_def by (auto intro!: emits emits_switch)
  qed simp
  show ?thesis
    unfolding pinned_shift_def kill_process_def
    by (auto intro!: emits emits_switch r dest!: c simp: set_py_range3_up split: prod.split)
qed

definition trace_in_range :: "int \<Rightarrow> 'w hp_st \<Rightarrow> bool" where
  "trace_in_range T s \<longleftrightarrow> (\<forall>e \<in> set (trace s). in_range T e)"

lemma emits_wp: "emits (in_range T) m \<Longrightarrow> trace_in_range T s \<Longrightarrow>
    wp m (\<lambda>_. trace_in_range T) (\<lambda>_. trace_in_range T) s"
  by (rule wpI; drule (1) emitsD) (auto simp: trace_in_range_def)

lemma wp_pinned_start:
  assumes "trace_in_range T s" "pids s = []"
  shows "wp (pinned_start E T) (\<lambda>_ t. trace_in_range T t \<and> length (pids t) = length (range1 T))
           (\<lambda>_. trace_in_range T) s"
  unfolding pinned_start_def
  by (rule wp_for_each[where I = "\<lambda>ys t. trace_in_range T t \<and> length (pids t) = length ys"])
     (use assms in \<open>auto simp: wp run_cmd_def sh_def trace_in_range_def split: prod.split sum.split\<close>)

subsection \<open>Properties\<close>

text \<open>The witnesses use a machine with five processors whose state is the set of those online.\<close>

definition hp_demo :: "string \<Rightarrow> (int \<Rightarrow> bool) hp_env" where
  "hp_demo dmesg_out =
     \<lparr>detect_arch = \<lambda>w. (Inr ''ppc64le'', w), cpu_count = \<lambda>w. (Inr 5, w),
      cpu_online = \<lambda>c w. (Inr (), w(c := True)), cpu_offline = \<lambda>c w. (Inr (), w(c := False)),
      cpu_status = \<lambda>c w. (Inr (w c), w), shell = \<lambda>cmd w. (Inr dmesg_out, w),
      spawn = \<lambda>_ w. (Inr 4711, w), pkg_check = \<lambda>_ w. (Inr True, w), pkg_install = \<lambda>_ w. (Inr True, w),
      rand = \<lambda>a b w. if a \<le> b then (Inr a, w) else (Inl ValueError, w),
      read_file = \<lambda>_ w. (Inr [], w), clear_dmesg = \<lambda>w. (Inr (), w)\<rparr>"

definition hp_state :: "int \<Rightarrow> (int \<Rightarrow> bool) hp_st" where
  "hp_state n = \<lparr>world = \<lambda>_. True, trace = [], pids = [], curr_smt = None, iteration = n,
                tests_param = VStr ''all'', whiteboard = []\<rparr>"

text \<open>
  C34. The serial test on processors that obey: after at least one round the processors below
  \<open>T\<close> are online, whatever they were before, the others are as before, and processor \<open>T\<close>, the
  last one of the machine, is left offline, because the second offline loop starts at \<open>T\<close> and the
  last online loop stops before it.
\<close>

theorem serial_leaves_last_offline:
  assumes "cpu_laws E T on" "1 \<le> T" "1 \<le> iteration s"
  shows "wp (cpu_serial_off_on E T)
     (\<lambda>_ t. on (world t) = (\<lambda>c. if c = T then False else if 0 \<le> c \<and> c < T then True else on (world s) c))
     (\<lambda>_ _. False) s"
  by (rule wp_conseq[OF wp_cpu_serial[OF assms]], unfold after_serial_def)

theorem serial_leaves_last_offline_witness:
  "wp (cpu_serial_off_on (hp_demo []) 4)
     (\<lambda>_ t. id (world t) = (\<lambda>c. if c = 4 then False else if 0 \<le> c \<and> c < 4 then True
                              else id (world (hp_state 2)) c))
     (\<lambda>_ _. False) (hp_state 2)"
  by (rule serial_leaves_last_offline) (simp_all add: cpu_laws_def hp_demo_def hp_state_def)

text \<open>
  No test but the pinned one ever switches a processor that does not exist: whatever the
  outcome of the calls, every online or offline operation of such a test, including the checks
  around it, is for one of the processors \<open>0, ..., T\<close>.
\<close>

theorem tests_stay_in_range:
  assumes "m \<noteq> ''pinned_cpu_stress''"
  shows "emits (in_range T) (hp_test_one E T m)"
proof -
  have "emits (in_range T) (run_method E T m)"
    by (simp only: run_method_def assms if_False emits_methods emits_pure if_cancel split: if_split) simp
  moreover have "emits (in_range T) (error_check E)"
    unfolding error_check_def by (intro emits)
  ultimately show ?thesis
    unfolding hp_test_one_def collect_dmesg_def by (auto intro!: emits)
qed

theorem tests_stay_in_range_witness: "emits (in_range 4) (hp_test_one (hp_demo []) 4 ''single_cpu_toggle'')"
  by (rule tests_stay_in_range) simp

text \<open>
  The pinned test offlines as many processors as it has started processes, over all runs in
  the same interpreter. When the list of processes is empty at the start, and the random generator
  keeps its contract, it too stays within the processors \<open>0, ..., T\<close>.
\<close>

theorem pinned_stays_in_range:
  assumes "0 \<le> T" "rand_ok E" "pids s = []" "trace_in_range T s"
  shows "wp (pinned_cpu_stress E T) (\<lambda>_. trace_in_range T) (\<lambda>_. trace_in_range T) s"
proof -
  have log: "trace_in_range T t \<Longrightarrow> trace_in_range T (t\<lparr>trace := trace t @ [Log l m]\<rparr>)" for t l m
    by (simp add: trace_in_range_def)
  have len: "int (length (range1 T)) \<le> T + 1" using assms(1) by (simp add: py_range3_def)
  show ?thesis
    unfolding pinned_cpu_stress_def wp_sq[of "log _ _"] wp_log wp_sq[of "pinned_start _ _"]
    by (rule wp_conseq[OF wp_pinned_start])
       (use assms(3,4) log len in \<open>auto simp: wp_bnd wp_gets intro!: emits_wp emits_pinned_shift[OF assms(2)]\<close>)
qed

theorem pinned_stays_in_range_witness:
  "wp (pinned_cpu_stress (hp_demo []) 4) (\<lambda>_. trace_in_range 4) (\<lambda>_. trace_in_range 4) (hp_state 2)"
  by (rule pinned_stays_in_range) (auto simp: rand_ok_def hp_demo_def hp_state_def trace_in_range_def split: if_splits)

lemma join_ne: "x \<in> set xs \<Longrightarrow> x \<noteq> [] \<Longrightarrow> join [newline] xs \<noteq> []"
  by (induction "[newline]" xs rule: join.induct) auto

text \<open>The text of the kernel log has a line with one of the messages the test looks for.\<close>

definition shows_error :: "string \<Rightarrow> bool" where
  "shows_error out \<longleftrightarrow> (\<exists>line \<in> set (splitlines out). line \<noteq> [] \<and> (\<exists>error \<in> set errorlog. contains error line))"

lemma error_check_finds:
  assumes "shell E ''dmesg -Txl 1,2,3,4'' (world t) = (Inr out, w)" "shows_error out"
  obtains msg where "error_check E t = (Inr msg, t\<lparr>world := w, trace := trace t @ [Call ''shell'' [''dmesg -Txl 1,2,3,4'']]\<rparr>)" "msg \<noteq> []"
proof -
  let ?msg = "join [newline] (concat (map (\<lambda>error. filter (contains error) (splitlines out)) errorlog))"
  from assms(2) obtain line where line: "line \<noteq> []"
    "line \<in> set (concat (map (\<lambda>error. filter (contains error) (splitlines out)) errorlog))"
    unfolding shows_error_def by auto
  have "error_check E t = (Inr ?msg, t\<lparr>world := w, trace := trace t @ [Call ''shell'' [''dmesg -Txl 1,2,3,4'']]\<rparr>)"
    using assms(1) by (simp add: error_check_def sh_def call_def py_defs)
  then show thesis using that join_ne[OF line(2,1)] by blast
qed

text \<open>
  C35. Errors in the kernel log: when the log shows one of the error messages after a test method, the test of that
  method never ends normally. If clearing the log or the method raises, that is how the test ends. If not, the test
  ends in a \<^verbatim>\<open>TypeError\<close>, from \<^verbatim>\<open>collect_dmesg()\<close> without its argument: after the kernel log is read nothing more is
  called or logged, so the error text never is, and the whiteboard, where the log was to go, is as it was.
\<close>

theorem kernel_errors_end_in_TypeError:
  assumes "\<And>w. \<exists>out w'. shell E ''dmesg -Txl 1,2,3,4'' w = (Inr out, w') \<and> shows_error out"
  shows "case sq (log Info (newline # ''TEST: '' @ m @ [newline])) (sq (call ''dmesg.clear_dmesg'' [] (clear_dmesg E)) (run_method E T m)) s of
      (Inl e, t) \<Rightarrow> hp_test_one E T m s = (Inl e, t)
    | (Inr _, t) \<Rightarrow> \<exists>u. hp_test_one E T m s = (Inl TypeError, u) \<and>
        trace u = trace t @ [Call ''shell'' [''dmesg -Txl 1,2,3,4'']] \<and> whiteboard u = whiteboard t"
proof -
  let ?pre = "sq (log Info (newline # ''TEST: '' @ m @ [newline])) (sq (call ''dmesg.clear_dmesg'' [] (clear_dmesg E)) (run_method E T m))"
  let ?rest = "bnd (error_check E) (\<lambda>msg. sq (whenb (msg \<noteq> []) (sq (collect_dmesg E [])
      (log Info (''Test: self.'' @ m @ ''(). ERROR Message: '' @ msg)))) (log Info (newline # ''END: '' @ m @ [newline])))"
  have one: "hp_test_one E T m = sq ?pre ?rest" by (simp add: hp_test_one_def sq_assoc)
  obtain r t where pre: "?pre s = (r, t)" by (cases "?pre s")
  show ?thesis
  proof (cases r)
    case (Inl e)
    with pre show ?thesis unfolding one by (simp add: sq_def bnd_def)
  next
    case (Inr x)
    obtain out w where "shell E ''dmesg -Txl 1,2,3,4'' (world t) = (Inr out, w)" "shows_error out" using assms by blast
    then obtain msg where msg: "error_check E t = (Inr msg, t\<lparr>world := w, trace := trace t @ [Call ''shell'' [''dmesg -Txl 1,2,3,4'']]\<rparr>)"
      "msg \<noteq> []" by (rule error_check_finds)
    have "?rest t = (Inl TypeError, t\<lparr>world := w, trace := trace t @ [Call ''shell'' [''dmesg -Txl 1,2,3,4'']]\<rparr>)"
      using msg(2) by (simp add: bnd_def msg(1) sq_def whenb_def collect_dmesg_def raise_def)
    with pre Inr show ?thesis unfolding one by (simp add: sq_def bnd_def)
  qed
qed

theorem kernel_errors_end_in_TypeError_witness:
  "\<exists>u. hp_test_one (hp_demo ''Oops'') 4 ''multiple_cpus_toggle'' (hp_state 2) = (Inl TypeError, u)"
proof -
  have "shows_error ''Oops''" by code_simp
  then have "\<exists>out w'. shell (hp_demo ''Oops'') ''dmesg -Txl 1,2,3,4'' w = (Inr out, w') \<and> shows_error out" for w
    by (simp add: hp_demo_def)
  note test = kernel_errors_end_in_TypeError[where E = "hp_demo ''Oops''" and m = "''multiple_cpus_toggle''" and T = 4, OF this]
  have "wp (sq (log Info (newline # ''TEST: multiple_cpus_toggle'' @ [newline])) (sq (call ''dmesg.clear_dmesg'' [] (clear_dmesg (hp_demo ''Oops'')))
      (run_method (hp_demo ''Oops'') 4 ''multiple_cpus_toggle''))) (\<lambda>_ _. True) (\<lambda>_ _. False) (hp_state 2)"
    by (auto simp: run_method_def multiple_cpus_toggle_def isSMT_def iterate_def sh_def run_cmd_def wp hp_demo_def
        intro!: wp_for_each_inv[where I = "\<lambda>_. True"])
  with test[of "hp_state 2"] show ?thesis by (auto simp: wp_def split: prod.splits sum.splits)
qed

end
