(* ===== verification/Nvme.thy ===== *)
theory Nvme
  imports Avocado "HOL-Library.Multiset"
begin

section \<open>NVMe namespaces and firmware (io/disk/ssd/nvmetest.py)\<close>

text \<open>
  The test drives the \<^verbatim>\<open>nvme\<close> command: it parses what the command prints about the controller,
  creates and deletes namespaces, updates the firmware, and issues single I/O commands. The
  command runner and the libraries are the parameter \<open>nv_env\<close>; \<open>ns_system\<close> is \<^verbatim>\<open>process.system\<close>,
  which returns the exit status. The attributes that \<^verbatim>\<open>setUp\<close> leaves on \<^verbatim>\<open>self\<close> are the record
  \<open>nvme_obj\<close>.
\<close>

subsection \<open>External operations and state\<close>

text \<open>
  One entry of \<^verbatim>\<open>lbafs\<close> in the JSON that \<^verbatim>\<open>nvme id-ns -o json\<close> prints: the fields \<^verbatim>\<open>ds\<close> and
  \<^verbatim>\<open>ms\<close> may be missing. \<open>json_lbafs\<close> is \<^verbatim>\<open>json.loads\<close> followed by the lookup of \<^verbatim>\<open>lbafs\<close>, which
  may be missing as well.
\<close>

record lbaf =
  ds :: "int option"
  ms :: "int option"

record 'w nv_env =
  nv_output :: "string \<Rightarrow> bool \<Rightarrow> ('w, string) ext"
  nv_system :: "string \<Rightarrow> ('w, int) ext"
  nv_run :: "string \<Rightarrow> ('w, cmd_result) ext"
  disk_path :: "string \<Rightarrow> ('w, string) ext"
  ctrls_subsys :: "string \<Rightarrow> ('w, string list) ext"
  ctrls_nqn :: "string \<Rightarrow> ('w, string list) ext"
  nv_check :: "string \<Rightarrow> ('w, bool) ext"
  nv_install :: "string \<Rightarrow> ('w, bool) ext"
  fetch_build :: "('w, unit) ext"
  get_file :: "string \<Rightarrow> string \<Rightarrow> ('w, string) ext"
  lib_delete_all_ns :: "string \<Rightarrow> ('w, unit) ext"
  lib_create_full :: "string \<Rightarrow> pyval \<Rightarrow> ('w, unit) ext"
  lib_create_namespaces :: "string \<Rightarrow> pyval \<Rightarrow> pyval \<Rightarrow> ('w, unit) ext"
  json_lbafs :: "string \<Rightarrow> lbaf list option result"
  exn_text :: "exn \<Rightarrow> string"

type_synonym ('w, 'a) nv = "('w st, 'a) py"

record nvme_obj =
  device :: string
  binary :: string
  format_size :: num
  shared :: pyval
  id_ns :: string
  firmware_url :: pyval
  id_ctrl :: string

definition sysout :: "'w nv_env \<Rightarrow> string \<Rightarrow> bool \<Rightarrow> ('w, string) nv" where
  "sysout E cmd ign = call ''system_output'' [cmd] (nv_output E cmd ign)"

definition system :: "'w nv_env \<Rightarrow> string \<Rightarrow> ('w, int) nv" where
  "system E cmd = call ''system'' [cmd] (nv_system E cmd)"

definition system_do :: "'w nv_env \<Rightarrow> string \<Rightarrow> ('w, unit) nv" where
  "system_do E cmd = sq (system E cmd) (ret ())"

definition run_cmd_return_output_list :: "'w nv_env \<Rightarrow> string \<Rightarrow> ('w, string list) nv" where
  "run_cmd_return_output_list E cmd = bnd (sysout E cmd True) (\<lambda>out. ret (splitlines out))"

subsection \<open>Properties of the controller\<close>

text \<open>The last word of the first line that starts with the name of the property.\<close>

fun id_ctrl_prop :: "string list \<Rightarrow> string \<Rightarrow> string result" where
  "id_ctrl_prop [] prop = Inr []"
| "id_ctrl_prop (line # ls) prop =
     (if startswith line prop then py_nth (split_ws line) (-1) else id_ctrl_prop ls prop)"

definition get_id_ctrl_prop :: "nvme_obj \<Rightarrow> string \<Rightarrow> string result" where
  "get_id_ctrl_prop ob prop = id_ctrl_prop (splitlines (id_ctrl ob)) prop"

definition get_firmware_version :: "nvme_obj \<Rightarrow> string result" where
  "get_firmware_version ob = get_id_ctrl_prop ob ''fr''"

definition get_firmware_log :: "'w nv_env \<Rightarrow> nvme_obj \<Rightarrow> ('w, unit) nv" where
  "get_firmware_log E ob = system_do E (binary ob @ '' fw-log '' @ device ob)"

fun firmware_slots :: "string list \<Rightarrow> int result" where
  "firmware_slots [] = Inr 0"
| "firmware_slots (line # ls) =
     (if contains ''Firmware Slots'' line then
        rbind (py_nth (split_ws line) 2) (\<lambda>w. py_int (last (split_on (CHR ''x'') w)))
      else firmware_slots ls)"

definition get_firmware_slots :: "nvme_obj \<Rightarrow> int result" where
  "get_firmware_slots ob = firmware_slots (splitlines (id_ctrl ob))"

definition firmware_slot_write_supported :: "nvme_obj \<Rightarrow> int \<Rightarrow> bool" where
  "firmware_slot_write_supported ob slot_num =
     (\<not> (\<exists>line \<in> set (splitlines (id_ctrl ob)).
            contains (''Firmware Slot '' @ str_int slot_num @ '' Read-Only'') line))"

definition device_name :: "nvme_obj \<Rightarrow> string" where
  "device_name ob = last (split_on (CHR ''/'') (device ob))"

definition reset_controller_sysfs :: "'w nv_env \<Rightarrow> nvme_obj \<Rightarrow> ('w, int) nv" where
  "reset_controller_sysfs E ob =
     system E (''echo 1 > /sys/class/nvme/'' @ device_name ob @ ''/reset_controller'')"

definition get_max_ns_count :: "nvme_obj \<Rightarrow> int result" where
  "get_max_ns_count ob =
     rbind (get_id_ctrl_prop ob ''nn'') (\<lambda>out. if out \<noteq> [] then py_int out else Inr 1)"

definition get_total_capacity :: "nvme_obj \<Rightarrow> int result" where
  "get_total_capacity ob =
     rbind (get_id_ctrl_prop ob ''tnvmcap'') (\<lambda>out.
     if out \<noteq> [] then py_int (replace_char (CHR '','') [] out) else Inr 0)"

subsection \<open>Namespaces\<close>

text \<open>
  A line of \<^verbatim>\<open>nvme list-ns\<close> reads \<^verbatim>\<open>[   0]:0x1\<close>, the index and the namespace id. The number
  taken from it is the index plus one.
\<close>

definition ns_of_line :: "string \<Rightarrow> int result" where
  "ns_of_line line =
     rbind (py_nth (split_ws line) 1) (\<lambda>w.
     rbind (py_int (hd (split_on (CHR '']'') w))) (\<lambda>n. Inr (n + 1)))"

definition parse_ns_list :: "string list \<Rightarrow> int list result" where
  "parse_ns_list ls = mapM_r ns_of_line (filter (\<lambda>line. startswith line ''['') ls)"

definition ns_list :: "'w nv_env \<Rightarrow> nvme_obj \<Rightarrow> ('w, int list) nv" where
  "ns_list E ob =
     bnd (run_cmd_return_output_list E (binary ob @ '' list-ns '' @ device ob)) (\<lambda>ls.
     lift (parse_ns_list ls))"

definition list_ns :: "'w nv_env \<Rightarrow> nvme_obj \<Rightarrow> ('w, string) nv" where
  "list_ns E ob =
     sq (system_do E (binary ob @ '' ns-rescan '' @ device ob))
        (sysout E (binary ob @ '' list'') True)"

fun controller_id :: "string list \<Rightarrow> string" where
  "controller_id [] = []"
| "controller_id (line # ls) =
     (if contains ''cntlid'' line then strip (last (split_on (CHR '':'') line)) else controller_id ls)"

definition get_ns_controller :: "'w nv_env \<Rightarrow> nvme_obj \<Rightarrow> ('w, string) nv" where
  "get_ns_controller E ob =
     bnd (sysout E (binary ob @ '' id-ctrl '' @ device ob) True) (\<lambda>out.
     ret (controller_id (splitlines out)))"

text \<open>
  Both readers ask about the first namespace and look at its line marked \<^verbatim>\<open>in use\<close>; \<open>f\<close> reads the
  value off that line, \<open>d\<close> is the default.
\<close>

fun in_use :: "(string \<Rightarrow> 'a result) \<Rightarrow> 'a \<Rightarrow> string list \<Rightarrow> 'a result" where
  "in_use f d [] = Inr d"
| "in_use f d (line # ls) = (if contains ''in use'' line then f line else in_use f d ls)"

definition id_ns_value :: "'w nv_env \<Rightarrow> nvme_obj \<Rightarrow> (string \<Rightarrow> 'a result) \<Rightarrow> 'a \<Rightarrow> ('w, 'a) nv" where
  "id_ns_value E ob f d =
     bnd (ns_list E ob) (\<lambda>nss.
     case nss of
       [] \<Rightarrow> ret d
     | n # _ \<Rightarrow>
         bnd (run_cmd_return_output_list E (binary ob @ '' id-ns '' @ device ob @ ''n'' @ str_int n)) (\<lambda>ls.
         lift (in_use f d ls)))"

definition get_lba :: "'w nv_env \<Rightarrow> nvme_obj \<Rightarrow> ('w, pyval) nv" where
  "get_lba E ob =
     id_ns_value E ob (\<lambda>line. rbind (py_nth (split_ws line) 1) (\<lambda>w. rbind (py_int w) (\<lambda>n. Inr (VInt n))))
       (VStr ''0'')"

text \<open>\<^verbatim>\<open>pow(2, n)\<close> is an integer, or a float for a negative exponent.\<close>

definition pow2 :: "int \<Rightarrow> num" where
  "pow2 n = (if 0 \<le> n then NInt (2 ^ nat n) else NFloat (fl (2 powi n)))"

definition get_block_size :: "'w nv_env \<Rightarrow> nvme_obj \<Rightarrow> ('w, num) nv" where
  "get_block_size E ob =
     id_ns_value E ob (\<lambda>line. rbind (py_nth (split_ws line) 4) (\<lambda>w.
                        rbind (py_int (last (split_on (CHR '':'') w))) (\<lambda>n. Inr (pow2 n))))
       (NInt 4096)"

definition delete_ns :: "'w nv_env \<Rightarrow> nvme_obj \<Rightarrow> int \<Rightarrow> ('w, unit) nv" where
  "delete_ns E ob n = system_do E (binary ob @ '' delete-ns '' @ device ob @ '' -n '' @ str_int n)"

definition delete_all_ns :: "'w nv_env \<Rightarrow> nvme_obj \<Rightarrow> ('w, unit) nv" where
  "delete_all_ns E ob = bnd (ns_list E ob) (\<lambda>nss. for_each nss (delete_ns E ob))"

subsection \<open>Formats\<close>

record lba_format =
  fmt_index :: int
  block_size :: int
  metadata_size :: int

text \<open>The entries with a positive data size, with their position in the list.\<close>

fun valid_formats :: "int \<Rightarrow> lbaf list \<Rightarrow> lba_format list" where
  "valid_formats idx [] = []"
| "valid_formats idx (f # fs) =
     (let d = (case ds f of None \<Rightarrow> 0 | Some d \<Rightarrow> d) in
      if d > 0 then
        \<lparr>fmt_index = idx, block_size = 2 ^ nat d, metadata_size = (case ms f of None \<Rightarrow> 0 | Some m \<Rightarrow> m)\<rparr>
        # valid_formats (idx + 1) fs
      else valid_formats (idx + 1) fs)"

definition assumed_formats :: "lba_format list" where
  "assumed_formats =
     [\<lparr>fmt_index = 0, block_size = 512, metadata_size = 0\<rparr>,
      \<lparr>fmt_index = 1, block_size = 4096, metadata_size = 0\<rparr>]"

definition query_error :: "exn \<Rightarrow> bool" where
  "query_error e = (case e of CmdError _ \<Rightarrow> True | LibError m \<Rightarrow> m = ''JSONDecodeError'' | KeyError \<Rightarrow> True | _ \<Rightarrow> False)"

definition get_supported_lba_formats :: "'w nv_env \<Rightarrow> nvme_obj \<Rightarrow> ('w, lba_format list) nv" where
  "get_supported_lba_formats E ob =
    (let assumed = sq (log Warning ''Using common format assumptions (512B and 4KB)'') (ret assumed_formats)
     in bnd (ns_list E ob) (\<lambda>namespaces.
        case namespaces of
          [] \<Rightarrow> assumed
        | n # _ \<Rightarrow>
            bnd (try_except
                   (bnd (call ''run'' [binary ob @ '' id-ns '' @ device ob @ ''n'' @ str_int n @ '' -o json'']
                           (nv_run E (binary ob @ '' id-ns '' @ device ob @ ''n'' @ str_int n @ '' -o json'')))
                     (\<lambda>result.
                    bnd (lift (json_lbafs E (stdout_text result))) (\<lambda>lbafs.
                    let fmts = valid_formats 0 (case lbafs of None \<Rightarrow> [] | Some l \<Rightarrow> l) in
                    if fmts \<noteq> [] then
                      sq (log Debug (''Found '' @ str_int (int (length fmts)) @ '' valid LBA formats''))
                         (ret (Some fmts))
                    else ret None)))
                   (\<lambda>e. if query_error e then
                          sq (log Warning (''Failed to query LBA formats: '' @ exn_text E e)) (ret None)
                        else raise e)) (\<lambda>r.
            case r of Some fmts \<Rightarrow> ret fmts | None \<Rightarrow> assumed)))"

text \<open>
  The choice of a format: index 0 when it is there; otherwise one without metadata, of 512 or else
  4096 bytes if possible; otherwise the first.
\<close>

definition pick_format :: "lba_format list \<Rightarrow> lba_format option" where
  "pick_format formats =
     (case filter (\<lambda>f. fmt_index f = 0) formats of
        f # _ \<Rightarrow> Some f
      | [] \<Rightarrow>
          (let plain = filter (\<lambda>f. metadata_size f = 0) formats in
           case filter (\<lambda>f. block_size f = 512) plain @ filter (\<lambda>f. block_size f = 4096) plain @
                plain @ formats of
             f # _ \<Rightarrow> Some f
           | [] \<Rightarrow> None))"

definition get_optimal_flbas :: "'w nv_env \<Rightarrow> nvme_obj \<Rightarrow> ('w, int) nv" where
  "get_optimal_flbas E ob =
     bnd (get_supported_lba_formats E ob) (\<lambda>formats.
     case pick_format formats of
       None \<Rightarrow> sq (log Warning ''No valid formats found, defaulting to FLBAS=0'') (ret 0)
     | Some f \<Rightarrow>
         sq (if fmt_index f \<noteq> 0 \<and> metadata_size f \<noteq> 0 then
               log Warning (''Using FLBAS='' @ str_int (fmt_index f) @ '' with metadata (block_size='' @
                            str_int (block_size f) @ ''B)'')
             else
               log Info (''Using FLBAS='' @ str_int (fmt_index f) @ '' (block_size='' @
                         str_int (block_size f) @ ''B)''))
            (ret (fmt_index f)))"

definition get_flbas_value :: "'w nv_env \<Rightarrow> nvme_obj \<Rightarrow> ('w, int) nv" where
  "get_flbas_value E ob =
     try_except
       (bnd (get_optimal_flbas E ob) (\<lambda>n.
        sq (log Info (''Calculated optimal FLBAS='' @ str_int n)) (ret n)))
       (\<lambda>e. sq (log Warning (''FLBAS calculation failed: '' @ exn_text E e @ '', using FLBAS=0'')) (ret 0))"

subsection \<open>Creating namespaces\<close>

text \<open>The hexadecimal form of a namespace id that is not negative.\<close>

definition hex_digit :: "int \<Rightarrow> char" where
  "hex_digit d = (if d < 10 then digit_char d else char_of (87 + d))"

function hex_digits :: "int \<Rightarrow> string" where
  "hex_digits n = (if n < 16 then [hex_digit n] else hex_digits (n div 16) @ [hex_digit (n mod 16)])"
  by pat_completeness auto
termination
  by (relation "measure nat") auto

declare hex_digits.simps [simp del]

definition ns_line_matches :: "int \<Rightarrow> string \<Rightarrow> bool" where
  "ns_line_matches ns_id line =
     (startswith line ''['' \<and> CHR '':'' \<in> set line \<and>
      (let ns_part = strip (last (split_on (CHR '':'') line))
       in ns_part = ''0x'' @ hex_digits ns_id \<or> ns_part = str_int ns_id))"

definition create_one_ns :: "'w nv_env \<Rightarrow> nvme_obj \<Rightarrow> int \<Rightarrow> num \<Rightarrow> string \<Rightarrow> ('w, unit) nv" where
  "create_one_ns E ob ns_id blocksize controller =
     bnd (get_flbas_value E ob) (\<lambda>flbas_value.
     let n = str_int (py_trunc (exact blocksize));
         cmd = binary ob @ '' create-ns '' @ device ob @ '' --nsze='' @ n @ '' --ncap='' @ n @
               '' --flbas='' @ str_int flbas_value @ '' -dps=0'';
         rescan_cmd = binary ob @ '' ns-rescan '' @ device ob;
         attach = binary ob @ '' attach-ns '' @ device ob @ '' --namespace-id='' @ str_int ns_id @
                  '' -controllers='' @ controller
     in
     bnd (system E cmd) (\<lambda>result.
     sq (whenb (result \<noteq> 0)
           (fail (''Namespace create failed with FLBAS='' @ str_int flbas_value @ ''. Command: '' @ cmd @
                  ''. Exit code: '' @ str_int result)))
    (sq (system_do E rescan_cmd)
    (sq (sleep (VInt 2))
    (bnd (system E attach) (\<lambda>result.
     sq (whenb (result \<noteq> 0)
           (fail (''Namespace attach failed: '' @ attach @ ''. Exit code: '' @ str_int result)))
    (sq (system_do E rescan_cmd)
    (sq (sleep (VInt 2))
    (bnd (sysout E (binary ob @ '' list-ns '' @ device ob) True) (\<lambda>ns_output.
     if \<exists>line \<in> set (splitlines ns_output). ns_line_matches ns_id line then ret ()
     else log Warning (''Namespace '' @ str_int ns_id @ '' attached but not found in list. Output: '' @
                       ns_output)))))))))))"

text \<open>Floor division of numbers, as in Python.\<close>

definition nfloordiv :: "num \<Rightarrow> num \<Rightarrow> num result" where
  "nfloordiv x y =
     (if exact y = 0 then Inl ZeroDivisionError
      else (case (x, y) of
              (NInt m, NInt n) \<Rightarrow> Inr (NInt (m div n))
            | _ \<Rightarrow> Inr (NFloat (fl_floordiv (to_float x) (to_float y)))))"

definition create_full_capacity_ns :: "'w nv_env \<Rightarrow> nvme_obj \<Rightarrow> ('w, unit) nv" where
  "create_full_capacity_ns E ob =
     bnd (lift (get_total_capacity ob)) (\<lambda>cap.
     bnd (get_block_size E ob) (\<lambda>bs.
     bnd (lift (nfloordiv (NInt cap) bs)) (\<lambda>max_ns_blocks.
     bnd (get_ns_controller E ob) (\<lambda>c.
     create_one_ns E ob 1 max_ns_blocks c))))"

text \<open>60 per cent of the blocks, divided among the namespaces; \<^verbatim>\<open>/ 100\<close> makes a float.\<close>

definition per_ns_blocks :: "num \<Rightarrow> int \<Rightarrow> num result" where
  "per_ns_blocks max_ns_blocks n =
     nfloordiv (NFloat (case nmul (NInt 60) max_ns_blocks of
                          NInt k \<Rightarrow> fl (of_int k / 100) | NFloat x \<Rightarrow> fl_div x 100)) (NInt n)"

definition create_max_ns :: "'w nv_env \<Rightarrow> nvme_obj \<Rightarrow> ('w, unit) nv" where
  "create_max_ns E ob =
     bnd (lift (get_total_capacity ob)) (\<lambda>cap.
     bnd (get_block_size E ob) (\<lambda>bs.
     bnd (lift (nfloordiv (NInt cap) bs)) (\<lambda>max_ns_blocks.
     bnd (lift (rbind (get_max_ns_count ob) (per_ns_blocks max_ns_blocks))) (\<lambda>blocks.
     bnd (get_ns_controller E ob) (\<lambda>ns_controller.
     bnd (lift (get_max_ns_count ob)) (\<lambda>n.
     for_each (py_range3 1 (n + 1) 1) (\<lambda>ns_id. create_one_ns E ob ns_id blocks ns_controller)))))))"

subsection \<open>setUp\<close>

definition nv_features :: "(string \<times> string) list" where
  "nv_features =
     [(''compare'', ''Compare''), (''formatnamespace'', ''Format NVM''), (''dsm'', ''Data Set Management''),
      (''writezeroes'', ''Write Zeroes''), (''firmware_upgrade'', ''FW Commit and Download''),
      (''writeuncorrectable'', ''Write Uncorrectable''), (''subsystemreset'', ''NVM Subsystem Reset'')]"

definition nv_param :: "(string \<rightharpoonup> pyval) \<Rightarrow> string \<Rightarrow> pyval \<Rightarrow> pyval" where
  "nv_param params k d = (case params k of None \<Rightarrow> d | Some v \<Rightarrow> v)"

definition find_node :: "'w nv_env \<Rightarrow> pyval \<Rightarrow> ('w, string) nv" where
  "find_node E nvme_node =
     (if \<not> truthy nvme_node then cancel ''Please provide valid nvme node name''
      else bnd (lift (as_str nvme_node)) (\<lambda>s.
           if contains ''subsys'' s then
             bnd (call ''get_controllers_with_subsys'' [s] (ctrls_subsys E s)) (\<lambda>xs. lift (py_nth xs 0))
           else if startswith s ''nqn.'' then
             bnd (call ''get_controllers_with_nqn'' [s] (ctrls_nqn E s)) (\<lambda>xs. lift (py_nth xs 0))
           else ret s))"

definition need_package :: "'w nv_env \<Rightarrow> string \<Rightarrow> string \<Rightarrow> ('w, unit) nv" where
  "need_package E pkg msg =
     bnd (call ''check_installed'' [pkg] (nv_check E pkg)) (\<lambda>b.
     if b then ret ()
     else bnd (call ''install'' [pkg] (nv_install E pkg)) (\<lambda>b'. whenb (\<not> b') (cancel msg)))"

definition install_nvme :: "'w nv_env \<Rightarrow> pyval \<Rightarrow> ('w, string) nv" where
  "install_nvme E package =
     (if veq package (VStr ''upstream'') then
        sq (need_package E ''meson'' ''meson is needed for the test to be run'')
       (sq (call ''fetch and extract nvme-cli'' [] (fetch_build E))
       (sq (system_do E ''meson setup --force-fallback-for=libnvme .build'')
       (sq (system_do E ''meson compile -C .build'')
           (ret ''./.build/nvme''))))
      else
        sq (need_package E ''nvme-cli'' ''nvme-cli is needed for the test to be run'')
           (ret ''nvme''))"

text \<open>
  The features the test needs, decided by its name. The subsystem reset is special: with lockdown
  enabled the check is skipped, otherwise the registers are looked at first.
\<close>

definition check_feature :: "'w nv_env \<Rightarrow> nvme_obj \<Rightarrow> string \<Rightarrow> string \<times> string \<Rightarrow> ('w, unit) nv" where
  "check_feature E ob test_name kv =
     (case kv of (key, value) \<Rightarrow>
        let idctrl = whenb (contains key test_name)
              (whenb (\<not> contains (value @ '' Supported'') (id_ctrl ob)) (cancel (value @ '' is not supported'')))
        in if contains key test_name \<and> key = ''subsystemreset'' then
             bnd (sysout E ''cat /sys/kernel/security/lockdown'' False) (\<lambda>lockdown.
             if \<not> contains ''[none]'' lockdown then
               log Info (''lockdown is enabled,'' @ replicate 34 (CHR '' '') @ ''cannot run nvme show-regs command'')
             else
               bnd (sysout E (binary ob @ '' show-regs '' @ device ob @ '' -H'') False) (\<lambda>regs.
               sq (whenb (contains (value @ '' Supported   (NSSRS): No'') regs)
                     (cancel (value @ '' is not supported'')))
                  idctrl))
           else idctrl)"

definition nv_setUp :: "'w nv_env \<Rightarrow> string \<Rightarrow> (string \<rightharpoonup> pyval) \<Rightarrow> ('w, nvme_obj) nv" where
  "nv_setUp E test_name params =
     bnd (find_node E (nv_param params ''device'' VNone)) (\<lambda>nvme_node.
     bnd (call ''get_absolute_disk_path'' [nvme_node] (disk_path E nvme_node)) (\<lambda>dev.
     bnd (system E (''ls '' @ dev)) (\<lambda>st.
     sq (whenb (st \<noteq> 0) (cancel (dev @ '' does not exist'')))
    (bnd (install_nvme E (nv_param params ''package'' (VStr ''distro''))) (\<lambda>bin.
     let ns = vstr (nv_param params ''namespace'' (VStr ''1''));
         url = nv_param params ''firmware_url'' (VStr []);
         ob = \<lparr>device = dev, binary = bin, format_size = NInt 4096,
               shared = nv_param params ''shared_namespaces'' (VBool False), id_ns = dev @ ''n'' @ ns,
               firmware_url = url, id_ctrl = []\<rparr>
     in
     bnd (get_block_size E ob) (\<lambda>bs.
     sq (whenb (contains ''firmware_upgrade'' test_name \<and> \<not> truthy url) (cancel ''firmware url not given''))
    (bnd (sysout E (bin @ '' id-ctrl '' @ dev @ '' -H'') False) (\<lambda>idc.
     let ob = ob\<lparr>format_size := bs, id_ctrl := idc\<rparr> in
     sq (for_each nv_features (check_feature E ob test_name)) (ret ob)))))))))"

subsection \<open>Firmware\<close>

definition str_ilist :: "int list \<Rightarrow> string" where
  "str_ilist xs = ''['' @ join '', '' (map str_int xs) @ '']''"

definition str_commits :: "(int \<times> int list) list \<Rightarrow> string" where
  "str_commits d = ''{'' @ join '', '' (map (\<lambda>(k, xs). str_int k @ '': '' @ str_ilist xs) d) @ ''}''"

text \<open>
  One slot: the firmware is downloaded and committed with each of the actions 0, 1 and 2. The pair
  is the actions that passed and those that failed.
\<close>

definition commit_action :: "'w nv_env \<Rightarrow> nvme_obj \<Rightarrow> string \<Rightarrow> int \<Rightarrow> int \<Rightarrow> int list \<times> int list \<Rightarrow>
    ('w, int list \<times> int list) nv" where
  "commit_action E ob path slot action acc =
     (case acc of (passed, failed) \<Rightarrow>
        bnd (system E (binary ob @ '' fw-download '' @ device ob @ '' --fw='' @ path)) (\<lambda>st.
        if st \<noteq> 0 then
          sq (log Error (''FW download failed for slot '' @ str_int slot @ '' action '' @ str_int action))
             (ret (passed, failed @ [action]))
        else
          bnd (system E (binary ob @ '' fw-commit '' @ device ob @ '' -s '' @ str_int slot @ '' -a '' @
                         str_int action)) (\<lambda>st.
          if st \<noteq> 0 then
            sq (log Error (''FW commit failed for slot '' @ str_int slot @ '' action '' @ str_int action))
               (ret (passed, failed @ [action]))
          else ret (passed @ [action], failed))))"

definition commit_activate_no_reset :: int where
  "commit_activate_no_reset = 3"

type_synonym commits = "(int \<times> int list) list"

definition commit_slot :: "'w nv_env \<Rightarrow> nvme_obj \<Rightarrow> string \<Rightarrow> int \<Rightarrow> commits \<times> commits \<Rightarrow>
    ('w, commits \<times> commits) nv" where
  "commit_slot E ob path slot acc =
     (if \<not> firmware_slot_write_supported ob slot then
        sq (log Info (''Slot '' @ str_int slot @ '' is read-only, skipping'')) (ret acc)
      else
        bnd (for_acc (py_range3 0 commit_activate_no_reset 1) (commit_action E ob path slot) ([], []))
          (\<lambda>(passed, failed).
        case acc of (ps, fs) \<Rightarrow>
          ret (if passed \<noteq> [] then ps @ [(slot, passed)] else ps,
               if failed \<noteq> [] then fs @ [(slot, failed)] else fs)))"

definition reset_needed :: "commits \<Rightarrow> bool" where
  "reset_needed ps = (\<exists>p \<in> set ps. commit_activate_no_reset \<notin> set (snd p))"

definition test_firmware_upgrade :: "'w nv_env \<Rightarrow> nvme_obj \<Rightarrow> ('w, unit) nv" where
  "test_firmware_upgrade E ob =
     bnd (lift (case firmware_url ob of VStr s \<Rightarrow> Inr s | _ \<Rightarrow> Inl AttributeError)) (\<lambda>url.
     let fw_file = last (split_on (CHR ''/'') url);
         fw_version = hd (split_on (CHR ''.'') fw_file)
     in
     bnd (call ''download.get_file'' [url, fw_file] (get_file E url fw_file)) (\<lambda>path.
     bnd (lift (get_firmware_version ob)) (\<lambda>current_fw.
     sq (log Info (''Current FW: '' @ current_fw))
    (sq (get_firmware_log E ob)
    (bnd (lift (get_firmware_slots ob)) (\<lambda>n.
     bnd (for_acc (py_range3 1 (n + 1) 1) (commit_slot E ob path) ([], [])) (\<lambda>(passed, failed).
     sq (whenb (reset_needed passed)
           (sq (log Info ''Performing controller reset to activate firmware'')
           (bnd (reset_controller_sysfs E ob) (\<lambda>st.
            whenb (st \<noteq> 0) (fail ''Controller reset after FW update failed'')))))
    (sq (whenb (failed \<noteq> [])
           (sq (log Error (''Passed commits: '' @ str_commits passed))
           (sq (log Error (''Failed commits: '' @ str_commits failed))
               (fail (''Firmware commit failed for slots/actions: '' @ str_commits failed)))))
    (sq (get_firmware_log E ob)
    (bnd (lift (get_firmware_version ob)) (\<lambda>new_fw.
     if fw_version \<noteq> new_fw then
       log Warning (''Firmware version mismatch: expected '' @ fw_version @ '', got '' @ new_fw)
     else
       log Info (''Firmware successfully updated from '' @ current_fw @ '' to '' @ new_fw))))))))))))"

subsection \<open>The other tests\<close>

definition test_create_max_ns :: "'w nv_env \<Rightarrow> nvme_obj \<Rightarrow> ('w, unit) nv" where
  "test_create_max_ns E ob =
     sq (delete_all_ns E ob) (sq (create_max_ns E ob) (sq (list_ns E ob) (ret ())))"

definition test_create_full_capacity_ns :: "'w nv_env \<Rightarrow> nvme_obj \<Rightarrow> ('w, unit) nv" where
  "test_create_full_capacity_ns E ob =
    (let d = device_name ob in
     sq (call ''nvme.delete_all_ns'' [d] (lib_delete_all_ns E d))
        (call ''nvme.create_full_capacity_ns'' [d] (lib_create_full E d (shared ob))))"

definition testformatnamespace :: "'w nv_env \<Rightarrow> nvme_obj \<Rightarrow> ('w, unit) nv" where
  "testformatnamespace E ob =
     bnd (get_lba E ob) (\<lambda>lba.
     let cmd = binary ob @ '' format '' @ id_ns ob @ '' -l '' @ vstr lba in
     sq (call ''run'' [cmd] (nv_run E cmd)) (ret ()))"

text \<open>A command whose exit status decides on the test.\<close>

definition status_test :: "'w nv_env \<Rightarrow> string \<Rightarrow> string \<Rightarrow> ('w, unit) nv" where
  "status_test E cmd msg = bnd (system E cmd) (\<lambda>st. whenb (st \<noteq> 0) (fail msg))"

definition size_d :: "nvme_obj \<Rightarrow> string" where
  "size_d ob = str_int (py_trunc (exact (format_size ob)))"

definition testread :: "'w nv_env \<Rightarrow> nvme_obj \<Rightarrow> ('w, unit) nv" where
  "testread E ob = status_test E (binary ob @ '' read '' @ id_ns ob @ '' -z '' @ size_d ob @ '' -t'') ''Read failed''"

definition testwrite :: "'w nv_env \<Rightarrow> nvme_obj \<Rightarrow> ('w, unit) nv" where
  "testwrite E ob =
     status_test E (''echo 1|'' @ binary ob @ '' write '' @ id_ns ob @ '' -z '' @ size_d ob @ '' -t'') ''Write failed''"

definition testcompare :: "'w nv_env \<Rightarrow> nvme_obj \<Rightarrow> ('w, unit) nv" where
  "testcompare E ob =
     sq (testwrite E ob)
        (status_test E (''echo 1|'' @ binary ob @ '' compare '' @ id_ns ob @ '' -z '' @ size_d ob) ''Compare failed'')"

definition testflush :: "'w nv_env \<Rightarrow> nvme_obj \<Rightarrow> ('w, unit) nv" where
  "testflush E ob = status_test E (binary ob @ '' flush '' @ id_ns ob) ''Flush failed''"

definition testwritezeroes :: "'w nv_env \<Rightarrow> nvme_obj \<Rightarrow> ('w, unit) nv" where
  "testwritezeroes E ob = status_test E (binary ob @ '' write-zeroes '' @ id_ns ob) ''Writing Zeroes failed''"

definition testwriteuncorrectable :: "'w nv_env \<Rightarrow> nvme_obj \<Rightarrow> ('w, unit) nv" where
  "testwriteuncorrectable E ob =
     status_test E (binary ob @ '' write-uncor '' @ id_ns ob) ''Writing Uncorrectable failed''"

definition testdsm :: "'w nv_env \<Rightarrow> nvme_obj \<Rightarrow> ('w, unit) nv" where
  "testdsm E ob =
     status_test E (binary ob @ '' dsm '' @ id_ns ob @ '' -a 1 -b 1 -s 1 -d -w -r'') ''Subsystem reset failed''"

definition testreset :: "'w nv_env \<Rightarrow> nvme_obj \<Rightarrow> ('w, unit) nv" where
  "testreset E ob = status_test E (binary ob @ '' reset '' @ device ob) ''Reset failed''"

definition testreset_sysfs :: "'w nv_env \<Rightarrow> nvme_obj \<Rightarrow> ('w, unit) nv" where
  "testreset_sysfs E ob = bnd (reset_controller_sysfs E ob) (\<lambda>st. whenb (st \<noteq> 0) (fail ''Reset failed''))"

definition testsubsystemreset :: "'w nv_env \<Rightarrow> nvme_obj \<Rightarrow> ('w, unit) nv" where
  "testsubsystemreset E ob =
     status_test E (binary ob @ '' subsystem-reset '' @ device ob) ''Subsystem reset failed''"

definition test_create_namespaces :: "'w nv_env \<Rightarrow> nvme_obj \<Rightarrow> (string \<rightharpoonup> pyval) \<Rightarrow> ('w, unit) nv" where
  "test_create_namespaces E ob params =
     call ''nvme.create_namespaces'' [device_name ob]
       (lib_create_namespaces E (device_name ob) (nv_param params ''namespace_count'' (VInt 1)) (shared ob))"

definition test_delete_all_ns :: "'w nv_env \<Rightarrow> nvme_obj \<Rightarrow> ('w, unit) nv" where
  "test_delete_all_ns E ob =
     call ''nvme.delete_all_ns'' [device_name ob] (lib_delete_all_ns E (device_name ob))"

subsection \<open>The list of namespaces\<close>

text \<open>A line of \<^verbatim>\<open>nvme list-ns\<close> for the namespace with the given id at the given index.\<close>

definition ns_line :: "int \<times> int \<Rightarrow> string" where
  "ns_line p = ''['' @ replicate (4 - length (str_int (fst p))) (CHR '' '') @ str_int (fst p) @ '']:0x'' @
     hex_digits (snd p)"

lemma split_ws_acc_spaces: "split_ws_acc [] (replicate n (CHR '' '') @ s) = split_ws_acc [] s"
  by (induction n) (auto simp: is_space_def)

lemma split_ws_acc_append:
  "(\<And>c. c \<in> set s \<Longrightarrow> \<not> is_space c) \<Longrightarrow> split_ws_acc w (s @ r) = split_ws_acc (rev s @ w) r"
  by (induction s arbitrary: w) auto

lemma hex_digit_not_space: "0 \<le> d \<Longrightarrow> d < 16 \<Longrightarrow> \<not> is_space (hex_digit d)"
proof -
  assume "0 \<le> d" "d < 16"
  then have "(of_char (hex_digit d) :: int) \<ge> 48"
    by (auto simp: hex_digit_def digit_char_def)
  then have "48 \<le> (of_char (hex_digit d) :: nat)"
    by (metis of_nat_of_char of_nat_le_iff of_nat_numeral)
  then show ?thesis by (auto simp: is_space_def)
qed

lemma hex_digits_no_space: "0 \<le> n \<Longrightarrow> c \<in> set (hex_digits n) \<Longrightarrow> \<not> is_space c"
proof (induction n rule: hex_digits.induct)
  case (1 n)
  show ?case
  proof (cases "n < 16")
    case True
    with 1 show ?thesis by (subst (asm) (2) hex_digits.simps) (auto simp: hex_digit_not_space)
  next
    case False
    with "1.prems" have "c \<in> set (hex_digits (n div 16)) \<or> c = hex_digit (n mod 16)"
      by (subst (asm) hex_digits.simps) auto
    moreover have "0 \<le> n div 16" using False by simp
    ultimately show ?thesis using "1.IH" False by (auto simp: hex_digit_not_space)
  qed
qed

lemma length_str_int_3:
  assumes "0 \<le> i" "i < 1000"
  shows "length (str_int i) < 4"
proof -
  have "\<forall>i \<in> set [0..999]. length (str_int i) < 4" by code_simp
  with assms show ?thesis by simp
qed

lemma ns_of_ns_line:
  assumes "0 \<le> i" "i < 1000" "0 \<le> n"
  shows "ns_of_line (ns_line (i, n)) = Inr (i + 1)"
proof -
  define k where "k = 3 - length (str_int i)"
  have k: "4 - length (str_int i) = Suc k"
    using length_str_int_3[OF assms(1,2)] by (simp add: k_def)
  let ?w = "str_int i @ '']:0x'' @ hex_digits n"
  have ns: "\<not> is_space c" if "c \<in> set ?w" for c
    using that str_int_no_space[of c i] hex_digits_no_space[OF assms(3), of c] by (auto simp: is_space_def)
  have "split_ws (ns_line (i, n)) = [''['', ?w]"
    using split_ws_acc_append[of ?w "[]" "[]"] ns
    by (simp add: ns_line_def k split_ws_def split_ws_acc_spaces) (simp add: is_space_def split_ws_acc_spaces)
  moreover have nd: "\<not> is_digit CHR '']''" by code_simp
  have "CHR '']'' \<notin> set (str_int i)"
    using str_digits_chars[OF assms(1)] nd assms(1) by (auto simp: str_int_def)
  then have "split_on (CHR '']'') (str_int i @ CHR '']'' # '':0x'' @ hex_digits n) =
      str_int i # split_on (CHR '']'') ('':0x'' @ hex_digits n)"
    by (rule split_on_append)
  ultimately show ?thesis by (simp add: ns_of_line_def py_nth_def)
qed

text \<open>
  The ids that \<^verbatim>\<open>ns_list\<close> reads: for the output of \<^verbatim>\<open>nvme list-ns\<close> it returns the index of
  every line plus one and never looks at the namespace id behind the colon. The two agree only when
  the ids are consecutive from 1, so \<^verbatim>\<open>delete_all_ns\<close> addresses other namespaces otherwise.
\<close>

theorem ns_list_returns_index:
  assumes "\<And>i n. (i, n) \<in> set ps \<Longrightarrow> 0 \<le> i \<and> i < 1000 \<and> 0 \<le> n"
  shows "parse_ns_list (map ns_line ps) = Inr (map (\<lambda>(i, n). i + 1) ps)"
proof -
  have "startswith (ns_line p) ''[''" for p by (simp add: ns_line_def startswith_def)
  then have "filter (\<lambda>line. startswith line ''['') (map ns_line ps) = map ns_line ps" by (simp add: filter_map o_def)
  moreover have "mapM_r ns_of_line (map ns_line ps) = Inr (map (\<lambda>(i, n). i + 1) ps)"
    using assms
  proof (induction ps)
    case (Cons p ps)
    obtain i n where p: "p = (i, n)" by (cases p)
    with Cons.prems[of i n] have "ns_of_line (ns_line p) = Inr (i + 1)" by (simp add: ns_of_ns_line)
    moreover have "mapM_r ns_of_line (map ns_line ps) = Inr (map (\<lambda>(i, n). i + 1) ps)"
      by (rule Cons.IH) (use Cons.prems in auto)
    ultimately show ?case using p by simp
  qed simp
  ultimately show ?thesis by (simp add: parse_ns_list_def)
qed

theorem ns_list_returns_index_witness:
  "parse_ns_list (map ns_line [(0, 2), (1 :: int, 7 :: int)]) = Inr (map (\<lambda>(i, n). i + 1) [(0, 2), (1 :: int, 7 :: int)])"
  by (rule ns_list_returns_index) auto

subsection \<open>The size of the namespaces\<close>

definition usable_blocks :: "int \<Rightarrow> rat" where
  "usable_blocks b = fl (of_int (60 * b) / 100)"

lemma usable_blocks_bounds:
  assumes "0 \<le> b" "b \<le> 2 ^ 50"
  shows "0 \<le> usable_blocks b" "usable_blocks b \<le> of_int b"
proof -
  have "(0::rat) \<le> of_int b" using assms(1) by simp
  then show "0 \<le> usable_blocks b" unfolding usable_blocks_def by (intro fl_nonneg) simp
  have "fl (of_int b) = (of_int b :: rat)" using assms by (intro fl_of_int) simp
  with \<open>(0::rat) \<le> of_int b\<close> show "usable_blocks b \<le> of_int b"
    unfolding usable_blocks_def by (intro fl_le_float) (simp_all add: is_float_def)
qed

text \<open>
  The size of equal namespaces: for a capacity of at most 2 ^ 50 blocks and a positive number
  of namespaces the computed size is a whole number, the namespaces together fit into 60 per cent
  of the blocks (as a float) and so into the capacity, and one more block each would not fit into
  the 60 per cent.
\<close>

theorem max_ns_sizes:
  assumes "0 \<le> b" "b \<le> 2 ^ 50" "0 < n" "n \<le> 2 ^ 50"
  shows "\<exists>k. per_ns_blocks (NInt b) n = Inr (NFloat (of_int k)) \<and> 0 \<le> k \<and> k * n \<le> b \<and>
           of_int (k * n) \<le> usable_blocks b \<and> usable_blocks b < of_int ((k + 1) * n)"
proof -
  let ?x = "usable_blocks b" let ?k = "\<lfloor>usable_blocks b / of_int n\<rfloor>"
  note x = usable_blocks_bounds[OF assms(1,2)]
  have n: "(0::rat) < of_int n" "fl (of_int n) = (of_int n :: rat)" using assms(3,4) by (simp_all add: fl_of_int)
  have "(of_int b :: rat) \<le> of_int (2 ^ 50)" using assms(2) by (simp only: of_int_le_iff)
  with x(2) have x52: "?x \<le> 2 ^ 52" by simp
  have "fl_floordiv ?x (of_int n) = of_int ?k"
    using x(1) x52 assms(3) by (intro fl_floordiv_int) (simp_all add: usable_blocks_def)
  then have p: "per_ns_blocks (NInt b) n = Inr (NFloat (of_int ?k))"
    using assms(3) n(2) by (simp add: per_ns_blocks_def nfloordiv_def usable_blocks_def)
  have k0: "0 \<le> ?k" using x(1) n(1) by simp
  have lo: "of_int (?k * n) \<le> ?x" and hi: "?x < of_int ((?k + 1) * n)"
    using rat_mod_bounds[OF n(1), of ?x] by (simp_all add: rat_mod_def algebra_simps)
  from lo x(2) have "(of_int (?k * n) :: rat) \<le> of_int b" by linarith
  then have "?k * n \<le> b" by (simp only: of_int_le_iff)
  with p k0 lo hi show ?thesis by blast
qed

theorem max_ns_sizes_witness:
  "\<exists>k. per_ns_blocks (NInt 1000000) 32 = Inr (NFloat (of_int k)) \<and> 0 \<le> k \<and> k * 32 \<le> 1000000 \<and>
       of_int (k * 32) \<le> usable_blocks 1000000 \<and> usable_blocks 1000000 < of_int ((k + 1) * 32)"
  by (rule max_ns_sizes) simp_all

subsection \<open>The format of a namespace\<close>

lemma valid_formats_elems:
  "f \<in> set (valid_formats idx fs) \<Longrightarrow>
   \<exists>i < length fs. fmt_index f = idx + int i \<and>
     (\<exists>d > 0. ds (fs ! i) = Some d \<and> block_size f = 2 ^ nat d)"
proof (induction fs arbitrary: idx)
  case (Cons a fs)
  from Cons.prems consider d where "ds a = Some d" "0 < d" "fmt_index f = idx" "block_size f = 2 ^ nat d"
    | "f \<in> set (valid_formats (idx + 1) fs)"
    by (auto simp: Let_def split: if_splits option.splits)
  then show ?case
  proof cases
    case (1 d)
    then show ?thesis by (intro exI[of _ 0]) auto
  next
    case 2
    from Cons.IH[OF this] obtain i where "i < length fs" "fmt_index f = idx + 1 + int i"
      "\<exists>d > 0. ds (fs ! i) = Some d \<and> block_size f = 2 ^ nat d" by blast
    then show ?thesis by (intro exI[of _ "Suc i"]) auto
  qed
qed simp

lemma hd_filter: "filter P xs = y # ys \<Longrightarrow> y \<in> set xs \<and> P y"
  by (drule arg_cong[of _ _ set]) auto

text \<open>
  The format chosen for a new namespace: from a list that is not empty a format of the list
  is chosen. It is one with index 0 when there is one; otherwise it has no metadata if any format
  has none, and then its block size is 512 if possible and else 4096 if possible.
\<close>

theorem pick_format_preference:
  assumes "formats \<noteq> []"
  shows "\<exists>f \<in> set formats. pick_format formats = Some f \<and>
     ((\<exists>g \<in> set formats. fmt_index g = 0) \<longrightarrow> fmt_index f = 0) \<and>
     ((\<forall>g \<in> set formats. fmt_index g \<noteq> 0) \<and> (\<exists>g \<in> set formats. metadata_size g = 0) \<longrightarrow>
        metadata_size f = 0 \<and>
        ((\<exists>g \<in> set formats. metadata_size g = 0 \<and> block_size g = 512) \<longrightarrow> block_size f = 512) \<and>
        ((\<forall>g \<in> set formats. metadata_size g = 0 \<longrightarrow> block_size g \<noteq> 512) \<and>
         (\<exists>g \<in> set formats. metadata_size g = 0 \<and> block_size g = 4096) \<longrightarrow> block_size f = 4096))"
proof (cases "filter (\<lambda>f. fmt_index f = 0) formats")
  case (Cons f fs)
  from hd_filter[OF Cons] show ?thesis
    by (intro bexI[of _ f]) (auto simp: pick_format_def Cons)
next
  case Nil
  let ?plain = "filter (\<lambda>f. metadata_size f = 0) formats"
  let ?all = "filter (\<lambda>f. block_size f = 512) ?plain @ filter (\<lambda>f. block_size f = 4096) ?plain @ ?plain @ formats"
  have no0: "\<forall>g \<in> set formats. fmt_index g \<noteq> 0" using Nil by (auto simp: filter_empty_conv)
  have pick: "pick_format formats = Some (hd ?all)"
    using Nil assms by (auto simp: pick_format_def Let_def split: list.split)
  have "?all \<noteq> []" using assms by simp
  then have "hd ?all \<in> set ?all" by (rule hd_in_set)
  then have inl: "hd ?all \<in> set formats" by auto
  have h1: "block_size (hd ?all) = 512 \<and> metadata_size (hd ?all) = 0" if "filter (\<lambda>f. block_size f = 512) ?plain \<noteq> []"
    using hd_in_set[OF that] that by auto
  have h2: "block_size (hd ?all) = 4096 \<and> metadata_size (hd ?all) = 0"
    if "filter (\<lambda>f. block_size f = 512) ?plain = []" "filter (\<lambda>f. block_size f = 4096) ?plain \<noteq> []"
    using hd_in_set[OF that(2)] that by auto
  have h3: "metadata_size (hd ?all) = 0"
    if "filter (\<lambda>f. block_size f = 512) ?plain = []" "filter (\<lambda>f. block_size f = 4096) ?plain = []" "?plain \<noteq> []"
    using hd_in_set[OF that(3)] that by auto
  show ?thesis
  proof (intro bexI[of _ "hd ?all"] conjI impI pick inl)
    show "fmt_index (hd ?all) = 0" if "\<exists>g \<in> set formats. fmt_index g = 0" using that no0 by blast
    show "metadata_size (hd ?all) = 0"
      if "(\<forall>g \<in> set formats. fmt_index g \<noteq> 0) \<and> (\<exists>g \<in> set formats. metadata_size g = 0)"
      using that h1 h2 h3 by (metis (mono_tags, lifting) filter_empty_conv)
    show "block_size (hd ?all) = 512" if "\<exists>g \<in> set formats. metadata_size g = 0 \<and> block_size g = 512"
      using that h1 by (auto simp: filter_empty_conv)
    show "block_size (hd ?all) = 4096"
      if "(\<forall>g \<in> set formats. metadata_size g = 0 \<longrightarrow> block_size g \<noteq> 512) \<and>
          (\<exists>g \<in> set formats. metadata_size g = 0 \<and> block_size g = 4096)"
      using that h2 by (auto simp: filter_empty_conv)
  qed
qed

theorem pick_format_preference_witness:
  "\<exists>f \<in> set (tl assumed_formats). pick_format (tl assumed_formats) = Some f \<and>
     ((\<exists>g \<in> set (tl assumed_formats). fmt_index g = 0) \<longrightarrow> fmt_index f = 0) \<and>
     ((\<forall>g \<in> set (tl assumed_formats). fmt_index g \<noteq> 0) \<and> (\<exists>g \<in> set (tl assumed_formats). metadata_size g = 0) \<longrightarrow>
        metadata_size f = 0 \<and>
        ((\<exists>g \<in> set (tl assumed_formats). metadata_size g = 0 \<and> block_size g = 512) \<longrightarrow> block_size f = 512) \<and>
        ((\<forall>g \<in> set (tl assumed_formats). metadata_size g = 0 \<longrightarrow> block_size g \<noteq> 512) \<and>
         (\<exists>g \<in> set (tl assumed_formats). metadata_size g = 0 \<and> block_size g = 4096) \<longrightarrow> block_size f = 4096))"
  by (rule pick_format_preference) (simp add: assumed_formats_def)

subsection \<open>Firmware commits\<close>

text \<open>
  What the command runner answered: \<open>answered E cas w v\<close> says that the commands of \<open>cas\<close>, one after the other, gave the
  answers next to them and took the system from \<open>w\<close> to \<open>v\<close>. A try of an action is the answer of the download and that
  of the commit, of which the second is there only when the first is 0.
\<close>

fun answered :: "'w nv_env \<Rightarrow> (string \<times> int) list \<Rightarrow> 'w \<Rightarrow> 'w \<Rightarrow> bool" where
  "answered E [] w v \<longleftrightarrow> v = w"
| "answered E ((cmd, a) # cas) w v \<longleftrightarrow> (\<exists>u. nv_system E cmd w = (Inr a, u) \<and> answered E cas u v)"

definition try_commands :: "nvme_obj \<Rightarrow> string \<Rightarrow> int \<Rightarrow> int \<times> (int \<times> int) \<Rightarrow> (string \<times> int) list" where
  "try_commands ob path slot = (\<lambda>(action, (d, c)).
     (binary ob @ '' fw-download '' @ device ob @ '' --fw='' @ path, d) #
     (if d = 0 then [(binary ob @ '' fw-commit '' @ device ob @ '' -s '' @ str_int slot @ '' -a '' @ str_int action, c)] else []))"

definition passed_try :: "int \<times> (int \<times> int) \<Rightarrow> bool" where
  "passed_try = (\<lambda>(action, (d, c)). d = 0 \<and> c = 0)"

text \<open>The tries of a slot, and what is recorded for the slots whose tries satisfy \<open>P\<close>.\<close>

definition recorded :: "(int \<times> (int \<times> int) \<Rightarrow> bool) \<Rightarrow> (int \<times> (int \<times> (int \<times> int)) list) list \<Rightarrow> commits" where
  "recorded P runs = filter (\<lambda>p. snd p \<noteq> []) (map (\<lambda>(slot, tries). (slot, map fst (filter P tries))) runs)"

lemma recorded_snoc [simp]:
  "recorded P [] = []"
  "recorded P (runs @ [(slot, tries)]) =
     recorded P runs @ (if map fst (filter P tries) = [] then [] else [(slot, map fst (filter P tries))])"
  by (simp_all add: recorded_def)

lemma answered_append: "answered E (cas @ das) w v \<longleftrightarrow> (\<exists>u. answered E cas w u \<and> answered E das u v)"
  by (induction cas arbitrary: w) (simp, (simp only: append_Cons answered.simps split_paired_all)+, blast)

lemma actions_range: "py_range3 0 commit_activate_no_reset 1 = [0, 1, 2]"
  by code_simp

abbreviation runner_raised :: "'w nv_env \<Rightarrow> exn \<Rightarrow> ('w, 'm) st_scheme \<Rightarrow> bool" where
  "runner_raised E e t \<equiv> (\<exists>cmd w. nv_system E cmd w = (Inl e, world t))"

lemma wp_commit_action:
  "wp (commit_action E ob path slot action (p, f))
     (\<lambda>acc t. \<exists>o'. answered E (try_commands ob path slot (action, o')) (world s) (world t) \<and>
        acc = (if passed_try (action, o') then (p @ [action], f) else (p, f @ [action])))
     (runner_raised E) s"
proof (cases "nv_system E (binary ob @ '' fw-download '' @ device ob @ '' --fw='' @ path) (world s)")
  case (Pair r w)
  show ?thesis
  proof (cases r)
    case (Inl e)
    with Pair show ?thesis by (auto simp: commit_action_def system_def wp)
  next
    case (Inr d)
    show ?thesis
    proof (cases "d = 0")
      case False
      then show ?thesis
        using Pair Inr by (auto simp: commit_action_def system_def wp try_commands_def passed_try_def intro!: exI[of _ d])
    next
      case True
      obtain r' v where c: "nv_system E (binary ob @ '' fw-commit '' @ device ob @ '' -s '' @ str_int slot @ '' -a '' @ str_int action) w = (r', v)"
        by fastforce
      then show ?thesis
        using Pair Inr True
        by (cases r') (auto simp: commit_action_def system_def wp try_commands_def passed_try_def split: if_splits
            intro!: exI[of _ "0 :: int"])
    qed
  qed
qed

lemma wp_commit_actions:
  "wp (for_acc xs (commit_action E ob path slot) (p, f))
     (\<lambda>acc t. \<exists>tries. map fst tries = xs \<and> answered E (concat (map (try_commands ob path slot) tries)) (world s) (world t) \<and>
        acc = (p @ map fst (filter passed_try tries), f @ map fst (filter (\<lambda>y. \<not> passed_try y) tries)))
     (runner_raised E) s"
proof (induction xs arbitrary: p f s)
  case Nil
  show ?case by (simp add: wp)
next
  case (Cons x xs)
  show ?case unfolding for_acc.simps
  proof (rule wp_bnd_step[OF wp_commit_action])
    fix acc and t :: "'a st"
    assume "\<exists>o'. answered E (try_commands ob path slot (x, o')) (world s) (world t) \<and>
      acc = (if passed_try (x, o') then (p @ [x], f) else (p, f @ [x]))"
    then obtain o' where o': "answered E (try_commands ob path slot (x, o')) (world s) (world t)"
      "acc = (if passed_try (x, o') then (p @ [x], f) else (p, f @ [x]))" by blast
    obtain p' f' where acc: "acc = (p', f')" by (cases acc)
    show "wp (for_acc xs (commit_action E ob path slot) acc)
      (\<lambda>acc t. \<exists>tries. map fst tries = x # xs \<and> answered E (concat (map (try_commands ob path slot) tries)) (world s) (world t) \<and>
        acc = (p @ map fst (filter passed_try tries), f @ map fst (filter (\<lambda>y. \<not> passed_try y) tries)))
      (runner_raised E) t"
      unfolding acc
    proof (rule wp_conseq[OF Cons.IH])
      fix a and u :: "'a st"
      assume "\<exists>tries. map fst tries = xs \<and> answered E (concat (map (try_commands ob path slot) tries)) (world t) (world u) \<and>
        a = (p' @ map fst (filter passed_try tries), f' @ map fst (filter (\<lambda>y. \<not> passed_try y) tries))"
      then obtain tries where "map fst tries = xs" "answered E (concat (map (try_commands ob path slot) tries)) (world t) (world u)"
        "a = (p' @ map fst (filter passed_try tries), f' @ map fst (filter (\<lambda>y. \<not> passed_try y) tries))" by blast
      with o' acc show "\<exists>tries. map fst tries = x # xs \<and> answered E (concat (map (try_commands ob path slot) tries)) (world s) (world u) \<and>
        a = (p @ map fst (filter passed_try tries), f @ map fst (filter (\<lambda>y. \<not> passed_try y) tries))"
        by (intro exI[of _ "(x, o') # tries"]) (auto simp: answered_append split: if_splits)
    qed
  qed simp
qed

text \<open>All slots: the writable ones, each with a try of every action.\<close>

definition commit_run :: "'w nv_env \<Rightarrow> nvme_obj \<Rightarrow> string \<Rightarrow> int list \<Rightarrow> (int \<times> (int \<times> (int \<times> int)) list) list \<Rightarrow>
    'w \<Rightarrow> 'w \<Rightarrow> bool" where
  "commit_run E ob path slots runs w v \<longleftrightarrow>
     map (\<lambda>(slot, tries). (slot, map fst tries)) runs = map (\<lambda>slot. (slot, [0, 1, 2])) (filter (firmware_slot_write_supported ob) slots) \<and>
     answered E (concat (map (\<lambda>(slot, tries). concat (map (try_commands ob path slot) tries)) runs)) w v"

lemma wp_commit_slots:
  "wp (for_acc slots (commit_slot E ob path) ([], []))
     (\<lambda>acc t. \<exists>runs. commit_run E ob path slots runs (world s) (world t) \<and>
        acc = (recorded passed_try runs, recorded (\<lambda>y. \<not> passed_try y) runs)) (runner_raised E) s"
proof (rule wp_for_acc[where I = "\<lambda>ys acc t. \<exists>runs. commit_run E ob path ys runs (world s) (world t) \<and>
        acc = (recorded passed_try runs, recorded (\<lambda>y. \<not> passed_try y) runs)"])
  show "\<exists>runs. commit_run E ob path [] runs (world s) (world s) \<and>
      ([], []) = (recorded passed_try runs, recorded (\<lambda>y. \<not> passed_try y) runs)"
    by (intro exI[of _ "[]"]) (simp add: commit_run_def)
next
  fix ys slot acc and t :: "'a st"
  assume "\<exists>runs. commit_run E ob path ys runs (world s) (world t) \<and>
      acc = (recorded passed_try runs, recorded (\<lambda>y. \<not> passed_try y) runs)"
  then obtain runs where runs: "commit_run E ob path ys runs (world s) (world t)"
    "acc = (recorded passed_try runs, recorded (\<lambda>y. \<not> passed_try y) runs)" by blast
  let ?Q = "\<lambda>acc u. \<exists>runs. commit_run E ob path (ys @ [slot]) runs (world s) (world u) \<and>
      acc = (recorded passed_try runs, recorded (\<lambda>y. \<not> passed_try y) runs)"
  show "wp (commit_slot E ob path slot acc) ?Q (runner_raised E) t"
  proof (cases "firmware_slot_write_supported ob slot")
    case False
    with runs show ?thesis by (auto simp: commit_slot_def wp commit_run_def)
  next
    case True
    have "?Q (let (p, f) = pf in case acc of (ps, fs) \<Rightarrow>
          (if p \<noteq> [] then ps @ [(slot, p)] else ps, if f \<noteq> [] then fs @ [(slot, f)] else fs)) u"
      if "\<exists>tries. map fst tries = [0, 1, 2] \<and> answered E (concat (map (try_commands ob path slot) tries)) (world t) (world u) \<and>
        pf = ([] @ map fst (filter passed_try tries), [] @ map fst (filter (\<lambda>y. \<not> passed_try y) tries))" for pf and u :: "'a st"
    proof -
      from that obtain tries where tries: "map fst tries = [0, 1, 2]"
        "answered E (concat (map (try_commands ob path slot) tries)) (world t) (world u)"
        "pf = (map fst (filter passed_try tries), map fst (filter (\<lambda>y. \<not> passed_try y) tries))" by (elim exE conjE) (simp only: append_Nil)
      show ?thesis
        using runs tries True
        by (intro exI[of _ "runs @ [(slot, tries)]"]) (auto simp: commit_run_def answered_append)
    qed
    note step = this
    have "wp (bnd (for_acc [0, 1, 2] (commit_action E ob path slot) ([], [])) (\<lambda>(p, f). case acc of (ps, fs) \<Rightarrow>
        ret (if p \<noteq> [] then ps @ [(slot, p)] else ps, if f \<noteq> [] then fs @ [(slot, f)] else fs))) ?Q (runner_raised E) t"
    proof (rule wp_bnd_step[OF wp_commit_actions])
      fix pf and u :: "'a st"
      assume "\<exists>tries. map fst tries = [0, 1, 2] \<and> answered E (concat (map (try_commands ob path slot) tries)) (world t) (world u) \<and>
        pf = ([] @ map fst (filter passed_try tries), [] @ map fst (filter (\<lambda>y. \<not> passed_try y) tries))"
      from step[OF this] show "wp (case pf of (p, f) \<Rightarrow> case acc of (ps, fs) \<Rightarrow>
        ret (if p \<noteq> [] then ps @ [(slot, p)] else ps, if f \<noteq> [] then fs @ [(slot, f)] else fs)) ?Q (runner_raised E) u"
        by (cases pf; cases acc) (simp only: wp_ret Let_def prod.case)
    qed simp
    then show ?thesis
      unfolding commit_slot_def actions_range using True by (simp only: not_True_eq_False if_False)
  qed
qed

text \<open>
  C31. The firmware loop: whatever the commands return, it sends for every writable slot in turn and every action 0,
  1, 2 a download and, when the download succeeded, a commit of that action, and nothing else; read-only slots
  are not touched. An action is recorded as passed exactly if both commands returned 0, as failed otherwise, in
  order, and a slot is listed only when it has such an action. A controller reset is asked for exactly when some
  commit passed, because action 3, the only one that would make it unnecessary, is never used. The exceptions
  are those of the command runner.
\<close>

theorem firmware_commits:
  "wp (for_acc slots (commit_slot E ob path) ([], []))
     (\<lambda>(ps, fs) t. \<exists>runs. commit_run E ob path slots runs (world s) (world t) \<and> ps = recorded passed_try runs \<and>
        fs = recorded (\<lambda>y. \<not> passed_try y) runs \<and> (reset_needed ps \<longleftrightarrow> ps \<noteq> []))
     (\<lambda>e t. \<exists>cmd w. nv_system E cmd w = (Inl e, world t)) s"
proof -
  have "reset_needed (recorded passed_try runs) \<longleftrightarrow> recorded passed_try runs \<noteq> []"
    if "commit_run E ob path slots runs w v" for runs w v
  proof -
    have "map fst (snd r) = [0, 1, 2]" if "r \<in> set runs" for r
    proof -
      have "(fst r, map fst (snd r)) \<in> set (map (\<lambda>(slot, tries). (slot, map fst tries)) runs)"
        using that by (force simp: split_def)
      then show ?thesis using \<open>commit_run E ob path slots runs w v\<close> unfolding commit_run_def by auto
    qed
    then have "a \<in> {0, 1, 2}" if "r \<in> set runs" "(a, y) \<in> set (snd r)" for r a y
      using that by (metis fst_conv imageI list.set(1,2) list.set_map)
    then have "3 \<notin> set (snd p)" if "p \<in> set (recorded passed_try runs)" for p
      using that by (force simp: recorded_def)
    then show ?thesis
      by (cases "recorded passed_try runs") (auto simp: reset_needed_def commit_activate_no_reset_def)
  qed
  then show ?thesis by (intro wp_conseq[OF wp_commit_slots]) auto
qed

end
