(* ===== verification/Raid.thy ===== *)
theory Raid
  imports Avocado
begin

section \<open>Software RAID (io/disk/softwareraid.py)\<close>

text \<open>
  The test stacks a physical volume, a volume group, a logical volume and a file system on a RAID
  array, runs I/O and takes everything down again; a second test replaces a failed disk. All work
  is done by libraries and commands, the parameter \<open>rd_env\<close>; what the script decides is the order,
  the guards, and which flags \<^verbatim>\<open>tearDown\<close> relies on. The attributes of the object are part of the
  state, because \<^verbatim>\<open>tearDown\<close> runs after an early end as well.
\<close>

subsection \<open>External operations and state\<close>

record sraid =
  sr_name :: string
  sr_level :: string
  sr_disks :: "string list"
  sr_metadata :: string

text \<open>
  \<open>polls\<close> gives, for each of the callbacks of \<^verbatim>\<open>wait.wait_for\<close>, how often it can run before the
  timeout.
\<close>

record 'w rd_env =
  rd_check :: "string \<Rightarrow> ('w, bool) ext"
  rd_install :: "string \<Rightarrow> ('w, bool) ext"
  rd_distro :: "('w, string \<times> string \<times> string) ext"
  rd_abs_path :: "string \<Rightarrow> ('w, string) ext"
  rd_isdir :: "string \<Rightarrow> ('w, bool) ext"
  rd_makedirs :: "string \<Rightarrow> ('w, unit) ext"
  rd_system :: "string \<Rightarrow> ('w, int) ext"
  rd_run :: "string \<Rightarrow> ('w, cmd_result) ext"
  rd_output :: "string \<Rightarrow> ('w, string) ext"
  disk_mounted :: "string \<Rightarrow> ('w, bool) ext"
  dir_mounted :: "string \<Rightarrow> ('w, bool) ext"
  fs_exists :: "string \<Rightarrow> ('w, bool) ext"
  sr_create :: "sraid \<Rightarrow> ('w, bool) ext"
  sr_stop :: "sraid \<Rightarrow> ('w, bool) ext"
  sr_exists :: "sraid \<Rightarrow> ('w, bool) ext"
  sr_clear :: "sraid \<Rightarrow> ('w, unit) ext"
  vg_create :: "string \<Rightarrow> string \<Rightarrow> ('w, unit) ext"
  vg_check :: "string \<Rightarrow> ('w, bool) ext"
  vg_remove :: "string \<Rightarrow> ('w, unit) ext"
  lv_check :: "string \<Rightarrow> string \<Rightarrow> ('w, bool) ext"
  lv_create :: "string \<Rightarrow> string \<Rightarrow> int \<Rightarrow> ('w, unit) ext"
  lv_remove :: "string \<Rightarrow> string \<Rightarrow> ('w, unit) ext"
  total_space :: "string \<Rightarrow> ('w, int) ext"
  part_unmount :: "string \<times> string \<Rightarrow> ('w, unit) ext"
  part_mkfs :: "string \<times> string \<Rightarrow> string \<Rightarrow> ('w, unit) ext"
  part_mount :: "string \<times> string \<Rightarrow> ('w, unit) ext"
  os_remove :: "string \<Rightarrow> ('w, unit) ext"
  polls :: "string \<Rightarrow> nat"

record 'w rd_st = "'w st" +
  disks :: "string list"
  lv_created :: bool
  fs_mounted :: bool
  fstype :: string
  raidlevel :: string
  spare_disk :: string
  fail_disk :: string
  mount_dir :: string
  backing :: string
  sraid_obj :: "sraid option"
  part_obj :: "(string \<times> string) option"

type_synonym ('w, 'a) rd = "('w rd_st, 'a) py"

definition vgname :: string where "vgname = ''avocado_vg''"
definition lvname :: string where "lvname = ''avocado_lv''"

definition em_dash :: string where "em_dash = [CHR 0xE2, CHR 0x80, CHR 0x94]"

definition rsystem :: "'w rd_env \<Rightarrow> string \<Rightarrow> ('w, unit) rd" where
  "rsystem E cmd = sq (call ''system'' [cmd] (rd_system E cmd)) (ret ())"

definition rrun :: "'w rd_env \<Rightarrow> string \<Rightarrow> ('w, cmd_result) rd" where
  "rrun E cmd = call ''run'' [cmd] (rd_run E cmd)"

definition routput :: "'w rd_env \<Rightarrow> string \<Rightarrow> ('w, string) rd" where
  "routput E cmd = call ''system_output'' [cmd] (rd_output E cmd)"

definition wipe :: "'w rd_env \<Rightarrow> string \<Rightarrow> ('w, unit) rd" where
  "wipe E d = rsystem E (''wipefs -af '' @ d)"

text \<open>The methods of the array; the attribute is missing before \<^verbatim>\<open>setUp\<close> has set it.\<close>

definition on_sraid :: "(sraid \<Rightarrow> ('w, 'a) rd) \<Rightarrow> ('w, 'a) rd" where
  "on_sraid f = bnd (gets sraid_obj) (\<lambda>o'. bnd (lift (attr o')) f)"

definition raid_create :: "'w rd_env \<Rightarrow> ('w, bool) rd" where
  "raid_create E = on_sraid (\<lambda>r. call ''sraid.create'' [] (sr_create E r))"

definition raid_stop :: "'w rd_env \<Rightarrow> ('w, bool) rd" where
  "raid_stop E = on_sraid (\<lambda>r. call ''sraid.stop'' [] (sr_stop E r))"

definition raid_exists :: "'w rd_env \<Rightarrow> ('w, bool) rd" where
  "raid_exists E = on_sraid (\<lambda>r. call ''sraid.exists'' [] (sr_exists E r))"

definition raid_clear :: "'w rd_env \<Rightarrow> ('w, unit) rd" where
  "raid_clear E = on_sraid (\<lambda>r. call ''sraid.clear_superblock'' [] (sr_clear E r))"

definition vg_ok :: "'w rd_env \<Rightarrow> ('w, bool) rd" where
  "vg_ok E = call ''vg_check'' [vgname] (vg_check E vgname)"

definition lv_ok :: "'w rd_env \<Rightarrow> ('w, bool) rd" where
  "lv_ok E = call ''lv_check'' [vgname, lvname] (lv_check E vgname lvname)"

definition remove_vg :: "'w rd_env \<Rightarrow> ('w, unit) rd" where
  "remove_vg E = call ''vg_remove'' [vgname] (vg_remove E vgname)"

definition has_fs :: "'w rd_env \<Rightarrow> string \<Rightarrow> ('w, bool) rd" where
  "has_fs E d = call ''fs_exists'' [d] (fs_exists E d)"

definition is_disk_mounted :: "'w rd_env \<Rightarrow> string \<Rightarrow> ('w, bool) rd" where
  "is_disk_mounted E d = call ''is_disk_mounted'' [d] (disk_mounted E d)"

definition is_dir_mounted :: "'w rd_env \<Rightarrow> string \<Rightarrow> ('w, bool) rd" where
  "is_dir_mounted E d = call ''is_dir_mounted'' [d] (dir_mounted E d)"

subsection \<open>Cleaning up\<close>

definition wipe_fs :: "'w rd_env \<Rightarrow> string \<Rightarrow> ('w, unit) rd" where
  "wipe_fs E dev =
     bnd (gets mount_dir) (\<lambda>dir.
     bnd (is_disk_mounted E dev) (\<lambda>b.
     sq (whenb b (sq (wait_for (polls E ''_unmount_disk'')
           (sq (rsystem E (''umount '' @ dev)) (bnd (is_disk_mounted E dev) (\<lambda>m. ret (\<not> m))))) (ret ())))
    (bnd (is_dir_mounted E dir) (\<lambda>b.
     sq (whenb b (sq (wait_for (polls E ''_unmount_dir'')
           (sq (rsystem E (''umount '' @ dir)) (bnd (is_dir_mounted E dir) (\<lambda>m. ret (\<not> m))))) (ret ())))
    (bnd (has_fs E dev) (\<lambda>b.
     whenb b (sq (wait_for (polls E ''_wipe'')
           (sq (wipe E dev) (bnd (has_fs E dev) (\<lambda>m. ret (\<not> m))))) (ret ()))))))))"

definition do_stop_raid :: "'w rd_env \<Rightarrow> ('w, unit) rd" where
  "do_stop_raid E =
     bnd (gets disks) (\<lambda>ds. bnd (gets backing) (\<lambda>dev.
     bnd (wait_for (polls E ''_stopped'')
            (sq (raid_stop E) (sq (raid_clear E) (sq (for_each ds (wipe E))
            (bnd (raid_exists E) (\<lambda>b. ret (\<not> b))))))) (\<lambda>ok.
     whenb (\<not> ok) (log Warning (''Could not fully stop RAID '' @ dev)))))"

definition do_delete_lvm :: "'w rd_env \<Rightarrow> ('w, unit) rd" where
  "do_delete_lvm E =
     bnd (gets backing) (\<lambda>dev.
     bnd (wait_for (polls E ''_removed'')
           (bnd (lv_ok E) (\<lambda>l.
            sq (whenb l (sq (call ''lv_remove'' [vgname, lvname] (lv_remove E vgname lvname)) (sleep (VInt 2))))
           (bnd (vg_ok E) (\<lambda>v.
            sq (whenb v (remove_vg E)) (bnd (vg_ok E) (\<lambda>v'. ret (\<not> v'))))))))
       (\<lambda>ok.
     sq (whenb (\<not> ok) (log Warning (''VG '' @ vgname @ '' removal timed out'')))
    (sq (log Info (''Removing PV label from '' @ dev))
    (sq (rsystem E (''pvremove -ff '' @ dev))
    (bnd (routput E (''blkid -o value -s TYPE '' @ dev)) (\<lambda>out.
     whenb (strip out = ''LVM2_member'') (wipe E dev)))))))"

definition delete_lvm :: "'w rd_env \<Rightarrow> ('w, unit) rd" where
  "delete_lvm E =
     bnd (gets backing) (\<lambda>dev.
     sq (log Info (''Removing LV '' @ quoted lvname @ '', VG '' @ quoted vgname @ '', PV on '' @ dev))
    (sq (do_delete_lvm E) (modify (\<lambda>s. s\<lparr>lv_created := False\<rparr>))))"

definition pre_cleanup :: "'w rd_env \<Rightarrow> ('w, unit) rd" where
  "pre_cleanup E =
     sq (log Info ''Pre-cleaning leftover LVM/RAID state ...'')
    (bnd (gets backing) (\<lambda>dev. bnd (gets disks) (\<lambda>ds.
     sq (for_each ([''/dev/mapper/'' @ vgname @ ''-'' @ lvname, dev] @ ds) (wipe_fs E))
    (bnd (lv_ok E) (\<lambda>l.
     sq (if l then sq (log Info (''Found existing LV '' @ em_dash @ '' removing it'')) (do_delete_lvm E)
         else bnd (vg_ok E) (\<lambda>v.
              whenb v (sq (log Info (''Found existing VG '' @ em_dash @ '' removing it'')) (remove_vg E))))
    (bnd (raid_exists E) (\<lambda>r.
     sq (whenb r (sq (log Info (''Found existing RAID '' @ em_dash @ '' stopping it'')) (do_stop_raid E)))
        (log Info ''Pre-cleanup done''))))))))"

subsection \<open>setUp\<close>

text \<open>
  The parameters come from a YAML file. A method of strings on another value raises
  \<^verbatim>\<open>AttributeError\<close>; the name of the array and the mount point are used through their text.
\<close>

definition rd_param :: "(string \<rightharpoonup> pyval) \<Rightarrow> string \<Rightarrow> pyval \<Rightarrow> pyval" where
  "rd_param params k d = (case params k of None \<Rightarrow> d | Some v \<Rightarrow> v)"

definition text_of :: "pyval \<Rightarrow> string result" where
  "text_of v = (case v of VStr s \<Rightarrow> Inr s | _ \<Rightarrow> Inl AttributeError)"

definition fs_packages :: "string \<Rightarrow> string \<times> string \<times> string \<Rightarrow> string list result" where
  "fs_packages fs d =
     (case d of (name, version, release) \<Rightarrow>
        if fs = ''xfs'' then Inr [''mdadm'', ''lvm2'', ''xfsprogs'']
        else if fs = ''btrfs'' then
          rbind (py_int (if name = ''Ubuntu'' then hd (split_on (CHR ''.'') version) else version)) (\<lambda>ver.
          rbind (py_int release) (\<lambda>rel.
          if name = ''rhel'' \<and> (ver = 7 \<and> rel \<ge> 4 \<or> ver > 7) then
            Inl (TestCancel ''btrfs is not supported with RHEL 7.4 onwards'')
          else Inr [''mdadm'', ''lvm2'', if name = ''SuSE'' then ''btrfsprogs'' else ''btrfs-progs'']))
        else Inr [''mdadm'', ''lvm2''])"

definition install_pkg :: "'w rd_env \<Rightarrow> string \<Rightarrow> ('w, unit) rd" where
  "install_pkg E pkg =
     bnd (call ''check_installed'' [pkg] (rd_check E pkg)) (\<lambda>b.
     if b then ret ()
     else bnd (call ''install'' [pkg] (rd_install E pkg)) (\<lambda>b'.
          whenb (\<not> b') (cancel (''Package '' @ pkg @ '' could not be installed''))))"

definition abs_path :: "'w rd_env \<Rightarrow> string \<Rightarrow> ('w, string) rd" where
  "abs_path E d = call ''get_absolute_disk_path'' [d] (rd_abs_path E d)"

text \<open>An optional disk: the empty string stands for none.\<close>

definition optional_disk :: "'w rd_env \<Rightarrow> pyval \<Rightarrow> ('w, string) rd" where
  "optional_disk E v =
     (if truthy v then bnd (lift (text_of v)) (\<lambda>t. abs_path E (strip t)) else ret [])"

definition rd_setUp :: "'w rd_env \<Rightarrow> (string \<rightharpoonup> pyval) \<Rightarrow> ('w, unit) rd" where
  "rd_setUp E params =
     sq (modify (\<lambda>s. s\<lparr>disks := [], lv_created := False, fs_mounted := False\<rparr>))
    (bnd (call ''distro.detect'' [] (rd_distro E)) (\<lambda>d.
     bnd (lift (text_of (rd_param params ''fs'' (VStr ''ext4'')))) (\<lambda>fs.
     sq (modify (\<lambda>s. s\<lparr>fstype := lower fs\<rparr>))
    (bnd (lift (fs_packages (lower fs) d)) (\<lambda>pkgs.
     sq (for_each pkgs (install_pkg E))
    (bnd (lift (text_of (rd_param params ''disks'' (VStr [])))) (\<lambda>raw.
     let disks_raw = split_ws (strip raw) in
     sq (whenb (disks_raw = [])
           (cancel (''No disks given '' @ em_dash @ '' set \"disks:\" in the yaml file'')))
    (sq (for_each disks_raw (\<lambda>dev. bnd (abs_path E dev) (\<lambda>p. modify (\<lambda>s. s\<lparr>disks := disks s @ [p]\<rparr>))))
    (let required = rd_param params ''required_disks'' (VInt 1);
         level = vstr (rd_param params ''raid'' (VStr ''0''))
     in
     sq (modify (\<lambda>s. s\<lparr>raidlevel := level\<rparr>))
    (bnd (gets disks) (\<lambda>ds.
     bnd (lift (vle_int required (int (length ds)))) (\<lambda>enough.
     sq (whenb (\<not> enough)
           (bnd (lift (fmt_d required)) (\<lambda>n.
            cancel (''Minimum '' @ n @ '' disks required for raid'' @ level))))
    (sq (modify (\<lambda>s. s\<lparr>spare_disk := []\<rparr>))
    (bnd (optional_disk E (rd_param params ''spare_disk'' (VStr []))) (\<lambda>sp.
     sq (modify (\<lambda>s. s\<lparr>spare_disk := sp, fail_disk := []\<rparr>))
    (bnd (optional_disk E (rd_param params ''fail_disk'' (VStr []))) (\<lambda>fd.
     let raidname = vstr (rd_param params ''raidname'' (VStr ''/dev/md/sraid''));
         metadata = vstr (rd_param params ''metadata'' (VStr ''1.2''));
         dir = vstr (rd_param params ''mount_dir'' (VStr ''/mnt''))
     in
     sq (modify (\<lambda>s. s\<lparr>fail_disk := fd, mount_dir := dir, backing := raidname,
           sraid_obj := Some \<lparr>sr_name = raidname, sr_level = level, sr_disks = ds, sr_metadata = metadata\<rparr>\<rparr>))
    (bnd (call ''isdir'' [dir] (rd_isdir E dir)) (\<lambda>isdir.
     sq (whenb (\<not> isdir) (call ''makedirs'' [dir] (rd_makedirs E dir)))
        (pre_cleanup E))))))))))))))))))))"

subsection \<open>The stack on top of the array\<close>

text \<open>
  \<^verbatim>\<open>int(total_mb * 45 / 100) or 512\<close>, where \<^verbatim>\<open>total_mb\<close> is the float quotient of the
  size in bytes and a mebibyte.
\<close>

definition lv_size_mb :: "int \<Rightarrow> int" where
  "lv_size_mb bytes =
     (let total_mb = fl (of_int bytes / 1048576);
          n = py_trunc (fl_div (fl_mul total_mb 45) 100)
      in if n \<noteq> 0 then n else 512)"

definition lv_path :: string where
  "lv_path = ''/dev/'' @ vgname @ ''/'' @ lvname"

definition create_lvm :: "'w rd_env \<Rightarrow> string \<Rightarrow> ('w, string) rd" where
  "create_lvm E dev =
     sq (log Info (''Creating PV on '' @ dev))
    (bnd (rrun E (''pvcreate -f '' @ dev)) (\<lambda>r.
     sq (whenb (exit_status r \<noteq> 0) (fail (''pvcreate failed on '' @ dev @ '': '' @ stderr_text r)))
    (sq (log Info (''Creating VG '' @ quoted vgname @ '' on '' @ dev))
    (sq (call ''vg_create'' [vgname, dev] (vg_create E vgname dev))
    (bnd (vg_ok E) (\<lambda>v.
     sq (whenb (\<not> v) (fail (''VG '' @ vgname @ '' was not created'')))
    (bnd (call ''get_device_total_space'' [dev] (total_space E dev)) (\<lambda>bytes.
     let lv_size = lv_size_mb bytes in
     sq (log Info (''Creating LV '' @ quoted lvname @ '' size='' @ str_int lv_size @ ''M''))
    (sq (call ''lv_create'' [vgname, lvname, str_int lv_size] (lv_create E vgname lvname lv_size))
    (bnd (lv_ok E) (\<lambda>l.
     sq (whenb (\<not> l) (fail (''LV '' @ lvname @ '' was not created'')))
    (sq (modify (\<lambda>s. s\<lparr>lv_created := True\<rparr>))
        (ret lv_path)))))))))))))"

definition create_fs :: "'w rd_env \<Rightarrow> string \<Rightarrow> ('w, unit) rd" where
  "create_fs E path =
     bnd (gets fstype) (\<lambda>fs. bnd (gets mount_dir) (\<lambda>dir.
     let part = (path, dir) in
     sq (log Info (''Formatting '' @ path @ '' as '' @ fs))
    (sq (modify (\<lambda>s. s\<lparr>part_obj := Some part\<rparr>))
    (sq (call ''part.unmount'' [path] (part_unmount E part))
    (sq (call ''part.mkfs'' [path, fs] (part_mkfs E part fs))
        (try_except
          (sq (call ''part.mount'' [path, dir] (part_mount E part))
          (sq (modify (\<lambda>s. s\<lparr>fs_mounted := True\<rparr>))
              (log Info (''Mounted '' @ path @ '' on '' @ dir))))
          (\<lambda>e. if e = LibError ''PartitionError'' then fail (''Mounting '' @ path @ '' on '' @ dir @ '' failed'')
               else raise e)))))))"

definition delete_fs :: "'w rd_env \<Rightarrow> ('w, unit) rd" where
  "delete_fs E =
     bnd (gets fs_mounted) (\<lambda>m. bnd (gets mount_dir) (\<lambda>dir.
     sq (whenb m
          (sq (log Info (''Unmounting '' @ dir))
          (bnd (wait_for (polls E ''_unmount_dir'')
                 (sq (try_except
                        (bnd (gets part_obj) (\<lambda>p. bnd (lift (attr p)) (\<lambda>p.
                         call ''part.unmount'' [fst p] (part_unmount E p))))
                        (\<lambda>_. rsystem E (''umount -f '' @ dir)))
                     (bnd (is_dir_mounted E dir) (\<lambda>b. ret (\<not> b))))) (\<lambda>ok.
           sq (whenb (\<not> ok) (log Warning (''Could not unmount '' @ dir @ '' cleanly'')))
              (modify (\<lambda>s. s\<lparr>fs_mounted := False\<rparr>))))))
        (bnd (has_fs E lv_path) (\<lambda>b. whenb b (wipe E lv_path)))))"

definition run_io :: "'w rd_env \<Rightarrow> ('w, unit) rd" where
  "run_io E =
     bnd (gets mount_dir) (\<lambda>dir.
     let target = path_join dir ''testfile'' in
     sq (log Info (''Running dd write I/O to '' @ target))
    (bnd (rrun E (''dd if=/dev/urandom of='' @ target @ '' bs=1M count=256 oflag=direct conv=fsync'')) (\<lambda>r.
     sq (whenb (exit_status r \<noteq> 0) (fail (''dd write failed: '' @ stderr_text r)))
    (sq (log Info (''Running dd read I/O from '' @ target))
    (bnd (rrun E (''dd if='' @ target @ '' of=/dev/null bs=1M iflag=direct'')) (\<lambda>r.
     sq (whenb (exit_status r \<noteq> 0) (fail (''dd read failed: '' @ stderr_text r)))
    (sq (log Info (''I/O complete '' @ em_dash @ '' removing test file''))
        (call ''os.remove'' [target] (os_remove E target)))))))))"

subsection \<open>The tests and tearDown\<close>

definition rd_test :: "'w rd_env \<Rightarrow> (string \<rightharpoonup> pyval) \<Rightarrow> ('w, unit) rd" where
  "rd_test E params =
     bnd (gets raidlevel) (\<lambda>level. bnd (gets fstype) (\<lambda>fs.
     sq (log Info (''=== test: raid'' @ level @ '' / metadata='' @
                   vstr (rd_param params ''metadata'' (VStr ''1.2'')) @ '' / fs='' @ fs @ '' ===''))
    (bnd (raid_create E) (\<lambda>c.
     sq (whenb (\<not> c) (fail (''Failed to create RAID'' @ level)))
    (sq (log Info (''RAID'' @ level @ '' created successfully''))
    (bnd (gets backing) (\<lambda>dev.
     bnd (create_lvm E dev) (\<lambda>path.
     sq (create_fs E path)
    (sq (run_io E)
    (sq (log Info ''Stopping I/O and unmounting filesystem ...'')
    (sq (delete_fs E)
    (sq (delete_lvm E)
    (sq (log Info (''Stopping RAID'' @ level @ '' and clearing superblocks ...''))
    (bnd (raid_stop E) (\<lambda>b.
     sq (whenb (\<not> b) (fail (''Failed to stop RAID'' @ level)))
    (sq (raid_clear E)
    (bnd (gets disks) (\<lambda>ds.
     sq (for_each ds (wipe E))
        (log Info (''=== test: raid'' @ level @ '' / fs='' @ fs @ '' PASSED ===''))))))))))))))))))))"

definition mdadm_step :: "'w rd_env \<Rightarrow> string \<Rightarrow> (string \<Rightarrow> string) \<Rightarrow> ('w, unit) rd" where
  "mdadm_step E cmd msg =
     bnd (rrun E cmd) (\<lambda>r. whenb (exit_status r \<noteq> 0) (fail (msg (stderr_text r))))"

definition resync_done :: "'w rd_env \<Rightarrow> ('w, bool) rd" where
  "resync_done E =
     bnd (routput E ''cat /proc/mdstat'') (\<lambda>out.
     ret (\<not> contains ''resync'' out \<and> \<not> contains ''recovery'' out))"

definition healthy :: "string \<Rightarrow> bool" where
  "healthy detail \<longleftrightarrow> contains ''State : clean'' detail \<or> contains ''State : active'' detail"

definition all_disks :: "'w rd_st \<Rightarrow> string list" where
  "all_disks s = disks s @ (if spare_disk s \<noteq> [] then [spare_disk s] else [])"

definition test_raid_rebuild :: "'w rd_env \<Rightarrow> ('w, unit) rd" where
  "test_raid_rebuild E =
     bnd (gets fail_disk) (\<lambda>fd. bnd (gets spare_disk) (\<lambda>sp. bnd (gets raidlevel) (\<lambda>level.
     bnd (gets disks) (\<lambda>ds. bnd (gets backing) (\<lambda>dev.
     sq (whenb (fd = []) (cancel (quoted ''fail_disk'' @ '' not set in yaml '' @ em_dash @
           '' cannot run test_raid_rebuild'')))
    (sq (whenb (sp = []) (cancel (quoted ''spare_disk'' @ '' not set in yaml '' @ em_dash @
           '' cannot run test_raid_rebuild'')))
    (sq (whenb (level \<in> {''0'', ''linear''})
           (cancel (''RAID'' @ level @ '' does not support rebuild/redundancy'')))
    (sq (whenb (fd \<notin> set ds)
           (cancel (''fail_disk '' @ quoted fd @ '' is not in the '' @ quoted ''disks'' @ '' list'')))
    (sq (log Info (''=== test_raid_rebuild: raid'' @ level @ '' ===''))
    (bnd (raid_create E) (\<lambda>c.
     sq (whenb (\<not> c) (fail (''Failed to create RAID'' @ level @ '' for rebuild test'')))
    (sq (log Info (''RAID'' @ level @ '' created for rebuild test''))
    (sq (log Info (''Marking '' @ fd @ '' as faulty in '' @ dev))
    (sq (mdadm_step E (''mdadm '' @ dev @ '' --fail '' @ fd)
           (\<lambda>e. ''Failed to mark '' @ fd @ '' faulty: '' @ e))
    (sq (log Info (''Removing failed disk '' @ fd @ '' from '' @ dev))
    (sq (mdadm_step E (''mdadm '' @ dev @ '' --remove '' @ fd)
           (\<lambda>e. ''Failed to remove '' @ fd @ '' from array: '' @ e))
    (sq (log Info (''Adding spare disk '' @ sp @ '' to '' @ dev))
    (sq (mdadm_step E (''mdadm '' @ dev @ '' --add '' @ sp)
           (\<lambda>e. ''Failed to add spare '' @ sp @ '' to array: '' @ e))
    (sq (log Info ''Waiting for RAID rebuild to complete ...'')
    (bnd (wait_for (polls E ''_resync_done'') (resync_done E)) (\<lambda>ok.
     sq (whenb (\<not> ok) (fail ''RAID rebuild did not complete within 600 s''))
    (bnd (routput E (''mdadm --detail '' @ dev)) (\<lambda>detail.
     sq (log Info (''mdadm --detail:'' @ [newline] @ detail))
    (sq (whenb (\<not> healthy detail)
           (fail (''RAID array not clean/active after rebuild:'' @ [newline] @ detail)))
    (sq (log Info (''RAID rebuild verified '' @ em_dash @ '' array is healthy''))
    (bnd (raid_stop E) (\<lambda>b.
     sq (whenb (\<not> b) (fail (''Failed to stop RAID'' @ level @ '' after rebuild test'')))
    (sq (raid_clear E)
    (bnd (gets all_disks) (\<lambda>all.
     sq (for_each all (wipe E))
        (log Info (''=== test_raid_rebuild: raid'' @ level @ '' PASSED ===''))))))))))))))))))))))))))))))))"

definition rd_tearDown :: "'w rd_env \<Rightarrow> ('w, unit) rd" where
  "rd_tearDown E =
     bnd (gets fs_mounted) (\<lambda>m.
     sq (whenb m (delete_fs E))
    (bnd (gets lv_created) (\<lambda>l.
     sq (whenb l (delete_lvm E))
    (bnd (gets sraid_obj) (\<lambda>r.
     whenb (r \<noteq> None)
       (sq (raid_stop E)
       (sq (raid_clear E)
       (bnd (gets all_disks) (\<lambda>all. for_each all (wipe E))))))))))"

end
