(* ===== verification/Raid_Props.thy ===== *)
theory Raid_Props
  imports Raid
begin

section \<open>Properties of the software RAID test\<close>

text \<open>
  What the test guarantees about its own bookkeeping: the flags \<^verbatim>\<open>tearDown\<close> relies on, the
  order of the commands of a passing test, and the conditions under which the rebuild test runs.
\<close>

subsection \<open>Operations that only call out\<close>

text \<open>\<open>frame F\<close>: the part \<open>F\<close> of the state depends on neither the system nor the trace.\<close>

definition frame :: "('w rd_st \<Rightarrow> 'b) \<Rightarrow> bool" where
  "frame F \<longleftrightarrow> (\<forall>s w tr. F (s\<lparr>world := w, trace := tr\<rparr>) = F s)"

lemma frameD: "frame F \<Longrightarrow> F (s\<lparr>world := w, trace := tr\<rparr>) = F s"
  by (simp add: frame_def)

lemma keeps_ext [keeps]:
  assumes "frame F"
  shows "keeps F (rsystem E cmd)" "keeps F (rrun E cmd)" "keeps F (routput E cmd)" "keeps F (wipe E d)"
    "keeps F (raid_create E)" "keeps F (raid_stop E)" "keeps F (raid_exists E)" "keeps F (raid_clear E)"
    "keeps F (vg_ok E)" "keeps F (lv_ok E)" "keeps F (remove_vg E)" "keeps F (has_fs E d)"
    "keeps F (is_disk_mounted E d)" "keeps F (is_dir_mounted E d)" "keeps F (abs_path E d)"
    "keeps F (install_pkg E d)" "keeps F (optional_disk E v)" "keeps F (resync_done E)"
    "keeps F (mdadm_step E cmd msg)"
  unfolding rsystem_def rrun_def routput_def wipe_def raid_create_def raid_stop_def raid_exists_def
    raid_clear_def on_sraid_def vg_ok_def lv_ok_def remove_vg_def has_fs_def is_disk_mounted_def
    is_dir_mounted_def abs_path_def install_pkg_def optional_disk_def resync_done_def mdadm_step_def
  by (intro keeps frameD[OF assms])+

lemma keeps_cleanup [keeps]:
  assumes "frame F"
  shows "keeps F (wipe_fs E dev)" "keeps F (do_stop_raid E)" "keeps F (do_delete_lvm E)" "keeps F (run_io E)"
  unfolding wipe_fs_def do_stop_raid_def do_delete_lvm_def run_io_def Let_def
  by (intro keeps frameD[OF assms] assms)+

lemma keeps_pre_cleanup [keeps]: "frame F \<Longrightarrow> keeps F (pre_cleanup E)"
  unfolding pre_cleanup_def by (intro keeps frameD) assumption+

lemma keeps_rebuild: "frame F \<Longrightarrow> keeps F (test_raid_rebuild E)"
  unfolding test_raid_rebuild_def by (intro keeps frameD) assumption+

subsection \<open>The flags\<close>

text \<open>
  A mounted file system lies on a recorded logical volume and has a partition object; the object
  of the array is set as soon as a test can run.
\<close>

definition flags :: "'w rd_st \<Rightarrow> bool \<times> bool \<times> bool" where
  "flags s = (fs_mounted s, lv_created s, part_obj s \<noteq> None)"

definition flags_ok :: "'w rd_st \<Rightarrow> bool" where
  "flags_ok s \<longleftrightarrow> (fs_mounted s \<longrightarrow> lv_created s \<and> part_obj s \<noteq> None)"

lemma frame_flags [simp]: "frame flags"
  by (simp add: frame_def flags_def)

lemma flags_okI: "flags t = flags s \<Longrightarrow> flags_ok s \<Longrightarrow> flags_ok t"
  by (simp add: flags_def flags_ok_def)

text \<open>Composition: a step that keeps the flags needs no attention.\<close>

lemma wp_bnd_flags:
  assumes "keeps flags m" "\<And>e t. flags t = flags s \<Longrightarrow> R e t"
    "\<And>x t. flags t = flags s \<Longrightarrow> wp (f x) Q R t"
  shows "wp (bnd m f) Q R s"
  unfolding wp_bnd by (rule wp_keeps[OF assms(1)]) (use assms(2,3) in auto)

lemma wp_sq_flags:
  assumes "keeps flags m" "\<And>e t. flags t = flags s \<Longrightarrow> R e t"
    "\<And>t. flags t = flags s \<Longrightarrow> wp n Q R t"
  shows "wp (sq m n) Q R s"
  unfolding sq_def by (rule wp_bnd_flags) (use assms in auto)

lemma wp_sq_modify: "wp n Q R (g s) \<Longrightarrow> wp (sq (modify g) n) Q R s"
  by (simp add: wp)

lemma wp_bnd_gets: "wp (f (g s)) Q R s \<Longrightarrow> wp (bnd (gets g) f) Q R s"
  by (simp add: wp)

lemmas wp_flags = wp_keeps [where F = flags]

lemmas flag_steps = wp_sq_modify wp_bnd_gets wp_bnd_flags wp_sq_flags keeps

lemma wp_create_lvm:
  "wp (create_lvm E dev) (\<lambda>_ t. flags t = (fs_mounted s, True, part_obj s \<noteq> None)) (\<lambda>_ t. flags t = flags s) s"
  unfolding create_lvm_def Let_def
  by (intro flag_steps) (simp_all add: wp flags_def)

lemma wp_create_fs:
  assumes "flags s = (False, True, p)"
  shows "wp (create_fs E path) (\<lambda>_ t. flags t = (True, True, True)) (\<lambda>_ t. flags_ok t) s"
  using assms
  by (simp add: create_fs_def Let_def wp flags_def flags_ok_def split: prod.split sum.split)

lemma wp_delete_fs:
  "wp (delete_fs E) (\<lambda>_ t. \<not> fs_mounted t \<and> lv_created t = lv_created s)
     (\<lambda>_ t. flags t = flags s \<or> \<not> fs_mounted t) s"
proof (cases "fs_mounted s")
  case True
  show ?thesis
    unfolding delete_fs_def
    apply (rule wp_bnd_gets)+
    apply (simp only: True whenb_def if_True sq_assoc)
    apply (intro flag_steps)
       apply (simp_all add: flags_def True)
    by (intro conjI impI; rule wp_keeps [where F = flags], intro keeps; simp add: flags_def)
next
  case False
  show ?thesis
    unfolding delete_fs_def
    apply (rule wp_bnd_gets)+
    apply (simp only: False whenb_def if_False sq_ret_left)
    apply (intro flag_steps)
     apply (simp_all add: flags_def False)
    by (intro conjI impI; rule wp_keeps [where F = flags], intro keeps; simp add: flags_def False)
qed

lemma wp_delete_lvm:
  "wp (delete_lvm E) (\<lambda>_ t. \<not> lv_created t \<and> fs_mounted t = fs_mounted s) (\<lambda>_ t. flags t = flags s) s"
  unfolding delete_lvm_def
  apply (intro flag_steps) apply (simp_all add: wp flags_def)
  done

definition flags_clear :: "'w rd_st \<Rightarrow> bool" where
  "flags_clear s \<longleftrightarrow> \<not> fs_mounted s \<and> \<not> lv_created s"

lemma flags_clear_ok: "flags_clear s \<Longrightarrow> flags_ok s"
  by (simp add: flags_clear_def flags_ok_def)

lemma flags_clear_cong: "flags t = flags s \<Longrightarrow> flags_clear t \<longleftrightarrow> flags_clear s"
  by (auto simp: flags_def flags_clear_def)

lemmas flags_defs = flags_def flags_ok_def flags_clear_def

lemma wp_rd_test:
  assumes "flags_clear s"
  shows "wp (rd_test E params) (\<lambda>_. flags_clear) (\<lambda>_. flags_ok) s"
  unfolding rd_test_def
  apply (rule wp_bnd_gets)+
  apply (rule wp_sq_flags wp_bnd_flags, (intro keeps; simp add: flags_def), simp add: assms flags_clear_ok flags_clear_cong)+
  apply (rule wp_bnd_step[OF wp_create_lvm])
   prefer 2 apply (use assms in \<open>simp add: flags_defs\<close>)
  apply (rule wp_sq_step[OF wp_create_fs])
    apply (use assms in \<open>simp add: flags_defs\<close>)
   prefer 2 apply assumption
  apply (rule wp_sq_flags, (intro keeps; simp add: flags_def), simp add: flags_defs)+
  apply (rule wp_sq_step[OF wp_delete_fs])
   prefer 2 apply (simp add: flags_defs) apply blast
  apply (rule wp_sq_step[OF wp_delete_lvm])
   prefer 2 apply (simp add: flags_defs)
  apply (rule wp_flags, (intro keeps; simp add: flags_def); simp add: flags_defs)
  done

lemma wp_rd_tearDown:
  assumes "flags_ok s"
  shows "wp (rd_tearDown E) (\<lambda>_. flags_clear) (\<lambda>_. flags_ok) s"
  unfolding rd_tearDown_def
  apply (rule wp_bnd_gets)
  apply (rule wp_sq_step[where P = "\<lambda>_ t. \<not> fs_mounted t" and R' = "\<lambda>_. flags_ok"])
    apply (simp add: wp) apply (intro impI)
    apply (rule wp_conseq[OF wp_delete_fs])
  apply simp
  apply (use assms in \<open>auto simp: flags_defs\<close>)[1]
   prefer 2 apply assumption
  apply (rule wp_bnd_gets)
  apply (rule wp_sq_step[where P = "\<lambda>_. flags_clear" and R' = "\<lambda>_. flags_ok"])
    apply (simp add: wp flags_clear_def) apply (intro impI)
    apply (rule wp_conseq[OF wp_delete_lvm])
  apply (simp add: flags_defs)
  apply (simp add: flags_defs)
   prefer 2 apply assumption
  apply (rule wp_flags, (intro keeps; simp add: flags_def); simp add: flags_defs)
  done

lemma wp_rd_setUp: "wp (rd_setUp E params) (\<lambda>_. flags_clear) (\<lambda>_. flags_ok) s"
  unfolding rd_setUp_def Let_def
  apply (rule wp_sq_modify)
  apply (rule wp_flags, (intro keeps; simp add: flags_def); simp add: flags_defs)
  done

text \<open>
  C25. The flags of the RAID test, over a whole run: set-up, one of the two tests, and tearDown
  whatever the test ended in. At every end, exceptions included, a file system that is flagged as
  mounted lies on a flagged logical volume and has a partition object, and a run that completes has
  cleared both flags.
\<close>

theorem raid_flags:
  "wp (sq (rd_setUp E params) (try_finally (rd_test E params) (rd_tearDown E))) (\<lambda>_. flags_clear) (\<lambda>_. flags_ok) s \<and>
   wp (sq (rd_setUp E params) (try_finally (test_raid_rebuild E) (rd_tearDown E))) (\<lambda>_. flags_clear) (\<lambda>_. flags_ok) s"
proof -
  have down: "wp (try_finally m (rd_tearDown E)) (\<lambda>_. flags_clear) (\<lambda>_. flags_ok) t"
    if m: "wp m (\<lambda>_. flags_ok) (\<lambda>_. flags_ok) t" for m t
    unfolding wp_try_finally
    by (rule wp_conseq[OF m]) (rule wp_conseq[OF wp_rd_tearDown]; simp add: flags_clear_ok)+
  have test: "wp (rd_test E params) (\<lambda>_. flags_ok) (\<lambda>_. flags_ok) t" if "flags_clear t" for t
    by (rule wp_conseq[OF wp_rd_test[OF that]]) (simp_all add: flags_clear_ok)
  have rebuild: "wp (test_raid_rebuild E) (\<lambda>_. flags_ok) (\<lambda>_. flags_ok) t" if "flags_clear t" for t
    by (rule wp_flags[OF keeps_rebuild]) (use that in \<open>auto dest: flags_okI flags_clear_ok\<close>)
  show ?thesis
    by (intro conjI; rule wp_sq_step[OF wp_rd_setUp]) (auto intro: down test rebuild)
qed

subsection \<open>The rebuild test\<close>

lemma emits_ops:
  "emits (\<lambda>_. True) (raid_create E)" "emits (\<lambda>_. True) (raid_stop E)" "emits (\<lambda>_. True) (raid_clear E)"
  "emits (\<lambda>_. True) (wipe E d)" "emits (\<lambda>_. True) (routput E cmd)" "emits (\<lambda>_. True) (mdadm_step E cmd msg)"
  "emits (\<lambda>_. True) (resync_done E)"
  unfolding raid_create_def raid_stop_def raid_clear_def on_sraid_def wipe_def rsystem_def routput_def rrun_def
    mdadm_step_def resync_done_def
  by (intro emits TrueI)+

lemma wp_emits:
  assumes "emits (\<lambda>_. True) m" "\<And>x t es. trace t = trace s @ es \<Longrightarrow> Q x t" "\<And>e t es. trace t = trace s @ es \<Longrightarrow> R e t"
  shows "wp m Q R s"
  by (rule wpI; drule emitsD[OF assms(1)]; elim exE conjE; rule assms(2,3); assumption)

definition rebuild_ready :: "'w rd_st \<Rightarrow> bool" where
  "rebuild_ready s \<longleftrightarrow> fail_disk s \<noteq> [] \<and> spare_disk s \<noteq> [] \<and> raidlevel s \<notin> {''0'', ''linear''} \<and>
     fail_disk s \<in> set (disks s)"

text \<open>
  When the rebuild test runs: without a disk to fail, without a spare, with a level that has
  no redundancy, or with a disk that is not a member, the test is cancelled and nothing at all has
  happened; in every other case it is the creation of the array that comes first.
\<close>

theorem rebuild_guards:
  "if rebuild_ready s
   then \<exists>es. trace (snd (test_raid_rebuild E s)) =
          trace s @ Log Info (''=== test_raid_rebuild: raid'' @ raidlevel s @ '' ==='') #
          (case sraid_obj s of None \<Rightarrow> [] | Some _ \<Rightarrow> Call ''sraid.create'' [] # es)
   else \<exists>m. test_raid_rebuild E s = (Inl (TestCancel m), s)"
proof (cases "rebuild_ready s")
  case False
  then show ?thesis
    by (auto simp: rebuild_ready_def test_raid_rebuild_def bnd_def sq_def gets_def whenb_def cancel_def raise_def
        ret_def)
next
  case True
  let ?l = "Log Info (''=== test_raid_rebuild: raid'' @ raidlevel s @ '' ==='')"
  let ?P = "\<lambda>t. \<exists>es. trace t = trace s @ ?l #
    (case sraid_obj s of None \<Rightarrow> [] | Some _ \<Rightarrow> Call ''sraid.create'' [] # es)"
  have "wp (test_raid_rebuild E) (\<lambda>_. ?P) (\<lambda>_. ?P) s"
    unfolding test_raid_rebuild_def
    apply (rule wp_bnd_gets)+
    apply (simp only: wp_sq wp_whenb wp_log)
    apply (use True in \<open>simp add: rebuild_ready_def\<close>)
    apply (simp only: raid_create_def on_sraid_def bnd_assoc)
    apply (rule wp_bnd_gets)
    apply (cases "sraid_obj s")
     apply (simp add: wp)
    apply simp
    apply (simp only: wp_bnd wp_call split: prod.split sum.split)
    apply (intro allI impI conjI)
     apply simp
    apply (rule wp_emits, intro emits emits_ops TrueI)
     apply simp_all
    done
  then show ?thesis using True by (simp add: wp_def split: prod.splits sum.splits)
qed

lemma wp_sq_ok: "(b \<Longrightarrow> wp n Q any_end s) \<Longrightarrow> wp (sq (whenb (\<not> b) (fail m)) n) Q any_end s"
  by (simp add: wp)

lemma wp_bnd_all_disks:
  "adds s0 es s \<Longrightarrow> wp (f (all_disks s0)) Q R s \<Longrightarrow> wp (bnd (gets all_disks) f) Q R s"
  by (auto simp: wp adds_def all_disks_def)

definition mdstat_call :: event where
  "mdstat_call = Call ''system_output'' [''cat /proc/mdstat'']"

definition wipe_call :: "string \<Rightarrow> event" where
  "wipe_call d = Call ''system'' [''wipefs -af '' @ d]"

lemma calls_of: "calls (replicate k mdstat_call) = replicate k mdstat_call"
  "calls (map wipe_call ds) = map wipe_call ds" "calls (wipe_call d # es) = wipe_call d # calls es"
  by (induction k) (simp_all add: calls_def is_call_def mdstat_call_def wipe_call_def filter_id_conv)

lemma adds_ops [adds]:
  "wp (raid_create E) (\<lambda>_ t. True \<and> adds s [Call ''sraid.create'' []] t) any_end s"
  "wp (raid_stop E) (\<lambda>_ t. True \<and> adds s [Call ''sraid.stop'' []] t) any_end s"
  "wp (raid_clear E) (\<lambda>_ t. True \<and> adds s [Call ''sraid.clear_superblock'' []] t) any_end s"
  "wp (routput E cmd) (\<lambda>_ t. True \<and> adds s [Call ''system_output'' [cmd]] t) any_end s"
  "wp (mdadm_step E cmd msg) (\<lambda>_ t. True \<and> adds s [Call ''run'' [cmd]] t) any_end s"
  by (auto simp: raid_create_def raid_stop_def raid_clear_def on_sraid_def routput_def mdadm_step_def rrun_def wp
      adds_def attr_def split: prod.split sum.split option.split)

lemma adds_wipe: "wp (wipe E d) (\<lambda>_ t. adds s [wipe_call d] t) any_end s"
  by (auto simp: wipe_def rsystem_def wipe_call_def wp adds_def split: prod.split sum.split)

lemma wp_resync:
  "wp (wait_for n (resync_done E))
     (\<lambda>ok t. ok \<longrightarrow> (\<exists>k. 0 < k \<and> k \<le> n \<and> adds s (replicate k mdstat_call) t)) any_end s"
proof (induction n arbitrary: s)
  case 0
  then show ?case by (simp add: wp)
next
  case (Suc n)
  have one: "wp (resync_done E) (\<lambda>_ t. adds s [mdstat_call] t) any_end s"
    by (auto simp: resync_done_def routput_def mdstat_call_def wp adds_def split: prod.split sum.split)
  have more: "\<exists>k. 0 < k \<and> k \<le> Suc n \<and> adds s (replicate k mdstat_call) u"
    if "adds s [mdstat_call] t" "0 < k" "k \<le> n" "adds t (replicate k mdstat_call) u" for k t u
    using adds_trans[OF that(1,4)] that(2,3) by (intro exI[of _ "Suc k"]) simp
  show ?case
    unfolding wait_for.simps
  proof (rule wp_bnd_step[OF one])
    fix b t assume t: "adds s [mdstat_call] t"
    show "wp (if b then ret True else wait_for n (resync_done E))
       (\<lambda>ok u. ok \<longrightarrow> (\<exists>k. 0 < k \<and> k \<le> Suc n \<and> adds s (replicate k mdstat_call) u)) any_end t"
    proof (cases b)
      case True
      with t show ?thesis by (simp add: wp) (intro exI[of _ "1"], simp)
    next
      case False
      then show ?thesis
        by simp (rule wp_conseq[OF Suc.IH], use more[OF t] in auto)
    qed
  qed simp
qed

lemma adds_resync:
  assumes "adds s0 es s"
    and "\<And>k t. 0 < k \<Longrightarrow> k \<le> n \<Longrightarrow> adds s0 (es @ replicate k mdstat_call) t \<Longrightarrow> wp m Q any_end t"
  shows "wp (bnd (wait_for n (resync_done E)) (\<lambda>ok. sq (whenb (\<not> ok) (fail msg)) m)) Q any_end s"
proof (rule wp_bnd_step[OF wp_resync])
  fix ok t assume "ok \<longrightarrow> (\<exists>k. 0 < k \<and> k \<le> n \<and> adds s (replicate k mdstat_call) t)"
  then show "wp (sq (whenb (\<not> ok) (fail msg)) m) Q any_end t"
    by (intro wp_sq_ok) (auto intro: assms(2) adds_trans[OF assms(1)])
qed simp

text \<open>
  C3. A rebuild test that passes: whatever the tools answer, the commands were exactly these, in
  this order: create the array, fail the chosen disk, remove it, add the spare, poll the kernel's
  status at least once and at most as often as the time allows, ask for the details, stop the
  array, clear the superblocks, and wipe every member and the spare. The details that were asked
  for, which the log shows, report a clean or active array.
\<close>

theorem rebuild_completes:
  "wp (test_raid_rebuild E)
     (\<lambda>_ t. \<exists>k detail. 0 < k \<and> k \<le> polls E ''_resync_done'' \<and> healthy detail \<and>
        Log Info (''mdadm --detail:'' @ [newline] @ detail) \<in> set (drop (length (trace s)) (trace t)) \<and>
        calls (trace t) = calls (trace s) @
          [Call ''sraid.create'' [],
           Call ''run'' [''mdadm '' @ backing s @ '' --fail '' @ fail_disk s],
           Call ''run'' [''mdadm '' @ backing s @ '' --remove '' @ fail_disk s],
           Call ''run'' [''mdadm '' @ backing s @ '' --add '' @ spare_disk s]] @
          replicate k mdstat_call @
          [Call ''system_output'' [''mdadm --detail '' @ backing s],
           Call ''sraid.stop'' [], Call ''sraid.clear_superblock'' []] @
          map wipe_call (disks s @ [spare_disk s]))
     any_end s"
  unfolding test_raid_rebuild_def
  apply (rule wp_bnd_gets)+
  apply (rule adds_sq[OF adds_refl], rule adds)
  apply (rule adds_sq adds_bnd, assumption, rule adds)+
  apply (rule adds_resync, assumption)
  apply (rule adds_sq adds_bnd, assumption, rule adds)+
  apply (rule wp_bnd_all_disks, assumption)
  apply (rule adds_sq, assumption, rule adds_for_each, rule adds_wipe)
  apply (rule adds_end, assumption, rule adds)
  apply (intro exI conjI, assumption, assumption, erule notnotD)
   apply simp
  apply (simp add: all_disks_def calls_of)
  done

subsection \<open>The size of the logical volume\<close>

text \<open>
  On a grid of 2 ^ -27 the rounding of a quotient cannot reach the next integer.
\<close>

lemma floor_fl_grid:
  fixes x :: rat
  assumes "0 \<le> x" "x \<le> of_int k + 1 - 1 / 2 ^ 27" "of_int k \<le> x" "k < 2 ^ 25"
  shows "\<lfloor>fl x\<rfloor> = k"
proof -
  let ?y = "of_int (k * 2 ^ 27 + (2 ^ 27 - 1)) * 2 powi (- 27) :: rat"
  have k0: "0 \<le> k" using assms(2,1) by (cases "0 \<le> k") auto
  have y: "?y = of_int k + 1 - 1 / 2 ^ 27" by (simp add: power_int_minus field_simps)
  have "fl ?y = ?y" using k0 assms(4) by (intro fl_exact[OF refl]) simp
  then have "is_float ?y" by (simp add: is_float_def)
  then have "fl x \<le> ?y" using assms(2) by (intro fl_le_float) (simp_all only: y)
  then have hi: "fl x < of_int k + 1" by (simp add: y)
  have "of_int k \<le> fl x" using k0 assms(3,4) by (intro fl_ge_float is_float_of_int) simp_all
  with hi show ?thesis by (simp add: floor_eq_iff)
qed

text \<open>
  The size of the logical volume: although the script computes with floats, for every device
  of up to 64 TiB the size in mebibytes is exactly 45 per cent of the bytes, rounded down to whole
  mebibytes; when that is nothing, because the device has less than 2.3 MiB, it is 512.
\<close>

theorem lv_size_exact:
  assumes "0 \<le> bytes" "bytes \<le> 2 ^ 46"
  shows "lv_size_mb bytes = (let n = 45 * bytes div (100 * 2 ^ 20) in if n = 0 then 512 else n)"
proof -
  let ?n = "45 * bytes div (100 * 2 ^ 20)"
  let ?x = "of_int (45 * bytes) / (100 * 2 ^ 20) :: rat"
  have mb: "fl (of_int bytes / 1048576) = (of_int bytes / 1048576 :: rat)"
    using assms by (intro fl_exact[of _ bytes "- 20"]) (simp_all add: power_int_minus field_simps)
  have part: "fl_mul (of_int bytes / 1048576) 45 = (of_int (45 * bytes) / 1048576 :: rat)"
    unfolding fl_mul_def using assms
    by (subst fl_exact[of _ "45 * bytes" "- 20"]) (simp_all add: power_int_minus field_simps)
  have size: "py_trunc (fl_div (fl_mul (fl (of_int bytes / 1048576)) 45) 100) = py_trunc (fl ?x)"
    unfolding fl_div_def mb part by (simp add: mult.commute)
  have r: "45 * bytes = ?n * (100 * 2 ^ 20) + 45 * bytes mod (100 * 2 ^ 20)"
    by (rule div_mult_mod_eq[symmetric])
  have nonneg: "0 \<le> 45 * bytes mod (100 * 2 ^ 20)" by simp
  have "45 * bytes mod (100 * 2 ^ 20) \<le> 100 * 2 ^ 20 - 1" using pos_mod_bound[of "100 * 2 ^ 20" "45 * bytes"] by simp
  with r have "45 * bytes \<le> ?n * (100 * 2 ^ 20) + (100 * 2 ^ 20 - 1)" by linarith
  then have "(of_int (45 * bytes) :: rat) \<le> of_int (?n * (100 * 2 ^ 20) + (100 * 2 ^ 20 - 1))"
    by (simp only: of_int_le_iff)
  then have hi: "?x \<le> of_int ?n + 1 - 1 / 2 ^ 27" by (simp add: field_simps)
  have "?n * (100 * 2 ^ 20) \<le> 45 * bytes" using r nonneg by linarith
  then have "(of_int (?n * (100 * 2 ^ 20)) :: rat) \<le> of_int (45 * bytes)" by (simp only: of_int_le_iff)
  then have lo: "of_int ?n \<le> ?x" by (simp add: field_simps)
  have "?n < 2 ^ 25" using assms(2) by (simp add: div_less_iff_less_mult)
  moreover have "0 \<le> ?x" using assms(1) by simp
  ultimately have "\<lfloor>fl ?x\<rfloor> = ?n" by (intro floor_fl_grid[OF _ hi lo])
  moreover have "0 \<le> fl ?x" using \<open>0 \<le> ?x\<close> by (rule fl_nonneg)
  ultimately show ?thesis unfolding lv_size_mb_def Let_def size by (simp add: py_trunc_def)
qed

theorem lv_size_exact_witness:
  "lv_size_mb 107374182400 = (let n = 45 * 107374182400 div (100 * 2 ^ 20) in if n = 0 then 512 else n)"
  by (rule lv_size_exact) simp_all

subsection \<open>When the volume cannot be created\<close>

definition stays_in :: "event set \<Rightarrow> ('w, 'm) st_scheme \<Rightarrow> ('w, 'm) st_scheme \<Rightarrow> bool" where
  "stays_in S s t \<longleftrightarrow> (\<exists>es. adds s es t \<and> set es \<subseteq> S)"

lemma stays_in_call: "Call f args \<in> S \<Longrightarrow> stays_in S s t \<Longrightarrow> wp (call f args x) (\<lambda>_. stays_in S s) (\<lambda>_. stays_in S s) t"
  by (auto simp: stays_in_def wp adds_def split: prod.split sum.split intro!: exI[of _ "_ @ [Call f args]"])

lemma stays_in_on_sraid:
  "Call f args \<in> S \<Longrightarrow> stays_in S s t \<Longrightarrow>
   wp (on_sraid (\<lambda>r. call f args (x r))) (\<lambda>_. stays_in S s) (\<lambda>_. stays_in S s) t"
  by (simp add: on_sraid_def wp_bnd wp_gets wp_lift attr_def stays_in_call split: option.split sum.split)

text \<open>
  An unrecorded volume group: when the creation of the LVM stack ends in an exception, with
  whatever was already created by then, the tearDown that follows only stops the array, clears its
  superblocks and wipes the disks; it does not remove the volume group, nor the physical volume,
  although the group may exist.
\<close>

theorem failed_lvm_is_not_removed:
  assumes "flags_clear s" "create_lvm E dev s = (Inl e, t)"
  shows "\<exists>es. trace (snd (rd_tearDown E t)) = trace t @ es \<and>
     set es \<subseteq> {Call ''sraid.stop'' [], Call ''sraid.clear_superblock'' []} \<union> wipe_call ` set (all_disks t)"
proof -
  have "flags t = flags s" using wp_exnD[OF wp_create_lvm assms(2)] .
  then have clear: "\<not> fs_mounted t" "\<not> lv_created t" using assms(1) by (auto simp: flags_defs)
  let ?S = "{Call ''sraid.stop'' [], Call ''sraid.clear_superblock'' []} \<union> wipe_call ` set (all_disks t)"
  have wipe: "wp (wipe E d) (\<lambda>_. stays_in ?S t) (\<lambda>_. stays_in ?S t) u" if "stays_in ?S t u" "d \<in> set (all_disks t)" for d u
    unfolding wipe_def rsystem_def
    by (rule wp_sq_step[OF stays_in_call[OF _ that(1)]]) (use that(2) in \<open>auto simp: wipe_call_def wp\<close>)
  have start: "stays_in ?S t t" using adds_refl by (force simp: stays_in_def)
  have "wp (rd_tearDown E) (\<lambda>_. stays_in ?S t) (\<lambda>_. stays_in ?S t) t"
    unfolding rd_tearDown_def
    apply (rule wp_bnd_gets)
    apply (simp only: clear whenb_def if_False sq_ret_left)
    apply (rule wp_bnd_gets)
    apply (simp only: clear whenb_def if_False sq_ret_left)
    apply (rule wp_bnd_gets)
    apply (simp only: whenb_def wp_if wp_ret start split: if_split)
    apply (intro conjI impI TrueI)
    apply (rule wp_sq_step, unfold raid_stop_def, rule stays_in_on_sraid[where S = ?S and s = t], simp, rule start)
     apply (rule wp_sq_step, unfold raid_clear_def, rule stays_in_on_sraid[where S = ?S and s = t], simp, assumption)
      apply (rule wp_bnd_gets)
      apply (rule wp_for_each_inv, assumption, rule wipe, assumption)
      apply (auto simp: stays_in_def adds_def all_disks_def)
    done
  then show ?thesis
    by (auto simp: wp_def stays_in_def adds_def split: prod.splits sum.splits)
qed

text \<open>A system that knows whether the volume group exists, and fails to tell the size of the array.\<close>

definition rd_demo :: "bool rd_env" where
  "rd_demo =
     \<lparr>rd_check = \<lambda>_ w. (Inr True, w), rd_install = \<lambda>_ w. (Inr True, w),
      rd_distro = \<lambda>w. (Inr (''rhel'', ''9'', ''4''), w), rd_abs_path = \<lambda>d w. (Inr d, w),
      rd_isdir = \<lambda>_ w. (Inr True, w), rd_makedirs = \<lambda>_ w. (Inr (), w), rd_system = \<lambda>_ w. (Inr 0, w),
      rd_run = \<lambda>_ w. (Inr \<lparr>exit_status = 0, stdout_text = [], stderr_text = []\<rparr>, w),
      rd_output = \<lambda>_ w. (Inr [], w), disk_mounted = \<lambda>_ w. (Inr False, w), dir_mounted = \<lambda>_ w. (Inr False, w),
      fs_exists = \<lambda>_ w. (Inr False, w), sr_create = \<lambda>_ w. (Inr True, w), sr_stop = \<lambda>_ w. (Inr True, w),
      sr_exists = \<lambda>_ w. (Inr False, w), sr_clear = \<lambda>_ w. (Inr (), w), vg_create = \<lambda>_ _ w. (Inr (), True),
      vg_check = \<lambda>_ w. (Inr w, w), vg_remove = \<lambda>_ w. (Inr (), False), lv_check = \<lambda>_ _ w. (Inr False, w),
      lv_create = \<lambda>_ _ _ w. (Inr (), w), lv_remove = \<lambda>_ _ w. (Inr (), w),
      total_space = \<lambda>_ w. (Inl (LibError ''total space''), w), part_unmount = \<lambda>_ w. (Inr (), w), part_mkfs = \<lambda>_ _ w. (Inr (), w),
      part_mount = \<lambda>_ w. (Inr (), w), os_remove = \<lambda>_ w. (Inr (), w), polls = \<lambda>_. 1\<rparr>"

definition rd_demo_state :: "bool rd_st" where
  "rd_demo_state =
     \<lparr>world = False, trace = [], disks = [''/dev/sdb'', ''/dev/sdc''], lv_created = False, fs_mounted = False,
      fstype = ''ext4'', raidlevel = ''1'', spare_disk = [], fail_disk = [], mount_dir = ''/mnt'',
      backing = ''/dev/md/sraid'',
      sraid_obj = Some \<lparr>sr_name = ''/dev/md/sraid'', sr_level = ''1'', sr_disks = [''/dev/sdb'', ''/dev/sdc''],
                       sr_metadata = ''1.2''\<rparr>, part_obj = None\<rparr>"

definition rd_demo_failed :: "bool rd_st" where
  "rd_demo_failed = snd (create_lvm rd_demo ''/dev/md/sraid'' rd_demo_state)"

theorem failed_lvm_is_not_removed_witness:
  "(\<exists>es. trace (snd (rd_tearDown rd_demo rd_demo_failed)) = trace rd_demo_failed @ es \<and>
      set es \<subseteq> {Call ''sraid.stop'' [], Call ''sraid.clear_superblock'' []} \<union> wipe_call ` set (all_disks rd_demo_failed)) \<and>
   world (snd (rd_tearDown rd_demo rd_demo_failed))"
proof
  have "flags_clear rd_demo_state" by code_simp
  moreover have "fst (create_lvm rd_demo ''/dev/md/sraid'' rd_demo_state) = Inl (LibError ''total space'')" by code_simp
  then have "create_lvm rd_demo ''/dev/md/sraid'' rd_demo_state = (Inl (LibError ''total space''), rd_demo_failed)"
    by (simp add: rd_demo_failed_def prod_eq_iff)
  ultimately show "\<exists>es. trace (snd (rd_tearDown rd_demo rd_demo_failed)) = trace rd_demo_failed @ es \<and>
      set es \<subseteq> {Call ''sraid.stop'' [], Call ''sraid.clear_superblock'' []} \<union> wipe_call ` set (all_disks rd_demo_failed)"
    by (rule failed_lvm_is_not_removed)
  show "world (snd (rd_tearDown rd_demo rd_demo_failed))" by code_simp
qed

end
