(* ===== verification/Protocol.thy ===== *)
theory Protocol
  imports Avocado
begin

section \<open>Protocols over the events of a test\<close>

text \<open>
  What a test does to one object (an array, a process) is stated as a step relation on the abstract
  states of the object, labelled with the events of the trace: \<open>run step q es r\<close> says that the events
  \<open>es\<close> lead from \<open>q\<close> to \<open>r\<close>. An event for which no step exists is one the protocol forbids. The
  locale \<open>protocol\<close> is the contract of such a relation: it is deterministic and ignores all events
  outside the set \<open>acts\<close>. In it are the rules by which a triple follows a body through the states.
\<close>

inductive run :: "('q \<Rightarrow> event \<Rightarrow> 'q \<Rightarrow> bool) \<Rightarrow> 'q \<Rightarrow> event list \<Rightarrow> 'q \<Rightarrow> bool" for step where
  run_Nil: "run step q [] q"
| run_snoc: "run step q es r \<Longrightarrow> step r e r' \<Longrightarrow> run step q (es @ [e]) r'"

inductive_cases run_NilE: "run step q [] r"
inductive_cases run_snocE: "run step q (es @ [e]) r"

inductive_simps run_Nil_iff: "run step q [] r"

lemma run_snoc_iff: "run step q (es @ [e]) r \<longleftrightarrow> (\<exists>p. run step q es p \<and> step p e r)"
  by (auto elim: run_snocE intro: run_snoc)

lemma run_append: "run step q (es @ fs) r \<longleftrightarrow> (\<exists>p. run step q es p \<and> run step p fs r)"
proof (induction fs arbitrary: r rule: rev_induct)
  case Nil
  then show ?case by (simp add: run_Nil_iff)
next
  case (snoc f fs)
  then show ?case by (auto simp: run_snoc_iff simp flip: append_assoc)
qed

lemma run_single: "run step q [e] r \<longleftrightarrow> step q e r"
  using run_snoc_iff[of step q "[]" e r] by (simp add: run_Nil_iff)

text \<open>\<open>in_state step q0 tr q s\<close>: the events since the trace was \<open>tr\<close> lead from \<open>q0\<close> to \<open>q\<close>.\<close>

definition in_state :: "('q \<Rightarrow> event \<Rightarrow> 'q \<Rightarrow> bool) \<Rightarrow> 'q \<Rightarrow> event list \<Rightarrow> 'q \<Rightarrow> ('w, 'm) st_scheme \<Rightarrow> bool" where
  "in_state step q0 tr q s \<longleftrightarrow> (\<exists>es. trace s = tr @ es \<and> run step q0 es q)"

lemma in_state_start: "in_state step q (trace s) q s"
  unfolding in_state_def using run_Nil by fastforce

lemma in_state_cong: "trace t = trace s \<Longrightarrow> in_state step q0 tr q t \<longleftrightarrow> in_state step q0 tr q s"
  by (simp add: in_state_def)

lemma in_state_event:
  assumes "in_state step q0 tr q s" "step q e r" "trace t = trace s @ [e]"
  shows "in_state step q0 tr r t"
  using assms by (auto simp: in_state_def intro: run_snoc)

text \<open>A single event, whatever it answers, and a change of attributes.\<close>

lemma in_state_call:
  assumes "in_state step q0 tr q s" "step q (Call f args) r"
  shows "wp (call f args x) (\<lambda>_. in_state step q0 tr r) (\<lambda>_. in_state step q0 tr r) s"
proof -
  have "in_state step q0 tr r (s\<lparr>world := w, trace := trace s @ [Call f args]\<rparr>)" for w
    by (rule in_state_event[OF assms]) simp
  then show ?thesis by (simp add: wp split: prod.split sum.split)
qed

lemma in_state_modify:
  assumes "in_state step q0 tr q s" "\<And>s. trace (f s) = trace s"
  shows "wp (modify f) (\<lambda>_. in_state step q0 tr q) R s"
  using assms by (simp add: wp in_state_def)

locale protocol =
  fixes step :: "'q \<Rightarrow> event \<Rightarrow> 'q \<Rightarrow> bool" and acts :: "event \<Rightarrow> bool"
  assumes det: "step q e r \<Longrightarrow> step q e r' \<Longrightarrow> r = r'"
    and ignores: "\<not> acts e \<Longrightarrow> step q e r \<longleftrightarrow> r = q"
begin

lemma run_det: "run step q es r \<Longrightarrow> run step q es r' \<Longrightarrow> r = r'"
proof (induction arbitrary: r' rule: run.induct)
  case (run_Nil q)
  then show ?case by (auto elim: run_NilE)
next
  case (run_snoc q es r e p)
  then show ?case by (metis det run_snocE)
qed

lemma in_state_det: "in_state step q0 tr q s \<Longrightarrow> in_state step q0 tr r s \<Longrightarrow> q = r"
  by (auto simp: in_state_def dest: run_det)

lemma run_idle: "\<forall>e \<in> set es. \<not> acts e \<Longrightarrow> run step q es q"
  by (induction es rule: rev_induct) (auto simp: ignores intro: run.intros)

text \<open>A body that emits no act of the protocol leaves the state alone.\<close>

lemma idle:
  assumes "in_state step q0 tr q s" "emits (\<lambda>e. \<not> acts e) m"
  shows "wp m (\<lambda>_. in_state step q0 tr q) (\<lambda>_. in_state step q0 tr q) s"
proof -
  obtain r t where m: "m s = (r, t)" by (cases "m s")
  from emitsD[OF assms(2) m] obtain es where es: "trace t = trace s @ es" "\<forall>e \<in> set es. \<not> acts e" by blast
  from assms(1) obtain fs where "trace s = tr @ fs" "run step q0 fs q" unfolding in_state_def by blast
  with es run_idle[OF es(2), of q] have "in_state step q0 tr q t"
    unfolding in_state_def by (intro exI[of _ "fs @ es"]) (auto simp: run_append)
  then show ?thesis using m by (simp add: wp_def split: sum.split)
qed

lemma idle_sq:
  assumes "in_state step q0 tr q s" "emits (\<lambda>e. \<not> acts e) m"
    and "\<And>t. in_state step q0 tr q t \<Longrightarrow> wp n Q R t" "\<And>e t. in_state step q0 tr q t \<Longrightarrow> R e t"
  shows "wp (sq m n) Q R s"
  by (rule wp_sq_step[OF idle[OF assms(1,2)]]) (use assms(3,4) in auto)

lemma idle_bnd:
  assumes "in_state step q0 tr q s" "emits (\<lambda>e. \<not> acts e) m"
    and "\<And>x t. in_state step q0 tr q t \<Longrightarrow> wp (f x) Q R t" "\<And>e t. in_state step q0 tr q t \<Longrightarrow> R e t"
  shows "wp (bnd m f) Q R s"
  by (rule wp_bnd_step[OF idle[OF assms(1,2)]]) (use assms(3,4) in auto)

text \<open>A loop whose body stays in a set of states.\<close>

lemma loop:
  assumes "in_state step q0 tr q s" "q \<in> B"
    and "\<And>x p t. x \<in> set xs \<Longrightarrow> p \<in> B \<Longrightarrow> in_state step q0 tr p t \<Longrightarrow>
           wp (f x) (\<lambda>_ u. \<exists>r \<in> B. in_state step q0 tr r u) (\<lambda>_ u. \<exists>r \<in> B. in_state step q0 tr r u) t"
  shows "wp (for_each xs f) (\<lambda>_ u. \<exists>r \<in> B. in_state step q0 tr r u) (\<lambda>_ u. \<exists>r \<in> B. in_state step q0 tr r u) s"
  by (rule wp_for_each_inv) (use assms in blast)+

end

end
