(* ===== verification/Raid_Life.thy ===== *)
theory Raid_Life
  imports Raid_Props Protocol
begin

section \<open>The life of the array in the rebuild test\<close>

text \<open>
  The array as the rebuild test sees it: it is assembled, a member is failed, the failed member pulled,
  the spare added, and the array stopped. The relation is on the commands sent, whatever they answer, and says in
  which order they make sense (\<open>Absent\<close> means that no \<^verbatim>\<open>create\<close> came after the last \<^verbatim>\<open>stop\<close>). That the test keeps
  to it at every end is one half of the theorem; the other half, about the array itself, needs a tool that does
  stop the array.
\<close>

datatype array = Absent | Assembled | Degraded | Pulled | Respared

definition fail_cmd :: "string \<Rightarrow> string \<Rightarrow> string" where
  "fail_cmd dev fd = ''mdadm '' @ dev @ '' --fail '' @ fd"

definition remove_cmd :: "string \<Rightarrow> string \<Rightarrow> string" where
  "remove_cmd dev fd = ''mdadm '' @ dev @ '' --remove '' @ fd"

definition add_cmd :: "string \<Rightarrow> string \<Rightarrow> string" where
  "add_cmd dev sp = ''mdadm '' @ dev @ '' --add '' @ sp"

lemma cmds_distinct:
  "fail_cmd dev fd \<noteq> remove_cmd dev fd'" "fail_cmd dev fd \<noteq> add_cmd dev sp" "remove_cmd dev fd \<noteq> add_cmd dev sp"
  by (simp_all add: fail_cmd_def remove_cmd_def add_cmd_def)

definition array_act :: "string \<Rightarrow> string \<Rightarrow> string \<Rightarrow> event \<Rightarrow> bool" where
  "array_act dev fd sp e \<longleftrightarrow>
     e \<in> {Call ''sraid.create'' [], Call ''sraid.stop'' [], Call ''run'' [fail_cmd dev fd],
          Call ''run'' [remove_cmd dev fd], Call ''run'' [add_cmd dev sp]}"

inductive array_step :: "string \<Rightarrow> string \<Rightarrow> string \<Rightarrow> array \<Rightarrow> event \<Rightarrow> array \<Rightarrow> bool" for dev fd sp where
  assemble: "array_step dev fd sp Absent (Call ''sraid.create'' []) Assembled"
| degrade: "array_step dev fd sp Assembled (Call ''run'' [fail_cmd dev fd]) Degraded"
| pull: "array_step dev fd sp Degraded (Call ''run'' [remove_cmd dev fd]) Pulled"
| respare: "array_step dev fd sp Pulled (Call ''run'' [add_cmd dev sp]) Respared"
| stop: "array_step dev fd sp q (Call ''sraid.stop'' []) Absent"
| other: "\<not> array_act dev fd sp e \<Longrightarrow> array_step dev fd sp q e q"

inductive_cases array_stepE: "array_step dev fd sp q e r"

interpretation array: protocol "array_step dev fd sp" "array_act dev fd sp" for dev fd sp
proof
  fix q e r r' assume "array_step dev fd sp q e r" "array_step dev fd sp q e r'"
  then show "r = r'" by (elim array_stepE) (auto simp: array_act_def cmds_distinct cmds_distinct[symmetric])
next
  fix q e r assume "\<not> array_act dev fd sp e"
  then show "array_step dev fd sp q e r \<longleftrightarrow> r = q"
    by (auto elim!: array_stepE intro: array_step.other simp: array_act_def)
qed

lemma bnd_gets_at: "bnd (gets f) k s = k (f s) s"
  by (simp add: py_defs)

text \<open>A method of the array, which raises before it calls when the object is missing.\<close>

lemma raid_call:
  assumes "in_state (array_step dev fd sp) q0 tr q s" "array_step dev fd sp q (Call f []) r"
  shows "wp (on_sraid (\<lambda>o'. call f [] (x o'))) (\<lambda>_. in_state (array_step dev fd sp) q0 tr r)
     (\<lambda>_ t. in_state (array_step dev fd sp) q0 tr r t \<or> in_state (array_step dev fd sp) q0 tr q t) s"
  unfolding on_sraid_def wp_bnd wp_gets wp_lift
  by (cases "sraid_obj s")
     (auto simp: assms(1) intro!: wp_conseq[OF in_state_call[where step = "array_step dev fd sp", OF assms]])

lemma mdadm_moves:
  assumes "in_state (array_step dev fd sp) q0 tr q s" "array_step dev fd sp q (Call ''run'' [cmd]) r"
  shows "wp (mdadm_step E cmd msg) (\<lambda>_. in_state (array_step dev fd sp) q0 tr r)
     (\<lambda>_. in_state (array_step dev fd sp) q0 tr r) s"
  unfolding mdadm_step_def rrun_def
  by (rule wp_bnd_step[OF in_state_call[where step = "array_step dev fd sp", OF assms]]) (auto simp: wp)

lemma quiet_rebuild:
  "emits (\<lambda>e. \<not> array_act dev fd sp e) (wait_for n (resync_done E))"
  "emits (\<lambda>e. \<not> array_act dev fd sp e) (routput E cmd)"
  "emits (\<lambda>e. \<not> array_act dev fd sp e) (raid_clear E)"
  "emits (\<lambda>e. \<not> array_act dev fd sp e) (for_each ds (wipe E))"
  unfolding resync_done_def routput_def raid_clear_def on_sraid_def wipe_def rsystem_def
  by (intro emits; simp add: array_act_def)+

lemma quiet_log: "emits (\<lambda>e. \<not> array_act dev fd sp e) (log l m)"
  by (intro emits) (simp add: array_act_def)

lemma rebuild_follows:
  "wp (test_raid_rebuild E)
     (\<lambda>_ t. \<exists>q. in_state (array_step (backing s) (fail_disk s) (spare_disk s)) Absent (trace s) q t)
     (\<lambda>_ t. \<exists>q. in_state (array_step (backing s) (fail_disk s) (spare_disk s)) Absent (trace s) q t) s"
proof -
  let ?I = "in_state (array_step (backing s) (fail_disk s) (spare_disk s)) Absent (trace s)"
  let ?E = "\<lambda>_ t. \<exists>q. ?I q t"
  have guard: "wp (sq (whenb b (cancel m)) k) ?E ?E t" "wp (sq (whenb b (fail m)) k) ?E ?E t"
    if "?I q t" "wp k ?E ?E t" for b m q t and k :: "('a, unit) rd"
    using that by (auto simp: wp)
  have step: "wp (sq (mdadm_step E cmd msg) k) ?E ?E t"
    if "?I q t" "array_step (backing s) (fail_disk s) (spare_disk s) q (Call ''run'' [cmd]) r"
      "\<And>u. ?I r u \<Longrightarrow> wp k ?E ?E u" for cmd msg q r t and k :: "('a, unit) rd"
    by (rule wp_sq_step[OF mdadm_moves[OF that(1,2)]]) (use that(3) in blast)+
  have quiet: "wp (sq m k) ?E ?E t"
    if "?I q t" "emits (\<lambda>e. \<not> array_act (backing s) (fail_disk s) (spare_disk s) e) m" "\<And>u. ?I q u \<Longrightarrow> wp k ?E ?E u"
    for q t and m k :: "('a, unit) rd"
    by (rule array.idle_sq[OF that(1,2)]) (use that(3) in blast)+
  have quiet': "wp (bnd m f) ?E ?E t"
    if "?I q t" "emits (\<lambda>e. \<not> array_act (backing s) (fail_disk s) (spare_disk s) e) m" "\<And>x u. ?I q u \<Longrightarrow> wp (f x) ?E ?E u"
    for q t and m :: "('a, 'b) rd" and f :: "'b \<Rightarrow> ('a, unit) rd"
    by (rule array.idle_bnd[OF that(1,2)]) (use that(3) in blast)+
  have call: "wp (bnd (on_sraid (\<lambda>o'. call f [] (x o'))) g) ?E ?E t"
    if "?I q t" "array_step (backing s) (fail_disk s) (spare_disk s) q (Call f []) r" "\<And>y u. ?I r u \<Longrightarrow> wp (g y) ?E ?E u"
    for f q r t and x :: "sraid \<Rightarrow> ('a, bool) ext" and g :: "bool \<Rightarrow> ('a, unit) rd"
    by (rule wp_bnd_step[OF raid_call[OF that(1,2)]]) (use that(3) in blast)+
  show ?thesis
    unfolding test_raid_rebuild_def wp_bnd wp_gets raid_create_def raid_stop_def fail_cmd_def[symmetric] remove_cmd_def[symmetric] add_cmd_def[symmetric]
    apply (rule guard, rule in_state_start)+
    apply (rule quiet, rule in_state_start, rule quiet_log)
    apply (rule call, assumption, rule array_step.assemble)
    apply (rule guard, assumption)
    apply (rule quiet, assumption, rule quiet_log)+
    apply (rule step, assumption, rule array_step.degrade)
    apply (rule quiet, assumption, rule quiet_log)+
    apply (rule step, assumption, rule array_step.pull)
    apply (rule quiet, assumption, rule quiet_log)+
    apply (rule step, assumption, rule array_step.respare)
    apply (rule quiet, assumption, rule quiet_log)
    apply (rule quiet', assumption, rule quiet_rebuild)
    apply (rule guard, assumption)
    apply (rule quiet', assumption, rule quiet_rebuild)
    apply (rule quiet, assumption, rule quiet_log)
    apply (rule guard, assumption)
    apply (rule quiet, assumption, rule quiet_log)
    apply (rule call, assumption, rule array_step.stop)
    apply (rule guard, assumption)
    apply (rule quiet, assumption, rule quiet_rebuild)
    apply (rule quiet', assumption, rule emits)
    apply (rule quiet, assumption, rule quiet_rebuild)
    apply (rule wp_conseq[OF array.idle], assumption, rule quiet_log)
     apply blast+
    done
qed

lemma keeps_rebuild_array:
  "keeps (\<lambda>s. (flags s, sraid_obj s)) (test_raid_rebuild E)"
  unfolding test_raid_rebuild_def raid_create_def raid_stop_def raid_clear_def on_sraid_def mdadm_step_def
    resync_done_def routput_def rrun_def wipe_def rsystem_def
  by (intro keeps) (simp_all add: flags_def)

text \<open>
  The tools as far as a running array depends on them: stopping stops it, and neither clearing the superblocks nor a
  shell command without status check (here \<^verbatim>\<open>wipefs\<close>) starts one.
\<close>

definition stop_stops :: "'w rd_env \<Rightarrow> sraid \<Rightarrow> ('w \<Rightarrow> bool) \<Rightarrow> bool" where
  "stop_stops E r active \<longleftrightarrow> (\<forall>w. \<not> active (snd (sr_stop E r w))) \<and>
     (\<forall>w. \<not> active w \<longrightarrow> \<not> active (snd (sr_clear E r w))) \<and>
     (\<forall>d w. \<not> active w \<longrightarrow> \<not> active (snd (rd_system E (''wipefs -af '' @ d) w)))"

lemma wp_stays_stopped:
  assumes "stop_stops E r active" "sraid_obj t = Some r" "\<not> active (world t)"
  shows "wp (sq (raid_clear E) (bnd (gets all_disks) (\<lambda>all. for_each all (wipe E))))
     (\<lambda>_ u. \<not> active (world u)) (\<lambda>_ u. \<not> active (world u)) t"
proof -
  have wipes: "wp (for_each ds (wipe E)) (\<lambda>_ u. \<not> active (world u)) (\<lambda>_ u. \<not> active (world u)) u"
    if "\<not> active (world u)" for ds u
  proof (rule wp_for_each_inv, rule that)
    fix d and u :: "'a rd_st" assume "\<not> active (world u)"
    then have "\<not> active (snd (rd_system E (''wipefs -af '' @ d) (world u)))" using assms(1) by (simp add: stop_stops_def)
    then show "wp (wipe E d) (\<lambda>_ u. \<not> active (world u)) (\<lambda>_ u. \<not> active (world u)) u"
      by (auto simp: wipe_def rsystem_def wp split: prod.split sum.split)
  qed
  have "\<not> active (snd (sr_clear E r (world t)))" using assms(1,3) by (simp add: stop_stops_def)
  then show ?thesis
    using assms(2) by (auto simp: raid_clear_def on_sraid_def attr_def wp split: prod.split sum.split intro!: wipes)
qed

text \<open>
  C4. The life of the array in the rebuild test with its tearDown: whatever the tools answer and however the
  test ends, the commands sent follow the protocol (the disk is failed only after the array was assembled,
  pulled only after it was failed, the spare added only after that), and after the last command that assembles the
  array comes one that stops it. With tools for which stopping stops the array and wiping does not start one, no
  array is active at the end, however the test ends.
\<close>

theorem rebuild_always_stops_array:
  assumes "flags_clear s" "sraid_obj s = Some r"
  shows "wp (try_finally (test_raid_rebuild E) (rd_tearDown E))
     (\<lambda>_ t. in_state (array_step (backing s) (fail_disk s) (spare_disk s)) Absent (trace s) Absent t \<and>
        (\<forall>active. stop_stops E r active \<longrightarrow> \<not> active (world t)))
     (\<lambda>_ t. in_state (array_step (backing s) (fail_disk s) (spare_disk s)) Absent (trace s) Absent t \<and>
        (\<forall>active. stop_stops E r active \<longrightarrow> \<not> active (world t))) s"
proof -
  let ?I = "in_state (array_step (backing s) (fail_disk s) (spare_disk s)) Absent (trace s)"
  let ?N = "\<lambda>t. \<forall>active. stop_stops E r active \<longrightarrow> \<not> active (world t)"
  let ?A = "\<lambda>_ t. ?I Absent t \<and> ?N t"
  have tear: "wp (rd_tearDown E) ?A ?A t"
    if "\<exists>q. ?I q t" "(flags t, sraid_obj t) = (flags s, sraid_obj s)" for t
  proof -
    from that(1) obtain q where q: "?I q t" by blast
    have f: "\<not> fs_mounted t" "\<not> lv_created t" "sraid_obj t = Some r"
      using that(2) assms by (simp_all add: flags_def flags_clear_def)
    have "wp (raid_stop E) (\<lambda>_. ?I Absent) (\<lambda>_. ?I Absent) t"
      unfolding raid_stop_def on_sraid_def wp_bnd wp_gets f(3) attr_simps lift_simps wp_ret
      by (rule in_state_call[where step = "array_step (backing s) (fail_disk s) (spare_disk s)", OF q array_step.stop])
    moreover have "wp (raid_stop E) (\<lambda>_ u. ?N u \<and> sraid_obj u = Some r) (\<lambda>_ u. ?N u) t"
      using f(3) by (auto simp: raid_stop_def on_sraid_def attr_def wp stop_stops_def split: prod.split sum.split) (metis snd_conv)+
    ultimately have stop: "wp (raid_stop E) (\<lambda>_ u. ?I Absent u \<and> ?N u \<and> sraid_obj u = Some r) ?A t"
      by (rule wp_conj)
    let ?rest = "sq (raid_clear E) (bnd (gets all_disks) (\<lambda>all. for_each all (wipe E)))"
    have rest: "wp ?rest ?A ?A u" if u: "?I Absent u \<and> ?N u \<and> sraid_obj u = Some r" for u
    proof -
      have "wp ?rest (\<lambda>_. ?I Absent) (\<lambda>_. ?I Absent) u"
        by (rule array.idle) (use u in \<open>auto intro!: emits quiet_rebuild\<close>)
      moreover have "wp ?rest (\<lambda>_. ?N) (\<lambda>_. ?N) u"
        using wp_stays_stopped[of E r _ u] u by (fastforce simp: wp_def split: prod.splits sum.splits)
      ultimately show ?thesis by (rule wp_conj)
    qed
    have all: "wp (sq (raid_stop E) ?rest) ?A ?A t"
      by (rule wp_sq_step[OF stop rest]) auto
    have "rd_tearDown E t = sq (raid_stop E) ?rest t"
      by (simp add: rd_tearDown_def bnd_gets_at f whenb_def)
    then show ?thesis using all by (simp only: wp_def)
  qed
  have body: "wp (test_raid_rebuild E)
     (\<lambda>_ t. (\<exists>q. ?I q t) \<and> (flags t, sraid_obj t) = (flags s, sraid_obj s))
     (\<lambda>_ t. (\<exists>q. ?I q t) \<and> (flags t, sraid_obj t) = (flags s, sraid_obj s)) s"
    by (rule wp_conj[OF rebuild_follows wp_keeps[OF keeps_rebuild_array]]) simp_all
  show ?thesis
    unfolding wp_try_finally by (rule wp_conseq[OF body]) (auto intro!: wp_conseq[OF tear])
qed

text \<open>
  A system whose array is active between \<^verbatim>\<open>create\<close> and \<^verbatim>\<open>stop\<close>, and whose \<^verbatim>\<open>mdadm\<close> refuses to add the spare: the
  test fails in the middle of the rebuild, with the array active, and tearDown stops it.
\<close>

definition rebuild_demo :: "bool rd_env" where
  "rebuild_demo = rd_demo\<lparr>sr_create := \<lambda>_ w. (Inr True, True), sr_stop := \<lambda>_ w. (Inr True, False),
     rd_run := \<lambda>c w. (Inr \<lparr>exit_status = (if contains ''--add'' c then 1 else 0), stdout_text = [], stderr_text = ''busy''\<rparr>, w)\<rparr>"

definition rebuild_demo_state :: "bool rd_st" where
  "rebuild_demo_state = rd_demo_state\<lparr>fail_disk := ''/dev/sdc'', spare_disk := ''/dev/sdd''\<rparr>"

theorem rebuild_always_stops_array_witness:
  "(case test_raid_rebuild rebuild_demo rebuild_demo_state of (r, t) \<Rightarrow>
      r = Inl (TestFail ''Failed to add spare /dev/sdd to array: busy'') \<and> world t) \<and>
   (\<exists>r t. try_finally (test_raid_rebuild rebuild_demo) (rd_tearDown rebuild_demo) rebuild_demo_state = (r, t) \<and>
      in_state (array_step ''/dev/md/sraid'' ''/dev/sdc'' ''/dev/sdd'') Absent [] Absent t \<and> \<not> world t)"
proof
  show "case test_raid_rebuild rebuild_demo rebuild_demo_state of (r, t) \<Rightarrow>
      r = Inl (TestFail ''Failed to add spare /dev/sdd to array: busy'') \<and> world t"
    by code_simp
  have "flags_clear rebuild_demo_state" by code_simp
  moreover obtain r where r: "sraid_obj rebuild_demo_state = Some r"
    by (simp add: rebuild_demo_state_def rd_demo_state_def)
  moreover have "stop_stops rebuild_demo r (\<lambda>w. w)"
    by (simp add: stop_stops_def rebuild_demo_def rd_demo_def)
  ultimately have "wp (try_finally (test_raid_rebuild rebuild_demo) (rd_tearDown rebuild_demo))
      (\<lambda>_ t. in_state (array_step ''/dev/md/sraid'' ''/dev/sdc'' ''/dev/sdd'') Absent [] Absent t \<and> \<not> world t)
      (\<lambda>_ t. in_state (array_step ''/dev/md/sraid'' ''/dev/sdc'' ''/dev/sdd'') Absent [] Absent t \<and> \<not> world t) rebuild_demo_state"
    using rebuild_always_stops_array[of rebuild_demo_state r rebuild_demo]
    by (auto simp: rebuild_demo_state_def rd_demo_state_def elim!: wp_conseq)
  then show "\<exists>r t. try_finally (test_raid_rebuild rebuild_demo) (rd_tearDown rebuild_demo) rebuild_demo_state = (r, t) \<and>
      in_state (array_step ''/dev/md/sraid'' ''/dev/sdc'' ''/dev/sdd'') Absent [] Absent t \<and> \<not> world t"
    by (auto simp: wp_def split: prod.splits sum.splits)
qed

end
