(* ===== verification/Die_Topology.thy ===== *)
theory Die_Topology
  imports Avocado
begin

section \<open>CPU die topology (cpu/cpu\_die\_topology.py)\<close>

text \<open>
  The test reads the files in which the kernel tells the die and the package of every processor,
  and checks them against each other; its last part picks two sets of processors, one inside a die
  and one across two dies, and times a benchmark on both. The file system, the commands and the
  libraries are the parameter \<open>dt_env\<close>. Dictionaries are association found_lists in the order of
  insertion, as the messages print them.
\<close>

subsection \<open>External operations and state\<close>

record 'w dt_env =
  dt_arch :: "('w, string) ext"
  online_list :: "('w, int list) ext"
  path_exists :: "string \<Rightarrow> ('w, bool) ext"
  dt_read :: "string \<Rightarrow> ('w, string) ext"
  dt_check :: "string \<Rightarrow> ('w, bool) ext"
  dt_install :: "string \<Rightarrow> ('w, bool) ext"
  dt_fetch :: "string \<Rightarrow> ('w, string) ext"
  dt_makedirs :: "string \<Rightarrow> ('w, unit) ext"
  dt_extract :: "string \<Rightarrow> string \<Rightarrow> ('w, unit) ext"
  dt_chdir :: "string \<Rightarrow> ('w, unit) ext"
  dt_make :: "string \<Rightarrow> string \<Rightarrow> ('w, unit) ext"
  dt_run :: "string \<Rightarrow> ('w, cmd_result) ext"
  dt_workdir :: string
  dt_exn_text :: "exn \<Rightarrow> string"

record 'w dt_st = "'w st" +
  cpus_online :: "int list"
  failures :: "string list option"
  test_type :: pyval
  hackbench_groups :: pyval
  hackbench_loops :: pyval
  hackbench_iterations :: pyval
  hackbench_binary :: "string option"

type_synonym ('w, 'a) dt = "('w dt_st, 'a) py"

subsection \<open>Texts\<close>

definition tuple_text :: "string list \<Rightarrow> string" where
  "tuple_text xs = ''('' @ join '', '' xs @ '')''"

definition int_list_text :: "int list \<Rightarrow> string" where
  "int_list_text xs = brackets (map str_int xs)"

subsection \<open>Dictionaries\<close>

fun dict_set :: "('k \<times> 'v) list \<Rightarrow> 'k \<Rightarrow> 'v \<Rightarrow> ('k \<times> 'v) list" where
  "dict_set [] k v = [(k, v)]"
| "dict_set ((a, b) # d) k v = (if a = k then (a, v) # d else (a, b) # dict_set d k v)"

text \<open>\<^verbatim>\<open>if k not in d: d[k] = []\<close>, then \<^verbatim>\<open>d[k].append(v)\<close>.\<close>

fun group_add :: "('k \<times> 'v list) list \<Rightarrow> 'k \<Rightarrow> 'v \<Rightarrow> ('k \<times> 'v list) list" where
  "group_add [] k v = [(k, [v])]"
| "group_add ((a, b) # d) k v = (if a = k then (a, b @ [v]) # d else (a, b) # group_add d k v)"

subsection \<open>setUp and the reader\<close>

definition dt_param :: "(string \<rightharpoonup> pyval) \<Rightarrow> string \<Rightarrow> pyval \<Rightarrow> pyval" where
  "dt_param params k d = (case params k of None \<Rightarrow> d | Some v \<Rightarrow> v)"

definition dt_setUp :: "'w dt_env \<Rightarrow> (string \<rightharpoonup> pyval) \<Rightarrow> ('w, unit) dt" where
  "dt_setUp E params =
     bnd (call ''distro.detect'' [] (dt_arch E)) (\<lambda>arch.
     sq (whenb (\<not> contains ''ppc'' arch) (cancel ''Test is specific to PowerPC architecture''))
    (sq (modify (\<lambda>s. s\<lparr>failures := Some []\<rparr>))
    (bnd (call ''cpu.online_list'' [] (online_list E)) (\<lambda>cpus.
     sq (modify (\<lambda>s. s\<lparr>cpus_online := cpus\<rparr>))
    (sq (whenb (cpus = []) (cancel ''No online CPUs found''))
    (sq (log Info (''Testing with '' @ str_int (int (length cpus)) @ '' online CPUs''))
    (sq (modify (\<lambda>s. s\<lparr>test_type := dt_param params ''test_type'' (VStr ''topology'')\<rparr>))
        (whenb (veq (dt_param params ''test_type'' (VStr ''topology'')) (VStr ''performance''))
          (modify (\<lambda>s. s\<lparr>hackbench_groups := dt_param params ''hackbench_groups'' (VStr ''20''),
             hackbench_loops := dt_param params ''hackbench_loops'' (VStr ''2000''),
             hackbench_iterations := dt_param params ''hackbench_iterations'' (VStr ''4''),
             hackbench_binary := None\<rparr>))))))))))"

definition topology_path :: "int \<Rightarrow> string \<Rightarrow> string" where
  "topology_path c file = ''/sys/devices/system/cpu/cpu'' @ str_int c @ ''/topology/'' @ file"

definition read_topology_file :: "'w dt_env \<Rightarrow> int \<Rightarrow> string \<Rightarrow> ('w, string option) dt" where
  "read_topology_file E c file =
    (let path = topology_path c file in
     bnd (call ''exists'' [path] (path_exists E path)) (\<lambda>b.
     if \<not> b then ret None
     else try_except
            (bnd (call ''read_file'' [path] (dt_read E path)) (\<lambda>content. ret (Some (strip content))))
            (\<lambda>e. sq (log Error (''Failed to read '' @ file @ '' for CPU'' @ str_int c @ '': '' @ dt_exn_text E e))
                    (ret None))))"

definition cpu_msg :: "int \<Rightarrow> string \<Rightarrow> string" where
  "cpu_msg c m = ''CPU'' @ str_int c @ '': '' @ m"

subsection \<open>Presence and validity\<close>

definition test_die_id_presence :: "'w dt_env \<Rightarrow> ('w, unit) dt" where
  "test_die_id_presence E =
     sq (log Info ''Test 1: Checking die_id presence for all online CPUs'')
    (bnd (gets cpus_online) (\<lambda>cpus.
     bnd (for_acc cpus (\<lambda>c missing.
            bnd (read_topology_file E c ''die_id'') (\<lambda>r. case r of
              None \<Rightarrow> sq (log Warning (cpu_msg c ''die_id file not found'')) (ret (missing @ [c]))
            | Some d \<Rightarrow> sq (log Debug (cpu_msg c (''die_id = '' @ d))) (ret missing))) []) (\<lambda>missing.
     if missing \<noteq> [] then
       log Info ''Note: die_id may not be available on systems without coregroup support (returns -1)''
     else log Info ''PASS: die_id present for all online CPUs'')))"

definition test_die_cpumask_presence :: "'w dt_env \<Rightarrow> ('w, unit) dt" where
  "test_die_cpumask_presence E =
     sq (log Info ''Test 2: Checking die_cpus and die_cpus_list presence'')
    (bnd (gets cpus_online) (\<lambda>cpus.
     bnd (for_acc (take 1 cpus) (\<lambda>c missing.
            bnd (read_topology_file E c ''die_cpus'') (\<lambda>a.
            bnd (read_topology_file E c ''die_cpus_list'') (\<lambda>b.
            ret (missing @ (if a = None then [cpu_msg c ''die_cpus''] else []) @
                 (if b = None then [cpu_msg c ''die_cpus_list''] else []))))) []) (\<lambda>missing.
     if missing \<noteq> [] then log Info ''Note: die_cpus/die_cpus_list may not be available on all systems''
     else log Info ''PASS: die_cpus and die_cpus_list files present'')))"

text \<open>A recorded failure: the message is kept for \<^verbatim>\<open>tearDown\<close>, then the test fails.\<close>

definition record_failure :: "string \<Rightarrow> string \<Rightarrow> ('w, unit) dt" where
  "record_failure kept msg =
     bnd (gets failures) (\<lambda>f. bnd (lift (attr f)) (\<lambda>fs.
     sq (modify (\<lambda>s. s\<lparr>failures := Some (fs @ [kept])\<rparr>)) (fail msg)))"

definition blanks :: "nat \<Rightarrow> string" where
  "blanks n = replicate n (CHR '' '')"

datatype bad_id = BadNumber int | BadText string

fun bad_text :: "int \<times> bad_id \<Rightarrow> string" where
  "bad_text (c, BadNumber d) = tuple_text [str_int c, str_int d]"
| "bad_text (c, BadText t) = tuple_text [str_int c, repr_str t]"

definition validity_step ::
  "'w dt_env \<Rightarrow> int \<Rightarrow> (int \<times> bad_id) list \<times> (int \<times> int) list \<Rightarrow>
   ('w, (int \<times> bad_id) list \<times> (int \<times> int) list) dt" where
  "validity_step E c acc =
     bnd (read_topology_file E c ''die_id'') (\<lambda>r. case r of
       None \<Rightarrow> ret acc
     | Some t \<Rightarrow> (case py_int t of
         Inr d \<Rightarrow>
           (if d < - 1 then
              sq (log Error (cpu_msg c (''Invalid die_id = '' @ str_int d)))
                 (ret (fst acc @ [(c, BadNumber d)], dict_set (snd acc) c d))
            else
              sq (log Debug (cpu_msg c (''die_id = '' @ str_int d)))
                 (ret (fst acc, dict_set (snd acc) c d)))
       | Inl _ \<Rightarrow>
           sq (log Error (cpu_msg c (''Non-numeric die_id = '' @ t)))
              (ret (fst acc @ [(c, BadText t)], snd acc))))"

definition test_die_id_validity :: "'w dt_env \<Rightarrow> ('w, (int \<times> int) list) dt" where
  "test_die_id_validity E =
     sq (log Info ''Test 3: Validating die_id values'')
    (bnd (gets cpus_online) (\<lambda>cpus.
     bnd (for_acc cpus (validity_step E) ([], [])) (\<lambda>(invalid, die_id_map).
     sq (if invalid \<noteq> [] then
           record_failure (''Invalid die_id values found: '' @ blanks 33 @ brackets (map bad_text invalid))
             (''FAIL: Invalid die_id values: '' @ brackets (map bad_text invalid))
         else log Info ''PASS: All die_id values are valid'')
        (ret die_id_map))))"

subsection \<open>Consistency\<close>

definition groups_step ::
  "'w dt_env \<Rightarrow> (int \<Rightarrow> bool) \<Rightarrow> int \<Rightarrow> (int \<times> int list) list \<Rightarrow> ('w, (int \<times> int list) list) dt" where
  "groups_step E wanted c groups =
     bnd (read_topology_file E c ''die_id'') (\<lambda>r. ret (case r of
       None \<Rightarrow> groups
     | Some t \<Rightarrow> (case py_int t of
         Inr d \<Rightarrow> if wanted d then group_add groups d c else groups
       | Inl _ \<Rightarrow> groups)))"

definition die_groups :: "'w dt_env \<Rightarrow> (int \<Rightarrow> bool) \<Rightarrow> ('w, (int \<times> int list) list) dt" where
  "die_groups E wanted =
     bnd (gets cpus_online) (\<lambda>cpus. for_acc cpus (groups_step E wanted) [])"

definition lists_text :: "int \<times> (int \<times> string) list \<Rightarrow> string" where
  "lists_text p = ''{'' @ join '', '' (map (\<lambda>(c, t). str_int c @ '': '' @ repr_str t) (snd p)) @ ''}''"

definition list_step :: "'w dt_env \<Rightarrow> int \<Rightarrow> (int \<times> string) list \<Rightarrow> ('w, (int \<times> string) list) dt" where
  "list_step E c found_lists =
     bnd (read_topology_file E c ''die_cpus_list'') (\<lambda>r. ret (case r of
       None \<Rightarrow> found_lists
     | Some t \<Rightarrow> if t \<noteq> [] then dict_set found_lists c t else found_lists))"

definition consistency_step ::
  "'w dt_env \<Rightarrow> int \<times> int list \<Rightarrow> (int \<times> (int \<times> string) list) list \<Rightarrow>
   ('w, (int \<times> (int \<times> string) list) list) dt" where
  "consistency_step E p bad =
     (case p of (die_id, cpus) \<Rightarrow>
        if die_id = - 1 then
          sq (log Debug ''Skipping die_id -1 (no coregroup support)'') (ret bad)
        else
          sq (log Debug (''Checking die '' @ str_int die_id @ '' with CPUs: '' @ int_list_text cpus))
         (bnd (for_acc cpus (list_step E) []) (\<lambda>found_lists.
          if card (set (map snd found_lists)) > 1 then
            sq (log Error (''Die '' @ str_int die_id @ '': Inconsistent die_cpus_list: '' @ lists_text (die_id, found_lists)))
               (ret (bad @ [(die_id, found_lists)]))
          else ret bad)))"

definition test_die_cpumask_consistency :: "'w dt_env \<Rightarrow> ('w, unit) dt" where
  "test_die_cpumask_consistency E =
     sq (log Info ''Test 4: Checking die_cpumask consistency'')
    (bnd (die_groups E (\<lambda>_. True)) (\<lambda>groups.
     sq (log Info (''Found '' @ str_int (int (length groups)) @ '' die groups''))
    (bnd (for_acc groups (consistency_step E) []) (\<lambda>bad.
     let t = brackets (map (\<lambda>p. tuple_text [str_int (fst p), lists_text p]) bad) in
     if bad \<noteq> [] then
       record_failure (''Inconsistent die_cpumask: '' @ blanks 33 @ t)
         (''FAIL: Inconsistent die_cpumask found: '' @ blanks 22 @ t)
     else log Info ''PASS: die_cpumask is consistent across all dies''))))"

text \<open>
  The package of a die is that of the first processor seen in it. The state of the loop is the
  dictionary of the packages and the list of violations.
\<close>

type_synonym violation = "int \<times> int \<times> int \<times> int"

fun package_check ::
  "int \<Rightarrow> int \<Rightarrow> int \<Rightarrow> (int \<times> int) list \<times> violation list \<Rightarrow> (int \<times> int) list \<times> violation list" where
  "package_check c d p (pkgs, bad) =
     (if d = - 1 then (pkgs, bad)
      else (case map_of pkgs d of
              None \<Rightarrow> (dict_set pkgs d p, bad)
            | Some q \<Rightarrow> if q \<noteq> p then (pkgs, bad @ [(c, d, p, q)]) else (pkgs, bad)))"

fun violation_msg :: "violation \<Rightarrow> string" where
  "violation_msg (c, d, p, q) =
     cpu_msg c (''die_id='' @ str_int d @ '' has package_id='' @ str_int p @ '', expected '' @ str_int q)"

fun violation_text :: "violation \<Rightarrow> string" where
  "violation_text (c, d, p, q) = tuple_text [str_int c, str_int d, str_int p, str_int q]"

definition package_step ::
  "'w dt_env \<Rightarrow> int \<Rightarrow> (int \<times> int) list \<times> violation list \<Rightarrow> ('w, (int \<times> int) list \<times> violation list) dt" where
  "package_step E c acc =
     bnd (read_topology_file E c ''die_id'') (\<lambda>a.
     bnd (read_topology_file E c ''physical_package_id'') (\<lambda>b.
     case (a, b) of
       (Some s, Some t) \<Rightarrow>
         (case (py_int s, py_int t) of
            (Inr d, Inr p) \<Rightarrow>
              (let acc' = package_check c d p acc
               in sq (if snd acc' \<noteq> snd acc then log Error (violation_msg (last (snd acc'))) else ret ())
                     (ret acc'))
          | _ \<Rightarrow> ret acc)
     | _ \<Rightarrow> ret acc))"

definition test_die_package_relationship :: "'w dt_env \<Rightarrow> ('w, unit) dt" where
  "test_die_package_relationship E =
     sq (log Info ''Test 5: Checking die and physical_package relationship'')
    (bnd (gets cpus_online) (\<lambda>cpus.
     bnd (for_acc cpus (package_step E) ([], [])) (\<lambda>(pkgs, bad).
     let t = brackets (map violation_text bad) in
     if bad \<noteq> [] then
       record_failure (''Die-Package relationship violations: '' @ blanks 33 @ t)
         (''FAIL: Die-Package relationship violations: '' @ blanks 22 @ t)
     else log Info ''PASS: All CPUs in same die are in same package'')))"

definition test_cpu_die_mask_function :: "'w dt_env \<Rightarrow> ('w, unit) dt" where
  "test_cpu_die_mask_function E =
     sq (log Info ''Test 6: Testing cpu_die_mask() function behavior'')
    (bnd (gets cpus_online) (\<lambda>cpus.
     bnd (for_ret (take 1 cpus) (\<lambda>c.
            bnd (read_topology_file E c ''die_id'') (\<lambda>r. case r of
              None \<Rightarrow> ret None
            | Some t \<Rightarrow>
                if t = [] then ret None
                else bnd (lift (py_int t)) (\<lambda>d. ret (if d \<ge> 0 then Some () else None))))) (\<lambda>found.
     if found \<noteq> None then
       sq (log Info ''System has coregroup support (die_id >= 0)'')
          (for_each (take 5 cpus) (\<lambda>c.
             bnd (read_topology_file E c ''die_cpus'') (\<lambda>r. case r of
               None \<Rightarrow> ret ()
             | Some t \<Rightarrow> whenb (t \<noteq> []) (log Debug (cpu_msg c (''die_cpus = '' @ t))))))
     else
       sq (log Info (''System doesn'' @ [CHR 0x27] @ ''t have coregroup support(die_id = -1)''))
          (log Info ''On such systems, die_mask equals package mask''))))"

subsection \<open>The benchmark\<close>

definition caught :: "'w dt_env \<Rightarrow> string \<Rightarrow> ('w, 'a) dt \<Rightarrow> ('w, 'a option) dt" where
  "caught E msg m =
     try_except (bnd m (\<lambda>x. ret (Some x)))
       (\<lambda>e. sq (log Error (msg @ dt_exn_text E e)) (ret None))"

definition dt_package :: "'w dt_env \<Rightarrow> string \<Rightarrow> ('w, unit option) dt" where
  "dt_package E pkg =
     bnd (call ''check_installed'' [pkg] (dt_check E pkg)) (\<lambda>b.
     if b then ret None
     else bnd (call ''install'' [pkg] (dt_install E pkg)) (\<lambda>b'.
          if b' then ret None else sq (log Warning (''Failed to install '' @ pkg)) (ret (Some ()))))"

definition build_hackbench :: "'w dt_env \<Rightarrow> string \<Rightarrow> ('w, unit) dt" where
  "build_hackbench E base =
    (let dir = base @ ''/testcases/kernel/sched/cfs-scheduler'' in
     sq (call ''chdir'' [base] (dt_chdir E base))
    (sq (call ''make'' [base, ''autotools''] (dt_make E base ''autotools''))
    (sq (call ''run'' [''./configure''] (dt_run E ''./configure''))
    (sq (call ''chdir'' [dir] (dt_chdir E dir))
        (call ''make'' [dir, []] (dt_make E dir []))))))"

definition setup_hackbench :: "'w dt_env \<Rightarrow> (string \<rightharpoonup> pyval) \<Rightarrow> ('w, string option) dt" where
  "setup_hackbench E params =
     sq (log Info ''Setting up hackbench benchmark'')
    (bnd (for_ret [''gcc'', ''make'', ''wget''] (dt_package E)) (\<lambda>failed.
     if failed \<noteq> None then ret None
     else
       let url = vstr (dt_param params ''ltp_url''
                   (VStr ''https://github.com/linux-test-project/ltp/archive/master.zip''));
           ltpdir = dt_workdir E @ ''/ltp''; base = ltpdir @ ''/ltp-master'';
           dir = base @ ''/testcases/kernel/sched/cfs-scheduler'';
           binary = dir @ ''/hackbench'' in
       bnd (caught E ''Failed to download LTP: '' (call ''fetch_asset'' [url] (dt_fetch E url))) (\<lambda>t.
       case t of None \<Rightarrow> ret None | Some tarball \<Rightarrow>
       bnd (call ''exists'' [ltpdir] (path_exists E ltpdir)) (\<lambda>b.
       sq (whenb (\<not> b) (call ''makedirs'' [ltpdir] (dt_makedirs E ltpdir)))
      (bnd (caught E ''Failed to extract LTP: '' (call ''extract'' [tarball, ltpdir] (dt_extract E tarball ltpdir))) (\<lambda>x.
       case x of None \<Rightarrow> ret None | Some _ \<Rightarrow>
       bnd (call ''exists'' [dir] (path_exists E dir)) (\<lambda>b.
       if \<not> b then sq (log Error (''Hackbench directory not found: '' @ dir)) (ret None)
       else
         bnd (caught E ''Failed to build hackbench: '' (build_hackbench E base)) (\<lambda>y.
         case y of None \<Rightarrow> ret None | Some _ \<Rightarrow>
         bnd (call ''exists'' [binary] (path_exists E binary)) (\<lambda>b.
         if b then sq (log Info (''Hackbench binary ready: '' @ binary)) (ret (Some binary))
         else sq (log Error ''Hackbench binary not found after build'') (ret None))))))))))"

text \<open>\<^verbatim>\<open>re.search\<close> of \<^verbatim>\<open>Time:\s+([\d.]+)\<close>.\<close>

fun search_time :: "string \<Rightarrow> string option" where
  "search_time [] = None"
| "search_time (c # s) =
     (let rest = drop 4 s; sp = takeWhile is_space rest;
          g = takeWhile (\<lambda>c. is_digit c \<or> c = CHR ''.'') (dropWhile is_space rest)
      in if startswith (c # s) ''Time:'' \<and> sp \<noteq> [] \<and> g \<noteq> [] then Some g else search_time s)"

definition hackbench_cmd :: "int list \<Rightarrow> string \<Rightarrow> string \<Rightarrow> string \<Rightarrow> string" where
  "hackbench_cmd cpus binary groups loops =
     ''taskset -c '' @ join '','' (map str_int cpus) @ '' '' @ binary @ '' '' @ groups @ '' process '' @ loops"

definition run_hackbench :: "'w dt_env \<Rightarrow> int list \<Rightarrow> int \<Rightarrow> ('w, rat option) dt" where
  "run_hackbench E cpus i =
    (let missing = sq (log Error ''Hackbench binary not available'') (ret None) in
     bnd (gets hackbench_binary) (\<lambda>bo.
     case bo of None \<Rightarrow> missing | Some binary \<Rightarrow>
     if binary = [] then missing else
     bnd (call ''exists'' [binary] (path_exists E binary)) (\<lambda>b.
     if \<not> b then missing
     else
       bnd (gets hackbench_groups) (\<lambda>g. bnd (gets hackbench_loops) (\<lambda>l.
       let cmd = hackbench_cmd cpus binary (vstr g) (vstr l) in
       sq (log Debug (''Running: '' @ cmd))
          (try_except
             (bnd (call ''run'' [cmd] (dt_run E cmd)) (\<lambda>result.
              case search_time (stdout_text result) of
                Some t \<Rightarrow>
                  bnd (lift (py_float t)) (\<lambda>exec_time.
                  sq (log Info (''Iteration '' @ str_int i @ '' (CPUs '' @ join '','' (map str_int cpus) @
                                ''): Time = '' @ fixed 3 exec_time @ '' sec''))
                     (ret (Some exec_time)))
              | None \<Rightarrow> sq (log Error ''Failed to parse time from hackbench'') (ret None)))
             (\<lambda>e. sq (log Error (''Hackbench execution failed: '' @ dt_exn_text E e)) (ret None))))))))"

definition get_die_cpu_list :: "'w dt_env \<Rightarrow> int \<Rightarrow> ('w, int list) dt" where
  "get_die_cpu_list E die_id =
     bnd (gets cpus_online) (\<lambda>cpus.
     bnd (for_acc cpus (\<lambda>c acc.
            bnd (read_topology_file E c ''die_id'') (\<lambda>r. case r of
              None \<Rightarrow> ret acc
            | Some t \<Rightarrow>
                if t = [] then ret acc
                else bnd (lift (py_int t)) (\<lambda>d. ret (if d = die_id then acc @ [c] else acc)))) []) (\<lambda>cs.
     ret (sort cs)))"

subsection \<open>The choice of the processors\<close>

text \<open>
  The dies are sorted by their number of processors, the largest first; dies of equal size keep
  their order. The first two give the sets: up to 16 processors of the first, and 8 of each.
\<close>

definition sort_dies :: "(int \<times> int list) list \<Rightarrow> (int \<times> int list) list" where
  "sort_dies groups = sort_key (\<lambda>g. - int (length (snd g))) groups"

definition same_die :: "int list \<Rightarrow> int list" where
  "same_die cpus0 = take (min 16 (length cpus0)) (sort cpus0)"

definition cross_die :: "int list \<Rightarrow> int list \<Rightarrow> int list" where
  "cross_die cpus0 cpus1 =
     sort (take (min 8 (length cpus0)) (sort cpus0) @ take (min 8 (length cpus1)) (sort cpus1))"

definition select_test_cpu_sets :: "'w dt_env \<Rightarrow> ('w, (int list \<times> int list) option) dt" where
  "select_test_cpu_sets E =
     bnd (die_groups E (\<lambda>d. d \<ge> 0)) (\<lambda>groups.
     case sort_dies groups of
       (die0, cpus0) # (die1, cpus1) # _ \<Rightarrow>
         if length cpus0 < 8 \<or> length cpus1 < 8 then
           sq (log Info ''Need at least 8 CPUs in each of 2 dies'') (ret None)
         else
           sq (log Info (''Selected '' @ str_int (int (min 16 (length cpus0))) @ '' same-die CPUs from die '' @
                         str_int die0 @ '': '' @ int_list_text (same_die cpus0)))
          (sq (log Info (''Selected '' @ str_int (int (length (cross_die cpus0 cpus1))) @
                         '' cross-die CPUs from dies '' @ str_int die0 @ '' and '' @ str_int die1 @ '': '' @
                         int_list_text (cross_die cpus0 cpus1)))
              (ret (Some (same_die cpus0, cross_die cpus0 cpus1))))
     | _ \<Rightarrow> sq (log Info ''System has less than 2 dies, skipping performance test'') (ret None))"

text \<open>\<^verbatim>\<open>sum(ts) / len(ts)\<close> for a list of floats that is not empty, added from the left.\<close>

definition average :: "rat list \<Rightarrow> rat" where
  "average ts = fl_div (foldl fl_add 0 ts) (of_nat (length ts))"

definition run_times :: "'w dt_env \<Rightarrow> int list \<Rightarrow> ('w, rat list) dt" where
  "run_times E cpus =
     bnd (gets hackbench_iterations) (\<lambda>v.
     bnd (lift (vint v)) (\<lambda>n.
     for_acc (py_range3 1 (n + 1) 1) (\<lambda>i ts.
       bnd (run_hackbench E cpus i) (\<lambda>r.
       ret (case r of None \<Rightarrow> ts | Some x \<Rightarrow> if x \<noteq> 0 then ts @ [x] else ts))) []))"

definition none_text :: "string option \<Rightarrow> string" where
  "none_text r = (case r of None \<Rightarrow> ''None'' | Some t \<Rightarrow> t)"

definition rule_line :: "char \<Rightarrow> string" where
  "rule_line c = replicate 60 c"

definition show_cpu :: "'w dt_env \<Rightarrow> int \<Rightarrow> ('w, unit) dt" where
  "show_cpu E c =
     bnd (read_topology_file E c ''die_id'') (\<lambda>d.
     bnd (read_topology_file E c ''die_cpus_list'') (\<lambda>l.
     log Info (''  CPU'' @ str_int c @ '' - Die ID: '' @ none_text d @ '', Die CPUs: '' @ none_text l)))"

definition show_sets :: "'w dt_env \<Rightarrow> int list \<Rightarrow> int list \<Rightarrow> ('w, unit) dt" where
  "show_sets E same cross =
     sq (log Info (''Same-die CPU set: '' @ int_list_text same))
    (bnd (lift (py_nth same 0)) (\<lambda>c.
     bnd (read_topology_file E c ''die_id'') (\<lambda>d.
     bnd (read_topology_file E c ''die_cpus_list'') (\<lambda>l.
     sq (log Info (''  Die ID: '' @ none_text d))
    (sq (log Info (''  Die CPUs list: '' @ none_text l))
    (sq (log Info (''Cross-die CPU set: '' @ int_list_text cross))
    (bnd (lift (rbind (py_nth cross 0) (\<lambda>a. rbind (py_nth cross 8) (\<lambda>b. Inr [a, b])))) (\<lambda>cs.
     for_each cs (show_cpu E)))))))))"

text \<open>The slowdown of the second set in per cent of the first, and how it is reported.\<close>

definition degradation :: "rat \<Rightarrow> rat \<Rightarrow> rat" where
  "degradation same_avg cross_avg = fl_mul (fl_div (fl_sub cross_avg same_avg) same_avg) 100"

definition show_times :: "string \<Rightarrow> rat list \<Rightarrow> ('w, unit) dt" where
  "show_times what ts =
     sq (log Info (what @ '' execution:''))
    (sq (log Info (''  Times: '' @ brackets (map (\<lambda>t. repr_str (fixed 3 t)) ts)))
    (sq (log Info (''  Average: '' @ fixed 3 (average ts) @ '' sec''))
        (log Info (''  Min: '' @ fixed 3 (Min (set ts)) @ '' sec, Max: '' @ fixed 3 (Max (set ts)) @ '' sec''))))"

definition report_impact :: "rat \<Rightarrow> rat \<Rightarrow> ('w, unit) dt" where
  "report_impact same_avg cross_avg =
     whenb (same_avg > 0)
       (let p = degradation same_avg cross_avg in
        sq (log Info (rule_line (CHR ''-'')))
       (sq (log Info ''Performance Impact:'')
       (sq (log Info ('' Cross-die execution is '' @ fixed 1 p @ ''% slower than same-die''))
           (if p > 10 then
              sq (log Info '' SIGNIFICANT: Cross-die penalty > 10%%'')
             (sq (log Info '' This validates the importance of die topology'')
                 (log Info '' information for workload placement''))
            else if p > 0 then log Info '' MODERATE: Cross-die penalty detected''
            else log Info '' No significant cross-die penalty observed''))))"

definition test_die_performance_benefit :: "'w dt_env \<Rightarrow> (string \<rightharpoonup> pyval) \<Rightarrow> ('w, unit) dt" where
  "test_die_performance_benefit E params =
     bnd (gets test_type) (\<lambda>ty.
     sq (whenb (\<not> veq ty (VStr ''performance''))
           (cancel (''Performance test not enabled (test_type='' @ vstr ty @ '')'')))
    (sq (log Info ''Test 7: Validating die topology performance'')
    (sq (log Info (rule_line (CHR ''='')))
    (bnd (setup_hackbench E params) (\<lambda>binary.
     sq (modify (\<lambda>s. s\<lparr>hackbench_binary := binary\<rparr>))
    (sq (whenb (binary = None \<or> binary = Some []) (cancel ''Hackbench setup failed - required for test''))
    (bnd (select_test_cpu_sets E) (\<lambda>sets.
     let too_small = cancel (''Could not select appropriate CPU sets for'' @
           ''testing (need system with 2+ dies, each with 8+ CPUs)'') in
     case sets of
       None \<Rightarrow> too_small
     | Some (same, cross) \<Rightarrow>
         sq (whenb (same = [] \<or> cross = []) too_small)
        (sq (show_sets E same cross)
        (sq (log Info (rule_line (CHR ''-'')))
        (sq (log Info (''Running same-die tests (CPUs '' @ str_int (Min (set same)) @ ''-'' @
                       str_int (Max (set same)) @ '')''))
        (bnd (run_times E same) (\<lambda>same_times.
         sq (log Info (rule_line (CHR ''-'')))
        (sq (log Info (''Running cross-die tests (CPUs '' @ int_list_text cross @ '')''))
        (bnd (run_times E cross) (\<lambda>cross_times.
         sq (log Info (rule_line (CHR ''='')))
        (sq (log Info ''Performance Analysis'')
        (sq (log Info (rule_line (CHR ''='')))
        (sq (whenb (same_times = [] \<or> cross_times = [])
              (fail ''Insufficient data for performance analysis - hackbench runs failed''))
        (sq (show_times ''Same-die'' same_times)
        (sq (show_times ''Cross-die'' cross_times)
        (sq (report_impact (average same_times) (average cross_times))
        (sq (log Info (rule_line (CHR ''='')))
            (log Info ''PASS: Performance test completed successfully''))))))))))))))))))))))))"

definition dt_tearDown :: "('w, unit) dt" where
  "dt_tearDown =
     bnd (gets failures) (\<lambda>f. bnd (lift (attr f)) (\<lambda>fs.
     whenb (fs \<noteq> [])
       (sq (log Error (rule_line (CHR ''='')))
       (sq (log Error (''Test completed with '' @ str_int (int (length fs)) @ '' failures:''))
       (sq (for_each fs (\<lambda>m. log Error (''  - '' @ m)))
       (sq (log Error (rule_line (CHR ''='')))
           (fail ''CPU die topology validation failed'')))))))"

end
