(* ===== verification/Die_Props.thy ===== *)
theory Die_Props
  imports Die_Topology "HOL-Library.Multiset"
begin

section \<open>Properties of the die topology test\<close>

text \<open>
  The loops of the test look at one processor at a time and keep dictionaries. Here each of them is
  shown to decide the property of the whole machine it is named after, for a kernel whose topology
  files do not change while they are read.
\<close>

subsection \<open>Topology files that do not change\<close>

text \<open>\<open>f path\<close> is the content of a file, or \<open>None\<close> when it does not exist.\<close>

definition sysfs :: "'w dt_env \<Rightarrow> (string \<Rightarrow> string option) \<Rightarrow> bool" where
  "sysfs E f \<longleftrightarrow>
     (\<forall>path w. path_exists E path w = (Inr (f path \<noteq> None), w)) \<and>
     (\<forall>path t w. f path = Some t \<longrightarrow> dt_read E path w = (Inr t, w))"

definition topo :: "(string \<Rightarrow> string option) \<Rightarrow> string \<Rightarrow> int \<Rightarrow> string option" where
  "topo f file c = map_option strip (f (topology_path c file))"

definition topo_int :: "(string \<Rightarrow> string option) \<Rightarrow> string \<Rightarrow> int \<Rightarrow> int option" where
  "topo_int f file c =
     (case topo f file c of None \<Rightarrow> None | Some t \<Rightarrow> (case py_int t of Inr n \<Rightarrow> Some n | Inl _ \<Rightarrow> None))"

abbreviation die_of :: "(string \<Rightarrow> string option) \<Rightarrow> int \<Rightarrow> int option" where
  "die_of f \<equiv> topo_int f ''die_id''"

abbreviation package_of :: "(string \<Rightarrow> string option) \<Rightarrow> int \<Rightarrow> int option" where
  "package_of f \<equiv> topo_int f ''physical_package_id''"

text \<open>Only the trace has grown.\<close>

definition logged :: "('w, 'm) st_scheme \<Rightarrow> ('w, 'm) st_scheme \<Rightarrow> bool" where
  "logged s t \<longleftrightarrow> t = s\<lparr>trace := trace t\<rparr>"

abbreviation (input) no_exn :: "exn \<Rightarrow> 's \<Rightarrow> bool" where
  "no_exn \<equiv> \<lambda>_ _. False"

lemma logged_refl [simp]: "logged s s"
  by (simp add: logged_def)

lemma logged_trace [simp]: "logged s (t\<lparr>trace := tr\<rparr>) \<longleftrightarrow> logged s t"
  by (metis (no_types, lifting) logged_def st.select_convs(2) st.surjective st.update_convs(2))

lemma logged_fields:
  "logged s t \<Longrightarrow> cpus_online t = cpus_online s" "logged s t \<Longrightarrow> failures t = failures s"
  by (metis dt_st.select_convs logged_def dt_st.ext_inject dt_st.surjective st.update_convs(2))+

lemma wp_read:
  assumes "sysfs E f" "logged s t"
  shows "wp (read_topology_file E c file) (\<lambda>r u. r = topo f file c \<and> logged s u) no_exn t"
  using assms
  by (auto simp: read_topology_file_def Let_def wp sysfs_def topo_def split: option.split)

lemma wp_bnd_read:
  assumes "sysfs E f" "logged s t" "\<And>u. logged s u \<Longrightarrow> wp (k (topo f file c)) Q R u"
  shows "wp (bnd (read_topology_file E c file) k) Q R t"
  unfolding wp_bnd by (rule wp_conseq[OF wp_read[OF assms(1,2)]]) (use assms(3) in auto)

lemma wp_fold:
  assumes "\<And>c a t. c \<in> set cs \<Longrightarrow> logged s t \<Longrightarrow> wp (step c a) (\<lambda>b u. b = F c a \<and> logged s u) no_exn t"
    and "logged s t"
  shows "wp (for_acc cs step a) (\<lambda>b u. b = fold F cs a \<and> logged s u) no_exn t"
proof -
  have "wp (for_acc cs step a) (\<lambda>b u. b = fold F cs a \<and> logged s u) no_exn t"
    by (rule wp_for_acc[where I = "\<lambda>ys b u. b = fold F ys a \<and> logged s u"])
       (use assms in \<open>auto intro!: wp_conseq[OF assms(1)]\<close>)
  then show ?thesis .
qed

subsection \<open>The dies\<close>

text \<open>The processors of a die, in the order of the list.\<close>

definition die_cpus :: "(string \<Rightarrow> string option) \<Rightarrow> int list \<Rightarrow> int \<Rightarrow> int list" where
  "die_cpus f cpus d = filter (\<lambda>c. die_of f c = Some d) cpus"

definition group_of :: "(string \<Rightarrow> string option) \<Rightarrow> (int \<Rightarrow> bool) \<Rightarrow> int \<Rightarrow> (int \<times> int list) list \<Rightarrow> (int \<times> int list) list"
where
  "group_of f wanted c groups =
     (case die_of f c of None \<Rightarrow> groups | Some d \<Rightarrow> if wanted d then group_add groups d c else groups)"

lemma map_of_group_add:
  "map_of (group_add g k v) = (map_of g)(k \<mapsto> (case map_of g k of None \<Rightarrow> [v] | Some b \<Rightarrow> b @ [v]))"
  by (induction g k v rule: group_add.induct) (auto simp: fun_eq_iff)

lemma keys_group_add: "set (map fst (group_add g k v)) = insert k (set (map fst g))"
  by (induction g k v rule: group_add.induct) auto

lemma distinct_group_add: "distinct (map fst g) \<Longrightarrow> distinct (map fst (group_add g k v))"
proof (induction g k v rule: group_add.induct)
  case (2 a b d k v)
  then show ?case using keys_group_add[of d k v] by auto
qed simp

lemma groups_fold:
  "distinct (map fst (fold (group_of f wanted) cpus [])) \<and>
   (\<forall>d. map_of (fold (group_of f wanted) cpus []) d =
      (if wanted d \<and> die_cpus f cpus d \<noteq> [] then Some (die_cpus f cpus d) else None))"
proof (induction cpus rule: rev_induct)
  case Nil
  then show ?case by (simp add: die_cpus_def)
next
  case (snoc c cpus)
  let ?g = "fold (group_of f wanted) cpus []"
  show ?case
  proof (cases "die_of f c")
    case None
    with snoc show ?thesis by (simp add: group_of_def die_cpus_def)
  next
    case (Some d)
    with snoc show ?thesis
      by (auto simp: group_of_def die_cpus_def map_of_group_add distinct_group_add split: option.split)
  qed
qed

lemma wp_die_groups:
  assumes "sysfs E f" "logged s t"
  shows "wp (die_groups E wanted)
    (\<lambda>g u. g = fold (group_of f wanted) (cpus_online s) [] \<and> logged s u) no_exn t"
proof -
  have step: "wp (groups_step E wanted c g) (\<lambda>h u. h = group_of f wanted c g \<and> logged s u) no_exn v"
    if "logged s v" for c g v
    unfolding groups_step_def
    by (simp only: wp_bnd, rule wp_conseq[OF wp_read[OF assms(1) that]])
       (auto simp: wp group_of_def topo_int_def split: option.split sum.split)
  show ?thesis
    unfolding die_groups_def wp_bnd wp_gets logged_fields[OF assms(2)]
    by (rule wp_fold[OF step assms(2)])
qed

subsection \<open>The choice of the processors\<close>

definition same_die_ok :: "int list \<Rightarrow> int list \<Rightarrow> bool" where
  "same_die_ok die0 same \<longleftrightarrow> sorted same \<and> distinct same \<and> set same \<subseteq> set die0 \<and>
     length same = min 16 (length die0) \<and> 8 \<le> length same"

definition cross_die_ok :: "int list \<Rightarrow> int list \<Rightarrow> int list \<Rightarrow> bool" where
  "cross_die_ok die0 die1 cross \<longleftrightarrow> sorted cross \<and> distinct cross \<and> set cross \<subseteq> set die0 \<union> set die1 \<and>
     card (set cross \<inter> set die0) = 8 \<and> card (set cross \<inter> set die1) = 8"

definition selection_ok :: "(string \<Rightarrow> string option) \<Rightarrow> int list \<Rightarrow> (int list \<times> int list) option \<Rightarrow> bool" where
  "selection_ok f cpus r \<longleftrightarrow>
    (case r of
       None \<Rightarrow> \<not> (\<exists>d0 d1. d0 \<noteq> d1 \<and> 0 \<le> d0 \<and> 0 \<le> d1 \<and>
                   8 \<le> length (die_cpus f cpus d0) \<and> 8 \<le> length (die_cpus f cpus d1))
     | Some (same, cross) \<Rightarrow> \<exists>d0 d1. d0 \<noteq> d1 \<and> 0 \<le> d0 \<and> 0 \<le> d1 \<and>
         (\<forall>d \<ge> 0. length (die_cpus f cpus d) \<le> length (die_cpus f cpus d0)) \<and>
         same_die_ok (die_cpus f cpus d0) same \<and>
         cross_die_ok (die_cpus f cpus d0) (die_cpus f cpus d1) cross)"

lemma same_die_ok_same_die: "distinct cs \<Longrightarrow> 8 \<le> length cs \<Longrightarrow> same_die_ok cs (same_die cs)"
  using set_take_subset[of "min 16 (length cs)" "sort cs"]
  by (auto simp: same_die_ok_def same_die_def sorted_wrt_take distinct_take)

lemma card_take_sort: "distinct cs \<Longrightarrow> 8 \<le> length cs \<Longrightarrow> card (set (take 8 (sort cs))) = 8"
  by (simp add: distinct_card distinct_take)

lemma cross_die_ok_cross_die:
  assumes "distinct a" "distinct b" "set a \<inter> set b = {}" "8 \<le> length a" "8 \<le> length b"
  shows "cross_die_ok a b (cross_die a b)"
proof -
  let ?a = "take (min 8 (length a)) (sort a)" and ?b = "take (min 8 (length b)) (sort b)"
  have sub: "set ?a \<subseteq> set a" "set ?b \<subseteq> set b"
    using set_take_subset[of _ "sort a"] set_take_subset[of _ "sort b"] by auto
  then have "set (cross_die a b) \<inter> set a = set ?a" "set (cross_die a b) \<inter> set b = set ?b"
    using assms(3) unfolding cross_die_def by auto
  moreover have "distinct (cross_die a b)"
    using assms(1-3) sub by (auto simp: cross_die_def distinct_take)
  ultimately show ?thesis
    using sub assms by (auto simp: cross_die_ok_def card_take_sort) (auto simp: cross_die_def)
qed

lemma sort_dies_top:
  assumes "sort_dies g = (d0, c0) # (d1, c1) # rest" "distinct (map fst g)"
  shows "d0 \<noteq> d1" "map_of g d0 = Some c0" "map_of g d1 = Some c1"
    "\<And>d c. map_of g d = Some c \<Longrightarrow> d = d0 \<or> length c \<le> length c1" "length c1 \<le> length c0"
proof -
  let ?k = "\<lambda>p. - int (length (snd p))"
  have m: "mset g = mset ((d0, c0) # (d1, c1) # rest)"
    using assms(1) by (metis mset_sort sort_dies_def)
  have d: "distinct (map fst ((d0, c0) # (d1, c1) # rest))"
    using assms(2) m by (metis mset_eq_imp_distinct_iff mset_map)
  then show "d0 \<noteq> d1" by simp
  have s: "set g = set ((d0, c0) # (d1, c1) # rest)" using m by (rule mset_eq_setD)
  with assms(2) show "map_of g d0 = Some c0" "map_of g d1 = Some c1"
    by (auto intro!: map_of_is_SomeI)
  have "sorted (map ?k ((d0, c0) # (d1, c1) # rest))"
    using assms(1) by (metis sort_dies_def sorted_sort_key)
  then have ord: "length c1 \<le> length c0" "\<forall>p \<in> set rest. length (snd p) \<le> length c1" by auto
  then show "length c1 \<le> length c0" by simp
  show "d = d0 \<or> length c \<le> length c1" if "map_of g d = Some c" for d c
    using map_of_SomeD[OF that] s ord by auto
qed

lemma sort_dies_cases:
  obtains "length xs \<le> 1" | d0 c0 d1 c1 rest where "xs = (d0, c0) # (d1, c1) # rest"
  by (cases xs rule: remdups_adj.cases) auto

text \<open>
  C27. The sets for the benchmark: when the topology files do not change, the selection ends without an
  exception. It gives up only if there are no two dies with at least 8 processors each. Otherwise
  the first set is sorted, lies inside one die, which no other die exceeds in size, and has 16
  processors or all of the die; the second is sorted and has 8 processors of that die and 8 of
  another one.
\<close>

theorem selected_sets:
  assumes "sysfs E f" "distinct (cpus_online s)"
  shows "wp (select_test_cpu_sets E) (\<lambda>r _. selection_ok f (cpus_online s) r) (\<lambda>_ _. False) s"
proof -
  let ?c = "cpus_online s" and ?w = "\<lambda>d::int. d \<ge> 0"
  let ?g = "fold (group_of f ?w) ?c []"
  have dist: "distinct (map fst ?g)"
    and get: "\<And>d. map_of ?g d = (if 0 \<le> d \<and> die_cpus f ?c d \<noteq> [] then Some (die_cpus f ?c d) else None)"
    using groups_fold[of f ?w ?c] by auto
  have in_g: "map_of ?g d = Some c \<longleftrightarrow> 0 \<le> d \<and> c = die_cpus f ?c d \<and> c \<noteq> []" for d c
    using get[of d] by auto
  have disj: "set (die_cpus f ?c d) \<inter> set (die_cpus f ?c e) = {}" if "d \<noteq> e" for d e
    using that by (auto simp: die_cpus_def)
  have dc: "distinct (die_cpus f ?c d)" for d using assms(2) by (simp add: die_cpus_def)
  have few: "selection_ok f ?c None"
    if "\<And>d e c b. d \<noteq> e \<Longrightarrow> map_of ?g d = Some c \<Longrightarrow> map_of ?g e = Some b \<Longrightarrow> length c < 8 \<or> length b < 8"
  proof -
    have "False" if "d \<noteq> e" "0 \<le> d" "0 \<le> e" "8 \<le> length (die_cpus f ?c d)" "8 \<le> length (die_cpus f ?c e)" for d e
      using \<open>\<And>d e c b. d \<noteq> e \<Longrightarrow> map_of ?g d = Some c \<Longrightarrow> map_of ?g e = Some b \<Longrightarrow> length c < 8 \<or> length b < 8\<close>
        [OF that(1), of "die_cpus f ?c d" "die_cpus f ?c e"] that
      unfolding in_g by fastforce
    then show ?thesis by (auto simp: selection_ok_def)
  qed
  have choice: "wp (case sort_dies ?g of
       (die0, cpus0) # (die1, cpus1) # _ \<Rightarrow>
         if length cpus0 < 8 \<or> length cpus1 < 8 then
           sq (log Info ''Need at least 8 CPUs in each of 2 dies'') (ret None)
         else
           sq (log Info (m0 die0 die1 cpus0 cpus1))
          (sq (log Info (m1 die0 die1 cpus0 cpus1)) (ret (Some (same_die cpus0, cross_die cpus0 cpus1))))
     | _ \<Rightarrow> sq (log Info ''System has less than 2 dies, skipping performance test'') (ret None))
     (\<lambda>r _. selection_ok f ?c r) no_exn t" for m0 m1 and t :: "'a dt_st"
  proof (cases "sort_dies ?g" rule: sort_dies_cases)
    case 1
    then have "length ?g \<le> 1" by (metis One_nat_def length_sort sort_dies_def)
    then have "selection_ok f ?c None"
      by (intro few) (cases ?g; auto split: if_splits)
    with 1 show ?thesis by (cases "sort_dies ?g") (auto simp: wp)
  next
    case (2 d0 c0 d1 c1 rest)
    note top = sort_dies_top[OF 2 dist]
    show ?thesis
    proof (cases "length c0 < 8 \<or> length c1 < 8")
      case True
      have "selection_ok f ?c None"
      proof (rule few)
        fix d e c b assume de: "d \<noteq> e" "map_of ?g d = Some c" "map_of ?g e = Some b"
        then consider "length c \<le> length c1" | "length b \<le> length c1"
          using top(4)[OF de(2)] top(4)[OF de(3)] by blast
        then show "length c < 8 \<or> length b < 8" using True top(5) by cases auto
      qed
      with True show ?thesis by (simp add: 2 wp)
    next
      case False
      have c: "0 \<le> d0" "c0 = die_cpus f ?c d0" "0 \<le> d1" "c1 = die_cpus f ?c d1"
        using top(2,3) unfolding in_g by auto
      have "length (die_cpus f ?c d) \<le> length c0" if "0 \<le> d" for d
        using top(4)[of d "die_cpus f ?c d"] top(5) that c(2) unfolding in_g by fastforce
      moreover have "same_die_ok c0 (same_die c0)"
        using False dc c(2) by (intro same_die_ok_same_die) auto
      moreover have "cross_die_ok c0 c1 (cross_die c0 c1)"
        using False dc disj[OF top(1)] c(2,4) by (intro cross_die_ok_cross_die) auto
      ultimately have "selection_ok f ?c (Some (same_die c0, cross_die c0 c1))"
        using top(1) c unfolding selection_ok_def by auto
      with False show ?thesis by (simp add: 2 wp)
    qed
  qed
  show ?thesis
    unfolding select_test_cpu_sets_def wp_bnd
    by (rule wp_conseq[OF wp_die_groups[OF assms(1) logged_refl]]) (auto intro: choice)
qed

text \<open>A machine with 16 processors, the even ones on die 0 and the odd ones on die 1.\<close>

definition demo_files :: "string \<Rightarrow> string option" where
  "demo_files path =
     (if path \<in> set (map (\<lambda>c. topology_path c ''die_id'') [0, 2, 4, 6, 8, 10, 12, 14]) then Some ''0''
      else if path \<in> set (map (\<lambda>c. topology_path c ''die_id'') [1, 3, 5, 7, 9, 11, 13, 15]) then Some ''1''
      else if path \<in> set (map (\<lambda>c. topology_path c ''physical_package_id'') [0, 1, 2]) then Some ''0''
      else if path = topology_path 4 ''physical_package_id'' then Some ''1''
      else None)"

definition dt_demo :: "nat dt_env" where
  "dt_demo =
     \<lparr>dt_arch = \<lambda>w. (Inr ''ppc64le'', w), online_list = \<lambda>w. (Inr [0, 1, 2, 3], w),
      path_exists = \<lambda>p w. (Inr (demo_files p \<noteq> None), w),
      dt_read = \<lambda>p w. (case demo_files p of None \<Rightarrow> Inl IOError | Some t \<Rightarrow> Inr t, w),
      dt_check = \<lambda>_ w. (Inr True, w), dt_install = \<lambda>_ w. (Inr True, w), dt_fetch = \<lambda>u w. (Inr u, w),
      dt_makedirs = \<lambda>_ w. (Inr (), w), dt_extract = \<lambda>_ _ w. (Inr (), w), dt_chdir = \<lambda>_ w. (Inr (), w),
      dt_make = \<lambda>_ _ w. (Inr (), w),
      dt_run = \<lambda>_ w. (Inr \<lparr>exit_status = 0, stdout_text = ''Time: 1.5'', stderr_text = []\<rparr>, w),
      dt_workdir = ''/tmp'', dt_exn_text = \<lambda>_. []\<rparr>"

definition dt_state :: "int list \<Rightarrow> nat dt_st" where
  "dt_state cpus =
     \<lparr>world = 0, trace = [], cpus_online = cpus, failures = Some [], test_type = VStr ''topology'',
      hackbench_groups = VStr ''20'', hackbench_loops = VStr ''2000'', hackbench_iterations = VStr ''4'',
      hackbench_binary = None\<rparr>"

lemma sysfs_demo: "sysfs dt_demo demo_files"
  by (simp add: sysfs_def dt_demo_def)

theorem selected_sets_witness:
  "wp (select_test_cpu_sets dt_demo) (\<lambda>r _. selection_ok demo_files (cpus_online (dt_state [0, 1, 2, 3, 4, 5, 6, 7])) r)
     (\<lambda>_ _. False) (dt_state [0, 1, 2, 3, 4, 5, 6, 7])"
  by (rule selected_sets[OF sysfs_demo]) (simp add: dt_state_def)

subsection \<open>Dies and packages\<close>

text \<open>
  \<open>seen f c d p\<close>: processor \<open>c\<close> has die \<open>d\<close>, which is not the missing die -1, and package \<open>p\<close>.
  What the test is about: processors of one die are in one package.
\<close>

definition seen :: "(string \<Rightarrow> string option) \<Rightarrow> int \<Rightarrow> int \<Rightarrow> int \<Rightarrow> bool" where
  "seen f c d p \<longleftrightarrow> die_of f c = Some d \<and> d \<noteq> - 1 \<and> package_of f c = Some p"

definition packages_agree :: "(string \<Rightarrow> string option) \<Rightarrow> int list \<Rightarrow> bool" where
  "packages_agree f cpus \<longleftrightarrow>
     (\<forall>c \<in> set cpus. \<forall>e \<in> set cpus. \<forall>d p q. seen f c d p \<and> seen f e d q \<longrightarrow> p = q)"

definition package_fold ::
  "(string \<Rightarrow> string option) \<Rightarrow> int \<Rightarrow> (int \<times> int) list \<times> violation list \<Rightarrow> (int \<times> int) list \<times> violation list"
where
  "package_fold f c acc =
     (case (die_of f c, package_of f c) of (Some d, Some p) \<Rightarrow> package_check c d p acc | _ \<Rightarrow> acc)"

lemma map_of_dict_set: "map_of (dict_set d k v) = (map_of d)(k \<mapsto> v)"
  by (induction d k v rule: dict_set.induct) (auto simp: fun_eq_iff)

text \<open>
  The dictionary holds the package of the first processor of every die; the list of violations is
  empty as long as all processors seen agree with it.
\<close>

definition packages_inv ::
  "(string \<Rightarrow> string option) \<Rightarrow> int list \<Rightarrow> (int \<times> int) list \<times> violation list \<Rightarrow> bool" where
  "packages_inv f cpus acc \<longleftrightarrow>
     (\<forall>d p. map_of (fst acc) d = Some p \<longrightarrow> (\<exists>c \<in> set cpus. seen f c d p)) \<and>
     (\<forall>c \<in> set cpus. \<forall>d p. seen f c d p \<longrightarrow> map_of (fst acc) d \<noteq> None) \<and>
     (snd acc = [] \<longleftrightarrow> (\<forall>c \<in> set cpus. \<forall>d p. seen f c d p \<longrightarrow> map_of (fst acc) d = Some p))"

lemma packages_inv_fold: "packages_inv f cpus (fold (package_fold f) cpus ([], []))"
proof (induction cpus rule: rev_induct)
  case Nil
  then show ?case by (simp add: packages_inv_def)
next
  case (snoc c cpus)
  obtain pkgs bad where pb: "fold (package_fold f) cpus ([], []) = (pkgs, bad)" by fastforce
  note inv = snoc[unfolded pb packages_inv_def fst_conv snd_conv]
  show ?case
  proof (cases "\<exists>d p. seen f c d p")
    case False
    then have "package_fold f c (pkgs, bad) = (pkgs, bad)"
      by (auto simp: package_fold_def seen_def split: option.split)
    moreover have "\<not> seen f c d p" for d p using False by blast
    ultimately show ?thesis using inv by (simp add: pb packages_inv_def) blast
  next
    case True
    then obtain d p where dp: "seen f c d p" by blast
    then have only: "seen f c = (\<lambda>d' p'. d' = d \<and> p' = p)" by (auto simp: seen_def fun_eq_iff)
    have step: "package_fold f c (pkgs, bad) = package_check c d p (pkgs, bad)" and d: "d \<noteq> - 1"
      using dp by (simp_all add: package_fold_def seen_def)
    show ?thesis
    proof (cases "map_of pkgs d")
      case None
      then have "\<not> seen f e d q" if "e \<in> set cpus" for e q using inv that by blast
      with None show ?thesis using inv d
        by (simp add: pb step packages_inv_def map_of_dict_set only) (metis (no_types, lifting))
    next
      case (Some q)
      with inv d show ?thesis by (auto simp: pb step packages_inv_def only)
    qed
  qed
qed

lemma packages_fold_ok: "snd (fold (package_fold f) cpus ([], [])) = [] \<longleftrightarrow> packages_agree f cpus"
proof -
  obtain pkgs bad where pb: "fold (package_fold f) cpus ([], []) = (pkgs, bad)" by fastforce
  note inv = packages_inv_fold[of f cpus, unfolded pb packages_inv_def fst_conv snd_conv]
  have "map_of pkgs d = Some p" if "packages_agree f cpus" "c \<in> set cpus" "seen f c d p" for c d p
  proof -
    from inv that(2,3) obtain q where q: "map_of pkgs d = Some q" by blast
    with inv obtain e where "e \<in> set cpus" "seen f e d q" by blast
    with that have "p = q" unfolding packages_agree_def by blast
    with q show ?thesis by simp
  qed
  moreover have "p = q" if "bad = []" "c \<in> set cpus" "e \<in> set cpus" "seen f c d p" "seen f e d q" for c e d p q
  proof -
    have "map_of pkgs d = Some p" "map_of pkgs d = Some q" using inv that by blast+
    then show ?thesis by simp
  qed
  ultimately have "bad = [] \<longleftrightarrow> packages_agree f cpus"
    using inv unfolding packages_agree_def[of f cpus] by meson
  then show ?thesis by (simp add: pb)
qed

text \<open>How the tests end: the message of a failure is also kept for \<^verbatim>\<open>tearDown\<close>.\<close>

definition failed_and_kept :: "'w dt_st \<Rightarrow> exn \<Rightarrow> 'w dt_st \<Rightarrow> bool" where
  "failed_and_kept s e t \<longleftrightarrow>
     (\<exists>m k fs. e = TestFail m \<and> failures s = Some fs \<and> failures t = Some (fs @ [k]))"

lemma wp_verdict:
  assumes "logged s t" "failures s \<noteq> None"
    and "bad = [] \<longleftrightarrow> ok"
  shows "wp (if bad \<noteq> [] then record_failure k m else log Info i)
     (\<lambda>_ u. ok \<and> failures u = failures s) (\<lambda>e u. \<not> ok \<and> failed_and_kept s e u) t"
  using assms logged_fields[OF assms(1)]
  by (auto simp: record_failure_def failed_and_kept_def wp)

text \<open>
  C24. Dies and packages: the test passes exactly when the processors of every die, those without a die
  (number -1) and those with unreadable numbers aside, have the same package; otherwise it fails,
  and its message is kept. Comparing with the first processor of a die is enough.
\<close>

theorem package_test_decides:
  assumes "sysfs E f" "failures s \<noteq> None"
  shows "wp (test_die_package_relationship E)
     (\<lambda>_ t. packages_agree f (cpus_online s) \<and> failures t = failures s)
     (\<lambda>e t. \<not> packages_agree f (cpus_online s) \<and> failed_and_kept s e t) s"
proof -
  let ?c = "cpus_online s"
  let ?l = "s\<lparr>trace := trace s @ [Log Info ''Test 5: Checking die and physical_package relationship'']\<rparr>"
  have step: "wp (package_step E c acc) (\<lambda>r u. r = package_fold f c acc \<and> logged s u) no_exn v"
    if "logged s v" for c acc v
    unfolding package_step_def
    by (rule wp_bnd_read[OF assms(1) that], rule wp_bnd_read[OF assms(1)], assumption)
       (auto simp: wp package_fold_def topo_int_def Let_def split: option.split sum.split)
  have loop: "wp (for_acc ?c (package_step E) ([], []))
      (\<lambda>r u. r = fold (package_fold f) ?c ([], []) \<and> logged s u) no_exn ?l"
    by (rule wp_fold[OF step]) simp_all
  obtain pkgs bad where pb: "fold (package_fold f) ?c ([], []) = (pkgs, bad)" by fastforce
  have ok: "bad = [] \<longleftrightarrow> packages_agree f ?c" using packages_fold_ok[of f ?c] by (simp add: pb)
  show ?thesis
    unfolding test_die_package_relationship_def Let_def wp_sq wp_log wp_bnd wp_gets
    by (simp, rule wp_conseq[OF loop])
       (auto simp only: pb prod.case intro: wp_verdict[OF _ assms(2) ok])
qed

theorem package_test_decides_witness:
  "wp (test_die_package_relationship dt_demo)
     (\<lambda>_ t. packages_agree demo_files (cpus_online (dt_state [0, 1, 2, 4])) \<and> failures t = failures (dt_state [0, 1, 2, 4]))
     (\<lambda>e t. \<not> packages_agree demo_files (cpus_online (dt_state [0, 1, 2, 4])) \<and>
        failed_and_kept (dt_state [0, 1, 2, 4]) e t) (dt_state [0, 1, 2, 4])"
  by (rule package_test_decides[OF sysfs_demo]) (simp add: dt_state_def)

subsection \<open>Valid die numbers\<close>

definition valid_die :: "(string \<Rightarrow> string option) \<Rightarrow> int \<Rightarrow> bool" where
  "valid_die f c \<longleftrightarrow> (topo f ''die_id'' c \<noteq> None \<longrightarrow> (\<exists>d \<ge> - 1. die_of f c = Some d))"

definition validity_fold ::
  "(string \<Rightarrow> string option) \<Rightarrow> int \<Rightarrow> (int \<times> bad_id) list \<times> (int \<times> int) list \<Rightarrow>
   (int \<times> bad_id) list \<times> (int \<times> int) list" where
  "validity_fold f c acc =
     (case topo f ''die_id'' c of
        None \<Rightarrow> acc
      | Some t \<Rightarrow> (case py_int t of
          Inr d \<Rightarrow> (if d < - 1 then fst acc @ [(c, BadNumber d)] else fst acc, dict_set (snd acc) c d)
        | Inl _ \<Rightarrow> (fst acc @ [(c, BadText t)], snd acc)))"

lemma validity_fold_ok:
  "(fst (fold (validity_fold f) cpus ([], [])) = [] \<longleftrightarrow> (\<forall>c \<in> set cpus. valid_die f c)) \<and>
   map_of (snd (fold (validity_fold f) cpus ([], []))) = (\<lambda>c. if c \<in> set cpus then die_of f c else None)"
proof (induction cpus rule: rev_induct)
  case Nil
  then show ?case by simp
next
  case (snoc c cpus)
  then show ?case
    by (auto simp: validity_fold_def valid_die_def topo_int_def map_of_dict_set fun_eq_iff
        split: option.split sum.split)
qed

text \<open>
  Valid numbers: the test passes exactly when every die number that can be read is an integer of at
  least -1, and then it returns the dictionary that gives every processor its die; otherwise it
  fails and keeps its message.
\<close>

theorem validity_test_decides:
  assumes "sysfs E f" "failures s \<noteq> None"
  shows "wp (test_die_id_validity E)
     (\<lambda>m t. (\<forall>c \<in> set (cpus_online s). valid_die f c) \<and> failures t = failures s \<and>
        map_of m = (\<lambda>c. if c \<in> set (cpus_online s) then die_of f c else None))
     (\<lambda>e t. \<not> (\<forall>c \<in> set (cpus_online s). valid_die f c) \<and> failed_and_kept s e t) s"
proof -
  let ?c = "cpus_online s"
  let ?l = "s\<lparr>trace := trace s @ [Log Info ''Test 3: Validating die_id values'']\<rparr>"
  have step: "wp (validity_step E c acc) (\<lambda>r u. r = validity_fold f c acc \<and> logged s u) no_exn v"
    if "logged s v" for c acc v
    unfolding validity_step_def
    by (rule wp_bnd_read[OF assms(1) that])
       (auto simp: wp validity_fold_def split: option.split sum.split)
  have loop: "wp (for_acc ?c (validity_step E) ([], []))
      (\<lambda>r u. r = fold (validity_fold f) ?c ([], []) \<and> logged s u) no_exn ?l"
    by (rule wp_fold[OF step]) simp_all
  obtain bad m where pb: "fold (validity_fold f) ?c ([], []) = (bad, m)" by fastforce
  have ok: "bad = [] \<longleftrightarrow> (\<forall>c \<in> set ?c. valid_die f c)"
    and m: "map_of m = (\<lambda>c. if c \<in> set ?c then die_of f c else None)"
    using validity_fold_ok[of f ?c] by (simp_all add: pb)
  show ?thesis
    unfolding test_die_id_validity_def Let_def wp_sq wp_log wp_bnd wp_gets
    apply (simp, rule wp_conseq[OF loop])
     apply (elim conjE, simp only: pb prod.case)
     apply (rule wp_sq_step, rule wp_verdict[OF _ assms(2) ok], assumption)
      apply (auto simp: wp m)
    done
qed

theorem validity_test_decides_witness:
  "wp (test_die_id_validity dt_demo)
     (\<lambda>m t. (\<forall>c \<in> set (cpus_online (dt_state [0, 1, 20])). valid_die demo_files c) \<and>
        failures t = failures (dt_state [0, 1, 20]) \<and>
        map_of m = (\<lambda>c. if c \<in> set (cpus_online (dt_state [0, 1, 20])) then die_of demo_files c else None))
     (\<lambda>e t. \<not> (\<forall>c \<in> set (cpus_online (dt_state [0, 1, 20])). valid_die demo_files c) \<and>
        failed_and_kept (dt_state [0, 1, 20]) e t) (dt_state [0, 1, 20])"
  by (rule validity_test_decides[OF sysfs_demo]) (simp add: dt_state_def)

subsection \<open>Processor lists of a die\<close>

definition masks_agree :: "(string \<Rightarrow> string option) \<Rightarrow> int list \<Rightarrow> bool" where
  "masks_agree f cpus \<longleftrightarrow>
     (\<forall>c \<in> set cpus. \<forall>e \<in> set cpus. \<forall>d l k.
        die_of f c = Some d \<and> die_of f e = Some d \<and> d \<noteq> - 1 \<and>
        topo f ''die_cpus_list'' c = Some l \<and> l \<noteq> [] \<and> topo f ''die_cpus_list'' e = Some k \<and> k \<noteq> [] \<longrightarrow> l = k)"

definition list_fold :: "(string \<Rightarrow> string option) \<Rightarrow> int \<Rightarrow> (int \<times> string) list \<Rightarrow> (int \<times> string) list" where
  "list_fold f c acc =
     (case topo f ''die_cpus_list'' c of None \<Rightarrow> acc | Some t \<Rightarrow> if t \<noteq> [] then dict_set acc c t else acc)"

definition mask_bad :: "(string \<Rightarrow> string option) \<Rightarrow> int \<times> int list \<Rightarrow> bool" where
  "mask_bad f p \<longleftrightarrow> fst p \<noteq> - 1 \<and> card (set (map snd (fold (list_fold f) (snd p) []))) > 1"

definition mask_fold ::
  "(string \<Rightarrow> string option) \<Rightarrow> int \<times> int list \<Rightarrow> (int \<times> (int \<times> string) list) list \<Rightarrow>
   (int \<times> (int \<times> string) list) list" where
  "mask_fold f p bad = (if mask_bad f p then bad @ [(fst p, fold (list_fold f) (snd p) [])] else bad)"

lemma mask_fold_Nil: "fold (mask_fold f) groups bad = [] \<longleftrightarrow> bad = [] \<and> (\<forall>p \<in> set groups. \<not> mask_bad f p)"
  by (induction groups arbitrary: bad) (auto simp: mask_fold_def)

lemma dict_set_new: "(k, v) \<in> set (dict_set d k v)"
  by (induction d k v rule: dict_set.induct) simp_all

lemma dict_set_only: "p \<in> set (dict_set d k v) \<Longrightarrow> p = (k, v) \<or> p \<in> set d"
  by (induction d k v rule: dict_set.induct) (auto split: if_split_asm)

lemma dict_set_old: "(a, b) \<in> set d \<Longrightarrow> a \<noteq> k \<Longrightarrow> (a, b) \<in> set (dict_set d k v)"
  by (induction d k v rule: dict_set.induct) auto

lemma list_fold_set:
  "set (fold (list_fold f) cs []) = {(c, l). c \<in> set cs \<and> topo f ''die_cpus_list'' c = Some l \<and> l \<noteq> []}"
proof (induction cs rule: rev_induct)
  case Nil
  then show ?case by simp
next
  case (snoc c cs)
  let ?g = "fold (list_fold f) cs []"
  show ?case
  proof (cases "\<exists>l. topo f ''die_cpus_list'' c = Some l \<and> l \<noteq> []")
    case False
    then have "list_fold f c ?g = ?g" by (auto simp: list_fold_def split: option.split)
    with snoc False show ?thesis by auto
  next
    case True
    then obtain l where l: "topo f ''die_cpus_list'' c = Some l" "l \<noteq> []" by blast
    have "set (dict_set ?g c l) = insert (c, l) (set ?g)"
    proof (rule set_eqI)
      fix p
      show "p \<in> set (dict_set ?g c l) \<longleftrightarrow> p \<in> insert (c, l) (set ?g)"
      proof (cases "fst p = c \<and> p \<in> set ?g")
        case True
        then have "p = (c, l)" using l unfolding snoc by (cases p) simp
        then show ?thesis by (simp add: dict_set_new)
      next
        case False
        then show ?thesis
          using dict_set_new[of c l ?g] dict_set_only[of p ?g c l] dict_set_old[of "fst p" "snd p" ?g c l]
          by (cases p) auto
      qed
    qed
    moreover have "list_fold f c ?g = dict_set ?g c l" using l by (simp add: list_fold_def)
    ultimately show ?thesis using l unfolding snoc by (auto simp: snoc)
  qed
qed

lemma card_gt_one_iff:
  assumes "finite A"
  shows "1 < card A \<longleftrightarrow> (\<exists>x \<in> A. \<exists>y \<in> A. x \<noteq> y)"
  using card_le_Suc0_iff_eq[OF assms] by (auto simp: not_le[symmetric])

lemma mask_bad_iff:
  "mask_bad f (d, cs) \<longleftrightarrow> d \<noteq> - 1 \<and>
     (\<exists>c \<in> set cs. \<exists>e \<in> set cs. \<exists>l k. topo f ''die_cpus_list'' c = Some l \<and> l \<noteq> [] \<and>
        topo f ''die_cpus_list'' e = Some k \<and> k \<noteq> [] \<and> l \<noteq> k)"
proof -
  let ?S = "{l. \<exists>c \<in> set cs. topo f ''die_cpus_list'' c = Some l \<and> l \<noteq> []}"
  have S: "set (map snd (fold (list_fold f) cs [])) = ?S" by (force simp: list_fold_set)
  then have "finite ?S" by (metis List.finite_set)
  then have "1 < card ?S \<longleftrightarrow> (\<exists>x \<in> ?S. \<exists>y \<in> ?S. x \<noteq> y)" by (rule card_gt_one_iff)
  then show ?thesis unfolding mask_bad_def fst_conv snd_conv S by blast
qed

lemma masks_fold_ok:
  "fold (mask_fold f) (fold (group_of f (\<lambda>_. True)) cpus []) [] = [] \<longleftrightarrow> masks_agree f cpus"
proof -
  let ?g = "fold (group_of f (\<lambda>_. True)) cpus []"
  have d: "distinct (map fst ?g)"
    and get: "\<And>d. map_of ?g d = (if die_cpus f cpus d \<noteq> [] then Some (die_cpus f cpus d) else None)"
    using groups_fold[of f "\<lambda>_. True" cpus] by auto
  have mem: "(d, cs) \<in> set ?g \<longleftrightarrow> cs = die_cpus f cpus d \<and> cs \<noteq> []" for d cs
    using map_of_eq_Some_iff[OF d, of d cs] get[of d] by (auto split: if_split_asm)
  have empty: "\<not> mask_bad f (d, [])" for d by (simp add: mask_bad_iff)
  have "(\<forall>p \<in> set ?g. \<not> mask_bad f p) \<longleftrightarrow> (\<forall>d. \<not> mask_bad f (d, die_cpus f cpus d))"
  proof safe
    fix d assume all: "\<forall>p \<in> set ?g. \<not> mask_bad f p" and bad: "mask_bad f (d, die_cpus f cpus d)"
    then have "die_cpus f cpus d \<noteq> []" using empty[of d] by metis
    then have "(d, die_cpus f cpus d) \<in> set ?g" using mem by simp
    then show False using bspec[OF all] bad by metis
  next
    fix d cs assume ok: "\<forall>d. \<not> mask_bad f (d, die_cpus f cpus d)"
      and m: "(d, cs) \<in> set ?g" and bad: "mask_bad f (d, cs)"
    from m have "cs = die_cpus f cpus d" using mem by simp
    then show False using spec[OF ok, of d] bad by simp
  qed
  also have "\<dots> \<longleftrightarrow> masks_agree f cpus"
  proof
    assume ok: "\<forall>d. \<not> mask_bad f (d, die_cpus f cpus d)"
    show "masks_agree f cpus" unfolding masks_agree_def
    proof (intro ballI allI impI)
      fix c e d l k
      assume ce: "c \<in> set cpus" "e \<in> set cpus"
        and p: "die_of f c = Some d \<and> die_of f e = Some d \<and> d \<noteq> - 1 \<and>
          topo f ''die_cpus_list'' c = Some l \<and> l \<noteq> [] \<and> topo f ''die_cpus_list'' e = Some k \<and> k \<noteq> []"
      have "c \<in> set (die_cpus f cpus d)" "e \<in> set (die_cpus f cpus d)" using ce p by (simp_all add: die_cpus_def)
      then show "l = k" using p spec[OF ok, of d] unfolding mask_bad_iff by metis
    qed
  next
    assume ok: "masks_agree f cpus"
    show "\<forall>d. \<not> mask_bad f (d, die_cpus f cpus d)"
    proof (rule allI, rule notI)
      fix d assume "mask_bad f (d, die_cpus f cpus d)"
      then obtain c e l k where "d \<noteq> - 1" "c \<in> set (die_cpus f cpus d)" "e \<in> set (die_cpus f cpus d)"
          "topo f ''die_cpus_list'' c = Some l" "l \<noteq> []" "topo f ''die_cpus_list'' e = Some k" "k \<noteq> []" "l \<noteq> k"
        unfolding mask_bad_iff by blast
      moreover from this(2,3) have "c \<in> set cpus" "die_of f c = Some d" "e \<in> set cpus" "die_of f e = Some d"
        by (simp_all add: die_cpus_def)
      ultimately show False using ok unfolding masks_agree_def by blast
    qed
  qed
  finally show ?thesis by (simp add: mask_fold_Nil)
qed

text \<open>
  C32. Lists of a die: the test passes exactly when all processors of one die (number -1 aside) that have
  a list of the die's processors have the same list; otherwise it fails and keeps its message.
\<close>

theorem mask_test_decides:
  assumes "sysfs E f" "failures s \<noteq> None"
  shows "wp (test_die_cpumask_consistency E)
     (\<lambda>_ t. masks_agree f (cpus_online s) \<and> failures t = failures s)
     (\<lambda>e t. \<not> masks_agree f (cpus_online s) \<and> failed_and_kept s e t) s"
proof -
  let ?c = "cpus_online s"
  let ?g = "fold (group_of f (\<lambda>_. True)) ?c []"
  have lists: "wp (for_acc cs (list_step E) []) (\<lambda>r u. r = fold (list_fold f) cs [] \<and> logged s u) no_exn v"
    if "logged s v" for cs v
  proof (rule wp_fold[OF _ that])
    show "wp (list_step E c a) (\<lambda>b u. b = list_fold f c a \<and> logged s u) no_exn w" if "logged s w" for c a w
      unfolding list_step_def
      by (rule wp_bnd_read[OF assms(1) that]) (auto simp: wp list_fold_def split: option.split)
  qed
  have step: "wp (consistency_step E p bad) (\<lambda>r u. r = mask_fold f p bad \<and> logged s u) no_exn v"
    if v: "logged s v" for p bad v
  proof (cases p)
    case (Pair d cs)
    have l: "logged s (v\<lparr>trace := tr\<rparr>)" for tr using v by simp
    show ?thesis
      unfolding consistency_step_def Pair prod.case
      apply (simp only: wp_if wp_sq wp_log)
      apply (cases "d = - 1")
       apply (simp add: wp mask_fold_def mask_bad_def v)
      apply (simp only: if_False, rule wp_bnd_step[OF lists[OF l]])
       apply (auto simp: wp mask_fold_def mask_bad_def)
      done
  qed
  have loop: "wp (for_acc ?g (consistency_step E) []) (\<lambda>r u. r = fold (mask_fold f) ?g [] \<and> logged s u) no_exn v"
    if "logged s v" for v
    by (rule wp_fold[OF step that])
  have l0: "logged s (s\<lparr>trace := tr\<rparr>)" for tr by simp
  show ?thesis
    unfolding test_die_cpumask_consistency_def Let_def
    apply (simp only: wp_sq wp_log)
    apply (rule wp_bnd_step[OF wp_die_groups[OF assms(1) l0]])
     apply (elim conjE, simp only: wp_sq wp_log)
     apply (rule wp_bnd_step[OF loop], simp)
      apply (elim conjE, simp only:)
      apply (rule wp_verdict[OF _ assms(2) masks_fold_ok], assumption)
     apply simp_all
    done
qed

theorem mask_test_decides_witness:
  "wp (test_die_cpumask_consistency dt_demo)
     (\<lambda>_ t. masks_agree demo_files (cpus_online (dt_state [0, 1, 2, 3])) \<and> failures t = failures (dt_state [0, 1, 2, 3]))
     (\<lambda>e t. \<not> masks_agree demo_files (cpus_online (dt_state [0, 1, 2, 3])) \<and>
        failed_and_kept (dt_state [0, 1, 2, 3]) e t) (dt_state [0, 1, 2, 3])"
  by (rule mask_test_decides[OF sysfs_demo]) (simp add: dt_state_def)

end
