(* ===== verification/Irq_Balance.thy ===== *)
theory Irq_Balance
  imports Avocado
begin

section \<open>IRQ balance and CPU affinity (io/net/irqbalance.py)\<close>

text \<open>
  The test moves the interrupts of a device, and a process that does I/O, over the processors and
  reads back where they are; two further tests switch processors and SMT levels. The network
  classes of Avocado, commands and files are the parameter \<open>ib_env\<close>; \<open>total\<close> is the module's
  \<^verbatim>\<open>totalcpus\<close>. The attributes of the object are part of the state: \<^verbatim>\<open>interface\<close>, \<^verbatim>\<open>interface_type\<close>
  and the parameters are dynamically typed, \<open>has_nif\<close> says whether \<^verbatim>\<open>networkinterface\<close> has been set,
  \<open>has_curr_smt\<close> whether \<^verbatim>\<open>curr_smt\<close> has; \<open>netmask\<close> and \<open>cpu_range\<close> are \<open>None\<close> before they are assigned.
\<close>

subsection \<open>External operations and state\<close>

record 'w ib_env =
  ib_listdir :: "string \<Rightarrow> ('w, string list) ext"
  valid_mac :: "pyval \<Rightarrow> ('w, bool) ext"
  all_hwaddr :: "('w, pyval list) ext"
  ifc_by_hwaddr :: "pyval \<Rightarrow> ('w, string) ext"
  new_interface :: "string \<Rightarrow> ('w, unit) ext"
  valid_ip :: "pyval \<Rightarrow> ('w, bool) ext"
  valid_netmask :: "pyval \<Rightarrow> ('w, bool) ext"
  nif_op :: "string \<Rightarrow> string list \<Rightarrow> ('w, unit) ext"
  link_up :: "('w, bool) ext"
  ping_ok :: "pyval \<Rightarrow> ('w, bool) ext"
  ipi_name :: "string \<Rightarrow> ('w, pyval) ext"
  ib_exists :: "string \<Rightarrow> ('w, bool) ext"
  ib_read :: "string \<Rightarrow> ('w, string) ext"
  pci_addresses :: "('w, string list) ext"
  pci_class :: "string \<Rightarrow> ('w, string) ext"
  pci_interfaces :: "string \<Rightarrow> ('w, string list) ext"
  ib_run :: "string \<Rightarrow> ('w, cmd_result) ext"
  ib_output :: "string \<Rightarrow> ('w, string) ext"
  ib_system :: "string \<Rightarrow> ('w, int) ext"
  ib_popen :: "string \<Rightarrow> ('w, int) ext"
  proc_op :: "string \<Rightarrow> int \<Rightarrow> ('w, unit) ext"
  ib_online :: "int \<Rightarrow> ('w, unit) ext"
  ib_offline :: "int \<Rightarrow> ('w, unit) ext"
  ib_online_list :: "('w, int list) ext"
  ib_errors :: "string list \<Rightarrow> ('w, unit) ext"
  ib_exn_text :: "exn \<Rightarrow> string"
  ib_polls :: "string \<Rightarrow> nat"

text \<open>\<^verbatim>\<open>irq_number\<close> is a list first and one of its numbers later.\<close>

datatype irqs = Irqs "int list" | Irq int

record 'w ib_st = "'w st" +
  ifc :: pyval
  ifc_type :: pyval
  ib_disk :: pyval
  is_hbond :: pyval
  peer_ip :: pyval
  ipaddr :: pyval
  netmask :: "pyval option"
  has_nif :: bool
  has_curr_smt :: bool
  cpu_list :: "int list"
  device_interrupts :: string
  irq_number :: irqs
  cpu_range :: "int list option"
  irq_affinity :: string
  system_affinity :: string

type_synonym ('w, 'a) ib = "('w ib_st, 'a) py"

definition ib_errorlog :: "string list" where
  "ib_errorlog = [''WARNING: CPU:'', ''Oops'', ''Segfault'', ''soft lockup'', ''ard LOCKUP'',
     ''Unable to handle paging request'', ''rcu_sched detected stalls'', ''NMI backtrace for cpu'',
     ''Call Trace:'']"

definition irun :: "'w ib_env \<Rightarrow> string \<Rightarrow> ('w, cmd_result) ib" where
  "irun E cmd = call ''run'' [cmd] (ib_run E cmd)"

definition ioutput :: "'w ib_env \<Rightarrow> string \<Rightarrow> ('w, string) ib" where
  "ioutput E cmd = call ''system_output'' [cmd] (ib_output E cmd)"

definition nif :: "'w ib_env \<Rightarrow> string \<Rightarrow> string list \<Rightarrow> ('w, unit) ib" where
  "nif E what args = call what args (nif_op E what args)"

definition collect_errors :: "'w ib_env \<Rightarrow> ('w, unit) ib" where
  "collect_errors E = call ''collect_errors_dmesg'' ib_errorlog (ib_errors E ib_errorlog)"

definition online_now :: "'w ib_env \<Rightarrow> ('w, int list) ib" where
  "online_now E = call ''cpu.online_list'' [] (ib_online_list E)"

text \<open>\<^verbatim>\<open>d in self.list\<close> compares values of any type.\<close>

definition vin :: "pyval \<Rightarrow> pyval list \<Rightarrow> bool" where
  "vin v vs = (\<exists>x \<in> set vs. veq v x)"

subsection \<open>Names in /proc/interrupts\<close>

text \<open>\<^verbatim>\<open>re.search\<close> of \<^verbatim>\<open>\/(nvme[0-9]+)n[0-9]+\<close>, the first group.\<close>

fun search_nvme :: "string \<Rightarrow> string option" where
  "search_nvme [] = None"
| "search_nvme (c # s) =
     (let rest = drop 5 (c # s); ds = takeWhile is_digit rest; more = dropWhile is_digit rest
      in if startswith (c # s) ''/nvme'' \<and> ds \<noteq> [] \<and> startswith more ''n'' \<and>
            takeWhile is_digit (tl more) \<noteq> []
         then Some (''nvme'' @ ds) else search_nvme s)"

definition get_disk_IPI_name :: "('w, pyval) ib" where
  "get_disk_IPI_name =
     bnd (gets ib_disk) (\<lambda>v.
     bnd (lift (as_str v)) (\<lambda>d.
     if contains ''nvme'' d then
       bnd (lift (attr (search_nvme d))) (\<lambda>name. ret (VStr name))
     else ret VNone))"

text \<open>The address of the first PCI network device that has the interface.\<close>

definition slave_pci :: "'w ib_env \<Rightarrow> string \<Rightarrow> string \<Rightarrow> ('w, pyval option) ib" where
  "slave_pci E slave pci_address =
     try_except
       (bnd (call ''get_pci_class_name'' [pci_address] (pci_class E pci_address)) (\<lambda>cls.
        if cls = ''net'' then
          bnd (call ''get_interfaces_in_pci_address'' [pci_address, ''net''] (pci_interfaces E pci_address)) (\<lambda>is.
          if slave \<in> set is then
            sq (log Info (''Found PCI address '' @ pci_address @ '' for active slave '' @ slave @
                          '', using IPI format: @pci:'' @ pci_address))
               (ret (Some (VStr (''@pci:'' @ pci_address))))
          else ret None)
        else ret None))
       (\<lambda>_. ret None)"

definition hbond_ipi :: "'w ib_env \<Rightarrow> pyval \<Rightarrow> ('w, pyval) ib" where
  "hbond_ipi E bond =
    (let file = ''/sys/class/net/'' @ vstr bond @ ''/bonding/active_slave'' in
     bnd (call ''exists'' [file] (ib_exists E file)) (\<lambda>b.
     bnd (if b then (bnd (call ''read_file'' [file] (ib_read E file)) (\<lambda>t. ret (strip t))) else ret []) (\<lambda>slave.
     if slave = [] then
       sq (log Warning (''No active slave found for bond '' @ vstr bond @ '', using bond name as fallback''))
          (ret bond)
     else
       sq (log Info (''Active slave for bond '' @ vstr bond @ '': '' @ slave))
      (bnd (call ''get_pci_addresses'' [] (pci_addresses E)) (\<lambda>addrs.
       bnd (for_ret addrs (slave_pci E slave)) (\<lambda>r. case r of
         Some v \<Rightarrow> ret v
       | None \<Rightarrow>
           sq (call ''NetworkInterface'' [slave] (new_interface E slave))
          (bnd (call ''get_device_IPI_name'' [slave] (ipi_name E slave)) (\<lambda>n.
           if truthy n then
             sq (log Info (''IPI name for active slave '' @ slave @ '': '' @ vstr n)) (ret n)
           else
             sq (log Warning (''Could not get PCI address or IPI name for active slave '' @ slave @
                              '', using active slave name as fallback''))
                (ret (VStr slave))))))))))"

definition get_hbond_ipi_name :: "'w ib_env \<Rightarrow> ('w, pyval) ib" where
  "get_hbond_ipi_name E =
     bnd (gets ifc) (\<lambda>bond.
     try_except (hbond_ipi E bond)
       (\<lambda>e. sq (log Warning (''Failed to get IPI name for HNV bond '' @ vstr bond @ '': '' @ ib_exn_text E e @
                             '', using bond name as fallback''))
               (ret bond)))"

subsection \<open>SMT\<close>

definition curr_smt_cmd :: string where
  "curr_smt_cmd = ''ppc64_cpu --smt | awk '' @ quoted (''NR==1 {split($0, arr, \"=\"); '' @
     ''split(arr[2], num, \":\"); print num[1]}'')"

definition check_current_smt :: "'w ib_env \<Rightarrow> ('w, string) ib" where
  "check_current_smt E = ioutput E curr_smt_cmd"

definition set_smt_values :: "'w ib_env \<Rightarrow> pyval \<Rightarrow> ('w, bool) ib" where
  "set_smt_values E v =
     bnd (irun E (''ppc64_cpu --smt='' @ vstr v)) (\<lambda>r. ret (exit_status r = 0))"

definition wait_smt :: "'w ib_env \<Rightarrow> pyval \<Rightarrow> ('w, unit) ib" where
  "wait_smt E v = sq (wait_for (ib_polls E ''set_smt_values'') (set_smt_values E v)) (ret ())"

definition set_max_smt_values :: "'w ib_env \<Rightarrow> ('w, unit) ib" where
  "set_max_smt_values E = wait_smt E (VInt 8)"

definition test_smt_toggle :: "'w ib_env \<Rightarrow> ('w, unit) ib" where
  "test_smt_toggle E =
     for_each ([VStr ''off''] @ map VInt (py_range3 1 9 1) @ [VStr ''off'', VStr ''on'']) (wait_smt E)"

subsection \<open>setUp\<close>

definition ib_param :: "(string \<rightharpoonup> pyval) \<Rightarrow> string \<Rightarrow> pyval \<Rightarrow> pyval" where
  "ib_param params k d = (case params k of None \<Rightarrow> d | Some v \<Rightarrow> v)"

text \<open>The interface of the parameter: its name, or the name that belongs to its hardware address.\<close>

definition find_interface :: "'w ib_env \<Rightarrow> pyval \<Rightarrow> ('w, unit) ib" where
  "find_interface E device =
     bnd (call ''listdir'' [''/sys/class/net''] (ib_listdir E ''/sys/class/net'')) (\<lambda>interfaces.
     sq (nif E ''LocalHost'' [])
       (if vin device (map VStr interfaces) then modify (\<lambda>s. s\<lparr>ifc := device\<rparr>)
        else
          bnd (call ''validate_mac_addr'' [vstr device] (valid_mac E device)) (\<lambda>mac.
          bnd (if mac then (bnd (call ''get_all_hwaddr'' [] (all_hwaddr E)) (\<lambda>hs. ret (vin device hs)))
               else ret False) (\<lambda>known.
          if known then
            bnd (call ''get_interface_by_hwaddr'' [vstr device] (ifc_by_hwaddr E device)) (\<lambda>name.
            modify (\<lambda>s. s\<lparr>ifc := VStr name\<rparr>))
          else cancel ''Please check the network device''))))"

definition check_ip :: "'w ib_env \<Rightarrow> pyval \<Rightarrow> string \<Rightarrow> ('w, unit) ib" where
  "check_ip E ip msg =
     bnd (call ''validate_ipv4_format'' [vstr ip] (valid_ip E ip)) (\<lambda>b. whenb (\<not> b) (cancel msg))"

definition configure_interface :: "'w ib_env \<Rightarrow> ('w, unit) ib" where
  "configure_interface E =
     bnd (gets ipaddr) (\<lambda>ip. bnd (gets netmask) (\<lambda>m. bnd (lift (attr m)) (\<lambda>mask. bnd (gets peer_ip) (\<lambda>peer.
     sq (try_except
           (sq (nif E ''add_ipaddr'' [vstr ip, vstr mask]) (nif E ''save'' [vstr ip, vstr mask]))
           (\<lambda>_. nif E ''save'' [vstr ip, vstr mask]))
    (sq (nif E ''bring_up'' [])
    (bnd (wait_for (ib_polls E ''is_link_up'') (call ''is_link_up'' [] (link_up E))) (\<lambda>up.
     sq (whenb (\<not> up) (cancel ''Link up of interface taking more than60 seconds''))
    (bnd (call ''ping_check'' [vstr peer] (ping_ok E peer)) (\<lambda>ok.
     whenb (\<not> ok) (cancel ''No connection to peer''))))))))))"

definition device_type :: "'w ib_env \<Rightarrow> ('w, unit) ib" where
  "device_type E =
     bnd (gets is_hbond) (\<lambda>bond.
     if truthy bond then
       bnd (get_hbond_ipi_name E) (\<lambda>n. modify (\<lambda>s. s\<lparr>ifc_type := n\<rparr>))
     else
       bnd (gets ifc) (\<lambda>i.
       bnd (call ''get_device_IPI_name'' [vstr i] (ipi_name E (vstr i))) (\<lambda>n.
       sq (modify (\<lambda>s. s\<lparr>ifc_type := n\<rparr>))
          (whenb (\<not> truthy n)
            (sq (log Debug (''get_device_IPI_name() returned None, using interface name '' @ quoted (vstr i) @
                            '' as fallback''))
                (modify (\<lambda>s. s\<lparr>ifc_type := i\<rparr>)))))))"

definition setUp_network :: "'w ib_env \<Rightarrow> (string \<rightharpoonup> pyval) \<Rightarrow> pyval \<Rightarrow> ('w, unit) ib" where
  "setUp_network E params device =
     sq (modify (\<lambda>s. s\<lparr>peer_ip := ib_param params ''peer_ip'' VNone\<rparr>))
    (sq (find_interface E device)
    (bnd (gets peer_ip) (\<lambda>peer.
     sq (whenb (\<not> truthy peer) (cancel ''peer ip need to specify in YAML''))
    (sq (modify (\<lambda>s. s\<lparr>ipaddr := ib_param params ''host_ip'' (VStr [])\<rparr>))
    (bnd (gets ifc) (\<lambda>i.
     sq (call ''NetworkInterface'' [vstr i] (new_interface E (vstr i)))
    (sq (modify (\<lambda>s. s\<lparr>has_nif := True\<rparr>))
    (sq (check_ip E (ib_param params ''host_ip'' (VStr []))
           ''Host IP formatt in YAML is incorrect,Please specify it correctly'')
    (sq (check_ip E peer ''Peer IP formatt in YAML is incorrect,Please specify it correctly'')
    (sq (modify (\<lambda>s. s\<lparr>netmask := Some (ib_param params ''netmask'' (VStr []))\<rparr>))
    (bnd (call ''validate_ipv4_netmask_format'' [vstr (ib_param params ''netmask'' (VStr []))]
            (valid_netmask E (ib_param params ''netmask'' (VStr [])))) (\<lambda>b.
     sq (whenb (\<not> b) (cancel ''Netmask formatt in YAML is incorrect,please specify it correctly''))
    (sq (configure_interface E)
        (device_type E))))))))))))))"

definition ib_setUp :: "'w ib_env \<Rightarrow> (string \<rightharpoonup> pyval) \<Rightarrow> ('w, unit) ib" where
  "ib_setUp E params =
    (let device = ib_param params ''interface'' VNone in
     sq (modify (\<lambda>s. s\<lparr>ifc := VNone, ifc_type := VNone, ib_disk := ib_param params ''disk'' VNone,
           is_hbond := ib_param params ''hbond'' (VBool False), has_nif := False, has_curr_smt := False,
           netmask := None, cpu_range := None\<rparr>))
    (sq (whenb (truthy device) (setUp_network E params device))
    (bnd (gets ib_disk) (\<lambda>d.
     sq (whenb (truthy d) (bnd get_disk_IPI_name (\<lambda>n. modify (\<lambda>s. s\<lparr>ifc_type := n\<rparr>))))
    (sq (check_current_smt E)
    (sq (set_max_smt_values E)
    (bnd (online_now E) (\<lambda>cpus.
     modify (\<lambda>s. s\<lparr>cpu_list := cpus\<rparr>)))))))))"

subsection \<open>Interrupts\<close>

definition get_device_interrupts :: "'w ib_env \<Rightarrow> ('w, unit) ib" where
  "get_device_interrupts E =
     bnd (gets ifc_type) (\<lambda>ty.
     bnd (irun E (''grep '' @ vstr ty @ '' /proc/interrupts'')) (\<lambda>r.
     modify (\<lambda>s. s\<lparr>device_interrupts := strip (stdout_text r)\<rparr>)))"

text \<open>
  \<^verbatim>\<open>re.findall\<close> of \<^verbatim>\<open>^\s*(\d+):\<close> in every line: the number before the first colon, if the line
  starts with one.
\<close>

definition irq_of_line :: "string \<Rightarrow> int list" where
  "irq_of_line l =
     (let t = dropWhile is_space l; ds = takeWhile is_digit t
      in if ds \<noteq> [] \<and> startswith (dropWhile is_digit t) '':'' then [digits_value 0 ds] else [])"

definition irq_numbers :: "string \<Rightarrow> int list" where
  "irq_numbers out = concat (map irq_of_line (split_on newline out))"

definition get_irq_numbers :: "('w, unit) ib" where
  "get_irq_numbers =
     bnd (gets device_interrupts) (\<lambda>out. modify (\<lambda>s. s\<lparr>irq_number := Irqs (irq_numbers out)\<rparr>))"

fun irqs_text :: "irqs \<Rightarrow> string" where
  "irqs_text (Irq n) = str_int n"
| "irqs_text (Irqs ns) = ''['' @ join '', '' (map str_int ns) @ '']''"

definition affinity_file :: "irqs \<Rightarrow> string" where
  "affinity_file n = ''/proc/irq/'' @ irqs_text n @ ''/smp_affinity_list''"

definition get_module_interrupts :: "'w ib_env \<Rightarrow> ('w, bool) ib" where
  "get_module_interrupts E =
     bnd (gets ifc_type) (\<lambda>ty.
     sq (irun E (''head -n 1 /proc/interrupts && grep '' @ vstr ty @ '' /proc/interrupts'')) (ret False))"

definition wait_module_interrupts :: "'w ib_env \<Rightarrow> ('w, unit) ib" where
  "wait_module_interrupts E =
     sq (wait_for (ib_polls E ''get_module_interrupts'') (get_module_interrupts E)) (ret ())"

text \<open>\<^verbatim>\<open>re.match\<close> of \<^verbatim>\<open>(\d+)-(\d+)\<close>, both groups as numbers.\<close>

definition range_match :: "string \<Rightarrow> (int \<times> int) option" where
  "range_match s =
     (let a = takeWhile is_digit s; t = dropWhile is_digit s; b = takeWhile is_digit (tl t)
      in if a \<noteq> [] \<and> startswith t ''-'' \<and> b \<noteq> [] then Some (digits_value 0 a, digits_value 0 b) else None)"

definition compare_range_strings :: "string \<Rightarrow> string \<Rightarrow> bool" where
  "compare_range_strings a b =
     (case (range_match a, range_match b) of (Some r1, Some r2) \<Rightarrow> r1 = r2 | _ \<Rightarrow> False)"

definition cpu_range_validation :: "'w ib_env \<Rightarrow> ('w, unit) ib" where
  "cpu_range_validation E =
     bnd (gets cpu_range) (\<lambda>o'. bnd (lift (attr o')) (\<lambda>r.
     bnd (lift (rbind (py_nth r 0) (\<lambda>a. rbind (py_nth r (- 1)) (\<lambda>b. Inr (str_int a @ ''-'' @ str_int b))))) (\<lambda>aff.
     sq (modify (\<lambda>s. s\<lparr>irq_affinity := aff\<rparr>))
    (bnd (gets irq_number) (\<lambda>n.
     bnd (call ''read_file'' [affinity_file n] (ib_read E (affinity_file n))) (\<lambda>text.
     sq (modify (\<lambda>s. s\<lparr>system_affinity := text\<rparr>))
    (sq (sleep (VInt 25))
        (whenb (\<not> compare_range_strings aff text)
          (fail (''The smp_affinity_list does not matches to affinity that was set by script, '' @
                 ''Please check the logs''))))))))))"

definition echo_cmd :: "string \<Rightarrow> irqs \<Rightarrow> string" where
  "echo_cmd cs n = ''echo '' @ cs @ '' > '' @ affinity_file n"

definition set_affinity :: "'w ib_env \<Rightarrow> string \<Rightarrow> ('w, unit) ib" where
  "set_affinity E cs =
     bnd (gets irq_number) (\<lambda>n.
     bnd (irun E (echo_cmd cs n)) (\<lambda>r.
     whenb (exit_status r \<noteq> 0) (fail ''Assigning CPU to IRQ failed, Please check logs'')))"

definition cpus_text :: "string \<Rightarrow> int list \<Rightarrow> string" where
  "cpus_text sep cs = join sep (map str_int cs)"

definition pick_irq :: "'w ib_env \<Rightarrow> ('w, unit) ib" where
  "pick_irq E =
     bnd (gets irq_number) (\<lambda>q. bnd (gets ifc_type) (\<lambda>ty.
     case q of
       Irqs [] \<Rightarrow> fail (''No IRQ numbers found for device '' @ quoted (vstr ty) @
                       ''. Check if device is active and has interrupts in /proc/interrupts'')
     | Irqs [a] \<Rightarrow> modify (\<lambda>s. s\<lparr>irq_number := Irq a\<rparr>)
     | Irqs (a # b # _) \<Rightarrow> modify (\<lambda>s. s\<lparr>irq_number := Irq b\<rparr>)
     | Irq _ \<Rightarrow> raise TypeError))"

definition assign_step :: "'w ib_env \<Rightarrow> int \<Rightarrow> ('w, unit) ib" where
  "assign_step E cpu_number =
     bnd (gets cpu_list) (\<lambda>cpus.
     let r = take (nat (cpu_number + 1)) cpus in
     sq (modify (\<lambda>s. s\<lparr>cpu_range := Some r\<rparr>))
    (sq (set_affinity E (cpus_text '', '' r))
    (sq (wait_module_interrupts E)
        (whenb (length r > 1) (cpu_range_validation E)))))"

text \<open>
  The loop that gives the processors back, one at a time. It ends when one is left; the length of
  the list is fuel enough.
\<close>

fun unassign_loop :: "'w ib_env \<Rightarrow> nat \<Rightarrow> ('w, unit) ib" where
  "unassign_loop E n =
     bnd (gets cpu_range) (\<lambda>o'. bnd (lift (attr o')) (\<lambda>r.
     if length r > 1 then
       (case n of
          0 \<Rightarrow> raise NoReturn
        | Suc m \<Rightarrow>
            sq (set_affinity E (cpus_text '','' r))
           (sq (whenb (length r > 1) (cpu_range_validation E))
           (sq (wait_module_interrupts E)
           (sq (modify (\<lambda>s. s\<lparr>cpu_range := Some (butlast r)\<rparr>))
               (unassign_loop E m)))))
     else ret ()))"

declare unassign_loop.simps [simp del]

definition test_irq_balance :: "'w ib_env \<Rightarrow> ('w, unit) ib" where
  "test_irq_balance E =
     sq (get_device_interrupts E)
    (sq get_irq_numbers
    (sq (pick_irq E)
    (bnd (gets cpu_list) (\<lambda>cpus.
     sq (for_each (range1 (int (length cpus))) (assign_step E))
    (sq (collect_errors E)
    (sq (unassign_loop E (length cpus))
        (collect_errors E)))))))"

subsection \<open>Processors off and on\<close>

definition offline_step :: "'w ib_env \<Rightarrow> int \<Rightarrow> ('w, unit) ib" where
  "offline_step E c =
     sq (log Info (''Offlining cpu'' @ str_int c))
    (sq (call ''cpu.offline'' [str_int c] (ib_offline E c))
    (bnd (online_now E) (\<lambda>cs.
     whenb (c \<in> set cs)
       (fail ('' The offlined cpu '' @ str_int c @ '' is still showing as online, Please check the logs'')))))"

definition online_step :: "'w ib_env \<Rightarrow> int \<Rightarrow> ('w, unit) ib" where
  "online_step E c =
     sq (log Info (''Onlining cpu'' @ str_int c))
    (sq (call ''cpu.online'' [str_int c] (ib_online E c))
    (bnd (online_now E) (\<lambda>cs.
     whenb (c \<notin> set cs)
       (fail ('' The onlined cpu '' @ str_int c @ '' is still showing as offline, Please check the logs'')))))"

definition test_cpu_serial_off_on :: "'w ib_env \<Rightarrow> ('w, unit) ib" where
  "test_cpu_serial_off_on E =
     bnd (gets cpu_list) (\<lambda>cpus.
     sq (whenb (length cpus = 1) (cancel '' only one cpu is available cannot do this operation''))
    (sq (for_each (butlast cpus) (offline_step E))
    (sq (for_each (butlast cpus) (online_step E))
        (collect_errors E))))"

subsection \<open>Processes\<close>

definition ping_pid_cmd :: "pyval \<Rightarrow> pyval \<Rightarrow> string" where
  "ping_pid_cmd i peer =
     ''ps -ef | grep '' @ quoted (''[p]ing -I '' @ vstr i @ '' '' @ vstr peer) @ '' | grep '' @ quoted '' -f'' @
     '' | awk '' @ quoted ''{print $2}'' @ '' | head -1''"

definition get_ping_process_pid :: "'w ib_env \<Rightarrow> ('w, string) ib" where
  "get_ping_process_pid E =
     bnd (gets ifc) (\<lambda>i. bnd (gets peer_ip) (\<lambda>peer.
     bnd (for_ret (range1 10) (\<lambda>_.
            bnd (ioutput E (ping_pid_cmd i peer)) (\<lambda>out.
            if strip out \<noteq> [] then ret (Some (strip out))
            else sq (sleep (VInt 1)) (ret None)))) (\<lambda>r. case r of
       Some pid \<Rightarrow> ret pid
     | None \<Rightarrow> cancel ''No process PID of ping command available'')))"

definition dd_pid_cmd :: string where
  "dd_pid_cmd = ''ps -C dd | awk '' @ quoted ''NR > 1 {print $1}''"

definition get_dd_process_pid :: "'w ib_env \<Rightarrow> ('w, string) ib" where
  "get_dd_process_pid E =
     bnd (ioutput E dd_pid_cmd) (\<lambda>out.
     sq (whenb (out = []) (fail ''No more dd run process PID available'')) (ret out))"

definition dd_run :: "'w ib_env \<Rightarrow> ('w, bool) ib" where
  "dd_run E =
     bnd (gets ib_disk) (\<lambda>d.
     let cmd = ''dd if=/dev/urandom of='' @ vstr d @ '' bs=1M count=$((600*60))'' in
     bnd (call ''Popen'' [cmd] (ib_popen E cmd)) (\<lambda>_.
     sq (log Debug (''Initiated dd command on disk '' @ vstr d)) (ret True)))"

definition psr_cmd :: "string \<Rightarrow> string" where
  "psr_cmd pid = ''ps -o psr -p '' @ pid @ '' | awk '' @ quoted ''NR>1 {print $1}''"

text \<open>With a disk the command for the ping process is replaced by the one for \<^verbatim>\<open>dd\<close>.\<close>

definition taskset_cpu_validation :: "'w ib_env \<Rightarrow> ('w, int) ib" where
  "taskset_cpu_validation E =
     bnd (gets ifc) (\<lambda>i. bnd (gets ib_disk) (\<lambda>d.
     bnd (if truthy i then (bnd (get_ping_process_pid E) (\<lambda>pid. ret (Some pid))) else ret None) (\<lambda>p1.
     bnd (if truthy d then (bnd (get_dd_process_pid E) (\<lambda>pid. ret (Some pid))) else ret p1) (\<lambda>p2.
     case p2 of
       None \<Rightarrow> raise (LibError ''UnboundLocalError'')
     | Some pid \<Rightarrow> bnd (ioutput E (psr_cmd pid)) (\<lambda>out. lift (py_int out))))))"

definition taskset_step :: "'w ib_env \<Rightarrow> string \<Rightarrow> int \<Rightarrow> ('w, unit) ib" where
  "taskset_step E pid cpu_number =
     bnd (irun E (''taskset -cp '' @ str_int cpu_number @ '' '' @ pid)) (\<lambda>r.
     sq (whenb (exit_status r \<noteq> 0) (fail ''taskset command failed check logs''))
    (bnd (taskset_cpu_validation E) (\<lambda>c.
     whenb (cpu_number \<noteq> c)
       (fail ''CPU number is mismatching after taskset operation, Please check logs.''))))"

text \<open>
  \<^verbatim>\<open>self.log.fail\<close> does not exist on a logger, so the handler for a failed \<^verbatim>\<open>kill\<close> raises.
\<close>

definition ikill :: "'w ib_env \<Rightarrow> string \<Rightarrow> ('w, unit) ib" where
  "ikill E pid =
     try_except
       (bnd (lift (py_int pid)) (\<lambda>n.
        sq (call ''system'' [''kill -9 '' @ str_int n] (ib_system E (''kill -9 '' @ str_int n))) (ret ())))
       (\<lambda>e. case e of CmdError _ \<Rightarrow> raise AttributeError | _ \<Rightarrow> raise e)"

definition stop_ping :: "'w ib_env \<Rightarrow> int \<Rightarrow> ('w, unit) ib" where
  "stop_ping E h =
     try_except
       (sq (call ''terminate'' [str_int h] (proc_op E ''terminate'' h))
           (call ''wait'' [str_int h] (proc_op E ''wait'' h)))
       (\<lambda>_. call ''kill'' [str_int h] (proc_op E ''kill'' h))"

definition taskset_ping :: "'w ib_env \<Rightarrow> ('w, unit) ib" where
  "taskset_ping E =
     bnd (gets ifc) (\<lambda>i. bnd (gets peer_ip) (\<lambda>peer. bnd (gets cpu_list) (\<lambda>cpus.
     let cmd = ''ping -I '' @ vstr i @ '' '' @ vstr peer @ '' -c 1000000 -f'' in
     bnd (call ''Popen'' [cmd] (ib_popen E cmd)) (\<lambda>h.
     sq (sleep (VInt 2))
    (bnd (get_ping_process_pid E) (\<lambda>pid.
     try_finally (for_each cpus (taskset_step E pid))
       (sq (stop_ping E h) (ikill E pid))))))))"

definition taskset_dd :: "'w ib_env \<Rightarrow> ('w, unit) ib" where
  "taskset_dd E =
     bnd (gets cpu_list) (\<lambda>cpus.
     bnd (dd_run E) (\<lambda>ok.
     sq (whenb (\<not> ok) (fail ''dd command failed, Please check logs''))
    (bnd (get_dd_process_pid E) (\<lambda>pid.
     try_finally (for_each cpus (taskset_step E pid))
       (sq (ikill E pid) (sleep (VInt 2)))))))"

definition test_taskset :: "'w ib_env \<Rightarrow> ('w, unit) ib" where
  "test_taskset E =
     bnd (gets ifc) (\<lambda>i.
     sq (whenb (truthy i) (taskset_ping E))
    (bnd (gets ib_disk) (\<lambda>d.
     sq (whenb (truthy d) (taskset_dd E))
        (collect_errors E))))"

subsection \<open>tearDown\<close>

definition ib_online_cpus :: "'w ib_env \<Rightarrow> int \<Rightarrow> ('w, unit) ib" where
  "ib_online_cpus E cores =
     for_each (range1 cores) (\<lambda>c. call ''cpu.online'' [str_int c] (ib_online E c))"

definition ib_tearDown :: "'w ib_env \<Rightarrow> int \<Rightarrow> ('w, unit) ib" where
  "ib_tearDown E totalcpus =
     bnd (gets has_curr_smt) (\<lambda>b.
     sq (whenb b
           (bnd (check_current_smt E) (\<lambda>v. sq (ioutput E (''ppc64_cpu --smt='' @ v)) (ret ()))))
    (sq (ib_online_cpus E totalcpus)
    (bnd (gets ifc) (\<lambda>i.
     whenb (truthy i)
       (bnd (gets has_nif) (\<lambda>n.
        if \<not> n then raise AttributeError
        else
          bnd (gets ipaddr) (\<lambda>ip. bnd (gets netmask) (\<lambda>m. bnd (lift (attr m)) (\<lambda>mask.
          sq (nif E ''remove_ipaddr'' [vstr ip, vstr mask])
             (try_except (nif E ''restore_from_backup'' [])
               (\<lambda>_. sq (nif E ''remove_cfg_file'' [])
                       (log Info ''backup file not available,could not restore file.''))))))))))))"

end
