(* ===== verification/Irq_Props.thy ===== *)
theory Irq_Props
  imports Irq_Balance Switching Protocol
begin

section \<open>Properties of the IRQ balance test\<close>

text \<open>
  First the format in which the kernel reports the processors of an interrupt and what the test
  reads of it; then the test of the affinities against a kernel that does what it is told, the
  parser of \<^verbatim>\<open>/proc/interrupts\<close>, the processors that go off and on, the life of the ping process, and
  the SMT level over a whole run.
\<close>

subsection \<open>The kernel's lists of processors\<close>

text \<open>A sorted list as the kernel prints it: maximal runs of consecutive numbers, as \<^verbatim>\<open>a-b\<close> or \<^verbatim>\<open>a\<close>.\<close>

fun cpu_runs :: "int list \<Rightarrow> (int \<times> int) list" where
  "cpu_runs [] = []"
| "cpu_runs [a] = [(a, a)]"
| "cpu_runs (a # b # cs) =
     (case cpu_runs (b # cs) of
        [] \<Rightarrow> [(a, a)]
      | (x, y) # rs \<Rightarrow> if b = a + 1 then (a, y) # rs else (a, a) # (x, y) # rs)"

fun run_text :: "int \<times> int \<Rightarrow> string" where
  "run_text (a, b) = (if a = b then str_int a else str_int a @ ''-'' @ str_int b)"

definition cpulist_text :: "int list \<Rightarrow> string" where
  "cpulist_text cs = join '','' (map run_text (cpu_runs cs)) @ [newline]"

definition contiguous :: "int list \<Rightarrow> bool" where
  "contiguous cs \<longleftrightarrow> successively (\<lambda>x y. y = x + 1) cs"

lemma contiguous_take: "contiguous cs \<Longrightarrow> contiguous (take n cs)"
  unfolding contiguous_def by (metis append_take_drop_id successively_append_iff)

lemma cpu_runs_first:
  "sorted_wrt (<) (a # cs) \<Longrightarrow> \<exists>y rs. cpu_runs (a # cs) = (a, y) # rs \<and> a \<le> y \<and>
     (a = y \<longrightarrow> rs = [] \<longrightarrow> cs = []) \<and> (y = last (a # cs) \<longleftrightarrow> contiguous (a # cs)) \<and> y \<le> last (a # cs)"
proof (induction cs arbitrary: a)
  case Nil
  then show ?case by (simp add: contiguous_def)
next
  case (Cons b cs)
  from Cons.prems have "sorted_wrt (<) (b # cs)" and ab: "a < b" by simp_all
  from Cons.IH[OF this(1)] obtain y rs where y: "cpu_runs (b # cs) = (b, y) # rs" "b \<le> y"
    "y = last (b # cs) \<longleftrightarrow> contiguous (b # cs)" "y \<le> last (b # cs)" by blast
  have "a < last (b # cs)" using y(2,4) ab by linarith
  then show ?case
    using y ab by (auto simp: contiguous_def)
qed

lemma takeWhile_digits_int:
  assumes "0 \<le> n" "s = [] \<or> \<not> is_digit (hd s)"
  shows "takeWhile is_digit (str_int n @ s) = str_int n" "dropWhile is_digit (str_int n @ s) = s"
proof -
  have d: "\<forall>c \<in> set (str_int n). is_digit c" using assms(1) str_digits_chars[of n] by (simp add: str_int_def)
  show "takeWhile is_digit (str_int n @ s) = str_int n"
    using d assms(2) by (cases s) (auto simp: takeWhile_append)
  show "dropWhile is_digit (str_int n @ s) = s"
    using d assms(2) by (cases s) (auto simp: dropWhile_append)
qed

lemma digits_value_str_int: "0 \<le> n \<Longrightarrow> digits_value 0 (str_int n) = n"
  by (simp add: str_int_def digits_value_str_digits)

lemma range_match_range:
  assumes "0 \<le> a" "0 \<le> b" "s = [] \<or> \<not> is_digit (hd s)"
  shows "range_match (str_int a @ ''-'' @ str_int b @ s) = Some (a, b)"
proof -
  have h: "\<not> is_digit (CHR ''-'')" by (simp add: is_digit_def char_digit_def)
  show ?thesis
    using takeWhile_digits_int[OF assms(1), of "''-'' @ str_int b @ s"] h
      takeWhile_digits_int[OF assms(2,3)] digits_value_str_int[OF assms(1)] digits_value_str_int[OF assms(2)]
    by (simp add: range_match_def Let_def startswith_def)
qed

lemma range_match_single:
  assumes "0 \<le> a" "s = [] \<or> (\<not> is_digit (hd s) \<and> hd s \<noteq> CHR ''-'')"
  shows "range_match (str_int a @ s) = None"
proof -
  have "s = [] \<or> \<not> is_digit (hd s)" using assms(2) by blast
  note td = takeWhile_digits_int[OF assms(1) this]
  have "\<not> startswith s ''-''" using assms(2) by (cases s) (auto simp: startswith_def)
  then show ?thesis using td by (simp add: range_match_def)
qed

text \<open>What the test concludes from the report: the ends agree exactly for a list without gaps.\<close>

lemma compare_cpulist:
  assumes "sorted_wrt (<) cs" "\<forall>c \<in> set cs. 0 \<le> c" "1 < length cs"
  shows "compare_range_strings (str_int (hd cs) @ ''-'' @ str_int (last cs)) (cpulist_text cs) \<longleftrightarrow> contiguous cs"
proof -
  from assms(3) obtain a ds where cs: "cs = a # ds" "ds \<noteq> []" by (cases cs) auto
  from cpu_runs_first[OF assms(1)[unfolded cs(1)]] obtain y rs where
    y: "cpu_runs cs = (a, y) # rs" "a \<le> y" "y = last cs \<longleftrightarrow> contiguous cs" "y \<le> last cs"
    unfolding cs(1) by blast
  have a: "0 \<le> a" "0 \<le> last cs" using assms(2) cs by auto
  have al: "a < last cs" using assms(1) cs by (simp add: last_in_set)
  define rest where "rest = concat (map (\<lambda>r. '','' @ run_text r) rs) @ [newline]"
  have split: "cpulist_text cs = run_text (a, y) @ rest"
    unfolding cpulist_text_def y(1) rest_def
    by (induction rs arbitrary: a y) auto
  have tl: "hd rest = newline \<or> hd rest = CHR '',''" "rest \<noteq> []"
    unfolding rest_def by (cases rs; simp)+
  have nd: "\<not> is_digit newline" "\<not> is_digit (CHR '','')" "newline \<noteq> CHR ''-''"
    by (simp_all add: is_digit_def char_digit_def newline_def)
  have tld: "\<not> is_digit (hd rest)" "hd rest \<noteq> CHR ''-''" using tl(1) nd by auto
  have l: "range_match (str_int (hd cs) @ ''-'' @ str_int (last cs)) = Some (a, last cs)"
    using range_match_range[OF a, of "[]"] cs(1) by simp
  show ?thesis
  proof (cases "a = y")
    case True
    then have "range_match (cpulist_text cs) = None"
      unfolding split using range_match_single[OF a(1)] tld by simp
    moreover have "\<not> contiguous cs" using y(3) True al by simp
    ultimately show ?thesis using l by (simp add: compare_range_strings_def)
  next
    case False
    then have "range_match (cpulist_text cs) = Some (a, y)"
      unfolding split using range_match_range[OF a(1), of y rest] y(2) a(1) tld by simp
    then show ?thesis using l y(3) by (auto simp: compare_range_strings_def)
  qed
qed

subsection \<open>A kernel that keeps the affinity it is given\<close>

text \<open>
  \<open>aff w\<close> is the list of processors of the interrupt \<open>n\<close> in the system \<open>w\<close>: writing a sorted list
  stores it, whatever the separator, reading reports it in the kernel's format, and looking at
  \<^verbatim>\<open>/proc/interrupts\<close> or the kernel log changes nothing.
\<close>

definition irq_kernel :: "'w ib_env \<Rightarrow> irqs \<Rightarrow> ('w \<Rightarrow> int list) \<Rightarrow> bool" where
  "irq_kernel E n aff \<longleftrightarrow>
     (\<forall>w cs sep. cs \<noteq> [] \<and> sorted_wrt (<) cs \<and> sep \<in> {'', '', '',''} \<longrightarrow>
        (\<exists>r w'. ib_run E (echo_cmd (cpus_text sep cs) n) w = (Inr r, w') \<and> exit_status r = 0 \<and> aff w' = cs)) \<and>
     (\<forall>w. ib_read E (affinity_file n) w = (Inr (cpulist_text (aff w)), w)) \<and>
     (\<forall>w cmd. startswith cmd ''grep '' \<or> startswith cmd ''head '' \<longrightarrow>
        (\<exists>r w'. ib_run E cmd w = (Inr r, w') \<and> aff w' = aff w)) \<and>
     (\<forall>w. \<exists>w'. ib_errors E ib_errorlog w = (Inr (), w') \<and> aff w' = aff w)"

text \<open>The interrupt the test picks from the numbers of the device: the second, or the only one.\<close>

definition chosen_irq :: "int list \<Rightarrow> int" where
  "chosen_irq ns = (if length ns = 1 then hd ns else ns ! 1)"

definition device_irqs :: "'w ib_env \<Rightarrow> pyval \<Rightarrow> int list \<Rightarrow> bool" where
  "device_irqs E ty ns \<longleftrightarrow> (\<forall>w r w'. ib_run E (''grep '' @ vstr ty @ '' /proc/interrupts'') w = (Inr r, w') \<longrightarrow>
     irq_numbers (strip (stdout_text r)) = ns)"

definition ib_frame :: "'w ib_st \<Rightarrow> int list \<times> irqs \<times> pyval \<times> int list option" where
  "ib_frame s = (cpu_list s, irq_number s, ifc_type s, cpu_range s)"

lemma ib_frame_update [simp]:
  "ib_frame (s\<lparr>trace := tr\<rparr>) = ib_frame s" "ib_frame (s\<lparr>world := w\<rparr>) = ib_frame s"
  "ib_frame (s\<lparr>irq_affinity := a\<rparr>) = ib_frame s" "ib_frame (s\<lparr>system_affinity := a\<rparr>) = ib_frame s"
  by (simp_all add: ib_frame_def)

lemma wp_set_affinity:
  assumes "irq_kernel E n aff" "irq_number s = n" "cs \<noteq> []" "sorted_wrt (<) cs" "sep \<in> {'', '', '',''}"
  shows "wp (set_affinity E (cpus_text sep cs)) (\<lambda>_ t. aff (world t) = cs \<and> ib_frame t = ib_frame s) (\<lambda>_ _. False) s"
proof -
  obtain r w' where "ib_run E (echo_cmd (cpus_text sep cs) n) (world s) = (Inr r, w')" "exit_status r = 0" "aff w' = cs"
    using assms unfolding irq_kernel_def by meson
  then show ?thesis by (simp add: set_affinity_def irun_def wp assms(2))
qed

lemma wp_wait_module_interrupts:
  assumes "irq_kernel E n aff"
  shows "wp (wait_module_interrupts E) (\<lambda>_ t. aff (world t) = aff (world s) \<and> ib_frame t = ib_frame s) (\<lambda>_ _. False) s"
proof -
  have step: "wp (get_module_interrupts E) (\<lambda>b t. \<not> b \<and> aff (world t) = aff (world u) \<and> ib_frame t = ib_frame u) (\<lambda>_ _. False) u" for u
  proof -
    let ?c = "''head -n 1 /proc/interrupts && grep '' @ vstr (ifc_type u) @ '' /proc/interrupts''"
    have "startswith ?c ''head ''" by (simp add: startswith_def)
    then obtain r w' where "ib_run E ?c (world u) = (Inr r, w')" "aff w' = aff (world u)"
      using assms unfolding irq_kernel_def by meson
    then show ?thesis by (simp add: get_module_interrupts_def irun_def wp)
  qed
  show ?thesis
    unfolding wait_module_interrupts_def wp_sq wp_ret
    by (rule wp_wait_for[where I = "\<lambda>t. aff (world t) = aff (world s) \<and> ib_frame t = ib_frame s"])
       (auto intro!: wp_conseq[OF step])
qed

lemma wp_cpu_range_validation:
  assumes "irq_kernel E n aff" "irq_number s = n" "cpu_range s = Some cs" "aff (world s) = cs"
    and "1 < length cs" "sorted_wrt (<) cs" "\<forall>c \<in> set cs. 0 \<le> c"
  shows "wp (cpu_range_validation E) (\<lambda>_ t. contiguous cs \<and> aff (world t) = cs \<and> ib_frame t = ib_frame s)
     (\<lambda>e _. \<not> contiguous cs \<and> (\<exists>m. e = TestFail m)) s"
proof -
  have ne: "cs \<noteq> []" using assms(5) by auto
  have read: "ib_read E (affinity_file n) w = (Inr (cpulist_text (aff w)), w)" for w
    using assms(1) unfolding irq_kernel_def by blast
  have cmp: "compare_range_strings (str_int (hd cs) @ CHR ''-'' # str_int (last cs)) (cpulist_text cs) \<longleftrightarrow> contiguous cs"
    using compare_cpulist[OF assms(6,7,5)] by simp
  show ?thesis
    by (auto simp: cpu_range_validation_def wp assms(2-4) py_nth_0[OF ne] py_nth_last[OF ne] read cmp)
qed

lemma contiguous_prefix: "\<not> contiguous (take k cs) \<Longrightarrow> \<not> contiguous cs"
  using contiguous_take by blast

lemma range1_map: "range1 b = map int [0..<nat b]"
  by (simp add: py_range3_def)

lemma range1_split: "range1 b = ys @ x # zs \<Longrightarrow> x = int (length ys) \<and> length ys < nat b"
proof -
  assume "range1 b = ys @ x # zs"
  then have e: "map int [0..<nat b] = ys @ x # zs" by (simp add: range1_map)
  from arg_cong[OF e, of length] have l: "length ys < nat b" by simp
  have "map int [0..<nat b] ! length ys = x" unfolding e by simp
  with l show ?thesis by simp
qed

definition assigned :: "('w \<Rightarrow> int list) \<Rightarrow> 'w ib_st \<Rightarrow> nat \<Rightarrow> 'w ib_st \<Rightarrow> bool" where
  "assigned aff s k t \<longleftrightarrow> cpu_list t = cpu_list s \<and> irq_number t = irq_number s \<and> ifc_type t = ifc_type s \<and>
     (0 < k \<longrightarrow> contiguous (take k (cpu_list s)) \<and> aff (world t) = take k (cpu_list s) \<and>
        cpu_range t = Some (take k (cpu_list s)))"

lemma wp_assign_step:
  assumes k: "irq_kernel E n aff" "irq_number s = n" "sorted_wrt (<) (cpu_list s)" "\<forall>c \<in> set (cpu_list s). 0 \<le> c"
    and t: "assigned aff s i t" "i < length (cpu_list s)"
  shows "wp (assign_step E (int i)) (\<lambda>_. assigned aff s (Suc i))
     (\<lambda>e _. \<not> contiguous (cpu_list s) \<and> (\<exists>m. e = TestFail m)) t"
proof -
  let ?r = "take (Suc i) (cpu_list s)"
  have r: "?r \<noteq> []" "sorted_wrt (<) ?r" "length ?r = Suc i" using t(2) k(3) by (auto simp: sorted_wrt_take)
  have nn: "\<forall>c \<in> set ?r. 0 \<le> c" using k(4) by (meson in_set_takeD)
  have ct: "cpu_list t = cpu_list s" "irq_number t = n" "ifc_type t = ifc_type s"
    using t(1) k(2) by (simp_all add: assigned_def)
  let ?ok = "\<lambda>u. aff (world u) = ?r \<and> ib_frame u = (cpu_list s, n, ifc_type s, Some ?r)"
  have val: "wp (whenb (length ?r > 1) (cpu_range_validation E)) (\<lambda>_. assigned aff s (Suc i))
     (\<lambda>e _. \<not> contiguous (cpu_list s) \<and> (\<exists>m. e = TestFail m)) u" if u: "?ok u" for u
  proof (cases "length ?r > 1")
    case True
    have p: "irq_number u = n" "cpu_range u = Some ?r" "aff (world u) = ?r" using u by (simp_all add: ib_frame_def)
    show ?thesis
      unfolding whenb_def if_P[OF True]
    proof (rule wp_conseq[OF wp_cpu_range_validation[OF k(1) p True r(2) nn]])
      fix x v assume "contiguous ?r \<and> aff (world v) = ?r \<and> ib_frame v = ib_frame u"
      then show "assigned aff s (Suc i) v" using u k(2) by (simp add: assigned_def ib_frame_def)
    next
      fix e v assume "\<not> contiguous ?r \<and> (\<exists>m. e = TestFail m)"
      then show "\<not> contiguous (cpu_list s) \<and> (\<exists>m. e = TestFail m)" using contiguous_prefix by blast
    qed
  next
    case False
    then obtain c where "?r = [c]" using r(1) by (cases ?r) auto
    then have "contiguous ?r" by (simp add: contiguous_def)
    then show ?thesis unfolding whenb_def if_not_P[OF False] wp_ret using u k(2) by (simp add: assigned_def ib_frame_def)
  qed
  have w: "wp (sq (wait_module_interrupts E) (whenb (length ?r > 1) (cpu_range_validation E))) (\<lambda>_. assigned aff s (Suc i))
     (\<lambda>e _. \<not> contiguous (cpu_list s) \<and> (\<exists>m. e = TestFail m)) u" if u: "?ok u" for u
    by (rule wp_sq_step[OF wp_wait_module_interrupts[OF k(1)]]) (use u val in auto)
  show ?thesis
    unfolding assign_step_def wp_bnd wp_gets Let_def wp_sq[of "modify _"] wp_modify ct(1) nat_int_add[of i 1, simplified]
  proof (rule wp_sq_step[OF wp_set_affinity[OF k(1) _ r(1,2)]])
    fix x u
    assume "aff (world u) = ?r \<and> ib_frame u = ib_frame (t\<lparr>cpu_range := Some ?r\<rparr>)"
    then have "?ok u" using ct by (simp add: ib_frame_def)
    then show "wp (sq (wait_module_interrupts E) (whenb (1 < length ?r) (cpu_range_validation E))) (\<lambda>_. assigned aff s (Suc i))
       (\<lambda>e _. \<not> contiguous (cpu_list s) \<and> (\<exists>m. e = TestFail m)) u" by (rule w)
  qed (simp_all add: ct)
qed

lemma wp_assign_all:
  assumes "irq_kernel E n aff" "irq_number s = n" "sorted_wrt (<) (cpu_list s)" "\<forall>c \<in> set (cpu_list s). 0 \<le> c"
  shows "wp (for_each (range1 (int (length (cpu_list s)))) (assign_step E)) (\<lambda>_. assigned aff s (length (cpu_list s)))
     (\<lambda>e _. \<not> contiguous (cpu_list s) \<and> (\<exists>m. e = TestFail m)) s"
proof -
  have "wp (for_each (range1 (int (length (cpu_list s)))) (assign_step E))
     (\<lambda>_. assigned aff s (length (range1 (int (length (cpu_list s))))))
     (\<lambda>e _. \<not> contiguous (cpu_list s) \<and> (\<exists>m. e = TestFail m)) s"
  proof (rule wp_for_each[where I = "\<lambda>ys. assigned aff s (length ys)"])
    fix ys x t
    assume t: "assigned aff s (length ys) t" and "\<exists>zs. range1 (int (length (cpu_list s))) = ys @ x # zs"
    then have x: "x = int (length ys)" "length ys < length (cpu_list s)" using range1_split by fastforce+
    show "wp (assign_step E x) (\<lambda>_. assigned aff s (length (ys @ [x])))
       (\<lambda>e _. \<not> contiguous (cpu_list s) \<and> (\<exists>m. e = TestFail m)) t"
      using wp_assign_step[OF assms t x(2)] by (simp add: x(1))
  qed (simp add: assigned_def)
  then show ?thesis by (simp add: range1_map)
qed

lemma wp_unassign_loop:
  assumes k: "irq_kernel E n aff" "irq_number s = n" "sorted_wrt (<) cs" "\<forall>c \<in> set cs. 0 \<le> c" "contiguous cs"
    and c: "cpu_range s = Some (take k cs)" "0 < k" "k \<le> length cs" "k \<le> Suc m"
    and a: "aff (world s) = take (Suc k) cs"
  shows "wp (unassign_loop E m) (\<lambda>_ t. aff (world t) = take 2 cs) (\<lambda>_ _. False) s"
  using k(2) c a
proof (induction m arbitrary: s k)
  case 0
  then have "k = 1" by simp
  with 0 show ?case by (simp add: unassign_loop.simps[of E 0] wp numeral_2_eq_2)
next
  case (Suc m)
  let ?r = "take k cs"
  show ?case
  proof (cases "1 < k")
    case False
    then have "k = 1" using Suc.prems(3) by simp
    with Suc.prems show ?thesis by (simp add: unassign_loop.simps[of E "Suc m"] wp numeral_2_eq_2)
  next
    case True
    have r: "?r \<noteq> []" "sorted_wrt (<) ?r" "1 < length ?r" "contiguous ?r"
      using True Suc.prems(4) k(3,5) by (auto simp: sorted_wrt_take contiguous_take)
    have nn: "\<forall>c \<in> set ?r. 0 \<le> c" using k(4) by (meson in_set_takeD)
    have bl: "butlast ?r = take (k - 1) cs" using Suc.prems(4) by (simp add: butlast_take)
    have last: "wp (unassign_loop E m) (\<lambda>_ t. aff (world t) = take 2 cs) (\<lambda>_ _. False) (u\<lparr>cpu_range := Some (butlast ?r)\<rparr>)"
      if u: "aff (world u) = ?r" "ib_frame u = ib_frame s" for u
      by (rule Suc.IH[where k = "k - 1"]) (use u Suc.prems True bl in \<open>auto simp: ib_frame_def\<close>)
    have wait: "wp (sq (wait_module_interrupts E) (sq (modify (\<lambda>s. s\<lparr>cpu_range := Some (butlast ?r)\<rparr>)) (unassign_loop E m)))
       (\<lambda>_ t. aff (world t) = take 2 cs) (\<lambda>_ _. False) u" if u: "aff (world u) = ?r" "ib_frame u = ib_frame s" for u
      by (rule wp_sq_step[OF wp_wait_module_interrupts[OF k(1)]]) (use u last in \<open>simp_all add: wp\<close>)
    have val: "wp (sq (whenb (length ?r > 1) (cpu_range_validation E)) (sq (wait_module_interrupts E)
         (sq (modify (\<lambda>s. s\<lparr>cpu_range := Some (butlast ?r)\<rparr>)) (unassign_loop E m))))
       (\<lambda>_ t. aff (world t) = take 2 cs) (\<lambda>_ _. False) u" if u: "aff (world u) = ?r" "ib_frame u = ib_frame s" for u
    proof -
      have p: "irq_number u = n" "cpu_range u = Some ?r" using u(2) Suc.prems(1,2) by (simp_all add: ib_frame_def)
      show ?thesis
        unfolding whenb_def if_P[OF r(3)]
        by (rule wp_sq_step[OF wp_cpu_range_validation[OF k(1) p u(1) r(3,2) nn]]) (use u(2) r(4) wait in auto)
    qed
    have "wp (sq (set_affinity E (cpus_text '','' ?r)) (sq (whenb (length ?r > 1) (cpu_range_validation E))
        (sq (wait_module_interrupts E) (sq (modify (\<lambda>s. s\<lparr>cpu_range := Some (butlast ?r)\<rparr>)) (unassign_loop E m)))))
       (\<lambda>_ t. aff (world t) = take 2 cs) (\<lambda>_ _. False) s"
      by (rule wp_sq_step[OF wp_set_affinity[OF k(1) Suc.prems(1) r(1,2)]]) (use val in auto)
    then show ?thesis
      unfolding unassign_loop.simps[of E "Suc m"] wp_bnd wp_gets Suc.prems(2) attr_simps lift_simps wp_ret if_P[OF r(3)]
      by simp
  qed
qed

text \<open>
  C37. The affinity test against a kernel that does what it is told: it passes exactly when the
  processors are numbered without a gap, and then the interrupt is left on the first two of them
  (the loop that gives the processors back stops before it writes a single one). With a gap, as when
  SMT is off, it fails although nothing is wrong, because only the ends of a single range are compared.
\<close>

theorem affinity_test_decides:
  assumes "irq_kernel E (Irq (chosen_irq ns)) aff" "device_irqs E (ifc_type s) ns" "ns \<noteq> []"
    and "cpu_list s \<noteq> []" "sorted_wrt (<) (cpu_list s)" "\<forall>c \<in> set (cpu_list s). 0 \<le> c"
  shows "wp (test_irq_balance E)
     (\<lambda>_ t. contiguous (cpu_list s) \<and> aff (world t) = take 2 (cpu_list s))
     (\<lambda>e _. \<not> contiguous (cpu_list s) \<and> (\<exists>m. e = TestFail m)) s"
proof -
  let ?n = "Irq (chosen_irq ns)" and ?cs = "cpu_list s"
  let ?R = "\<lambda>e (t :: 'a ib_st). \<not> contiguous ?cs \<and> (\<exists>m. e = TestFail m)"
  let ?Q = "\<lambda>_ (t :: 'a ib_st). contiguous ?cs \<and> aff (world t) = take 2 ?cs"
  have errors: "\<exists>w'. ib_errors E ib_errorlog w = (Inr (), w') \<and> aff w' = aff w" for w
    using assms(1) unfolding irq_kernel_def by blast
  have collect: "wp (collect_errors E) (\<lambda>_ u. aff (world u) = aff (world t) \<and> ib_frame u = ib_frame t) (\<lambda>_ _. False) t" for t
    using errors[of "world t"] by (auto simp: collect_errors_def wp)
  have pick: "wp (pick_irq E) (\<lambda>_ u. irq_number u = ?n \<and> cpu_list u = ?cs) (\<lambda>_ _. False) t"
    if "irq_number t = Irqs ns" "cpu_list t = ?cs" for t
    using that assms(3) by (cases ns; cases "tl ns") (auto simp: pick_irq_def wp chosen_irq_def split: list.split)
  let ?loops = "bnd (gets cpu_list) (\<lambda>cpus.
     sq (for_each (range1 (int (length cpus))) (assign_step E))
    (sq (collect_errors E) (sq (unassign_loop E (length cpus)) (collect_errors E))))"
  have loops: "wp ?loops ?Q ?R t" if t: "irq_number t = ?n" "cpu_list t = ?cs" for t
    unfolding wp_bnd wp_gets t(2)
  proof (rule wp_sq_step[OF wp_assign_all[OF assms(1) t(1), unfolded t(2), OF assms(5,6)]])
    fix x u assume "assigned aff t (length ?cs) u"
    then have u: "contiguous ?cs" "aff (world u) = ?cs" "cpu_range u = Some ?cs" "irq_number u = ?n"
      using assms(4) t by (auto simp: assigned_def)
    show "wp (sq (collect_errors E) (sq (unassign_loop E (length ?cs)) (collect_errors E))) ?Q ?R u"
    proof (rule wp_sq_step[OF collect])
      fix x v assume v: "aff (world v) = aff (world u) \<and> ib_frame v = ib_frame u"
      then have v': "irq_number v = ?n" "cpu_range v = Some (take (length ?cs) ?cs)" using u by (simp_all add: ib_frame_def)
      show "wp (sq (unassign_loop E (length ?cs)) (collect_errors E)) ?Q ?R v"
        by (rule wp_sq_step[OF wp_unassign_loop[OF assms(1) v'(1) assms(5,6) u(1) v'(2)]])
           (use assms(4) u v in \<open>auto intro!: wp_conseq[OF collect]\<close>)
    qed simp
  qed simp
  obtain r w' where r: "ib_run E (''grep '' @ vstr (ifc_type s) @ '' /proc/interrupts'') (world s) = (Inr r, w')"
    using assms(1) unfolding irq_kernel_def by (meson startswith_append)
  then have ns: "irq_numbers (strip (stdout_text r)) = ns" using assms(2) unfolding device_irqs_def by blast
  show ?thesis
    unfolding test_irq_balance_def get_device_interrupts_def get_irq_numbers_def irun_def
    apply (simp only: wp_sq wp_bnd wp_gets wp_modify wp_call r prod.case sum.case)
    apply (rule wp_conseq[OF pick])
      apply (simp_all add: ns)
    apply (elim conjE, rule loops, assumption+)
    done
qed

text \<open>A kernel in which the list itself is the system.\<close>

definition ib_parse :: "string \<Rightarrow> int list result" where
  "ib_parse cmd =
     mapM_r py_int (split_on (CHR '','') (filter (\<lambda>c. c \<noteq> CHR '' '') (takeWhile (\<lambda>c. c \<noteq> CHR ''>'') (drop 5 cmd))))"

definition ib_demo :: "int list ib_env" where
  "ib_demo = \<lparr>ib_listdir = \<lambda>_ w. (Inr [], w), valid_mac = \<lambda>_ w. (Inr False, w), all_hwaddr = \<lambda>w. (Inr [], w),
     ifc_by_hwaddr = \<lambda>_ w. (Inr [], w), new_interface = \<lambda>_ w. (Inr (), w), valid_ip = \<lambda>_ w. (Inr True, w),
     valid_netmask = \<lambda>_ w. (Inr True, w), nif_op = \<lambda>_ _ w. (Inr (), w), link_up = \<lambda>w. (Inr True, w),
     ping_ok = \<lambda>_ w. (Inr True, w), ipi_name = \<lambda>_ w. (Inr (VStr ''eth0''), w), ib_exists = \<lambda>_ w. (Inr False, w),
     ib_read = \<lambda>_ w. (Inr (cpulist_text w), w), pci_addresses = \<lambda>w. (Inr [], w), pci_class = \<lambda>_ w. (Inr [], w),
     pci_interfaces = \<lambda>_ w. (Inr [], w),
     ib_run = \<lambda>cmd w. (Inr \<lparr>exit_status = 0, stdout_text = '' 16:  0  XIVE  eth0'', stderr_text = []\<rparr>,
        if startswith cmd ''echo '' then case ib_parse cmd of Inl _ \<Rightarrow> w | Inr cs \<Rightarrow> cs else w),
     ib_output = \<lambda>_ w. (Inr [], w), ib_system = \<lambda>_ w. (Inr 0, w), ib_popen = \<lambda>_ w. (Inr 7, w),
     proc_op = \<lambda>_ _ w. (Inr (), w), ib_online = \<lambda>_ w. (Inr (), w), ib_offline = \<lambda>_ w. (Inr (), w),
     ib_online_list = \<lambda>w. (Inr [], w), ib_errors = \<lambda>_ w. (Inr (), w), ib_exn_text = \<lambda>_. [], ib_polls = \<lambda>_. 1\<rparr>"

definition ib_demo_st :: "int list \<Rightarrow> 'w \<Rightarrow> 'w ib_st" where
  "ib_demo_st cpus w = \<lparr>world = w, trace = [], ifc = VStr ''eth0'', ifc_type = VStr ''eth0'', ib_disk = VNone,
     is_hbond = VBool False, peer_ip = VStr ''10.0.0.2'', ipaddr = VStr ''10.0.0.1'', netmask = None, has_nif = True,
     has_curr_smt = False, cpu_list = cpus, device_interrupts = [], irq_number = Irqs [], cpu_range = None,
     irq_affinity = [], system_affinity = []\<rparr>"

lemma str_int_plain: "c \<in> set (str_int n) \<Longrightarrow> c \<noteq> CHR '' '' \<and> c \<noteq> CHR '','' \<and> c \<noteq> CHR ''>''"
proof -
  assume "c \<in> set (str_int n)"
  then have "is_digit c \<or> c = CHR ''-''"
    using str_digits_chars[of n c] str_digits_chars[of "- n" c] by (auto simp: str_int_def split: if_split_asm)
  then show ?thesis by (auto simp: is_digit_def char_digit_def)
qed

lemma filter_cpus_text:
  "sep \<in> {'', '', '',''} \<Longrightarrow> filter (\<lambda>c. c \<noteq> CHR '' '') (cpus_text sep cs) = join '','' (map str_int cs)"
proof (induction cs rule: induct_list012)
  case 1
  then show ?case by (simp add: cpus_text_def)
next
  case (2 x)
  then show ?case using str_int_plain[of _ x] by (auto simp: cpus_text_def filter_id_conv)
next
  case (3 x y zs)
  have "filter (\<lambda>c. c \<noteq> CHR '' '') (str_int x) = str_int x" using str_int_plain[of _ x] by (auto simp: filter_id_conv)
  moreover have "cpus_text sep (x # y # zs) = str_int x @ sep @ cpus_text sep (y # zs)" by (simp add: cpus_text_def)
  moreover have "filter (\<lambda>c. c \<noteq> CHR '' '') sep = '',''" using "3.prems" by auto
  ultimately show ?case using "3.IH"(2) "3.prems" by simp
qed

lemma cpus_text_plain: "sep \<in> {'', '', '',''} \<Longrightarrow> c \<in> set (cpus_text sep cs) \<Longrightarrow> c \<noteq> CHR ''>''"
proof (induction cs rule: induct_list012)
  case (3 x y zs)
  have "cpus_text sep (x # y # zs) = str_int x @ sep @ cpus_text sep (y # zs)" by (simp add: cpus_text_def)
  then show ?case using 3 str_int_plain[of c x] by auto
qed (auto simp: cpus_text_def dest: str_int_plain)

lemma ib_parse_echo:
  assumes "cs \<noteq> []" "sep \<in> {'', '', '',''}"
  shows "ib_parse (echo_cmd (cpus_text sep cs) n) = Inr cs"
proof -
  let ?t = "cpus_text sep cs"
  have "takeWhile (\<lambda>c. c \<noteq> CHR ''>'') (?t @ '' > '' @ affinity_file n) = ?t @ '' ''"
    using cpus_text_plain[OF assms(2)] by (subst takeWhile_append2) auto
  then have "takeWhile (\<lambda>c. c \<noteq> CHR ''>'') (drop 5 (echo_cmd ?t n)) = ?t @ '' ''"
    by (simp add: echo_cmd_def)
  moreover have "split_on (CHR '','') (join '','' (map str_int cs)) = map str_int cs"
    by (rule split_join) (use assms(1) str_int_plain in auto)
  moreover have "mapM_r py_int (map str_int cs) = Inr cs" by (induction cs) auto
  ultimately show ?thesis using assms(2) by (simp add: ib_parse_def filter_cpus_text)
qed

lemma ib_demo_kernel: "irq_kernel ib_demo n (\<lambda>w. w)"
proof -
  have e: "startswith (echo_cmd t n) ''echo ''" for t by (simp add: echo_cmd_def startswith_def)
  have g: "startswith cmd ''grep '' \<Longrightarrow> \<not> startswith cmd ''echo ''" "startswith cmd ''head '' \<Longrightarrow> \<not> startswith cmd ''echo ''" for cmd
    by (auto simp: startswith_def)
  show ?thesis
    unfolding irq_kernel_def
    by (auto simp: ib_demo_def e ib_parse_echo dest: g)
qed

theorem affinity_test_decides_witness:
  "wp (test_irq_balance ib_demo) (\<lambda>_ t. world t = [4, 5]) (\<lambda>_ _. False) (ib_demo_st [4, 5, 6] [])"
proof -
  let ?s = "ib_demo_st [4, 5, 6] []"
  have "irq_numbers (strip '' 16:  0  XIVE  eth0'') = [16]" by code_simp
  then have d: "device_irqs ib_demo (ifc_type ?s) [16]" by (simp add: device_irqs_def ib_demo_def)
  have "contiguous [4, 5, 6]" by (simp add: contiguous_def)
  then show ?thesis
    by (intro wp_conseq[OF affinity_test_decides[OF ib_demo_kernel d]]) (simp_all add: ib_demo_st_def)
qed

subsection \<open>The ping process\<close>

text \<open>
  The life of the process that \<^verbatim>\<open>test_taskset\<close> moves over the processors: it is started, moved, told
  to terminate (and killed by its handle when that fails), and killed by its number.
\<close>

datatype ping_state = NotStarted | Started | Moving | Told | Killed

definition ping_act :: "event \<Rightarrow> bool" where
  "ping_act e = (case e of Call f _ \<Rightarrow> f \<in> {''Popen'', ''run'', ''terminate'', ''kill'', ''system''} | _ \<Rightarrow> False)"

inductive ping_step :: "ping_state \<Rightarrow> event \<Rightarrow> ping_state \<Rightarrow> bool" where
  start: "ping_step NotStarted (Call ''Popen'' args) Started"
| move: "q = Started \<or> q = Moving \<Longrightarrow> ping_step q (Call ''run'' [''taskset -cp '' @ args]) Moving"
| tell: "q = Started \<or> q = Moving \<Longrightarrow> ping_step q (Call ''terminate'' args) Told"
| force: "ping_step Told (Call ''kill'' args) Told"
| kill: "ping_step Told (Call ''system'' [''kill -9 '' @ args]) Killed"
| quiet: "\<not> ping_act e \<Longrightarrow> ping_step q e q"

inductive_cases ping_stepE: "ping_step q e r"

interpretation ping: protocol ping_step ping_act
proof
  fix q e r r' assume "ping_step q e r" "ping_step q e r'"
  then show "r = r'" by (elim ping_stepE) (auto simp: ping_act_def)
next
  fix q e r assume "\<not> ping_act e"
  then show "ping_step q e r \<longleftrightarrow> r = q" by (auto elim!: ping_stepE intro: ping_step.quiet simp: ping_act_def)
qed

lemma emits_ping_pid: "emits (\<lambda>e. \<not> ping_act e) (get_ping_process_pid E)"
proof -
  have loop: "emits (\<lambda>e. \<not> ping_act e) (for_ret xs (\<lambda>_. bnd (ioutput E c) (\<lambda>out.
       if strip out \<noteq> [] then ret (Some (strip out)) else sq (sleep (VInt 1)) (ret None))))"
    for xs :: "int list" and c
    by (induction xs) (auto simp: ioutput_def ping_act_def intro!: emits)
  show ?thesis unfolding get_ping_process_pid_def by (intro emits loop)
qed

lemma emits_taskset_validation: "emits (\<lambda>e. \<not> ping_act e) (taskset_cpu_validation E)"
  unfolding taskset_cpu_validation_def get_dd_process_pid_def ioutput_def
  by (intro emits emits_ping_pid) (auto simp: ping_act_def)

lemma taskset_step_moves:
  assumes "in_state ping_step q0 tr q s" "q = Started \<or> q = Moving"
  shows "wp (taskset_step E pid c) (\<lambda>_. in_state ping_step q0 tr Moving) (\<lambda>_. in_state ping_step q0 tr Moving) s"
proof -
  have m: "ping_step q (Call ''run'' [''taskset -cp '' @ str_int c @ '' '' @ pid]) Moving"
    using assms(2) by (rule ping_step.move)
  show ?thesis
    unfolding taskset_step_def irun_def
    apply (rule wp_bnd_step[OF in_state_call[where step = ping_step, OF assms(1) m]])
     apply (rule ping.idle_sq, assumption)
       apply (intro emits)
      apply (rule ping.idle_bnd, assumption)
        apply (rule emits_taskset_validation)
       apply (auto simp: wp)
    done
qed

lemma ping_told:
  fixes s :: "'w ib_st"
  assumes "in_state ping_step q0 tr q s" "q = Started \<or> q = Moving"
  shows "wp (stop_ping E h) (\<lambda>_. in_state ping_step q0 tr Told) (\<lambda>_. in_state ping_step q0 tr Told) s"
proof -
  let ?T = "\<lambda>_. in_state ping_step q0 tr Told"
  have told: "wp (sq (call ''terminate'' [str_int h] (proc_op E ''terminate'' h))
      (call ''wait'' [str_int h] (proc_op E ''wait'' h))) ?T ?T s"
  proof (rule wp_sq_step[OF in_state_call[where step = ping_step, OF assms(1) ping_step.tell[OF assms(2)]]])
    fix x and t :: "'w ib_st" assume "in_state ping_step q0 tr Told t"
    then show "wp (call ''wait'' [str_int h] (proc_op E ''wait'' h)) ?T ?T t"
      by (rule ping.idle) (auto simp: ping_act_def intro: emits)
  qed
  show ?thesis
    unfolding stop_ping_def wp_try_except
    by (rule wp_conseq[OF told]) (assumption, rule in_state_call, assumption, rule ping_step.force)
qed

lemma ping_killed:
  assumes "in_state ping_step q0 tr Told s"
  shows "wp (ikill E pid) (\<lambda>_. in_state ping_step q0 tr Killed)
     (\<lambda>_ t. in_state ping_step q0 tr Told t \<or> in_state ping_step q0 tr Killed t) s"
proof -
  have k: "wp (sq (call ''system'' [''kill -9 '' @ str_int n] x) (ret ())) (\<lambda>_. in_state ping_step q0 tr Killed)
     (\<lambda>_. in_state ping_step q0 tr Killed) s" for n x
    unfolding wp_sq wp_ret by (rule wp_conseq[OF in_state_call[where step = ping_step, OF assms ping_step.kill]])
  show ?thesis
  proof (cases "py_int pid")
    case (Inl e)
    then show ?thesis using assms by (simp add: ikill_def wp split: exn.split)
  next
    case (Inr n)
    show ?thesis
      unfolding ikill_def Inr lift_simps bnd_ret_left wp_try_except
      by (rule wp_conseq[OF k]) (simp_all add: wp split: exn.split)
  qed
qed

text \<open>
  C38. The ping process is never left behind in the middle of the test: at every end, normal or not,
  the process has been told to terminate after its last move, and a normal end has also killed it by its number.
  The one exception is an end before the first move, while the number of the process is looked for:
  then the process was started and nothing has stopped it.
\<close>

theorem ping_is_stopped:
  "wp (taskset_ping E)
     (\<lambda>_. in_state ping_step NotStarted (trace s) Killed)
     (\<lambda>_ t. \<exists>q \<in> {Started, Told, Killed}. in_state ping_step NotStarted (trace s) q t) s"
proof -
  let ?I = "in_state ping_step NotStarted (trace s)"
  let ?E = "\<lambda>_ t. \<exists>q \<in> {Started, Told, Killed}. ?I q t"
  have loop: "wp (for_each xs (taskset_step E pid)) (\<lambda>_ u. \<exists>r \<in> {Started, Moving}. ?I r u) (\<lambda>_ u. \<exists>r \<in> {Started, Moving}. ?I r u) t"
    if "?I Started t" for t pid and xs :: "int list"
    by (rule ping.loop[OF that]) (auto intro!: wp_conseq[OF taskset_step_moves])
  have cleanup: "wp (sq (stop_ping E h) (ikill E pid)) (\<lambda>_. ?I Killed) ?E u" if "\<exists>r \<in> {Started, Moving}. ?I r u" for u h pid
  proof -
    from that obtain r where r: "?I r u" "r = Started \<or> r = Moving" by auto
    show ?thesis by (rule wp_sq_step[OF ping_told[OF r]]) (auto intro!: wp_conseq[OF ping_killed])
  qed
  have body: "wp (try_finally (for_each xs (taskset_step E pid)) (sq (stop_ping E h) (ikill E pid))) (\<lambda>_. ?I Killed) ?E t"
    if "?I Started t" for t pid h and xs :: "int list"
    unfolding wp_try_finally
    by (rule wp_conseq[OF loop[OF that]]) (auto intro!: wp_conseq[OF cleanup])
  show ?thesis
    unfolding taskset_ping_def wp_bnd wp_gets Let_def
    apply (rule wp_conseq[OF in_state_call[where step = ping_step, OF in_state_start ping_step.start]])
     apply (rule ping.idle_sq, assumption)
       apply (intro emits, simp add: ping_act_def)
      apply (rule ping.idle_bnd, assumption)
        apply (rule emits_ping_pid)
       apply (rule body, assumption)
      apply auto
    done
qed

subsection \<open>The interrupts of a device\<close>

lemma irq_numbers_Cons_space: "is_space c \<Longrightarrow> irq_numbers (c # s) = irq_numbers s"
proof (cases "c = newline")
  case True
  then show ?thesis by (simp add: irq_numbers_def irq_of_line_def)
next
  case False
  assume c: "is_space c"
  obtain l ls where l: "split_on newline s = l # ls" using split_on_nonempty[of newline s] by (cases "split_on newline s") auto
  then have "split_on newline (c # s) = (c # l) # ls" using False by simp
  moreover have "irq_of_line (c # l) = irq_of_line l" using c by (simp add: irq_of_line_def)
  ultimately show ?thesis using l by (simp add: irq_numbers_def)
qed

lemma irq_of_line_snoc_space: "is_space c \<Longrightarrow> irq_of_line (l @ [c]) = irq_of_line l"
proof -
  assume c: "is_space c"
  have nd: "\<not> is_digit c" using c is_digit_not_space by blast
  have colon: "c \<noteq> CHR '':''" using c by (auto simp: is_space_def)
  define t where "t = dropWhile is_space l"
  show ?thesis
  proof (cases "t = []")
    case True
    then have e: "dropWhile is_space (l @ [c]) = []" using c by (simp add: t_def dropWhile_append)
    show ?thesis unfolding irq_of_line_def e True[unfolded t_def] ..
  next
    case False
    then have d: "dropWhile is_space (l @ [c]) = t @ [c]" by (simp add: t_def dropWhile_append)
    have tw: "takeWhile is_digit (t @ [c]) = takeWhile is_digit t" using nd by (induction t) auto
    have dw: "startswith (dropWhile is_digit (t @ [c])) '':'' \<longleftrightarrow> startswith (dropWhile is_digit t) '':''"
      using nd colon by (induction t) (auto simp: startswith_def)
    show ?thesis unfolding irq_of_line_def Let_def d t_def[symmetric] tw dw by simp
  qed
qed

lemma split_on_snoc: "split_on d (s @ [c]) = (if c = d then split_on d s @ [[]]
   else butlast (split_on d s) @ [last (split_on d s) @ [c]])"
  by (induction s) (auto split: list.split)

lemma irq_numbers_snoc_space: "is_space c \<Longrightarrow> irq_numbers (s @ [c]) = irq_numbers s"
proof -
  assume c: "is_space c"
  obtain ls l where l: "split_on newline s = ls @ [l]" using split_on_nonempty[of newline s] by (metis rev_exhaust)
  show ?thesis
    using c l by (auto simp: irq_numbers_def split_on_snoc irq_of_line_snoc_space irq_of_line_def[of "[]"])
qed

lemma irq_numbers_strip: "irq_numbers (strip s) = irq_numbers s"
proof -
  have d: "irq_numbers (dropWhile is_space s) = irq_numbers s" for s
    by (induction s) (auto simp: irq_numbers_Cons_space)
  have r: "irq_numbers (rev (dropWhile is_space s)) = irq_numbers (rev s)" for s
    by (induction s) (auto simp: irq_numbers_snoc_space)
  show ?thesis by (simp add: strip_def strip_by_def r d)
qed

fun irq_line :: "nat \<times> int \<times> string \<Rightarrow> string" where
  "irq_line (k, n, r) = replicate k (CHR '' '') @ str_int n @ '':'' @ r"

lemma irq_of_irq_line: "0 \<le> n \<Longrightarrow> irq_of_line (irq_line (k, n, r)) = [n]"
proof -
  assume n: "0 \<le> n"
  have ns: "\<not> is_space (hd (str_int n @ '':'' @ r))" using str_int_no_space[of "hd (str_int n)" n] by simp
  have sp: "is_space (CHR '' '')" by (simp add: is_space_def)
  have "dropWhile is_space (irq_line (k, n, r)) = str_int n @ '':'' @ r"
    using ns sp by (induction k) (auto simp: dropWhile_eq_self_iff)
  moreover have "\<not> is_digit (CHR '':'')" by (simp add: is_digit_def char_digit_def)
  ultimately show ?thesis
    using takeWhile_digits_int[OF n, of "'':'' @ r"] digits_value_str_int[OF n]
    by (simp add: irq_of_line_def startswith_def)
qed

text \<open>
  Reading the interrupts of a device: from the lines that \<^verbatim>\<open>/proc/interrupts\<close> has for it, number,
  colon, and anything, the test reads exactly the interrupt numbers, in order. Other numbers in a
  line, such as those of a PCI address, are not taken for interrupts.
\<close>

theorem interrupts_read_back:
  assumes "ib_run E (''grep '' @ vstr (ifc_type s) @ '' /proc/interrupts'') (world s) = (Inr r, w)"
    and "stdout_text r = join [newline] (map irq_line ps)" "ps \<noteq> []"
    and "\<And>k n t. (k, n, t) \<in> set ps \<Longrightarrow> 0 \<le> n \<and> newline \<notin> set t"
  shows "wp (sq (get_device_interrupts E) get_irq_numbers)
     (\<lambda>_ u. irq_number u = Irqs (map (fst \<circ> snd) ps)) (\<lambda>_ _. False) s"
proof -
  have nl: "newline \<notin> set (irq_line p)" if "p \<in> set ps" for p
  proof -
    obtain k n t where p: "p = (k, n, t)" by (cases p)
    have "is_space newline" by (simp add: is_space_def newline_def)
    then have "newline \<notin> set (str_int n)" using str_int_no_space by blast
    moreover have "newline \<noteq> CHR '' ''" "newline \<noteq> CHR '':''" by (simp_all add: newline_def)
    ultimately show ?thesis using assms(4) that by (auto simp: p)
  qed
  have "split_on newline (join [newline] (map irq_line ps)) = map irq_line ps"
    by (rule split_join) (use nl assms(3) in auto)
  moreover have "concat (map irq_of_line (map irq_line qs)) = map (fst \<circ> snd) qs" if "set qs \<subseteq> set ps" for qs
    using that assms(4) by (induction qs) (auto simp: irq_of_irq_line simp del: irq_line.simps)
  ultimately have "irq_numbers (stdout_text r) = map (fst \<circ> snd) ps"
    unfolding assms(2) irq_numbers_def by simp
  then show ?thesis
    using assms(1) by (simp add: get_device_interrupts_def get_irq_numbers_def irun_def wp irq_numbers_strip)
qed

theorem interrupts_read_back_witness:
  "wp (sq (get_device_interrupts (ib_demo\<lparr>ib_run := \<lambda>_ w. (Inr \<lparr>exit_status = 0,
        stdout_text = join [newline] (map irq_line [(1, 16, ''  0 @pci:4002:01:00.0''), (0, 217, ''  5 @pci:4002:01:00.0'')]),
        stderr_text = []\<rparr>, w)\<rparr>)) get_irq_numbers)
     (\<lambda>_ u. irq_number u = Irqs [16, 217]) (\<lambda>_ _. False) (ib_demo_st [0] [])"
  by (rule wp_conseq[OF interrupts_read_back[where ps = "[(1, 16, ''  0 @pci:4002:01:00.0''), (0, 217, ''  5 @pci:4002:01:00.0'')]"]])
     (auto simp: newline_def)

subsection \<open>Processors off and on\<close>

text \<open>
  \<open>on w c\<close> says that processor \<open>c\<close> is online. The library switches the processor it is asked for, and
  its list of online processors is right.
\<close>

definition ib_cpu_laws :: "'w ib_env \<Rightarrow> ('w \<Rightarrow> int \<Rightarrow> bool) \<Rightarrow> int set \<Rightarrow> bool" where
  "ib_cpu_laws E on C \<longleftrightarrow>
     (\<forall>w. \<forall>c \<in> C. (\<exists>w'. ib_online E c w = (Inr (), w') \<and> on w' = (on w)(c := True)) \<and>
                (\<exists>w'. ib_offline E c w = (Inr (), w') \<and> on w' = (on w)(c := False))) \<and>
     (\<forall>w. \<exists>cs w'. ib_online_list E w = (Inr cs, w') \<and> set cs = {c. on w c} \<and> on w' = on w) \<and>
     (\<forall>w. \<exists>w'. ib_errors E ib_errorlog w = (Inr (), w') \<and> on w' = on w)"

definition ib_obeys :: "'w ib_env \<Rightarrow> ('w ib_st \<Rightarrow> int \<Rightarrow> bool) \<Rightarrow> int set \<Rightarrow> bool" where
  "ib_obeys E f C \<longleftrightarrow> (\<exists>on. ib_cpu_laws E on C \<and> f = (\<lambda>s. on (world s)))"

lemma wp_online_now:
  assumes "ib_cpu_laws E on C"
  shows "wp (online_now E) (\<lambda>cs t. set cs = {c. on (world s) c} \<and> on (world t) = on (world s)) (\<lambda>_ _. False) s"
proof -
  obtain cs w' where "ib_online_list E (world s) = (Inr cs, w')" "set cs = {c. on (world s) c}" "on w' = on (world s)"
    using assms unfolding ib_cpu_laws_def by meson
  then show ?thesis by (simp add: online_now_def wp)
qed

interpretation ib: switches online_step offline_step ib_obeys
proof
  fix E :: "'w ib_env" and f C c and s :: "'w ib_st"
  assume "ib_obeys E f C" "c \<in> C"
  then obtain on where l: "ib_cpu_laws E on C" and f: "f = (\<lambda>s. on (world s))" unfolding ib_obeys_def by blast
  obtain w1 w2 where w: "ib_online E c (world s) = (Inr (), w1)" "on w1 = (on (world s))(c := True)"
    "ib_offline E c (world s) = (Inr (), w2)" "on w2 = (on (world s))(c := False)"
    using l \<open>c \<in> C\<close> unfolding ib_cpu_laws_def by meson
  show "wp (online_step E c) (\<lambda>_ t. f t = (f s)(c := True)) (\<lambda>_ _. False) s"
    unfolding online_step_def f
    by (simp add: wp_sq wp_log wp_call w(1)) (rule wp_bnd_step[OF wp_online_now[OF l]], auto simp: wp w(2))
  show "wp (offline_step E c) (\<lambda>_ t. f t = (f s)(c := False)) (\<lambda>_ _. False) s"
    unfolding offline_step_def f
    by (simp add: wp_sq wp_log wp_call w(3)) (rule wp_bnd_step[OF wp_online_now[OF l]], auto simp: wp w(4))
qed

text \<open>
  Processors off and on, with a library that does what it is asked: the test never fails, it takes
  every processor but the last of the list offline, so that one that was online stays so throughout,
  and it brings all of them back, those included that were offline before; the others are untouched.
\<close>

theorem off_on_restores:
  assumes "ib_cpu_laws E on (set (cpu_list s))" "length (cpu_list s) \<noteq> 1"
  shows "wp (test_cpu_serial_off_on E)
     (\<lambda>_ t. on (world t) = (\<lambda>c. c \<in> set (butlast (cpu_list s)) \<or> on (world s) c)) (\<lambda>_ _. False) s \<and>
   (distinct (cpu_list s) \<and> cpu_list s \<noteq> [] \<and> on (world s) (last (cpu_list s)) \<longrightarrow>
     wp (for_each (butlast (cpu_list s)) (offline_step E)) (\<lambda>_ t. on (world t) (last (cpu_list s))) (\<lambda>_ _. False) s)"
proof -
  let ?cs = "cpu_list s" and ?f = "\<lambda>s :: 'a ib_st. on (world s)"
  have o': "ib_obeys E ?f (set ?cs)" unfolding ib_obeys_def using assms(1) by blast
  have sub: "set (butlast ?cs) \<subseteq> set ?cs" by (meson in_set_butlastD subsetI)
  have errors: "wp (collect_errors E) (\<lambda>_ u. ?f u = ?f t) (\<lambda>_ _. False) t" for t
  proof -
    obtain w' where "ib_errors E ib_errorlog (world t) = (Inr (), w')" "on w' = on (world t)"
      using assms(1) unfolding ib_cpu_laws_def by meson
    then show ?thesis by (simp add: collect_errors_def wp)
  qed
  have loops: "wp (sq (sq (for_each (butlast ?cs) (offline_step E)) (for_each (butlast ?cs) (online_step E))) (collect_errors E))
     (\<lambda>_ t. ?f t = (\<lambda>c. c \<in> set (butlast ?cs) \<or> ?f s c)) (\<lambda>_ _. False) s"
    by (rule wp_sq_step[OF ib.down_then_up[OF o' sub]]) (auto intro!: wp_conseq[OF errors])
  have "wp (test_cpu_serial_off_on E) (\<lambda>_ t. ?f t = (\<lambda>c. c \<in> set (butlast ?cs) \<or> ?f s c)) (\<lambda>_ _. False) s"
    using loops assms(2) by (simp add: test_cpu_serial_off_on_def wp_bnd wp_gets whenb_def sq_assoc)
  moreover have "wp (for_each (butlast ?cs) (offline_step E)) (\<lambda>_ t. ?f t (last ?cs)) (\<lambda>_ _. False) s"
    if "distinct ?cs" "?cs \<noteq> []" "?f s (last ?cs)"
  proof (rule ib.down_all_spares[OF o' sub _ that(3)])
    from that(1,2) show "last ?cs \<notin> set (butlast ?cs)"
      by (metis append_butlast_last_id distinct_butlast not_distinct_conv_prefix)
  qed
  ultimately show ?thesis by blast
qed

text \<open>The witness: the system is the list of the processors that are online.\<close>

definition ib_cpus_demo :: "int list ib_env" where
  "ib_cpus_demo = ib_demo\<lparr>ib_online := \<lambda>c w. (Inr (), c # w), ib_offline := \<lambda>c w. (Inr (), removeAll c w),
     ib_online_list := \<lambda>w. (Inr w, w)\<rparr>"

theorem off_on_restores_witness:
  "wp (test_cpu_serial_off_on ib_cpus_demo) (\<lambda>_ t. set (world t) = {0, 1, 2, 5}) (\<lambda>_ _. False)
     (ib_demo_st [0, 1, 2] [0, 2, 5])"
proof -
  have "ib_cpu_laws ib_cpus_demo (\<lambda>w c. c \<in> set w) {0, 1, 2}"
    by (auto simp: ib_cpu_laws_def ib_cpus_demo_def ib_demo_def fun_eq_iff)
  then have l: "ib_cpu_laws ib_cpus_demo (\<lambda>w c. c \<in> set w) (set (cpu_list (ib_demo_st [0, 1, 2] [0, 2, 5])))"
    by (simp add: ib_demo_st_def)
  have "length (cpu_list (ib_demo_st [0, 1, 2] [0 :: int, 2, 5])) \<noteq> 1" by (simp add: ib_demo_st_def)
  from conjunct1[OF off_on_restores[OF l this]] show ?thesis
    by (rule wp_conseq) (auto simp: ib_demo_st_def fun_eq_iff)
qed

subsection \<open>The SMT level\<close>

text \<open>
  \<open>smt_eight e\<close>: when the event is a command that sets the SMT level, it sets it to 8.
\<close>

definition smt_eight :: "event \<Rightarrow> bool" where
  "smt_eight e \<longleftrightarrow> (\<forall>f v. e = Call f [''ppc64_cpu --smt='' @ v] \<and> f \<in> {''run'', ''system_output''} \<longrightarrow> v = ''8'')"

lemma smt_eight_other [simp]:
  "smt_eight (Log l m)" "smt_eight (Sleep v)" "smt_eight (Call f [])" "smt_eight (Call f (a # b # cs))"
  "f \<noteq> ''run'' \<Longrightarrow> f \<noteq> ''system_output'' \<Longrightarrow> smt_eight (Call f as)"
  by (auto simp: smt_eight_def)

lemma smt_eight_max: "smt_eight (Call ''run'' [''ppc64_cpu --smt='' @ vstr (VInt 8)])"
proof -
  have "str_int 8 = ''8''" by code_simp
  then show ?thesis by (simp add: smt_eight_def)
qed

text \<open>\<open>mild m\<close>: the level is set to 8 or not at all, and \<^verbatim>\<open>curr_smt\<close> is not assigned.\<close>

definition mild :: "('w ib_st, 'a) py \<Rightarrow> bool" where
  "mild m \<longleftrightarrow> emits smt_eight m \<and> keeps has_curr_smt m"

named_theorems mild \<open>bodies that are mild\<close>

lemma mild_pure [mild]: "mild (ret x)" "mild (raise e)" "mild (lift r)" "mild (gets f)" "mild (fail m)" "mild (cancel m)"
  by (simp_all add: mild_def emits_pure keeps_pure)

lemma mild_comb [mild]:
  "mild m \<Longrightarrow> (\<And>x. mild (f x)) \<Longrightarrow> mild (bnd m f)"
  "mild a1 \<Longrightarrow> mild a2 \<Longrightarrow> mild (sq a1 a2)"
  "mild n \<Longrightarrow> mild n' \<Longrightarrow> mild (if b then n else n')"
  "mild k \<Longrightarrow> mild (whenb b k)"
  "mild o1 \<Longrightarrow> (\<And>v. mild (g v)) \<Longrightarrow> mild (case x of None \<Rightarrow> o1 | Some v \<Rightarrow> g v)"
  "mild t1 \<Longrightarrow> (\<And>e. mild (h e)) \<Longrightarrow> mild (try_except t1 h)"
  "mild f1 \<Longrightarrow> mild f2 \<Longrightarrow> mild (try_finally f1 f2)"
  "(\<And>y. mild (each y)) \<Longrightarrow> mild (for_each ys each)"
  "(\<And>y. mild (each' y)) \<Longrightarrow> mild (for_ret ys each')"
  "mild p \<Longrightarrow> mild (wait_for i p)"
  by (auto simp: mild_def intro!: emits keeps)

lemma mild_events [mild]:
  "mild (log l t)" "smt_eight (Call c as) \<Longrightarrow> mild (call c as x)" "mild (sleep v)"
  "(\<And>s. trace (up s) = trace s \<and> has_curr_smt (up s) = has_curr_smt s) \<Longrightarrow> mild (modify up)"
  by (auto simp: mild_def intro!: emits keeps)

lemma mild_pci [mild]: "mild (slave_pci E slave a)"
  unfolding slave_pci_def by (intro mild) (simp_all add: smt_eight_def)

lemma mild_hbond [mild]: "mild (get_hbond_ipi_name E)"
  unfolding get_hbond_ipi_name_def hbond_ipi_def Let_def
  by (intro mild) (simp_all add: smt_eight_def)

lemma mild_network [mild]: "mild (setUp_network E params device)"
  unfolding setUp_network_def find_interface_def check_ip_def configure_interface_def device_type_def nif_def
  by (intro mild) (simp_all add: smt_eight_def)

lemma mild_smt [mild]: "mild (check_current_smt E)" "mild (set_max_smt_values E)"
  unfolding check_current_smt_def set_max_smt_values_def wait_smt_def set_smt_values_def ioutput_def irun_def curr_smt_cmd_def
  by (intro mild smt_eight_max; simp add: smt_eight_def)+

lemma mild_irq_balance [mild]: "mild (test_irq_balance E)"
proof -
  have errors: "mild (collect_errors E)"
    unfolding collect_errors_def ib_errorlog_def by (intro mild) simp
  have aff: "mild (set_affinity E cs)" for cs
    unfolding set_affinity_def irun_def echo_cmd_def by (intro mild) (simp add: smt_eight_def)
  have val: "mild (cpu_range_validation E)"
    unfolding cpu_range_validation_def by (intro mild) simp_all
  have wait: "mild (wait_module_interrupts E)"
    unfolding wait_module_interrupts_def get_module_interrupts_def irun_def by (intro mild) (simp add: smt_eight_def)
  have down: "mild (unassign_loop E n)" for n
  proof (induction n)
    case 0
    show ?case by (subst unassign_loop.simps) (simp only: nat.case, intro mild)
  next
    case (Suc n)
    show ?case by (subst unassign_loop.simps) (simp only: nat.case, intro mild aff val wait Suc.IH, simp)
  qed
  have pick: "mild (pick_irq E)"
    unfolding pick_irq_def by (intro mild) (auto split: irqs.split list.split intro!: mild)
  show ?thesis
    unfolding test_irq_balance_def get_device_interrupts_def get_irq_numbers_def assign_step_def irun_def Let_def
    by (intro mild errors aff val wait down pick) (simp_all add: smt_eight_def)
qed

lemma mild_off_on [mild]: "mild (test_cpu_serial_off_on E)"
  unfolding test_cpu_serial_off_on_def offline_step_def online_step_def online_now_def collect_errors_def ib_errorlog_def
  by (intro mild) simp_all

lemma mild_taskset [mild]: "mild (test_taskset E)"
proof -
  have ping: "mild (get_ping_process_pid E)"
    unfolding get_ping_process_pid_def ioutput_def ping_pid_cmd_def by (intro mild) (simp add: smt_eight_def)
  have dd: "mild (get_dd_process_pid E)"
    unfolding get_dd_process_pid_def ioutput_def dd_pid_cmd_def by (intro mild) (simp add: smt_eight_def)
  have validation: "mild (taskset_cpu_validation E)"
    unfolding taskset_cpu_validation_def ioutput_def psr_cmd_def by (intro mild ping dd) (simp add: smt_eight_def)
  have step: "mild (taskset_step E pid c)" for pid c
    unfolding taskset_step_def irun_def by (intro mild validation) (simp add: smt_eight_def)
  have handler: "mild (case e of CmdError x \<Rightarrow> raise AttributeError | _ \<Rightarrow> raise e)" for e
    by (cases e) (simp_all add: mild)
  have stop: "mild (ikill E pid)" "mild (stop_ping E h)" for pid h
    unfolding ikill_def stop_ping_def by (intro mild handler; simp add: smt_eight_def)+
  show ?thesis
    unfolding test_taskset_def taskset_ping_def taskset_dd_def dd_run_def collect_errors_def ib_errorlog_def Let_def
    by (intro mild ping dd step stop) simp_all
qed

definition ib_body :: "'w ib_env \<Rightarrow> nat \<Rightarrow> ('w, unit) ib" where
  "ib_body E k = (if k = 0 then test_irq_balance E else if k = 1 then test_cpu_serial_off_on E else test_taskset E)"

text \<open>
  The SMT level over a whole run: set-up, one of the three tests that are not about SMT, and tearDown.
  Every command that sets the level, at any end, sets it to 8; the level from before the test is never
  restored, because \<^verbatim>\<open>tearDown\<close> asks for an attribute that no assignment creates.
\<close>

theorem smt_level_not_restored:
  "wp (sq (ib_setUp E params) (try_finally (ib_body E k) (ib_tearDown E totalcpus)))
     (\<lambda>_ t. \<exists>es. trace t = trace s @ es \<and> list_all smt_eight es)
     (\<lambda>_ t. \<exists>es. trace t = trace s @ es \<and> list_all smt_eight es) s"
proof -
  define I where "I = (\<lambda>t :: 'a ib_st. \<not> has_curr_smt t \<and> (\<exists>es. trace t = trace s @ es \<and> (\<forall>e \<in> set es. smt_eight e)))"
  have mild: "wp m (\<lambda>_. I) (\<lambda>_. I) t" if "mild m" "I t" for m :: "('a, unit) ib" and t
  proof -
    obtain r u where m: "m t = (r, u)" by (cases "m t")
    have "has_curr_smt u = has_curr_smt t"
      using that(1) m unfolding mild_def keeps_def by (metis snd_conv)
    moreover have "emits smt_eight m" using that(1) by (simp add: mild_def)
    from emitsD[OF this m] obtain es where "trace u = trace t @ es" "\<forall>e \<in> set es. smt_eight e" by blast
    ultimately have "I u" using that(2) by (auto simp: I_def)
    then show ?thesis using m by (simp add: wp_def split: sum.split)
  qed
  have body: "mild (ib_body E k)" unfolding ib_body_def by (intro mild_irq_balance mild_off_on mild_taskset mild_comb)
  have tear: "wp (ib_tearDown E totalcpus) (\<lambda>_. I) (\<lambda>_. I) t" if t: "I t" for t
  proof -
    have "\<not> has_curr_smt t" using t by (simp add: I_def)
    then show ?thesis
      unfolding ib_tearDown_def ib_online_cpus_def nif_def wp_bnd wp_gets whenb_def if_not_P[OF \<open>\<not> has_curr_smt t\<close>] sq_ret_left
      by (intro mild[OF _ t] mild_comb mild_pure mild_events) simp_all
  qed
  have prep: "wp (ib_setUp E params) (\<lambda>_. I) (\<lambda>_. I) s"
    unfolding ib_setUp_def Let_def wp_sq[of "modify _"] wp_modify get_disk_IPI_name_def online_now_def
  proof (rule mild)
    show "I (s\<lparr>ifc := VNone, ifc_type := VNone, ib_disk := ib_param params ''disk'' VNone,
        is_hbond := ib_param params ''hbond'' (VBool False), has_nif := False, has_curr_smt := False,
        netmask := None, cpu_range := None\<rparr>)" by (simp add: I_def)
  qed (intro mild_network mild_smt mild_comb mild_pure mild_events; simp)
  have "wp (sq (ib_setUp E params) (try_finally (ib_body E k) (ib_tearDown E totalcpus))) (\<lambda>_. I) (\<lambda>_. I) s"
    by (rule wp_sq_step[OF prep]) (auto simp: wp_try_finally intro!: wp_conseq[OF mild[OF body]] wp_conseq[OF tear])
  then show ?thesis by (rule wp_conseq) (auto simp: I_def list_all_iff)
qed

text \<open>
  A ping process that \<^verbatim>\<open>ps\<close> never shows: the test is cancelled, and the process has been started but
  neither told to terminate nor killed.
\<close>

theorem ping_leaks_without_pid:
  assumes "\<And>cmd w. \<exists>h w'. ib_popen E cmd w = (Inr h, w')"
    and "\<And>w. \<exists>out w'. ib_output E (ping_pid_cmd (ifc s) (peer_ip s)) w = (Inr out, w') \<and> strip out = []"
  shows "wp (taskset_ping E) (\<lambda>_ _. False)
     (\<lambda>e t. (\<exists>m. e = TestCancel m) \<and> in_state ping_step NotStarted (trace s) Started t) s"
proof -
  let ?J = "\<lambda>t. ifc t = ifc s \<and> peer_ip t = peer_ip s"
  let ?look = "\<lambda>_ :: int. bnd (ioutput E (ping_pid_cmd (ifc s) (peer_ip s))) (\<lambda>out.
     if strip out \<noteq> [] then ret (Some (strip out)) else sq (sleep (VInt 1)) (ret None))"
  have look: "wp (for_ret xs ?look) (\<lambda>r _. r = None) (\<lambda>_ _. False) t" for xs t
  proof (induction xs arbitrary: t)
    case Nil
    then show ?case by (simp add: wp)
  next
    case (Cons x xs)
    obtain out w' where "ib_output E (ping_pid_cmd (ifc s) (peer_ip s)) (world t) = (Inr out, w')" "strip out = []"
      using assms(2) by blast
    then show ?case using Cons.IH by (simp add: wp ioutput_def)
  qed
  have search: "wp (get_ping_process_pid E) (\<lambda>_ _. False) (\<lambda>e _. \<exists>m. e = TestCancel m) t" if "?J t" for t
    unfolding get_ping_process_pid_def wp_bnd wp_gets conjunct1[OF that] conjunct2[OF that]
    by (rule wp_conseq[OF look]) (simp_all add: wp)
  obtain h w' where p: "ib_popen E (''ping -I '' @ vstr (ifc s) @ '' '' @ vstr (peer_ip s) @ '' -c 1000000 -f'') (world s) = (Inr h, w')"
    using assms(1) by blast
  let ?I = "in_state ping_step NotStarted (trace s)"
  have leak: "wp (get_ping_process_pid E) (\<lambda>_ _. False) (\<lambda>e t. (\<exists>m. e = TestCancel m) \<and> ?I Started t) t"
    if "?J t" "?I Started t" for t
    by (rule wp_conseq[OF wp_conj[OF search[OF that(1)] ping.idle[OF that(2) emits_ping_pid]]]) auto
  define t where "t = s\<lparr>world := w', trace := trace s @ [Call ''Popen'' [''ping -I '' @ vstr (ifc s) @ '' '' @ vstr (peer_ip s) @ '' -c 1000000 -f'']]\<rparr>"
  have st: "?I Started t"
    by (rule in_state_event[where step = ping_step, OF in_state_start ping_step.start]) (simp add: t_def)
  have sl: "ping_step Started (Sleep (VInt 2)) Started" by (rule ping_step.quiet) (simp add: ping_act_def)
  have "?I Started (t\<lparr>trace := trace t @ [Sleep (VInt 2)]\<rparr>)"
    by (rule in_state_event[where step = ping_step, OF st sl]) simp
  from leak[OF _ this] show ?thesis
    unfolding taskset_ping_def wp_bnd wp_gets Let_def wp_call p prod.case sum.case wp_sq wp_sleep t_def
    by simp (erule wp_conseq, simp_all)
qed

theorem ping_leaks_without_pid_witness:
  "wp (taskset_ping ib_demo) (\<lambda>_ _. False)
     (\<lambda>e t. (\<exists>m. e = TestCancel m) \<and> in_state ping_step NotStarted [] Started t) (ib_demo_st [0, 1] [])"
  using ping_leaks_without_pid[of ib_demo "ib_demo_st [0, 1] []"]
  by (simp add: ib_demo_def ib_demo_st_def strip_def strip_by_def)

end
