(* ===== verification/Mem_Hotplug.thy ===== *)
theory Mem_Hotplug
  imports Switching
begin

section \<open>Memory hotplug stress (memory/memhotplug.py)\<close>

text \<open>
  The test takes memory blocks offline and brings them back, one by one, all at once, per NUMA node
  and through the DLPAR tool. The memory library, files and commands are the parameter \<open>mh_env\<close>;
  the attributes of the object are in the state, with \<open>None\<close> for \<^verbatim>\<open>blocks_hotpluggable\<close> before \<^verbatim>\<open>setUp\<close>
  assigns it.
\<close>

subsection \<open>External operations and state\<close>

record 'w mh_env =
  check_hotplug :: "('w, bool) ext"
  mh_check :: "string \<Rightarrow> ('w, bool) ext"
  mh_install :: "string \<Rightarrow> ('w, bool) ext"
  mh_fetch :: "pyval \<Rightarrow> ('w, string) ext"
  mh_extract :: "string \<Rightarrow> ('w, unit) ext"
  mh_chdir :: "string \<Rightarrow> ('w, unit) ext"
  mh_make :: "string \<Rightarrow> ('w, unit) ext"
  mh_run :: "string \<Rightarrow> ('w, unit) ext"
  mh_output :: "string \<Rightarrow> ('w, string) ext"
  mh_glob :: "string \<Rightarrow> ('w, string list) ext"
  mh_exists :: "string \<Rightarrow> ('w, bool) ext"
  mh_read :: "string \<Rightarrow> ('w, string) ext"
  is_hot_pluggable :: "string \<Rightarrow> ('w, bool) ext"
  mem_hotplug :: "string \<Rightarrow> ('w, unit) ext"
  mem_hotunplug :: "string \<Rightarrow> ('w, unit) ext"
  mem_state :: "string \<Rightarrow> ('w, bool) ext"
  mem_free :: "('w, int) ext"
  mh_cpu_count :: "('w, int) ext"
  mh_arch :: "('w, string) ext"
  mh_clear_dmesg :: "('w, unit) ext"
  mh_tmpdir :: string

record 'w mh_st = "'w st" +
  blocks_hotpluggable :: "string list option"
  mh_iteration :: pyval
  stresstime :: pyval
  vmcount :: pyval
  iocount :: pyval
  memratio :: pyval

type_synonym ('w, 'a) mh = "('w mh_st, 'a) py"

definition mem_path :: string where
  "mem_path = ''/sys/devices/system/memory''"

definition mh_errorlog :: "string list" where
  "mh_errorlog = [''WARNING: CPU:'', ''Oops'', ''Segfault'', ''soft lockup'', ''Unable to handle paging request'',
     ''rcu_sched detected stalls'', ''NMI backtrace for cpu'', ''WARNING: at'',
     ''INFO: possible recursive locking detected'', ''Kernel BUG at'', ''Kernel panic - not syncing:'',
     ''double fault:'', ''BUG: Bad page state in'']"

definition mrun :: "'w mh_env \<Rightarrow> string \<Rightarrow> ('w, unit) mh" where
  "mrun E cmd = call ''run'' [cmd] (mh_run E cmd)"

definition moutput :: "'w mh_env \<Rightarrow> string \<Rightarrow> ('w, string) mh" where
  "moutput E cmd = call ''system_output'' [cmd] (mh_output E cmd)"

subsection \<open>Blocks\<close>

definition busy_text :: "string \<Rightarrow> string" where
  "busy_text block = ''memory'' @ block @ '' : Resource is busy''"

text \<open>\<^verbatim>\<open>except IOError\<close>: the message is returned, any other exception goes on.\<close>

definition if_busy :: "string \<Rightarrow> ('w, unit) mh \<Rightarrow> ('w, string) mh" where
  "if_busy block m =
     try_except (sq m (ret [])) (\<lambda>e. case e of IOError \<Rightarrow> ret (busy_text block) | _ \<Rightarrow> raise e)"

definition mh_online :: "'w mh_env \<Rightarrow> string \<Rightarrow> ('w, string) mh" where
  "mh_online E block = if_busy block (call ''memory.hotplug'' [block] (mem_hotplug E block))"

definition mh_offline :: "'w mh_env \<Rightarrow> string \<Rightarrow> ('w, string) mh" where
  "mh_offline E block = if_busy block (call ''memory.hotunplug'' [block] (mem_hotunplug E block))"

text \<open>The number of blocks in chunks of 100, from the product with the ratio in per cent.\<close>

definition chunks :: "int \<Rightarrow> int" where
  "chunks num = (if num mod 2 \<noteq> 0 then num div 100 + 1 else num div 100)"

text \<open>Python's \<^verbatim>\<open>xs[:n]\<close>, where a negative bound counts from the end.\<close>

definition py_take :: "int \<Rightarrow> 'a list \<Rightarrow> 'a list" where
  "py_take n xs = (if 0 \<le> n then take (nat n) xs else take (nat (int (length xs) + n)) xs)"

text \<open>
  The ratio is a parameter and so any value; only an integer goes through the division and the slice.
  (A float would give a float bound, which slicing refuses.)
\<close>

definition hotplug_count :: "pyval \<Rightarrow> nat \<Rightarrow> int result" where
  "hotplug_count ratio n =
     (case ratio of
        VInt r \<Rightarrow> Inr (chunks (int n * r))
      | VBool b \<Rightarrow> Inr (chunks (int n * (if b then 1 else 0)))
      | _ \<Rightarrow> Inl TypeError)"

definition get_hotpluggable_blocks :: "'w mh_env \<Rightarrow> string \<Rightarrow> pyval \<Rightarrow> ('w, string list) mh" where
  "get_hotpluggable_blocks E path ratio =
     bnd (call ''glob'' [path] (mh_glob E path)) (\<lambda>paths.
     bnd (for_acc paths (\<lambda>p mem_blocks.
            bnd (lift (first_digits (basename p))) (\<lambda>block.
            bnd (call ''is_hot_pluggable'' [block] (is_hot_pluggable E block)) (\<lambda>b.
            ret (if b then mem_blocks @ [block] else mem_blocks)))) []) (\<lambda>mem_blocks.
     bnd (lift (hotplug_count ratio (length mem_blocks))) (\<lambda>count.
     ret (py_take count mem_blocks))))"

definition hotunplug_block :: "'w mh_env \<Rightarrow> string \<Rightarrow> ('w, unit) mh" where
  "hotunplug_block E block =
     bnd (call ''check_memory_state'' [block] (mem_state E block)) (\<lambda>b.
     whenb b (bnd (mh_offline E block) (\<lambda>err. whenb (err \<noteq> []) (log Error err))))"

definition hotplug_block :: "'w mh_env \<Rightarrow> string \<Rightarrow> ('w, unit) mh" where
  "hotplug_block E block =
     bnd (call ''check_memory_state'' [block] (mem_state E block)) (\<lambda>b.
     whenb (\<not> b) (bnd (mh_online E block) (\<lambda>err. whenb (err \<noteq> []) (log Error err))))"

definition hotunplug_all :: "'w mh_env \<Rightarrow> string list \<Rightarrow> ('w, unit) mh" where
  "hotunplug_all E blocks = for_each blocks (hotunplug_block E)"

definition hotplug_all :: "'w mh_env \<Rightarrow> string list \<Rightarrow> ('w, unit) mh" where
  "hotplug_all E blocks = for_each blocks (hotplug_block E)"

subsection \<open>setUp\<close>

definition is_auto_online :: "'w mh_env \<Rightarrow> ('w, bool) mh" where
  "is_auto_online E =
    (let file = mem_path @ ''/auto_online_blocks'' in
     bnd (call ''read_file'' [file] (mh_read E file)) (\<lambda>t. ret (t = ''online'' @ [newline])))"

definition mh_packages :: "'w mh_env \<Rightarrow> ('w, unit) mh" where
  "mh_packages E =
     for_each [''automake'', ''make'', ''autoconf''] (\<lambda>pkg.
       bnd (call ''check_installed'' [pkg] (mh_check E pkg)) (\<lambda>b.
       if b then ret ()
       else bnd (call ''install'' [pkg] (mh_install E pkg)) (\<lambda>b'.
            whenb (\<not> b') (cancel (pkg @ '' is needed for the test to be run'')))))"

definition mh_param :: "(string \<rightharpoonup> pyval) \<Rightarrow> string \<Rightarrow> pyval \<Rightarrow> pyval" where
  "mh_param params k d = (case params k of None \<Rightarrow> d | Some v \<Rightarrow> v)"

definition build_stress :: "'w mh_env \<Rightarrow> pyval \<Rightarrow> ('w, unit) mh" where
  "build_stress E url =
     bnd (call ''fetch_asset'' [vstr url] (mh_fetch E url)) (\<lambda>tarball.
     let dir = mh_tmpdir E @ ''/'' @ basename (hd (split_str ''.tar.'' tarball)) in
     sq (call ''extract'' [tarball, mh_tmpdir E] (mh_extract E tarball))
    (sq (call ''chdir'' [dir] (mh_chdir E dir))
    (sq (mh_packages E)
    (sq (mrun E ''./autogen.sh'')
    (sq (mrun E ''[ -x configure ] && ./configure'')
    (sq (call ''make'' [dir] (mh_make E []))
        (call ''make'' [dir, ''install''] (mh_make E ''install''))))))))"

definition stress_url :: string where
  "stress_url = ''https://github.com/resurrecting-open-source-projects/stress/releases/'' @
     ''download/1.0.7/stress-1.0.7.tar.gz''"

definition mh_setUp :: "'w mh_env \<Rightarrow> (string \<rightharpoonup> pyval) \<Rightarrow> ('w, unit) mh" where
  "mh_setUp E params =
     sq (modify (\<lambda>s. s\<lparr>blocks_hotpluggable := Some []\<rparr>))
    (bnd (call ''check_hotplug'' [] (check_hotplug E)) (\<lambda>b.
     sq (whenb (\<not> b) (cancel (''UnSupported : memory hotplug not enabled'' @ [newline])))
    (sq (mh_packages E)
    (bnd (call ''check_installed'' [''stress''] (mh_check E ''stress'')) (\<lambda>b.
     bnd (if b then ret True else call ''install'' [''stress''] (mh_install E ''stress'')) (\<lambda>b'.
     sq (whenb (\<not> b') (build_stress E (mh_param params ''stress_tar_url'' (VStr stress_url))))
    (sq (modify (\<lambda>s. s\<lparr>mh_iteration := mh_param params ''iteration'' (VInt 1),
           stresstime := mh_param params ''stresstime'' (VInt 10), vmcount := mh_param params ''vmcount'' (VInt 4),
           iocount := mh_param params ''iocount'' (VInt 4), memratio := mh_param params ''memratio'' (VInt 5)\<rparr>))
    (bnd (get_hotpluggable_blocks E (mem_path @ ''/memory*'') (mh_param params ''memratio'' (VInt 5))) (\<lambda>blocks.
     sq (modify (\<lambda>s. s\<lparr>blocks_hotpluggable := Some blocks\<rparr>))
    (bnd (call ''exists'' [mem_path @ ''/auto_online_blocks''] (mh_exists E (mem_path @ ''/auto_online_blocks''))) (\<lambda>x.
     sq (whenb x (bnd (is_auto_online E) (\<lambda>auto. whenb (\<not> auto) (hotplug_all E blocks))))
        (call ''clear_dmesg'' [] (mh_clear_dmesg E)))))))))))))"

subsection \<open>Errors and stress\<close>

text \<open>
  The lines of the log are bytes, and \<^verbatim>\<open>"\n".join\<close> of bytes raises: with no line found the test goes on,
  with any it ends in \<^verbatim>\<open>TypeError\<close> before it can fail.
\<close>

definition mh_error_check :: "'w mh_env \<Rightarrow> ('w, unit) mh" where
  "mh_error_check E =
     bnd (moutput E ''dmesg -Txl 1,2,3,4'') (\<lambda>out.
     let err_list = concat (map (\<lambda>error. filter (contains error) (splitlines out)) mh_errorlog) in
     whenb (err_list \<noteq> []) (raise TypeError))"

definition run_stress :: "'w mh_env \<Rightarrow> ('w, unit) mh" where
  "run_stress E =
     bnd (call ''meminfo.MemFree'' [] (mem_free E)) (\<lambda>m.
     bnd (call ''cpu_count'' [] (mh_cpu_count E)) (\<lambda>n.
     bnd (gets iocount) (\<lambda>io. bnd (gets vmcount) (\<lambda>vm. bnd (gets stresstime) (\<lambda>t.
     mrun E (''stress --cpu '' @ str_int (n div 2) @ '' --io '' @ vstr io @ '' --vm '' @ vstr vm @
             '' --vm-bytes '' @ str_int (m div 4) @ ''M --timeout '' @ vstr t @ ''s''))))))"

text \<open>\<^verbatim>\<open>range(v)\<close> of a parameter; only an integer is accepted.\<close>

definition range_of :: "pyval \<Rightarrow> int list result" where
  "range_of v =
     (case v of VInt n \<Rightarrow> Inr (range1 n) | VBool b \<Rightarrow> Inr (range1 (if b then 1 else 0)) | _ \<Rightarrow> Inl TypeError)"

definition mh_iterate :: "('w, unit) mh \<Rightarrow> ('w, unit) mh" where
  "mh_iterate body =
     bnd (gets mh_iteration) (\<lambda>v. bnd (lift (range_of v)) (\<lambda>is. for_each is (\<lambda>_. body)))"

definition my_blocks :: "('w, string list) mh" where
  "my_blocks = bnd (gets blocks_hotpluggable) (\<lambda>o'. lift (attr o'))"

subsection \<open>The tests\<close>

definition line_text :: "string \<Rightarrow> string" where
  "line_text m = newline # m @ [newline]"

definition test_hotplug_loop :: "'w mh_env \<Rightarrow> ('w, unit) mh" where
  "test_hotplug_loop E =
     sq (log Info (line_text ''TEST: hotunplug and hotplug in a loop''))
    (sq (mh_iterate
          (sq (log Info (line_text ''hotunplug all memory''))
          (sq (bnd my_blocks (hotunplug_all E))
          (sq (run_stress E)
          (sq (log Info (line_text ''Reclaim back memory''))
              (bnd my_blocks (hotplug_all E)))))))
        (mh_error_check E))"

definition log_error :: "string \<Rightarrow> ('w, unit) mh" where
  "log_error err = whenb (err \<noteq> []) (log Error err)"

definition toggle_block :: "'w mh_env \<Rightarrow> string \<Rightarrow> ('w, unit) mh" where
  "toggle_block E block =
     bnd (mh_offline E block) (\<lambda>err.
     sq (log_error err)
    (sq (log Info (''memory'' @ block @ '' block hotunplugged''))
    (sq (run_stress E)
    (bnd (mh_online E block) (\<lambda>err.
     sq (log_error err)
        (log Info (''memory'' @ block @ '' block hotplugged'')))))))"

definition test_hotplug_toggle :: "'w mh_env \<Rightarrow> ('w, unit) mh" where
  "test_hotplug_toggle E =
     sq (log Info (line_text ''TEST: Memory toggle''))
    (sq (mh_iterate (bnd my_blocks (\<lambda>bs. for_each bs (toggle_block E))))
        (mh_error_check E))"

definition test_dlpar_mem_hotplug :: "'w mh_env \<Rightarrow> ('w, unit) mh" where
  "test_dlpar_mem_hotplug E =
    (let unsupported = log Info ''UNSUPPORTED: Test not supported on this platform'' in
     bnd (call ''get_arch'' [] (mh_arch E)) (\<lambda>arch.
     if contains ''power'' arch then
       bnd (call ''read_file'' [''/proc/cpuinfo''] (mh_read E ''/proc/cpuinfo'')) (\<lambda>info.
       if \<not> contains ''PowerNV'' info then
         bnd (moutput E ''drmgr -C'') (\<lambda>out.
         if contains ''mem_dlpar=yes'' out then
           sq (log Info (line_text ''DLPAR remove memory operation''))
          (bnd my_blocks (\<lambda>bs.
           sq (for_each (range1 (int (length bs) div 2)) (\<lambda>_. mrun E ''drmgr -c mem -d 5 -w 30 -r''))
          (sq (run_stress E)
          (sq (log Info (line_text ''DLPAR add memory operation''))
          (sq (for_each (range1 (int (length bs) div 2)) (\<lambda>_. mrun E ''drmgr -c mem -d 5 -w 30 -a''))
              (mh_error_check E))))))
         else log Info ''UNSUPPORTED: dlpar not configured..'')
       else unsupported)
     else unsupported))"

text \<open>\<^verbatim>\<open>re.split("[,-]", s)\<close>.\<close>

definition split_nodes :: "string \<Rightarrow> string list" where
  "split_nodes s = split_on (CHR '','') (map (\<lambda>c. if c = CHR ''-'' then CHR '','' else c) s)"

definition numa_block :: "'w mh_env \<Rightarrow> string \<Rightarrow> string \<Rightarrow> ('w, unit) mh" where
  "numa_block E node block =
     sq (log Info (''offline memory'' @ block @ '' in numa node'' @ node))
        (bnd (mh_offline E block) log_error)"

definition numa_node :: "'w mh_env \<Rightarrow> string \<Rightarrow> ('w, unit) mh" where
  "numa_node E raw =
    (let node = strip_chars [newline] raw in
     sq (log Info (''Hotplug all memory in Numa Node '' @ node))
    (bnd (gets memratio) (\<lambda>ratio.
     bnd (get_hotpluggable_blocks E (''/sys/devices/system/node/node'' @ node @ ''/memory[0-9]*'') ratio) (\<lambda>bs.
     sq (for_each bs (numa_block E node))
        (run_stress E)))))"

definition test_hotplug_per_numa_node :: "'w mh_env \<Rightarrow> ('w, unit) mh" where
  "test_hotplug_per_numa_node E =
    (let file = ''/sys/devices/system/node/has_normal_memory'' in
     sq (log Info (line_text ''TEST: Numa Node memory off on''))
    (bnd (call ''read_file'' [file] (mh_read E file)) (\<lambda>nodes.
     sq (for_each (split_nodes nodes) (numa_node E))
        (mh_error_check E))))"

definition mh_tearDown :: "'w mh_env \<Rightarrow> ('w, unit) mh" where
  "mh_tearDown E =
     bnd (gets blocks_hotpluggable) (\<lambda>o'. case o' of
       None \<Rightarrow> ret ()
     | Some bs \<Rightarrow> whenb (bs \<noteq> []) (hotplug_all E bs))"

end
