(* ===== verification/Mem_Props.thy ===== *)
theory Mem_Props
  imports Mem_Hotplug
begin

section \<open>Properties of the memory hotplug test\<close>

text \<open>
  How many blocks the test works on, and in which state the tests and \<^verbatim>\<open>tearDown\<close> leave the memory
  when the library obeys.
\<close>

subsection \<open>The choice of the blocks\<close>

text \<open>
  The files a pattern stands for are \<open>G\<close>, the blocks that can be unplugged satisfy \<open>P\<close>, and asking
  changes nothing.
\<close>

definition mem_files :: "'w mh_env \<Rightarrow> (string \<Rightarrow> string list) \<Rightarrow> (string \<Rightarrow> bool) \<Rightarrow> bool" where
  "mem_files E G P \<longleftrightarrow> (\<forall>p w. mh_glob E p w = (Inr (G p), w)) \<and> (\<forall>b w. is_hot_pluggable E b w = (Inr (P b), w)) \<and>
     (\<forall>p. \<forall>f \<in> set (G p). \<exists>b. first_digits (basename f) = Inr b)"

definition block_of :: "string \<Rightarrow> string" where
  "block_of f = (case first_digits (basename f) of Inl _ \<Rightarrow> [] | Inr b \<Rightarrow> b)"

definition pluggable :: "(string \<Rightarrow> string list) \<Rightarrow> (string \<Rightarrow> bool) \<Rightarrow> string \<Rightarrow> string list" where
  "pluggable G P path = filter P (map block_of (G path))"

definition chosen_blocks :: "(string \<Rightarrow> string list) \<Rightarrow> (string \<Rightarrow> bool) \<Rightarrow> int \<Rightarrow> string \<Rightarrow> string list" where
  "chosen_blocks G P r path = py_take (chunks (int (length (pluggable G P path)) * r)) (pluggable G P path)"

definition mh_quiet :: "'w mh_st \<Rightarrow> 'w mh_st \<Rightarrow> bool" where
  "mh_quiet s t \<longleftrightarrow> (\<exists>tr. t = s\<lparr>trace := tr\<rparr>)"

lemma mh_quiet_refl [simp]: "mh_quiet s s"
proof -
  have "s = s\<lparr>trace := trace s\<rparr>" by simp
  then show ?thesis unfolding mh_quiet_def by blast
qed

lemma mh_quiet_event [simp]: "mh_quiet s t \<Longrightarrow> mh_quiet s (t\<lparr>trace := tr\<rparr>)"
  by (auto simp: mh_quiet_def)

lemma mh_quiet_same:
  "mh_quiet s t \<Longrightarrow> world t = world s \<and> blocks_hotpluggable t = blocks_hotpluggable s \<and> memratio t = memratio s \<and>
     mh_iteration t = mh_iteration s"
  by (auto simp: mh_quiet_def)

lemma wp_choose:
  assumes "mem_files E G P"
  shows "wp (get_hotpluggable_blocks E path (VInt r)) (\<lambda>bs t. bs = chosen_blocks G P r path \<and> mh_quiet s t) (\<lambda>_ _. False) s"
proof -
  have g: "mh_glob E p w = (Inr (G p), w)" "is_hot_pluggable E b w = (Inr (P b), w)" for p b w
    using assms unfolding mem_files_def by auto
  have loop: "wp (for_acc fs (\<lambda>p mem_blocks.
        bnd (lift (first_digits (basename p))) (\<lambda>block.
        bnd (call ''is_hot_pluggable'' [block] (is_hot_pluggable E block)) (\<lambda>b.
        ret (if b then mem_blocks @ [block] else mem_blocks)))) [])
      (\<lambda>bs t. bs = filter P (map block_of fs) \<and> mh_quiet s t) (\<lambda>_ _. False) u"
    if "set fs \<subseteq> set (G path)" "mh_quiet s u" for fs u
  proof (rule wp_for_acc[where I = "\<lambda>fs bs t. bs = filter P (map block_of fs) \<and> mh_quiet s t"])
    fix ys f b t
    assume I: "b = filter P (map block_of ys) \<and> mh_quiet s t" and "\<exists>zs. fs = ys @ f # zs"
    then have "f \<in> set (G path)" using that(1) by auto
    then obtain k where k: "first_digits (basename f) = Inr k" using assms unfolding mem_files_def by blast
    then have "block_of f = k" by (simp add: block_of_def)
    moreover have "t\<lparr>world := world t\<rparr> = t" by simp
    ultimately show "wp (bnd (lift (first_digits (basename f))) (\<lambda>block.
        bnd (call ''is_hot_pluggable'' [block] (is_hot_pluggable E block)) (\<lambda>p.
        ret (if p then b @ [block] else b)))) (\<lambda>bs u. bs = filter P (map block_of (ys @ [f])) \<and> mh_quiet s u) (\<lambda>_ _. False) t"
      using I by (simp add: wp k g)
  qed (use that(2) in simp)
  have q: "mh_quiet s (s\<lparr>trace := tr\<rparr>)" for tr by simp
  show ?thesis
    unfolding get_hotpluggable_blocks_def
    apply (simp only: wp_bnd[of "call _ _ _"] wp_call g prod.case sum.case)
    apply (rule wp_bnd_step[OF loop[OF order_refl]])
      apply simp
     apply (elim conjE, simp add: wp hotplug_count_def chosen_blocks_def pluggable_def)
    apply simp
    done
qed

lemma chunks_odd: "chunks m = m div 100 + (if odd m then 1 else 0)"
  by (simp add: chunks_def odd_iff_mod_2_eq_one)

text \<open>
  The number of blocks: from a ratio between 0 and 100 per cent the test takes that many of the blocks
  that can be unplugged, in the order of the directory, never more than there are. The count is the exact
  percentage rounded down when the product is even and up when it is odd, so an even product
  below 100, such as 5 per cent of 10 blocks, leaves the test without any block.
\<close>

theorem block_count:
  assumes "mem_files E G P" "0 \<le> r" "r \<le> 100"
  shows "wp (get_hotpluggable_blocks E path (VInt r))
     (\<lambda>bs _. \<exists>k \<le> length (pluggable G P path). bs = take k (pluggable G P path) \<and>
        int k = int (length (pluggable G P path)) * r div 100 + (if odd (int (length (pluggable G P path)) * r) then 1 else 0))
     (\<lambda>_ _. False) s"
proof (rule wp_conseq[OF wp_choose[OF assms(1)]])
  fix bs t assume b: "bs = chosen_blocks G P r path \<and> mh_quiet s t"
  let ?xs = "pluggable G P path" and ?n = "int (length (pluggable G P path))"
  have c: "chunks (?n * r) = ?n * r div 100 + (if odd (?n * r) then 1 else 0)"
    by (rule chunks_odd)
  have nn: "0 \<le> ?n * r" using assms(2) by simp
  have "chunks (?n * r) \<le> ?n"
  proof (cases "odd (?n * r)")
    case True
    then have "r \<noteq> 100" "?n \<noteq> 0" by auto
    then have "r \<le> 99" "0 < ?n" using assms(3) by auto
    then have "?n * r \<le> ?n * 99" by (intro mult_left_mono) auto
    then have "?n * r div 100 < ?n" using \<open>0 < ?n\<close> by linarith
    then show ?thesis using True by (simp add: c)
  next
    case False
    have "?n * r \<le> ?n * 100" by (intro mult_left_mono) (use assms(3) in auto)
    then show ?thesis using False by (simp add: c)
  qed
  moreover have "0 \<le> chunks (?n * r)" using nn by (simp add: c)
  ultimately show "\<exists>k \<le> length ?xs. bs = take k ?xs \<and> int k = ?n * r div 100 + (if odd (?n * r) then 1 else 0)"
    using b c by (intro exI[of _ "nat (chunks (?n * r))"]) (auto simp: chosen_blocks_def py_take_def)
qed simp


text \<open>A machine whose system is the list of the blocks that are online.\<close>

definition mh_demo_files :: "string list" where
  "mh_demo_files = map (\<lambda>b. mem_path @ ''/memory'' @ b) [''0'', ''1'', ''2'']"

lemma mh_demo_blocks: "map (\<lambda>f. first_digits (basename f)) mh_demo_files = [Inr ''0'', Inr ''1'', Inr ''2'']"
  by code_simp

definition mh_demo :: "string list mh_env" where
  "mh_demo = \<lparr>check_hotplug = \<lambda>w. (Inr True, w), mh_check = \<lambda>_ w. (Inr True, w), mh_install = \<lambda>_ w. (Inr True, w),
     mh_fetch = \<lambda>_ w. (Inr [], w), mh_extract = \<lambda>_ w. (Inr (), w), mh_chdir = \<lambda>_ w. (Inr (), w),
     mh_make = \<lambda>_ w. (Inr (), w), mh_run = \<lambda>_ w. (Inr (), w), mh_output = \<lambda>_ w. (Inr [], w),
     mh_glob = \<lambda>_ w. (Inr mh_demo_files, w), mh_exists = \<lambda>_ w. (Inr False, w),
     mh_read = \<lambda>_ w. (Inr (''0'' @ [newline]), w), is_hot_pluggable = \<lambda>_ w. (Inr True, w),
     mem_hotplug = \<lambda>b w. (Inr (), b # w), mem_hotunplug = \<lambda>b w. (Inr (), removeAll b w),
     mem_state = \<lambda>b w. (Inr (b \<in> set w), w), mem_free = \<lambda>w. (Inr 4096, w), mh_cpu_count = \<lambda>w. (Inr 8, w),
     mh_arch = \<lambda>w. (Inr ''powerpc'', w), mh_clear_dmesg = \<lambda>w. (Inr (), w), mh_tmpdir = ''/tmp''\<rparr>"

definition mh_demo_st :: "string list \<Rightarrow> 'w \<Rightarrow> 'w mh_st" where
  "mh_demo_st bs w = \<lparr>world = w, trace = [], blocks_hotpluggable = Some bs, mh_iteration = VInt 2, stresstime = VInt 10,
     vmcount = VInt 4, iocount = VInt 4, memratio = VInt 35\<rparr>"

lemma mh_demo_laws: "mem_files mh_demo (\<lambda>_. mh_demo_files) (\<lambda>_. True)"
proof -
  have "first_digits (basename f) \<in> {Inr ''0'', Inr ''1'', Inr ''2''}" if "f \<in> set mh_demo_files" for f
    using imageI[OF that, of "\<lambda>f. first_digits (basename f)"] arg_cong[OF mh_demo_blocks, of set] by simp
  then show ?thesis unfolding mem_files_def mh_demo_def by fastforce
qed

lemma mh_demo_pluggable: "pluggable (\<lambda>_. mh_demo_files) (\<lambda>_. True) x = [''0'', ''1'', ''2'']"
proof -
  have "map block_of mh_demo_files = map (\<lambda>r. case r of Inl _ \<Rightarrow> [] | Inr b \<Rightarrow> b) (map (\<lambda>f. first_digits (basename f)) mh_demo_files)"
    by (simp add: block_of_def)
  then show ?thesis unfolding mh_demo_blocks pluggable_def by simp
qed

theorem block_count_witness:
  "wp (get_hotpluggable_blocks mh_demo (mem_path @ ''/memory*'') (VInt 35)) (\<lambda>bs _. bs = [''0'', ''1'']) (\<lambda>_ _. False)
     (mh_demo_st [] [])"
  by (rule wp_conseq[OF block_count[OF mh_demo_laws, where r = 35, unfolded mh_demo_pluggable]]) (auto simp: numeral_2_eq_2)

subsection \<open>Memory that obeys\<close>

text \<open>
  \<open>on w b\<close> says that block \<open>b\<close> is online. The library reports that state, and switches the blocks of
  \<open>C\<close> when asked.
\<close>

definition mem_laws :: "'w mh_env \<Rightarrow> ('w \<Rightarrow> string \<Rightarrow> bool) \<Rightarrow> string set \<Rightarrow> bool" where
  "mem_laws E on C \<longleftrightarrow>
     (\<forall>w b. mem_state E b w = (Inr (on w b), w)) \<and>
     (\<forall>w. \<forall>b \<in> C. (\<exists>w'. mem_hotplug E b w = (Inr (), w') \<and> on w' = (on w)(b := True)) \<and>
                (\<exists>w'. mem_hotunplug E b w = (Inr (), w') \<and> on w' = (on w)(b := False)))"

text \<open>Stress runs and the kernel log: no command touches the blocks, and the log shows no error.\<close>

definition mem_calm :: "'w mh_env \<Rightarrow> ('w \<Rightarrow> string \<Rightarrow> bool) \<Rightarrow> bool" where
  "mem_calm E on \<longleftrightarrow>
     (\<forall>w. \<exists>m w'. mem_free E w = (Inr m, w') \<and> on w' = on w) \<and>
     (\<forall>w. \<exists>n w'. mh_cpu_count E w = (Inr n, w') \<and> on w' = on w) \<and>
     (\<forall>w cmd. \<exists>w'. mh_run E cmd w = (Inr (), w') \<and> on w' = on w) \<and>
     (\<forall>w. \<exists>out w'. mh_output E ''dmesg -Txl 1,2,3,4'' w = (Inr out, w') \<and> on w' = on w \<and>
        (\<forall>l \<in> set (splitlines out). \<forall>e \<in> set mh_errorlog. \<not> contains e l))"

definition mh_attrs :: "'w mh_st \<Rightarrow> string list option \<times> pyval \<times> pyval" where
  "mh_attrs s = (blocks_hotpluggable s, mh_iteration s, memratio s)"

lemma mh_attrs_update [simp]: "mh_attrs (s\<lparr>world := w\<rparr>) = mh_attrs s" "mh_attrs (s\<lparr>trace := tr\<rparr>) = mh_attrs s"
  by (simp_all add: mh_attrs_def)

text \<open>The state the switching is about: the blocks, with the attributes of the object unchanged.\<close>

definition mh_obeys :: "'w mh_env \<Rightarrow> ('w mh_st \<Rightarrow> string \<Rightarrow> bool) \<Rightarrow> string set \<Rightarrow> bool" where
  "mh_obeys E f C \<longleftrightarrow> (\<exists>on. mem_laws E on C \<and> f = (\<lambda>s. on (world s)))"

lemma wp_mem_blocks:
  assumes "mem_laws E on C" "b \<in> C"
  shows "wp (mh_online E b) (\<lambda>r t. r = [] \<and> on (world t) = (on (world s))(b := True)) (\<lambda>_ _. False) s"
    and "wp (mh_offline E b) (\<lambda>r t. r = [] \<and> on (world t) = (on (world s))(b := False)) (\<lambda>_ _. False) s"
proof -
  obtain w1 w2 where "mem_hotplug E b (world s) = (Inr (), w1)" "on w1 = (on (world s))(b := True)"
    "mem_hotunplug E b (world s) = (Inr (), w2)" "on w2 = (on (world s))(b := False)"
    using assms unfolding mem_laws_def by meson
  then show "wp (mh_online E b) (\<lambda>r t. r = [] \<and> on (world t) = (on (world s))(b := True)) (\<lambda>_ _. False) s"
    "wp (mh_offline E b) (\<lambda>r t. r = [] \<and> on (world t) = (on (world s))(b := False)) (\<lambda>_ _. False) s"
    by (simp_all add: mh_online_def mh_offline_def if_busy_def wp)
qed

interpretation mem_all: switches hotplug_block hotunplug_block mh_obeys
proof
  fix E :: "'w mh_env" and f C b and s :: "'w mh_st"
  assume "mh_obeys E f C" "b \<in> C"
  then obtain on where l: "mem_laws E on C" and f: "f = (\<lambda>s. on (world s))" unfolding mh_obeys_def by blast
  have st: "mem_state E b w = (Inr (on w b), w)" for w using l unfolding mem_laws_def by blast
  show "wp (hotplug_block E b) (\<lambda>_ t. f t = (f s)(b := True)) (\<lambda>_ _. False) s"
    unfolding hotplug_block_def f
    by (cases "on (world s) b")
       (auto simp: wp_bnd[of "call _ _ _"] wp_call st whenb_def wp_ret fun_upd_idem intro!: wp_bnd_step[OF wp_mem_blocks(1)[OF l \<open>b \<in> C\<close>]])
  show "wp (hotunplug_block E b) (\<lambda>_ t. f t = (f s)(b := False)) (\<lambda>_ _. False) s"
    unfolding hotunplug_block_def f
    by (cases "on (world s) b")
       (auto simp: wp_bnd[of "call _ _ _"] wp_call st whenb_def wp_ret fun_upd_idem intro!: wp_bnd_step[OF wp_mem_blocks(2)[OF l \<open>b \<in> C\<close>]])
qed

lemma wp_run_stress:
  assumes "mem_calm E on"
  shows "wp (run_stress E) (\<lambda>_ t. on (world t) = on (world s)) (\<lambda>_ _. False) s"
proof -
  have free: "wp (call ''meminfo.MemFree'' [] (mem_free E)) (\<lambda>_ t. on (world t) = on (world u)) (\<lambda>_ _. False) u" for u :: "'a mh_st"
  proof -
    obtain m w' where "mem_free E (world u) = (Inr m, w')" "on w' = on (world u)" using assms unfolding mem_calm_def by meson
    then show ?thesis by (simp add: wp)
  qed
  have count: "wp (call ''cpu_count'' [] (mh_cpu_count E)) (\<lambda>_ t. on (world t) = on (world u)) (\<lambda>_ _. False) u" for u :: "'a mh_st"
  proof -
    obtain m w' where "mh_cpu_count E (world u) = (Inr m, w')" "on w' = on (world u)" using assms unfolding mem_calm_def by meson
    then show ?thesis by (simp add: wp)
  qed
  have run: "wp (mrun E cmd) (\<lambda>_ t. on (world t) = on (world u)) (\<lambda>_ _. False) u" for cmd and u :: "'a mh_st"
  proof -
    obtain w' where "mh_run E cmd (world u) = (Inr (), w')" "on w' = on (world u)" using assms unfolding mem_calm_def by meson
    then show ?thesis by (simp add: mrun_def wp)
  qed
  show ?thesis
    unfolding run_stress_def
    apply (rule wp_bnd_step[OF free])
     apply (rule wp_bnd_step[OF count])
      apply (simp only: wp_bnd wp_gets)
      apply (rule wp_conseq[OF run])
       apply simp_all
    done
qed

lemma wp_mh_error_check:
  assumes "mem_calm E on"
  shows "wp (mh_error_check E) (\<lambda>_ t. on (world t) = on (world s)) (\<lambda>_ _. False) s"
proof -
  obtain out w' where o': "mh_output E ''dmesg -Txl 1,2,3,4'' (world s) = (Inr out, w')" "on w' = on (world s)"
    "\<forall>l \<in> set (splitlines out). \<forall>e \<in> set mh_errorlog. \<not> contains e l"
    using assms unfolding mem_calm_def by meson
  have "concat (map (\<lambda>error. filter (contains error) (splitlines out)) mh_errorlog) = []"
    unfolding concat_eq_Nil_conv using o'(3) by (auto simp: filter_empty_conv)
  then show ?thesis by (simp add: mh_error_check_def moutput_def wp o'(1,2))
qed

subsection \<open>What the tests leave behind\<close>

lemma with_attrs:
  assumes "keeps mh_attrs m" "wp m Q R s"
  shows "wp m (\<lambda>x t. Q x t \<and> mh_attrs t = mh_attrs s) R s"
proof -
  have "wp m (\<lambda>_ t. mh_attrs t = mh_attrs s) (\<lambda>_ _. True) s" by (rule wp_keeps[OF assms(1)]) auto
  from wp_conj[OF assms(2) this] show ?thesis by (rule wp_conseq) auto
qed

lemma keeps_if_busy [keeps]: "keeps F m \<Longrightarrow> keeps F (if_busy b m)"
proof -
  have "keeps F (case e of IOError \<Rightarrow> ret (busy_text b) | _ \<Rightarrow> raise e)" for e by (cases e) (simp_all add: keeps)
  then show "keeps F m \<Longrightarrow> keeps F (if_busy b m)" unfolding if_busy_def by (intro keeps)
qed

lemma keeps_mh [keeps]:
  "keeps mh_attrs (mh_online E b)" "keeps mh_attrs (mh_offline E b)" "keeps mh_attrs (hotplug_all E bs)"
  "keeps mh_attrs (hotunplug_all E bs)" "keeps mh_attrs (run_stress E)" "keeps mh_attrs (mh_error_check E)"
  "keeps mh_attrs (numa_block E node b)" "keeps mh_attrs (get_hotpluggable_blocks E path v)"
  unfolding mh_online_def mh_offline_def hotplug_all_def hotunplug_all_def hotplug_block_def hotunplug_block_def
    run_stress_def mh_error_check_def moutput_def mrun_def numa_block_def log_error_def Let_def get_hotpluggable_blocks_def
  by (intro keeps; simp)+

lemma wp_loop_round:
  assumes "mem_laws E on (set bs)" "mem_calm E on" "blocks_hotpluggable s = Some bs"
  shows "wp (sq (log Info m1) (sq (bnd my_blocks (hotunplug_all E)) (sq (run_stress E)
            (sq (log Info m2) (bnd my_blocks (hotplug_all E))))))
     (\<lambda>_ t. on (world t) = (\<lambda>b. b \<in> set bs \<or> on (world s) b) \<and> mh_attrs t = mh_attrs s) (\<lambda>_ _. False) s"
proof -
  have o': "mh_obeys E (\<lambda>s. on (world s)) (set bs)" unfolding mh_obeys_def using assms(1) by blast
  note down = with_attrs[OF keeps_mh(4) mem_all.down_all[OF o' order_refl, folded hotunplug_all_def]]
  note up = with_attrs[OF keeps_mh(3) mem_all.up_all[OF o' order_refl, folded hotplug_all_def]]
  note stress = with_attrs[OF keeps_mh(5) wp_run_stress[OF assms(2)]]
  have mine: "my_blocks u = (Inr bs, u)" if "mh_attrs u = mh_attrs s" for u :: "'a mh_st"
    using that assms(3) by (simp add: my_blocks_def mh_attrs_def py_defs)
  have bm: "wp (bnd my_blocks f) Q R u = wp (f bs) Q R u" if "mh_attrs u = mh_attrs s" for f Q R and u :: "'a mh_st"
    using mine[OF that] by (simp add: wp_def bnd_def)
  let ?Q = "\<lambda>_ t. on (world t) = (\<lambda>b. b \<in> set bs \<or> on (world s) b) \<and> mh_attrs t = mh_attrs s"
  have last: "wp (sq (log Info m2) (bnd my_blocks (hotplug_all E))) ?Q (\<lambda>_ _. False) u"
    if "on (world u) = (\<lambda>b. b \<notin> set bs \<and> on (world s) b)" "mh_attrs u = mh_attrs s" for u
    unfolding wp_sq wp_log
    by (subst bm, simp add: that(2), rule wp_conseq[OF up]) (use that in \<open>auto simp: fun_eq_iff\<close>)
  have mid: "wp (sq (run_stress E) (sq (log Info m2) (bnd my_blocks (hotplug_all E)))) ?Q (\<lambda>_ _. False) u"
    if "on (world u) = (\<lambda>b. b \<notin> set bs \<and> on (world s) b)" "mh_attrs u = mh_attrs s" for u
    by (rule wp_sq_step[OF stress last]) (use that in auto)
  show ?thesis
    unfolding wp_sq[of "log Info m1"] wp_log wp_sq[of "bnd my_blocks _"]
    by (subst bm, simp, rule wp_conseq[OF down mid]) auto
qed

text \<open>
  C40. The loop test with memory that obeys and a clean kernel log: it does not fail, and after at least
  one round every block it works on is online, also one that was offline before; all other blocks,
  and everything when there is no round, are as before.
\<close>

theorem loop_reclaims:
  assumes "mem_laws E on (set bs)" "mem_calm E on" "blocks_hotpluggable s = Some bs" "mh_iteration s = VInt n"
  shows "wp (test_hotplug_loop E)
     (\<lambda>_ t. on (world t) = (if 0 < n then (\<lambda>b. b \<in> set bs \<or> on (world s) b) else on (world s))) (\<lambda>_ _. False) s"
proof -
  let ?s = "s\<lparr>trace := trace s @ [Log Info (line_text ''TEST: hotunplug and hotplug in a loop'')]\<rparr>"
  let ?body = "sq (log Info (line_text ''hotunplug all memory'')) (sq (bnd my_blocks (hotunplug_all E)) (sq (run_stress E)
            (sq (log Info (line_text ''Reclaim back memory'')) (bnd my_blocks (hotplug_all E)))))"
  let ?on = "\<lambda>ys. if ys = [] then on (world s) else (\<lambda>b. b \<in> set bs \<or> on (world s) b)"
  have loop: "wp (for_each is (\<lambda>_. ?body)) (\<lambda>_ t. on (world t) = ?on is \<and> mh_attrs t = mh_attrs s) (\<lambda>_ _. False) ?s"
    for "is" :: "int list"
  proof (rule wp_for_each[where I = "\<lambda>ys t. on (world t) = ?on ys \<and> mh_attrs t = mh_attrs s"])
    fix ys :: "int list" and x t
    assume t: "on (world t) = ?on ys \<and> mh_attrs t = mh_attrs s"
    then have "blocks_hotpluggable t = Some bs" using assms(3) by (simp add: mh_attrs_def)
    from wp_loop_round[OF assms(1,2) this]
    show "wp ?body (\<lambda>_ u. on (world u) = ?on (ys @ [x]) \<and> mh_attrs u = mh_attrs s) (\<lambda>_ _. False) t"
      by (rule wp_conseq) (use t in \<open>auto simp: fun_eq_iff\<close>)
  qed simp
  have rng: "range_of (mh_iteration ?s) = Inr (range1 n)" by (simp add: assms(4) range_of_def)
  have "wp (mh_iterate ?body) (\<lambda>_ t. on (world t) = ?on (range1 n)) (\<lambda>_ _. False) ?s"
    unfolding mh_iterate_def wp_bnd wp_gets rng lift_simps wp_ret by (rule wp_conseq[OF loop]) simp_all
  then have "wp (sq (mh_iterate ?body) (mh_error_check E)) (\<lambda>_ t. on (world t) = ?on (range1 n)) (\<lambda>_ _. False) ?s"
    by (rule wp_sq_step) (auto intro!: wp_conseq[OF wp_mh_error_check[OF assms(2)]])
  moreover have "range1 n = [] \<longleftrightarrow> \<not> 0 < n" by (auto simp: py_range3_def)
  ultimately have "wp (sq (mh_iterate ?body) (mh_error_check E))
      (\<lambda>_ t. on (world t) = (if 0 < n then (\<lambda>b. b \<in> set bs \<or> on (world s) b) else on (world s))) (\<lambda>_ _. False) ?s"
    by (cases "0 < n") simp_all
  then show ?thesis unfolding test_hotplug_loop_def wp_sq[of "log _ _"] wp_log .
qed

lemma mh_demo_obeys: "mem_laws mh_demo (\<lambda>w b. b \<in> set w) C" "mem_calm mh_demo (\<lambda>w b. b \<in> set w)"
proof -
  show "mem_laws mh_demo (\<lambda>w b. b \<in> set w) C" by (auto simp: mem_laws_def mh_demo_def fun_eq_iff)
  have "splitlines [] = []" by code_simp
  then show "mem_calm mh_demo (\<lambda>w b. b \<in> set w)" by (simp add: mem_calm_def mh_demo_def)
qed

theorem loop_reclaims_witness:
  "wp (test_hotplug_loop mh_demo) (\<lambda>_ t. set (world t) = {''0'', ''1'', ''7''}) (\<lambda>_ _. False)
     (mh_demo_st [''0'', ''1''] [''7'', ''1''])"
proof -
  let ?s = "mh_demo_st [''0'', ''1''] [''7'', ''1'']"
  have "blocks_hotpluggable ?s = Some [''0'', ''1'']" "mh_iteration ?s = VInt 2" by (simp_all add: mh_demo_st_def)
  from loop_reclaims[OF mh_demo_obeys this] show ?thesis
    by (rule wp_conseq) (auto simp: fun_eq_iff mh_demo_st_def)
qed

text \<open>The blocks that the test of the NUMA nodes takes from the nodes.\<close>

definition numa_blocks :: "(string \<Rightarrow> string list) \<Rightarrow> (string \<Rightarrow> bool) \<Rightarrow> int \<Rightarrow> string \<Rightarrow> string list" where
  "numa_blocks G P r raw =
     chosen_blocks G P r (''/sys/devices/system/node/node'' @ strip_chars [newline] raw @ ''/memory[0-9]*'')"

lemma wp_numa_node:
  assumes "mem_laws E on UNIV" "mem_calm E on" "mem_files E G P" "memratio s = VInt r"
  shows "wp (numa_node E raw)
     (\<lambda>_ t. on (world t) = (\<lambda>b. b \<notin> set (numa_blocks G P r raw) \<and> on (world s) b) \<and> mh_attrs t = mh_attrs s) (\<lambda>_ _. False) s"
proof -
  let ?node = "strip_chars [newline] raw" and ?bs = "numa_blocks G P r raw"
  have block: "wp (numa_block E ?node b) (\<lambda>_ t. on (world t) = (on (world u))(b := False)) (\<lambda>_ _. False) u" for b u
    unfolding numa_block_def wp_sq wp_log
    by (rule wp_bnd_step[OF wp_mem_blocks(2)[OF assms(1) UNIV_I]]) (auto simp: log_error_def whenb_def wp)
  have loop: "wp (for_each bs (numa_block E ?node))
      (\<lambda>_ t. on (world t) = (\<lambda>b. b \<notin> set bs \<and> on (world s) b) \<and> mh_attrs t = mh_attrs s) (\<lambda>_ _. False) u"
    if "world u = world s" "mh_attrs u = mh_attrs s" for u bs
  proof (rule wp_for_each[where I = "\<lambda>ys t. on (world t) = (\<lambda>b. b \<notin> set ys \<and> on (world s) b) \<and> mh_attrs t = mh_attrs s"])
    fix ys x t
    assume "on (world t) = (\<lambda>b. b \<notin> set ys \<and> on (world s) b) \<and> mh_attrs t = mh_attrs s"
    then show "wp (numa_block E ?node x)
       (\<lambda>_ u. on (world u) = (\<lambda>b. b \<notin> set (ys @ [x]) \<and> on (world s) b) \<and> mh_attrs u = mh_attrs s) (\<lambda>_ _. False) t"
      by (intro wp_conseq[OF with_attrs[OF keeps_mh(7) block]]) (auto simp: fun_eq_iff)
  qed (use that in simp)
  have m: "memratio (s\<lparr>trace := tr\<rparr>) = VInt r" for tr using assms(4) by simp
  show ?thesis
    unfolding numa_node_def Let_def wp_sq[of "log _ _"] wp_log wp_bnd[of "gets _"] wp_gets m
    apply (rule wp_bnd_step[OF with_attrs[OF keeps_mh(8) wp_choose[OF assms(3)]]])
     apply (elim conjE, hypsubst)
     apply (rule wp_sq_step[OF loop])
        apply (simp add: mh_quiet_same, simp)
      apply (rule wp_conseq[OF with_attrs[OF keeps_mh(5) wp_run_stress[OF assms(2)]]])
       apply (simp_all add: numa_blocks_def)
    done
qed

text \<open>
  C39. The test of the NUMA nodes only takes memory away: with memory that obeys and a clean log it does not
  fail, but of all the blocks it took from the nodes \<^verbatim>\<open>tearDown\<close> brings back only those that are also among the blocks of the
  object; the others stay offline after the run.
\<close>

theorem numa_blocks_stay_offline:
  assumes "mem_laws E on UNIV" "mem_calm E on" "mem_files E G P" "memratio s = VInt r" "blocks_hotpluggable s = Some bs"
    and "\<And>w. \<exists>w'. mh_read E ''/sys/devices/system/node/has_normal_memory'' w = (Inr nodes, w') \<and> on w' = on w"
  shows "wp (sq (test_hotplug_per_numa_node E) (mh_tearDown E))
     (\<lambda>_ t. on (world t) = (\<lambda>b. b \<in> set bs \<or>
        ((\<forall>n \<in> set (split_nodes nodes). b \<notin> set (numa_blocks G P r n)) \<and> on (world s) b))) (\<lambda>_ _. False) s"
proof -
  let ?after = "\<lambda>ys b. (\<forall>n \<in> set ys. b \<notin> set (numa_blocks G P r n)) \<and> on (world s) b"
  let ?all = "split_nodes nodes"
  have loop: "wp (for_each ns (numa_node E)) (\<lambda>_ t. on (world t) = ?after ns \<and> mh_attrs t = mh_attrs s) (\<lambda>_ _. False) u"
    if "on (world u) = on (world s)" "mh_attrs u = mh_attrs s" for ns u
  proof (rule wp_for_each[where I = "\<lambda>ys t. on (world t) = ?after ys \<and> mh_attrs t = mh_attrs s"])
    fix ys x t
    assume t: "on (world t) = ?after ys \<and> mh_attrs t = mh_attrs s"
    then have "memratio t = VInt r" using assms(4) by (simp add: mh_attrs_def)
    from wp_numa_node[OF assms(1-3) this]
    show "wp (numa_node E x) (\<lambda>_ u. on (world u) = ?after (ys @ [x]) \<and> mh_attrs u = mh_attrs s) (\<lambda>_ _. False) t"
      by (rule wp_conseq) (use t in \<open>auto simp: fun_eq_iff\<close>)
  qed (use that in simp)
  have o': "mh_obeys E (\<lambda>s. on (world s)) (set bs)"
    using assms(1) unfolding mh_obeys_def mem_laws_def by blast
  have tear: "wp (mh_tearDown E) (\<lambda>_ t. on (world t) = (\<lambda>b. b \<in> set bs \<or> on (world u) b)) (\<lambda>_ _. False) u"
    if "mh_attrs u = mh_attrs s" for u
  proof -
    have "blocks_hotpluggable u = Some bs" using that assms(5) by (simp add: mh_attrs_def)
    then have "wp (mh_tearDown E) Q R u = wp (hotplug_all E bs) Q R u" for Q R
      by (cases "bs = []") (simp_all add: mh_tearDown_def wp hotplug_all_def)
    then show ?thesis using mem_all.up_all[OF o' order_refl, folded hotplug_all_def] by simp
  qed
  have rest: "wp (sq (sq (for_each ?all (numa_node E)) (mh_error_check E)) (mh_tearDown E))
      (\<lambda>_ t. on (world t) = (\<lambda>b. b \<in> set bs \<or> ?after ?all b)) (\<lambda>_ _. False) u"
    if "on (world u) = on (world s)" "mh_attrs u = mh_attrs s" for u
    unfolding sq_assoc
    apply (rule wp_sq_step[OF loop[OF that]])
     apply (rule wp_sq_step[OF with_attrs[OF keeps_mh(6) wp_mh_error_check[OF assms(2)]]])
      apply (rule wp_conseq[OF tear], simp_all)
    done
  define u where "u = s\<lparr>trace := trace s @ [Log Info (line_text ''TEST: Numa Node memory off on'')]\<rparr>"
  obtain w' where w': "mh_read E ''/sys/devices/system/node/has_normal_memory'' (world u) = (Inr nodes, w')" "on w' = on (world u)"
    using assms(6) by blast
  have "wp (sq (test_hotplug_per_numa_node E) (mh_tearDown E)) Q R s =
     wp (bnd (call ''read_file'' [''/sys/devices/system/node/has_normal_memory'']
            (mh_read E ''/sys/devices/system/node/has_normal_memory'')) (\<lambda>nodes.
         sq (sq (for_each (split_nodes nodes) (numa_node E)) (mh_error_check E)) (mh_tearDown E))) Q R u" for Q R
    by (simp add: test_hotplug_per_numa_node_def Let_def sq_assoc wp_sq[of "log _ _"] wp_log u_def)
  then show ?thesis
    by (simp only: wp_bnd wp_call w' prod.case sum.case) (rule rest, simp_all add: w' u_def)
qed

theorem numa_blocks_stay_offline_witness:
  "wp (sq (test_hotplug_per_numa_node mh_demo) (mh_tearDown mh_demo))
     (\<lambda>_ t. ''1'' \<notin> set (world t) \<and> ''0'' \<in> set (world t) \<and> ''2'' \<in> set (world t)) (\<lambda>_ _. False)
     (mh_demo_st [''0''] [''0'', ''1'', ''2''])"
proof -
  let ?s = "mh_demo_st [''0''] [''0'', ''1'', ''2'']"
  have r: "memratio ?s = VInt 35" "blocks_hotpluggable ?s = Some [''0'']" by (simp_all add: mh_demo_st_def)
  have n: "split_nodes (''0'' @ [newline]) = [''0'' @ [newline]]" by code_simp
  have b: "numa_blocks (\<lambda>_. mh_demo_files) (\<lambda>_. True) 35 raw = [''0'', ''1'']" for raw
    by (simp add: numa_blocks_def chosen_blocks_def mh_demo_pluggable chunks_def py_take_def numeral_2_eq_2)
  have "\<exists>w'. mh_read mh_demo f w = (Inr (''0'' @ [newline]), w') \<and> (\<lambda>b. b \<in> set w') = (\<lambda>b. b \<in> set w)" for f w
    by (simp add: mh_demo_def)
  from numa_blocks_stay_offline[OF mh_demo_obeys mh_demo_laws r this, unfolded n b] show ?thesis
    by (rule wp_conseq) (auto simp: fun_eq_iff mh_demo_st_def)
qed

end
