(* ===== verification/Py_Json.thy ===== *)
theory Py_Json
  imports Py_Val
begin

section \<open>Values read from JSON\<close>

text \<open>
  What \<^verbatim>\<open>json.loads\<close> returns for the output of a tool: scalars, lists and dicts. A dict is its list of
  items in order, with keys that differ. The operations are those the scripts apply without knowing
  the type: they raise where Python does.
\<close>

datatype json = JVal pyval | JArr "json list" | JObj "(string \<times> json) list"

abbreviation JInt :: "int \<Rightarrow> json" where "JInt n \<equiv> JVal (VInt n)"
abbreviation JStr :: "string \<Rightarrow> json" where "JStr s \<equiv> JVal (VStr s)"
abbreviation JNone :: json where "JNone \<equiv> JVal VNone"

fun jtruthy :: "json \<Rightarrow> bool" where
  "jtruthy (JVal v) = truthy v"
| "jtruthy (JArr xs) = (xs \<noteq> [])"
| "jtruthy (JObj kvs) = (kvs \<noteq> [])"

text \<open>\<^verbatim>\<open>==\<close>: numbers by value, lists by element, dicts whatever the order of their keys.\<close>

fun jeq :: "json \<Rightarrow> json \<Rightarrow> bool"
  and jeqs :: "json list \<Rightarrow> json list \<Rightarrow> bool"
  and jsub :: "(string \<times> json) list \<Rightarrow> (string \<times> json) list \<Rightarrow> bool" where
  "jeq (JVal a) (JVal b) = veq a b"
| "jeq (JArr xs) (JArr ys) = jeqs xs ys"
| "jeq (JObj xs) (JObj ys) = (length xs = length ys \<and> jsub xs ys)"
| "jeq _ _ = False"
| "jeqs [] [] = True"
| "jeqs (x # xs) (y # ys) = (jeq x y \<and> jeqs xs ys)"
| "jeqs _ _ = False"
| "jsub [] ys = True"
| "jsub ((k, v) # xs) ys = ((case map_of ys k of None \<Rightarrow> False | Some w \<Rightarrow> jeq v w) \<and> jsub xs ys)"

text \<open>\<^verbatim>\<open>str\<close> of a value: a text stands for itself, but inside a list or dict for its \<^verbatim>\<open>repr\<close>.\<close>

fun jrepr :: "json \<Rightarrow> string" where
  "jrepr (JVal v) = (case v of VStr s \<Rightarrow> repr_str s | _ \<Rightarrow> vstr v)"
| "jrepr (JArr xs) = brackets (map jrepr xs)"
| "jrepr (JObj kvs) = ''{'' @ join '', '' (map (\<lambda>(k, v). repr_str k @ '': '' @ jrepr v) kvs) @ ''}''"

definition jstr :: "json \<Rightarrow> string" where
  "jstr j = (case j of JVal v \<Rightarrow> vstr v | _ \<Rightarrow> jrepr j)"

text \<open>\<^verbatim>\<open>j[k]\<close> and \<^verbatim>\<open>k in j\<close> with a text \<open>k\<close>.\<close>

definition jget :: "json \<Rightarrow> string \<Rightarrow> json result" where
  "jget j k =
     (case j of
        JObj kvs \<Rightarrow> (case map_of kvs k of None \<Rightarrow> Inl KeyError | Some v \<Rightarrow> Inr v)
      | _ \<Rightarrow> Inl TypeError)"

definition jin :: "string \<Rightarrow> json \<Rightarrow> bool result" where
  "jin k j =
     (case j of
        JObj kvs \<Rightarrow> Inr (map_of kvs k \<noteq> None)
      | JArr xs \<Rightarrow> Inr (list_ex (jeq (JStr k)) xs)
      | JVal v \<Rightarrow> (case v of VStr s \<Rightarrow> Inr (contains k s) | _ \<Rightarrow> Inl TypeError))"

text \<open>\<^verbatim>\<open>for x in j\<close>: the elements of a list, the keys of a dict, the characters of a text.\<close>

definition jiter :: "json \<Rightarrow> json list result" where
  "jiter j =
     (case j of
        JArr xs \<Rightarrow> Inr xs
      | JObj kvs \<Rightarrow> Inr (map (\<lambda>p. JStr (fst p)) kvs)
      | JVal v \<Rightarrow> (case v of VStr s \<Rightarrow> Inr (map (\<lambda>c. JStr [c]) s) | _ \<Rightarrow> Inl TypeError))"

definition jitems :: "json \<Rightarrow> (string \<times> json) list result" where
  "jitems j = (case j of JObj kvs \<Rightarrow> Inr kvs | _ \<Rightarrow> Inl AttributeError)"

text \<open>A text where the code needs one, for example as the argument of a regular expression.\<close>

definition jtext :: "json \<Rightarrow> string result" where
  "jtext j = (case j of JVal v \<Rightarrow> as_str v | _ \<Rightarrow> Inl TypeError)"

definition jint :: "json \<Rightarrow> int result" where
  "jint j = (case j of JVal v \<Rightarrow> vint v | _ \<Rightarrow> Inl TypeError)"

subsection \<open>Numbers\<close>

definition jnum :: "json \<Rightarrow> num result" where
  "jnum j =
     (case j of
        JVal v \<Rightarrow> (case num_of v of None \<Rightarrow> Inl TypeError | Some x \<Rightarrow> Inr x)
      | _ \<Rightarrow> Inl TypeError)"

text \<open>\<^verbatim>\<open>x // y\<close>, \<^verbatim>\<open>x % y\<close> and \<^verbatim>\<open>x < y\<close>; an integer and a float are compared exactly.\<close>

definition nfloordiv :: "num \<Rightarrow> num \<Rightarrow> num result" where
  "nfloordiv x y = (if exact y = 0 then Inl ZeroDivisionError else Inr (narith (div) fl_floordiv x y))"

definition nmod :: "num \<Rightarrow> num \<Rightarrow> num result" where
  "nmod x y = (if exact y = 0 then Inl ZeroDivisionError else Inr (narith (mod) fl_mod x y))"

definition nless :: "num \<Rightarrow> num \<Rightarrow> bool" where
  "nless x y \<longleftrightarrow> exact x < exact y"

text \<open>\<^verbatim>\<open>range(x)\<close> accepts integers only.\<close>

definition nrange :: "num \<Rightarrow> int list result" where
  "nrange x = (case x of NInt n \<Rightarrow> Inr (range1 n) | NFloat _ \<Rightarrow> Inl TypeError)"

definition jof :: "num \<Rightarrow> json" where
  "jof x = JVal (val_of x)"

text \<open>
  \<^verbatim>\<open>int(s, 16)\<close>: white space around, a sign, an optional \<^verbatim>\<open>0x\<close>, digits with single underscores
  between them (also after the prefix).
\<close>

definition hex_value :: "char \<Rightarrow> int option" where
  "hex_value c =
     (let n = (of_char c :: int)
      in if 48 \<le> n \<and> n \<le> 57 then Some (n - 48)
         else if 97 \<le> n \<and> n \<le> 102 then Some (n - 87)
         else if 65 \<le> n \<and> n \<le> 70 then Some (n - 55) else None)"

fun parse_hex :: "bool \<Rightarrow> int \<Rightarrow> string \<Rightarrow> int option" where
  "parse_hex digit acc [] = (if digit then Some acc else None)"
| "parse_hex digit acc (c # s) =
     (if c = CHR ''_'' then (if digit then parse_hex False acc s else None)
      else (case hex_value c of None \<Rightarrow> None | Some d \<Rightarrow> parse_hex True (acc * 16 + d) s))"

definition py_int16 :: "string \<Rightarrow> int result" where
  "py_int16 s =
     (let t = strip s;
          neg = (t \<noteq> [] \<and> hd t = CHR ''-'');
          u = (if t \<noteq> [] \<and> (hd t = CHR ''-'' \<or> hd t = CHR ''+'') then tl t else t);
          prefixed = (take 2 u = ''0x'' \<or> take 2 u = ''0X'');
          v = (if prefixed then drop 2 u else u);
          w = (if prefixed \<and> v \<noteq> [] \<and> hd v = CHR ''_'' then tl v else v)
      in case parse_hex False 0 w of None \<Rightarrow> Inl ValueError | Some n \<Rightarrow> Inr (if neg then - n else n))"

subsection \<open>Lemmas\<close>

lemma jnum_int [simp]: "jnum (JInt n) = Inr (NInt n)"
  by (simp add: jnum_def)

lemma nfloordiv_int [simp]: "n \<noteq> 0 \<Longrightarrow> nfloordiv (NInt m) (NInt n) = Inr (NInt (m div n))"
  by (simp add: nfloordiv_def narith_def)

lemma nmod_int [simp]: "n \<noteq> 0 \<Longrightarrow> nmod (NInt m) (NInt n) = Inr (NInt (m mod n))"
  by (simp add: nmod_def narith_def)

lemma nless_int [simp]: "nless (NInt m) (NInt n) \<longleftrightarrow> m < n"
  by (simp add: nless_def)

lemma nrange_int [simp]: "nrange (NInt n) = Inr (range1 n)"
  by (simp add: nrange_def)

lemma jeq_str [simp]: "jeq (JStr a) (JStr b) \<longleftrightarrow> a = b"
  by (simp add: veq_def)

lemma jeq_int [simp]: "jeq (JInt m) (JInt n) \<longleftrightarrow> m = n"
  by simp

lemma jtext_str [simp]: "jtext (JStr s) = Inr s"
  by (simp add: jtext_def)

lemma jstr_str [simp]: "jstr (JStr s) = s" "jstr (JInt n) = str_int n"
  by (simp_all add: jstr_def)

end
