(* ===== verification/Ndctl.thy ===== *)
theory Ndctl
  imports Avocado Py_Json
begin

section \<open>NVDIMM namespaces (memory/ndctl.py)\<close>

text \<open>
  The test creates, checks and destroys namespaces of persistent memory. The library
  \<^verbatim>\<open>avocado.utils.pmem\<close>, the tools and files are the parameter \<open>nd_env\<close>; what \<^verbatim>\<open>ndctl list\<close> prints is
  a list of JSON values. The keyword arguments of a library call are an association list. The
  attributes \<^verbatim>\<open>part\<close>, \<^verbatim>\<open>disk\<close> and \<^verbatim>\<open>preserve_setup\<close>, which \<^verbatim>\<open>tearDown\<close> looks up with \<^verbatim>\<open>hasattr\<close>, are
  \<open>None\<close> while they are not set (for the first two also when they are Python's \<^verbatim>\<open>None\<close>, which
  \<^verbatim>\<open>tearDown\<close> treats alike).
\<close>

subsection \<open>External operations and state\<close>

type_synonym kwargs = "(string \<times> json) list"

record partn =
  pt_disk :: string
  pt_mount :: string
  pt_opts :: string

record 'w nd_env =
  nd_params :: "string \<Rightarrow> pyval option"
  nd_distro :: "('w, string \<times> pyval) ext"
  nd_check :: "string \<Rightarrow> ('w, bool) ext"
  nd_install :: "string \<Rightarrow> ('w, bool) ext"
  nd_system :: "string \<Rightarrow> ('w, int) ext"
  nd_system_strict :: "string \<Rightarrow> ('w, int) ext"
  nd_run :: "string \<Rightarrow> ('w, unit) ext"
  nd_output :: "string \<Rightarrow> ('w, string) ext"
  nd_exists :: "string \<Rightarrow> ('w, bool) ext"
  nd_makedirs :: "string \<Rightarrow> ('w, unit) ext"
  nd_copy :: "string \<Rightarrow> string \<Rightarrow> ('w, unit) ext"
  nd_chdir :: "string \<Rightarrow> ('w, unit) ext"
  nd_abspath :: "string \<Rightarrow> ('w, string) ext"
  nd_fetch :: "string \<Rightarrow> ('w, string) ext"
  nd_extract :: "string \<Rightarrow> string \<Rightarrow> ('w, unit) ext"
  nd_make :: "string \<Rightarrow> ('w, unit) ext"
  nd_get_repo :: "string \<Rightarrow> string \<Rightarrow> string \<Rightarrow> ('w, unit) ext"
  nd_git_helper :: "string \<Rightarrow> string \<Rightarrow> ('w, unit) ext"
  nd_checkout :: "string \<Rightarrow> ('w, unit) ext"
  nd_read_line :: "string \<Rightarrow> ('w, string) ext"
  nd_get_data :: "string \<Rightarrow> ('w, string) ext"
  nd_page_size :: "('w, int) ext"
  nd_huge_sizes :: "('w, int list) ext"
  nd_mem_total :: "('w, int) ext"
  nd_tmpdir :: string
  pm_init :: "string \<Rightarrow> string \<Rightarrow> ('w, unit) ext"
  pm_check_buses :: "('w, bool) ext"
  pm_list :: "string \<Rightarrow> ('w, json list) ext"
  pm_daxctl_list :: "string \<Rightarrow> ('w, json list) ext"
  pm_val :: "json \<Rightarrow> string \<Rightarrow> json result"
  pm_enable_region :: "kwargs \<Rightarrow> ('w, unit) ext"
  pm_disable_region :: "kwargs \<Rightarrow> ('w, unit) ext"
  pm_create :: "kwargs \<Rightarrow> ('w, unit) ext"
  pm_destroy :: "kwargs \<Rightarrow> ('w, unit) ext"
  pm_enable :: "kwargs \<Rightarrow> ('w, unit) ext"
  pm_disable :: "kwargs \<Rightarrow> ('w, unit) ext"
  pm_write_infoblock :: "kwargs \<Rightarrow> ('w, unit) ext"
  pm_read_infoblock :: "kwargs \<Rightarrow> ('w, json list) ext"
  pm_slot_count :: "json \<Rightarrow> ('w, int) ext"
  pm_is_legacy :: "json \<Rightarrow> ('w, bool) ext"
  pm_ndctl_subcmd :: "string \<Rightarrow> ('w, bool) ext"
  pm_daxctl_subcmd :: "string \<Rightarrow> ('w, bool) ext"
  pm_reconfigure_dax :: "json \<Rightarrow> string \<Rightarrow> ('w, json) ext"
  pm_dax_offline :: "json \<Rightarrow> ('w, unit) ext"
  pm_dax_online :: "json \<Rightarrow> ('w, unit) ext"
  nd_mkfs :: "partn \<Rightarrow> string \<Rightarrow> string \<Rightarrow> ('w, unit) ext"
  nd_mount :: "partn \<Rightarrow> ('w, unit) ext"
  nd_unmount :: "partn \<Rightarrow> ('w, unit) ext"

record 'w nd_st = "'w st" +
  nd_dist :: "string \<times> pyval"
  nd_package :: pyval
  preserve_setup :: "pyval option"
  mode_to_use :: pyval
  size_1g_align :: pyval
  ndctl_bin :: string
  daxctl_bin :: string
  nd_part :: "partn option"
  nd_disk :: "string option"
  has_plib :: bool

type_synonym ('w, 'a) nd = "('w nd_st, 'a) py"

definition nd_param :: "'w nd_env \<Rightarrow> string \<Rightarrow> pyval \<Rightarrow> pyval" where
  "nd_param E k d = (case nd_params E k of None \<Rightarrow> d | Some v \<Rightarrow> v)"

definition nsystem :: "'w nd_env \<Rightarrow> string \<Rightarrow> ('w, int) nd" where
  "nsystem E cmd = call ''system'' [cmd, ''ignore_status''] (nd_system E cmd)"

definition nsystem_strict :: "'w nd_env \<Rightarrow> string \<Rightarrow> ('w, int) nd" where
  "nsystem_strict E cmd = call ''system'' [cmd] (nd_system_strict E cmd)"

definition nrun :: "'w nd_env \<Rightarrow> string \<Rightarrow> ('w, unit) nd" where
  "nrun E cmd = call ''run'' [cmd] (nd_run E cmd)"

definition noutput :: "'w nd_env \<Rightarrow> string \<Rightarrow> ('w, string) nd" where
  "noutput E cmd = call ''system_output'' [cmd] (nd_output E cmd)"

definition nexists :: "'w nd_env \<Rightarrow> string \<Rightarrow> ('w, bool) nd" where
  "nexists E p = call ''exists'' [p] (nd_exists E p)"

definition nread :: "'w nd_env \<Rightarrow> string \<Rightarrow> ('w, string) nd" where
  "nread E p = call ''read_one_line'' [p] (nd_read_line E p)"

subsection \<open>The library\<close>

definition kwtext :: "string \<times> json \<Rightarrow> string" where
  "kwtext p = fst p @ ''='' @ jstr (snd p)"

definition kwcall :: "string \<Rightarrow> (kwargs \<Rightarrow> ('w, 'a) ext) \<Rightarrow> kwargs \<Rightarrow> ('w, 'a) nd" where
  "kwcall name f kws = call name (map kwtext kws) (f kws)"

definition create_ns :: "'w nd_env \<Rightarrow> kwargs \<Rightarrow> ('w, unit) nd" where
  "create_ns E = kwcall ''create_namespace'' (pm_create E)"

definition destroy_ns :: "'w nd_env \<Rightarrow> kwargs \<Rightarrow> ('w, unit) nd" where
  "destroy_ns E = kwcall ''destroy_namespace'' (pm_destroy E)"

definition enable_ns :: "'w nd_env \<Rightarrow> kwargs \<Rightarrow> ('w, unit) nd" where
  "enable_ns E = kwcall ''enable_namespace'' (pm_enable E)"

definition disable_ns :: "'w nd_env \<Rightarrow> kwargs \<Rightarrow> ('w, unit) nd" where
  "disable_ns E = kwcall ''disable_namespace'' (pm_disable E)"

definition enable_rg :: "'w nd_env \<Rightarrow> kwargs \<Rightarrow> ('w, unit) nd" where
  "enable_rg E = kwcall ''enable_region'' (pm_enable_region E)"

definition disable_rg :: "'w nd_env \<Rightarrow> kwargs \<Rightarrow> ('w, unit) nd" where
  "disable_rg E = kwcall ''disable_region'' (pm_disable_region E)"

definition ndlist :: "'w nd_env \<Rightarrow> string \<Rightarrow> ('w, json list) nd" where
  "ndlist E opts = call ''run_ndctl_list'' [opts] (pm_list E opts)"

definition slot_count :: "'w nd_env \<Rightarrow> json \<Rightarrow> ('w, int) nd" where
  "slot_count E region = call ''get_slot_count'' [jstr region] (pm_slot_count E region)"

definition is_legacy :: "'w nd_env \<Rightarrow> json \<Rightarrow> ('w, bool) nd" where
  "is_legacy E region = call ''is_region_legacy'' [jstr region] (pm_is_legacy E region)"

text \<open>\<^verbatim>\<open>run_ndctl_list_val(run_ndctl_list(opts)[0], field)\<close>, and the pair that empties a region.\<close>

definition first_val :: "'w nd_env \<Rightarrow> string \<Rightarrow> string \<Rightarrow> ('w, json) nd" where
  "first_val E opts field =
     bnd (ndlist E opts) (\<lambda>l. bnd (lift (py_nth l 0)) (\<lambda>j. lift (pm_val E j field)))"

definition clear_region :: "'w nd_env \<Rightarrow> json \<Rightarrow> ('w, unit) nd" where
  "clear_region E region = sq (disable_ns E [(''region'', region)]) (destroy_ns E [(''region'', region)])"

definition clear_all :: "'w nd_env \<Rightarrow> ('w, unit) nd" where
  "clear_all E = sq (disable_ns E []) (destroy_ns E [])"

text \<open>The decorator \<^verbatim>\<open>avocado.fail_on(pmem.PMemException)\<close>.\<close>

definition fail_on :: "('w, 'a) nd \<Rightarrow> ('w, 'a) nd" where
  "fail_on m = try_except m (\<lambda>e. case e of PMemException msg \<Rightarrow> fail msg | _ \<Rightarrow> raise e)"

text \<open>\<^verbatim>\<open>except pmem.PMemException\<close> with its \<^verbatim>\<open>else\<close> branch, which is outside the handler.\<close>

definition on_pmem :: "('w, unit) nd \<Rightarrow> ('w, unit) nd \<Rightarrow> ('w, unit) nd \<Rightarrow> ('w, unit) nd" where
  "on_pmem m handler otherwise =
     bnd (try_except (sq m (ret True))
            (\<lambda>e. case e of PMemException _ \<Rightarrow> sq handler (ret False) | _ \<Rightarrow> raise e))
         (\<lambda>ok. whenb ok otherwise)"

subsection \<open>Regions, alignments\<close>

text \<open>
  \<^verbatim>\<open>sorted(regions, key=lambda i: i['size'], reverse=True)\<close> keeps the order of equal keys. With
  a single region nothing is compared.
\<close>

definition by_size :: "json list \<Rightarrow> json list result" where
  "by_size rs =
     rbind (mapM_r (\<lambda>r. jget r ''size'') rs) (\<lambda>sizes.
     if length rs \<le> 1 then Inr rs
     else rbind (mapM_r jnum sizes) (\<lambda>keys.
          Inr (map snd (sort_key (\<lambda>p. - exact (fst p)) (zip keys rs)))))"

definition get_default_region :: "'w nd_env \<Rightarrow> ('w, json) nd" where
  "get_default_region E =
     sq (enable_rg E [])
        (let region = nd_param E ''region'' VNone in
         if truthy region then ret (JVal region)
         else bnd (ndlist E ''-R'') (\<lambda>regions.
              bnd (lift (by_size regions)) (\<lambda>rs.
              bnd (lift (py_nth rs 0)) (\<lambda>r. lift (pm_val E r ''dev'')))))"

definition get_unsupported_alignval :: "int \<Rightarrow> int" where
  "get_unsupported_alignval def_align = (if def_align = 16777216 then 2097152 else 16777216)"

definition py_lcm :: "int \<Rightarrow> int \<Rightarrow> int result" where
  "py_lcm one two =
     (if gcd one two = 0 then Inl ZeroDivisionError else Inr (\<bar>one * two\<bar> div gcd one two))"

definition jmod :: "json \<Rightarrow> int \<Rightarrow> num result" where
  "jmod j n = rbind (jnum j) (\<lambda>x. nmod x (NInt n))"

definition check_align_ns :: "'w nd_env \<Rightarrow> int \<Rightarrow> json \<Rightarrow> ('w, unit) nd" where
  "check_align_ns E map_align ns =
     bnd (lift (pm_val E ns ''dev'')) (\<lambda>ns_name.
     bnd (ndlist E (''-n '' @ jstr ns_name)) (\<lambda>l.
     bnd (lift (py_nth l 0)) (\<lambda>namespace.
     bnd (lift (pm_val E namespace ''align'')) (\<lambda>ndctl_align.
     sq (whenb (\<not> jeq (JInt map_align) ndctl_align)
           (fail ''Mismatch in mapping alignment and ndctl list align''))
    (bnd (lift (pm_val E namespace ''size'')) (\<lambda>ndctl_size.
     sq (emit (Call ''print'' [jstr ndctl_size, str_int map_align]))
    (bnd (lift (jmod ndctl_size map_align)) (\<lambda>r.
     whenb (exact r \<noteq> 0) (fail ''Created Size is not a multiple of map alignment'')))))))))"

definition check_namespace_align :: "'w nd_env \<Rightarrow> json \<Rightarrow> ('w, unit) nd" where
  "check_namespace_align E region =
     bnd (lift (rbind (jtext region) first_digits)) (\<lambda>idx.
     bnd (nread E (''/sys/bus/nd/devices/pfn'' @ idx @ ''.0/align'')) (\<lambda>t.
     bnd (lift (py_int t)) (\<lambda>map_align.
     bnd (ndlist E (''-N -r '' @ jstr region)) (\<lambda>namespaces.
     for_each namespaces (check_align_ns E map_align)))))"

definition get_size_alignval :: "'w nd_env \<Rightarrow> ('w, int) nd" where
  "get_size_alignval E =
     bnd (nexists E ''/sys/bus/nd/devices/region0/align'') (\<lambda>b.
     bnd (if \<not> b then ret 1
          else bnd (nread E ''/sys/bus/nd/devices/region0/align'') (\<lambda>t. lift (py_int16 t))) (\<lambda>size_align.
     bnd (nexists E ''/sys/bus/nd/devices/pfn0.0/align'') (\<lambda>b.
     sq (whenb (\<not> b) (cancel ''Cannot determine the mapping alignment size''))
    (bnd (nread E ''/sys/bus/nd/devices/pfn0.0/align'') (\<lambda>t.
     bnd (lift (py_int t)) (\<lambda>map_align.
     lift (py_lcm size_align map_align)))))))"

subsection \<open>Building the tools\<close>

definition need_pkgs :: "'w nd_env \<Rightarrow> (string \<Rightarrow> string) \<Rightarrow> string list \<Rightarrow> ('w, unit) nd" where
  "need_pkgs E msg pkgs =
     for_each pkgs (\<lambda>pkg.
       bnd (call ''check_installed'' [pkg] (nd_check E pkg)) (\<lambda>b.
       if b then ret ()
       else bnd (call ''install'' [pkg] (nd_install E pkg)) (\<lambda>b'. whenb (\<not> b') (cancel (msg pkg)))))"

definition fio_url :: string where
  "fio_url = ''http://brick.kernel.dk/snaps/fio-2.1.10.tar.gz''"

definition build_fio :: "'w nd_env \<Rightarrow> ('w, string) nd" where
  "build_fio E =
    (let pkg = ''fio'' in
     bnd (nsystem E (''which '' @ pkg)) (\<lambda>st.
     if st = 0 then ret pkg
     else bnd (call ''check_installed'' [pkg] (nd_check E pkg)) (\<lambda>b.
          bnd (if b then ret True else call ''install'' [pkg] (nd_install E pkg)) (\<lambda>b'.
          if b' then ret pkg
          else sq (need_pkgs E (\<lambda>p. ''Fail to install '' @ p @ '' required for this test.'')
                     [''autoconf'', ''libtool'', ''make''])
              (bnd (call ''fetch_asset'' [fio_url] (nd_fetch E fio_url)) (\<lambda>tarball.
               sq (call ''extract'' [tarball, nd_tmpdir E] (nd_extract E tarball (nd_tmpdir E)))
                  (let fio_version = basename (hd (split_str ''.tar.'' tarball));
                       sourcedir = path_join (nd_tmpdir E) fio_version
                   in sq (call ''make'' [sourcedir] (nd_make E sourcedir))
                         (ret (path_join sourcedir ''fio'')))))))))"

definition copyutil :: "'w nd_env \<Rightarrow> string \<Rightarrow> string \<Rightarrow> ('w, unit) nd" where
  "copyutil E file_name iniparser_dir = call ''copy'' [file_name, iniparser_dir] (nd_copy E file_name iniparser_dir)"

definition set_tools :: "'w nd_env \<Rightarrow> string \<Rightarrow> string \<Rightarrow> ('w, unit) nd" where
  "set_tools E n d =
     bnd (call ''abspath'' [n] (nd_abspath E n)) (\<lambda>p.
     sq (modify (\<lambda>s. s\<lparr>ndctl_bin := p\<rparr>))
    (bnd (call ''abspath'' [d] (nd_abspath E d)) (\<lambda>q.
     modify (\<lambda>s. s\<lparr>daxctl_bin := q\<rparr>))))"

definition autotools_build_system :: "'w nd_env \<Rightarrow> ('w, unit) nd" where
  "autotools_build_system E =
    (let iniparser_dir = ''/usr/include/iniparser/'' in
     bnd (gets nd_dist) (\<lambda>dist.
     sq (whenb (fst dist \<noteq> ''rhel'')
           (sq (bnd (nexists E iniparser_dir) (\<lambda>b.
                whenb (\<not> b) (call ''makedirs'' [iniparser_dir] (nd_makedirs E iniparser_dir))))
               (for_each [''/usr/include/iniparser.h'', ''/usr/include/dictionary.h'']
                  (\<lambda>file_name. copyutil E file_name iniparser_dir))))
    (sq (nrun E ''./autogen.sh'')
    (sq (nrun E (''./configure CFLAGS='' @ quoted ''-g -O2'' @ '' --prefix=/usr --disable-docs '' @
                 ''--sysconfdir=/etc --libdir=/usr/lib64''))
    (sq (call ''make'' [''.''] (nd_make E ''.''))
        (set_tools E ''./ndctl/ndctl'' ''./daxctl/daxctl''))))))"

definition meson_build_system :: "'w nd_env \<Rightarrow> string list \<Rightarrow> ('w, unit) nd" where
  "meson_build_system E deps0 =
     bnd (gets nd_dist) (\<lambda>dist.
     let deps = deps0 @ [''xmlto'', ''libuuid-devel'', ''meson'', ''cmake''] @
           (if fst dist = ''SuSE'' then
              [''libgudev-1_0-devel'', ''libiniparser1'', ''pkg-config'', ''ruby2.5-rubygem-asciidoctor-doc'',
               ''systemd-rpm-macros'', ''libiniparser-devel'']
            else if fst dist = ''rhel'' then [''libgudev-devel'', ''rubygem-asciidoctor''] else [])
     in sq (need_pkgs E (\<lambda>pkg. pkg @ '' is needed for the test to be run'') deps)
       (sq (nrun E ''meson setup build'')
       (sq (nrun E ''meson install -C build'')
           (set_tools E ''/usr/bin/ndctl'' ''/usr/bin/daxctl''))))"

subsection \<open>The shutdown state\<close>

text \<open>The output of a command is bytes; of its text the code takes the fourth of the parts between double quotes.\<close>

definition quoted_field :: "string \<Rightarrow> string result" where
  "quoted_field out = py_nth (split_on (CHR 0x22) (repr_bytes out)) 3"

definition get_shutdown_state :: "'w nd_env \<Rightarrow> json \<Rightarrow> ('w, string) nd" where
  "get_shutdown_state E region =
     bnd (noutput E (''ndctl list -DH -r '' @ jstr region @ '' | grep shutdown_state'')) (\<lambda>out.
     lift (quoted_field out))"

subsection \<open>setUp\<close>

definition ndctl_url :: string where
  "ndctl_url = ''https://github.com/pmem/ndctl.git''"

definition vless_int :: "pyval \<Rightarrow> int \<Rightarrow> bool result" where
  "vless_int v n = (case num_of v of None \<Rightarrow> Inl TypeError | Some x \<Rightarrow> Inr (exact x < of_int n))"

text \<open>The packages the upstream build needs, which depend on the distribution.\<close>

definition upstream_deps :: "string \<times> pyval \<Rightarrow> ('w, string list) nd" where
  "upstream_deps distro =
    (let deps = [''gcc'', ''make'', ''automake'', ''autoconf''] in
     if fst distro = ''SuSE'' then
       bnd (lift (vless_int (snd distro) 3)) (\<lambda>old.
       if old then cancel ''Cancelling the test due to non-availability of dependent packages.''
       else ret (deps @ [''libtool'', ''libkmod-devel'', ''libudev-devel'', ''systemd-devel'', ''libuuid-devel-static'',
              ''libjson-c-devel'', ''keyutils-devel'', ''kmod-bash-completion'', ''bash-completion-devel'']))
     else if fst distro = ''rhel'' then
       ret (deps @ [''libtool'', ''bash-completion'', ''parted'', ''kmod-devel'', ''libuuid-devel'', ''json-c-devel'',
              ''systemd-devel'', ''keyutils-libs-devel'', ''jq'', ''iniparser'', ''iniparser-devel''])
     else ret deps)"

definition build_upstream :: "'w nd_env \<Rightarrow> pyval \<Rightarrow> ('w, unit) nd" where
  "build_upstream E version =
     bnd (gets nd_dist) (\<lambda>dist.
     bnd (upstream_deps dist) (\<lambda>deps.
     sq (need_pkgs E (\<lambda>pkg. pkg @ '' is needed for the test to be run'') deps)
        (if truthy version then
           bnd (lift (as_str version)) (\<lambda>v.
           let tag = ''v'' @ v in
           sq (call ''git.get_repo'' [ndctl_url, ''main'', nd_tmpdir E] (nd_get_repo E ndctl_url ''main'' (nd_tmpdir E)))
          (sq (call ''chdir'' [nd_tmpdir E] (nd_chdir E (nd_tmpdir E)))
          (sq (call ''GitRepoHelper'' [ndctl_url, nd_tmpdir E] (nd_git_helper E ndctl_url (nd_tmpdir E)))
          (sq (call ''checkout'' [tag] (nd_checkout E tag))
          (bnd (lift (py_float v)) (\<lambda>x.
           if x < 73 then autotools_build_system E else meson_build_system E deps))))))
         else
           (let git_branch = vstr (nd_param E ''git_branch'' (VStr ''pending'')) in
            sq (call ''git.get_repo'' [ndctl_url, git_branch, nd_tmpdir E] (nd_get_repo E ndctl_url git_branch (nd_tmpdir E)))
           (sq (call ''chdir'' [nd_tmpdir E] (nd_chdir E (nd_tmpdir E)))
               (meson_build_system E deps))))))"

definition nd_setUp :: "'w nd_env \<Rightarrow> ('w, unit) nd" where
  "nd_setUp E =
     bnd (call ''distro.detect'' [] (nd_distro E)) (\<lambda>dist.
     let package = nd_param E ''package'' (VStr ''upstream'');
         location = nd_param E ''location'' (VStr ''.'');
         version = nd_param E ''ndctl_project_version'' (VStr [])
     in sq (modify (\<lambda>s. s\<lparr>nd_dist := dist, nd_package := package,
              preserve_setup := Some (nd_param E ''preserve_change'' (VBool False)),
              mode_to_use := nd_param E ''modes'' (VStr ''fsdax''),
              size_1g_align := nd_param E ''size_1g_align'' (VStr ''2g'')\<rparr>))
       (sq (whenb (fst dist \<noteq> ''SuSE'' \<and> fst dist \<noteq> ''rhel'') (cancel (''Unsupported OS '' @ fst dist)))
       (sq (if veq package (VStr ''upstream'') then build_upstream E version
            else if veq package (VStr ''local'') then
              bnd (lift (as_str location)) (\<lambda>loc. set_tools E (path_join loc ''ndctl/ndctl'') (path_join loc ''daxctl/daxctl''))
            else
              sq (need_pkgs E (\<lambda>pkg. pkg @ '' is needed for the test to be run'')
                    (if fst dist = ''rhel'' then [''ndctl'', ''daxctl''] else [''ndctl'']))
                 (modify (\<lambda>s. s\<lparr>ndctl_bin := ''ndctl'', daxctl_bin := ''daxctl''\<rparr>)))
       (sq (modify (\<lambda>s. s\<lparr>nd_part := None, nd_disk := None\<rparr>))
       (bnd (gets ndctl_bin) (\<lambda>n. bnd (gets daxctl_bin) (\<lambda>d.
        sq (call ''PMem'' [n, d] (pm_init E n d))
       (sq (modify (\<lambda>s. s\<lparr>has_plib := True\<rparr>))
       (bnd (call ''check_buses'' [] (pm_check_buses E)) (\<lambda>b.
        whenb (\<not> b) (cancel ''Test needs at least one region'')))))))))))"

definition nd_modes :: "string list" where
  "nd_modes = [''raw'', ''sector'', ''fsdax'', ''devdax'']"

subsection \<open>Listing tests\<close>

definition vals_text :: "json list \<Rightarrow> string" where
  "vals_text l = jstr (JArr l)"

definition test_bus_ids :: "'w nd_env \<Rightarrow> ('w, unit) nd" where
  "test_bus_ids E = fail_on
     (bnd (ndlist E ''-B'') (\<lambda>vals.
      sq (whenb (vals = []) (fail ''Failed to fetch bus IDs''))
         (log Info (''Available Bus provider IDs: '' @ vals_text vals))))"

definition test_dimms :: "'w nd_env \<Rightarrow> ('w, unit) nd" where
  "test_dimms E = fail_on
     (bnd (ndlist E ''-D'') (\<lambda>vals.
      sq (whenb (vals = []) (fail ''Failed to fetch DIMMs''))
         (log Info (''Available DIMMs: '' @ vals_text vals))))"

definition bad_state :: "json \<Rightarrow> string \<Rightarrow> string \<Rightarrow> string \<Rightarrow> ('w, unit) nd" where
  "bad_state health key good msg =
     bnd (lift (jin key health)) (\<lambda>b.
     whenb b (bnd (lift (jget health key)) (\<lambda>v. whenb (\<not> jeq v (JStr good)) (log Warning msg))))"

definition dimm_health :: "'w nd_env \<Rightarrow> json \<Rightarrow> ('w, unit) nd" where
  "dimm_health E dimm =
     bnd (lift (pm_val E dimm ''health'')) (\<lambda>health.
     bnd (lift (pm_val E dimm ''dev'')) (\<lambda>nmem.
     bnd (lift (rbind (jtext nmem) first_digits)) (\<lambda>n.
     bnd (nread E (''/sys/bus/nd/devices/region'' @ n @ ''/devtype'')) (\<lambda>dev_type.
     sq (whenb (\<not> jtruthy health) (cancel ''kernel/ndctl does not support health reporting''))
    (sq (whenb (dev_type = ''nd_pmem'')
           (bnd (lift (jin ''life_used_percentage'' health)) (\<lambda>b.
            sq (whenb (\<not> b) (fail ''life_used_percentage missing for HMS''))
               (bnd (lift (jget health ''life_used_percentage'')) (\<lambda>v.
                log Info (jstr nmem @ '' life is '' @ jstr v))))))
    (sq (bad_state health ''health_state'' ''ok'' (jstr nmem @ '' health is bad''))
    (sq (bad_state health ''shutdown_state'' ''clean'' (jstr nmem @ '' shutdown state is dirty''))
        (log Info (''DIMM '' @ jstr nmem @ '' Health info: '' @ jstr health)))))))))"

definition test_dimm_health :: "'w nd_env \<Rightarrow> ('w, unit) nd" where
  "test_dimm_health E = fail_on
     (bnd (ndlist E ''-DH'') (\<lambda>dimms.
      sq (whenb (dimms = []) (fail ''Failed to fetch DIMMs'')) (for_each dimms (dimm_health E))))"

definition test_regions :: "'w nd_env \<Rightarrow> ('w, unit) nd" where
  "test_regions E = fail_on
     (sq (disable_rg E [])
     (bnd (ndlist E ''-R'') (\<lambda>old.
      sq (enable_rg E [])
     (bnd (ndlist E ''-R'') (\<lambda>new.
      sq (whenb (length new \<le> length old) (fail ''Failed to fetch regions''))
         (log Info (''Available regions: '' @ vals_text new)))))))"

subsection \<open>Namespaces\<close>

definition test_namespace :: "'w nd_env \<Rightarrow> ('w, unit) nd" where
  "test_namespace E = fail_on
     (sq (enable_rg E [])
     (bnd (ndlist E ''-R'') (\<lambda>regions.
      sq (for_each regions (\<lambda>val.
            bnd (lift (pm_val E val ''dev'')) (\<lambda>region.
            sq (clear_region E region)
           (sq (create_ns E [(''region'', region)])
               (check_namespace_align E region)))))
     (bnd (ndlist E ''-N'') (\<lambda>namespaces.
      log Info (''Created namespace '' @ vals_text namespaces))))))"

definition mb64 :: int where "mb64 = 64 * 1024 * 1024"

definition test_namespace_unaligned :: "'w nd_env \<Rightarrow> ('w, unit) nd" where
  "test_namespace_unaligned E = fail_on
     (sq (enable_rg E [])
     (bnd (call ''get_page_size'' [] (nd_page_size E)) (\<lambda>align_size.
      bnd (ndlist E ''-R'') (\<lambda>regions.
      for_each regions (\<lambda>val.
        bnd (lift (pm_val E val ''dev'')) (\<lambda>region.
        sq (clear_region E region)
           (on_pmem
              (create_ns E [(''region'', region), (''size'', JInt (mb64 + align_size)), (''align'', JInt align_size)])
              (log Info ''Unaligned namespace creation failedas expected'')
              (fail ''Unaligned namespace creation must have failed! ''))))))))"

definition jless_int :: "json \<Rightarrow> int \<Rightarrow> bool result" where
  "jless_int j n = rbind (jnum j) (\<lambda>x. Inr (nless x (NInt n)))"

definition test_disable_enable_ns :: "'w nd_env \<Rightarrow> ('w, unit) nd" where
  "test_disable_enable_ns E = fail_on
     (bnd (get_default_region E) (\<lambda>region.
      bnd (is_legacy E region) (\<lambda>legacy.
      sq (whenb (\<not> legacy)
            (bnd (first_val E (''-r '' @ jstr region) ''size'') (\<lambda>size.
             bnd (lift (jless_int size (3 * mb64))) (\<lambda>small.
             sq (whenb small (cancel ''Not enough memory to create namespaces''))
                (for_each (range1 3) (\<lambda>_. create_ns E [(''region'', region), (''size'', JStr ''64M'')]))))))
     (bnd (ndlist E ''-N'') (\<lambda>namespaces.
      bnd (lift (mapM_r (\<lambda>ns. pm_val E ns ''dev'') namespaces)) (\<lambda>ns_names.
      for_each (ns_names @ [JStr ''all'']) (\<lambda>namespace.
        sq (disable_ns E [(''namespace'', namespace)]) (enable_ns E [(''namespace'', namespace)]))))))))"

definition mode_step :: "'w nd_env \<Rightarrow> json \<Rightarrow> string \<Rightarrow> string list \<Rightarrow> ('w, string list) nd" where
  "mode_step E region mode failed_modes =
     sq (create_ns E [(''region'', region), (''mode'', JStr mode)])
    (bnd (ndlist E (''-r '' @ jstr region @ '' -N'')) (\<lambda>l.
     bnd (lift (py_nth l 0)) (\<lambda>ns_json.
     bnd (lift (pm_val E ns_json ''mode'')) (\<lambda>created_mode.
     bnd (if \<not> jeq (JStr mode) created_mode then
            sq (log Error (''Expected mode '' @ mode @ '', Got '' @ jstr created_mode)) (ret (failed_modes @ [mode]))
          else
            sq (log Info (''Namespace with '' @ mode @ '' mode: '' @ jstr ns_json)) (ret failed_modes)) (\<lambda>failed.
     bnd (lift (pm_val E ns_json ''dev'')) (\<lambda>ns_name.
     sq (disable_ns E [(''namespace'', ns_name), (''region'', region)])
    (sq (destroy_ns E [(''namespace'', ns_name), (''region'', region)])
        (ret failed))))))))"

definition test_namespace_modes :: "'w nd_env \<Rightarrow> ('w, unit) nd" where
  "test_namespace_modes E = fail_on
     (bnd (get_default_region E) (\<lambda>region.
      sq (log Info (''Using '' @ jstr region @ '' for different namespace modes''))
     (sq (clear_region E region)
     (bnd (for_acc nd_modes (mode_step E region) []) (\<lambda>failed_modes.
      whenb (failed_modes \<noteq> [])
        (fail (''Namespace for '' @ brackets (map repr_str failed_modes) @ '' mode failed!'')))))))"

definition test_namespace_devmap :: "'w nd_env \<Rightarrow> ('w, unit) nd" where
  "test_namespace_devmap E = fail_on
     (bnd (get_default_region E) (\<lambda>region.
      let m_map = JVal (nd_param E ''map'' (VStr ''mem'')) in
      sq (log Info (''Using '' @ jstr region @ '' for checking device mapping''))
     (sq (clear_region E region)
     (bnd (gets mode_to_use) (\<lambda>mode.
      sq (create_ns E [(''region'', region), (''mode'', JVal mode), (''memmap'', m_map)])
     (sq (log Info ''Validating device mapping'')
     (bnd (first_val E (''-r '' @ jstr region @ '' -N'') ''map'') (\<lambda>map_val.
      if \<not> jeq map_val m_map then fail (''Expected map:'' @ jstr m_map @ '', Got '' @ jstr map_val)
      else log Info ''Metadata mapped as expected''))))))))"

text \<open>
  The size and number of namespaces of a region. \<open>cancel_call\<close> is a call of \<^verbatim>\<open>self.cancel\<close>, which takes at most
  one argument, the message; the call for a size that is not aligned passes the arguments of the message too.
\<close>

definition cancel_call :: "pyval list \<Rightarrow> ('s, 'a) py" where
  "cancel_call args = (case args of [] \<Rightarrow> cancel ''None'' | [msg] \<Rightarrow> cancel (vstr msg) | _ \<Rightarrow> raise TypeError)"

definition misaligned :: "pyval \<Rightarrow> int \<Rightarrow> bool result" where
  "misaligned v size_align =
     (if truthy v then rbind (jmod (JVal v) size_align) (\<lambda>r. Inr (exact r \<noteq> 0)) else Inr False)"

definition split_region :: "pyval \<Rightarrow> json \<Rightarrow> int \<Rightarrow> int \<Rightarrow> (num \<times> num) result" where
  "split_region v region_size slots size_align =
     rbind (jnum region_size) (\<lambda>rsize.
     if \<not> truthy v then
       rbind (nfloordiv rsize (NInt slots)) (\<lambda>n.
       rbind (nfloordiv n (NInt size_align)) (\<lambda>q. Inr (nmul q (NInt size_align), NInt slots)))
     else
       rbind (jnum (JVal v)) (\<lambda>n. rbind (nfloordiv rsize n) (\<lambda>c. Inr (n, c))))"

definition nd_number :: "num \<Rightarrow> string" where
  "nd_number x = vstr (val_of x)"

definition create_slots :: "'w nd_env \<Rightarrow> json \<Rightarrow> num \<Rightarrow> num \<Rightarrow> ('w, unit) nd" where
  "create_slots E region nsize n =
     bnd (gets mode_to_use) (\<lambda>mode.
     sq (log Info (''Creating '' @ nd_number n @ '' namespaces''))
    (bnd (lift (nrange n)) (\<lambda>is.
     for_each is (\<lambda>count.
       sq (create_ns E [(''region'', region), (''mode'', JVal mode), (''size'', jof nsize)])
          (log Info (''Namespace '' @ str_int (count + 1) @ '' created''))))))"

definition multiple_namespaces_region :: "'w nd_env \<Rightarrow> json \<Rightarrow> ('w, unit) nd" where
  "multiple_namespaces_region E region =
    (let v = nd_param E ''size'' VNone in
     bnd (get_size_alignval E) (\<lambda>size_align.
     bnd (slot_count E region) (\<lambda>slots.
     sq (log Info (''Using '' @ jstr region @ '' for multiple namespace regions''))
    (sq (clear_region E region)
    (bnd (lift (misaligned v size_align)) (\<lambda>bad.
     sq (whenb bad (cancel_call [VStr (''Size value not %d aligned %d '' @ [CHR 0x0A]), VInt size_align, v]))
    (bnd (first_val E (''-r '' @ jstr region) ''size'') (\<lambda>region_size.
     bnd (lift (split_region v region_size slots size_align)) (\<lambda>(namespace_size, n).
     if \<not> nless (NInt size_align) namespace_size then
       log Warning ''Ns size equal to pagesize, hence skipping region''
     else create_slots E region namespace_size n)))))))))"

definition test_multiple_namespaces_region :: "'w nd_env \<Rightarrow> ('w, unit) nd" where
  "test_multiple_namespaces_region E = fail_on
     (bnd (get_default_region E) (\<lambda>region.
      bnd (is_legacy E region) (\<lambda>legacy.
      sq (whenb legacy (cancel ''Legacy config skipping the test''))
     (sq (multiple_namespaces_region E region)
         (check_namespace_align E region)))))"

definition test_multiple_ns_multiple_region :: "'w nd_env \<Rightarrow> ('w, unit) nd" where
  "test_multiple_ns_multiple_region E = fail_on
     (sq (enable_rg E [])
     (bnd (ndlist E ''-R'') (\<lambda>l.
      sq (whenb (length l \<le> 1) (cancel ''Test not applicable without multiple regions''))
     (bnd (ndlist E ''-R'') (\<lambda>regions.
      sq (clear_all E)
         (for_each regions (\<lambda>val.
            bnd (lift (pm_val E val ''dev'')) (\<lambda>region.
            bnd (is_legacy E region) (\<lambda>legacy.
            sq (whenb legacy (cancel ''Legacy config skipping the test''))
           (sq (multiple_namespaces_region E region)
               (check_namespace_align E region)))))))))))"

definition test_multiple_ns_modes_region :: "'w nd_env \<Rightarrow> ('w, unit) nd" where
  "test_multiple_ns_modes_region E = fail_on
     (bnd (get_default_region E) (\<lambda>region.
      bnd (is_legacy E region) (\<lambda>legacy.
      sq (whenb legacy (cancel ''Legacy config skipping the test''))
     (sq (log Info (''Using '' @ jstr region @ '' for multiple namespace regions''))
     (sq (clear_region E region)
     (bnd (first_val E (''-r '' @ jstr region) ''size'') (\<lambda>size.
      bnd (lift (jless_int size (int (length nd_modes) * mb64))) (\<lambda>small.
      sq (whenb small (cancel ''Not enough memory to create namespaces''))
         (for_each nd_modes (\<lambda>mode.
            sq (create_ns E [(''region'', region), (''mode'', JStr mode), (''size'', JStr ''64M'')])
               (log Info (''Namespace of type '' @ mode @ '' created''))))))))))))"

definition test_nslot_namespace :: "'w nd_env \<Rightarrow> ('w, unit) nd" where
  "test_nslot_namespace E = fail_on
     (bnd (get_default_region E) (\<lambda>region.
      bnd (is_legacy E region) (\<lambda>legacy.
      sq (whenb legacy (cancel ''Legacy config skipping the test''))
     (bnd (get_size_alignval E) (\<lambda>size_align.
      bnd (slot_count E region) (\<lambda>slots.
      sq (log Info (''Using '' @ jstr region @ '' for max namespace creation''))
     (sq (clear_all E)
     (bnd (first_val E (''-r '' @ jstr region) ''size'') (\<lambda>region_size.
      bnd (lift (split_region VNone region_size slots size_align)) (\<lambda>(namespace_size, n).
      sq (log Info (''Creating '' @ nd_number n @ '' namespace''))
     (bnd (lift (nrange n)) (\<lambda>is.
      sq (for_each is (\<lambda>count.
            sq (create_ns E [(''region'', region), (''mode'', JStr ''fsdax''), (''size'', jof namespace_size)])
               (log Info (''Namespace '' @ str_int count @ '' created''))))
         (check_namespace_align E region)))))))))))))"

text \<open>The keys of the new namespace that the old one had too, apart from the two that may change.\<close>

definition changed_vals :: "(string \<times> json) list \<Rightarrow> (string \<times> json) list \<Rightarrow> (string \<times> json) list" where
  "changed_vals old new =
     filter (\<lambda>(k, v). k \<notin> {''uuid'', ''dev''} \<and>
       (case map_of old k of None \<Rightarrow> False | Some w \<Rightarrow> \<not> jeq w v)) new"

definition added_field :: "(string \<times> json) list \<Rightarrow> string \<times> json \<Rightarrow> ('w, unit) nd" where
  "added_field old p =
     whenb (fst p \<in> {''uuid'', ''dev''} \<or> map_of old (fst p) = None)
       (log Info (''Newly added filed '' @ fst p @ '':'' @ jstr (snd p)))"

definition test_namespace_reconfigure :: "'w nd_env \<Rightarrow> ('w, unit) nd" where
  "test_namespace_reconfigure E = fail_on
     (bnd (get_default_region E) (\<lambda>region.
      sq (log Info (''Using '' @ jstr region @ '' for reconfiguring namespace''))
     (sq (clear_all E)
     (sq (create_ns E [(''region'', region), (''mode'', JStr ''fsdax''), (''align'', JStr ''64k'')])
     (bnd (ndlist E []) (\<lambda>l.
      bnd (lift (py_nth l 0)) (\<lambda>old_ns.
      bnd (lift (pm_val E old_ns ''dev'')) (\<lambda>old_ns_dev.
      sq (log Info (''Re-configuring namespace '' @ jstr old_ns_dev))
     (sq (create_ns E [(''region'', region), (''mode'', JStr ''fsdax''), (''name'', JStr ''test_ns''),
            (''reconfig'', old_ns_dev), (''force'', JVal (VBool True))])
     (bnd (ndlist E []) (\<lambda>l.
      bnd (lift (py_nth l 0)) (\<lambda>new_ns.
      sq (log Info ''Checking namespace changes'')
     (bnd (lift (jitems new_ns)) (\<lambda>new.
      bnd (if new = [] then ret [] else lift (jitems old_ns)) (\<lambda>old.
      sq (for_each new (added_field old))
         (let failed_vals = changed_vals old new
          in whenb (failed_vals \<noteq> [])
               (fail (''New namespace unexpected change(s): '' @
                  jstr (JArr (map (\<lambda>p. JObj [p]) failed_vals))))))))))))))))))))"

definition test_check_namespace :: "'w nd_env \<Rightarrow> ('w, unit) nd" where
  "test_check_namespace E = fail_on
     (bnd (get_default_region E) (\<lambda>region.
      sq (clear_all E)
     (sq (log Info (''Creating sector namespace using '' @ jstr region))
     (sq (create_ns E [(''region'', region), (''mode'', JStr ''sector'')])
     (bnd (first_val E [] ''dev'') (\<lambda>ns_sec_dev.
      sq (disable_ns E [(''namespace'', ns_sec_dev)])
     (sq (log Info ''Checking BTT metadata'')
     (bnd (gets ndctl_bin) (\<lambda>n.
      bnd (nsystem E (n @ '' check-namespace '' @ jstr ns_sec_dev)) (\<lambda>st.
      whenb (st \<noteq> 0) (fail ''Failed to check namespace metadata'')))))))))))"

subsection \<open>NUMA, labels, capabilities\<close>

definition numa_region :: "'w nd_env \<Rightarrow> json \<Rightarrow> ('w, unit) nd" where
  "numa_region E val =
     bnd (lift (pm_val E val ''dev'')) (\<lambda>reg.
     bnd (nread E (''/sys/bus/nd/devices/'' @ jstr reg @ ''/numa_node'')) (\<lambda>numa.
     bnd (ndlist E (''-r '' @ jstr reg @ '' -R -U '' @ numa)) (\<lambda>l.
     whenb (length l \<noteq> 1) (fail ''Region mismatch between ndctl and sys interface''))))"

definition test_check_numa :: "'w nd_env \<Rightarrow> ('w, unit) nd" where
  "test_check_numa E = fail_on
     (sq (enable_rg E [])
     (bnd (ndlist E ''-R'') (\<lambda>regions.
      bnd (nexists E ''/sys/bus/nd/devices/region0/numa_node'') (\<lambda>b.
      sq (whenb (\<not> b) (fail ''Numa node entries not found!''))
         (for_each regions (numa_region E))))))"

definition numa_namespace :: "'w nd_env \<Rightarrow> json \<Rightarrow> ('w, unit) nd" where
  "numa_namespace E val =
     bnd (lift (pm_val E val ''dev'')) (\<lambda>ns_name.
     bnd (nread E (''/sys/bus/nd/devices/'' @ jstr ns_name @ ''/numa_node'')) (\<lambda>numa.
     bnd (ndlist E (''-N -n '' @ jstr ns_name @ '' -U '' @ numa)) (\<lambda>l.
     whenb (length l \<noteq> 1) (fail ''Numa mismatch between ndctl and sys interface''))))"

definition numa_all_namespaces :: "'w nd_env \<Rightarrow> json \<Rightarrow> ('w, unit) nd" where
  "numa_all_namespaces E region =
     bnd (ndlist E (''-N -r '' @ jstr region)) (\<lambda>namespaces.
     bnd (nexists E ''/sys/bus/nd/devices/namespace0.0/numa_node'') (\<lambda>b.
     sq (whenb (\<not> b) (fail ''Numa node entries not found!''))
        (for_each namespaces (numa_namespace E))))"

text \<open>One region; the early \<^verbatim>\<open>continue\<close> skips the check of its namespaces.\<close>

definition ns_numa_region :: "'w nd_env \<Rightarrow> json \<Rightarrow> ('w, unit) nd" where
  "ns_numa_region E dev =
     bnd (lift (pm_val E dev ''dev'')) (\<lambda>region.
     bnd (is_legacy E region) (\<lambda>legacy.
     if legacy then numa_all_namespaces E region
     else
       sq (clear_region E region)
      (bnd (lift (pm_val E dev ''size'')) (\<lambda>size.
       bnd (lift (jless_int size (3 * mb64))) (\<lambda>small.
       if small then log Warning ''Skipping region due to insufficient memory''
       else sq (for_each (range1 3) (\<lambda>_.
                  create_ns E [(''region'', region), (''mode'', JStr ''fsdax''), (''size'', JStr ''64M'')]))
               (numa_all_namespaces E region))))))"

definition test_check_ns_numa :: "'w nd_env \<Rightarrow> ('w, unit) nd" where
  "test_check_ns_numa E = fail_on
     (sq (enable_rg E [])
     (bnd (ndlist E ''-R'') (\<lambda>regions. for_each regions (ns_numa_region E))))"

text \<open>
  The status of these three commands is tested, but without \<^verbatim>\<open>ignore_status\<close> the library raises before
  it returns one that is not 0.
\<close>

definition label_cmd :: "'w nd_env \<Rightarrow> (string \<Rightarrow> string) \<Rightarrow> string \<Rightarrow> ('w, unit) nd" where
  "label_cmd E cmd msg =
     bnd (gets ndctl_bin) (\<lambda>n. bnd (nsystem_strict E (cmd n)) (\<lambda>st. whenb (st \<noteq> 0) (fail msg)))"

definition test_label_read_write :: "'w nd_env \<Rightarrow> string \<Rightarrow> ('w, unit) nd" where
  "test_label_read_write E align = fail_on
     (bnd (get_default_region E) (\<lambda>region.
      bnd (is_legacy E region) (\<lambda>legacy.
      sq (whenb legacy (cancel ''Legacy config skipping the test''))
     (bnd (lift (rbind (jtext region) first_digits)) (\<lambda>n.
      let nmem = ''nmem'' @ n; check = (\<lambda>b. b @ '' check-labels '' @ nmem) in
      sq (log Info (''Using '' @ jstr region @ '' for testing labels''))
     (sq (disable_rg E [(''name'', region)])
     (sq (log Info ''Filling zeros to start test'')
     (sq (label_cmd E (\<lambda>b. b @ '' zero-labels '' @ nmem) ''Label zero-fill failed'')
     (sq (enable_rg E [(''name'', region)])
     (sq (create_ns E [(''region'', region), (''align'', JStr align)])
     (sq (log Info ''Storing labels with a namespace'')
     (bnd (gets ndctl_bin) (\<lambda>b.
      bnd (noutput E (check b)) (\<lambda>old_op.
      sq (label_cmd E (\<lambda>b. b @ '' read-labels '' @ nmem @ '' -o output'') ''Label read failed'')
     (sq (log Info ''Refilling zeroes before a restore'')
     (sq (clear_region E region)
     (sq (disable_rg E [(''name'', region)])
     (sq (label_cmd E (\<lambda>b. b @ '' zero-labels '' @ nmem) ''Label zero-fill failed after read'')
     (sq (log Info ''Re-storing labels with a namespace'')
     (sq (label_cmd E (\<lambda>b. b @ '' write-labels '' @ nmem @ '' -i output'') ''Label write failed'')
     (sq (enable_rg E [(''name'', region)])
     (sq (log Info ''Checking mismatch after restore'')
     (bnd (noutput E (check b)) (\<lambda>new_op.
      sq (whenb (new_op \<noteq> old_op) (fail ''Label read and write mismatch''))
     (sq (log Info ''Checking created namespace after restore'')
     (bnd (ndlist E (''-N -r '' @ jstr region)) (\<lambda>l.
      whenb (length l \<noteq> 1) (fail ''Created namespace not found after label restore''))))))))))))))))))))))))))))"

definition test_daxctl_list :: "'w nd_env \<Rightarrow> ('w, unit) nd" where
  "test_daxctl_list E = fail_on
     (bnd (get_default_region E) (\<lambda>region.
      sq (clear_region E region)
     (sq (create_ns E [(''region'', region), (''mode'', JStr ''devdax'')])
     (bnd (lift (rbind (jtext region) first_digits)) (\<lambda>index.
      bnd (call ''run_daxctl_list'' [''-r '' @ index] (pm_daxctl_list E (''-r '' @ index))) (\<lambda>vals.
      sq (whenb (length vals \<noteq> 1) (fail ''Failed daxctl list''))
         (log Info (''Created dax device '' @ vals_text vals))))))))"

text \<open>The sizes of the three modes a region offers; a later entry of a mode replaces an earlier one.\<close>

definition cap_step :: "'w nd_env \<Rightarrow> json \<Rightarrow> json \<times> json \<times> json \<Rightarrow> ('w, json \<times> json \<times> json) nd" where
  "cap_step E typ acc =
     (case acc of (sec_sizes, fsdax_align, devdax_align) \<Rightarrow>
        bnd (lift (pm_val E typ ''mode'')) (\<lambda>mode.
        if jeq mode (JStr ''fsdax'') then
          bnd (lift (pm_val E typ ''alignments'')) (\<lambda>a. ret (sec_sizes, a, devdax_align))
        else if jeq mode (JStr ''devdax'') then
          bnd (lift (pm_val E typ ''alignments'')) (\<lambda>a. ret (sec_sizes, fsdax_align, a))
        else if jeq mode (JStr ''sector'') then
          bnd (lift (pm_val E typ ''sector_sizes'')) (\<lambda>a. ret (a, fsdax_align, devdax_align))
        else ret acc))"

definition try_sizes :: "'w nd_env \<Rightarrow> json \<Rightarrow> string \<Rightarrow> string \<Rightarrow> json \<Rightarrow> ('w, unit) nd" where
  "try_sizes E reg_name mode key sizes =
     bnd (lift (jiter sizes)) (\<lambda>l. for_each l (\<lambda>size.
       sq (create_ns E [(''region'', reg_name), (''mode'', JStr mode), (key, size)])
          (destroy_ns E [(''region'', reg_name), (''force'', JVal (VBool True))])))"

definition region_capabilities :: "'w nd_env \<Rightarrow> json \<Rightarrow> ('w, unit) nd" where
  "region_capabilities E region =
     bnd (lift (pm_val E region ''capabilities'')) (\<lambda>cap.
     bnd (lift (jiter cap)) (\<lambda>types.
     bnd (for_acc types (cap_step E) (JArr [], JArr [], JArr [])) (\<lambda>(sec_sizes, fsdax_align, devdax_align).
     bnd (lift (pm_val E region ''dev'')) (\<lambda>reg_name.
     sq (log Info ''Creating namespaces with possible sizes'')
    (sq (try_sizes E reg_name ''sector'' ''sector_size'' sec_sizes)
    (sq (try_sizes E reg_name ''fsdax'' ''align'' fsdax_align)
        (try_sizes E reg_name ''devdax'' ''align'' devdax_align)))))))"

definition test_region_capabilities :: "'w nd_env \<Rightarrow> ('w, unit) nd" where
  "test_region_capabilities E = fail_on
     (sq (enable_rg E [])
     (sq (clear_all E)
     (bnd (ndlist E ''-R -C'') (\<lambda>regions. for_each regions (region_capabilities E)))))"

definition mem_total :: "'w nd_env \<Rightarrow> ('w, int) nd" where
  "mem_total E = call ''meminfo.MemTotal'' [] (nd_mem_total E)"

definition dax_reconfigure :: "'w nd_env \<Rightarrow> json \<Rightarrow> string \<Rightarrow> ('w, json) nd" where
  "dax_reconfigure E daxdev mode = call ''reconfigure_dax_device'' [jstr daxdev, mode] (pm_reconfigure_dax E daxdev mode)"

definition dax_offline :: "'w nd_env \<Rightarrow> json \<Rightarrow> ('w, unit) nd" where
  "dax_offline E daxdev = call ''set_dax_memory_offline'' [jstr daxdev] (pm_dax_offline E daxdev)"

definition dax_online :: "'w nd_env \<Rightarrow> json \<Rightarrow> ('w, unit) nd" where
  "dax_online E daxdev = call ''set_dax_memory_online'' [jstr daxdev] (pm_dax_online E daxdev)"

definition test_daxctl_memhotplug_unplug :: "'w nd_env \<Rightarrow> string \<Rightarrow> ('w, unit) nd" where
  "test_daxctl_memhotplug_unplug E align = fail_on
     (sq (for_each [''reconfigure-device'', ''offline-memory'', ''online-memory''] (\<lambda>cmd.
            bnd (call ''check_daxctl_subcmd'' [cmd] (pm_daxctl_subcmd E cmd)) (\<lambda>b.
            whenb (\<not> b) (cancel (''Binary does not support '' @ cmd)))))
     (bnd (get_default_region E) (\<lambda>region.
      sq (clear_region E region)
     (sq (create_ns E [(''region'', region), (''mode'', JStr ''devdax''), (''align'', JStr align)])
     (bnd (first_val E (''-N -r '' @ jstr region) ''chardev'') (\<lambda>daxdev.
      bnd (mem_total E) (\<lambda>old_mem.
      bnd (dax_reconfigure E daxdev ''system-ram'') (\<lambda>dev_prop.
      sq (log Info (''Reconfigured device '' @ jstr dev_prop))
     (bnd (mem_total E) (\<lambda>new_mem.
      sq (log Info (''Memory Before:'' @ str_int old_mem @ '', Memory After:'' @ str_int new_mem))
     (sq (whenb (new_mem \<le> old_mem)
            (log Warning (''Memorysize not increased '' @ str_int new_mem @ ''<='' @ str_int old_mem)))
     (sq (dax_offline E daxdev)
     (bnd (mem_total E) (\<lambda>unplug_mem.
      sq (whenb (unplug_mem \<noteq> old_mem) (fail ''Memory after unplug is not same as system memory''))
     (sq (log Info ''Memory restored to base memory after unplug'')
     (sq (dax_online E daxdev)
     (bnd (mem_total E) (\<lambda>hplug_mem.
      sq (whenb (hplug_mem \<noteq> new_mem) (fail ''Memory after hotplug is not same as device size memory''))
     (sq (log Info ''Memory hotplug successful with pmem device'')
     (sq (log Info ''Restoring pmem device in devdax mode'')
     (sq (dax_offline E daxdev)
     (bnd (dax_reconfigure E daxdev ''devdax'') (\<lambda>_. ret ())))))))))))))))))))))))"

subsection \<open>Info blocks\<close>

definition write_read_infoblock :: "'w nd_env \<Rightarrow> json \<Rightarrow> json \<Rightarrow> json \<Rightarrow> ('w, json) nd" where
  "write_read_infoblock E ns_name align size' = fail_on
     (sq (kwcall ''write_infoblock'' (pm_write_infoblock E)
            [(''namespace'', ns_name), (''align'', align), (''size'', size'), (''mode'', JStr ''devdax'')])
     (bnd (kwcall ''read_infoblock'' (pm_read_infoblock E) [(''namespace'', ns_name)]) (\<lambda>read_out.
      sq (whenb (jtruthy align)
            (bnd (lift (py_nth read_out 0)) (\<lambda>r.
             bnd (lift (pm_val E r ''align'')) (\<lambda>v.
             bnd (lift (jint v)) (\<lambda>n.
             whenb (\<not> jeq align (JInt n)) (fail ''Alignment has not changed''))))))
         (lift (py_nth read_out 0)))))"

definition need_infoblock :: "'w nd_env \<Rightarrow> ('w, unit) nd" where
  "need_infoblock E =
     bnd (call ''check_ndctl_subcmd'' [''write-infoblock''] (pm_ndctl_subcmd E ''write-infoblock'')) (\<lambda>b.
     whenb (\<not> b) (cancel ''Binary does not support write-infoblock''))"

text \<open>The steps the five tests begin with: a fresh devdax namespace in the region and its name.\<close>

definition infoblock_ns :: "'w nd_env \<Rightarrow> string \<Rightarrow> ('w, json \<times> json) nd" where
  "infoblock_ns E align =
     sq (need_infoblock E)
    (bnd (get_default_region E) (\<lambda>region.
     sq (clear_region E region)
    (sq (create_ns E [(''region'', region), (''mode'', JStr ''devdax''), (''align'', JStr align)])
    (bnd (first_val E (''-N -r '' @ jstr region) ''dev'') (\<lambda>ns_name. ret (region, ns_name))))))"

definition huge_size :: "'w nd_env \<Rightarrow> ('w, int) nd" where
  "huge_size E =
     bnd (call ''get_supported_huge_pages_size'' [] (nd_huge_sizes E)) (\<lambda>l.
     bnd (lift (py_nth l 0)) (\<lambda>n. ret (n * 1024)))"

definition test_write_infoblock_supported_align :: "'w nd_env \<Rightarrow> string \<Rightarrow> ('w, unit) nd" where
  "test_write_infoblock_supported_align E align = fail_on
     (bnd (infoblock_ns E align) (\<lambda>(region, ns_name).
      sq (disable_ns E [(''namespace'', ns_name)])
     (bnd (huge_size E) (\<lambda>map_align.
      sq (write_read_infoblock E ns_name (JInt map_align) (JStr []))
         (enable_ns E [(''namespace'', ns_name)])))))"

definition enable_must_fail :: "'w nd_env \<Rightarrow> json \<Rightarrow> ('w, unit) nd" where
  "enable_must_fail E ns_name =
     on_pmem (enable_ns E [(''namespace'', ns_name)])
       (log Info ''Failed as expected'')
       (bnd (ndlist E []) (\<lambda>l. sq (log Info (vals_text l)) (fail ''Enabling namespace must have failed'')))"

text \<open>The search loop stops at the first idle namespace with a size.\<close>

definition sized_namespace :: "'w nd_env \<Rightarrow> json list \<Rightarrow> ('w, bool) nd" where
  "sized_namespace E idle_ns =
     bnd (for_ret idle_ns (\<lambda>namespace.
            bnd (lift (pm_val E namespace ''size'')) (\<lambda>v.
            bnd (lift (jint v)) (\<lambda>n. ret (if n \<noteq> 0 then Some () else None))))) (\<lambda>r. ret (r \<noteq> None))"

definition test_write_infoblock_unalign :: "'w nd_env \<Rightarrow> string \<Rightarrow> ('w, unit) nd" where
  "test_write_infoblock_unalign E align = fail_on
     (bnd (infoblock_ns E align) (\<lambda>(region, ns_name).
      sq (disable_ns E [(''namespace'', ns_name)])
     (bnd (huge_size E) (\<lambda>map_align.
      sq (write_read_infoblock E ns_name (JInt (get_unsupported_alignval map_align)) (JStr []))
     (sq (enable_must_fail E ns_name)
     (bnd (ndlist E (''-Ni -r '' @ jstr region)) (\<lambda>idle_ns.
      bnd (if length idle_ns > 1 then sized_namespace E idle_ns
           else fail ''Created namespace is not found'') (\<lambda>found.
      sq (whenb (\<not> found) (fail ''Namespace with infoblock written not found''))
         (destroy_ns E [(''namespace'', ns_name), (''force'', JVal (VBool True))])))))))))"

definition test_write_infoblock_align_default :: "'w nd_env \<Rightarrow> string \<Rightarrow> ('w, unit) nd" where
  "test_write_infoblock_align_default E align = fail_on
     (bnd (infoblock_ns E align) (\<lambda>(region, ns_name).
      bnd (first_val E (''-N -r '' @ jstr region) ''align'') (\<lambda>align'.
      sq (disable_ns E [(''namespace'', ns_name)])
     (bnd (write_read_infoblock E ns_name (JStr []) (JStr [])) (\<lambda>write_block.
      bnd (lift (pm_val E write_block ''align'')) (\<lambda>v.
      whenb (\<not> jeq align' v) (fail ''Alignment is not same as default alignment'')))))))"

text \<open>\<^verbatim>\<open>size - align\<close> and \<^verbatim>\<open>size // 2\<close>.\<close>

definition jminus :: "json \<Rightarrow> int \<Rightarrow> json result" where
  "jminus j n = rbind (jnum j) (\<lambda>x. Inr (jof (nsub x (NInt n))))"

definition jhalf :: "json \<Rightarrow> json result" where
  "jhalf j = rbind (jnum j) (\<lambda>x. rbind (nfloordiv x (NInt 2)) (\<lambda>h. Inr (jof h)))"

definition test_write_infoblock_size :: "'w nd_env \<Rightarrow> string \<Rightarrow> ('w, unit) nd" where
  "test_write_infoblock_size E align = fail_on
     (bnd (infoblock_ns E align) (\<lambda>(region, ns_name).
      bnd (first_val E (''-N -r '' @ jstr region) ''size'') (\<lambda>sz.
      sq (disable_ns E [(''namespace'', ns_name)])
     (bnd (get_size_alignval E) (\<lambda>n.
      bnd (lift (jminus sz n)) (\<lambda>sz'.
      sq (write_read_infoblock E ns_name (JStr []) sz')
         (enable_ns E [(''namespace'', ns_name)])))))))"

definition test_write_infoblock_size_unaligned :: "'w nd_env \<Rightarrow> string \<Rightarrow> ('w, unit) nd" where
  "test_write_infoblock_size_unaligned E align = fail_on
     (bnd (infoblock_ns E align) (\<lambda>(region, ns_name).
      bnd (first_val E (''-N -r '' @ jstr region) ''size'') (\<lambda>sz.
      sq (disable_ns E [(''namespace'', ns_name)])
     (bnd (call ''get_page_size'' [] (nd_page_size E)) (\<lambda>n.
      bnd (lift (jminus sz n)) (\<lambda>sz'.
      sq (write_read_infoblock E ns_name (JInt n) sz')
         (enable_must_fail E ns_name)))))))"

subsection \<open>File systems and DAX\<close>

text \<open>
  The disk of the first namespace of the region, a partition on it, its file system and mount. The
  disk and the partition are attributes, which \<^verbatim>\<open>tearDown\<close> uses.
\<close>

definition set_disk :: "'w nd_env \<Rightarrow> json \<Rightarrow> ('w, string) nd" where
  "set_disk E region =
     bnd (first_val E (''-N -r '' @ jstr region) ''blockdev'') (\<lambda>b.
     let d = ''/dev/'' @ jstr b in sq (modify (\<lambda>s. s\<lparr>nd_disk := Some d\<rparr>)) (ret d))"

definition mount_fs :: "'w nd_env \<Rightarrow> string \<Rightarrow> string \<Rightarrow> string \<Rightarrow> string \<Rightarrow> ('w, unit) nd" where
  "mount_fs E disk mnt_path opts extra =
    (let part = \<lparr>pt_disk = disk, pt_mount = mnt_path, pt_opts = opts\<rparr> in
     sq (modify (\<lambda>s. s\<lparr>nd_part := Some part\<rparr>))
    (bnd (call ''get_page_size'' [] (nd_page_size E)) (\<lambda>page.
     let args = ''-b size='' @ str_int page @ '' -s size=512'' @ extra in
     sq (call ''part.mkfs'' [disk, ''xfs'', args] (nd_mkfs E part ''xfs'' args))
    (sq (bnd (nexists E mnt_path) (\<lambda>b.
           whenb (\<not> b) (call ''makedirs'' [mnt_path] (nd_makedirs E mnt_path))))
        (call ''part.mount'' [disk, mnt_path] (nd_mount E part))))))"

definition reflink :: string where "reflink = ''-m reflink=0''"

definition fio_workload :: "'w nd_env \<Rightarrow> string \<Rightarrow> json \<Rightarrow> string \<Rightarrow> ('w, unit) nd" where
  "fio_workload E mnt_path sz default_job =
    (let fio_job = vstr (nd_param E ''fio_job'' (VStr default_job)) in
     sq (log Info (''Test will run on '' @ mnt_path))
    (bnd (build_fio E) (\<lambda>fio.
     bnd (lift (jhalf sz)) (\<lambda>half.
     bnd (call ''get_data'' [fio_job] (nd_get_data E fio_job)) (\<lambda>job.
     bnd (nsystem E (fio @ '' --directory '' @ mnt_path @ '' --filename mmap-pmem --size '' @ jstr half @ '' '' @ job)) (\<lambda>st.
     whenb (st \<noteq> 0) (fail ''FIO mmap workload on fsdax failed'')))))))"

definition test_sector_write :: "'w nd_env \<Rightarrow> ('w, unit) nd" where
  "test_sector_write E = fail_on
     (bnd (get_default_region E) (\<lambda>region.
      sq (clear_region E region)
     (sq (create_ns E [(''region'', region), (''mode'', JStr ''sector''), (''sector_size'', JStr ''512'')])
     (bnd (set_disk E region) (\<lambda>disk.
      bnd (first_val E (''-N -r '' @ jstr region) ''size'') (\<lambda>sz.
      let mnt_path = vstr (nd_param E ''mnt_point'' (VStr ''/pmemS'')) in
      sq (mount_fs E disk mnt_path [] [])
         (fio_workload E mnt_path sz ''sector-fio.job'')))))))"

definition test_fsdax_write :: "'w nd_env \<Rightarrow> string \<Rightarrow> ('w, unit) nd" where
  "test_fsdax_write E align = fail_on
     (bnd (get_default_region E) (\<lambda>region.
      sq (create_ns E [(''region'', region), (''mode'', JStr ''fsdax''), (''align'', JStr align)])
     (bnd (set_disk E region) (\<lambda>disk.
      bnd (first_val E (''-N -r '' @ jstr region) ''size'') (\<lambda>sz.
      let mnt_path = vstr (nd_param E ''mnt_point'' (VStr ''/pmem'')) in
      sq (mount_fs E disk mnt_path ''dax'' ('' '' @ reflink))
         (fio_workload E mnt_path sz ''ndctl-fio.job''))))))"

definition test_map_sync :: "'w nd_env \<Rightarrow> ('w, unit) nd" where
  "test_map_sync E = fail_on
     (bnd (get_default_region E) (\<lambda>region.
      sq (create_ns E [(''region'', region), (''mode'', JStr ''fsdax'')])
     (bnd (set_disk E region) (\<lambda>disk.
      let mnt_path = vstr (nd_param E ''mnt_point'' (VStr ''/pmem_map''));
          src_file = path_join (nd_tmpdir E) ''map_sync.c''
      in sq (mount_fs E disk mnt_path ''dax'' ('' '' @ reflink))
        (sq (log Info (''Testing MAP_SYNC on '' @ mnt_path))
        (bnd (call ''get_data'' [''map_sync.c''] (nd_get_data E ''map_sync.c'')) (\<lambda>d.
         sq (call ''copyfile'' [d, src_file] (nd_copy E d src_file))
        (sq (nsystem_strict E (''gcc '' @ src_file @ '' -o map_sync''))
        (sq (nsystem_strict E (''fallocate -l 64k '' @ mnt_path @ ''/new_file''))
        (bnd (nsystem E (''./map_sync '' @ mnt_path @ ''/new_file'')) (\<lambda>st.
         whenb (st \<noteq> 0) (fail ''Write with MAP_SYNC flag failed''))))))))))))"

definition test_devdax_write :: "'w nd_env \<Rightarrow> string \<Rightarrow> ('w, unit) nd" where
  "test_devdax_write E align = fail_on
     (bnd (get_default_region E) (\<lambda>region.
      sq (create_ns E [(''region'', region), (''mode'', JStr ''devdax''), (''align'', JStr align)])
     (bnd (first_val E (''-N -r '' @ jstr region) ''chardev'') (\<lambda>c.
      bnd (call ''get_data'' [''daxio.static''] (nd_get_data E ''daxio.static'')) (\<lambda>d.
      bnd (nsystem E (d @ '' -b no -i /dev/urandom -o /dev/'' @ jstr c)) (\<lambda>st.
      whenb (st \<noteq> 0) (fail ''DAXIO write on devdax failed'')))))))"

subsection \<open>Alignment of 1 GiB\<close>

definition gib_text :: string where "gib_text = ''1073741824''"

definition create_gib :: "'w nd_env \<Rightarrow> json \<Rightarrow> kwargs \<Rightarrow> ('w, unit) nd" where
  "create_gib E region extra =
     bnd (gets size_1g_align) (\<lambda>sz.
     create_ns E ([(''region'', region), (''size'', JVal sz), (''align'', JStr gib_text)] @ extra))"

definition test_namespace_1gb_alignment :: "'w nd_env \<Rightarrow> ('w, unit) nd" where
  "test_namespace_1gb_alignment E = fail_on
     (bnd (get_default_region E) (\<lambda>region.
      sq (clear_region E region)
     (sq (on_pmem
            (sq (create_gib E region [])
            (sq (check_namespace_align E region)
            (bnd (ndlist E (''-r '' @ jstr region @ '' -N'')) (\<lambda>l.
             bnd (lift (py_nth l 0)) (\<lambda>ns_json.
             bnd (lift (pm_val E ns_json ''align'')) (\<lambda>created_align.
             if \<not> jeq created_align (JInt 1073741824)
             then fail (''Expected alignment 1073741824, Got '' @ jstr created_align)
             else log Info (''Namespace with 1GB alignment: '' @ jstr ns_json)))))))
            (fail ''Namespace creation with 1GB alignmentmust have failed!'')
            (ret ()))
     (bnd (first_val E (''-N -r '' @ jstr region) ''dev'') (\<lambda>ns_name.
      sq (disable_ns E [(''namespace'', ns_name)])
         (destroy_ns E [(''region'', region)]))))))"

definition test_namespace_1gb_alignment_enable_disable :: "'w nd_env \<Rightarrow> ('w, unit) nd" where
  "test_namespace_1gb_alignment_enable_disable E =
     bnd (get_default_region E) (\<lambda>region.
     sq (clear_region E region)
        (on_pmem
           (sq (create_gib E region [])
           (bnd (first_val E (''-r '' @ jstr region @ '' -N'') ''dev'') (\<lambda>ns_name.
            sq (disable_ns E [(''namespace'', ns_name), (''region'', region)])
           (sq (enable_ns E [(''namespace'', ns_name), (''region'', region)])
               (check_namespace_align E region)))))
           (fail ''Namespace creation or enable/disable with1GB alignment must have failed!'')
           (ret ())))"

definition test_modes_1gb_alignment_namespaces :: "'w nd_env \<Rightarrow> ('w, unit) nd" where
  "test_modes_1gb_alignment_namespaces E =
     bnd (get_default_region E) (\<lambda>region.
     sq (clear_region E region)
    (sq (for_each [''fsdax'', ''devdax''] (\<lambda>mode.
           on_pmem
             (sq (create_gib E region [(''mode'', JStr mode)])
             (bnd (first_val E (''-r '' @ jstr region @ '' -N'') ''dev'') (\<lambda>ns_name.
              log Info (''Created namespace with mode '' @ mode @ '' and 1GB alignment: '' @ jstr ns_name))))
             (fail (''Namespace creation with mode '' @ mode @ '' and 1GB alignment must have failed!''))
             (ret ())))
    (bnd (nsystem_strict E ''ndctl destroy-namespace all -f'') (\<lambda>_. ret ()))))"

definition test_daxctl_1gb_alignment_memhotplug_unplug :: "'w nd_env \<Rightarrow> ('w, unit) nd" where
  "test_daxctl_1gb_alignment_memhotplug_unplug E = fail_on (test_daxctl_memhotplug_unplug E gib_text)"

definition test_fsdax_write_1gb_alignment :: "'w nd_env \<Rightarrow> ('w, unit) nd" where
  "test_fsdax_write_1gb_alignment E = fail_on (test_fsdax_write E gib_text)"

definition test_devdax_write_1gb_alignment :: "'w nd_env \<Rightarrow> ('w, unit) nd" where
  "test_devdax_write_1gb_alignment E = fail_on (test_devdax_write E gib_text)"

definition test_label_read_write_1gb_alignment :: "'w nd_env \<Rightarrow> ('w, unit) nd" where
  "test_label_read_write_1gb_alignment E = fail_on (test_label_read_write E gib_text)"

definition test_write_infoblock_1gb_alignment :: "'w nd_env \<Rightarrow> ('w, unit) nd" where
  "test_write_infoblock_1gb_alignment E = fail_on
     (sq (test_write_infoblock_supported_align E gib_text)
     (sq (test_write_infoblock_unalign E gib_text)
     (sq (test_write_infoblock_size E gib_text)
         (test_write_infoblock_size_unaligned E gib_text))))"

subsection \<open>Mapping, errors, tearDown\<close>

definition reuse_count :: string where
  "reuse_count = ''dmesg | grep -Eai '' @ [CHR 0x22] @ ''Tail page reuse'' @ [CHR 0x22] @ '' | wc -l''"

definition test_devmap_Optimisation :: "'w nd_env \<Rightarrow> ('w, unit) nd" where
  "test_devmap_Optimisation E = fail_on
     (bnd (get_default_region E) (\<lambda>region.
      sq (clear_region E region)
     (sq (nrun E (''echo '' @ [CHR 0x22] @ ''file arch/powerpc/mm/book3s64/radix_pgtable.c +p'' @ [CHR 0x22] @
                  '' > /sys/kernel/debug/dynamic_debug/control''))
     (bnd (noutput E reuse_count) (\<lambda>init_count.
      on_pmem
        (sq (create_gib E region [(''memmap'', JStr ''mem''), (''mode'', JStr ''devdax'')])
        (bnd (noutput E reuse_count) (\<lambda>final_count.
         bnd (lift (py_int final_count)) (\<lambda>f.
         bnd (lift (py_int init_count)) (\<lambda>i.
         if f - i > 0 then log Info ''Device memory kernel mapping optimization feature is working''
         else fail ''Device memory kernel mapping optimization feature verification failed'')))))
        (fail ''Namespace creation with 1GB alignmentmust have failed!'')
        (ret ()))))))"

definition smart_step :: "'w nd_env \<Rightarrow> json \<Rightarrow> string \<Rightarrow> ('w, unit) nd" where
  "smart_step E region flag =
     bnd (noutput E (''ndctl list -DH -r '' @ jstr region @ '' | grep dev'')) (\<lambda>out.
     bnd (lift (quoted_field out)) (\<lambda>dev.
     bnd (noutput E (''ndctl inject-smart '' @ dev @ '' '' @ flag)) (\<lambda>_. ret ())))"

definition test_inject_SMART_errors :: "'w nd_env \<Rightarrow> ('w, unit) nd" where
  "test_inject_SMART_errors E = fail_on
     (bnd (get_default_region E) (\<lambda>region.
      bnd (get_shutdown_state E region) (\<lambda>st.
      sq (whenb (st = ''clean'') (log Info ''shutdown state is clean''))
     (sq (smart_step E region ''-U'')
     (bnd (get_shutdown_state E region) (\<lambda>st.
      sq (if st = ''dirty'' then log Info ''shutdown state is dirty Error injection is successful.''
          else fail ''Error injection failed'')
     (sq (smart_step E region ''-N'')
     (bnd (get_shutdown_state E region) (\<lambda>st.
      whenb (st = ''clean'') (log Info ''shutdown state is clean''))))))))))"

definition nd_tearDown :: "'w nd_env \<Rightarrow> ('w, unit) nd" where
  "nd_tearDown E = fail_on
     (bnd (gets nd_part) (\<lambda>part.
      sq (case part of None \<Rightarrow> ret () | Some p \<Rightarrow> call ''part.unmount'' [pt_disk p] (nd_unmount E p))
     (bnd (gets nd_disk) (\<lambda>disk.
      sq (case disk of
            None \<Rightarrow> ret ()
          | Some d \<Rightarrow>
              sq (log Info (''Removing the FS meta created on '' @ d))
             (bnd (nsystem E (''dd if=/dev/zero bs=1M count=1024 of='' @ d)) (\<lambda>st.
              whenb (st \<noteq> 0) (fail (''Failed to delete filesystem on '' @ d)))))
     (bnd (gets preserve_setup) (\<lambda>preserve.
      whenb (case preserve of None \<Rightarrow> False | Some v \<Rightarrow> \<not> truthy v)
        (bnd (gets has_plib) (\<lambda>plib.
         whenb plib
           (bnd (ndlist E ''-N'') (\<lambda>l.
            sq (whenb (l \<noteq> []) (destroy_ns E [(''force'', JVal (VBool True))]))
               (disable_rg E [])))))))))))"

end
