(* ===== verification/Nd_Props.thy ===== *)
theory Nd_Props
  imports Ndctl Protocol
begin

section \<open>What the NVDIMM tests do\<close>

text \<open>
  The library is described by equations: \<open>query v\<close> is an operation that answers \<open>v\<close> and changes
  nothing, \<open>succeeds\<close> one that returns and leads to a world with a given property.
\<close>

definition query :: "'a \<Rightarrow> ('w, 'a) ext" where
  "query v = (\<lambda>w. (Inr v, w))"

definition succeeds :: "('w, unit) ext \<Rightarrow> ('w \<Rightarrow> bool) \<Rightarrow> 'w \<Rightarrow> bool" where
  "succeeds x P w \<longleftrightarrow> (\<exists>w'. x w = (Inr (), w') \<and> P w')"

lemma query_app [simp]: "query v w = (Inr v, w)"
  by (simp add: query_def)

lemma wp_call_query [wp]: "x = query v \<Longrightarrow> wp (call f as x) Q R s = Q v (s\<lparr>trace := trace s @ [Call f as]\<rparr>)"
  by (simp add: wp)

lemma wp_call_succeeds:
  assumes "succeeds x P (world s)" "\<And>w. P w \<Longrightarrow> Q () (s\<lparr>world := w, trace := trace s @ [Call f as]\<rparr>)"
  shows "wp (call f as x) Q R s"
  using assms by (auto simp: wp succeeds_def)

lemma py_nth_single [simp]: "py_nth [x] 0 = Inr x"
  by (simp add: py_nth_def)

lemma wp_first_val:
  assumes "pm_list E opts = query [j]" "pm_val E j f = Inr v"
  shows "wp (first_val E opts f) Q R s = Q v (s\<lparr>trace := trace s @ [Call ''run_ndctl_list'' [opts]]\<rparr>)"
  unfolding first_val_def ndlist_def by (simp add: wp assms)

subsection \<open>Dividing a region\<close>

definition is_create :: "event \<Rightarrow> bool" where
  "is_create e = (case e of Call f _ \<Rightarrow> f = ''create_namespace'' | _ \<Rightarrow> False)"

definition creates :: "event list \<Rightarrow> event list" where
  "creates = filter is_create"

lemma creates_append [simp]: "creates (xs @ ys) = creates xs @ creates ys"
  by (simp add: creates_def)

lemma creates_simps [simp]:
  "creates [] = []" "creates (Log l m # es) = creates es" "creates (Sleep v # es) = creates es"
  "creates (Call f as # es) = (if f = ''create_namespace'' then Call f as # creates es else creates es)"
  by (simp_all add: creates_def is_create_def)

text \<open>The two alignment files of sysfs, one hexadecimal and one decimal.\<close>

definition alignment_files :: "'w nd_env \<Rightarrow> int \<Rightarrow> int \<Rightarrow> bool" where
  "alignment_files E sa ma \<longleftrightarrow>
     nd_exists E ''/sys/bus/nd/devices/region0/align'' = query True \<and>
     nd_exists E ''/sys/bus/nd/devices/pfn0.0/align'' = query True \<and>
     (\<exists>t. nd_read_line E ''/sys/bus/nd/devices/region0/align'' = query t \<and> py_int16 t = Inr sa) \<and>
     (\<exists>t. nd_read_line E ''/sys/bus/nd/devices/pfn0.0/align'' = query t \<and> py_int t = Inr ma)"

lemma py_lcm_pos: "0 < a \<Longrightarrow> py_lcm a b = Inr (lcm a b)"
  by (simp add: py_lcm_def lcm_altdef_int abs_mult)

lemma wp_size_alignval:
  assumes "alignment_files E sa ma" "0 < sa"
  shows "wp (get_size_alignval E)
     (\<lambda>v t. v = lcm sa ma \<and> mode_to_use t = mode_to_use s \<and> creates (trace t) = creates (trace s)) R s"
proof -
  from assms(1) obtain t u where f: "nd_exists E ''/sys/bus/nd/devices/region0/align'' = query True"
    "nd_exists E ''/sys/bus/nd/devices/pfn0.0/align'' = query True"
    "nd_read_line E ''/sys/bus/nd/devices/region0/align'' = query t" "py_int16 t = Inr sa"
    "nd_read_line E ''/sys/bus/nd/devices/pfn0.0/align'' = query u" "py_int u = Inr ma"
    unfolding alignment_files_def by blast
  show ?thesis
    by (simp add: get_size_alignval_def nexists_def nread_def wp f py_lcm_pos[OF assms(2)])
qed

text \<open>
  A region of \<open>R\<close> bytes, of which \<open>avail\<close> tells how many are free: emptying it frees all, and a
  namespace is created when its size is positive and fits.
\<close>

definition region_space :: "'w nd_env \<Rightarrow> json \<Rightarrow> ('w \<Rightarrow> int) \<Rightarrow> int \<Rightarrow> bool" where
  "region_space E region avail R \<longleftrightarrow>
     (\<forall>w. succeeds (pm_disable E [(''region'', region)]) (\<lambda>_. True) w) \<and>
     (\<forall>w. succeeds (pm_destroy E [(''region'', region)]) (\<lambda>w'. avail w' = R) w) \<and>
     (\<forall>w mode z. 0 < z \<and> z \<le> avail w \<longrightarrow>
        succeeds (pm_create E [(''region'', region), (''mode'', mode), (''size'', JInt z)])
          (\<lambda>w'. avail w' = avail w - z) w)"

definition create_event :: "json \<Rightarrow> pyval \<Rightarrow> int \<Rightarrow> event" where
  "create_event region mode z =
     Call ''create_namespace'' (map kwtext [(''region'', region), (''mode'', JVal mode), (''size'', JInt z)])"

lemma wp_clear_region:
  assumes "region_space E region avail R"
  shows "wp (clear_region E region)
     (\<lambda>_ t. avail (world t) = R \<and> creates (trace t) = creates (trace s) \<and> mode_to_use t = mode_to_use s) X s"
proof -
  have d: "succeeds (pm_disable E [(''region'', region)]) (\<lambda>_. True) w"
    "succeeds (pm_destroy E [(''region'', region)]) (\<lambda>w'. avail w' = R) w" for w
    using assms unfolding region_space_def by blast+
  show ?thesis
    unfolding clear_region_def disable_ns_def destroy_ns_def kwcall_def wp_sq
    by (rule wp_call_succeeds, rule d(1), rule wp_call_succeeds, rule d(2)) simp
qed

lemma wp_create_slots:
  fixes s :: "'w nd_st"
  assumes "region_space E region avail R" "0 < z" "0 \<le> n" "n * z \<le> avail (world s)"
  shows "wp (create_slots E region (NInt z) (NInt n))
     (\<lambda>_ t. avail (world t) = avail (world s) - n * z \<and>
        creates (trace t) = creates (trace s) @ replicate (nat n) (create_event region (mode_to_use s) z)) X s"
proof -
  let ?ev = "create_event region (mode_to_use s) z"
  let ?I = "\<lambda>(done :: int list) (t :: 'w nd_st). avail (world t) = avail (world s) - int (length done) * z \<and>
     creates (trace t) = creates (trace s) @ replicate (length done) ?ev"
  have len: "length (range1 n) = nat n" by (simp add: py_range3_def)
  have step: "wp (sq (create_ns E [(''region'', region), (''mode'', JVal (mode_to_use s)), (''size'', jof (NInt z))])
       (log Info (''Namespace '' @ str_int (x + 1) @ '' created''))) (\<lambda>_. ?I (ys @ [x])) X t"
    if "?I ys t" "\<exists>zs. range1 n = ys @ x # zs" for ys x t
  proof -
    from that(2) len have "length ys < nat n" by (metis length_append length_Cons less_add_Suc1 add_Suc_right)
    then have "int (length ys) + 1 \<le> n" by linarith
    then have "(int (length ys) + 1) * z \<le> n * z" using assms(2) by (intro mult_right_mono) auto
    then have fits: "z \<le> avail (world t)" using that(1) assms(4) by (simp add: algebra_simps)
    have c: "succeeds (pm_create E [(''region'', region), (''mode'', JVal (mode_to_use s)), (''size'', JInt z)])
          (\<lambda>w'. avail w' = avail (world t) - z) (world t)"
      using assms(1,2) fits unfolding region_space_def by blast
    show ?thesis
      unfolding create_ns_def kwcall_def wp_sq jof_def val_of.simps
      by (rule wp_call_succeeds, rule c)
         (use that(1) in \<open>simp add: wp algebra_simps replicate_append_same create_event_def\<close>)
  qed
  have loop: "wp (for_each (range1 n) (\<lambda>x. sq (create_ns E [(''region'', region), (''mode'', JVal (mode_to_use s)), (''size'', jof (NInt z))])
       (log Info (''Namespace '' @ str_int (x + 1) @ '' created'')))) (\<lambda>_. ?I (range1 n)) X t"
    if "?I [] t" for t
    by (rule wp_for_each[where I = ?I], rule that, rule step)
  show ?thesis
    unfolding create_slots_def wp_bnd wp_gets wp_sq wp_log nrange_int wp_lift sum.case
    by (rule wp_conseq[OF loop]) (use assms(3) in \<open>simp_all add: len\<close>)
qed

lemma split_region_whole:
  "n \<noteq> 0 \<Longrightarrow> a \<noteq> 0 \<Longrightarrow> split_region VNone (JInt R) n a = Inr (NInt (R div n div a * a), NInt n)"
  by (simp add: split_region_def)

lemma div_down:
  fixes a b :: int
  assumes "0 < b"
  shows "a div b * b \<le> a" "a < a div b * b + b" "k * b \<le> a \<Longrightarrow> k \<le> a div b"
proof -
  show "a div b * b \<le> a" "a < a div b * b + b"
    using div_mult_mod_eq[of a b] pos_mod_sign[OF assms, of a] pos_mod_bound[OF assms, of a] by linarith+
  show "k \<le> a div b" if "k * b \<le> a"
    using zdiv_mono1[OF that assms] assms by simp
qed

lemma region_share:
  fixes a n R z :: int
  assumes "0 < a" "0 < n" "z = R div n div a * a"
  shows "n * z \<le> R" "R - n * z < n * a" "\<And>y. a dvd y \<Longrightarrow> n * y \<le> R \<Longrightarrow> y \<le> z"
proof -
  have zq: "z \<le> R div n" "R div n < z + a" using div_down[OF assms(1), of "R div n"] assms(3) by simp_all
  show "n * z \<le> R"
    by (rule order_trans[OF mult_left_mono[OF zq(1)]])
       (use div_down(1)[OF assms(2), of R] assms(2) in \<open>simp_all add: mult.commute\<close>)
  have "R div n + 1 \<le> z + a" using zq(2) by simp
  then have "(R div n + 1) * n \<le> (z + a) * n" using assms(2) by (intro mult_right_mono) auto
  then show "R - n * z < n * a" using div_down(2)[OF assms(2), of R] by (simp add: algebra_simps)
  fix y assume y: "a dvd y" "n * y \<le> R"
  from y(1) obtain k where k: "y = k * a" by (metis dvd_def mult.commute)
  have "y \<le> R div n" using div_down(3)[OF assms(2)] y(2) by (simp add: mult.commute)
  then have "k \<le> R div n div a" using div_down(3)[OF assms(1)] k by simp
  then show "y \<le> z" using assms(1,3) k by (simp add: mult_right_mono)
qed

text \<open>
  C7. The region is divided as far as it goes. Without a size given, let \<open>z\<close> be the greatest aligned size of which
  one namespace per slot fits. When \<open>z\<close> is above one alignment unit the test creates exactly one namespace of
  size \<open>z\<close> per slot, every creation succeeds, and what is left of the region is less than one unit per slot;
  when it is one unit or less, the test creates nothing and leaves the whole region free.
\<close>

theorem region_is_filled:
  assumes "region_space E region avail R" "alignment_files E sa ma" "0 < sa" "0 < ma"
    and "pm_slot_count E region = query n" "0 < n"
    and "pm_list E (''-r '' @ jstr region) = query [j]" "pm_val E j ''size'' = Inr (JInt R)"
    and "nd_params E ''size'' = None" "z = R div n div lcm sa ma * lcm sa ma"
  shows "wp (multiple_namespaces_region E region)
     (\<lambda>_ t. (\<forall>y. lcm sa ma dvd y \<and> n * y \<le> R \<longrightarrow> y \<le> z) \<and>
        (if lcm sa ma < z then
           creates (trace t) = creates (trace s) @ replicate (nat n) (create_event region (mode_to_use s) z) \<and>
           0 \<le> avail (world t) \<and> avail (world t) < n * lcm sa ma
         else creates (trace t) = creates (trace s) \<and> avail (world t) = R))
     (\<lambda>_ _. False) s"
proof -
  let ?a = "lcm sa ma"
  let ?fin = "\<lambda>t. if ?a < z then
       creates (trace t) = creates (trace s) @ replicate (nat n) (create_event region (mode_to_use s) z) \<and>
       0 \<le> avail (world t) \<and> avail (world t) < n * ?a
     else creates (trace t) = creates (trace s) \<and> avail (world t) = R"
  have a: "0 < ?a" using assms(3,4) by (simp add: lcm_pos_int)
  note share = region_share[OF a assms(6,10)]
  have sp: "split_region VNone (JInt R) n ?a = Inr (NInt z, NInt n)"
    unfolding assms(10) by (rule split_region_whole) (use assms(6) a in auto)
  have mis: "misaligned VNone ?a = Inr False" by (simp add: misaligned_def)
  have slots: "wp (create_slots E region (NInt z) (NInt n)) (\<lambda>_ t.
       creates (trace t) = creates (trace s) @ replicate (nat n) (create_event region (mode_to_use s) z) \<and>
       0 \<le> avail (world t) \<and> avail (world t) < n * ?a) (\<lambda>_ _. False) t"
    if "?a < z" "avail (world t) = R" "creates (trace t) = creates (trace s)" "mode_to_use t = mode_to_use s" for t
  proof -
    have z: "0 < z" "0 \<le> n" using a assms(6) that(1) by simp_all
    show ?thesis
      by (rule wp_conseq[OF wp_create_slots[OF assms(1) z]]) (use that share(1,2) in simp_all)
  qed
  have "wp (multiple_namespaces_region E region) (\<lambda>_. ?fin) (\<lambda>_ _. False) s"
    unfolding multiple_namespaces_region_def nd_param_def assms(9) option.case Let_def
    apply (rule wp_bnd_step[OF wp_size_alignval[OF assms(2,3)]])
     prefer 2 apply assumption
    apply (unfold slot_count_def wp_bnd wp_sq wp_log wp_call_query[OF assms(5)])
    apply (rule wp_conseq[OF wp_clear_region[OF assms(1), where X = "\<lambda>_ _. False"]])
     apply (unfold wp_first_val[OF assms(7,8)])
     apply (cases "?a < z")
      apply (simp add: wp mis sp slots)
     apply (simp add: wp mis sp)
    apply simp
    done
  then show ?thesis by (rule wp_conseq) (use share(3) in auto)
qed

text \<open>
  A size that is no multiple of the alignment does not cancel the test: the call of \<^verbatim>\<open>self.cancel\<close> has more
  arguments than the method takes, so the test is reported as broken. So is a test with a text as size, as the
  repository's parameters have it: \<^verbatim>\<open>%\<close> then formats the text, which has no place for the alignment.
\<close>

definition bad_size :: "int \<Rightarrow> pyval \<Rightarrow> bool" where
  "bad_size align v =
     (case v of VInt z \<Rightarrow> \<not> align dvd z | VStr t \<Rightarrow> t \<noteq> [] \<and> CHR 0x25 \<notin> set t | _ \<Rightarrow> False)"

theorem bad_size_is_an_error:
  assumes "region_space E region avail R" "alignment_files E sa ma" "0 < sa" "0 < ma"
    and "pm_slot_count E region = query n" "nd_params E ''size'' = Some v" "bad_size (lcm sa ma) v"
  shows "wp (multiple_namespaces_region E region) (\<lambda>_ _. False) (\<lambda>e _. e = TypeError) s"
proof -
  let ?a = "lcm sa ma"
  have a: "?a \<noteq> 0" using assms(3,4) by simp
  have mis: "misaligned v ?a = Inr True \<or> misaligned v ?a = Inl TypeError"
    using assms(7) nmod_int[OF a]
    by (cases v) (auto simp: bad_size_def misaligned_def jmod_def jnum_def dvd_eq_mod_eq_0)
  show ?thesis
    unfolding multiple_namespaces_region_def nd_param_def assms(6) option.case Let_def
    apply (rule wp_bnd_step[OF wp_size_alignval[OF assms(2,3)]])
     prefer 2 apply assumption
    apply (unfold slot_count_def wp_bnd wp_sq wp_log wp_call_query[OF assms(5)])
    apply (rule wp_conseq[OF wp_clear_region[OF assms(1), where X = "\<lambda>_ _. False"]])
     apply (use mis in \<open>auto simp: wp cancel_call_def\<close>)
    done
qed

subsection \<open>The default region\<close>

lemma hd_sort_key:
  fixes f :: "'a \<Rightarrow> 'b::linorder"
  assumes "xs \<noteq> []"
  obtains us vs where "xs = us @ hd (sort_key f xs) # vs" "\<forall>u \<in> set us. f (hd (sort_key f xs)) < f u"
    "\<forall>v \<in> set vs. f (hd (sort_key f xs)) \<le> f v"
proof -
  let ?x = "hd (sort_key f xs)"
  have ne: "sort_key f xs \<noteq> []" using assms by (metis length_0_conv length_sort)
  then obtain ys where ys: "sort_key f xs = ?x # ys" by (metis list.collapse)
  have least: "\<forall>y \<in> set xs. f ?x \<le> f y"
  proof -
    have "sorted (map f (?x # ys))" by (metis sorted_sort_key ys)
    moreover have "set xs = set (?x # ys)" by (metis set_sort ys)
    ultimately show ?thesis by auto
  qed
  have "filter (\<lambda>y. f y = f ?x) xs = filter (\<lambda>y. f y = f ?x) (sort_key f xs)"
    by (simp add: sort_key_stable)
  also have "\<dots> = ?x # filter (\<lambda>y. f y = f ?x) ys" by (subst ys) simp
  finally obtain us vs where uv: "xs = us @ ?x # vs" "\<forall>u \<in> set us. f u \<noteq> f ?x"
    by (auto simp: filter_eq_Cons_iff)
  show thesis
  proof (rule that[OF uv(1)])
    show "\<forall>u \<in> set us. f ?x < f u"
      using uv least by (metis Un_iff order_le_less set_append)
    show "\<forall>v \<in> set vs. f ?x \<le> f v"
      using uv(1) least by (metis Un_iff list.set_intros(2) set_append)
  qed
qed

lemma by_size_hd:
  assumes "rs \<noteq> []" "\<forall>r \<in> set rs. jget r ''size'' = Inr (JInt (sz r))"
  obtains us r vs ss where "by_size rs = Inr (r # ss)" "rs = us @ r # vs"
    "\<forall>u \<in> set us. sz u < sz r" "\<forall>v \<in> set vs. sz v \<le> sz r"
proof (cases "length rs \<le> 1")
  case True
  then obtain r where "rs = [r]" using assms(1) by (cases rs) auto
  then show thesis using that[of r "[]" "[]" "[]"] assms(2) by (simp add: by_size_def)
next
  case False
  let ?f = "\<lambda>p. - exact (fst p) :: rat"
  let ?zs = "map (\<lambda>r. (NInt (sz r), r)) rs"
  have m: "mapM_r (\<lambda>r. jget r ''size'') rs = Inr (map (\<lambda>r. JInt (sz r)) rs)"
    by (rule mapM_r_total) (use assms(2) in simp)
  have n: "mapM_r jnum (map (\<lambda>r. JInt (sz r)) rs) = Inr (map (\<lambda>r. NInt (sz r)) rs)"
    by (induction rs) simp_all
  have z: "zip (map (\<lambda>r. NInt (sz r)) rs) rs = ?zs"
    by (simp add: zip_map1 zip_same_conv_map)
  have b: "by_size rs = Inr (map snd (sort_key ?f ?zs))" using False m n z by (simp add: by_size_def)
  have "?zs \<noteq> []" using assms(1) by simp
  from hd_sort_key[OF this, of ?f] obtain us vs where
    uv: "?zs = us @ hd (sort_key ?f ?zs) # vs" "\<forall>u \<in> set us. ?f (hd (sort_key ?f ?zs)) < ?f u"
      "\<forall>v \<in> set vs. ?f (hd (sort_key ?f ?zs)) \<le> ?f v" by blast
  from uv(1) obtain us' r vs' where r: "rs = us' @ r # vs'" "us = map (\<lambda>r. (NInt (sz r), r)) us'"
    "hd (sort_key ?f ?zs) = (NInt (sz r), r)" "vs = map (\<lambda>r. (NInt (sz r), r)) vs'"
    by (auto simp: map_eq_append_conv map_eq_Cons_conv)
  have "sort_key ?f ?zs \<noteq> []" using assms(1) by (metis length_0_conv length_map length_sort)
  then obtain ss where "sort_key ?f ?zs = (NInt (sz r), r) # ss" using r(3) by (metis list.collapse)
  then have "by_size rs = Inr (r # map snd ss)" using b by simp
  then show thesis
    by (rule that[OF _ r(1)]) (use uv(2,3) r(2,3,4) in auto)
qed

text \<open>
  Without a region given the test takes the largest one, and the first of them when several are equally large.
\<close>

theorem default_region_is_largest:
  assumes "\<forall>w. succeeds (pm_enable_region E []) (\<lambda>_. True) w" "nd_params E ''region'' = None"
    and "pm_list E ''-R'' = query rs" "rs \<noteq> []"
    and "\<forall>r \<in> set rs. jget r ''size'' = Inr (JInt (sz r)) \<and> pm_val E r ''dev'' = Inr (dev r)"
  shows "wp (get_default_region E)
     (\<lambda>v _. \<exists>us r vs. rs = us @ r # vs \<and> v = dev r \<and> (\<forall>u \<in> set us. sz u < sz r) \<and> (\<forall>u \<in> set vs. sz u \<le> sz r))
     (\<lambda>_ _. False) s"
proof -
  have "\<forall>r \<in> set rs. jget r ''size'' = Inr (JInt (sz r))" using assms(5) by blast
  from by_size_hd[OF assms(4) this] obtain us r vs ss where r: "by_size rs = Inr (r # ss)" "rs = us @ r # vs"
    "\<forall>u \<in> set us. sz u < sz r" "\<forall>v \<in> set vs. sz v \<le> sz r" .
  have dev: "pm_val E r ''dev'' = Inr (dev r)" using assms(5) r(2) by simp
  have en: "succeeds (pm_enable_region E []) (\<lambda>_. True) w" for w using assms(1) by blast
  show ?thesis
    unfolding get_default_region_def enable_rg_def kwcall_def nd_param_def assms(2) ndlist_def wp_sq
    by (rule wp_call_succeeds, rule en)
       (use r dev in \<open>auto simp: wp assms(3) py_nth_0\<close>)
qed

subsection \<open>The modes\<close>

text \<open>
  The namespaces of a region, each with its name, its mode and whether it is enabled. What the library
  promises of them: \<^verbatim>\<open>disable_namespace\<close> disables one of them or all, \<^verbatim>\<open>destroy_namespace\<close> removes one that is disabled, or
  all when none is enabled; \<^verbatim>\<open>create_namespace\<close> without a size takes the whole region, so it is only known to succeed in
  a region without namespaces; the listing shows the enabled ones.
\<close>

type_synonym nspace = "string \<times> string \<times> bool"

definition ns_listed :: "'w nd_env \<Rightarrow> nspace list \<Rightarrow> json list \<Rightarrow> bool" where
  "ns_listed E v js \<longleftrightarrow>
     list_all2 (\<lambda>(name, mode, _) j. pm_val E j ''dev'' = Inr (JStr name) \<and> pm_val E j ''mode'' = Inr (JStr mode))
       (filter (\<lambda>(_, _, on). on) v) js"

definition mode_laws :: "'w nd_env \<Rightarrow> string \<Rightarrow> ('w \<Rightarrow> nspace list) \<Rightarrow> (string \<Rightarrow> string) \<Rightarrow> bool" where
  "mode_laws E region view made \<longleftrightarrow>
     (\<forall>w. succeeds (pm_enable_region E []) (\<lambda>w'. view w' = view w) w) \<and>
     (\<forall>w. succeeds (pm_disable E [(''region'', JStr region)])
        (\<lambda>w'. view w' = map (\<lambda>(n, m, _). (n, m, False)) (view w)) w) \<and>
     (\<forall>w. (\<forall>(n, m, on) \<in> set (view w). \<not> on) \<longrightarrow>
        succeeds (pm_destroy E [(''region'', JStr region)]) (\<lambda>w'. view w' = []) w) \<and>
     (\<forall>w m. view w = [] \<longrightarrow>
        succeeds (pm_create E [(''region'', JStr region), (''mode'', JStr m)]) (\<lambda>w'. \<exists>n. view w' = [(n, made m, True)]) w) \<and>
     (\<forall>w n. n \<in> fst ` set (view w) \<longrightarrow>
        succeeds (pm_disable E [(''namespace'', JStr n), (''region'', JStr region)])
          (\<lambda>w'. view w' = map (\<lambda>(k, m, on). (k, m, on \<and> k \<noteq> n)) (view w)) w) \<and>
     (\<forall>w n m. (n, m, False) \<in> set (view w) \<longrightarrow>
        succeeds (pm_destroy E [(''namespace'', JStr n), (''region'', JStr region)])
          (\<lambda>w'. view w' = filter (\<lambda>(k, _). k \<noteq> n) (view w)) w) \<and>
     (\<forall>w. \<exists>js. pm_list E (''-r '' @ region @ '' -N'') w = (Inr js, w) \<and> ns_listed E (view w) js)"

lemma wp_mode_step:
  assumes "mode_laws E region view made" "view (world s) = []"
  shows "wp (mode_step E (JStr region) m failed)
     (\<lambda>r t. r = (if made m = m then failed else failed @ [m]) \<and> view (world t) = []) (\<lambda>_ _. False) s"
proof -
  have c: "succeeds (pm_create E [(''region'', JStr region), (''mode'', JStr m)])
        (\<lambda>w'. \<exists>n. view w' = [(n, made m, True)]) (world s)"
    using assms unfolding mode_laws_def by blast
  have d: "succeeds (pm_disable E [(''namespace'', JStr n), (''region'', JStr region)]) (\<lambda>w'. view w' = [(n, k, False)]) w"
    if "view w = [(n, k, True)]" for w n k
  proof -
    have n: "n \<in> fst ` set (view w)" using that by simp
    have "succeeds (pm_disable E [(''namespace'', JStr n), (''region'', JStr region)])
        (\<lambda>w'. view w' = map (\<lambda>(k, m, on). (k, m, on \<and> k \<noteq> n)) (view w)) w"
      using assms(1) n unfolding mode_laws_def by blast
    then show ?thesis by (auto simp: succeeds_def that)
  qed
  have x: "succeeds (pm_destroy E [(''namespace'', JStr n), (''region'', JStr region)]) (\<lambda>w'. view w' = []) w"
    if "view w = [(n, k, False)]" for w n k
  proof -
    have "(n, k, False) \<in> set (view w)" using that by simp
    then have "succeeds (pm_destroy E [(''namespace'', JStr n), (''region'', JStr region)])
        (\<lambda>w'. view w' = filter (\<lambda>(k, _). k \<noteq> n) (view w)) w"
      using assms(1) unfolding mode_laws_def by blast
    then show ?thesis by (auto simp: succeeds_def that)
  qed
  have l: "\<exists>j. pm_list E (''-r '' @ region @ '' -N'') w = (Inr [j], w) \<and>
      pm_val E j ''dev'' = Inr (JStr n) \<and> pm_val E j ''mode'' = Inr (JStr k)" if "view w = [(n, k, True)]" for w n k
  proof -
    obtain js where "pm_list E (''-r '' @ region @ '' -N'') w = (Inr js, w)" "ns_listed E (view w) js"
      using assms(1) unfolding mode_laws_def by blast
    then show ?thesis by (auto simp: ns_listed_def that list_all2_Cons1)
  qed
  have gone: "wp (disable_ns E [(''namespace'', JStr n), (''region'', JStr region)])
      (\<lambda>_. wp (sq (destroy_ns E [(''namespace'', JStr n), (''region'', JStr region)]) (ret r))
        (\<lambda>x t. x = r \<and> view (world t) = []) (\<lambda>_ _. False)) (\<lambda>_ _. False) t"
    if "view (world t) = [(n, k, True)]" for n k r t
    unfolding disable_ns_def destroy_ns_def kwcall_def wp_sq
    by (rule wp_call_succeeds, rule d, rule that, rule wp_call_succeeds, rule x, simp) (simp add: wp)
  show ?thesis
    unfolding mode_step_def create_ns_def kwcall_def wp_sq[of "call _ _ _"] ndlist_def jstr_str
  proof (rule wp_call_succeeds, rule c, elim exE)
    fix w n assume v: "view w = [(n, made m, True)]"
    then obtain j where j: "pm_list E (''-r '' @ region @ '' -N'') w = (Inr [j], w)"
      "pm_val E j ''dev'' = Inr (JStr n)" "pm_val E j ''mode'' = Inr (JStr (made m))"
      using l by blast
    show "wp (bnd (call ''run_ndctl_list'' [''-r '' @ region @ '' -N''] (pm_list E (''-r '' @ region @ '' -N'')))
       (\<lambda>l. bnd (lift (py_nth l 0)) (\<lambda>ns_json. bnd (lift (pm_val E ns_json ''mode'')) (\<lambda>created_mode.
         bnd (if \<not> jeq (JStr m) created_mode then
                sq (log Error (''Expected mode '' @ m @ '', Got '' @ jstr created_mode)) (ret (failed @ [m]))
              else sq (log Info (''Namespace with '' @ m @ '' mode: '' @ jstr ns_json)) (ret failed)) (\<lambda>failed.
         bnd (lift (pm_val E ns_json ''dev'')) (\<lambda>ns_name.
         sq (disable_ns E [(''namespace'', ns_name), (''region'', JStr region)])
        (sq (destroy_ns E [(''namespace'', ns_name), (''region'', JStr region)]) (ret failed))))))))
       (\<lambda>r t. r = (if made m = m then failed else failed @ [m]) \<and> view (world t) = []) (\<lambda>_ _. False)
       (s\<lparr>world := w, trace := trace s @ [Call ''create_namespace''
          (map kwtext [(''region'', JStr region), (''mode'', JStr m)])]\<rparr>)"
      using j by (auto simp: wp veq_def v intro!: gone)
  qed
qed

text \<open>
  C8. On a machine where the library does what \<open>mode_laws\<close> says and every call of it succeeds, the mode test passes
  exactly when the namespaces were made with the modes asked for, and otherwise fails with the list of the modes
  that were not, whatever the region held before; either way it leaves the region without a namespace.
\<close>

theorem mode_test_decides:
  assumes "mode_laws E region view made" "nd_params E ''region'' = Some (VStr region)" "region \<noteq> []"
  shows "wp (test_namespace_modes E)
     (\<lambda>_ t. filter (\<lambda>m. made m \<noteq> m) nd_modes = [] \<and> view (world t) = [])
     (\<lambda>e t. filter (\<lambda>m. made m \<noteq> m) nd_modes \<noteq> [] \<and> view (world t) = [] \<and>
        e = TestFail (''Namespace for '' @ brackets (map repr_str (filter (\<lambda>m. made m \<noteq> m) nd_modes)) @ '' mode failed!''))
     s"
proof -
  have d: "succeeds (pm_enable_region E []) (\<lambda>w'. view w' = view w) w"
    "succeeds (pm_disable E [(''region'', JStr region)]) (\<lambda>w'. view w' = map (\<lambda>(n, m, _). (n, m, False)) (view w)) w"
    "(\<forall>(n, m, on) \<in> set (view w). \<not> on) \<Longrightarrow>
       succeeds (pm_destroy E [(''region'', JStr region)]) (\<lambda>w'. view w' = []) w" for w
    using assms(1) unfolding mode_laws_def by blast+
  have region: "wp (get_default_region E) (\<lambda>v _. v = JStr region) (\<lambda>_ _. False) t" for t
    unfolding get_default_region_def enable_rg_def kwcall_def wp_sq nd_param_def assms(2)
    by (rule wp_call_succeeds, rule d) (simp add: wp assms(3))
  have clear: "wp (clear_region E (JStr region)) (\<lambda>_ t. view (world t) = []) (\<lambda>_ _. False) t" for t
    unfolding clear_region_def disable_ns_def destroy_ns_def kwcall_def wp_sq
    by (rule wp_call_succeeds, rule d(2), rule wp_call_succeeds, rule d(3)) auto
  have loop: "wp (for_acc nd_modes (mode_step E (JStr region)) [])
     (\<lambda>r t. r = filter (\<lambda>m. made m \<noteq> m) nd_modes \<and> view (world t) = []) (\<lambda>_ _. False) t"
    if "view (world t) = []" for t
    by (rule wp_for_acc[where I = "\<lambda>done r t. r = filter (\<lambda>m. made m \<noteq> m) done \<and> view (world t) = []"])
       (use that in \<open>auto intro!: wp_conseq[OF wp_mode_step[OF assms(1)]]\<close>)
  show ?thesis
    unfolding test_namespace_modes_def fail_on_def wp_try_except
    apply (rule wp_bnd_step[OF region])
     apply (erule ssubst)
     apply (unfold wp_sq wp_log)
     apply (rule wp_conseq[OF clear])
      apply (rule wp_bnd_step[OF loop])
        apply simp
       apply (erule conjE, erule ssubst)
       apply (simp_all add: wp)
    done
qed

subsection \<open>Capabilities\<close>

text \<open>
  What the region a test works on holds: nothing, or the namespace created with the first argument that
  names the region.
\<close>

definition ns_act :: "event \<Rightarrow> bool" where
  "ns_act e = (case e of Call f _ \<Rightarrow> f = ''create_namespace'' \<or> f = ''destroy_namespace'' | _ \<Rightarrow> False)"

inductive ns_step :: "string option \<Rightarrow> event \<Rightarrow> string option \<Rightarrow> bool" where
  create: "ns_step None (Call ''create_namespace'' (r # kws)) (Some r)"
| destroy: "ns_step (Some r) (Call ''destroy_namespace'' (r # kws)) None"
| nothing: "ns_step None (Call ''destroy_namespace'' kws) None"
| all: "ns_step q (Call ''destroy_namespace'' []) None"
| other: "\<not> ns_act e \<Longrightarrow> ns_step q e q"

inductive_cases ns_stepE: "ns_step q e r"

interpretation pmem: protocol ns_step ns_act
proof
  fix q e r r' assume "ns_step q e r" "ns_step q e r'"
  then show "r = r'" by (elim ns_stepE) (auto simp: ns_act_def)
next
  fix q e r assume "\<not> ns_act e"
  then show "ns_step q e r \<longleftrightarrow> r = q"
    by (auto elim!: ns_stepE intro: ns_step.other simp: ns_act_def)
qed

lemma ns_moves:
  assumes "in_state ns_step q0 tr q s"
  shows "q = None \<Longrightarrow> kws = (k, v) # kws' \<Longrightarrow>
      wp (create_ns E kws) (\<lambda>_. in_state ns_step q0 tr (Some (kwtext (k, v)))) (\<lambda>_. in_state ns_step q0 tr (Some (kwtext (k, v)))) s"
    and "q = Some (kwtext (k, v)) \<Longrightarrow> kws = (k, v) # kws' \<Longrightarrow>
      wp (destroy_ns E kws) (\<lambda>_. in_state ns_step q0 tr None) (\<lambda>_. in_state ns_step q0 tr None) s"
    and "wp (destroy_ns E []) (\<lambda>_. in_state ns_step q0 tr None) (\<lambda>_. in_state ns_step q0 tr None) s"
  unfolding create_ns_def destroy_ns_def kwcall_def list.map
proof -
  note c = in_state_call[where step = ns_step, OF assms]
  show "wp (call ''create_namespace'' (map kwtext kws) (pm_create E kws))
      (\<lambda>_. in_state ns_step q0 tr (Some (kwtext (k, v)))) (\<lambda>_. in_state ns_step q0 tr (Some (kwtext (k, v)))) s"
    if "q = None" "kws = (k, v) # kws'"
    unfolding that list.map by (rule c) (simp add: that ns_step.intros)
  show "wp (call ''destroy_namespace'' (map kwtext kws) (pm_destroy E kws))
      (\<lambda>_. in_state ns_step q0 tr None) (\<lambda>_. in_state ns_step q0 tr None) s"
    if "q = Some (kwtext (k, v))" "kws = (k, v) # kws'"
    unfolding that list.map by (rule c) (simp add: that ns_step.intros)
  show "wp (call ''destroy_namespace'' [] (pm_destroy E []))
      (\<lambda>_. in_state ns_step q0 tr None) (\<lambda>_. in_state ns_step q0 tr None) s"
    by (rule c) (rule ns_step.all)
qed

lemma try_sizes_moves:
  assumes "in_state ns_step q0 tr None s"
  shows "wp (try_sizes E region mode key sizes) (\<lambda>_. in_state ns_step q0 tr None) (\<lambda>_ t. \<exists>q. in_state ns_step q0 tr q t) s"
proof -
  have body: "wp (sq (create_ns E [(''region'', region), (''mode'', JStr mode), (key, sz)])
      (destroy_ns E [(''region'', region), (''force'', JVal (VBool True))]))
      (\<lambda>_. in_state ns_step q0 tr None) (\<lambda>_ t. \<exists>q. in_state ns_step q0 tr q t) t"
    if "in_state ns_step q0 tr None t" for t sz
    by (rule wp_sq_step[OF ns_moves(1)[OF that]]) (auto intro!: wp_conseq[OF ns_moves(2)])
  show ?thesis
    unfolding try_sizes_def wp_bnd wp_lift using assms
    by (auto split: sum.split intro!: wp_for_each_inv body)
qed

lemma cap_step_idle: "emits (\<lambda>e. \<not> ns_act e) (cap_step E typ acc)"
  unfolding cap_step_def by (cases acc) (simp, intro emits)

lemma region_capabilities_moves:
  assumes "in_state ns_step q0 tr None s"
  shows "wp (region_capabilities E region) (\<lambda>_. in_state ns_step q0 tr None) (\<lambda>_ t. \<exists>q. in_state ns_step q0 tr q t) s"
proof -
  let ?Q = "\<lambda>_. in_state ns_step q0 tr None" and ?R = "\<lambda>_ t. \<exists>q. in_state ns_step q0 tr q t"
  have sizes: "wp (sq (try_sizes E r m k z) n) ?Q ?R t"
    if "in_state ns_step q0 tr None t" "\<And>u. in_state ns_step q0 tr None u \<Longrightarrow> wp n ?Q ?R u" for r m k z n t
    by (rule wp_sq_step[OF try_sizes_moves[OF that(1)]]) (use that(2) in auto)
  have sizes3: "wp (sq (log l msg) (sq (try_sizes E r m k z) (sq (try_sizes E r m' k' z') (try_sizes E r m'' k'' z'')))) ?Q ?R t"
    if "in_state ns_step q0 tr None t" for l msg r m k z m' k' z' m'' k'' z'' t
    apply (rule pmem.idle_sq[OF that emits_log])
      apply (simp add: ns_act_def)
     apply (rule sizes, assumption)+
     apply (rule try_sizes_moves, assumption)
    apply blast
    done
  have cap: "wp (bnd (for_acc types (cap_step E) a) f) ?Q ?R s"
    if "\<And>x t. in_state ns_step q0 tr None t \<Longrightarrow> wp (f x) ?Q ?R t" for types a f
    by (rule pmem.idle_bnd[OF assms emits_for_acc[OF cap_step_idle]]) (use that in auto)
  show ?thesis
    unfolding region_capabilities_def wp_bnd[of "lift _"] wp_lift
    using assms by (auto split: sum.split prod.split intro!: cap sizes3 simp: wp_bnd[of "lift _"] wp_lift)
qed

text \<open>
  C9. The capabilities test holds at most one namespace: whatever the library answers, a namespace is created only
  when the one before was destroyed in the same region, and a normal end leaves none.
\<close>

theorem capabilities_leave_nothing:
  "wp (test_region_capabilities E) (\<lambda>_. in_state ns_step q (trace s) None)
     (\<lambda>_ t. \<exists>r. in_state ns_step q (trace s) r t) s"
proof -
  let ?I = "in_state ns_step q (trace s)"
  let ?Q = "\<lambda>_. ?I None" and ?R = "\<lambda>_ t. \<exists>r. ?I r t"
  have idle: "wp (sq (kwcall f x kws) n) ?Q ?R t" if "?I p t" "\<not> ns_act (Call f (map kwtext kws))"
    "\<And>u. ?I p u \<Longrightarrow> wp n ?Q ?R u" for f x kws n p t
    by (rule pmem.idle_sq[OF that(1)], unfold kwcall_def, rule emits_call) (use that(2,3) in auto)
  have loop: "wp (for_each rs (region_capabilities E)) ?Q ?R t" if "?I None t" for rs t
    by (rule wp_for_each_inv) (use that region_capabilities_moves in auto)
  have body: "wp (sq (enable_rg E []) (sq (clear_all E)
     (bnd (ndlist E ''-R -C'') (\<lambda>regions. for_each regions (region_capabilities E))))) ?Q ?R s"
    unfolding clear_all_def sq_assoc enable_rg_def disable_ns_def ndlist_def
    apply (rule idle[OF in_state_start], simp add: ns_act_def)
    apply (rule idle, assumption, simp add: ns_act_def)
    apply (rule wp_sq_step[OF ns_moves(3)], assumption)
     apply (rule pmem.idle_bnd[where q = None], assumption, rule emits_call, simp add: ns_act_def)
      apply (rule loop, assumption)
     apply blast+
    done
  show ?thesis
    unfolding test_region_capabilities_def fail_on_def wp_try_except
    by (rule wp_conseq[OF body]) (simp_all add: wp split: exn.split)
qed

subsection \<open>A system to apply the theorems to\<close>

text \<open>
  One region of 1000 bytes with three slots; the world is the free space, the mode of the last
  namespace and whether it is enabled. A namespace without a size takes the whole region, and a mode of \<^verbatim>\<open>raw\<close>
  is listed as \<^verbatim>\<open>memory\<close>.
\<close>

definition nd_made :: "string \<Rightarrow> string" where
  "nd_made m = (if m = ''raw'' then ''memory'' else m)"

definition nd_region :: "string \<Rightarrow> int \<Rightarrow> json" where
  "nd_region name sz = JObj [(''dev'', JStr name), (''size'', JInt sz)]"

definition nd_listing :: "string \<Rightarrow> (int \<times> string \<times> bool, json list) ext" where
  "nd_listing opts w =
     (Inr (if opts = ''-R'' then [nd_region ''region0'' 1000, nd_region ''region1'' 4000, nd_region ''region2'' 4000]
           else if opts = ''-r region0 -N'' then
             (if fst w \<noteq> 1000 \<and> snd (snd w) then [JObj [(''dev'', JStr ''namespace0.0''), (''mode'', JStr (nd_made (fst (snd w))))]] else [])
           else [nd_region ''region0'' 1000]), w)"

definition nd_creation :: "kwargs \<Rightarrow> (int \<times> string \<times> bool, unit) ext" where
  "nd_creation kws w =
    (let m = (case map_of kws ''mode'' of Some (JVal (VStr m)) \<Rightarrow> m | _ \<Rightarrow> []) in
     case map_of kws ''size'' of
       Some (JVal (VInt z)) \<Rightarrow> if z \<le> fst w then (Inr (), (fst w - z, m, True)) else (Inl (PMemException ''no space''), w)
     | _ \<Rightarrow> if fst w = 1000 then (Inr (), (0, m, True)) else (Inl (PMemException ''no space''), w))"

definition nd_demo :: "(string \<Rightarrow> pyval option) \<Rightarrow> (int \<times> string \<times> bool) nd_env" where
  "nd_demo params =
     \<lparr>nd_params = params, nd_distro = query (''rhel'', VStr ''9''), nd_check = \<lambda>_. query True, nd_install = \<lambda>_. query True,
      nd_system = \<lambda>_. query 0, nd_system_strict = \<lambda>_. query 0, nd_run = \<lambda>_. query (), nd_output = \<lambda>_. query [],
      nd_exists = \<lambda>_. query True, nd_makedirs = \<lambda>_. query (), nd_copy = \<lambda>_ _. query (), nd_chdir = \<lambda>_. query (),
      nd_abspath = \<lambda>p. query p, nd_fetch = \<lambda>u. query u, nd_extract = \<lambda>_ _. query (), nd_make = \<lambda>_. query (),
      nd_get_repo = \<lambda>_ _ _. query (), nd_git_helper = \<lambda>_ _. query (), nd_checkout = \<lambda>_. query (),
      nd_read_line = \<lambda>p. query (if p = ''/sys/bus/nd/devices/region0/align'' then ''0x10'' else ''24''),
      nd_get_data = \<lambda>d. query d, nd_page_size = query 65536, nd_huge_sizes = query [2048], nd_mem_total = query 0,
      nd_tmpdir = ''/tmp'', pm_init = \<lambda>_ _. query (), pm_check_buses = query True, pm_list = nd_listing,
      pm_daxctl_list = \<lambda>_. query [],
      pm_val = \<lambda>j k. Inr (case j of JObj kvs \<Rightarrow> (case map_of kvs k of None \<Rightarrow> JNone | Some v \<Rightarrow> v) | _ \<Rightarrow> JNone),
      pm_enable_region = \<lambda>_. query (), pm_disable_region = \<lambda>_. query (), pm_create = nd_creation,
      pm_destroy = \<lambda>_ w. (Inr (), (1000, fst (snd w), False)), pm_enable = \<lambda>_. query (),
      pm_disable = \<lambda>_ w. (Inr (), (fst w, fst (snd w), False)),
      pm_write_infoblock = \<lambda>_. query (), pm_read_infoblock = \<lambda>_. query [], pm_slot_count = \<lambda>_. query 3,
      pm_is_legacy = \<lambda>_. query False, pm_ndctl_subcmd = \<lambda>_. query True, pm_daxctl_subcmd = \<lambda>_. query True,
      pm_reconfigure_dax = \<lambda>_ _. query JNone, pm_dax_offline = \<lambda>_. query (), pm_dax_online = \<lambda>_. query (),
      nd_mkfs = \<lambda>_ _ _. query (), nd_mount = \<lambda>_. query (), nd_unmount = \<lambda>_. query ()\<rparr>"

definition nd_demo_state :: "(int \<times> string \<times> bool) nd_st" where
  "nd_demo_state =
     \<lparr>world = (0, [], False), trace = [], nd_dist = (''rhel'', VStr ''9''), nd_package = VStr ''distro'', preserve_setup = Some (VBool False),
      mode_to_use = VStr ''fsdax'', size_1g_align = VStr ''2g'', ndctl_bin = ''ndctl'', daxctl_bin = ''daxctl'',
      nd_part = None, nd_disk = None, has_plib = True\<rparr>"

lemma nd_demo_space: "region_space (nd_demo params) (JStr ''region0'') fst 1000"
  by (auto simp: region_space_def succeeds_def nd_demo_def nd_creation_def)

lemma nd_demo_files: "alignment_files (nd_demo params) 16 24"
proof -
  have "py_int16 ''0x10'' = Inr 16" "py_int ''24'' = Inr 24" by code_simp+
  then show ?thesis by (auto simp: alignment_files_def nd_demo_def)
qed

lemma lcm_16_24: "lcm (16::int) 24 = 48"
proof -
  have "py_lcm 16 24 = Inr 48" by code_simp
  then show ?thesis using py_lcm_pos[of 16 24] by simp
qed

theorem region_is_filled_witness:
  "wp (multiple_namespaces_region (nd_demo (\<lambda>_. None)) (JStr ''region0''))
     (\<lambda>_ t. creates (trace t) = replicate 3 (create_event (JStr ''region0'') (VStr ''fsdax'') 288) \<and>
        0 \<le> fst (world t) \<and> fst (world t) < 3 * 48 \<and> (\<forall>y::int. 48 dvd y \<and> 3 * y \<le> 1000 \<longrightarrow> y \<le> 288))
     (\<lambda>_ _. False) nd_demo_state"
proof -
  have l: "pm_list (nd_demo (\<lambda>_. None)) (''-r '' @ jstr (JStr ''region0'')) = query [nd_region ''region0'' 1000]"
    by (rule ext) (simp add: nd_demo_def nd_listing_def)
  have v: "pm_val (nd_demo (\<lambda>_. None)) (nd_region ''region0'' 1000) ''size'' = Inr (JInt 1000)"
    by (simp add: nd_demo_def nd_region_def)
  have z: "(288::int) = 1000 div 3 div lcm 16 24 * lcm 16 24" unfolding lcm_16_24 by simp
  have n: "pm_slot_count (nd_demo (\<lambda>_. None)) (JStr ''region0'') = query 3"
    "nd_params (nd_demo (\<lambda>_. None)) ''size'' = None" by (simp_all add: nd_demo_def)
  show ?thesis
    by (rule wp_conseq[OF region_is_filled[OF nd_demo_space nd_demo_files _ _ n(1) _ l v n(2) z]])
       (simp_all add: lcm_16_24 nd_demo_state_def)
qed

theorem bad_size_is_an_error_witness:
  "wp (multiple_namespaces_region (nd_demo [''size'' \<mapsto> VStr ''null'']) (JStr ''region0''))
     (\<lambda>_ _. False) (\<lambda>e _. e = TypeError) nd_demo_state"
  by (rule bad_size_is_an_error[OF nd_demo_space nd_demo_files, of _ 3 "VStr ''null''"])
     (simp_all add: nd_demo_def bad_size_def)

theorem default_region_is_largest_witness:
  "wp (get_default_region (nd_demo (\<lambda>_. None))) (\<lambda>v _. v = JStr ''region1'') (\<lambda>_ _. False) nd_demo_state"
proof -
  let ?E = "nd_demo (\<lambda>_. None)"
  let ?rs = "[nd_region ''region0'' 1000, nd_region ''region1'' 4000, nd_region ''region2'' 4000]"
  let ?field = "\<lambda>j k. case j of JObj kvs \<Rightarrow> the (map_of kvs k)"
  let ?sz = "\<lambda>j. case ?field j ''size'' of JVal (VInt n) \<Rightarrow> n"
  have l: "pm_list ?E ''-R'' = query ?rs" by (rule ext) (simp add: nd_demo_def nd_listing_def)
  have e: "\<forall>w. succeeds (pm_enable_region ?E []) (\<lambda>_. True) w" "nd_params ?E ''region'' = None"
    by (simp_all add: nd_demo_def succeeds_def)
  have f: "\<forall>r \<in> set ?rs. jget r ''size'' = Inr (JInt (?sz r)) \<and> pm_val ?E r ''dev'' = Inr (?field r ''dev'')"
    by (simp add: nd_demo_def nd_region_def jget_def)
  have "?rs \<noteq> []" by simp
  from default_region_is_largest[OF e l this f, of nd_demo_state] show ?thesis
    by (rule wp_conseq) (auto simp: Cons_eq_append_conv nd_region_def)
qed

definition nd_view :: "int \<times> string \<times> bool \<Rightarrow> nspace list" where
  "nd_view w = (if fst w = 1000 then [] else [(''namespace0.0'', nd_made (fst (snd w)), snd (snd w))])"

theorem mode_test_decides_witness:
  "wp (test_namespace_modes (nd_demo [''region'' \<mapsto> VStr ''region0'']))
     (\<lambda>_ _. False) (\<lambda>e t. e = TestFail (''Namespace for '' @ brackets [repr_str ''raw''] @ '' mode failed!'') \<and> nd_view (world t) = [])
     nd_demo_state"
proof -
  have laws: "mode_laws (nd_demo [''region'' \<mapsto> VStr ''region0'']) ''region0'' nd_view nd_made"
    unfolding mode_laws_def
    by (intro conjI) (auto simp: succeeds_def nd_demo_def nd_creation_def nd_listing_def nd_view_def ns_listed_def)
  have f: "filter (\<lambda>m. nd_made m \<noteq> m) nd_modes = [''raw'']" by code_simp
  have "nd_params (nd_demo [''region'' \<mapsto> VStr ''region0'']) ''region'' = Some (VStr ''region0'')"
    by (simp add: nd_demo_def)
  from mode_test_decides[OF laws this, of nd_demo_state] show ?thesis
    unfolding f by (auto elim!: wp_conseq)
qed

end
