(* ===== verification/Nd_Types.thy ===== *)
theory Nd_Types
  imports Nd_Props
begin

section \<open>Types of the NVDIMM tests\<close>

text \<open>
  The code takes what \<^verbatim>\<open>ndctl\<close> prints apart without checks. \<open>typed P m\<close> says that \<open>m\<close> never ends in an
  error of types (\<^verbatim>\<open>TypeError\<close>, \<^verbatim>\<open>AttributeError\<close>, \<^verbatim>\<open>KeyError\<close>) and that its results satisfy \<open>P\<close>; the rules
  follow the structure of a body like those of a type system. The types of the listings are \<open>schema\<close>.
\<close>

definition type_error :: "exn \<Rightarrow> bool" where
  "type_error e \<longleftrightarrow> e \<in> {TypeError, AttributeError, KeyError}"

lemma type_error_simps [simp]:
  "type_error TypeError" "type_error AttributeError" "type_error KeyError"
  "\<not> type_error (TestFail m)" "\<not> type_error (TestCancel m)" "\<not> type_error IndexError"
  "\<not> type_error ValueError" "\<not> type_error ZeroDivisionError"
  by (simp_all add: type_error_def)

definition result_typed :: "('a \<Rightarrow> bool) \<Rightarrow> 'a result \<Rightarrow> bool" where
  "result_typed P r = (case r of Inl e \<Rightarrow> \<not> type_error e | Inr x \<Rightarrow> P x)"

definition typed :: "('a \<Rightarrow> bool) \<Rightarrow> ('s, 'a) py \<Rightarrow> bool" where
  "typed P m \<longleftrightarrow> (\<forall>s. wp m (\<lambda>v _. P v) (\<lambda>e _. \<not> type_error e) s)"

definition ext_typed :: "('a \<Rightarrow> bool) \<Rightarrow> ('w, 'a) ext \<Rightarrow> bool" where
  "ext_typed P x \<longleftrightarrow> (\<forall>w. result_typed P (fst (x w)))"

named_theorems typed \<open>rules for typed bodies\<close>

lemma result_typed_simps [simp]:
  "result_typed P (Inr x) = P x" "result_typed P (Inl e) = (\<not> type_error e)"
  by (simp_all add: result_typed_def)

lemma typed_conseq: "typed P m \<Longrightarrow> (\<And>v. P v \<Longrightarrow> Q v) \<Longrightarrow> typed Q m"
  unfolding typed_def by (blast intro: wp_conseq)

lemma typed_ret: "P x \<Longrightarrow> typed P (ret x)"
  by (simp add: typed_def wp)

lemma typed_raise [typed]: "typed P (fail m)" "typed P (cancel m)"
  by (simp_all add: typed_def wp)

lemma typed_effects [typed]:
  "typed (\<lambda>_. True) (log l m)" "typed (\<lambda>_. True) (emit e)" "typed (\<lambda>_. True) (modify g)" "typed (\<lambda>_. True) (gets h)"
  by (simp_all add: typed_def wp)

lemma typed_lift: "result_typed P r \<Longrightarrow> typed P (lift r)"
  by (simp add: typed_def wp result_typed_def split: sum.splits)

lemma typed_call:
  assumes "ext_typed P x"
  shows "typed P (call f as x)"
  unfolding typed_def wp_call
proof
  fix s
  obtain r w where x: "x (world s) = (r, w)" by (cases "x (world s)")
  with assms have "result_typed P r" unfolding ext_typed_def by (metis fst_conv)
  with x show "case x (world s) of
      (Inl e, w) \<Rightarrow> \<not> type_error e | (Inr v, w) \<Rightarrow> P v"
    by (simp add: result_typed_def split: sum.splits)
qed

lemma typed_bnd [typed]: "typed P m \<Longrightarrow> (\<And>v. P v \<Longrightarrow> typed Q (f v)) \<Longrightarrow> typed Q (bnd m f)"
  unfolding typed_def by (blast intro: wp_bnd_step)

lemma typed_sq [typed]: "typed (\<lambda>_. True) m \<Longrightarrow> typed Q n \<Longrightarrow> typed Q (sq m n)"
  unfolding sq_def by (rule typed_bnd)

lemma typed_if [typed]: "(b \<Longrightarrow> typed P m) \<Longrightarrow> (\<not> b \<Longrightarrow> typed P n) \<Longrightarrow> typed P (if b then m else n)"
  by simp

lemma typed_whenb [typed]: "(b \<Longrightarrow> typed (\<lambda>_. True) m) \<Longrightarrow> typed (\<lambda>_. True) (whenb b m)"
  by (simp add: whenb_def typed_ret)

text \<open>What follows a guard runs only when the guard let it pass.\<close>

lemma typed_guard:
  "(\<not> b \<Longrightarrow> typed P n) \<Longrightarrow> typed P (sq (whenb b (cancel m)) n)"
  "(\<not> b \<Longrightarrow> typed P n) \<Longrightarrow> typed P (sq (whenb b (fail m)) n)"
  by (cases b; simp add: typed_def whenb_def wp)+

lemma typed_let [typed]: "typed P (f a) \<Longrightarrow> typed P (let x = a in f x)"
  by simp

lemma typed_case_option [typed]:
  "typed P m \<Longrightarrow> (\<And>v. typed P (f v)) \<Longrightarrow> typed P (case x of None \<Rightarrow> m | Some v \<Rightarrow> f v)"
  by (simp split: option.split)

lemma typed_for_each [typed]: "(\<And>x. x \<in> set xs \<Longrightarrow> typed (\<lambda>_. True) (f x)) \<Longrightarrow> typed (\<lambda>_. True) (for_each xs f)"
  by (induction xs) (auto intro: typed_sq typed_ret)

lemma typed_for_acc:
  "P a \<Longrightarrow> (\<And>x b. x \<in> set xs \<Longrightarrow> P b \<Longrightarrow> typed P (f x b)) \<Longrightarrow> typed P (for_acc xs f a)"
  by (induction xs arbitrary: a) (auto intro: typed_bnd typed_ret)

lemma typed_for_ret [typed]:
  "(\<And>x. x \<in> set xs \<Longrightarrow> typed (\<lambda>_. True) (f x)) \<Longrightarrow> typed (\<lambda>_. True) (for_ret xs f)"
  by (induction xs) (auto intro!: typed_bnd typed_ret split: option.split)

lemma typed_fail_on [typed]: "typed P m \<Longrightarrow> typed P (fail_on m)"
  unfolding fail_on_def typed_def wp_try_except
  by (intro allI) (erule allE, erule wp_conseq, auto simp: wp split: exn.split)

lemma typed_on_pmem [typed]:
  assumes "typed (\<lambda>_. True) m" "typed (\<lambda>_. True) h" "typed (\<lambda>_. True) n"
  shows "typed (\<lambda>_. True) (on_pmem m h n)"
proof -
  have r: "typed (\<lambda>_. True) (sq m (ret True))" "typed (\<lambda>_. True) (sq h (ret False))"
    by (intro typed assms typed_ret TrueI)+
  have "typed (\<lambda>_. True) (try_except (sq m (ret True))
      (\<lambda>e. case e of PMemException _ \<Rightarrow> sq h (ret False) | _ \<Rightarrow> raise e))"
    unfolding typed_def wp_try_except
  proof
    fix s
    show "wp (sq m (ret True)) (\<lambda>_ _. True)
        (\<lambda>e. wp (case e of PMemException _ \<Rightarrow> sq h (ret False) | _ \<Rightarrow> raise e) (\<lambda>_ _. True) (\<lambda>e _. \<not> type_error e)) s"
      by (rule wp_conseq[OF r(1)[unfolded typed_def, rule_format]])
         (use r(2)[unfolded typed_def] in \<open>auto simp: wp_raise split: exn.split\<close>)
  qed
  then show ?thesis unfolding on_pmem_def by (intro typed assms)
qed

subsection \<open>The types of the listings\<close>

definition cap_type :: "json \<Rightarrow> bool" where
  "cap_type j \<longleftrightarrow> (\<exists>kvs m. j = JObj kvs \<and> map_of kvs ''mode'' = Some (JStr m) \<and>
     (m \<in> {''fsdax'', ''devdax''} \<longrightarrow> (\<exists>xs. map_of kvs ''alignments'' = Some (JArr xs))) \<and>
     (m = ''sector'' \<longrightarrow> (\<exists>xs. map_of kvs ''sector_sizes'' = Some (JArr xs))))"

definition schema :: "string \<Rightarrow> json \<Rightarrow> bool" where
  "schema opts j \<longleftrightarrow> (\<exists>kvs. j = JObj kvs \<and>
     (\<exists>d. map_of kvs ''dev'' = Some (JStr d)) \<and>
     (opts \<notin> {''-B'', ''-D'', ''-DH''} \<longrightarrow> (\<exists>n. map_of kvs ''size'' = Some (JInt n))) \<and>
     (\<forall>h. map_of kvs ''health'' = Some h \<longrightarrow> (\<exists>hs. h = JObj hs)) \<and>
     (opts = ''-R -C'' \<longrightarrow> (\<exists>cs. map_of kvs ''capabilities'' = Some (JArr cs) \<and> (\<forall>c \<in> set cs. cap_type c))))"

definition is_text :: "json \<Rightarrow> bool" where "is_text j \<longleftrightarrow> (\<exists>s. j = JStr s)"
definition is_int :: "json \<Rightarrow> bool" where "is_int j \<longleftrightarrow> (\<exists>n. j = JInt n)"

text \<open>
  What the library promises: no operation ends in an error of types, the listings have their types, and
  \<^verbatim>\<open>run_ndctl_list_val\<close> looks a field up. Of the parameters, a region is given by its name, a text.
\<close>

definition well_typed :: "'w nd_env \<Rightarrow> bool" where
  "well_typed E \<longleftrightarrow>
     (\<forall>opts. ext_typed (\<lambda>l. \<forall>j \<in> set l. schema opts j) (pm_list E opts)) \<and>
     (\<forall>kvs k. pm_val E (JObj kvs) k = Inr (case map_of kvs k of None \<Rightarrow> JNone | Some v \<Rightarrow> v)) \<and>
     (\<forall>kws. ext_typed (\<lambda>l. \<forall>j \<in> set l. \<exists>kvs n. j = JObj kvs \<and> map_of kvs ''align'' = Some (JInt n)) (pm_read_infoblock E kws)) \<and>
     (\<forall>a b kws j. ext_typed (\<lambda>_. True) (nd_check E a) \<and> ext_typed (\<lambda>_. True) (nd_install E a) \<and>
        ext_typed (\<lambda>_. True) (nd_system E a) \<and> ext_typed (\<lambda>_. True) (nd_system_strict E a) \<and>
        ext_typed (\<lambda>_. True) (nd_run E a) \<and> ext_typed (\<lambda>_. True) (nd_output E a) \<and>
        ext_typed (\<lambda>_. True) (nd_exists E a) \<and> ext_typed (\<lambda>_. True) (nd_makedirs E a) \<and>
        ext_typed (\<lambda>_. True) (nd_copy E a b) \<and> ext_typed (\<lambda>_. True) (nd_fetch E a) \<and>
        ext_typed (\<lambda>_. True) (nd_extract E a b) \<and> ext_typed (\<lambda>_. True) (nd_make E a) \<and>
        ext_typed (\<lambda>_. True) (nd_read_line E a) \<and> ext_typed (\<lambda>_. True) (nd_get_data E a) \<and>
        ext_typed (\<lambda>_. True) (nd_page_size E) \<and> ext_typed (\<lambda>_. True) (nd_huge_sizes E) \<and>
        ext_typed (\<lambda>_. True) (nd_mem_total E) \<and> ext_typed (\<lambda>_. True) (pm_daxctl_list E a) \<and>
        ext_typed (\<lambda>_. True) (pm_enable_region E kws) \<and> ext_typed (\<lambda>_. True) (pm_disable_region E kws) \<and>
        ext_typed (\<lambda>_. True) (pm_create E kws) \<and> ext_typed (\<lambda>_. True) (pm_destroy E kws) \<and>
        ext_typed (\<lambda>_. True) (pm_enable E kws) \<and> ext_typed (\<lambda>_. True) (pm_disable E kws) \<and>
        ext_typed (\<lambda>_. True) (pm_write_infoblock E kws) \<and> ext_typed (\<lambda>_. True) (pm_slot_count E j) \<and>
        ext_typed (\<lambda>_. True) (pm_is_legacy E j) \<and> ext_typed (\<lambda>_. True) (pm_ndctl_subcmd E a) \<and>
        ext_typed (\<lambda>_. True) (pm_daxctl_subcmd E a) \<and> ext_typed (\<lambda>_. True) (pm_reconfigure_dax E j a) \<and>
        ext_typed (\<lambda>_. True) (pm_dax_offline E j) \<and> ext_typed (\<lambda>_. True) (pm_dax_online E j) \<and>
        (\<forall>p. ext_typed (\<lambda>_. True) (nd_mkfs E p a b) \<and> ext_typed (\<lambda>_. True) (nd_mount E p) \<and>
             ext_typed (\<lambda>_. True) (nd_unmount E p)))"

definition region_named :: "'w nd_env \<Rightarrow> bool" where
  "region_named E \<longleftrightarrow> (case nd_params E ''region'' of None \<Rightarrow> True | Some v \<Rightarrow> \<not> truthy v \<or> is_text (JVal v))"

definition typed_setup :: "'w nd_env \<Rightarrow> bool" where
  "typed_setup E \<longleftrightarrow> well_typed E \<and> region_named E"

named_theorems library \<open>the library operations are typed\<close>

lemma ext_typed_lib:
  assumes "typed_setup E"
  shows "ext_typed (\<lambda>_. True) (nd_check E a)" "ext_typed (\<lambda>_. True) (nd_install E a)"
    "ext_typed (\<lambda>_. True) (nd_system E a)" "ext_typed (\<lambda>_. True) (nd_system_strict E a)"
    "ext_typed (\<lambda>_. True) (nd_run E a)" "ext_typed (\<lambda>_. True) (nd_output E a)"
    "ext_typed (\<lambda>_. True) (nd_exists E a)" "ext_typed (\<lambda>_. True) (nd_makedirs E a)"
    "ext_typed (\<lambda>_. True) (nd_copy E a b)" "ext_typed (\<lambda>_. True) (nd_fetch E a)"
    "ext_typed (\<lambda>_. True) (nd_extract E a b)" "ext_typed (\<lambda>_. True) (nd_make E a)"
    "ext_typed (\<lambda>_. True) (nd_read_line E a)" "ext_typed (\<lambda>_. True) (nd_get_data E a)"
    "ext_typed (\<lambda>_. True) (nd_page_size E)" "ext_typed (\<lambda>_. True) (nd_huge_sizes E)"
    "ext_typed (\<lambda>_. True) (nd_mem_total E)" "ext_typed (\<lambda>_. True) (pm_daxctl_list E a)"
    "ext_typed (\<lambda>_. True) (pm_enable_region E kws)" "ext_typed (\<lambda>_. True) (pm_disable_region E kws)"
    "ext_typed (\<lambda>_. True) (pm_create E kws)" "ext_typed (\<lambda>_. True) (pm_destroy E kws)"
    "ext_typed (\<lambda>_. True) (pm_enable E kws)" "ext_typed (\<lambda>_. True) (pm_disable E kws)"
    "ext_typed (\<lambda>_. True) (pm_write_infoblock E kws)" "ext_typed (\<lambda>_. True) (pm_slot_count E j)"
    "ext_typed (\<lambda>_. True) (pm_is_legacy E j)" "ext_typed (\<lambda>_. True) (pm_ndctl_subcmd E a)"
    "ext_typed (\<lambda>_. True) (pm_daxctl_subcmd E a)" "ext_typed (\<lambda>_. True) (pm_reconfigure_dax E j a)"
    "ext_typed (\<lambda>_. True) (pm_dax_offline E j)" "ext_typed (\<lambda>_. True) (pm_dax_online E j)"
    "ext_typed (\<lambda>_. True) (nd_mkfs E p a b)" "ext_typed (\<lambda>_. True) (nd_mount E p)" "ext_typed (\<lambda>_. True) (nd_unmount E p)"
  using assms unfolding typed_setup_def well_typed_def by blast+

lemma typed_lib [library]:
  assumes "typed_setup E"
  shows "typed (\<lambda>_. True) (nsystem E a)" "typed (\<lambda>_. True) (nsystem_strict E a)" "typed (\<lambda>_. True) (nrun E a)"
    "typed (\<lambda>_. True) (noutput E a)" "typed (\<lambda>_. True) (nexists E a)" "typed (\<lambda>_. True) (nread E a)"
    "typed (\<lambda>_. True) (create_ns E kws)" "typed (\<lambda>_. True) (destroy_ns E kws)" "typed (\<lambda>_. True) (enable_ns E kws)"
    "typed (\<lambda>_. True) (disable_ns E kws)" "typed (\<lambda>_. True) (enable_rg E kws)" "typed (\<lambda>_. True) (disable_rg E kws)"
    "typed (\<lambda>_. True) (slot_count E j)" "typed (\<lambda>_. True) (is_legacy E j)" "typed (\<lambda>_. True) (mem_total E)"
    "typed (\<lambda>_. True) (dax_reconfigure E j a)" "typed (\<lambda>_. True) (dax_offline E j)" "typed (\<lambda>_. True) (dax_online E j)"
    "typed (\<lambda>_. True) (copyutil E a b)" "typed (\<lambda>_. True) (clear_region E j)" "typed (\<lambda>_. True) (clear_all E)"
    "typed (\<lambda>_. True) (call f as (nd_check E a))" "typed (\<lambda>_. True) (call f as (nd_install E a))"
    "typed (\<lambda>_. True) (call f as (nd_fetch E a))" "typed (\<lambda>_. True) (call f as (nd_extract E a b))"
    "typed (\<lambda>_. True) (call f as (nd_make E a))" "typed (\<lambda>_. True) (call f as (nd_page_size E))"
    "typed (\<lambda>_. True) (call f as (nd_huge_sizes E))" "typed (\<lambda>_. True) (call f as (pm_daxctl_list E a))"
    "typed (\<lambda>_. True) (call f as (pm_ndctl_subcmd E a))" "typed (\<lambda>_. True) (call f as (pm_daxctl_subcmd E a))"
    "typed (\<lambda>_. True) (call f as (nd_get_data E a))" "typed (\<lambda>_. True) (call f as (nd_makedirs E a))"
    "typed (\<lambda>_. True) (call f as (nd_copy E a b))" "typed (\<lambda>_. True) (call f as (nd_mkfs E p a b))"
    "typed (\<lambda>_. True) (call f as (nd_mount E p))" "typed (\<lambda>_. True) (call f as (nd_unmount E p))"
    "typed (\<lambda>_. True) (kwcall f (pm_write_infoblock E) kws)"
  unfolding nsystem_def nsystem_strict_def nrun_def noutput_def nexists_def nread_def create_ns_def destroy_ns_def
    enable_ns_def disable_ns_def enable_rg_def disable_rg_def slot_count_def is_legacy_def mem_total_def
    dax_reconfigure_def dax_offline_def dax_online_def copyutil_def clear_region_def clear_all_def kwcall_def
  by (intro typed_call typed_sq ext_typed_lib[OF assms])+


lemma typed_listing [library]:
  assumes "typed_setup E"
  shows "typed (\<lambda>l. \<forall>j \<in> set l. schema opts j) (ndlist E opts)"
    "typed (\<lambda>l. \<forall>j \<in> set l. \<exists>kvs n. j = JObj kvs \<and> map_of kvs ''align'' = Some (JInt n))
       (kwcall ''read_infoblock'' (pm_read_infoblock E) kws)"
  using assms unfolding typed_setup_def well_typed_def ndlist_def kwcall_def by (blast intro: typed_call)+

lemma pm_val_obj: "typed_setup E \<Longrightarrow> pm_val E (JObj kvs) k = Inr (case map_of kvs k of None \<Rightarrow> JNone | Some v \<Rightarrow> v)"
  unfolding typed_setup_def well_typed_def by blast

text \<open>The fields of a listing; a field without a type of its own may be anything.\<close>

lemma schema_obj: "schema opts j \<Longrightarrow> \<exists>kvs. j = JObj kvs"
  by (auto simp: schema_def)

lemma typed_fields [library]:
  assumes "typed_setup E"
  shows "schema opts j \<Longrightarrow> typed is_text (lift (pm_val E j ''dev''))"
    and "schema opts j \<Longrightarrow> opts \<notin> {''-B'', ''-D'', ''-DH''} \<Longrightarrow> typed is_int (lift (pm_val E j ''size''))"
    and "schema opts j \<Longrightarrow> typed (\<lambda>h. h = JNone \<or> (\<exists>hs. h = JObj hs)) (lift (pm_val E j ''health''))"
    and "schema ''-R -C'' j \<Longrightarrow> typed (\<lambda>c. \<exists>cs. c = JArr cs \<and> (\<forall>c \<in> set cs. cap_type c)) (lift (pm_val E j ''capabilities''))"
    and "schema opts j \<Longrightarrow> typed (\<lambda>_. True) (lift (pm_val E j k))"
proof -
  note v = pm_val_obj[OF assms]
  show "typed is_text (lift (pm_val E j ''dev''))" if "schema opts j"
  proof -
    from that obtain kvs d where "j = JObj kvs" "map_of kvs ''dev'' = Some (JStr d)" unfolding schema_def by blast
    then show ?thesis by (intro typed_lift) (simp add: v is_text_def)
  qed
  show "typed is_int (lift (pm_val E j ''size''))" if "schema opts j" "opts \<notin> {''-B'', ''-D'', ''-DH''}"
  proof -
    from that obtain kvs n where "j = JObj kvs" "map_of kvs ''size'' = Some (JInt n)" unfolding schema_def by blast
    then show ?thesis by (intro typed_lift) (simp add: v is_int_def)
  qed
  show "typed (\<lambda>h. h = JNone \<or> (\<exists>hs. h = JObj hs)) (lift (pm_val E j ''health''))" if "schema opts j"
  proof -
    from that obtain kvs where "j = JObj kvs" "\<forall>h. map_of kvs ''health'' = Some h \<longrightarrow> (\<exists>hs. h = JObj hs)"
      unfolding schema_def by blast
    then show ?thesis by (intro typed_lift) (simp add: v split: option.split)
  qed
  show "typed (\<lambda>c. \<exists>cs. c = JArr cs \<and> (\<forall>c \<in> set cs. cap_type c)) (lift (pm_val E j ''capabilities''))"
    if "schema ''-R -C'' j"
  proof -
    from that obtain kvs cs where "j = JObj kvs" "map_of kvs ''capabilities'' = Some (JArr cs)" "\<forall>c \<in> set cs. cap_type c"
      unfolding schema_def by blast
    then show ?thesis by (intro typed_lift) (simp add: v)
  qed
  show "typed (\<lambda>_. True) (lift (pm_val E j k))" if "schema opts j"
  proof -
    from schema_obj[OF that] obtain kvs where "j = JObj kvs" by blast
    then show ?thesis by (intro typed_lift) (simp add: v)
  qed
qed

lemma typed_py_nth [library]: "typed_setup E \<Longrightarrow> \<forall>j \<in> set l. P j \<Longrightarrow> typed P (lift (py_nth l 0))"
  by (rule typed_lift) (simp add: py_nth_def)

subsection \<open>The types of the parts\<close>

lemma typed_first_val:
  assumes "typed_setup E"
  shows "typed is_text (first_val E opts ''dev'')" "typed (\<lambda>_. True) (first_val E opts k)"
    and "opts \<notin> {''-B'', ''-D'', ''-DH''} \<Longrightarrow> typed is_int (first_val E opts ''size'')"
  unfolding first_val_def
  by (rule typed_bnd[OF typed_listing(1)[OF assms]], rule typed_bnd[OF typed_py_nth[OF assms]], assumption,
      rule typed_fields[OF assms], assumption, assumption?)+

lemma by_size_typed:
  assumes "\<forall>r \<in> set rs. schema ''-R'' r"
  shows "result_typed (\<lambda>l. \<forall>r \<in> set l. schema ''-R'' r) (by_size rs)"
proof -
  define sz where "sz r = (THE n. jget r ''size'' = Inr (JInt n))" for r
  have "jget r ''size'' = Inr (JInt (sz r))" if "r \<in> set rs" for r
  proof -
    have "schema ''-R'' r" using assms that by blast
    then obtain kvs n where "r = JObj kvs" "map_of kvs ''size'' = Some (JInt n)" unfolding schema_def by blast
    then show ?thesis by (simp add: sz_def jget_def)
  qed
  then have m: "mapM_r (\<lambda>r. jget r ''size'') rs = Inr (map (\<lambda>r. JInt (sz r)) rs)" by (rule mapM_r_total)
  have n: "mapM_r jnum (map (\<lambda>r. JInt (sz r)) rs) = Inr (map (\<lambda>r. NInt (sz r)) rs)"
    by (induction rs) simp_all
  show ?thesis using assms m n by (auto simp: by_size_def dest: set_zip_rightD)
qed

lemma typed_default_region:
  assumes "typed_setup E"
  shows "typed is_text (get_default_region E)"
proof -
  let ?v = "nd_param E ''region'' VNone"
  have p: "\<exists>s. ?v = VStr s" if "truthy ?v"
    using assms that unfolding typed_setup_def region_named_def nd_param_def by (auto simp: is_text_def split: option.splits)
  have list: "typed is_text (bnd (ndlist E ''-R'') (\<lambda>regions. bnd (lift (by_size regions)) (\<lambda>rs.
      bnd (lift (py_nth rs 0)) (\<lambda>r. lift (pm_val E r ''dev'')))))"
    by (rule typed_bnd[OF typed_listing(1)[OF assms]], rule typed_bnd[OF typed_lift[OF by_size_typed]], assumption,
        rule typed_bnd[OF typed_py_nth[OF assms]], assumption, rule typed_fields(1)[OF assms])
  show ?thesis
    unfolding get_default_region_def Let_def
    by (rule typed_sq[OF typed_lib(11)[OF assms]], rule typed_if)
       (use p list in \<open>auto intro: typed_ret simp: is_text_def\<close>)
qed

lemma typed_trivial [typed]: "typed (\<lambda>_. True) (ret x)"
  by (simp add: typed_ret)

lemma typed_text [typed]: "is_text j \<Longrightarrow> typed (\<lambda>_. True) (lift (rbind (jtext j) first_digits))"
  by (rule typed_lift) (auto simp: is_text_def first_digits_def Let_def)

lemma result_typed_parse:
  "result_typed (\<lambda>_. True) (py_int t)" "result_typed (\<lambda>_. True) (py_int16 t)" "result_typed (\<lambda>_. True) (py_lcm a b)"
  "result_typed (\<lambda>_. True) (quoted_field t)"
  by (simp_all add: py_int_def py_int16_def py_lcm_def quoted_field_def py_nth_def Let_def split: option.split)

lemma typed_parse [typed]:
  "typed (\<lambda>_. True) (lift (py_int t))" "typed (\<lambda>_. True) (lift (py_int16 t))" "typed (\<lambda>_. True) (lift (py_lcm a b))"
  "typed (\<lambda>_. True) (lift (quoted_field t))" "typed (\<lambda>_. True) (lift (py_nth l i))"
  by (rule typed_lift, rule result_typed_parse)+ (rule typed_lift, simp add: py_nth_def)

lemma typed_numbers [typed]:
  "is_int j \<Longrightarrow> typed (\<lambda>_. True) (lift (jmod j n))" "is_int j \<Longrightarrow> typed (\<lambda>_. True) (lift (jless_int j n))"
  "is_int j \<Longrightarrow> typed (\<lambda>_. True) (lift (jminus j n))" "is_int j \<Longrightarrow> typed (\<lambda>_. True) (lift (jhalf j))"
  "is_int j \<Longrightarrow> typed (\<lambda>_. True) (lift (jint j))"
  by (rule typed_lift, force simp: is_int_def jmod_def jless_int_def jminus_def jhalf_def jint_def nmod_def nfloordiv_def)+

subsection \<open>The tests\<close>

lemma typed_helpers:
  assumes "typed_setup E"
  shows "typed (\<lambda>_. True) (get_size_alignval E)"
    and "is_text region \<Longrightarrow> typed (\<lambda>_. True) (check_namespace_align E region)"
    and "typed (\<lambda>_. True) (need_pkgs E msg pkgs)" and "typed (\<lambda>_. True) (build_fio E)"
    and "typed (\<lambda>_. True) (get_shutdown_state E region)"
    and "typed (\<lambda>_. True) (create_gib E region kws)" and "typed (\<lambda>_. True) (label_cmd E f m)"
    and "typed (\<lambda>_. True) (smart_step E region a)"
proof -
  note R = typed_fields(1-4)[OF assms] typed_fields(5)[OF assms] typed_listing[OF assms] typed_py_nth[OF assms]
    typed_lib[OF assms] typed
  show "typed (\<lambda>_. True) (get_size_alignval E)"
    unfolding get_size_alignval_def by (rule R)+
  have ns: "typed (\<lambda>_. True) (check_align_ns E n ns)" if "schema opts ns" for n ns opts
    unfolding check_align_ns_def by (insert that, (rule R | assumption | (simp; fail))+)
  show "is_text region \<Longrightarrow> typed (\<lambda>_. True) (check_namespace_align E region)"
    unfolding check_namespace_align_def by (rule ns R | assumption | blast)+
  show pk: "typed (\<lambda>_. True) (need_pkgs E msg pkgs)" for msg pkgs
    unfolding need_pkgs_def by (rule R)+
  show "typed (\<lambda>_. True) (build_fio E)"
    unfolding build_fio_def by (rule pk R)+
  show "typed (\<lambda>_. True) (get_shutdown_state E region)"
    unfolding get_shutdown_state_def by (rule R)+
  show "typed (\<lambda>_. True) (create_gib E region kws)"
    unfolding create_gib_def by (rule R)+
  show "typed (\<lambda>_. True) (label_cmd E f m)"
    unfolding label_cmd_def by (rule R)+
  show "typed (\<lambda>_. True) (smart_step E region a)"
    unfolding smart_step_def by (rule R)+
qed

lemma typed_dimm_health:
  assumes "typed_setup E" "schema opts dimm"
  shows "typed (\<lambda>_. True) (dimm_health E dimm)"
proof -
  note R = typed_fields(1-4)[OF assms(1)] typed_lib[OF assms(1)] typed
  have jin: "typed (\<lambda>b. b \<longrightarrow> map_of hs k \<noteq> None) (lift (jin k (JObj hs)))" for hs k
    by (rule typed_lift) (simp add: jin_def)
  have jget: "typed (\<lambda>_. True) (lift (jget (JObj hs) k))" if "map_of hs k \<noteq> None" for hs k
    by (rule typed_lift) (use that in \<open>auto simp: jget_def\<close>)
  have bad: "typed (\<lambda>_. True) (bad_state (JObj hs) k g m)" for hs k g m
    unfolding bad_state_def by (rule typed_bnd[OF jin], rule typed, rule typed_bnd[OF jget]) (simp, rule typed, rule typed)
  have life: "typed (\<lambda>_. True) (bnd (lift (jin k (JObj hs))) (\<lambda>b. sq (whenb (\<not> b) (fail m))
      (bnd (lift (jget (JObj hs) k)) (\<lambda>v. log l (f v)))))" for hs k m l f
    by (rule typed_bnd[OF jin], rule typed_guard, rule typed_bnd[OF jget]) (simp, rule typed)
  show ?thesis
    unfolding dimm_health_def
    apply (rule typed_bnd[OF typed_fields(3)[OF assms]])
    apply (rule typed_bnd[OF typed_fields(1)[OF assms]])
    apply (rule typed_bnd, rule typed, assumption)
    apply (rule typed_bnd, rule R)
    apply (rule typed_guard)
    apply (elim disjE exE)
     apply simp
    apply (erule ssubst)
    apply (rule life bad R)+
    done
qed

text \<open>
  A size given as parameter is only taken apart without an error of types when it is a whole number and a
  multiple of each alignment that the test may compute; without a size there is no such condition.
\<close>

definition size_fits :: "'w nd_env \<Rightarrow> bool" where
  "size_fits E \<longleftrightarrow>
     \<not> truthy (nd_param E ''size'' VNone) \<or>
     (\<exists>v. nd_param E ''size'' VNone = VInt v \<and> (\<forall>s. wp (get_size_alignval E) (\<lambda>a _. a dvd v) (\<lambda>_ _. True) s))"

lemma typed_conj_wp:
  assumes "typed (\<lambda>_. True) m" "\<And>s. wp m (\<lambda>v _. P v) (\<lambda>_ _. True) s"
  shows "typed P m"
  unfolding typed_def
proof
  fix s
  show "wp m (\<lambda>v _. P v) (\<lambda>e _. \<not> type_error e) s"
    by (rule wp_conseq[OF wp_conj[OF assms(1)[unfolded typed_def, rule_format] assms(2)]]) simp_all
qed

lemma typed_multiple:
  assumes "typed_setup E" "is_text region" "size_fits E"
  shows "typed (\<lambda>_. True) (multiple_namespaces_region E region)"
proof -
  note R = typed_helpers[OF assms(1)] typed_first_val(3)[OF assms(1)] typed_lib[OF assms(1)] typed
  let ?v = "nd_param E ''size'' VNone"
  define fits where "fits a \<longleftrightarrow> \<not> truthy ?v \<or> (\<exists>v. ?v = VInt v \<and> a dvd v)" for a :: int
  have fits: "wp (get_size_alignval E) (\<lambda>a _. fits a) (\<lambda>_ _. True) s" for s
    using assms(3) typed_helpers(1)[OF assms(1), unfolded typed_def, rule_format, of s]
    unfolding size_fits_def fits_def by (blast intro: wp_conseq)
  have ali: "typed fits (get_size_alignval E)"
    by (rule typed_conj_wp[OF typed_helpers(1)[OF assms(1)]])
       (rule fits)
  have mis: "typed (\<lambda>b. \<not> b) (lift (misaligned ?v a))" if "fits a" for a
  proof (rule typed_lift)
    have "nmod (NInt v) (NInt a) = (if a = 0 then Inl ZeroDivisionError else Inr (NInt (v mod a)))" for v
      by (simp add: nmod_def narith_def)
    then show "result_typed (\<lambda>b. \<not> b) (misaligned ?v a)"
      using that by (auto simp: fits_def misaligned_def jmod_def dvd_eq_mod_eq_0)
  qed
  have split: "typed (\<lambda>p. \<exists>k. snd p = NInt k) (lift (split_region ?v j n a))" if "is_int j" "fits a" for j n a
    by (rule typed_lift) (use that in \<open>auto simp: fits_def split_region_def is_int_def nfloordiv_def narith_def\<close>)
  have slots: "typed (\<lambda>_. True) (create_slots E region z (NInt k))" for z k
    unfolding create_slots_def nrange_int by (rule R | simp)+
  have fine: "typed (\<lambda>_. True) (sq (whenb b m) n)" if "\<not> b" "typed (\<lambda>_. True) n" for b and m n :: "('w, unit) nd"
    using that by (simp add: typed_def whenb_def wp)
  show ?thesis
    unfolding multiple_namespaces_region_def Let_def
    apply (rule typed_bnd[OF ali])
    apply (rule typed_bnd, rule R)
    apply (rule typed_sq, rule R)+
    apply (rule typed_bnd[OF mis], assumption)
    apply (rule fine, assumption)
    apply (rule typed_bnd, rule R, simp)
    apply (rule typed_bnd[OF split], assumption, assumption)
    apply (auto intro!: typed slots)
    done
qed

lemma typed_infoblock:
  assumes "typed_setup E"
  shows "typed (\<lambda>j. \<exists>kvs n. j = JObj kvs \<and> map_of kvs ''align'' = Some (JInt n)) (write_read_infoblock E ns a z)"
    and "typed (\<lambda>_. True) (need_infoblock E)" and "typed (\<lambda>p. is_text (snd p)) (infoblock_ns E align)"
    and "typed (\<lambda>_. True) (huge_size E)" and "typed (\<lambda>_. True) (enable_must_fail E ns)"
    and "(\<forall>j \<in> set l. schema opts j) \<Longrightarrow> opts \<notin> {''-B'', ''-D'', ''-DH''} \<Longrightarrow> typed (\<lambda>_. True) (sized_namespace E l)"
proof -
  note R = typed_guard typed_lib[OF assms] typed
  have ali: "typed is_int (lift (pm_val E j ''align''))" if "\<exists>kvs n. j = JObj kvs \<and> map_of kvs ''align'' = Some (JInt n)" for j
    by (rule typed_lift) (use that in \<open>auto simp: pm_val_obj[OF assms] is_int_def\<close>)
  show "typed (\<lambda>j. \<exists>kvs n. j = JObj kvs \<and> map_of kvs ''align'' = Some (JInt n)) (write_read_infoblock E ns a z)"
    unfolding write_read_infoblock_def
    apply (rule typed_fail_on, rule typed_sq, rule R)
    apply (rule typed_bnd[OF typed_listing(2)[OF assms]])
    apply (rule typed_sq, rule typed_whenb, rule typed_bnd[OF typed_py_nth[OF assms]], assumption)
      apply (rule typed_bnd[OF ali], assumption, (rule R | assumption)+)
    apply (rule typed_py_nth[OF assms], assumption)
    done
  show need: "typed (\<lambda>_. True) (need_infoblock E)"
    unfolding need_infoblock_def by (rule R)+
  show "typed (\<lambda>p. is_text (snd p)) (infoblock_ns E align)"
    unfolding infoblock_ns_def
    by (rule typed_sq[OF need], rule typed_bnd[OF typed_default_region[OF assms]], (rule typed_sq, rule R)+,
        rule typed_bnd[OF typed_first_val(1)[OF assms]]) (simp add: typed_ret)
  show "typed (\<lambda>_. True) (huge_size E)"
    unfolding huge_size_def by (rule R)+
  show "typed (\<lambda>_. True) (enable_must_fail E ns)"
    unfolding enable_must_fail_def by (rule R typed_listing(1)[OF assms])+
  show "typed (\<lambda>_. True) (sized_namespace E l)" if "\<forall>j \<in> set l. schema opts j" "opts \<notin> {''-B'', ''-D'', ''-DH''}"
    unfolding sized_namespace_def
    by (rule typed_bnd, rule typed_for_ret, rule typed_bnd[OF typed_fields(2)[OF assms]], insert that)
       (blast | rule R | assumption)+
qed

lemma typed_capabilities:
  assumes "typed_setup E" "schema ''-R -C'' region"
  shows "typed (\<lambda>_. True) (region_capabilities E region)"
proof -
  note R = typed_lib[OF assms(1)] typed
  let ?P = "\<lambda>(a, b, c). \<exists>x y z. a = JArr x \<and> b = JArr y \<and> c = JArr z"
  have step: "typed ?P (cap_step E ty acc)" if "cap_type ty" "?P acc" for ty acc
  proof -
    from that(1) obtain kvs m where j: "ty = JObj kvs" "map_of kvs ''mode'' = Some (JStr m)"
      "m \<in> {''fsdax'', ''devdax''} \<longrightarrow> (\<exists>xs. map_of kvs ''alignments'' = Some (JArr xs))"
      "m = ''sector'' \<longrightarrow> (\<exists>xs. map_of kvs ''sector_sizes'' = Some (JArr xs))"
      unfolding cap_type_def by blast
    from that(2) obtain x y z where a: "acc = (JArr x, JArr y, JArr z)" by (cases acc) auto
    note D = cap_step_def a j(1,2) pm_val_obj[OF assms(1)] typed_ret
    consider "m = ''fsdax''" | "m = ''devdax''" | "m = ''sector''" | "m \<notin> {''fsdax'', ''devdax'', ''sector''}" by blast
    then show ?thesis
    proof cases
      case 1
      with j(3) obtain xs where "map_of kvs ''alignments'' = Some (JArr xs)" by blast
      with 1 show ?thesis by (simp add: D)
    next
      case 2
      with j(3) obtain xs where "map_of kvs ''alignments'' = Some (JArr xs)" by blast
      with 2 show ?thesis by (simp add: D veq_def)
    next
      case 3
      with j(4) obtain xs where "map_of kvs ''sector_sizes'' = Some (JArr xs)" by blast
      with 3 show ?thesis by (simp add: D veq_def)
    next
      case 4
      then show ?thesis by (simp add: D veq_def)
    qed
  qed
  have sizes: "typed (\<lambda>_. True) (try_sizes E r m k (JArr xs))" for r m k xs
    unfolding try_sizes_def jiter_def by (simp add: jiter_def, (rule R)+)
  have types: "typed (\<lambda>l. \<forall>c \<in> set l. cap_type c) (lift (jiter c))" if "\<exists>cs. c = JArr cs \<and> (\<forall>c \<in> set cs. cap_type c)" for c
    by (rule typed_lift) (use that in \<open>auto simp: jiter_def\<close>)
  show ?thesis
    unfolding region_capabilities_def
    apply (rule typed_bnd[OF typed_fields(4)[OF assms]])
    apply (rule typed_bnd[OF types], assumption)
    apply (rule typed_bnd[OF typed_for_acc[where P = ?P]])
      apply simp
     apply (rule step, blast, assumption)
    apply (clarsimp simp del: lift_simps)
    apply (rule typed_bnd[OF typed_fields(1)[OF assms]])
    apply (rule R sizes)+
    done
qed

lemma typed_reconfigure:
  assumes "typed_setup E"
  shows "typed (\<lambda>_. True) (test_namespace_reconfigure E)"
proof -
  note R = typed_lib[OF assms] typed
  have items: "typed (\<lambda>_. True) (lift (jitems j))" if "schema [] j" for j
    using schema_obj[OF that] by (auto intro!: typed_lift simp: jitems_def)
  have old: "typed (\<lambda>_. True) (if b then ret [] else lift (jitems j))" if "schema [] j" for b j
    by (rule typed_if, rule R, rule items[OF that])
  show ?thesis
    unfolding test_namespace_reconfigure_def added_field_def
    apply (rule typed_fail_on, rule typed_bnd[OF typed_default_region[OF assms]])
    apply (rule typed_sq, rule R)+
    apply (rule typed_bnd[OF typed_listing(1)[OF assms]])
    apply (rule typed_bnd[OF typed_py_nth[OF assms]], assumption)
    apply (rule typed_bnd[OF typed_fields(1)[OF assms]], assumption)
    apply (rule typed_sq, rule R)+
    apply (rule typed_bnd[OF typed_listing(1)[OF assms]])
    apply (rule typed_bnd[OF typed_py_nth[OF assms]], assumption)
    apply (rule typed_sq, rule R)
    apply (rule typed_bnd[OF items], assumption)
    apply (rule typed_bnd[OF old], assumption)
    apply (rule R)+
    done
qed

text \<open>
  The tests of the class with their default arguments, and \<^verbatim>\<open>tearDown\<close>: those that never read the parameter
  \<^verbatim>\<open>size\<close>, and the two that do.
\<close>

definition nd_tests :: "'w nd_env \<Rightarrow> ('w, unit) nd list" where
  "nd_tests E =
     [test_bus_ids E, test_dimms E, test_dimm_health E, test_regions E, test_namespace E, test_namespace_unaligned E,
      test_disable_enable_ns E, test_namespace_modes E, test_namespace_devmap E,
      test_multiple_ns_modes_region E, test_nslot_namespace E,
      test_namespace_reconfigure E, test_check_namespace E, test_check_numa E, test_check_ns_numa E,
      test_label_read_write E ''2M'', test_daxctl_list E, test_region_capabilities E, test_daxctl_memhotplug_unplug E ''2M'',
      test_write_infoblock_supported_align E ''2M'', test_write_infoblock_unalign E ''2M'',
      test_write_infoblock_align_default E ''2M'', test_write_infoblock_size E ''2M'',
      test_write_infoblock_size_unaligned E ''2M'', test_sector_write E, test_fsdax_write E ''2M'', test_map_sync E,
      test_devdax_write E ''2M'', test_namespace_1gb_alignment E, test_namespace_1gb_alignment_enable_disable E,
      test_modes_1gb_alignment_namespaces E, test_daxctl_1gb_alignment_memhotplug_unplug E,
      test_fsdax_write_1gb_alignment E, test_devdax_write_1gb_alignment E, test_label_read_write_1gb_alignment E,
      test_write_infoblock_1gb_alignment E, test_devmap_Optimisation E, test_inject_SMART_errors E, nd_tearDown E]"

definition sized_tests :: "'w nd_env \<Rightarrow> ('w, unit) nd list" where
  "sized_tests E = [test_multiple_namespaces_region E, test_multiple_ns_multiple_region E]"

lemma typed_listing_tests:
  assumes "typed_setup E"
  shows "typed (\<lambda>_. True) (test_bus_ids E)" "typed (\<lambda>_. True) (test_dimms E)" "typed (\<lambda>_. True) (test_dimm_health E)"
    "typed (\<lambda>_. True) (test_regions E)" "typed (\<lambda>_. True) (test_namespace E)" "typed (\<lambda>_. True) (test_namespace_unaligned E)"
proof -
  note L = typed_listing(1)[OF assms] and F = typed_fields[OF assms]
    and R = typed_guard typed_helpers[OF assms] typed_lib[OF assms] typed
  show "typed (\<lambda>_. True) (test_bus_ids E)" "typed (\<lambda>_. True) (test_dimms E)"
    unfolding test_bus_ids_def test_dimms_def by (rule L R)+
  show "typed (\<lambda>_. True) (test_dimm_health E)"
    unfolding test_dimm_health_def by (rule L typed_dimm_health[OF assms] R | blast)+
  show "typed (\<lambda>_. True) (test_regions E)"
    unfolding test_regions_def by (rule L R)+
  show "typed (\<lambda>_. True) (test_namespace E)"
    unfolding test_namespace_def by (rule L F(1) R | assumption | blast)+
  show "typed (\<lambda>_. True) (test_namespace_unaligned E)"
    unfolding test_namespace_unaligned_def by (rule L F(1) R | assumption | blast)+
qed

lemma typed_names: "typed_setup E \<Longrightarrow> \<forall>j \<in> set l. schema opts j \<Longrightarrow> typed (\<lambda>_. True) (lift (mapM_r (\<lambda>ns. pm_val E ns ''dev'') l))"
proof (rule typed_lift)
  assume wt: "typed_setup E" and l: "\<forall>j \<in> set l. schema opts j"
  have "\<exists>v. pm_val E j ''dev'' = Inr v" if "j \<in> set l" for j
  proof -
    from l that obtain kvs where "j = JObj kvs" using schema_obj by blast
    then show ?thesis by (simp add: pm_val_obj[OF wt])
  qed
  then have "mapM_r (\<lambda>ns. pm_val E ns ''dev'') l = Inr (map (\<lambda>ns. case pm_val E ns ''dev'' of Inr v \<Rightarrow> v) l)"
    by (intro mapM_r_total) fastforce
  then show "result_typed (\<lambda>_. True) (mapM_r (\<lambda>ns. pm_val E ns ''dev'') l)" by simp
qed

lemma typed_namespace_tests:
  assumes "typed_setup E"
  shows "typed (\<lambda>_. True) (test_disable_enable_ns E)" "typed (\<lambda>_. True) (test_namespace_modes E)"
    "typed (\<lambda>_. True) (test_namespace_devmap E)" "typed (\<lambda>_. True) (test_multiple_ns_modes_region E)"
    "typed (\<lambda>_. True) (test_check_namespace E)"
proof -
  note D = typed_default_region[OF assms] and L = typed_listing(1)[OF assms] and F = typed_fields[OF assms]
    and V = typed_first_val(1,3)[OF assms] typed_first_val(2)[OF assms]
    and R = typed_guard typed_helpers[OF assms] typed_lib[OF assms] typed
  show "typed (\<lambda>_. True) (test_disable_enable_ns E)"
    unfolding test_disable_enable_ns_def by (rule D L typed_names[OF assms] V R | assumption | (simp; fail))+
  have step: "typed (\<lambda>_. True) (mode_step E r m f)" for r m f
    unfolding mode_step_def by (rule L typed_py_nth[OF assms] F(1) F(5) R | assumption)+
  have loop: "typed (\<lambda>_. True) (for_acc ms (mode_step E r) a)" for ms r a
    by (rule typed_for_acc) (rule TrueI step)+
  show "typed (\<lambda>_. True) (test_namespace_modes E)"
    unfolding test_namespace_modes_def by (rule D loop R)+
  show "typed (\<lambda>_. True) (test_namespace_devmap E)"
    unfolding test_namespace_devmap_def by (rule D V R)+
  show "typed (\<lambda>_. True) (test_multiple_ns_modes_region E)"
    unfolding test_multiple_ns_modes_region_def by (rule D V R | assumption | (simp; fail))+
  show "typed (\<lambda>_. True) (test_check_namespace E)"
    unfolding test_check_namespace_def by (rule D V R)+
qed

lemma typed_sized_tests:
  assumes "typed_setup E" "size_fits E"
  shows "typed (\<lambda>_. True) (test_multiple_namespaces_region E)" "typed (\<lambda>_. True) (test_multiple_ns_multiple_region E)"
proof -
  note D = typed_default_region[OF assms(1)] and L = typed_listing(1)[OF assms(1)] and F = typed_fields[OF assms(1)]
    and R = typed_guard typed_helpers[OF assms(1)] typed_multiple[OF assms(1) _ assms(2)] typed_lib[OF assms(1)] typed
  show "typed (\<lambda>_. True) (test_multiple_namespaces_region E)"
    unfolding test_multiple_namespaces_region_def by (rule D R | assumption)+
  show "typed (\<lambda>_. True) (test_multiple_ns_multiple_region E)"
    unfolding test_multiple_ns_multiple_region_def by (rule L F(1) R | assumption | blast)+
qed

lemma typed_slot_tests:
  assumes "typed_setup E"
  shows "typed (\<lambda>_. True) (test_nslot_namespace E)" "typed (\<lambda>_. True) (test_check_numa E)"
    "typed (\<lambda>_. True) (test_check_ns_numa E)" "typed (\<lambda>_. True) (test_label_read_write E align)"
    "typed (\<lambda>_. True) (test_daxctl_list E)" "typed (\<lambda>_. True) (test_region_capabilities E)"
    "typed (\<lambda>_. True) (test_daxctl_memhotplug_unplug E align)"
proof -
  note D = typed_default_region[OF assms] and L = typed_listing(1)[OF assms] and F = typed_fields[OF assms]
    and V = typed_first_val(1,3)[OF assms] typed_first_val(2)[OF assms]
    and R = typed_guard typed_helpers[OF assms] typed_lib[OF assms] typed
  have split: "typed (\<lambda>p. \<exists>k. snd p = NInt k) (lift (split_region VNone j n a))" if "is_int j" for j n a
    by (rule typed_lift) (use that in \<open>auto simp: split_region_def is_int_def nfloordiv_def\<close>)
  have range: "typed (\<lambda>_. True) (lift (Inr l))" for l :: "int list"
    by (rule typed_lift) simp
  show "typed (\<lambda>_. True) (test_nslot_namespace E)"
    unfolding test_nslot_namespace_def
    apply (rule typed_fail_on, rule typed_bnd[OF D])
    apply (rule typed_bnd, rule R, rule typed_guard, rule typed_bnd, rule R, rule typed_bnd, rule R)
    apply (rule typed_sq, rule R)+
    apply (rule typed_bnd, rule V, simp)
    apply (rule typed_bnd[OF split], assumption)
    apply (clarsimp simp del: lift_simps)
    apply (rule R range | assumption | blast)+
    done
  have "typed (\<lambda>_. True) (numa_region E j)" if "schema opts j" for j opts
    unfolding numa_region_def by (rule typed_bnd[OF F(1)[OF that]], (rule L R)+)
  then show "typed (\<lambda>_. True) (test_check_numa E)"
    unfolding test_check_numa_def by - (rule L R | blast)+
  have ns: "typed (\<lambda>_. True) (numa_namespace E j)" if "schema opts j" for j opts
    unfolding numa_namespace_def by (rule typed_bnd[OF F(1)[OF that]], (rule L R)+)
  have all: "typed (\<lambda>_. True) (numa_all_namespaces E j)" for j
    unfolding numa_all_namespaces_def by (rule L R ns | blast)+
  have "typed (\<lambda>_. True) (ns_numa_region E j)" if "schema ''-R'' j" for j
    unfolding ns_numa_region_def
    by (insert that, (rule F(1) F(2) all R | assumption | (simp; fail))+)
  then show "typed (\<lambda>_. True) (test_check_ns_numa E)"
    unfolding test_check_ns_numa_def by - (rule L R | blast)+
  show "typed (\<lambda>_. True) (test_label_read_write E align)"
    unfolding test_label_read_write_def by (rule D L R | assumption)+
  show "typed (\<lambda>_. True) (test_daxctl_list E)"
    unfolding test_daxctl_list_def by (rule D R | assumption)+
  show "typed (\<lambda>_. True) (test_region_capabilities E)"
    unfolding test_region_capabilities_def by (rule L typed_capabilities[OF assms] R | blast)+
  show "typed (\<lambda>_. True) (test_daxctl_memhotplug_unplug E align)"
    unfolding test_daxctl_memhotplug_unplug_def by (rule D V R)+
qed

lemma typed_disk_tests:
  assumes "typed_setup E"
  shows "typed (\<lambda>_. True) (test_sector_write E)" "typed (\<lambda>_. True) (test_fsdax_write E align)"
    "typed (\<lambda>_. True) (test_map_sync E)" "typed (\<lambda>_. True) (test_devdax_write E align)" "typed (\<lambda>_. True) (nd_tearDown E)"
proof -
  note D = typed_default_region[OF assms] and L = typed_listing(1)[OF assms]
    and V = typed_first_val(1,3)[OF assms] typed_first_val(2)[OF assms]
    and R = typed_guard typed_helpers[OF assms] typed_lib[OF assms] typed
  have disk: "typed (\<lambda>_. True) (set_disk E r)" for r
    unfolding set_disk_def by (rule V R)+
  have fs: "typed (\<lambda>_. True) (mount_fs E d m o' x)" for d m o' x
    unfolding mount_fs_def by (rule R)+
  have fio: "typed (\<lambda>_. True) (fio_workload E m z j)" if "is_int z" for m z j
    unfolding fio_workload_def by (insert that, (rule R | assumption)+)
  show "typed (\<lambda>_. True) (test_sector_write E)"
    unfolding test_sector_write_def by (rule D disk V fs fio R | assumption | (simp; fail))+
  show "typed (\<lambda>_. True) (test_fsdax_write E align)"
    unfolding test_fsdax_write_def by (rule D disk V fs fio R | assumption | (simp; fail))+
  show "typed (\<lambda>_. True) (test_map_sync E)"
    unfolding test_map_sync_def by (rule D disk fs R)+
  show "typed (\<lambda>_. True) (test_devdax_write E align)"
    unfolding test_devdax_write_def by (rule D V R)+
  show "typed (\<lambda>_. True) (nd_tearDown E)"
    unfolding nd_tearDown_def by (rule L R)+
qed

lemma typed_block_tests:
  assumes "typed_setup E"
  shows "typed (\<lambda>_. True) (test_write_infoblock_supported_align E align)" "typed (\<lambda>_. True) (test_write_infoblock_unalign E align)"
    "typed (\<lambda>_. True) (test_write_infoblock_align_default E align)" "typed (\<lambda>_. True) (test_write_infoblock_size E align)"
    "typed (\<lambda>_. True) (test_write_infoblock_size_unaligned E align)"
proof -
  note I = typed_infoblock[OF assms] and L = typed_listing(1)[OF assms]
    and V = typed_first_val(1,3)[OF assms] typed_first_val(2)[OF assms]
    and R = typed_guard typed_helpers[OF assms] typed_lib[OF assms] typed
  have any: "typed (\<lambda>_. True) (write_read_infoblock E ns a z)" for ns a z
    by (rule typed_conseq[OF I(1)]) simp
  have ns: "typed (\<lambda>_. True) (bnd (infoblock_ns E align) (\<lambda>(region, ns_name). f region ns_name))"
    if "\<And>r n. typed (\<lambda>_. True) (f r n)" for f :: "json \<Rightarrow> json \<Rightarrow> ('a, unit) nd"
    by (rule typed_bnd[OF I(3)]) (use that in auto)
  show "typed (\<lambda>_. True) (test_write_infoblock_supported_align E align)"
    unfolding test_write_infoblock_supported_align_def by (rule ns any I(4) R)+
  show "typed (\<lambda>_. True) (test_write_infoblock_unalign E align)"
    unfolding test_write_infoblock_unalign_def by (rule ns any I(4-6) L R | assumption | (simp; fail))+
  have v: "typed (\<lambda>_. True) (lift (pm_val E j k))" if "\<exists>kvs n. j = JObj kvs \<and> map_of kvs ''align'' = Some (JInt n)" for j k
    by (rule typed_lift) (use that in \<open>auto simp: pm_val_obj[OF assms]\<close>)
  show "typed (\<lambda>_. True) (test_write_infoblock_align_default E align)"
    unfolding test_write_infoblock_align_default_def by (rule ns I(1) v V(3) R | assumption)+
  show "typed (\<lambda>_. True) (test_write_infoblock_size E align)"
    unfolding test_write_infoblock_size_def by (rule ns any V R | assumption | (simp; fail))+
  show "typed (\<lambda>_. True) (test_write_infoblock_size_unaligned E align)"
    unfolding test_write_infoblock_size_unaligned_def by (rule ns any I(5) V R | assumption | (simp; fail))+
qed

lemma typed_gib_tests:
  assumes "typed_setup E"
  shows "typed (\<lambda>_. True) (test_namespace_1gb_alignment E)" "typed (\<lambda>_. True) (test_namespace_1gb_alignment_enable_disable E)"
    "typed (\<lambda>_. True) (test_modes_1gb_alignment_namespaces E)" "typed (\<lambda>_. True) (test_daxctl_1gb_alignment_memhotplug_unplug E)"
    "typed (\<lambda>_. True) (test_fsdax_write_1gb_alignment E)" "typed (\<lambda>_. True) (test_devdax_write_1gb_alignment E)"
    "typed (\<lambda>_. True) (test_label_read_write_1gb_alignment E)" "typed (\<lambda>_. True) (test_write_infoblock_1gb_alignment E)"
    "typed (\<lambda>_. True) (test_devmap_Optimisation E)" "typed (\<lambda>_. True) (test_inject_SMART_errors E)"
proof -
  note D = typed_default_region[OF assms] and L = typed_listing(1)[OF assms] and F = typed_fields[OF assms]
    and V = typed_first_val(1,3)[OF assms] typed_first_val(2)[OF assms]
    and R = typed_guard typed_helpers[OF assms] typed_lib[OF assms] typed
  show "typed (\<lambda>_. True) (test_namespace_1gb_alignment E)"
    unfolding test_namespace_1gb_alignment_def by (rule D V L typed_py_nth[OF assms] F(5) R | assumption)+
  show "typed (\<lambda>_. True) (test_namespace_1gb_alignment_enable_disable E)"
    unfolding test_namespace_1gb_alignment_enable_disable_def by (rule D V R | assumption)+
  show "typed (\<lambda>_. True) (test_modes_1gb_alignment_namespaces E)"
    unfolding test_modes_1gb_alignment_namespaces_def by (rule D V R)+
  show "typed (\<lambda>_. True) (test_daxctl_1gb_alignment_memhotplug_unplug E)" "typed (\<lambda>_. True) (test_fsdax_write_1gb_alignment E)"
    "typed (\<lambda>_. True) (test_devdax_write_1gb_alignment E)" "typed (\<lambda>_. True) (test_label_read_write_1gb_alignment E)"
    "typed (\<lambda>_. True) (test_write_infoblock_1gb_alignment E)"
    unfolding test_daxctl_1gb_alignment_memhotplug_unplug_def test_fsdax_write_1gb_alignment_def
      test_devdax_write_1gb_alignment_def test_label_read_write_1gb_alignment_def test_write_infoblock_1gb_alignment_def
    by (rule typed_fail_on typed_sq typed_slot_tests[OF assms] typed_disk_tests[OF assms] typed_block_tests[OF assms])+
  show "typed (\<lambda>_. True) (test_devmap_Optimisation E)"
    unfolding test_devmap_Optimisation_def by (rule D R)+
  show "typed (\<lambda>_. True) (test_inject_SMART_errors E)"
    unfolding test_inject_SMART_errors_def by (rule D R)+
qed

text \<open>
  C6. Type soundness. Let the library answer with values of the documented types and let the parameter
  \<^verbatim>\<open>region\<close>, if given, be a text. Then no test that does not read the parameter \<^verbatim>\<open>size\<close>, and no \<^verbatim>\<open>tearDown\<close>, ends in a
  \<^verbatim>\<open>TypeError\<close>, an \<^verbatim>\<open>AttributeError\<close> or a \<^verbatim>\<open>KeyError\<close>, in whatever state it is run; and the two tests that read it
  do not either when no size is given, or a whole number that is a multiple of the alignment. (Any other size
  meets the wrong call of \<^verbatim>\<open>self.cancel\<close>, or, as a text, the \<^verbatim>\<open>%\<close> before it: \<open>bad_size_is_an_error\<close>.)
\<close>

theorem tests_are_type_sound:
  assumes "well_typed E" "region_named E"
  shows "list_all (\<lambda>t. \<forall>s. wp t (\<lambda>_ _. True) (\<lambda>e _. e \<noteq> TypeError \<and> e \<noteq> AttributeError \<and> e \<noteq> KeyError) s) (nd_tests E) \<and>
    (size_fits E \<longrightarrow>
      list_all (\<lambda>t. \<forall>s. wp t (\<lambda>_ _. True) (\<lambda>e _. e \<noteq> TypeError \<and> e \<noteq> AttributeError \<and> e \<noteq> KeyError) s) (sized_tests E))"
proof -
  have E: "typed_setup E" using assms by (simp add: typed_setup_def)
  have iff: "(\<lambda>t :: ('a, unit) nd. \<forall>s. wp t (\<lambda>_ _. True) (\<lambda>e _. e \<noteq> TypeError \<and> e \<noteq> AttributeError \<and> e \<noteq> KeyError) s)
      = typed (\<lambda>_. True)"
    by (rule ext) (simp add: typed_def type_error_def)
  have "list_all (typed (\<lambda>_. True)) (nd_tests E)"
    unfolding nd_tests_def list.pred_inject(2)
    by (intro conjI list.pred_inject(1) typed_listing_tests[OF E] typed_namespace_tests[OF E] typed_slot_tests[OF E]
          typed_disk_tests[OF E] typed_block_tests[OF E] typed_gib_tests[OF E] typed_reconfigure[OF E])
  moreover have "size_fits E \<Longrightarrow> list_all (typed (\<lambda>_. True)) (sized_tests E)"
    unfolding sized_tests_def by (simp add: typed_sized_tests[OF E])
  ultimately show ?thesis unfolding iff by blast
qed

definition typed_listing_demo :: "string \<Rightarrow> json list" where
  "typed_listing_demo opts =
     (if opts = ''-R -C'' then
        [JObj [(''dev'', JStr ''region0''), (''size'', JInt 1000),
               (''capabilities'', JArr [JObj [(''mode'', JStr ''fsdax''), (''alignments'', JArr [JInt 2097152])],
                                      JObj [(''mode'', JStr ''sector''), (''sector_sizes'', JArr [JInt 512])]])]]
      else [nd_region ''region0'' 1000])"

lemma ext_typed_query [simp]: "ext_typed P (query v) = P v"
  by (simp add: ext_typed_def)

definition typed_demo_env :: "(int \<times> string \<times> bool) nd_env" where
  "typed_demo_env = nd_demo [''region'' \<mapsto> VStr ''region0'', ''size'' \<mapsto> VInt 96]
     \<lparr>pm_list := \<lambda>opts. query (typed_listing_demo opts)\<rparr>"

lemma typed_demo: "well_typed typed_demo_env"
proof -
  have "ext_typed (\<lambda>_. True) (nd_creation kws)" for kws
    by (simp add: ext_typed_def nd_creation_def Let_def type_error_def split: option.split json.split pyval.split)
  moreover have "ext_typed (\<lambda>_. True) (\<lambda>w. (Inr (), 1000, fst (snd w), False))"
    "ext_typed (\<lambda>_. True) (\<lambda>w. (Inr (), fst w, fst (snd w), False))" by (simp_all add: ext_typed_def)
  ultimately show ?thesis
    by (simp add: well_typed_def typed_demo_env_def nd_demo_def typed_listing_demo_def schema_def cap_type_def nd_region_def)
qed

theorem tests_are_type_sound_witness:
  "list_all (\<lambda>t. \<forall>s. wp t (\<lambda>_ _. True) (\<lambda>e _. e \<noteq> TypeError \<and> e \<noteq> AttributeError \<and> e \<noteq> KeyError) s)
     (nd_tests typed_demo_env) \<and>
   list_all (\<lambda>t. \<forall>s. wp t (\<lambda>_ _. True) (\<lambda>e _. e \<noteq> TypeError \<and> e \<noteq> AttributeError \<and> e \<noteq> KeyError) s)
     (sized_tests typed_demo_env)"
proof -
  have "alignment_files typed_demo_env 16 24"
    using nd_demo_files[of "[''region'' \<mapsto> VStr ''region0'', ''size'' \<mapsto> VInt 96]"]
    by (simp add: alignment_files_def typed_demo_env_def)
  then have "wp (get_size_alignval typed_demo_env) (\<lambda>a _. a dvd 96) (\<lambda>_ _. True) s" for s
    by (rule wp_conseq[OF wp_size_alignval]) (simp_all add: lcm_16_24)
  then have "size_fits typed_demo_env"
    by (auto simp: size_fits_def nd_param_def typed_demo_env_def nd_demo_def)
  moreover have "region_named typed_demo_env"
    by (simp add: region_named_def typed_demo_env_def nd_demo_def is_text_def)
  ultimately show ?thesis using tests_are_type_sound[OF typed_demo] by blast
qed

end
