(* ===== verification/Vnic.thy ===== *)
theory Vnic
  imports Avocado
begin

section \<open>Virtual network adapters (io/net/virt-net/network_virtualization.py)\<close>

text \<open>
  The test adds and removes virtual adapters (vNICs) of a partition through the management console,
  gives them backing devices, of which one is active, and triggers failovers between them. The
  console, the peer, the server (VIOS), the network library and the files are the parameter
  \<open>vn_env\<close>. The attributes of the object are in the state; \<open>None\<close> and \<open>False\<close> stand for attributes that are
  set late (\<^verbatim>\<open>original_logport\<close>, the sessions). The decorators of \<^verbatim>\<open>setUp\<close>, which skip the class on
  other machines before anything runs, are left out. A list that \<^verbatim>\<open>setUp\<close> has not set yet is empty.
\<close>

subsection \<open>External operations and state\<close>

record 'w vn_env =
  vn_params :: "string \<Rightarrow> pyval option"
  vn_test_name :: string
  vn_workdir :: string
  vn_check :: "string \<Rightarrow> ('w, bool) ext"
  vn_install :: "string \<Rightarrow> ('w, bool) ext"
  vn_distro :: "('w, string) ext"
  vn_fetch :: "string \<Rightarrow> ('w, string) ext"
  vn_copy :: "string \<Rightarrow> ('w, unit) ext"
  vn_output :: "string \<Rightarrow> ('w, string) ext"
  vn_system :: "string \<Rightarrow> ('w, int) ext"
  vn_run :: "string \<Rightarrow> ('w, cmd_result) ext"
  vn_run_ignore :: "string \<Rightarrow> ('w, cmd_result) ext"
  vn_write :: "string \<Rightarrow> string \<Rightarrow> ('w, unit) ext"
  vn_append :: "string \<Rightarrow> string \<Rightarrow> ('w, unit) ext"
  err_text :: "exn \<Rightarrow> string"
  vn_get_data :: "string \<Rightarrow> ('w, string) ext"
  clear_log :: "('w, unit) ext"
  collect_errors :: "int \<Rightarrow> string list \<Rightarrow> ('w, unit) ext"
  secure_boot :: "('w, bool) ext"
  hmc_cleanup :: "('w, unit) ext"
  hmc_connect :: "('w, bool) ext"
  hmc_cmd :: "string \<Rightarrow> ('w, cmd_result) ext"
  hmc_quit :: "('w, unit) ext"
  peer_connect :: "('w, bool) ext"
  peer_cmd :: "string \<Rightarrow> ('w, cmd_result) ext"
  peer_quit :: "('w, unit) ext"
  peer_interface :: "string \<Rightarrow> ('w, string) ext"
  vios_cleanup :: "('w, unit) ext"
  vios_connect :: "('w, bool) ext"
  vios_cmd :: "string \<Rightarrow> ('w, cmd_result) ext"
  vios_quit :: "('w, unit) ext"
  pxssh_login :: "string \<Rightarrow> ('w, unit) ext"
  pxssh_sendline :: "string \<Rightarrow> ('w, unit) ext"
  pxssh_prompt :: "('w, unit) ext"
  pxssh_before :: "('w, string) ext"
  interfaces :: "('w, string list) ext"
  if_address :: "string \<Rightarrow> ('w, string) ext"
  add_ipaddr :: "string \<Rightarrow> string \<Rightarrow> string \<Rightarrow> ('w, unit) ext"
  save_config :: "string \<Rightarrow> string \<Rightarrow> string \<Rightarrow> ('w, unit) ext"
  bring_up :: "string \<Rightarrow> ('w, unit) ext"
  link_up :: "string \<Rightarrow> ('w, bool) ext"
  is_available :: "string \<Rightarrow> ('w, bool) ext"
  ping_fails :: "string \<Rightarrow> string \<Rightarrow> string \<Rightarrow> ('w, bool) ext"
  vn_polls :: "string \<Rightarrow> nat"

record 'w vn_st = "'w st" +
  hmc_pwd :: pyval
  lpar :: string
  server :: string
  slot_num :: "string list"
  original_logport :: "string option"
  vios_name :: "string list"
  sriov_port :: "string list"
  backing_adapter :: "string list"
  backingdev_count :: int
  bandwidth :: pyval
  vnic_priority :: "pyval list"
  auto_failover :: string
  vn_count :: int
  num_of_dlpar :: int
  device_ip :: "string list"
  mac_id :: "string list"
  netmask :: "string list"
  peer_ip :: "string list"
  skip_vnic_add :: bool
  lpar_id :: string
  vios_id :: "string list"
  backing_adapter_id :: "string list"
  has_hmc :: bool
  has_peer :: bool
  has_vios :: bool

type_synonym ('w, 'a) vn = "('w vn_st, 'a) py"

definition vn_param :: "'w vn_env \<Rightarrow> string \<Rightarrow> pyval \<Rightarrow> pyval" where
  "vn_param E k d = (case vn_params E k of None \<Rightarrow> d | Some v \<Rightarrow> v)"

definition hmc :: "'w vn_env \<Rightarrow> string \<Rightarrow> ('w, cmd_result) vn" where
  "hmc E cmd = call ''session_hmc.cmd'' [cmd] (hmc_cmd E cmd)"

definition voutput :: "'w vn_env \<Rightarrow> string \<Rightarrow> ('w, string) vn" where
  "voutput E cmd = call ''system_output'' [cmd] (vn_output E cmd)"

text \<open>\<^verbatim>\<open>try: m except Exception: h\<close>, and \<^verbatim>\<open>except CmdError\<close>.\<close>

definition except_any :: "('w, 'a) vn \<Rightarrow> ('w, 'a) vn \<Rightarrow> ('w, 'a) vn" where
  "except_any m h = try_except m (\<lambda>_. h)"

definition except_cmd :: "('w, 'a) vn \<Rightarrow> (string \<Rightarrow> ('w, 'a) vn) \<Rightarrow> ('w, 'a) vn" where
  "except_cmd m h = try_except m (\<lambda>e. case e of CmdError d \<Rightarrow> h d | _ \<Rightarrow> raise e)"

definition vsplit :: "pyval \<Rightarrow> string list result" where
  "vsplit v = (case v of VStr s \<Rightarrow> Inr (split_on (CHR '' '') s) | _ \<Rightarrow> Inl AttributeError)"

definition wait_link :: "'w vn_env \<Rightarrow> string \<Rightarrow> ('w, bool) vn" where
  "wait_link E device = wait_for (vn_polls E ''link'') (call ''is_link_up'' [device] (link_up E device))"

definition ping :: "'w vn_env \<Rightarrow> string \<Rightarrow> string \<Rightarrow> string \<Rightarrow> ('w, bool) vn" where
  "ping E device ip opts = call ''ping_check'' [device, ip, opts] (ping_fails E device ip opts)"

definition slot0 :: "('w, string) vn" where
  "slot0 = bnd (gets slot_num) (\<lambda>l. lift (py_nth l 0))"

definition mac0 :: "('w, string) vn" where
  "mac0 = bnd (gets mac_id) (\<lambda>l. lift (py_nth l 0))"

definition peer0 :: "('w, string) vn" where
  "peer0 = bnd (gets peer_ip) (\<lambda>l. lift (py_nth l 0))"

text \<open>The failure of a console command with its standard error, which is bytes, in the log.\<close>

definition log_stderr :: "cmd_result \<Rightarrow> ('w, unit) vn" where
  "log_stderr r = log Debug (repr_bytes (stderr_text r))"

subsection \<open>Devices\<close>

text \<open>\<^verbatim>\<open>':'.join(mac[i:i+2] for i in range(0, 12, 2))\<close>.\<close>

definition mac_colons :: "string \<Rightarrow> string" where
  "mac_colons mac = join '':'' (map (\<lambda>i. take 2 (drop (2 * i) mac)) [0..<6])"

definition find_device :: "'w vn_env \<Rightarrow> string \<Rightarrow> ('w, string) vn" where
  "find_device E mac_addrs =
    (let mac = mac_colons mac_addrs in
     bnd (call ''netifaces.interfaces'' [] (interfaces E)) (\<lambda>devices.
     bnd (for_ret devices (\<lambda>device.
            bnd (call ''netifaces.ifaddresses'' [device] (if_address E device)) (\<lambda>addr.
            ret (if contains mac addr then Some device else None)))) (\<lambda>r.
     ret (case r of None \<Rightarrow> [] | Some d \<Rightarrow> d))))"

definition find_device_id :: "'w vn_env \<Rightarrow> string \<Rightarrow> ('w, string) vn" where
  "find_device_id E mac =
     bnd (find_device E mac) (\<lambda>device.
     bnd (voutput E (''ls -l /sys/class/net/ |'' @ spaces 44 @ ''grep -w '' @ device @ '' | cut -d '' @ quoted ''/'' @ '' -f'' @
            spaces 44 @ ''5'')) (\<lambda>out. ret (strip out)))"

definition find_virtual_slot :: "'w vn_env \<Rightarrow> string \<Rightarrow> ('w, string option) vn" where
  "find_virtual_slot E dev_id =
     bnd (voutput E ''lsslot'') (\<lambda>out.
     ret (map_option (\<lambda>slot. hd (split_on (CHR '' '') slot))
            (List.find (contains dev_id) (split_on newline out))))"

text \<open>The outer loop has twelve rounds, each over all interfaces, with a sleep after each that differs.\<close>

definition wait_interface :: "'w vn_env \<Rightarrow> string \<Rightarrow> ('w, bool) vn" where
  "wait_interface E device_name =
     bnd (for_ret (py_range3 0 120 10) (\<lambda>_.
            bnd (call ''netifaces.interfaces'' [] (interfaces E)) (\<lambda>l.
            for_ret l (\<lambda>interface.
              if device_name = interface then
                sq (log Info (''Network virtualized device '' @ device_name @ '' is up'')) (ret (Some ()))
              else sq (sleep (VInt 5)) (ret None))))) (\<lambda>r.
     ret (r \<noteq> None))"

definition wait_intrerface :: "'w vn_env \<Rightarrow> string \<Rightarrow> ('w, bool) vn" where
  "wait_intrerface E device_name = wait_interface E device_name"

subsection \<open>Lists of the console\<close>

definition backing_list_cmd :: "string \<Rightarrow> string \<Rightarrow> string" where
  "backing_list_cmd srv lp =
     ''lshwres -r virtualio -m '' @ srv @ '' --rsubtype vnic --level lpar'' @ spaces 16 @ ''--filter lpar_names='' @ lp @
     '' -F slot_num,backing_device_states''"

text \<open>\<^verbatim>\<open>try: output = cmd except CmdError: fail\<close>.\<close>

definition listing :: "'w vn_env \<Rightarrow> string \<Rightarrow> ('w, string) vn" where
  "listing E cmd =
     except_cmd (bnd (hmc E cmd) (\<lambda>r. ret (stdout_text r)))
       (\<lambda>d. sq (log Debug d) (fail ''lshwres operation failed ''))"

definition backing_dev_list :: "'w vn_env \<Rightarrow> ('w, string) vn" where
  "backing_dev_list E =
     bnd (gets server) (\<lambda>srv. bnd (gets lpar) (\<lambda>lp. listing E (backing_list_cmd srv lp)))"

definition get_backing_devices :: "'w vn_env \<Rightarrow> string \<Rightarrow> ('w, string) vn" where
  "get_backing_devices E slot =
     bnd (gets server) (\<lambda>srv. bnd (gets lpar) (\<lambda>lp.
     listing E (''lshwres -r virtualio -m '' @ srv @ '' --rsubtype vnic --level lpar'' @ spaces 16 @
        ''--filter lpar_names='' @ lp @ '',slots='' @ slot @ '' -F backing_devices'')))"

definition list_device :: "'w vn_env \<Rightarrow> string \<Rightarrow> ('w, string) vn" where
  "list_device E slot =
     bnd (gets server) (\<lambda>srv. bnd (gets lpar) (\<lambda>lp.
     listing E (''lshwres -r virtualio -m '' @ srv @ '' --rsubtype vnic --filter'' @ spaces 15 @ [CHR 0x22] @
        ''lpar_names='' @ lp @ '',slots='' @ slot @ [CHR 0x22])))"

text \<open>
  The logical port of the first entry of the line of a slot that has a property. The name is bound in
  the loop only, and a later line of the same slot binds it again.
\<close>

definition active_entry :: "string list \<Rightarrow> bool result" where
  "active_entry e = rbind (py_nth e 2) (\<lambda>x. Inr (contains ''1'' x))"

definition backing_entry :: "string list \<Rightarrow> bool result" where
  "backing_entry e =
     rbind (py_nth e 2) (\<lambda>x. if contains ''0'' x then rbind (py_nth e 3) (\<lambda>y. Inr (contains ''Operational'' y)) else Inr False)"

fun first_port :: "(string list \<Rightarrow> bool result) \<Rightarrow> string list \<Rightarrow> string option result" where
  "first_port P [] = Inr None"
| "first_port P (e # es) =
     (let parts = split_on (CHR ''/'') e
      in rbind (P parts) (\<lambda>b. if b then rbind (py_nth parts 1) (\<lambda>p. Inr (Some p)) else first_port P es))"

definition slot_prefix :: "string \<Rightarrow> string" where
  "slot_prefix slot = slot @ '',''"

definition stripped :: "string \<Rightarrow> string \<Rightarrow> string" where
  "stripped slot line = strip_chars (slot @ [CHR '','', CHR 0x22]) line"

fun last_port :: "(string list \<Rightarrow> bool result) \<Rightarrow> string \<Rightarrow> string list \<Rightarrow> string option \<Rightarrow> string option result" where
  "last_port P slot [] acc = Inr acc"
| "last_port P slot (l # ls) acc =
     (if startswith l (slot_prefix slot) then
        rbind (first_port P (split_on (CHR '','') (stripped slot l))) (\<lambda>r.
        last_port P slot ls (if r = None then acc else r))
      else last_port P slot ls acc)"

definition port_of :: "(string list \<Rightarrow> bool result) \<Rightarrow> string \<Rightarrow> string \<Rightarrow> string result" where
  "port_of P slot out =
     rbind (last_port P slot (splitlines out) None) (\<lambda>r.
     case r of None \<Rightarrow> Inl UnboundLocalError | Some p \<Rightarrow> Inr p)"

definition get_backing_device_logport :: "'w vn_env \<Rightarrow> string \<Rightarrow> ('w, string) vn" where
  "get_backing_device_logport E slot = bnd (backing_dev_list E) (\<lambda>out. lift (port_of backing_entry slot out))"

definition get_active_device_logport :: "'w vn_env \<Rightarrow> string \<Rightarrow> ('w, string) vn" where
  "get_active_device_logport E slot = bnd (backing_dev_list E) (\<lambda>out. lift (port_of active_entry slot out))"

text \<open>The number of entries after the slot in the last line of the slot.\<close>

definition entries_after :: "string \<Rightarrow> int" where
  "entries_after line = int (length (split_on (CHR '','') line)) - 1"

definition slot_lines :: "string \<Rightarrow> string \<Rightarrow> string list" where
  "slot_lines slot out = filter (\<lambda>l. startswith l (slot_prefix slot)) (splitlines out)"

definition backing_dev_count_w_slot_num :: "'w vn_env \<Rightarrow> string \<Rightarrow> ('w, int) vn" where
  "backing_dev_count_w_slot_num E slot =
     bnd (backing_dev_list E) (\<lambda>out.
     let ls = slot_lines slot out in ret (if ls = [] then 0 else entries_after (last ls)))"

text \<open>The \<^verbatim>\<open>return\<close> is inside the loop over the slots, so only the first one counts.\<close>

definition backing_dev_count :: "'w vn_env \<Rightarrow> ('w, int) vn" where
  "backing_dev_count E =
     bnd slot0 (\<lambda>slot.
     bnd (backing_dev_list E) (\<lambda>out.
     let ls = slot_lines slot out in
     if ls = [] then raise UnboundLocalError else ret (entries_after (last ls))))"

definition get_backing_device_priority :: "'w vn_env \<Rightarrow> string \<Rightarrow> ('w, string) vn" where
  "get_backing_device_priority E slot =
     bnd (get_backing_devices E slot) (\<lambda>out.
     bnd (for_ret (split_on (CHR '','') out) (\<lambda>entry.
            bnd (get_backing_device_logport E slot) (\<lambda>logport.
            if contains logport entry
            then bnd (lift (py_nth (split_on (CHR ''/'') entry) 8)) (\<lambda>p. ret (Some p))
            else ret None))) (\<lambda>r.
     case r of None \<Rightarrow> raise UnboundLocalError | Some p \<Rightarrow> ret p))"

text \<open>The last line of the slot decides; its second entry is read. Not called in the class.\<close>

definition is_backing_device_active :: "'w vn_env \<Rightarrow> string \<Rightarrow> ('w, bool) vn" where
  "is_backing_device_active E slot =
     bnd (backing_dev_list E) (\<lambda>out.
     bnd (for_acc (slot_lines slot out) (\<lambda>l _.
            bnd (lift (py_nth (tl (split_on (CHR '','') l)) 1)) (\<lambda>e.
            bnd (lift (py_nth (split_on (CHR ''/'') e) 2)) (\<lambda>t.
            bnd (lift (py_int t)) (\<lambda>n. ret (Some n))))) None) (\<lambda>r.
     case r of None \<Rightarrow> raise UnboundLocalError | Some val \<Rightarrow> ret (val \<noteq> 0)))"

subsection \<open>Backing devices\<close>

text \<open>
  The entry of the active port gives its adapter, port and priority; the last entry that holds the text
  of the port counts. \<open>set_priority0\<close> is the assignment to the first element.
\<close>

definition set_priority0 :: "pyval \<Rightarrow> ('w, unit) vn" where
  "set_priority0 p =
     bnd (gets vnic_priority) (\<lambda>l.
     if l = [] then raise IndexError else modify (\<lambda>s. s\<lparr>vnic_priority := p # tl l\<rparr>))"

definition active_entry_step :: "string \<Rightarrow> string \<Rightarrow> string \<times> string option \<Rightarrow> ('w, string \<times> string option) vn" where
  "active_entry_step logport entry acc =
     (if contains logport entry then
        let parts = split_on (CHR ''/'') entry in
        bnd (lift (py_nth parts 3)) (\<lambda>adapter_id.
        bnd (lift (py_nth parts 4)) (\<lambda>port.
        bnd (lift (py_nth parts 8)) (\<lambda>prio.
        sq (set_priority0 (VStr prio)) (ret (adapter_id, Some port)))))
      else ret acc)"

text \<open>
  The index of the last pair of adapter and port that fits. The port list is read only where the adapter
  fits, and may be too short.
\<close>

fun last_index :: "nat \<Rightarrow> string \<Rightarrow> string \<Rightarrow> string list \<Rightarrow> string list \<Rightarrow> nat option \<Rightarrow> nat option result" where
  "last_index i a p [] ports r = Inr r"
| "last_index i a p (x # xs) ports r =
     (if a = x then
        rbind (py_nth ports (int i)) (\<lambda>q. last_index (Suc i) a p xs ports (if p = q then Some i else r))
      else last_index (Suc i) a p xs ports r)"

definition pop :: "nat \<Rightarrow> 'a list \<Rightarrow> ('a \<times> 'a list) result" where
  "pop i xs = (if i < length xs then Inr (xs ! i, take i xs @ drop (Suc i) xs) else Inl IndexError)"

definition move_front :: "nat \<Rightarrow> ('w, unit) vn" where
  "move_front i =
     bnd (gets vios_id) (\<lambda>l. bnd (lift (pop i l)) (\<lambda>(v, l').
     sq (modify (\<lambda>s. s\<lparr>vios_id := v # l'\<rparr>))
    (bnd (gets sriov_port) (\<lambda>l. bnd (lift (pop i l)) (\<lambda>(p, l').
     sq (modify (\<lambda>s. s\<lparr>sriov_port := p # l'\<rparr>))
    (bnd (gets backing_adapter_id) (\<lambda>l. bnd (lift (pop i l)) (\<lambda>(a, l').
     modify (\<lambda>s. s\<lparr>backing_adapter_id := a # l'\<rparr>)))))))))"

definition update_backing_devices :: "'w vn_env \<Rightarrow> string \<Rightarrow> ('w, unit) vn" where
  "update_backing_devices E slot =
     bnd (get_active_device_logport E slot) (\<lambda>logport.
     bnd (get_backing_devices E slot) (\<lambda>out.
     bnd (for_acc (split_on (CHR '','') out) (active_entry_step logport) ([], None)) (\<lambda>(adapter_id, port).
     if adapter_id = [] then ret ()
     else
       bnd (gets backing_adapter_id) (\<lambda>ids.
       bnd (gets sriov_port) (\<lambda>ports.
       bnd (lift (last_index 0 adapter_id (the port) ids ports None)) (\<lambda>r.
       case r of None \<Rightarrow> raise UnboundLocalError | Some i \<Rightarrow> move_front i))))))"

subsection \<open>Commands that change the adapter\<close>

definition device_add_remove :: "'w vn_env \<Rightarrow> string \<Rightarrow> string \<Rightarrow> string \<Rightarrow> string \<Rightarrow> string \<Rightarrow> ('w, unit) vn" where
  "device_add_remove E slot mac port adapter_id operation =
     bnd (gets vios_name) (\<lambda>names. bnd (lift (py_nth names 0)) (\<lambda>name.
     bnd (gets vios_id) (\<lambda>ids. bnd (lift (py_nth ids 0)) (\<lambda>vid.
     bnd (gets bandwidth) (\<lambda>bw.
     bnd (gets vnic_priority) (\<lambda>prios. bnd (lift (py_nth prios 0)) (\<lambda>prio.
     bnd (gets server) (\<lambda>srv. bnd (gets lpar_id) (\<lambda>lid. bnd (gets auto_failover) (\<lambda>af.
     let backing_device = ''backing_devices=sriov/'' @ join ''/'' [name, vid, adapter_id, port, vstr bw, vstr prio];
         cmd = (if operation = ''add'' then
                  ''chhwres -m '' @ srv @ '' --id '' @ lid @ '' -r virtualio --rsubtype vnic'' @ spaces 20 @ ''-o a -s '' @ slot @
                  '' -a '' @ [CHR 0x22] @ ''auto_priority_failover='' @ af @ '',mac_addr='' @ mac @ '','' @ backing_device @
                  [CHR 0x22] @ '' ''
                else
                  ''chhwres -m '' @ srv @ '' --id '' @ lid @ '' -r virtualio --rsubtype vnic'' @ spaces 20 @ ''-o r -s '' @ slot)
     in bnd (hmc E cmd) (\<lambda>r.
        whenb (exit_status r \<noteq> 0)
          (sq (log_stderr r)
              (fail (''Network virtualization '' @ operation @ '' device operation'' @ spaces 24 @ ''failed''))))))))))))))"

definition backing_dev_add_remove :: "'w vn_env \<Rightarrow> string \<Rightarrow> int \<Rightarrow> ('w, unit) vn" where
  "backing_dev_add_remove E operation i =
     bnd (gets vios_name) (\<lambda>names. bnd (lift (py_nth names i)) (\<lambda>name.
     bnd (gets vios_id) (\<lambda>ids. bnd (lift (py_nth ids i)) (\<lambda>vid.
     bnd (gets backing_adapter_id) (\<lambda>as. bnd (lift (py_nth as i)) (\<lambda>adapter_id.
     bnd (gets sriov_port) (\<lambda>ps. bnd (lift (py_nth ps i)) (\<lambda>port.
     bnd (gets bandwidth) (\<lambda>bw.
     bnd (gets vnic_priority) (\<lambda>prios. bnd (lift (py_nth prios i)) (\<lambda>prio.
     bnd (gets server) (\<lambda>srv. bnd slot0 (\<lambda>slot. bnd (gets lpar_id) (\<lambda>lid. bnd (gets auto_failover) (\<lambda>af.
     let device = ''sriov/'' @ join ''/'' [name, vid, adapter_id, port, vstr bw, vstr prio];
         head = ''chhwres -r virtualio --rsubtype vnic -o s -m '' @ srv @ '' -s '' @ slot @ spaces 20 @ ''--id '' @ lid;
         cmd = (if operation = ''add'' then
                  head @ '' -a '' @ [CHR 0x22] @ ''auto_priority_failover='' @ af @ '',backing_devices+='' @ device @ [CHR 0x22]
                else head @ '' -a backing_devices-='' @ device)
     in bnd (hmc E cmd) (\<lambda>r.
        whenb (exit_status r \<noteq> 0)
          (sq (log_stderr r)
              (fail (''Network virtualization Backing device '' @ operation @ spaces 24 @ ''operation failed'')))))))))))))))))))"

definition failover_cmd :: "string \<Rightarrow> string \<Rightarrow> string \<Rightarrow> string \<Rightarrow> string" where
  "failover_cmd srv slot lid logport =
     ''chhwres -r virtualio --rsubtype vnicbkdev -o act -m '' @ srv @ spaces 16 @ ''-s '' @ slot @ '' --id '' @ lid @
     spaces 16 @ ''--logport '' @ logport"

definition trigger_failover :: "'w vn_env \<Rightarrow> string \<Rightarrow> ('w, unit) vn" where
  "trigger_failover E logport =
     bnd (gets server) (\<lambda>srv. bnd slot0 (\<lambda>slot. bnd (gets lpar_id) (\<lambda>lid.
     bnd (hmc E (failover_cmd srv slot lid logport)) (\<lambda>r.
     whenb (exit_status r \<noteq> 0)
       (sq (log_stderr r) (fail (''Command to set '' @ logport @ '' as Active has failed'')))))))"

text \<open>Where the device that is active now is not the original one, the method activates the current one.\<close>

definition change_active_device :: "'w vn_env \<Rightarrow> string \<Rightarrow> ('w, unit) vn" where
  "change_active_device E slot =
     bnd (get_active_device_logport E slot) (\<lambda>current_logport.
     bnd (gets original_logport) (\<lambda>o'. bnd (lift (attr o')) (\<lambda>original.
     if original \<noteq> current_logport then trigger_failover E current_logport
     else log Info ''Active device same before and after'')))"

definition is_auto_failover_enabled :: "'w vn_env \<Rightarrow> ('w, bool) vn" where
  "is_auto_failover_enabled E =
     bnd (gets server) (\<lambda>srv. bnd (gets lpar) (\<lambda>lp. bnd slot0 (\<lambda>slot.
     bnd (hmc E (''lshwres -r virtualio -m '' @ srv @ '' --rsubtype vnic'' @ spaces 16 @ ''--filter lpar_names='' @ lp @
            '',slots='' @ slot)) (\<lambda>r.
     sq (whenb (exit_status r \<noteq> 0) (log_stderr r))
        (ret (contains ''auto_priority_failover=1'' (stdout_text r)))))))"

definition enable_auto_failover :: "'w vn_env \<Rightarrow> ('w, bool) vn" where
  "enable_auto_failover E =
     bnd (gets server) (\<lambda>srv. bnd (gets lpar_id) (\<lambda>lid. bnd slot0 (\<lambda>slot.
     bnd (hmc E (''chhwres -r virtualio -m '' @ srv @ '' --rsubtype vnic'' @ spaces 16 @ ''-o s --id '' @ lid @ '' -s '' @
            slot @ '' -a auto_priority_failover=1'')) (\<lambda>r.
     sq (whenb (exit_status r \<noteq> 0) (log_stderr r)) (is_auto_failover_enabled E)))))"

text \<open>The port is looked for among the fields of an entry, and the first entry that has it counts.\<close>

fun priority_entry :: "string \<Rightarrow> string list \<Rightarrow> string option result" where
  "priority_entry logport [] = Inr None"
| "priority_entry logport (e # es) =
     (let parts = split_on (CHR ''/'') e
      in if logport \<in> set parts then rbind (py_nth parts 8) (\<lambda>p. Inr (Some p)) else priority_entry logport es)"

definition get_failover_priority :: "'w vn_env \<Rightarrow> string \<Rightarrow> ('w, string option) vn" where
  "get_failover_priority E logport =
     bnd (gets server) (\<lambda>srv. bnd slot0 (\<lambda>slot. bnd (gets lpar) (\<lambda>lp.
     bnd (hmc E (''lshwres -r virtualio -m '' @ srv @ '' --rsubtype vnic --level lpar'' @ spaces 16 @ ''--filter slots='' @
            slot @ '',lpar_names='' @ lp @ '' -F slot_num,backing_devices'')) (\<lambda>r.
     sq (whenb (exit_status r \<noteq> 0) (log_stderr r))
        (if startswith (stdout_text r) (slot_prefix slot)
         then lift (priority_entry logport (split_on (CHR '','') (stripped slot (stdout_text r))))
         else ret None)))))"

text \<open>The priority read back is a text, so a number is never equal to it.\<close>

definition change_failover_priority :: "'w vn_env \<Rightarrow> string \<Rightarrow> pyval \<Rightarrow> ('w, bool) vn" where
  "change_failover_priority E logport prio =
     bnd (gets server) (\<lambda>srv. bnd slot0 (\<lambda>slot. bnd (gets lpar_id) (\<lambda>lid.
     bnd (hmc E (''chhwres -r virtualio --rsubtype vnicbkdev -o s -m '' @ srv @ spaces 16 @ ''-s '' @ slot @ '' --id '' @ lid @
            '' --logport '' @ logport @ '' -a failover_priority='' @ vstr prio)) (\<lambda>r.
     sq (whenb (exit_status r \<noteq> 0) (log_stderr r))
    (bnd (get_failover_priority E logport) (\<lambda>now.
     ret (case now of None \<Rightarrow> False | Some p \<Rightarrow> veq prio (VStr p))))))))"

definition drmgr_vnic_dlpar :: "'w vn_env \<Rightarrow> string \<Rightarrow> string \<Rightarrow> ('w, unit) vn" where
  "drmgr_vnic_dlpar E operation slot =
    (let cmd = ''drmgr '' @ operation @ '' -c slot -s '' @ slot @ '' -w 5 -d 1'' in
     bnd (call ''system'' [cmd] (vn_system E cmd)) (\<lambda>st.
     whenb (st \<noteq> 0) (fail (''drmgr operation '' @ operation @ '' fails for vNIC device '' @ slot))))"

definition validate_vios_command :: "'w vn_env \<Rightarrow> string \<Rightarrow> string \<Rightarrow> ('w, unit) vn" where
  "validate_vios_command E cmd validate_string =
    (let l_cmd = ''echo '' @ [CHR 0x22] @ cmd @ [CHR 0x22] @ '' | ioscli oem_setup_env'' in
     bnd (call ''session.cmd'' [l_cmd] (vios_cmd E l_cmd)) (\<lambda>r.
     whenb (\<not> contains validate_string (stdout_text r)) (fail ''command fail in vios'')))"

definition disable_enable_dev :: "'w vn_env \<Rightarrow> string \<Rightarrow> ('w, unit) vn" where
  "disable_enable_dev E option =
     bnd (gets server) (\<lambda>srv. bnd (gets lpar) (\<lambda>lp. bnd slot0 (\<lambda>slot.
     bnd (hmc E (''chhwres -m '' @ srv @ '' -o '' @ option @ '' -r virtualio --rsubtype vnic -p '' @ lp @ '' -s '' @ slot)) (\<lambda>r.
     whenb (exit_status r \<noteq> 0)
       (if option = ''d'' then fail (''Could not disable interface: '' @ stdout_text r)
        else if option = ''e'' then fail (''Could not enable interface: '' @ stdout_text r)
        else fail ''Invalid option sent to disable/enable interface.'')))))"

definition endswith :: "string \<Rightarrow> string \<Rightarrow> bool" where
  "endswith s p \<longleftrightarrow> startswith (rev s) (rev p)"

definition is_disabled_enabled_dev :: "'w vn_env \<Rightarrow> string \<Rightarrow> ('w, unit) vn" where
  "is_disabled_enabled_dev E expect =
    (let operation = (if expect = ''0'' then ''enable'' else ''disable'') in
     bnd (gets server) (\<lambda>srv. bnd (gets lpar) (\<lambda>lp.
     bnd (hmc E (''lshwres -m '' @ srv @ '' -r virtualio --rsubtype vnic --filter'' @ spaces 9 @ [CHR 0x22] @ ''lpar_names='' @
            lp @ [CHR 0x22] @ '' -F slot_num:is_disabled'')) (\<lambda>r.
     for_each (splitlines (stdout_text r)) (\<lambda>entry.
       bnd slot0 (\<lambda>slot.
       whenb (startswith entry slot)
         (if endswith entry expect then log Info (''vNIC interface successfully '' @ operation)
          else fail (''Could not '' @ operation @ '' vNIC interface''))))))))"

definition check_slot_availability :: "'w vn_env \<Rightarrow> string \<Rightarrow> ('w, bool) vn" where
  "check_slot_availability E slot =
     bnd (gets server) (\<lambda>srv. bnd (gets lpar) (\<lambda>lp.
     bnd (hmc E (''lshwres -r virtualio -m '' @ srv @ '' --rsubtype vnic --filter'' @ spaces 12 @ [CHR 0x22] @ ''lpar_names='' @
            lp @ [CHR 0x22] @ '' -F slot_num'')) (\<lambda>r.
     let output = stdout_text r in
     if contains ''No results were found'' output then ret True
     else if slot \<in> set (filter (\<lambda>t. t \<noteq> []) (map strip (splitlines output)))
     then sq (log Debug (''Slot '' @ slot @ '' already exists'')) (ret False)
     else ret True)))"

subsection \<open>setUp\<close>

definition vn_packages :: "string list" where
  "vn_packages = [''ksh'', ''src'', ''rsct.basic'', ''rsct.core.utils'', ''rsct.core'', ''DynamicRM'', ''powerpc-utils'', ''irqbalance'']"

text \<open>\<^verbatim>\<open>for deb in debs\<close> of a parameter: a text gives its characters.\<close>

definition deb_list :: "pyval \<Rightarrow> string list result" where
  "deb_list v = (case v of VStr s \<Rightarrow> Inr (map (\<lambda>c. [c]) s) | _ \<Rightarrow> Inl TypeError)"

definition vn_install_packages :: "'w vn_env \<Rightarrow> ('w, unit) vn" where
  "vn_install_packages E =
     bnd (call ''distro.detect'' [] (vn_distro E)) (\<lambda>distro.
     let packages = vn_packages @ (if distro = ''Ubuntu'' then [''python-paramiko''] else []) in
     sq (log Info (''Test is running on: '' @ distro))
    (sq (for_each packages (\<lambda>pkg.
           bnd (call ''check_installed'' [pkg] (vn_check E pkg)) (\<lambda>b.
           if b then ret ()
           else bnd (call ''install'' [pkg] (vn_install E pkg)) (\<lambda>b'.
                whenb (\<not> b') (cancel (pkg @ '' is needed for the test to be run''))))))
        (whenb (distro = ''Ubuntu'')
           (let url = vn_param E ''ubuntu_url'' VNone in
            bnd (lift (deb_list (vn_param E ''debs'' VNone))) (\<lambda>debs.
            for_each debs (\<lambda>deb.
              bnd (lift (as_str url)) (\<lambda>u.
              let deb_url = path_join u deb in
              bnd (call ''fetch_asset'' [deb_url] (vn_fetch E deb_url)) (\<lambda>deb_install.
              sq (call ''copy'' [deb_install] (vn_copy E deb_install))
                 (let cmd = ''dpkg -i '' @ vn_workdir E @ ''/'' @ deb in sq (call ''system'' [cmd] (vn_system E cmd)) (ret ()))))))))))"

definition vn_get_mcp_component :: "'w vn_env \<Rightarrow> string \<Rightarrow> ('w, string) vn" where
  "vn_get_mcp_component E component =
     bnd (voutput E (''lsrsrc IBM.MCP '' @ component)) (\<lambda>out.
     ret (case List.find (contains component) (splitlines out) of
            None \<Rightarrow> []
          | Some line \<Rightarrow> strip_chars [CHR ''{'', CHR ''}'', CHR 0x22] (last (split_ws line))))"

definition vn_get_partition_name :: "'w vn_env \<Rightarrow> string \<Rightarrow> ('w, string) vn" where
  "vn_get_partition_name E component =
     bnd (voutput E ''lparstat -i'') (\<lambda>out.
     ret (case List.find (contains component) (splitlines out) of
            None \<Rightarrow> []
          | Some line \<Rightarrow> strip (last (split_on (CHR '':'') line))))"

text \<open>The call of \<^verbatim>\<open>self.fail\<close> has an argument too many, so a service that does not start gives \<^verbatim>\<open>TypeError\<close>.\<close>

definition rsct_service_start :: "'w vn_env \<Rightarrow> ('w, unit) vn" where
  "rsct_service_start E =
     sq (except_cmd
           (for_each [''rsct'', ''rsct_rm''] (\<lambda>svc.
              sq (call ''run'' [''startsrc -g '' @ svc] (vn_run E (''startsrc -g '' @ svc))) (ret ())))
           (\<lambda>d. sq (log Debug d) (raise TypeError)))
    (bnd (voutput E ''lssrc -a'') (\<lambda>out.
     whenb (contains ''inoperative'' out) (cancel ''Failed to start the rsct and rsct_rm services'')))"

definition check_slots :: "string list \<Rightarrow> ('w, unit) vn" where
  "check_slots slots =
     for_each slots (\<lambda>slot.
       bnd (lift (py_int slot)) (\<lambda>n.
       whenb (n < 3 \<or> n > 2999) (cancel ''Slot invalid. Valid range: 3 - 2999'')))"

definition priorities :: "pyval \<Rightarrow> nat \<Rightarrow> pyval list result" where
  "priorities v n = (if \<not> truthy v then Inr (replicate n (VInt 50)) else rbind (vsplit v) (\<lambda>l. Inr (map VStr l)))"

definition skip_flag :: "pyval \<Rightarrow> bool" where
  "skip_flag v = (case v of VBool b \<Rightarrow> b | _ \<Rightarrow> lower (strip (vstr v)) = ''true'')"

definition partition_id :: "'w vn_env \<Rightarrow> string \<Rightarrow> string \<Rightarrow> ('w, string) vn" where
  "partition_id E srv name =
     bnd (hmc E (''lssyscfg -m '' @ srv @ '' -r lpar --filter lpar_names='' @ name @ '' -F lpar_id'')) (\<lambda>r.
     lift (py_nth (split_ws (stdout_text r)) 0))"

definition adapter_ids :: "string list \<Rightarrow> string \<Rightarrow> string list result" where
  "adapter_ids adapters out =
     mapM_r (\<lambda>line. py_nth (split_on (CHR '':'') line) 1)
       (concat (map (\<lambda>a. filter (contains a) (splitlines out)) adapters))"

text \<open>The parameters: lists in one text each, which must have the same lengths.\<close>

definition read_params :: "'w vn_env \<Rightarrow> ('w, unit) vn" where
  "read_params E =
     bnd (lift (vsplit (vn_param E ''vios_names'' VNone))) (\<lambda>names.
     sq (modify (\<lambda>s. s\<lparr>vios_name := names\<rparr>))
    (bnd (lift (vsplit (vn_param E ''sriov_ports'' VNone))) (\<lambda>ports.
     sq (modify (\<lambda>s. s\<lparr>sriov_port := ports\<rparr>))
    (bnd (lift (vsplit (vn_param E ''sriov_adapters'' VNone))) (\<lambda>adapters.
     sq (modify (\<lambda>s. s\<lparr>backing_adapter := adapters\<rparr>))
    (sq (whenb (length ports \<noteq> length adapters) (cancel ''Backing Device counts and port counts differ''))
    (sq (whenb (length names \<noteq> length adapters) (cancel ''Backing Device counts and vios name counts differ''))
    (bnd (lift (priorities (vn_param E ''priority'' VNone) (length adapters))) (\<lambda>prios.
     sq (modify (\<lambda>s. s\<lparr>backingdev_count := int (length adapters), bandwidth := vn_param E ''bandwidth'' VNone,
            vnic_priority := prios\<rparr>))
    (sq (whenb (length prios \<noteq> length adapters) (cancel ''Backing Device counts and priority counts differ''))
    (sq (modify (\<lambda>s. s\<lparr>auto_failover := (case vn_param E ''auto_failover'' VNone of
            VStr t \<Rightarrow> if t \<in> {''0'', ''1''} then t else ''1'' | _ \<Rightarrow> ''1'')\<rparr>))
    (bnd (lift (vint (vn_param E ''count'' (VStr ''1'')))) (\<lambda>n.
     bnd (lift (vint (vn_param E ''num_of_dlpar'' (VStr ''1'')))) (\<lambda>m.
     bnd (lift (vsplit (vn_param E ''device_ip'' VNone))) (\<lambda>ips.
     bnd (lift (vsplit (vn_param E ''mac_id'' (VStr ''02:03:03:03:03:01'')))) (\<lambda>macs.
     bnd (lift (vsplit (vn_param E ''netmasks'' VNone))) (\<lambda>masks.
     bnd (lift (vsplit (vn_param E ''peer_ip'' VNone))) (\<lambda>peers.
     modify (\<lambda>s. s\<lparr>vn_count := n, num_of_dlpar := m, device_ip := ips, mac_id := map (replace_char (CHR '':'') []) macs,
            netmask := masks, peer_ip := peers, skip_vnic_add := skip_flag (vn_param E ''skip_vnic_add'' (VBool False))\<rparr>)))))))))))))))))))"

definition debug_cmd :: "string \<Rightarrow> string" where
  "debug_cmd sign =
     ''echo '' @ quoted (''module ibmvnic '' @ sign @ ''pt; func send_subcrq -pt'') @ '' > /sys/kernel/debug/dynamic_debug/control''"

definition connect_hmc :: "'w vn_env \<Rightarrow> ('w, unit) vn" where
  "connect_hmc E =
     bnd (wait_str (vn_polls E ''HMCIPAddr'') (vn_get_mcp_component E ''HMCIPAddr'')) (\<lambda>ip.
     sq (whenb (ip = None) (cancel ''HMC IP not got''))
    (bnd (vn_get_partition_name E ''Partition Name'') (\<lambda>name.
     sq (modify (\<lambda>s. s\<lparr>hmc_pwd := vn_param E ''hmc_pwd'' VNone, lpar := name\<rparr>))
    (sq (whenb (name = []) (cancel ''LPAR Name not got from lparstat command''))
    (sq (modify (\<lambda>s. s\<lparr>has_hmc := True\<rparr>))
    (sq (call ''cleanup_master'' [] (hmc_cleanup E))
    (bnd (call ''connect'' [] (hmc_connect E)) (\<lambda>b.
     sq (whenb (\<not> b) (cancel ''failed connecting to HMC''))
        (sq (hmc E ''lssyscfg -r sys  -F name'') (ret ()))))))))))"

definition find_partitions :: "'w vn_env \<Rightarrow> ('w, unit) vn" where
  "find_partitions E =
     bnd (lift (as_str (vn_param E ''manageSystem'' VNone))) (\<lambda>srv.
     bnd (gets lpar) (\<lambda>lp.
     bnd (partition_id E srv lp) (\<lambda>lid.
     sq (modify (\<lambda>s. s\<lparr>lpar_id := lid, vios_id := []\<rparr>))
    (bnd (gets vios_name) (\<lambda>names.
     sq (for_each names (\<lambda>name. bnd (partition_id E srv name) (\<lambda>vid. modify (\<lambda>s. s\<lparr>vios_id := vios_id s @ [vid]\<rparr>))))
    (bnd (hmc E (''lshwres -m '' @ srv @ '' -r sriov --rsubtype adapter -F'' @ spaces 15 @ ''phys_loc:adapter_id'')) (\<lambda>r.
     bnd (gets backing_adapter) (\<lambda>adapters.
     bnd (lift (adapter_ids adapters (stdout_text r))) (\<lambda>ids.
     sq (modify (\<lambda>s. s\<lparr>backing_adapter_id := ids\<rparr>))
        (whenb (ids = []) (cancel ''SRIOV adapter provided was not found.'')))))))))))"

definition vn_setUp :: "'w vn_env \<Rightarrow> ('w, unit) vn" where
  "vn_setUp E =
     sq (vn_install_packages E)
    (sq (connect_hmc E)
    (let srv = vn_param E ''manageSystem'' VNone; slots = split_on (CHR '' '') (vstr (vn_param E ''slot_num'' VNone)) in
     sq (modify (\<lambda>s. s\<lparr>server := vstr srv\<rparr>))
    (sq (whenb (\<not> truthy srv) (cancel ''Managed System not got''))
    (sq (modify (\<lambda>s. s\<lparr>slot_num := slots\<rparr>))
    (sq (check_slots slots)
    (sq (except_any
           (bnd slot0 (\<lambda>slot. bnd (get_active_device_logport E slot) (\<lambda>p. modify (\<lambda>s. s\<lparr>original_logport := Some p\<rparr>))))
           (log Info ''Logport available only after interface add''))
    (sq (read_params E)
    (sq (call ''clear_dmesg'' [] (clear_log E))
    (sq (hmc E ''uname -a'')
    (sq (find_partitions E)
    (sq (rsct_service_start E)
    (sq (whenb (length slots > 1 \<and> (contains ''backing'' (vn_test_name E) \<or> contains ''failover'' (vn_test_name E)))
           (cancel ''this test is not needed''))
        (bnd (call ''is_os_secureboot_enabled'' [] (secure_boot E)) (\<lambda>b.
         if \<not> b then
           bnd (call ''run'' [debug_cmd ''+''] (vn_run_ignore E (debug_cmd ''+''))) (\<lambda>r.
           whenb (exit_status r \<noteq> 0) (fail ''failed to enable debug mode''))
         else log Info ''Continue test with debug mode disabled''))))))))))))))"

subsection \<open>The state of an adapter\<close>

record vnic_info =
  exists_any :: bool
  slot_match :: bool
  mac_match :: bool
  device_name :: string
  device_slot_match :: bool

definition no_vnic :: vnic_info where
  "no_vnic = \<lparr>exists_any = False, slot_match = False, mac_match = False, device_name = [], device_slot_match = False\<rparr>"

definition py_bool :: "bool \<Rightarrow> string" where
  "py_bool b = (if b then ''True'' else ''False'')"

text \<open>
  The slot of the Linux device, compared with the slot asked for; an exception here is only logged. An
  exception before that leaves the dictionary as far as it was filled.
\<close>

definition correlate :: "'w vn_env \<Rightarrow> string \<Rightarrow> string \<Rightarrow> ('w, bool) vn" where
  "correlate E slot mac =
     try_except
       (bnd (find_device_id E mac) (\<lambda>device_id.
        bnd (find_virtual_slot E device_id) (\<lambda>r.
        ret (case r of None \<Rightarrow> False | Some t \<Rightarrow> t \<noteq> [] \<and> t = slot))))
       (\<lambda>e. sq (log Debug (''Unable to correlate Linux device with slot '' @ slot @ '': '' @ err_text E e)) (ret False))"

definition check_vnic_exists :: "'w vn_env \<Rightarrow> string \<Rightarrow> string \<Rightarrow> ('w, vnic_info) vn" where
  "check_vnic_exists E slot mac =
    (let failed = (\<lambda>e. log Debug (''Error checking vNIC existence for slot '' @ slot @ '': '' @ err_text E e)) in
     bnd (try_except (bnd (list_device E slot) (\<lambda>out. ret (Some out))) (\<lambda>e. sq (failed e) (ret None))) (\<lambda>r.
     case r of
       None \<Rightarrow> ret no_vnic
     | Some output \<Rightarrow>
         let info = no_vnic\<lparr>slot_match := contains (''slot_num='' @ slot) output, mac_match := contains mac output\<rparr> in
         bnd (try_except (bnd (find_device E mac) (\<lambda>d. ret (Some d))) (\<lambda>e. sq (failed e) (ret None))) (\<lambda>r.
         case r of
           None \<Rightarrow> ret info
         | Some d \<Rightarrow>
             bnd (if d \<noteq> [] then correlate E slot mac else ret False) (\<lambda>dm.
             let found = (slot_match info \<or> mac_match info \<or> dm) in
             sq (log Info (''vNIC state for slot '' @ slot @ '': exists='' @ py_bool found @ '' slot_match='' @
                   py_bool (slot_match info) @ '' mac_match='' @ py_bool (mac_match info) @ '' device_name='' @ d @
                   '' device_slot_match='' @ py_bool dm))
                (ret (info\<lparr>device_name := d, device_slot_match := dm, exists_any := found\<rparr>))))))"

definition log_error_of :: "'w vn_env \<Rightarrow> string \<Rightarrow> string \<Rightarrow> ('w, unit) vn \<Rightarrow> ('w, unit) vn" where
  "log_error_of E what device m =
     try_except m (\<lambda>e. log Debug (what @ '' failed for '' @ device @ '': '' @ err_text E e))"

definition vn_configure :: "'w vn_env \<Rightarrow> string \<Rightarrow> string \<Rightarrow> string \<Rightarrow> ('w, unit) vn" where
  "vn_configure E device ip nmask =
     sq (log_error_of E ''add_ipaddr'' device (call ''add_ipaddr'' [device, ip, nmask] (add_ipaddr E device ip nmask)))
    (sq (log_error_of E ''save'' device (call ''save'' [device, ip, nmask] (save_config E device ip nmask)))
    (sq (call ''bring_up'' [device] (bring_up E device))
    (bnd (wait_link E device) (\<lambda>b.
     whenb (\<not> b) (fail (''Unable to bring up the link on the Network'' @ spaces 24 @ ''virtualized device''))))))"

definition count5 :: string where "count5 = ''count=5''"

definition ensure_vnic_connectivity :: "'w vn_env \<Rightarrow> string \<Rightarrow> string \<Rightarrow> string \<Rightarrow> string \<Rightarrow> ('w, unit) vn" where
  "ensure_vnic_connectivity E slot mac ip nmask =
     bnd (list_device E slot) (\<lambda>output.
     sq (whenb (\<not> contains (''slot_num='' @ slot) output)
           (sq (log Debug output)
               (fail (''lshwres fails to list Network virtualized device'' @ spaces 24 @ ''after add operation''))))
    (sq (whenb (\<not> contains mac output) (sq (log Debug output) (fail ''MAC address in HMC differs'')))
    (bnd (find_device E mac) (\<lambda>device.
     sq (whenb (device = []) (fail ''MAC address differs in linux''))
    (sq (vn_configure E device ip nmask)
    (bnd peer0 (\<lambda>peer.
     bnd (ping E device peer count5) (\<lambda>bad.
     whenb bad
       (sq (log Info (''Ping failed on existing configuration for device '' @ device @ ''. Reconfiguring interface.''))
       (sq (vn_configure E device ip nmask)
       (bnd (ping E device peer count5) (\<lambda>bad. whenb bad (fail ''Ping failed with active vnic device'')))))))))))))"

subsection \<open>Peer and kernel log\<close>

text \<open>The result of the command on the peer is an object, which is always true, so the first \<^verbatim>\<open>cancel\<close> is never reached.\<close>

definition tune_rxtx_queue :: "'w vn_env \<Rightarrow> ('w, unit) vn" where
  "tune_rxtx_queue E =
    (let rx = vstr (vn_param E ''rx_channel'' (VInt 10)); tx = vstr (vn_param E ''tx_channel'' (VInt 10));
         tune = (\<lambda>i. ''ethtool -L '' @ i @ '' rx '' @ rx @ '' tx '' @ tx)
     in bnd peer0 (\<lambda>peer.
        bnd (call ''get_interface_by_ipaddr'' [peer] (peer_interface E peer)) (\<lambda>peer_interface.
        sq (call ''session_peer.cmd'' [tune peer_interface] (peer_cmd E (tune peer_interface)))
       (bnd mac0 (\<lambda>mac.
        bnd (find_device E mac) (\<lambda>device.
        bnd (call ''run'' [tune device] (vn_run E (tune device))) (\<lambda>r.
        whenb (exit_status r \<noteq> 0) (cancel ''Unable to tune RX and TX queue in host''))))))))"

text \<open>The parentheses of the pattern are a group, so it matches the text without them.\<close>

definition enable_irqbalance :: "'w vn_env \<Rightarrow> ('w, unit) vn" where
  "enable_irqbalance E =
    (let start = ''systemctl start irqbalance''; status = ''systemctl status irqbalance'';
         report = (\<lambda>out msg. for_each (splitlines out) (\<lambda>line. whenb (contains ''Active: active running'' line) (log Info msg)))
     in sq (call ''session_peer.cmd'' [start] (peer_cmd E start))
       (bnd (call ''session_peer.cmd'' [status] (peer_cmd E status)) (\<lambda>r.
        sq (report (stdout_text r) ''irqbalance service is active in peer'')
       (sq (call ''system'' [start] (vn_system E start))
       (bnd (voutput E status) (\<lambda>out. report out ''irqbalance service is active in host''))))))"

definition known_errors :: "string list" where
  "known_errors = [''uevent: failed to send synthetic uevent'', ''Invalid request detected while CRQ is inactive'',
     ''failed to send uevent'', ''registration failed'', ''CRQ-init failed, -11'']"

definition skip_errors :: "'w vn_env \<Rightarrow> string \<Rightarrow> ('w, string list) vn" where
  "skip_errors E device =
     for_acc [''Virtual Adapter failed'', ''Failed to set link state''] (\<lambda>err error.
       bnd peer0 (\<lambda>peer. bnd (ping E device peer count5) (\<lambda>bad.
       ret (if \<not> bad then error @ [err] else error)))) known_errors"

definition check_dmesg_error :: "'w vn_env \<Rightarrow> ('w, unit) vn" where
  "check_dmesg_error E =
     bnd (if \<not> contains ''test_remove'' (vn_test_name E)
          then bnd mac0 (\<lambda>mac. bnd (find_device E mac) (skip_errors E))
          else ret known_errors) (\<lambda>error.
     sq (log Info ''Gathering kernel errors if any'')
        (try_except (call ''collect_errors_by_level'' (''4'' # error) (collect_errors E 4 error))
           (\<lambda>e. sq (log Info (err_text E e)) (fail ''test failed,check dmesg log in debug log''))))"

definition interface_naming :: "'w vn_env \<Rightarrow> string \<Rightarrow> string \<Rightarrow> ('w, unit) vn" where
  "interface_naming E mac slot =
    (let file = ''/etc/udev/rules.d/70-persistent-net.rules''; dq = (\<lambda>t. [CHR 0x22] @ t @ [CHR 0x22]) in
     for_each [''SUBSYSTEM=='' @ dq ''net'' @ '', '', ''ACTION=='' @ dq ''add'' @ '', '', ''DRIVERS=='' @ dq ''?*'' @ '', '',
               ''ATTR{address}=='' @ dq (mac_colons mac) @ '', '']
       (\<lambda>t. call ''write'' [file, t] (vn_append E file t)))"


subsection \<open>The tests\<close>

text \<open>The ping after an operation, and the address given again with its record on disk as the fallback.\<close>

definition still_reachable :: "'w vn_env \<Rightarrow> string \<Rightarrow> string \<Rightarrow> ('w, unit) vn" where
  "still_reachable E device why =
     bnd peer0 (\<lambda>peer. bnd (ping E device peer count5) (\<lambda>bad. whenb bad (fail why)))"

definition add_or_save :: "'w vn_env \<Rightarrow> string \<Rightarrow> string \<Rightarrow> string \<Rightarrow> ('w, unit) vn" where
  "add_or_save E device ip nmask =
     except_any (call ''add_ipaddr'' [device, ip, nmask] (add_ipaddr E device ip nmask))
                (call ''save'' [device, ip, nmask] (save_config E device ip nmask))"

definition slots_exist :: "'w vn_env \<Rightarrow> string \<Rightarrow> ('w, unit) vn" where
  "slots_exist E slot =
     bnd (check_slot_availability E slot) (\<lambda>free. whenb free (fail ''Slot does not exist''))"

definition add_one :: "'w vn_env \<Rightarrow> string \<times> string \<times> string \<times> string \<times> string \<times> string \<Rightarrow> ('w, unit) vn" where
  "add_one E = (\<lambda>(slot, mac, port, adapter_id, ip, nmask).
     bnd (check_slot_availability E slot) (\<lambda>slot_available.
     bnd (check_vnic_exists E slot mac) (\<lambda>info.
     bnd (gets skip_vnic_add) (\<lambda>skip.
     sq (if exists_any info then
           if skip then
             sq (log Info (''vNIC already exists for slot '' @ slot @ '' and skip_vnic_add=True. Skipping add operation.''))
                (whenb (device_name info = [])
                   (fail (''vNIC exists for slot '' @ slot @ '' but no Linux device was found for MAC '' @ mac)))
           else
             sq (log Info (''vNIC already exists for slot '' @ slot @
                   '' and skip_vnic_add=False. Recreating the vNIC with the same slot.''))
            (sq (device_add_remove E slot [] [] [] ''remove'')
            (sq (sleep (VInt 5))
                (device_add_remove E slot mac port adapter_id ''add'')))
         else
           sq (whenb (\<not> slot_available)
                 (fail (''Slot '' @ slot @ '' is already in use but no matching vNIC was detected for MAC '' @ mac)))
          (sq (log Info (''Adding vNIC for slot '' @ slot @ '' with MAC '' @ mac))
              (device_add_remove E slot mac port adapter_id ''add'')))
        (ensure_vnic_connectivity E slot mac ip nmask)))))"

definition test_add :: "'w vn_env \<Rightarrow> ('w, unit) vn" where
  "test_add E =
     bnd (gets (\<lambda>s. zip (slot_num s) (zip (mac_id s) (zip (sriov_port s) (zip (backing_adapter_id s)
            (zip (device_ip s) (netmask s))))))) (\<lambda>rows.
     sq (for_each rows (add_one E))
    (sq (bnd peer0 (\<lambda>_. modify (\<lambda>s. s\<lparr>has_peer := True\<rparr>)))
    (bnd (wait_for (vn_polls E ''peer'') (call ''session_peer.connect'' [] (peer_connect E))) (\<lambda>b.
     sq (whenb (\<not> b) (fail ''Failed connecting to peer lpar''))
    (sq (enable_irqbalance E)
    (sq (tune_rxtx_queue E)
        (check_dmesg_error E)))))))"

definition count_differs :: "string \<Rightarrow> int \<Rightarrow> ('w, unit) vn" where
  "count_differs operation n =
     bnd (gets backingdev_count) (\<lambda>expected.
     whenb (n \<noteq> expected)
       (sq (log Debug (''Actual backing dev count: '' @ str_int n))
       (sq (log Debug (''Expected backing dev count: '' @ str_int expected))
           (fail (''Failed to '' @ operation @ '' backing device'')))))"

definition each_backing_dev :: "'w vn_env \<Rightarrow> string \<Rightarrow> ('w, unit) vn" where
  "each_backing_dev E operation =
     bnd (gets backingdev_count) (\<lambda>n. for_each (py_range3 1 n 1) (backing_dev_add_remove E operation))"

definition test_backingdevadd :: "'w vn_env \<Rightarrow> ('w, unit) vn" where
  "test_backingdevadd E =
     bnd (gets slot_num) (\<lambda>slots.
     sq (for_each slots (slots_exist E))
    (bnd (backing_dev_count E) (\<lambda>pre_add.
     sq (each_backing_dev E ''add'')
    (bnd (backing_dev_count E) (\<lambda>post_add.
     sq (count_differs ''add'' (post_add - pre_add + 1))
    (bnd mac0 (\<lambda>mac.
     bnd (find_device E mac) (\<lambda>device.
     sq (still_reachable E device ''Backing device add has affected network connectivity'')
        (check_dmesg_error E)))))))))"

definition test_disable_enable_dev :: "'w vn_env \<Rightarrow> ('w, unit) vn" where
  "test_disable_enable_dev E =
     bnd mac0 (\<lambda>mac.
     bnd (find_device E mac) (\<lambda>interface.
     bnd (gets vn_count) (\<lambda>n.
     sq (for_each (range1 n) (\<lambda>_.
           sq (disable_enable_dev E ''d'')
          (sq (is_disabled_enabled_dev E ''1'')
          (sq (disable_enable_dev E ''e'')
          (sq (is_disabled_enabled_dev E ''0'')
          (bnd mac0 (\<lambda>mac.
           bnd (find_device E mac) (\<lambda>device.
           sq (whenb (device = []) (fail ''Interface is not available''))
          (sq (wait_link E interface)
              (still_reachable E interface
                 ''Enabling and disabling of the interface has affected network connectivity''))))))))))
        (check_dmesg_error E))))"

definition active0 :: "'w vn_env \<Rightarrow> ('w, string) vn" where
  "active0 E = bnd slot0 (get_active_device_logport E)"

definition backing0 :: "'w vn_env \<Rightarrow> ('w, string) vn" where
  "backing0 E = bnd slot0 (get_backing_device_logport E)"

definition hmcfailover_round :: "'w vn_env \<Rightarrow> ('w, unit) vn" where
  "hmcfailover_round E =
     bnd (active0 E) (\<lambda>before.
     bnd (backing0 E) (\<lambda>backing.
     sq (trigger_failover E backing)
    (sq (sleep (VInt 60))
    (bnd (active0 E) (\<lambda>after.
     sq (log Debug (''Active backing device: '' @ after))
    (sq (whenb (before = after) (fail ''No failover happened''))
    (bnd mac0 (\<lambda>mac.
     bnd (find_device E mac) (\<lambda>device.
     still_reachable E device ''Failover has affected Network connectivity'')))))))))"

definition set_back :: "'w vn_env \<Rightarrow> string \<Rightarrow> ('w, unit) vn" where
  "set_back E original =
     sq (bnd (active0 E) (\<lambda>now. whenb (original \<noteq> now) (trigger_failover E original)))
        (bnd (active0 E) (\<lambda>now.
         whenb (original \<noteq> now) (log Warning (''Fail: Activating Initial backing dev '' @ original))))"

definition test_hmcfailover :: "'w vn_env \<Rightarrow> ('w, unit) vn" where
  "test_hmcfailover E =
     bnd (active0 E) (\<lambda>original.
     bnd (gets vn_count) (\<lambda>n.
     sq (for_each (range1 n) (\<lambda>_. hmcfailover_round E))
    (sq (set_back E original)
        (check_dmesg_error E))))"

definition client_attempt :: "'w vn_env \<Rightarrow> string \<Rightarrow> int \<Rightarrow> ('w, unit) vn" where
  "client_attempt E path val =
     sq (log Info (''Performing Client initiated'' @ spaces 34 @ ''failover - Attempt '' @ str_int (val + 1)))
    (sq (call ''write_file_or_fail'' [path, ''1''] (vn_write E path ''1''))
    (sq (sleep (VInt 60))
    (sq (log Info (''Running a ping test to check if failover '' @ spaces 36 @ ''affected Network connectivity''))
    (bnd mac0 (\<lambda>mac.
     bnd (find_device E mac) (\<lambda>device.
     bnd peer0 (\<lambda>peer.
     bnd (ping E device peer (count5 @ '' -w50'')) (\<lambda>bad.
     whenb bad (fail (''Ping test failed. Network virtualized '' @ spaces 35 @
                  ''failover has affected Network connectivity''))))))))))"

definition test_clientfailover :: "'w vn_env \<Rightarrow> ('w, unit) vn" where
  "test_clientfailover E =
     bnd mac0 (\<lambda>mac.
     bnd (find_device_id E mac) (\<lambda>device_id.
     let path = ''/sys/devices/vio/'' @ device_id @ ''/failover'' in
     sq (except_cmd
           (bnd (gets vn_count) (\<lambda>n.
            for_each (range1 n) (\<lambda>_.
              bnd (backing_dev_count E) (\<lambda>devs. for_each (range1 devs) (client_attempt E path)))))
           (\<lambda>d. sq (log Debug d)
                  (fail (''Client initiated Failover for Network virtualized '' @ spaces 22 @ ''device has failed''))))
        (check_dmesg_error E)))"

text \<open>The failures of the two changes of a priority have an argument too many, so they raise \<^verbatim>\<open>TypeError\<close>.\<close>

definition auto_failover_round :: "'w vn_env \<Rightarrow> ('w, unit) vn" where
  "auto_failover_round E =
     sq (bnd slot0 (update_backing_devices E))
    (bnd (backing0 E) (\<lambda>backing_logport.
     bnd (active0 E) (\<lambda>active_logport.
     bnd (bnd slot0 (get_backing_device_priority E)) (\<lambda>prio.
     let set_back_fails = ''Auto failover tested successfully but fail to set back'' @ spaces 29 @ ''original priority'' in
     bnd (enable_auto_failover E) (\<lambda>enabled.
     if \<not> enabled then fail ''Could not enable auto failover''
     else
       bnd (change_failover_priority E backing_logport (VStr ''1'')) (\<lambda>b.
       sq (whenb (\<not> b) (raise TypeError))
      (bnd (change_failover_priority E active_logport (VStr ''100'')) (\<lambda>b.
       sq (whenb (\<not> b) (raise TypeError))
      (sq (sleep (VInt 60))
      (bnd (active0 E) (\<lambda>now.
       sq (whenb (backing_logport \<noteq> now) (fail ''Auto failover of backing device failed''))
      (bnd mac0 (\<lambda>mac.
       bnd (find_device E mac) (\<lambda>device.
       sq (still_reachable E device ''Auto failover has effected connectivity'')
      (bnd (gets vnic_priority) (\<lambda>prios.
       bnd (lift (py_nth prios 0)) (\<lambda>own.
       bnd (change_failover_priority E active_logport own) (\<lambda>b.
       sq (whenb (\<not> b) (fail set_back_fails))
      (bnd (change_failover_priority E backing_logport (VStr prio)) (\<lambda>b.
       whenb (\<not> b) (fail set_back_fails)))))))))))))))))))))"

definition test_vnic_auto_failover :: "'w vn_env \<Rightarrow> ('w, unit) vn" where
  "test_vnic_auto_failover E =
     bnd (gets backing_adapter) (\<lambda>l.
     if length l \<ge> 2 then
       sq (bnd (gets vn_count) (\<lambda>n. for_each (range1 n) (\<lambda>_. auto_failover_round E))) (check_dmesg_error E)
     else cancel ''Provide more backing device, only 1 given'')"


text \<open>\<^verbatim>\<open>xs.index(x)\<close>.\<close>

definition index_of :: "string list \<Rightarrow> string \<Rightarrow> int result" where
  "index_of xs x =
    (let i = length (takeWhile (\<lambda>y. y \<noteq> x) xs) in if i < length xs then Inr (int i) else Inl ValueError)"

definition connect_vios :: "'w vn_env \<Rightarrow> ('w, unit) vn" where
  "connect_vios E =
     sq (modify (\<lambda>s. s\<lparr>has_vios := True\<rparr>))
    (sq (call ''session.cleanup_master'' [] (vios_cleanup E))
    (bnd (wait_for (vn_polls E ''VIOS'') (call ''session.connect'' [] (vios_connect E))) (\<lambda>b.
     whenb (\<not> b) (fail ''Failed connecting to VIOS''))))"

text \<open>
  The lines of the adapters of the partition and the position of the line of the device. The lines before
  it are read by their distance, and a negative index counts from the end.
\<close>

definition vnic_lines :: "'w vn_env \<Rightarrow> ('w, string \<times> string list \<times> int) vn" where
  "vnic_lines E =
     bnd (gets lpar_id) (\<lambda>lid.
     let cmd = ''ioscli lsmap -all -vnic -cpid '' @ lid in
     bnd (call ''session.cmd'' [cmd] (vios_cmd E cmd)) (\<lambda>r.
     let vnic_servers = splitlines (stdout_text r) in
     bnd mac0 (\<lambda>mac.
     bnd (find_device E mac) (\<lambda>device.
     bnd (lift (index_of vnic_servers (''Client device name:'' @ device))) (\<lambda>i.
     ret (device, vnic_servers, i))))))"

definition last_match :: "(string \<Rightarrow> bool) \<Rightarrow> string list \<Rightarrow> string option" where
  "last_match P ls = (let m = filter P ls in if m = [] then None else Some (last m))"

definition backing_of :: "string \<Rightarrow> string" where
  "backing_of out =
    (case last_match (contains ''Backing device'') (splitlines out) of
       None \<Rightarrow> []
     | Some line \<Rightarrow> last (split_on (CHR '':'') line))"

definition test_rmdev_viosfailover :: "'w vn_env \<Rightarrow> ('w, unit) vn" where
  "test_rmdev_viosfailover E =
     sq (connect_vios E)
    (bnd (vnic_lines E) (\<lambda>(device, vnic_servers, i).
     bnd (lift (py_nth vnic_servers (i - 5))) (\<lambda>line.
     bnd (lift (py_nth (split_ws line) 0)) (\<lambda>vnic_server.
     let cmd = ''ioscli lsmap -vnic -vadapter '' @ vnic_server in
     bnd (call ''session.cmd'' [cmd] (vios_cmd E cmd)) (\<lambda>r.
     let backing = backing_of (stdout_text r) in
     bnd (active0 E) (\<lambda>before.
     sq (log Debug (''Active backing device before : '' @ before))
    (sq (validate_vios_command E (''rmdev -l '' @ vnic_server) ''Defined'')
    (sq (whenb (backing \<noteq> []) (validate_vios_command E (''rmdev -l '' @ backing) ''Defined''))
    (sq (sleep (VInt 10))
    (bnd (backing_dev_list E) (\<lambda>out.
     sq (for_each (splitlines out) (\<lambda>l.
           bnd slot0 (\<lambda>slot.
           whenb (startswith l (slot_prefix slot) \<and> \<not> contains ''Powered Off'' (stripped slot l))
             (fail ''Failover did not occur''))))
    (sq (sleep (VInt 60))
    (sq (whenb (backing \<noteq> []) (validate_vios_command E (''mkdev -l '' @ backing) ''Available''))
    (sq (validate_vios_command E (''mkdev -l '' @ vnic_server) ''Available'')
    (sq (still_reachable E device
           (''Ping test failed. Network virtualized '' @ spaces 22 @ ''vios failover has affected Network connectivity''))
        (check_dmesg_error E))))))))))))))))"

definition dlpar_one :: "'w vn_env \<Rightarrow> string \<times> string \<times> string \<times> string \<times> string \<Rightarrow> ('w, unit) vn" where
  "dlpar_one E = (\<lambda>(slot_no, ip, nmask, mac, peer).
     sq (update_backing_devices E slot_no)
    (bnd (find_device_id E mac) (\<lambda>dev_id.
     bnd (find_device E mac) (\<lambda>device_name.
     bnd (find_virtual_slot E dev_id) (\<lambda>found.
     case found of
       None \<Rightarrow> fail ''slot not found''
     | Some slot \<Rightarrow>
         if slot = [] then fail ''slot not found''
         else
           sq (except_cmd
                 (bnd (gets num_of_dlpar) (\<lambda>n.
                  for_each (range1 n) (\<lambda>_.
                    sq (drmgr_vnic_dlpar E ''-r'' slot)
                   (sq (drmgr_vnic_dlpar E ''-a'' slot)
                   (sq (wait_intrerface E device_name) (ret ()))))))
                 (\<lambda>d. sq (log Debug d) (fail ''dlpar operation did not complete'')))
          (bnd (find_device E mac) (\<lambda>device.
           sq (add_or_save E device ip nmask)
          (bnd (wait_link E device) (\<lambda>b.
           sq (whenb (\<not> b) (fail (''Unable to bring up the link on the Network '' @ spaces 30 @ ''virtualized device'')))
          (bnd (ping E device peer count5) (\<lambda>bad.
           whenb bad (fail ''dlpar has affected Network connectivity''))))))))))))"

definition test_vnic_dlpar :: "'w vn_env \<Rightarrow> ('w, unit) vn" where
  "test_vnic_dlpar E =
     bnd (gets (\<lambda>s. zip (slot_num s) (zip (device_ip s) (zip (netmask s) (zip (mac_id s) (peer_ip s)))))) (\<lambda>rows.
     sq (for_each rows (dlpar_one E)) (check_dmesg_error E))"

definition hmc_dlpar_round ::
  "'w vn_env \<Rightarrow> string \<Rightarrow> string \<Rightarrow> string \<Rightarrow> string \<Rightarrow> string \<Rightarrow> string \<Rightarrow> string \<Rightarrow> string \<Rightarrow> int \<Rightarrow> ('w, unit) vn" where
  "hmc_dlpar_round E slot_no device ip nmask mac peer port adapter_id n =
     sq (log Info (''DLPAR iteration #'' @ str_int n))
    (bnd (backing_dev_count_w_slot_num E slot_no) (\<lambda>num_backingdevs.
     sq (device_add_remove E slot_no [] [] [] ''remove'')
    (bnd (call ''is_available'' [device] (is_available E device)) (\<lambda>b.
     sq (whenb b (fail ''DLPAR remove did not remove interface''))
    (sq (device_add_remove E slot_no mac port adapter_id ''add'')
    (sq (for_each (py_range3 1 num_backingdevs 1) (\<lambda>c.
           sq (backing_dev_add_remove E ''add'' c) (sq (wait_interface E device) (ret ()))))
    (sq (add_or_save E device ip nmask)
    (sq (call ''bring_up'' [device] (bring_up E device))
    (bnd (wait_link E device) (\<lambda>b.
     sq (whenb (\<not> b) (fail ''Unable to bring up the link on the Network virtualized device''))
    (sq (sleep (VInt 5))
    (bnd (ping E device peer count5) (\<lambda>bad.
     whenb bad (fail ''dlpar has affected Network connectivity''))))))))))))))"

text \<open>
  The loop reads the lists as it goes, and \<open>update_backing_devices\<close> moves entries of the ports and adapters
  within them, so the rows are read one at a time.
\<close>

definition hmc_dlpar_one :: "'w vn_env \<Rightarrow> int \<Rightarrow> ('w, unit) vn" where
  "hmc_dlpar_one E k =
     bnd (gets (\<lambda>s. zip (slot_num s) (zip (device_ip s) (zip (netmask s) (zip (mac_id s) (zip (peer_ip s)
            (zip (sriov_port s) (backing_adapter_id s)))))))) (\<lambda>rows.
     bnd (lift (py_nth rows k)) (\<lambda>(slot_no, ip, nmask, mac, peer, port, adapter_id).
     sq (update_backing_devices E slot_no)
    (bnd (find_device E mac) (\<lambda>device.
     sq (log Info (''Performing DLPAR on '' @ device))
    (bnd (gets num_of_dlpar) (\<lambda>n.
     for_each (range1 n) (hmc_dlpar_round E slot_no device ip nmask mac peer port adapter_id)))))))"

definition test_vnic_hmc_dlpar :: "'w vn_env \<Rightarrow> ('w, unit) vn" where
  "test_vnic_hmc_dlpar E =
     bnd (gets (\<lambda>s. Min {length (slot_num s), length (device_ip s), length (netmask s), length (mac_id s),
            length (peer_ip s), length (sriov_port s), length (backing_adapter_id s)})) (\<lambda>n.
     sq (for_each (range1 (int n)) (hmc_dlpar_one E)) (check_dmesg_error E))"


text \<open>A list of lines typed into the shell of the server, with a pause after each.\<close>

definition send :: "'w vn_env \<Rightarrow> string \<Rightarrow> ('w, unit) vn" where
  "send E line = call ''sendline'' [line] (pxssh_sendline E line)"

definition send_pause :: "'w vn_env \<Rightarrow> string \<times> int \<Rightarrow> ('w, unit) vn" where
  "send_pause E = (\<lambda>(line, n). sq (send E line) (sleep (VInt n)))"

text \<open>The lines of the answer that have the name; without one the variable of the loop is unbound.\<close>

definition start_values :: "string \<Rightarrow> string \<Rightarrow> string list result" where
  "start_values name out =
     mapM_r (\<lambda>line. py_nth (split_on (CHR ''='') line) 1)
       (filter (contains name) (split_str [carriage_return, newline, CHR '' ''] out))"

definition inject_eeh :: "'w vn_env \<Rightarrow> string \<Rightarrow> string \<Rightarrow> ('w, unit) vn" where
  "inject_eeh E backing name =
     bnd (sq (call ''prompt'' [] (pxssh_prompt E)) (call ''before'' [] (pxssh_before E))) (\<lambda>out.
     bnd (lift (start_values name out)) (\<lambda>vals.
     sq (send E ''quit'')
    (sq (whenb (vals = []) (raise UnboundLocalError))
        (send_pause E (''./eeh_tool_64 '' @ backing @ '' 3 15 -w 64 -a '' @ last vals @ '' -m 0xFFFFFFFFFFFFF000'', 5)))))"

definition eeh_session :: "'w vn_env \<Rightarrow> string \<Rightarrow> ('w, unit) vn" where
  "eeh_session E backing =
    (let ip = vstr (vn_param E ''vios_ip'' VNone);
         text_of = (\<lambda>k. vstr (vn_param E k VNone));
         tool = vstr (vn_param E ''eeh_tool'' (VStr ''eeh_tool_64''))
     in sq (except_any (call ''login'' [ip] (pxssh_login E ip)) (raise AttributeError))
       (sq (sleep (VInt 2))
       (sq (send_pause E (''oem_setup_env'', 5))
       (bnd (call ''get_data'' [tool] (vn_get_data E tool)) (\<lambda>eeh_tool_64.
        sq (for_each [(''scp '' @ text_of ''user_name'' @ ''@'' @ text_of ''host_public_ip'' @ '':'' @ eeh_tool_64 @ '' .'', 3),
                      (text_of ''host_password'', 5), (''kdb'', 5), (''set scroll false'', 5)] (send_pause E))
       (if truthy (vn_param E ''is_mlx_driver'' (VBool True)) then
          sq (send_pause E (''mlxcent setacs '' @ backing, 2))
         (sq (send E ''mlxcent pollq 0'')
             (inject_eeh E backing ''map_start''))
        else
          sq (send_pause E (''lnc2ent setacs '' @ backing, 2))
         (sq (send E ''lnc2ent hw pollq 0'')
             (inject_eeh E backing ''tce_start''))))))))"

text \<open>A login that fails calls \<^verbatim>\<open>self.warn\<close>, which the class does not have.\<close>

definition test_vnic_eeh :: "'w vn_env \<Rightarrow> ('w, unit) vn" where
  "test_vnic_eeh E =
     bnd (backing_dev_count E) (\<lambda>n.
     sq (whenb (n = 1) (cancel ''EEH cannot be tested as the interface has single backing device''))
    (bnd (active0 E) (\<lambda>current_logport.
     bnd (gets original_logport) (\<lambda>o'. bnd (lift (attr o')) (\<lambda>original.
     sq (if original \<noteq> current_logport then trigger_failover E original
         else log Info ''Unable to set the logport to original one'')
    (sq (sleep (VInt 5))
    (sq (connect_vios E)
    (bnd (vnic_lines E) (\<lambda>(_, vnic_servers, i).
     bnd (lift (py_nth vnic_servers (i - 3))) (\<lambda>line.
     bnd (lift (py_nth (split_on (CHR '':'') line) 1)) (\<lambda>backing.
     sq (eeh_session E backing)
    (bnd (active0 E) (\<lambda>active_logport.
     sq (whenb (current_logport = active_logport)
           (fail ''EEH unsuccessful as there is no failover triggered on the OS''))
    (bnd mac0 (\<lambda>mac.
     bnd (find_device E mac) (\<lambda>device.
     still_reachable E device ''Ping to peer failed. EEH has affected Network connectivity''))))))))))))))))"

definition backingdevremove_one :: "'w vn_env \<Rightarrow> string \<Rightarrow> ('w, unit) vn" where
  "backingdevremove_one E slot =
     sq (slots_exist E slot)
    (sq (update_backing_devices E slot)
    (bnd (backing_dev_count E) (\<lambda>pre_remove.
     sq (each_backing_dev E ''remove'')
    (bnd (backing_dev_count E) (\<lambda>post_remove.
     count_differs ''remove'' (pre_remove - post_remove + 1))))))"

definition test_backingdevremove :: "'w vn_env \<Rightarrow> ('w, unit) vn" where
  "test_backingdevremove E =
     bnd (gets slot_num) (\<lambda>slots. sq (for_each slots (backingdevremove_one E)) (check_dmesg_error E))"

definition remove_one :: "'w vn_env \<Rightarrow> string \<Rightarrow> ('w, unit) vn" where
  "remove_one E slot =
     sq (slots_exist E slot)
    (sq (update_backing_devices E slot)
    (sq (device_add_remove E slot [] [] [] ''remove'')
    (bnd (list_device E slot) (\<lambda>output.
     whenb (contains (''slot_num='' @ slot) output)
       (sq (log Debug output)
           (fail (''lshwres still lists the Network virtualized device '' @ spaces 27 @ ''after remove operation'')))))))"

definition test_remove :: "'w vn_env \<Rightarrow> ('w, unit) vn" where
  "test_remove E = bnd (gets slot_num) (\<lambda>slots. sq (for_each slots (remove_one E)) (check_dmesg_error E))"

text \<open>A session that was never made is a missing attribute.\<close>

definition quit_session :: "('w vn_st \<Rightarrow> bool) \<Rightarrow> string \<Rightarrow> ('w, unit) ext \<Rightarrow> ('w, unit) vn" where
  "quit_session has name x = bnd (gets has) (\<lambda>b. if b then call name [] x else raise AttributeError)"

definition vn_tearDown :: "'w vn_env \<Rightarrow> ('w, unit) vn" where
  "vn_tearDown E =
     sq (whenb (contains ''vios'' (vn_test_name E)) (quit_session has_vios ''session.quit'' (vios_quit E)))
    (sq (except_any (bnd slot0 (change_active_device E)) (log Debug ''Unable to set back the original active device''))
    (sq (quit_session has_hmc ''session_hmc.quit'' (hmc_quit E))
    (bnd (call ''is_os_secureboot_enabled'' [] (secure_boot E)) (\<lambda>b.
     sq (whenb (\<not> b)
           (bnd (call ''run'' [debug_cmd ''-''] (vn_run_ignore E (debug_cmd ''-''))) (\<lambda>r.
            whenb (exit_status r \<noteq> 0) (log Debug ''failed to disable debug mode''))))
        (whenb (contains ''test_add'' (vn_test_name E)) (quit_session has_peer ''session_peer.quit'' (peer_quit E)))))))"

end
