(* ===== verification/Vnic_Props.thy ===== *)
theory Vnic_Props
  imports Vnic Nd_Props
begin

section \<open>What the tests of virtual adapters do\<close>

text \<open>
  A console is described through a view of its state: the adapters by slot, each with its backing devices,
  in the order in which the console lists them.
\<close>

subsection \<open>The list of backing devices\<close>

record bdev =
  lport :: string
  is_act :: bool
  bstate :: string

type_synonym vnics = "(string \<times> bdev list) list"

definition bd_entry :: "bdev \<Rightarrow> string" where
  "bd_entry d = join ''/'' [''sriov'', lport d, if is_act d then ''1'' else ''0'', bstate d]"

definition bd_line :: "string \<times> bdev list \<Rightarrow> string" where
  "bd_line v = fst v @ [CHR '','', CHR 0x22] @ join '','' (map bd_entry (snd v)) @ [CHR 0x22]"

definition bd_listing :: "vnics \<Rightarrow> string" where
  "bd_listing vs = concat (map (\<lambda>v. bd_line v @ [newline]) vs)"

text \<open>Slots are numbers; the texts of a device hold no separator, and its state ends in a letter.\<close>

definition separator :: "char \<Rightarrow> bool" where
  "separator c \<longleftrightarrow> c \<in> {CHR ''/'', CHR '','', CHR 0x22} \<or> is_line_break c"

definition plain_dev :: "bdev \<Rightarrow> bool" where
  "plain_dev d \<longleftrightarrow> list_all (\<lambda>c. \<not> separator c) (lport d) \<and> list_all (\<lambda>c. \<not> separator c) (bstate d) \<and>
     bstate d \<noteq> [] \<and> \<not> is_digit (last (bstate d))"

definition plain_vnic :: "string \<times> bdev list \<Rightarrow> bool" where
  "plain_vnic v \<longleftrightarrow> list_all is_digit (fst v) \<and> snd v \<noteq> [] \<and> list_all plain_dev (snd v)"

definition plain_vnics :: "vnics \<Rightarrow> bool" where
  "plain_vnics vs \<longleftrightarrow> distinct (map fst vs) \<and> list_all plain_vnic vs"

lemma digit_no_break: "is_digit c \<Longrightarrow> \<not> is_line_break c"
  using is_digit_not_space by (auto simp: is_space_def is_line_break_def)

lemma plain_devD:
  assumes "plain_dev d"
  shows "c \<in> set (lport d) \<union> set (bstate d) \<Longrightarrow> \<not> separator c"
    and "bstate d \<noteq> []" "\<not> is_digit (last (bstate d))"
  using assms by (auto simp: plain_dev_def list_all_iff)

lemma separator_simps [simp]: "separator (CHR ''/'')" "separator (CHR '','')" "separator (CHR 0x22)"
  "is_line_break c \<Longrightarrow> separator c"
  by (simp_all add: separator_def)

lemma fixed_chars: "c \<in> set ''sriov'' \<union> {CHR ''/'', CHR ''0'', CHR ''1''} \<Longrightarrow> c \<noteq> CHR '','' \<and> \<not> is_line_break c"
  by (auto simp: is_line_break_def)

lemma entry_fields:
  assumes "plain_dev d"
  shows "split_on (CHR ''/'') (bd_entry d) = [''sriov'', lport d, if is_act d then ''1'' else ''0'', bstate d]"
  unfolding bd_entry_def
proof (rule split_join)
  fix w assume w: "w \<in> set [''sriov'', lport d, if is_act d then ''1'' else ''0'', bstate d]"
  have "CHR ''/'' \<notin> set (lport d)" "CHR ''/'' \<notin> set (bstate d)" using plain_devD(1)[OF assms] by force+
  with w show "CHR ''/'' \<notin> set w" by (auto split: if_splits)
qed simp

lemma entry_chars:
  assumes "plain_dev d" "c \<in> set (bd_entry d)"
  shows "c \<noteq> CHR '','' \<and> \<not> is_line_break c"
proof -
  have "c \<in> set ''sriov'' \<union> {CHR ''/'', CHR ''0'', CHR ''1''} \<or> c \<in> set (lport d) \<union> set (bstate d)"
    using assms(2) by (auto simp: bd_entry_def split: if_splits)
  then show ?thesis using fixed_chars plain_devD(1)[OF assms(1), of c] by (metis separator_simps(2,4))
qed

lemma entry_ends: "plain_dev d \<Longrightarrow> bd_entry d \<noteq> [] \<and> hd (bd_entry d) = CHR ''s'' \<and> last (bd_entry d) = last (bstate d)"
  by (auto simp: bd_entry_def plain_dev_def)

lemma join_Cons: "xs \<noteq> [] \<Longrightarrow> join s (x # xs) = x @ s @ join s xs"
  by (cases xs) auto

lemma join_chars: "c \<in> set (join s xs) \<Longrightarrow> c \<in> set s \<or> (\<exists>x \<in> set xs. c \<in> set x)"
  by (induction s xs rule: join.induct) auto

lemma join_ends:
  assumes "xs \<noteq> []" "\<And>x. x \<in> set xs \<Longrightarrow> x \<noteq> []"
  shows "join s xs \<noteq> []" "hd (join s xs) = hd (hd xs)" "last (join s xs) = last (last xs)"
  using assms by (induction s xs rule: join.induct) auto

lemma line_stripped:
  assumes "plain_vnic (slot, ds)"
  shows "stripped slot (bd_line (slot, ds)) = join '','' (map bd_entry ds)"
proof -
  let ?es = "map bd_entry ds" and ?x = "join '','' (map bd_entry ds)"
  have ne: "?es \<noteq> []" "\<And>e. e \<in> set ?es \<Longrightarrow> e \<noteq> []"
    and ds: "ds \<noteq> []" "\<And>d. d \<in> set ds \<Longrightarrow> plain_dev d"
    using assms entry_ends by (auto simp: plain_vnic_def list_all_iff)
  have slot: "\<And>c. c \<in> set slot \<Longrightarrow> is_digit c" using assms by (auto simp: plain_vnic_def list_all_iff)
  have h: "hd ?x = CHR ''s''" and l: "last ?x = last (bstate (last ds))"
    using ds ne entry_ends join_ends[OF ne] by (simp_all add: hd_map last_map)
  have lst: "\<not> is_digit (last (bstate (last ds)))" "\<not> separator (last (bstate (last ds)))"
    using plain_devD[OF ds(2)[of "last ds"]] ds(1) by auto
  have "strip_by (\<lambda>c. c \<in> set (slot @ [CHR '','', CHR 0x22])) ((slot @ [CHR '','', CHR 0x22]) @ ?x @ [CHR 0x22]) = ?x"
  proof (rule strip_by_both)
    have "\<not> is_digit (CHR ''s'')" by (simp add: is_digit_def char_digit_def)
    then show "hd ?x \<notin> set (slot @ [CHR '','', CHR 0x22])" using slot by (auto simp: h)
    show "last ?x \<notin> set (slot @ [CHR '','', CHR 0x22])" using slot lst by (auto simp: l separator_def)
  qed (use join_ends[OF ne] in auto)
  then show ?thesis by (simp add: stripped_def strip_chars_def bd_line_def)
qed

lemma line_entries:
  assumes "plain_vnic (slot, ds)"
  shows "split_on (CHR '','') (stripped slot (bd_line (slot, ds))) = map bd_entry ds"
  unfolding line_stripped[OF assms]
proof (rule split_join)
  fix w assume "w \<in> set (map bd_entry ds)"
  then obtain d where "d \<in> set ds" "w = bd_entry d" by auto
  moreover from this have "plain_dev d" using assms by (auto simp: plain_vnic_def list_all_iff)
  ultimately show "CHR '','' \<notin> set w" using entry_chars by blast
qed (use assms in \<open>simp add: plain_vnic_def\<close>)


definition standby :: "bdev \<Rightarrow> bool" where
  "standby d \<longleftrightarrow> \<not> is_act d \<and> contains ''Operational'' (bstate d)"

definition reads :: "(string list \<Rightarrow> bool result) \<Rightarrow> (bdev \<Rightarrow> bool) \<Rightarrow> bool" where
  "reads P D \<longleftrightarrow> (\<forall>d. P [''sriov'', lport d, if is_act d then ''1'' else ''0'', bstate d] = Inr (D d))"

lemma first_port_find:
  assumes "\<And>d. d \<in> set ds \<Longrightarrow> plain_dev d"
    and "reads P Q"
  shows "first_port P (map bd_entry ds) = Inr (map_option lport (List.find Q ds))"
  using assms(1) by (induction ds) (auto simp: entry_fields assms(2)[unfolded reads_def] py_nth_def Let_def)

lemma active_entry_reads: "reads active_entry is_act"
  by (simp add: reads_def active_entry_def py_nth_def)

lemma backing_entry_reads: "reads backing_entry standby"
  by (simp add: reads_def backing_entry_def py_nth_def standby_def)

lemma starts_with_slot:
  assumes "list_all is_digit s" "list_all is_digit slot"
  shows "startswith (bd_line (s, ds)) (slot_prefix slot) \<longleftrightarrow> s = slot"
proof
  let ?stop = "\<lambda>c. c \<noteq> CHR '',''"
  have no: "list_all ?stop s" "list_all ?stop slot"
    using assms is_digit_not_sign(5) by (auto simp: list_all_iff)
  assume "startswith (bd_line (s, ds)) (slot_prefix slot)"
  then obtain x where "bd_line (s, ds) = slot_prefix slot @ x"
    unfolding startswith_def by (metis append_take_drop_id)
  then have "takeWhile ?stop (bd_line (s, ds)) = takeWhile ?stop (slot_prefix slot @ x)" by simp
  with no show "s = slot" by (simp add: bd_line_def slot_prefix_def list_all_iff takeWhile_append)
qed (simp add: bd_line_def slot_prefix_def startswith_def)

lemma listing_lines:
  assumes "list_all plain_vnic vs"
  shows "splitlines (bd_listing vs) = map bd_line vs"
proof -
  have "splitlines (concat (map (\<lambda>l. l @ [newline]) (map bd_line vs))) = map bd_line vs"
  proof (rule splitlines_lines)
    fix l c assume "l \<in> set (map bd_line vs)" "c \<in> set l"
    then obtain slot ds where v: "plain_vnic (slot, ds)" and c: "c \<in> set (bd_line (slot, ds))"
      using assms by (auto simp: list_all_iff)
    from c consider "c \<in> set slot" | "c \<in> {CHR '','', CHR 0x22}" | "c \<in> set (join '','' (map bd_entry ds))"
      by (auto simp: bd_line_def)
    then show "\<not> is_line_break c"
    proof cases
      case 1
      with v show ?thesis using digit_no_break by (auto simp: plain_vnic_def list_all_iff)
    next
      case 3
      then consider "c = CHR '',''" | d where "d \<in> set ds" "c \<in> set (bd_entry d)"
        using join_chars[OF 3] by auto
      then show ?thesis
        using v entry_chars by cases (auto simp: plain_vnic_def list_all_iff is_line_break_def)
    qed (auto simp: is_line_break_def)
  qed
  then show ?thesis by (simp add: bd_listing_def comp_def)
qed

lemma last_port_lines:
  assumes "list_all plain_vnic vs" "distinct (map fst vs)" "list_all is_digit slot"
    and "reads P Q"
  shows "last_port P slot (map bd_line vs) acc =
    Inr (case map_of vs slot of None \<Rightarrow> acc
         | Some ds \<Rightarrow> (case List.find Q ds of None \<Rightarrow> acc | Some d \<Rightarrow> Some (lport d)))"
  using assms(1,2)
proof (induction vs arbitrary: acc)
  case (Cons v vs)
  obtain s ds where v: "v = (s, ds)" by (cases v)
  have pv: "plain_vnic (s, ds)" and digits: "list_all is_digit s" and pd: "\<And>d. d \<in> set ds \<Longrightarrow> plain_dev d"
    using Cons.prems v by (auto simp: plain_vnic_def list_all_iff)
  have fp: "first_port P (split_on (CHR '','') (stripped s (bd_line (s, ds)))) = Inr (map_option lport (List.find Q ds))"
    unfolding line_entries[OF pv] by (rule first_port_find) (use pd assms(4) in auto)
  show ?case
  proof (cases "s = slot")
    case True
    then have "map_of vs slot = None" using Cons.prems v by (auto simp: map_of_eq_None_iff)
    then show ?thesis
      using Cons fp v True assms(3) by (auto simp: starts_with_slot split: option.splits)
  next
    case False
    then show ?thesis using Cons v digits assms(3) by (simp add: starts_with_slot)
  qed
qed simp

lemma port_of_listing:
  assumes "plain_vnics vs" "map_of vs slot = Some ds"
    and "reads P Q"
  shows "port_of P slot (bd_listing vs) =
    (case List.find Q ds of None \<Rightarrow> Inl UnboundLocalError | Some d \<Rightarrow> Inr (lport d))"
proof -
  have "plain_vnic (slot, ds)" using assms(1) map_of_SomeD[OF assms(2)] by (auto simp: plain_vnics_def list_all_iff)
  then have "list_all is_digit slot" by (simp add: plain_vnic_def)
  then show ?thesis
    using assms by (simp add: port_of_def listing_lines plain_vnics_def last_port_lines split: option.split)
qed

lemma slot_lines_listing:
  assumes "plain_vnics vs" "map_of vs slot = Some ds"
  shows "slot_lines slot (bd_listing vs) = [bd_line (slot, ds)]"
proof -
  have pv: "plain_vnic (slot, ds)" using assms(1) map_of_SomeD[OF assms(2)] by (auto simp: plain_vnics_def list_all_iff)
  have "startswith (bd_line v) (slot_prefix slot) \<longleftrightarrow> fst v = slot" if "v \<in> set vs" for v
    using that assms(1) pv starts_with_slot[of "fst v" slot "snd v"]
    by (auto simp: plain_vnics_def plain_vnic_def list_all_iff)
  then have "filter (\<lambda>l. startswith l (slot_prefix slot)) (map bd_line vs) = map bd_line (filter (\<lambda>v. fst v = slot) vs)"
    by (simp add: filter_map comp_def cong: filter_cong)
  moreover have "filter (\<lambda>v. fst v = slot) vs = [(slot, ds)]"
    using assms unfolding plain_vnics_def
    by (induction vs) (auto simp: filter_empty_conv rev_image_eqI dest: map_of_SomeD split: if_splits)
  ultimately show ?thesis using assms(1) by (simp add: slot_lines_def listing_lines plain_vnics_def)
qed

lemma length_split_on: "length (split_on d s) = Suc (length (filter (\<lambda>c. c = d) s))"
  by (induction s) (auto split: list.split)

lemma commas_join:
  "(\<And>x. x \<in> set xs \<Longrightarrow> d \<notin> set x) \<Longrightarrow> xs \<noteq> [] \<Longrightarrow> Suc (length (filter (\<lambda>c. c = d) (join [d] xs))) = length xs"
proof (induction "[d]" xs rule: join.induct)
  case (2 x)
  then show ?case by (simp add: filter_empty_conv) metis
next
  case (3 x y zs)
  have "filter (\<lambda>c. c = d) x = []" using 3(2)[of x] by (auto simp: filter_empty_conv)
  with 3 show ?case by simp
qed simp

lemma entries_after_line:
  assumes "plain_vnic (slot, ds)"
  shows "entries_after (bd_line (slot, ds)) = int (length ds)"
proof -
  have "filter (\<lambda>c. c = CHR '','') slot = []"
    using assms is_digit_not_sign(5) by (auto simp: plain_vnic_def list_all_iff filter_empty_conv)
  moreover have "CHR '','' \<notin> set (bd_entry d)" if "d \<in> set ds" for d
    using that assms entry_chars[of d] by (auto simp: plain_vnic_def list_all_iff)
  then have "Suc (length (filter (\<lambda>c. c = CHR '','') (join '','' (map bd_entry ds)))) = length ds"
    using commas_join[of "map bd_entry ds"] assms by (auto simp: plain_vnic_def)
  ultimately show ?thesis by (simp add: entries_after_def length_split_on bd_line_def)
qed


text \<open>
  What the tests read from a listing: the port of the first active device, that of the first operational
  device that is not active, and the number of devices.
\<close>

text \<open>
  C12. Reading the backing devices of a slot: from the listing that the console prints, one line for
  each slot with its devices, the tests read the port of the first active device of the slot and the port of
  its first operational device that is not active, and the count of the entries is the number of devices;
  where the slot has no such device the reading ends in an UnboundLocalError.\<close>

theorem ports_read_back:
  assumes "plain_vnics vs" "map_of vs slot = Some ds"
  shows "port_of active_entry slot (bd_listing vs) =
      (case List.find is_act ds of None \<Rightarrow> Inl UnboundLocalError | Some d \<Rightarrow> Inr (lport d)) \<and>
    port_of backing_entry slot (bd_listing vs) =
      (case List.find standby ds of None \<Rightarrow> Inl UnboundLocalError | Some d \<Rightarrow> Inr (lport d)) \<and>
    map entries_after (slot_lines slot (bd_listing vs)) = [int (length ds)]"
proof -
  have "plain_vnic (slot, ds)" using assms(1) map_of_SomeD[OF assms(2)] by (auto simp: plain_vnics_def list_all_iff)
  then show ?thesis
    using port_of_listing[OF assms active_entry_reads]
      port_of_listing[OF assms backing_entry_reads]
    by (simp add: slot_lines_listing[OF assms] entries_after_line)
qed

definition example_vnics :: vnics where
  "example_vnics =
     [(''3'', [\<lparr>lport = ''27004001'', is_act = False, bstate = ''Operational''\<rparr>,
             \<lparr>lport = ''27008001'', is_act = True, bstate = ''Operational''\<rparr>]),
      (''33'', [\<lparr>lport = ''27004002'', is_act = True, bstate = ''Powered Off''\<rparr>])]"

lemma example_plain: "plain_vnics example_vnics"
  by code_simp

theorem ports_read_back_witness:
  "port_of active_entry ''3'' (bd_listing example_vnics) = Inr ''27008001''"
  using ports_read_back[OF example_plain, of "''3''" "snd (hd example_vnics)"] by (simp add: example_vnics_def)

subsection \<open>A console that does what it is told\<close>

definition set_active :: "string \<Rightarrow> bdev list \<Rightarrow> bdev list" where
  "set_active p ds = map (\<lambda>d. d\<lparr>is_act := (lport d = p)\<rparr>) ds"

definition activate :: "string \<Rightarrow> string \<Rightarrow> vnics \<Rightarrow> vnics" where
  "activate slot p vs = map (\<lambda>(s, ds). (s, if s = slot then set_active p ds else ds)) vs"

text \<open>\<open>quiet V A x\<close>: the call returns a value in \<open>A\<close> and leaves the view as it is.\<close>

definition quiet :: "('w \<Rightarrow> vnics) \<Rightarrow> ('a \<Rightarrow> bool) \<Rightarrow> ('w, 'a) ext \<Rightarrow> bool" where
  "quiet V A x \<longleftrightarrow> (\<forall>w. \<exists>r w'. x w = (Inr r, w') \<and> A r \<and> V w' = V w)"

definition console :: "'w vn_env \<Rightarrow> string \<Rightarrow> string \<Rightarrow> string \<Rightarrow> ('w \<Rightarrow> vnics) \<Rightarrow> bool" where
  "console E srv lp lid V \<longleftrightarrow>
     (\<forall>w. \<exists>r w'. hmc_cmd E (backing_list_cmd srv lp) w = (Inr r, w') \<and> stdout_text r = bd_listing (V w) \<and> V w' = V w) \<and>
     (\<forall>w slot p ds. map_of (V w) slot = Some ds \<longrightarrow> p \<in> lport ` set ds \<longrightarrow>
        (\<exists>r w'. hmc_cmd E (failover_cmd srv slot lid p) w = (Inr r, w') \<and> exit_status r = 0 \<and> V w' = activate slot p (V w)))"

text \<open>The interfaces can be read, the peer answers, and the kernel log is clean.\<close>

definition good_network :: "'w vn_env \<Rightarrow> ('w \<Rightarrow> vnics) \<Rightarrow> bool" where
  "good_network E V \<longleftrightarrow> quiet V (\<lambda>_. True) (interfaces E) \<and> (\<forall>d. quiet V (\<lambda>_. True) (if_address E d)) \<and>
     (\<forall>d p opts. quiet V (\<lambda>b. \<not> b) (ping_fails E d p opts)) \<and> (\<forall>l es. quiet V (\<lambda>_. True) (collect_errors E l es))"

lemma activate_simps:
  "map fst (activate slot p vs) = map fst vs"
  "map_of (activate slot p vs) slot = map_option (set_active p) (map_of vs slot)"
  "activate slot q (activate slot p vs) = activate slot q vs"
  by (induction vs) (auto simp: activate_def set_active_def)

lemma activate_same:
  assumes "map_of vs slot = Some ds" "distinct (map fst vs)" "set_active p ds = ds"
  shows "activate slot p vs = vs"
proof -
  have "(if s = slot then set_active p ds' else ds') = ds'" if "(s, ds') \<in> set vs" for s ds'
    using map_of_is_SomeI[OF assms(2) that] assms(1,3) by (cases "s = slot") auto
  then show ?thesis unfolding activate_def by (intro map_idI) auto
qed

lemma plain_activate: "plain_vnics vs \<Longrightarrow> plain_vnics (activate slot p vs)"
  by (auto simp: plain_vnics_def activate_simps) 
     (auto simp: list_all_iff activate_def plain_vnic_def plain_dev_def set_active_def split: if_splits)

text \<open>The number of failover commands sent to the console.\<close>

definition is_failover :: "event \<Rightarrow> bool" where
  "is_failover e =
    (case e of
       Call f (c # _) \<Rightarrow> f = ''session_hmc.cmd'' \<and> startswith c ''chhwres -r virtualio --rsubtype vnicbkdev -o act''
     | _ \<Rightarrow> False)"

definition failovers :: "event list \<Rightarrow> nat" where
  "failovers tr = length (filter is_failover tr)"

lemma failovers_simps [simp]:
  "failovers (tr @ [Log l m]) = failovers tr" "failovers (tr @ [Sleep v]) = failovers tr"
  "f \<noteq> ''session_hmc.cmd'' \<Longrightarrow> failovers (tr @ [Call f as]) = failovers tr"
  "failovers (tr @ [Call ''session_hmc.cmd'' [backing_list_cmd srv lp]]) = failovers tr"
  "failovers (tr @ [Call ''session_hmc.cmd'' [failover_cmd srv slot lid p]]) = Suc (failovers tr)"
  by (auto simp: failovers_def is_failover_def backing_list_cmd_def failover_cmd_def startswith_def split: list.split)

text \<open>Only the system and the trace differ from \<open>s\<close>; the view and the number of commands are given.\<close>

definition now_at :: "('w \<Rightarrow> vnics) \<Rightarrow> 'w vn_st \<Rightarrow> vnics \<Rightarrow> nat \<Rightarrow> 'w vn_st \<Rightarrow> bool" where
  "now_at V s vs n t \<longleftrightarrow> (\<exists>w tr. t = s\<lparr>world := w, trace := tr\<rparr> \<and> V w = vs \<and> failovers tr = n)"

lemma now_atI: "V w = vs \<Longrightarrow> failovers tr = n \<Longrightarrow> now_at V s vs n (s\<lparr>world := w, trace := tr\<rparr>)"
  unfolding now_at_def by blast

lemma now_at_start: "now_at V s (V (world s)) (failovers (trace s)) s"
  unfolding now_at_def by (intro exI[of _ "world s"] exI[of _ "trace s"]) simp

lemma wp_quiet:
  fixes s t :: "'w vn_st"
  assumes "quiet V A x" "now_at V s vs n t" "f \<noteq> ''session_hmc.cmd''"
    and "\<And>r u. A r \<Longrightarrow> now_at V s vs n u \<Longrightarrow> Q r u"
  shows "wp (call f as x) Q R t"
proof -
  obtain w tr where t: "t = s\<lparr>world := w, trace := tr\<rparr>" "V w = vs" "failovers tr = n"
    using assms(2) by (auto simp: now_at_def)
  obtain r w' where "x w = (Inr r, w')" "A r" "V w' = V w" using assms(1) unfolding quiet_def by meson
  then show ?thesis using t assms(3) by (auto simp: wp intro!: assms(4) now_atI)
qed

lemma wp_now_log:
  assumes "now_at V s vs n t" "\<And>u. now_at V s vs n u \<Longrightarrow> Q () u"
  shows "wp (log l m) Q R t"
proof -
  obtain w tr where "t = s\<lparr>world := w, trace := tr\<rparr>" "V w = vs" "failovers tr = n"
    using assms(1) by (auto simp: now_at_def)
  then show ?thesis by (auto simp: wp intro!: assms(2) now_atI)
qed

lemma wp_now_sleep:
  assumes "now_at V s vs n t" "0 \<le> k" "\<And>u. now_at V s vs n u \<Longrightarrow> Q () u"
  shows "wp (sleep (VInt k)) Q R t"
proof -
  obtain w tr where "t = s\<lparr>world := w, trace := tr\<rparr>" "V w = vs" "failovers tr = n"
    using assms(1) by (auto simp: now_at_def)
  then show ?thesis using assms(2) by (auto simp: wp intro!: assms(3) now_atI)
qed


definition setting :: "'w vn_env \<Rightarrow> ('w \<Rightarrow> vnics) \<Rightarrow> 'w vn_st \<Rightarrow> string \<Rightarrow> bool" where
  "setting E V s slot \<longleftrightarrow>
     console E (server s) (lpar s) (lpar_id s) V \<and> good_network E V \<and>
     slot_num s \<noteq> [] \<and> hd (slot_num s) = slot \<and> mac_id s \<noteq> [] \<and> peer_ip s \<noteq> []"

text \<open>The attributes are those of the start.\<close>

lemma now_at_attributes:
  assumes "now_at V s vs n t"
  shows "server t = server s" "lpar t = lpar s" "lpar_id t = lpar_id s" "slot_num t = slot_num s"
    "mac_id t = mac_id s" "peer_ip t = peer_ip s" "vn_count t = vn_count s" "original_logport t = original_logport s"
  using assms by (auto simp: now_at_def)

lemma wp_slot0: "slot_num t \<noteq> [] \<Longrightarrow> wp slot0 Q R t = Q (hd (slot_num t)) t"
  by (simp add: slot0_def wp py_nth_0)

lemma wp_mac0: "mac_id t \<noteq> [] \<Longrightarrow> wp mac0 Q R t = Q (hd (mac_id t)) t"
  by (simp add: mac0_def wp py_nth_0)

lemma wp_peer0: "peer_ip t \<noteq> [] \<Longrightarrow> wp peer0 Q R t = Q (hd (peer_ip t)) t"
  by (simp add: peer0_def wp py_nth_0)

lemma wp_backing_dev_list:
  assumes "setting E V s slot" "now_at V s vs n t" "\<And>u. now_at V s vs n u \<Longrightarrow> Q (bd_listing vs) u"
  shows "wp (backing_dev_list E) Q R t"
proof -
  obtain w tr where t: "t = s\<lparr>world := w, trace := tr\<rparr>" "V w = vs" "failovers tr = n"
    using assms(2) by (auto simp: now_at_def)
  obtain r w' where "hmc_cmd E (backing_list_cmd (server s) (lpar s)) w = (Inr r, w')"
    "stdout_text r = bd_listing (V w)" "V w' = V w"
    using assms(1) unfolding setting_def console_def by meson
  then show ?thesis
    by (simp add: t backing_dev_list_def listing_def except_cmd_def hmc_def wp assms(3) now_atI)
qed

lemma wp_port:
  assumes "setting E V s slot" "now_at V s vs n t" "plain_vnics vs" "map_of vs slot = Some ds"
    and "reads P D"
    and "List.find D ds = Some d" "\<And>u. now_at V s vs n u \<Longrightarrow> Q (lport d) u"
  shows "wp (bnd (backing_dev_list E) (\<lambda>out. lift (port_of P slot out))) Q R t"
  unfolding wp_bnd
  by (rule wp_backing_dev_list[OF assms(1,2)])
     (simp add: port_of_listing[OF assms(3-5)] assms(6) wp assms(7))

lemma wp_active:
  assumes "setting E V s slot" "now_at V s vs n t" "plain_vnics vs" "map_of vs slot = Some ds"
    and "List.find is_act ds = Some d" "\<And>u. now_at V s vs n u \<Longrightarrow> Q (lport d) u"
  shows "wp (active0 E) Q R t"
  using assms(1) wp_port[where d = d and Q = Q, OF assms(1-4) active_entry_reads assms(5,6)]
  by (simp add: active0_def wp wp_slot0 setting_def now_at_attributes[OF assms(2)] get_active_device_logport_def)

lemma wp_backing:
  assumes "setting E V s slot" "now_at V s vs n t" "plain_vnics vs" "map_of vs slot = Some ds"
    and "List.find standby ds = Some d" "\<And>u. now_at V s vs n u \<Longrightarrow> Q (lport d) u"
  shows "wp (backing0 E) Q R t"
  using assms(1) wp_port[where d = d and Q = Q, OF assms(1-4) backing_entry_reads assms(5,6)]
  by (simp add: backing0_def wp wp_slot0 setting_def now_at_attributes[OF assms(2)] get_backing_device_logport_def)

lemma wp_trigger:
  assumes "setting E V s slot" "now_at V s vs n t" "map_of vs slot = Some ds" "p \<in> lport ` set ds"
    and "\<And>u. now_at V s (activate slot p vs) (Suc n) u \<Longrightarrow> Q () u"
  shows "wp (trigger_failover E p) Q R t"
proof -
  obtain w tr where t: "t = s\<lparr>world := w, trace := tr\<rparr>" "V w = vs" "failovers tr = n"
    using assms(2) by (auto simp: now_at_def)
  obtain r w' where "hmc_cmd E (failover_cmd (server s) slot (lpar_id s) p) w = (Inr r, w')"
    "exit_status r = 0" "V w' = activate slot p (V w)"
    using assms(1,3,4) t(2) unfolding setting_def console_def by meson
  then show ?thesis
    using t assms(1) by (auto simp: trigger_failover_def hmc_def wp wp_slot0 setting_def intro!: assms(5) now_atI)
qed

lemma wp_find_device:
  assumes "good_network E V" "now_at V s vs n t" "\<And>d u. now_at V s vs n u \<Longrightarrow> Q d u"
  shows "wp (find_device E mac) Q R t"
proof -
  have loop: "wp (for_ret ds (\<lambda>device. bnd (call ''netifaces.ifaddresses'' [device] (if_address E device)) (\<lambda>addr.
      ret (if contains m addr then Some device else None)))) (\<lambda>_. now_at V s vs n) R t" if "now_at V s vs n t" for ds t m
    using that
  proof (induction ds arbitrary: t)
    case Nil
    then show ?case by (simp add: wp)
  next
    case (Cons d ds)
    show ?case unfolding for_ret.simps wp_bnd
      by (rule wp_quiet[where A = "\<lambda>_. True", OF _ Cons.prems]) (use assms(1) Cons.IH in \<open>auto simp: good_network_def wp\<close>)
  qed
  show ?thesis
    unfolding find_device_def Let_def
  proof (rule wp_bnd_step[where P = "\<lambda>_. now_at V s vs n" and R' = R])
    show "wp (call ''netifaces.interfaces'' [] (interfaces E)) (\<lambda>_. now_at V s vs n) R t"
      by (rule wp_quiet[where A = "\<lambda>_. True", OF _ assms(2)]) (use assms(1) in \<open>auto simp: good_network_def\<close>)
    show "wp (bnd (for_ret ds (\<lambda>device. bnd (call ''netifaces.ifaddresses'' [device] (if_address E device)) (\<lambda>addr.
        ret (if contains (mac_colons mac) addr then Some device else None)))) (\<lambda>r. ret (case r of None \<Rightarrow> [] | Some d \<Rightarrow> d))) Q R u"
      if "now_at V s vs n u" for ds u
      by (rule wp_bnd_step[OF loop[OF that]]) (auto simp: wp assms(3))
  qed simp
qed

lemma wp_mac: "setting E V s slot \<Longrightarrow> now_at V s vs n t \<Longrightarrow> Q (hd (mac_id s)) t \<Longrightarrow> wp mac0 Q R t"
  by (simp add: wp_mac0 now_at_attributes setting_def)

lemma wp_ping:
  assumes "good_network E V" "now_at V s vs n t" "\<And>u. now_at V s vs n u \<Longrightarrow> Q False u"
  shows "wp (ping E device p opts) Q R t"
  unfolding ping_def
  by (rule wp_quiet[where A = "\<lambda>b. \<not> b", OF _ assms(2)]) (use assms(1,3) in \<open>auto simp: good_network_def\<close>)

lemma wp_reachable:
  assumes "setting E V s slot" "now_at V s vs n t" "\<And>u. now_at V s vs n u \<Longrightarrow> Q () u"
  shows "wp (still_reachable E device why) Q R t"
proof -
  have g: "good_network E V" "peer_ip t \<noteq> []"
    using assms(1) by (simp_all add: setting_def now_at_attributes[OF assms(2)])
  show ?thesis unfolding still_reachable_def wp_bnd wp_peer0[OF g(2)]
    by (rule wp_ping[OF g(1) assms(2)]) (simp add: wp assms(3))
qed


subsection \<open>Failover through the console\<close>

text \<open>The adapter has at least two devices, all of them operational, with different ports, and \<open>a\<close> is active.\<close>

definition ready :: "vnics \<Rightarrow> string \<Rightarrow> bdev list \<Rightarrow> string \<Rightarrow> bool" where
  "ready vs slot ds a \<longleftrightarrow>
     plain_vnics vs \<and> map_of vs slot = Some ds \<and> distinct (map lport ds) \<and> 2 \<le> length ds \<and>
     a \<in> lport ` set ds \<and> set_active a ds = ds \<and> list_all (\<lambda>d. contains ''Operational'' (bstate d)) ds"

lemma find_active:
  "p \<in> lport ` set ds \<Longrightarrow> \<exists>d. List.find is_act (set_active p ds) = Some d \<and> lport d = p"
  by (induction ds) (auto simp: set_active_def)

lemma find_standby:
  "x \<in> set ds \<Longrightarrow> lport x \<noteq> p \<Longrightarrow> list_all (\<lambda>d. contains ''Operational'' (bstate d)) ds \<Longrightarrow>
   \<exists>d. List.find standby (set_active p ds) = Some d \<and> lport d \<noteq> p \<and> lport d \<in> lport ` set ds"
  by (induction ds) (auto simp: set_active_def standby_def)

lemma another_port:
  assumes "distinct (map lport ds)" "2 \<le> length ds"
  shows "\<exists>x \<in> set ds. lport x \<noteq> p"
proof -
  obtain x y zs where ds: "ds = x # y # zs"
    using assms(2) by (cases ds; cases "tl ds") auto
  with assms(1) show ?thesis by auto
qed

lemma ready_view:
  assumes "ready vs slot ds a"
  shows "plain_vnics (activate slot p vs)" "map_of (activate slot p vs) slot = Some (set_active p ds)"
    "lport ` set (set_active p ds) = lport ` set ds" "activate slot a vs = vs"
proof -
  have r: "plain_vnics vs" "map_of vs slot = Some ds" "set_active a ds = ds" using assms by (simp_all add: ready_def)
  then show "plain_vnics (activate slot p vs)" "map_of (activate slot p vs) slot = Some (set_active p ds)"
    by (simp_all add: plain_activate activate_simps)
  show "activate slot a vs = vs" using r by (simp add: activate_same plain_vnics_def)
qed (simp add: set_active_def image_image)

lemma wp_active_at:
  assumes "setting E V s slot" "ready vs slot ds a" "now_at V s (activate slot p vs) n t" "p \<in> lport ` set ds"
    and "\<And>u. now_at V s (activate slot p vs) n u \<Longrightarrow> Q p u"
  shows "wp (active0 E) Q R t"
proof -
  obtain d where d: "List.find is_act (set_active p ds) = Some d" "lport d = p" using find_active[OF assms(4)] by auto
  show ?thesis
    by (rule wp_active[OF assms(1,3) ready_view(1,2)[OF assms(2)] d(1)]) (simp add: d(2) assms(5))
qed

lemma wp_trigger_at:
  assumes "setting E V s slot" "ready vs slot ds a" "now_at V s (activate slot p vs) n t" "q \<in> lport ` set ds"
    and "\<And>u. now_at V s (activate slot q vs) (Suc n) u \<Longrightarrow> Q () u"
  shows "wp (trigger_failover E q) Q R t"
proof (rule wp_trigger[OF assms(1,3) ready_view(2)[OF assms(2)]])
  show "q \<in> lport ` set (set_active p ds)" using assms(4) by (simp add: ready_view(3)[OF assms(2)])
  fix u assume "now_at V s (activate slot q (activate slot p vs)) (Suc n) u"
  then show "Q () u" by (simp add: activate_simps(3) assms(5))
qed

text \<open>A round makes another port active.\<close>

lemma wp_round:
  assumes "setting E V s slot" "ready vs slot ds a" "now_at V s (activate slot p vs) n t" "p \<in> lport ` set ds"
  shows "wp (hmcfailover_round E)
           (\<lambda>_ u. \<exists>q \<in> lport ` set ds. now_at V s (activate slot q vs) (Suc n) u) (\<lambda>_ _. False) t"
proof -
  obtain x where "x \<in> set ds" "lport x \<noteq> p" using another_port[of ds p] assms(2) by (auto simp: ready_def)
  then obtain d where d: "List.find standby (set_active p ds) = Some d" "lport d \<noteq> p" "lport d \<in> lport ` set ds"
    using find_standby[of x ds p] assms(2) by (auto simp: ready_def)
  have g: "good_network E V" using assms(1) by (simp add: setting_def)
  show ?thesis
    unfolding hmcfailover_round_def wp_bnd wp_sq wp_whenb
    apply (rule wp_active_at[OF assms(1-4)], rule wp_backing[OF assms(1) _ ready_view(1,2)[OF assms(2)] d(1)], assumption)
    apply (rule wp_trigger_at[OF assms(1,2) _ d(3)], assumption, rule wp_now_sleep, assumption, simp)
    apply (rule wp_active_at[OF assms(1,2) _ d(3)], assumption, rule wp_now_log, assumption)
    apply (simp only: d(2)[symmetric] if_False)
    apply (rule wp_mac[OF assms(1)], assumption, rule wp_find_device[OF g], assumption)
    apply (rule wp_reachable[OF assms(1)], assumption, rule bexI[OF _ d(3)], assumption)
    done
qed


lemma wp_dmesg:
  assumes "setting E V s slot" "now_at V s vs n t" "\<And>u. now_at V s vs n u \<Longrightarrow> Q () u"
  shows "wp (check_dmesg_error E) Q (\<lambda>_ _. False) t"
proof -
  have g: "good_network E V" using assms(1) by (simp add: setting_def)
  have peer: "wp peer0 Q' R u = Q' (hd (peer_ip s)) u" if "now_at V s vs n u" for u Q' R
    using assms(1) that by (simp add: wp_peer0 now_at_attributes setting_def)
  have skip: "wp (skip_errors E d) (\<lambda>_. now_at V s vs n) (\<lambda>_ _. False) u" if "now_at V s vs n u" for d u
    unfolding skip_errors_def
    by (rule wp_for_acc[where I = "\<lambda>_ _. now_at V s vs n"])
       (use that peer in \<open>auto simp: wp_bnd wp_ret intro!: wp_ping[OF g]\<close>)
  show ?thesis
    unfolding check_dmesg_error_def
  proof (rule wp_bnd_step[where P = "\<lambda>_. now_at V s vs n" and R' = "\<lambda>_ _. False"])
    show "wp (if \<not> contains ''test_remove'' (vn_test_name E)
          then bnd mac0 (\<lambda>mac. bnd (find_device E mac) (skip_errors E))
          else ret known_errors) (\<lambda>_. now_at V s vs n) (\<lambda>_ _. False) t"
      using assms(2) by (auto simp: wp_ret wp_bnd intro!: wp_mac[OF assms(1)] wp_find_device[OF g] skip)
  next
    fix error u assume u: "now_at V s vs n u"
    show "wp (sq (log Info ''Gathering kernel errors if any'')
      (try_except (call ''collect_errors_by_level'' (''4'' # error) (collect_errors E 4 error))
         (\<lambda>e. sq (log Info (err_text E e)) (fail ''test failed,check dmesg log in debug log'')))) Q (\<lambda>_ _. False) u"
      unfolding wp_sq wp_try_except
      by (rule wp_now_log[OF u], rule wp_quiet[where A = "\<lambda>_. True"])
         (use g assms(3) in \<open>auto simp: good_network_def\<close>)
  qed
qed

lemma wp_rounds:
  assumes "setting E V s slot" "ready vs slot ds a" "now_at V s (activate slot p vs) n t" "p \<in> lport ` set ds"
  shows "wp (for_each ks (\<lambda>_. hmcfailover_round E))
     (\<lambda>_ u. \<exists>q \<in> lport ` set ds. now_at V s (activate slot q vs) (n + length ks) u) (\<lambda>_ _. False) t"
proof (rule wp_for_each[where I = "\<lambda>ys u. \<exists>q \<in> lport ` set ds. now_at V s (activate slot q vs) (n + length ys) u"])
  fix ys x u assume "\<exists>q \<in> lport ` set ds. now_at V s (activate slot q vs) (n + length ys) u"
  then show "wp (hmcfailover_round E)
      (\<lambda>_ u. \<exists>q \<in> lport ` set ds. now_at V s (activate slot q vs) (n + length (ys @ [x])) u) (\<lambda>_ _. False) u"
    using wp_round[OF assms(1,2)] by auto
qed (use assms(3,4) in auto)

lemma wp_set_back:
  assumes "setting E V s slot" "ready vs slot ds a" "now_at V s (activate slot q vs) n t" "q \<in> lport ` set ds"
  shows "wp (set_back E a) (\<lambda>_ u. \<exists>k \<le> 1. now_at V s vs (n + k) u) (\<lambda>_ _. False) t"
proof -
  let ?I = "\<lambda>u. \<exists>k \<le> 1. now_at V s (activate slot a vs) (n + k) u"
  have a: "a \<in> lport ` set ds" using assms(2) by (simp add: ready_def)
  note va = ready_view(4)[OF assms(2)]
  show ?thesis
    unfolding set_back_def
  proof (rule wp_sq_step[where P = "\<lambda>_. ?I" and R' = "\<lambda>_ _. False"])
    show "wp (bnd (active0 E) (\<lambda>now. whenb (a \<noteq> now) (trigger_failover E a))) (\<lambda>_. ?I) (\<lambda>_ _. False) t"
      unfolding wp_bnd wp_whenb
    proof (rule wp_active_at[OF assms])
      fix u assume u: "now_at V s (activate slot q vs) n u"
      have "wp (trigger_failover E a) (\<lambda>_. ?I) (\<lambda>_ _. False) u"
        by (rule wp_trigger_at[OF assms(1,2) u a]) (rule exI[of _ 1], simp)
      moreover have "?I u" if "a = q" using u that by (intro exI[of _ 0]) simp
      ultimately show "if a \<noteq> q then wp (trigger_failover E a) (\<lambda>_. ?I) (\<lambda>_ _. False) u else ?I u" by simp
    qed
  next
    fix u assume "?I u"
    then obtain k where k: "k \<le> 1" "now_at V s (activate slot a vs) (n + k) u" by blast
    show "wp (bnd (active0 E) (\<lambda>now. whenb (a \<noteq> now) (log Warning (''Fail: Activating Initial backing dev '' @ a))))
        (\<lambda>_ u. \<exists>k \<le> 1. now_at V s vs (n + k) u) (\<lambda>_ _. False) u"
      unfolding wp_bnd wp_whenb by (rule wp_active_at[OF assms(1,2) k(2) a]) (use k(1) va in auto)
  qed
qed

text \<open>
  C5. The failover test on a console that obeys: with at least two operational devices on different
  ports, one of them active, the test passes after any number of rounds, each of which has made another port
  active, and at the end every adapter has the devices it had, with the original one active. The console
  got one failover command for each round, and at most one more.\<close>

theorem hmcfailover_restores:
  assumes "setting E V s slot" "ready (V (world s)) slot ds a"
  shows "\<exists>t. test_hmcfailover E s = (Inr (), t) \<and> V (world t) = V (world s) \<and>
    (\<exists>k \<le> 1. failovers (trace t) = failovers (trace s) + nat (vn_count s) + k)"
proof -
  let ?vs = "V (world s)" and ?n = "failovers (trace s) + nat (vn_count s)"
  have a: "a \<in> lport ` set ds" and va: "activate slot a ?vs = ?vs"
    using assms(2) ready_view(4)[OF assms(2)] by (simp_all add: ready_def)
  have start: "now_at V s (activate slot a ?vs) (failovers (trace s)) s" using now_at_start[of V s] va by simp
  have "wp (test_hmcfailover E) (\<lambda>_ t. \<exists>k \<le> 1. now_at V s ?vs (?n + k) t) (\<lambda>_ _. False) s"
    unfolding test_hmcfailover_def wp_bnd wp_gets
  proof (rule wp_active_at[OF assms start a], rule wp_sq_step)
    fix u assume u: "now_at V s (activate slot a ?vs) (failovers (trace s)) u"
    show "wp (for_each (range1 (vn_count u)) (\<lambda>_. hmcfailover_round E))
        (\<lambda>_ v. \<exists>q \<in> lport ` set ds. now_at V s (activate slot q ?vs) ?n v) (\<lambda>_ _. False) u"
      using wp_rounds[OF assms u a, of "range1 (vn_count s)"] by (simp add: py_range3_def now_at_attributes[OF u])
  next
    fix v assume "\<exists>q \<in> lport ` set ds. now_at V s (activate slot q ?vs) ?n v"
    then obtain q where q: "q \<in> lport ` set ds" "now_at V s (activate slot q ?vs) ?n v" by blast
    show "wp (sq (set_back E a) (check_dmesg_error E)) (\<lambda>_ t. \<exists>k \<le> 1. now_at V s ?vs (?n + k) t) (\<lambda>_ _. False) v"
      by (rule wp_sq_step[OF wp_set_back[OF assms q(2,1)]]) (auto intro!: wp_dmesg[OF assms(1)])
  qed auto
  then show ?thesis unfolding wp_not_exn_iff by (auto simp: now_at_def)
qed


subsection \<open>The original device\<close>

text \<open>\<open>leaves V x\<close>: whatever the call ends in, the view is as before.\<close>

definition leaves :: "('w \<Rightarrow> vnics) \<Rightarrow> ('w, 'a) ext \<Rightarrow> bool" where
  "leaves V x \<longleftrightarrow> (\<forall>w. V (snd (x w)) = V w)"

definition viewed :: "('w \<Rightarrow> vnics) \<Rightarrow> 'w vn_st \<Rightarrow> vnics" where
  "viewed V s = V (world s)"

lemma leaves_call: "leaves V x \<Longrightarrow> keeps (viewed V) (call f as x)"
  by (simp add: keeps_def viewed_def leaves_def call_def split: prod.split) (metis snd_conv)

lemma viewed_log: "keeps (viewed V) (log l m)"
  by (simp add: keeps_def viewed_def log_def emit_def py_defs)

lemma wp_change_active:
  assumes "setting E V s slot" "ready vs slot ds a" "now_at V s vs n t"
  shows "wp (change_active_device E slot) (\<lambda>_ u. viewed V u = vs) (\<lambda>_ u. viewed V u = vs) t"
proof -
  have a: "a \<in> lport ` set ds" and va: "activate slot a vs = vs"
    using assms(2) ready_view(4)[OF assms(2)] by (simp_all add: ready_def)
  have t: "now_at V s (activate slot a vs) n t" using assms(3) va by simp
  have v: "viewed V u = vs" if "now_at V s vs m u" for u m using that by (auto simp: now_at_def viewed_def)
  have act: "wp (get_active_device_logport E slot) Q R t" if "\<And>u. now_at V s (activate slot a vs) n u \<Longrightarrow> Q a u" for Q R
    using wp_active_at[OF assms(1,2) t a, of Q R] that assms(1)
    by (simp add: active0_def wp wp_slot0 setting_def now_at_attributes[OF t])
  have trigger: "wp (trigger_failover E a) (\<lambda>_ u. viewed V u = vs) (\<lambda>_ u. viewed V u = vs) u"
    if "now_at V s (activate slot a vs) n u" for u
    by (rule wp_trigger_at[OF assms(1,2) that a]) (use v va in auto)
  have quiet_log: "wp (log l m) (\<lambda>_ u. viewed V u = vs) (\<lambda>_ u. viewed V u = vs) u"
    if "now_at V s (activate slot a vs) n u" for l m u
    by (rule wp_keeps[OF viewed_log]) (use v that va in auto)
  show ?thesis
    unfolding change_active_device_def wp_bnd wp_gets wp_lift
    by (rule act) (use trigger quiet_log v va in \<open>auto simp: attr_def split: option.split\<close>)
qed

text \<open>
  C11. The tearDown never brings the original device back. Whatever device was active when the set-up
  looked, on a console that obeys the adapters after tearDown are as they were before it, with the same
  device active: where the two differ, the device that is activated is the current one.\<close>

theorem original_never_restored:
  assumes "setting E V s slot" "ready (V (world s)) slot ds a"
    and "leaves V (vios_quit E)" "leaves V (hmc_quit E)" "leaves V (peer_quit E)" "leaves V (secure_boot E)"
    and "\<forall>c. leaves V (vn_run_ignore E c)"
  shows "V (world (snd (vn_tearDown E s))) = V (world s)"
proof -
  let ?vs = "V (world s)"
  let ?P = "\<lambda>_ u. viewed V u = ?vs"
  have quit: "keeps (viewed V) (quit_session has name x)" if "leaves V x" for has name x
    unfolding quit_session_def by (intro keeps leaves_call[OF that] keeps_if)
  have rest: "keeps (viewed V) (sq (quit_session has_hmc ''session_hmc.quit'' (hmc_quit E))
    (bnd (call ''is_os_secureboot_enabled'' [] (secure_boot E)) (\<lambda>b.
     sq (whenb (\<not> b)
           (bnd (call ''run'' [debug_cmd ''-''] (vn_run_ignore E (debug_cmd ''-''))) (\<lambda>r.
            whenb (exit_status r \<noteq> 0) (log Debug ''failed to disable debug mode''))))
        (whenb (contains ''test_add'' (vn_test_name E)) (quit_session has_peer ''session_peer.quit'' (peer_quit E))))))"
    by (intro keeps quit leaves_call viewed_log) (use assms in auto)
  have first: "wp (whenb (contains ''vios'' (vn_test_name E)) (quit_session has_vios ''session.quit'' (vios_quit E)))
      (\<lambda>_ u. \<exists>n. now_at V s ?vs n u) ?P s"
    using now_at_start[of V s] assms(3)[unfolded leaves_def]
    by (auto simp: quit_session_def wp viewed_def now_at_def split: prod.split sum.split) (metis snd_conv)+
  have change: "wp (except_any (bnd slot0 (change_active_device E))
      (log Debug ''Unable to set back the original active device'')) ?P ?P u" if "now_at V s ?vs n u" for n u
  proof -
    have "wp (change_active_device E slot) ?P (\<lambda>_. wp (log Debug ''Unable to set back the original active device'') ?P ?P) u"
      by (rule wp_conseq[OF wp_change_active[OF assms(1,2) that]]) (auto intro!: wp_keeps[OF viewed_log[of V]])
    then show ?thesis
      using assms(1) by (simp add: except_any_def wp_try_except wp_bnd wp_slot0 setting_def now_at_attributes[OF that])
  qed
  have "wp (vn_tearDown E) ?P ?P s"
    unfolding vn_tearDown_def
    by (rule wp_sq_step[OF first], elim exE, rule wp_sq_step[OF change], assumption)
       (auto intro!: wp_keeps[OF rest])
  then show ?thesis by (auto simp: wp_def viewed_def split: prod.splits sum.splits)
qed


subsection \<open>The lists of backing devices\<close>

definition triples :: "'w vn_st \<Rightarrow> (string \<times> string \<times> string) list" where
  "triples s = zip (vios_id s) (zip (sriov_port s) (backing_adapter_id s))"

definition same_length :: "'w vn_st \<Rightarrow> bool" where
  "same_length s \<longleftrightarrow> length (vios_id s) = length (sriov_port s) \<and> length (sriov_port s) = length (backing_adapter_id s)"

definition to_front :: "nat \<Rightarrow> 'a list \<Rightarrow> 'a list" where
  "to_front i xs = xs ! i # take i xs @ drop (Suc i) xs"

definition fixed_part :: "'w vn_st \<Rightarrow> string list \<times> string list \<times> string list \<times> string list \<times> pyval list" where
  "fixed_part s = (vios_id s, sriov_port s, backing_adapter_id s, vios_name s, tl (vnic_priority s))"

lemma pop_to_front: "i < length xs \<Longrightarrow> pop i xs = Inr (xs ! i, take i xs @ drop (Suc i) xs)"
  by (simp add: pop_def)

lemma zip_to_front:
  "length xs = length ys \<Longrightarrow> i < length xs \<Longrightarrow> zip (to_front i xs) (to_front i ys) = to_front i (zip xs ys)"
  by (simp add: to_front_def take_zip drop_zip zip_append)

lemma length_to_front: "i < length xs \<Longrightarrow> length (to_front i xs) = length xs"
  by (simp add: to_front_def)

lemma wp_move_front:
  assumes "same_length s" "i < length (vios_id s)"
  shows "wp (move_front i) (\<lambda>_ t. triples t = to_front i (triples s) \<and> vios_name t = vios_name s \<and>
           tl (vnic_priority t) = tl (vnic_priority s)) R s"
  using assms
  by (simp add: move_front_def wp pop_to_front same_length_def triples_def flip: to_front_def zip_to_front)

lemma last_index_bound:
  "last_index i a p xs ports r = Inr (Some k) \<Longrightarrow> r = Some k \<or> k < i + length xs"
proof (induction xs arbitrary: i r)
  case (Cons x xs)
  then show ?case by (fastforce simp: rbind_Inr_iff split: if_splits dest!: Cons.IH)
qed simp

lemma keeps_fixed_part:
  "keeps fixed_part (call f as x)" "keeps fixed_part (log l m)" "keeps fixed_part (set_priority0 p)"
  by (simp_all add: keeps_def fixed_part_def call_def log_def emit_def set_priority0_def py_defs split: prod.split)

lemma keeps_listing: "keeps fixed_part (listing E cmd)" "keeps fixed_part (backing_dev_list E)"
  "keeps fixed_part (get_backing_devices E slot)" "keeps fixed_part (get_active_device_logport E slot)"
  unfolding listing_def backing_dev_list_def get_backing_devices_def get_active_device_logport_def except_cmd_def hmc_def
  by (intro keeps keeps_fixed_part | auto intro: keeps keeps_fixed_part split: exn.split)+

lemma keeps_entries: "keeps fixed_part (active_entry_step p e acc)"
  unfolding active_entry_step_def Let_def by (intro keeps keeps_fixed_part)

text \<open>
  C10. The lists of the backing devices stay in step: when the lists of the server numbers, of the ports
  and of the adapters have the same length, then after the update, whatever it ends in, they hold the same
  triples, either as they were or with one of them moved to the front. The names of the servers and the
  priorities after the first are not moved with them.\<close>

theorem update_keeps_triples:
  assumes "same_length s"
  shows "let t = snd (update_backing_devices E slot s) in
    (triples t = triples s \<or> (\<exists>i < length (triples s). triples t = to_front i (triples s))) \<and>
    vios_name t = vios_name s \<and> tl (vnic_priority t) = tl (vnic_priority s)"
proof -
  let ?I = "\<lambda>_ t. fixed_part t = fixed_part s"
  let ?Q = "\<lambda>_ t. (triples t = triples s \<or> (\<exists>i < length (triples s). triples t = to_front i (triples s))) \<and>
    vios_name t = vios_name s \<and> tl (vnic_priority t) = tl (vnic_priority s)"
  have q: "?Q x t" if "fixed_part t = fixed_part s" for x t
    using that by (simp add: fixed_part_def triples_def)
  have step: "wp m ?I ?Q t" if "keeps fixed_part m" "fixed_part t = fixed_part s" for m :: "('w vn_st, 'b) py" and t
    by (rule wp_keeps[OF that(1)]) (use that(2) q in auto)
  have move: "wp (move_front i) ?Q ?Q t" if "fixed_part t = fixed_part s" "i < length (backing_adapter_id t)" for i t
  proof -
    have "same_length t" "i < length (vios_id t)" "triples t = triples s" "i < length (triples s)"
      using that assms by (auto simp: fixed_part_def same_length_def triples_def)
    then show ?thesis
      using that(1) by (intro wp_conseq[OF wp_move_front]) (auto simp: fixed_part_def)
  qed
  have finish: "wp (case r of None \<Rightarrow> raise UnboundLocalError | Some i \<Rightarrow> move_front i) ?Q ?Q t"
    if "fixed_part t = fixed_part s" "last_index 0 a p (backing_adapter_id t) ports None = Inr r" for r a p ports t
    using that q last_index_bound[of 0 a p "backing_adapter_id t" ports None] move[OF that(1)]
    by (auto simp: wp split: option.split)
  have "wp (update_backing_devices E slot) ?Q ?Q s"
    unfolding update_backing_devices_def
  proof (rule wp_bnd_step[OF step[OF keeps_listing(4)]], simp, rule wp_bnd_step[OF step[OF keeps_listing(3)]], assumption,
      rule wp_bnd_step[OF step[OF keeps_for_acc[OF keeps_entries]]], assumption)
    fix acc :: "string \<times> string option" and t assume t: "fixed_part t = fixed_part s"
    show "wp (case acc of (adapter_id, port) \<Rightarrow> if adapter_id = [] then ret ()
        else bnd (gets backing_adapter_id) (\<lambda>ids. bnd (gets sriov_port) (\<lambda>ports.
          bnd (lift (last_index 0 adapter_id (the port) ids ports None)) (\<lambda>r.
          case r of None \<Rightarrow> raise UnboundLocalError | Some i \<Rightarrow> move_front i)))) ?Q ?Q t"
      using q[OF t] finish[OF t]
      by (simp add: wp_ret wp_bnd wp_gets wp_lift wp_case_prod wp_if split: prod.split sum.split)
  qed auto
  then show ?thesis by (auto simp: wp_def Let_def split: prod.splits sum.splits)
qed


subsection \<open>A small console\<close>

text \<open>One adapter with two devices; the state says which of them is active.\<close>

definition small_view :: "bool \<Rightarrow> vnics" where
  "small_view b =
     [(''3'', [\<lparr>lport = ''27004001'', is_act = b, bstate = ''Operational''\<rparr>,
             \<lparr>lport = ''27008001'', is_act = (\<not> b), bstate = ''Operational''\<rparr>])]"

definition answer :: "int \<Rightarrow> string \<Rightarrow> cmd_result" where
  "answer n out = \<lparr>exit_status = n, stdout_text = out, stderr_text = []\<rparr>"

definition small_cmd :: "string \<Rightarrow> (bool, cmd_result) ext" where
  "small_cmd cmd b =
    (if cmd = backing_list_cmd ''sys'' ''lp'' then (Inr (answer 0 (bd_listing (small_view b))), b)
     else if cmd = failover_cmd ''sys'' ''3'' ''5'' ''27004001'' then (Inr (answer 0 []), True)
     else if cmd = failover_cmd ''sys'' ''3'' ''5'' ''27008001'' then (Inr (answer 0 []), False)
     else (Inr (answer 1 []), b))"

definition small_env :: "bool vn_env" where
  "small_env =
     \<lparr>vn_params = \<lambda>_. None, vn_test_name = ''test_hmcfailover'', vn_workdir = ''/tmp'', vn_check = \<lambda>_. query True,
      vn_install = \<lambda>_. query True, vn_distro = query ''rhel'', vn_fetch = \<lambda>_. query [], vn_copy = \<lambda>_. query (),
      vn_output = \<lambda>_. query [], vn_system = \<lambda>_. query 0, vn_run = \<lambda>_. query (answer 0 []),
      vn_run_ignore = \<lambda>_. query (answer 0 []), vn_write = \<lambda>_ _. query (), vn_append = \<lambda>_ _. query (),
      err_text = \<lambda>_. [], vn_get_data = \<lambda>_. query [], clear_log = query (), collect_errors = \<lambda>_ _. query (),
      secure_boot = query False, hmc_cleanup = query (), hmc_connect = query True, hmc_cmd = small_cmd,
      hmc_quit = query (), peer_connect = query True, peer_cmd = \<lambda>_. query (answer 0 []), peer_quit = query (),
      peer_interface = \<lambda>_. query ''eth0'', vios_cleanup = query (), vios_connect = query True,
      vios_cmd = \<lambda>_. query (answer 0 []), vios_quit = query (), pxssh_login = \<lambda>_. query (),
      pxssh_sendline = \<lambda>_. query (), pxssh_prompt = query (), pxssh_before = query [],
      interfaces = query [''eth1''], if_address = \<lambda>_. query ''02:03:03:03:03:01'',
      add_ipaddr = \<lambda>_ _ _. query (), save_config = \<lambda>_ _ _. query (), bring_up = \<lambda>_. query (), link_up = \<lambda>_. query True,
      is_available = \<lambda>_. query True, ping_fails = \<lambda>_ _ _. query False, vn_polls = \<lambda>_. 3\<rparr>"

definition small_state :: "bool \<Rightarrow> string \<Rightarrow> bool vn_st" where
  "small_state b original =
     \<lparr>world = b, trace = [], hmc_pwd = VNone, lpar = ''lp'', server = ''sys'', slot_num = [''3''],
      original_logport = Some original, vios_name = [''vios1'', ''vios2''], sriov_port = [''0'', ''1''],
      backing_adapter = [''a'', ''b''], backingdev_count = 2, bandwidth = VStr ''2'',
      vnic_priority = [VInt 50, VInt 50], auto_failover = ''1'', vn_count = 3, num_of_dlpar = 1,
      device_ip = [''10.0.0.1''], mac_id = [''020303030301''], netmask = [''255.255.255.0''],
      peer_ip = [''10.0.0.2''], skip_vnic_add = False, lpar_id = ''5'', vios_id = [''1'', ''2''],
      backing_adapter_id = [''7'', ''8''], has_hmc = True, has_peer = False, has_vios = False\<rparr>"

lemma small_console: "console small_env ''sys'' ''lp'' ''5'' small_view"
proof -
  have cmds: "failover_cmd ''sys'' ''3'' ''5'' p \<noteq> backing_list_cmd ''sys'' ''lp''" for p
    by (simp add: failover_cmd_def backing_list_cmd_def)
  have "failover_cmd ''sys'' ''3'' ''5'' ''27008001'' \<noteq> failover_cmd ''sys'' ''3'' ''5'' ''27004001''"
    by (simp add: failover_cmd_def)
  with cmds show ?thesis
    by (auto simp: console_def small_env_def small_cmd_def answer_def small_view_def activate_def set_active_def
        split: if_splits)
qed

lemma small_network: "good_network small_env small_view"
  by (auto simp: good_network_def quiet_def small_env_def)

lemma small_setting: "setting small_env small_view (small_state b p) ''3''"
  using small_console small_network by (simp add: setting_def small_state_def)

lemma small_ready: "ready (small_view True) ''3'' (snd (hd (small_view True))) ''27004001''"
  by code_simp

theorem hmcfailover_restores_witness:
  "\<exists>t. test_hmcfailover small_env (small_state True ''27004001'') = (Inr (), t) \<and> world t"
  using hmcfailover_restores[OF small_setting, of True "''27004001''" "snd (hd (small_view True))" "''27004001''"] small_ready
  by (auto simp: small_state_def small_view_def)

theorem original_never_restored_witness:
  "world (snd (vn_tearDown small_env (small_state True ''27008001'')))"
  using original_never_restored[OF small_setting, of True "''27008001''" "snd (hd (small_view True))" "''27004001''"] small_ready
  by (auto simp: small_state_def small_view_def leaves_def small_env_def)

theorem update_keeps_triples_witness:
  "vios_name (snd (update_backing_devices small_env ''3'' (small_state False ''27004001''))) = [''vios1'', ''vios2'']"
  using update_keeps_triples[of "small_state False ''27004001''" small_env "''3''"]
  by (simp add: same_length_def small_state_def Let_def)

end
