(* ===== verification/Ppc64_Cpu.thy ===== *)
theory Ppc64_Cpu
  imports Avocado Py_Json "HOL-Library.AList"
begin

section \<open>Processor modes (cpu/ppc64_cpu_test.py)\<close>

text \<open>
  The test switches cores on and off and changes the number of threads per core (the SMT mode) with the
  command \<^verbatim>\<open>ppc64_cpu\<close>, and compares what the command reports afterwards. The system is the parameter
  \<open>pc_env\<close>; attributes of the object are in the state, \<open>None\<close> where they are set late. Texts are UTF-8, so
  the signs of the messages that are not ASCII are several characters.
\<close>

subsection \<open>External operations and state\<close>

record 'w pc_env =
  pc_params :: "string \<Rightarrow> pyval option"
  pc_workdir :: string
  pc_arch :: "('w, string) ext"
  pc_distro :: "('w, string) ext"
  pc_check :: "string \<Rightarrow> ('w, bool) ext"
  pc_install :: "string \<Rightarrow> ('w, bool) ext"
  pc_exists :: "string \<Rightarrow> ('w, bool) ext"
  pc_system :: "string \<Rightarrow> ('w, int) ext"
  pc_system_ignore :: "string \<Rightarrow> ('w, int) ext"
  pc_output :: "string \<Rightarrow> ('w, string) ext"
  pc_output_ignore :: "string \<Rightarrow> ('w, string) ext"
  pc_run_ignore :: "string \<Rightarrow> ('w, cmd_result) ext"
  pc_online_count :: "('w, int) ext"
  pc_read :: "string \<Rightarrow> ('w, string) ext"
  pc_fetch :: "string \<Rightarrow> ('w, string) ext"
  pc_extract :: "string \<Rightarrow> ('w, unit) ext"
  pc_chdir :: "string \<Rightarrow> ('w, unit) ext"
  pc_make :: "string \<Rightarrow> string \<Rightarrow> ('w, unit) ext"
  pc_choice :: "nat \<Rightarrow> ('w, nat) ext"
  pc_randint :: "int \<Rightarrow> int \<Rightarrow> ('w, int) ext"
  pc_sample :: "int list \<Rightarrow> int \<Rightarrow> ('w, int list) ext"
  pc_err_text :: "exn \<Rightarrow> string"

record 'w pc_st = "'w st" +
  has_smt_str :: bool
  pc_loop :: int
  run_type :: pyval
  curr_smt :: "string option"
  smt_subcores :: int
  failures :: "string list"
  smt_values :: "(int \<times> string) list"
  key :: int
  smt_value :: string
  max_smt_value :: int
  total_cores :: int
  all_smt_values :: "string list"
  stress_iterations :: int
  random_iterations :: int
  run_random_stress :: pyval

type_synonym ('w, 'a) pc = "('w pc_st, 'a) py"

definition pc_param :: "'w pc_env \<Rightarrow> string \<Rightarrow> pyval \<Rightarrow> pyval" where
  "pc_param E k d = (case pc_params E k of None \<Rightarrow> d | Some v \<Rightarrow> v)"

definition psystem :: "'w pc_env \<Rightarrow> string \<Rightarrow> ('w, unit) pc" where
  "psystem E cmd = sq (call ''system'' [cmd] (pc_system E cmd)) (ret ())"

definition psystem_ignore :: "'w pc_env \<Rightarrow> string \<Rightarrow> ('w, unit) pc" where
  "psystem_ignore E cmd = sq (call ''system'' [cmd] (pc_system_ignore E cmd)) (ret ())"

definition poutput :: "'w pc_env \<Rightarrow> string \<Rightarrow> ('w, string) pc" where
  "poutput E cmd = call ''system_output'' [cmd] (pc_output E cmd)"

definition prun :: "'w pc_env \<Rightarrow> string \<Rightarrow> ('w, cmd_result) pc" where
  "prun E cmd = call ''run'' [cmd] (pc_run_ignore E cmd)"

definition pc_failure :: "string \<Rightarrow> ('w, unit) pc" where
  "pc_failure m = modify (\<lambda>s. s\<lparr>failures := failures s @ [m]\<rparr>)"

text \<open>\<^verbatim>\<open>random.choice\<close> of a list and \<^verbatim>\<open>random.randint\<close>.\<close>

definition random_choice :: "'w pc_env \<Rightarrow> string list \<Rightarrow> ('w, string) pc" where
  "random_choice E xs = bnd (call ''choice'' xs (pc_choice E (length xs))) (\<lambda>i. lift (py_nth xs (int i)))"

definition randint :: "'w pc_env \<Rightarrow> int \<Rightarrow> int \<Rightarrow> ('w, int) pc" where
  "randint E a b = call ''randint'' [str_int a, str_int b] (pc_randint E a b)"

definition equals_line :: string where "equals_line = replicate 60 (CHR ''='')"

definition check_sign :: string where "check_sign = [CHR 0xE2, CHR 0x9C, CHR 0x93]"
definition cross_sign :: string where "cross_sign = [CHR 0xE2, CHR 0x9C, CHR 0x97]"
definition times_sign :: string where "times_sign = [CHR 0xC3, CHR 0x97]"

definition str_names :: "string list \<Rightarrow> string" where
  "str_names xs = brackets (map repr_str xs)"

definition str_ints :: "int list \<Rightarrow> string" where
  "str_ints xs = brackets (map str_int xs)"

text \<open>The last word of the text behind the last equals sign, and the number behind it.\<close>

definition after_equals :: "string \<Rightarrow> string" where
  "after_equals out = last (split_on (CHR ''='') (strip out))"

definition last_word :: "string \<Rightarrow> string result" where
  "last_word t = py_nth (split_ws t) (-1)"

definition smt_of :: "string \<Rightarrow> string result" where
  "smt_of out = last_word (after_equals out)"

definition reset_system_state :: "'w pc_env \<Rightarrow> ('w, unit) pc" where
  "reset_system_state E =
     sq (psystem E ''ppc64_cpu --cores-on=all'')
    (sq (psystem E ''ppc64_cpu --smt=on'')
        (sleep (VInt 1)))"

definition generate_smt_values :: "int \<Rightarrow> string list" where
  "generate_smt_values m = ''off'' # map str_int (py_range3 2 (m + 1) 1) @ [''on'']"

text \<open>The numbers of the parameters; those that no method reads are only converted.\<close>

definition read_numbers :: "'w pc_env \<Rightarrow> ('w, unit) pc" where
  "read_numbers E =
     sq (lift (vint (pc_param E ''functional/iteration'' (VInt 5))))
    (bnd (lift (vint (pc_param E ''stress/iterations'' (VInt 20)))) (\<lambda>n.
     sq (lift (vint (pc_param E ''stress/parallel_iterations'' (VInt 3))))
    (bnd (lift (vint (pc_param E ''stress/random_iterations'' (VInt 50)))) (\<lambda>r.
     sq (lift (vint (pc_param E ''stress/num_parallel_threads'' (VInt 4))))
    (sq (lift (vfloat (pc_param E ''timing/sleep_after_smt_change'' (VInt 1))))
    (sq (lift (vfloat (pc_param E ''timing/sleep_after_core_change'' (VInt 1))))
    (sq (lift (vfloat (pc_param E ''timing/sleep_between_operations'' (VFloat (3 / 10)))))
        (modify (\<lambda>s. s\<lparr>stress_iterations := n, random_iterations := r,
           run_random_stress := pc_param E ''stress/run_random_stress'' (VBool True)\<rparr>)))))))))"

definition pc_setUp :: "'w pc_env \<Rightarrow> ('w, unit) pc" where
  "pc_setUp E =
     bnd (call ''distro.detect'' [] (pc_arch E)) (\<lambda>arch.
     sq (whenb (\<not> contains ''ppc'' arch) (cancel ''Processor is not ppc64''))
    (bnd (call ''check_installed'' [''powerpc-utils''] (pc_check E ''powerpc-utils'')) (\<lambda>b.
     sq (if b then ret ()
         else bnd (call ''install'' [''powerpc-utils''] (pc_install E ''powerpc-utils'')) (\<lambda>b'.
              whenb (\<not> b') (cancel ''Cannot install powerpc-utils, check the log!'')))
    (bnd (lift (vint (pc_param E ''test_loop'' (VInt 100)))) (\<lambda>n.
     sq (modify (\<lambda>s. s\<lparr>pc_loop := n, run_type := pc_param E ''type'' (VStr ''distro''), has_smt_str := True\<rparr>))
    (sq (psystem E ''ppc64_cpu --smt=on'')
    (bnd (poutput E ''ppc64_cpu --smt'') (\<lambda>smt_op.
     sq (whenb (contains ''is not SMT capable'' smt_op) (cancel ''Machine is not SMT capable''))
    (sq (whenb (contains ''Inconsistent state'' smt_op) (cancel ''Machine has mix of ST and SMT cores''))
    (bnd (lift (smt_of smt_op)) (\<lambda>curr.
     sq (modify (\<lambda>s. s\<lparr>curr_smt := Some curr\<rparr>))
    (bnd (call ''exists'' [''/sys/devices/system/cpu/subcores_per_core'']
            (pc_exists E ''/sys/devices/system/cpu/subcores_per_core'')) (\<lambda>sub.
     sq (modify (\<lambda>s. s\<lparr>smt_subcores := (if sub then 1 else 0), failures := [], smt_values := [(1, ''off'')], key := 0,
            smt_value := []\<rparr>))
    (bnd (lift (py_int curr)) (\<lambda>m.
     sq (modify (\<lambda>s. s\<lparr>max_smt_value := m\<rparr>))
    (bnd (poutput E ''ppc64_cpu --cores-present'') (\<lambda>out.
     bnd (lift (rbind (last_word (strip out)) py_int)) (\<lambda>ncores.
     sq (modify (\<lambda>s. s\<lparr>total_cores := ncores, all_smt_values := generate_smt_values m\<rparr>))
    (sq (read_numbers E)
    (sq (log Info (''Total cores: '' @ str_int ncores @ '', Max SMT: '' @ str_int m))
    (sq (log Info (''All SMT values to test: '' @ str_names (generate_smt_values m)))
    (bnd (lift (vint (pc_param E ''stress/parallel_iterations'' (VInt 3)))) (\<lambda>par.
     bnd (gets stress_iterations) (\<lambda>st. bnd (gets random_iterations) (\<lambda>rnd.
     log Info (''Test iterations: stress='' @ str_int st @ '', parallel='' @ str_int par @ '', random='' @ str_int rnd)
     )))))))))))))))))))))))))"

text \<open>The message names the mode that \<^verbatim>\<open>test_cmd_options\<close> is at.\<close>

definition equality_check :: "string \<Rightarrow> string \<Rightarrow> string \<Rightarrow> ('w, unit) pc" where
  "equality_check name a b =
     sq (log Info (''Testing '' @ name))
        (whenb (a \<noteq> b)
          (bnd (gets key) (\<lambda>k. pc_failure (name @ '' test failed when SMT='' @ str_int k))))"

definition smt :: "'w pc_env \<Rightarrow> ('w, unit) pc" where
  "smt E =
     bnd (poutput E ''ppc64_cpu --smt'') (\<lambda>out.
     bnd (lift (smt_of out)) (\<lambda>op1.
     bnd (gets smt_value) (\<lambda>v. equality_check ''SMT'' op1 v)))"

text \<open>\<^verbatim>\<open>count / key\<close> is a float, which \<^verbatim>\<open>ceil\<close> makes an integer again.\<close>

definition core :: "'w pc_env \<Rightarrow> ('w, unit) pc" where
  "core E =
     bnd (poutput E ''ppc64_cpu --cores-present'') (\<lambda>out.
     bnd (lift (last_word (strip out))) (\<lambda>op1.
     bnd (call ''online_count'' [] (pc_online_count E)) (\<lambda>n.
     bnd (gets key) (\<lambda>k.
     if k = 0 then raise ZeroDivisionError
     else equality_check ''Core'' op1 (str_int \<lceil>fl (of_int n / of_int k)\<rceil>)))))"

definition subcore :: "'w pc_env \<Rightarrow> ('w, unit) pc" where
  "subcore E =
     bnd (poutput E ''ppc64_cpu --subcores-per-core'') (\<lambda>out.
     bnd (lift (last_word (strip out))) (\<lambda>op1.
     bnd (call ''read_file'' [''/sys/devices/system/cpu/subcores_per_core'']
            (pc_read E ''/sys/devices/system/cpu/subcores_per_core'')) (\<lambda>t.
     equality_check ''Subcore'' op1 (strip t))))"

definition threads_per_core :: "'w pc_env \<Rightarrow> ('w, unit) pc" where
  "threads_per_core E =
     bnd (poutput E ''ppc64_cpu --threads-per-core'') (\<lambda>out.
     bnd (lift (last_word (strip out))) (\<lambda>op1.
     bnd (poutput E ''ppc64_cpu --info'') (\<lambda>out.
     bnd (lift (py_nth (splitlines (strip out)) 0)) (\<lambda>line.
     equality_check ''Threads per core'' op1 (str_int (int (length (split_ws (last (split_on (CHR '':'') line))))))))))"


definition dscr :: "'w pc_env \<Rightarrow> ('w, unit) pc" where
  "dscr E =
     bnd (poutput E ''ppc64_cpu --dscr'') (\<lambda>out.
     bnd (lift (last_word (strip out))) (\<lambda>op1.
     bnd (call ''read_file'' [''/sys/devices/system/cpu/dscr_default'']
            (pc_read E ''/sys/devices/system/cpu/dscr_default'')) (\<lambda>t.
     bnd (lift (py_int16 (strip t))) (\<lambda>op2. equality_check ''DSCR'' op1 (str_int op2)))))"

text \<open>The modes of the first test: 1 is called off, and the greatest mode is left out.\<close>

definition option_values :: "(int \<times> string) list \<Rightarrow> int \<Rightarrow> (int \<times> string) list" where
  "option_values d m = foldl (\<lambda>d i. AList.update i (str_int i) d) d (py_range3 2 m 1)"

definition test_cmd_options :: "'w pc_env \<Rightarrow> ('w, unit) pc" where
  "test_cmd_options E =
     sq (modify (\<lambda>s. s\<lparr>smt_values := option_values (smt_values s) (max_smt_value s)\<rparr>))
    (bnd (gets smt_values) (\<lambda>vals.
     sq (for_each vals (\<lambda>(k, v).
           sq (modify (\<lambda>s. s\<lparr>key := k, smt_value := v\<rparr>))
          (sq (poutput E (''ppc64_cpu --smt='' @ str_int k))
          (sq (poutput E ''ppc64_cpu --info'')
              (dscr E)))))
    (bnd (gets failures) (\<lambda>fs.
     whenb (fs \<noteq> []) (sq (log Debug (''Failure list: '' @ str_names fs)) (fail ''None''))))))"

definition test_smt_loop :: "'w pc_env \<Rightarrow> ('w, unit) pc" where
  "test_smt_loop E =
     bnd (gets pc_loop) (\<lambda>n.
     for_each (py_range3 1 n 1) (\<lambda>_.
       let cmd = ''ppc64_cpu --smt=off && ppc64_cpu --smt=on'' in
       bnd (call ''system'' [cmd] (pc_system E cmd)) (\<lambda>st.
       whenb (st \<noteq> 0) (fail ''SMT loop test failed''))))"

definition test_single_core_smt :: "'w pc_env \<Rightarrow> ('w, unit) pc" where
  "test_single_core_smt E =
     sq (psystem E ''ppc64_cpu --cores-on=all'')
    (sq (psystem E ''ppc64_cpu --smt=on'')
    (sq (psystem E ''ppc64_cpu --cores-on=1'')
    (bnd (poutput E ''ppc64_cpu --cores-on'') (\<lambda>out.
     let op1 = after_equals out in
     sq (log Debug op1)
    (sq (psystem E ''ppc64_cpu --smt=2'')
    (sq (psystem E ''ppc64_cpu --smt=4'')
    (bnd (poutput E ''ppc64_cpu --cores-on'') (\<lambda>out.
     let op2 = after_equals out in
     sq (log Debug op2)
        (whenb (op1 \<noteq> op2) (fail ''SMT with Single core test failed''))))))))))"

definition test_build_upstream :: "'w pc_env \<Rightarrow> ('w, unit) pc" where
  "test_build_upstream E =
     bnd (gets run_type) (\<lambda>t.
     if t \<noteq> VStr ''upstream'' then cancel ''This test is supported with upstream as target''
     else
       bnd (call ''distro.detect'' [] (pc_distro E)) (\<lambda>name.
       bnd (if contains ''SuSE'' name then ret [''libnuma-devel'']
            else if name \<in> {''centos'', ''fedora'', ''rhel''} then ret [''numactl-devel'']
            else cancel ''Unsupported Linux distribution'') (\<lambda>more_deps.
       sq (for_each ([''gcc'', ''make'', ''automake'', ''autoconf'', ''bison'', ''flex'', ''libtool'', ''zlib-devel'',
              ''ncurses-devel'', ''librtas-devel''] @ more_deps) (\<lambda>package.
             bnd (call ''check_installed'' [package] (pc_check E package)) (\<lambda>b.
             if b then ret ()
             else bnd (call ''install'' [package] (pc_install E package)) (\<lambda>b'.
                  whenb (\<not> b') (cancel (''Fail to install '' @ package @ '' required for this test.''))))))
      (let url = vstr (pc_param E ''ppcutils_url''
              (VStr ''https://github.com/ibm-power-utilities/powerpc-utils/archive/refs/heads/master.zip''));
           sourcedir = path_join (pc_workdir E) ''powerpc-utils-master'' in
       bnd (call ''fetch_asset'' [url] (pc_fetch E url)) (\<lambda>tarball.
       sq (call ''extract'' [tarball] (pc_extract E tarball))
      (sq (call ''chdir'' [sourcedir] (pc_chdir E sourcedir))
      (bnd (prun E ''./autogen.sh'') (\<lambda>r.
       sq (whenb (exit_status r \<noteq> 0) (fail ''Upstream build: Pre configure step failed''))
      (bnd (prun E ''./configure --prefix=/usr'') (\<lambda>r.
       sq (whenb (exit_status r \<noteq> 0) (fail ''Upstream build: Configure step failed''))
      (sq (call ''make'' [sourcedir] (pc_make E sourcedir []))
          (call ''make'' [sourcedir, ''install''] (pc_make E sourcedir ''install'')))))))))))))"

subsection \<open>What the command reports\<close>

text \<open>
  A line of \<^verbatim>\<open>ppc64_cpu --info\<close>: \<^verbatim>\<open>Core\<close>, blanks, a number, a colon, at least one blank, then the threads.
\<close>

definition core_line :: "string \<Rightarrow> (int \<times> string list) option" where
  "core_line line =
     (if \<not> startswith line ''Core'' then None
      else
        let blanks = drop 4 line;
            digits = dropWhile is_space blanks;
            rest = dropWhile is_digit digits
        in if takeWhile is_space blanks \<noteq> [] \<and> takeWhile is_digit digits \<noteq> [] \<and> rest \<noteq> [] \<and> hd rest = CHR '':'' \<and>
              tl rest \<noteq> [] \<and> is_space (hd (tl rest))
           then Some (digits_value 0 (takeWhile is_digit digits), split_ws (tl rest))
           else None)"

record core_info =
  info_cores :: "(int \<times> string list \<times> int) list"
  info_total :: int
  online_cores :: "int list"
  offline_cores :: "int list"
  smt_mode :: "int option"
  inconsistent :: bool

definition no_info :: core_info where
  "no_info = \<lparr>info_cores = [], info_total = 0, online_cores = [], offline_cores = [], smt_mode = None, inconsistent = False\<rparr>"

definition count_online :: "string list \<Rightarrow> int" where
  "count_online threads = int (length (filter (contains ''*'') threads))"

definition add_line :: "core_info \<Rightarrow> string \<Rightarrow> core_info" where
  "add_line info line =
    (case core_line line of
       None \<Rightarrow> info
     | Some (n, threads) \<Rightarrow>
         let k = count_online threads; info' = info\<lparr>info_cores := AList.update n (threads, k) (info_cores info)\<rparr>
         in if 0 < k then info'\<lparr>online_cores := online_cores info @ [n]\<rparr>
            else info'\<lparr>offline_cores := offline_cores info @ [n]\<rparr>)"

text \<open>The numbers of threads of the online cores, by core; a core listed twice counts once.\<close>

definition online_counts :: "core_info \<Rightarrow> (int \<times> int) list" where
  "online_counts info =
     foldl (\<lambda>d c. AList.update c (case map_of (info_cores info) c of Some (_, k) \<Rightarrow> k | None \<Rightarrow> 0) d) [] (online_cores info)"

definition parse_info :: "string \<Rightarrow> core_info" where
  "parse_info out =
    (let info = foldl add_line no_info (splitlines (strip out));
         counts = remdups (map snd (online_counts info))
     in info\<lparr>info_total := int (length (info_cores info)), inconsistent := 1 < length counts,
          smt_mode := (case counts of [k] \<Rightarrow> Some k | _ \<Rightarrow> None)\<rparr>)"

definition str_counts :: "(int \<times> int) list \<Rightarrow> string" where
  "str_counts d = ''{'' @ join '', '' (map (\<lambda>(c, k). str_int c @ '': '' @ str_int k) d) @ ''}''"

definition parse_ppc64_cpu_info :: "'w pc_env \<Rightarrow> ('w, core_info) pc" where
  "parse_ppc64_cpu_info E =
     try_except
       (bnd (poutput E ''ppc64_cpu --info'') (\<lambda>out.
        let info = parse_info out in
        sq (whenb (inconsistent info)
              (sq (log Warning ''INCONSISTENT SMT STATE among online cores!'')
                  (log Warning (''Online cores thread counts: '' @ str_counts (online_counts info)))))
           (ret info)))
       (\<lambda>e. sq (log Error (''Failed to parse ppc64_cpu --info: '' @ pc_err_text E e)) (ret no_info))"

text \<open>Each check that does not hold is logged and makes the result false.\<close>

definition demand :: "bool \<Rightarrow> string \<Rightarrow> bool \<Rightarrow> ('w, bool) pc" where
  "demand b m passed = (if b then ret passed else sq (log Error m) (ret False))"

definition cpus_expected :: "string \<Rightarrow> int \<Rightarrow> core_info \<Rightarrow> int option" where
  "cpus_expected current cores info =
     (case smt_mode info of Some k \<Rightarrow> if current \<noteq> ''off'' \<and> k \<noteq> 0 then Some (cores * k) else None | None \<Rightarrow> None)"

definition verify_system_state :: "'w pc_env \<Rightarrow> string option \<Rightarrow> int option \<Rightarrow> ('w, bool) pc" where
  "verify_system_state E expected_smt expected_cores_on =
     sq (log Info equals_line)
    (sq (log Info ''SYSTEM STATE VERIFICATION'')
    (sq (log Info equals_line)
    (bnd (parse_ppc64_cpu_info E) (\<lambda>info.
     bnd (poutput E ''ppc64_cpu --smt'') (\<lambda>out.
     bnd (lift (smt_of out)) (\<lambda>current_smt.
     bnd (poutput E ''ppc64_cpu --cores-on'') (\<lambda>out.
     bnd (lift (py_int (after_equals out))) (\<lambda>cores_on.
     bnd (call ''online_count'' [] (pc_online_count E)) (\<lambda>online_cpus.
     sq (log Info (''Current SMT mode: '' @ current_smt))
    (sq (log Info (''Cores online: '' @ str_int cores_on))
    (sq (log Info (''Online CPUs: '' @ str_int online_cpus))
    (sq (log Info (''Total cores detected: '' @ str_int (info_total info)))
    (sq (log Info (''Online cores: '' @ str_ints (online_cores info)))
    (sq (log Info (''Offline cores: '' @ str_ints (offline_cores info)))
    (bnd (case expected_smt of None \<Rightarrow> ret True
          | Some e \<Rightarrow> demand (current_smt = e) (''SMT mismatch! Expected: '' @ e @ '', Got: '' @ current_smt) True) (\<lambda>p1.
     bnd (case expected_cores_on of None \<Rightarrow> ret p1
          | Some e \<Rightarrow> demand (cores_on = e) (''Cores mismatch! Expected: '' @ str_int e @ '', Got: '' @ str_int cores_on) p1) (\<lambda>p2.
     bnd (demand (\<not> inconsistent info) ''INCONSISTENT SMT STATE detected among online cores!'' p2) (\<lambda>p3.
     bnd (case cpus_expected current_smt cores_on info of None \<Rightarrow> ret p3
          | Some e \<Rightarrow> demand (online_cpus = e)
              (''CPU count mismatch! '' @ spaces 24 @ ''Expected: '' @ str_int e @ '' (cores='' @ str_int cores_on @ '' '' @
               times_sign @ '' smt='' @ str_int (the (smt_mode info)) @ ''), Got: '' @ str_int online_cpus) p3) (\<lambda>passed.
     sq (log Info equals_line)
    (sq (if passed then log Info (check_sign @ '' VALIDATION PASSED'') else log Error (cross_sign @ '' VALIDATION FAILED''))
    (sq (log Info equals_line)
        (ret passed))))))))))))))))))))))"

record cores_state =
  cores_on :: int
  cores_present :: int

definition get_cores_info :: "'w pc_env \<Rightarrow> ('w, cores_state) pc" where
  "get_cores_info E =
     bnd (poutput E ''ppc64_cpu --cores-on'') (\<lambda>out.
     bnd (lift (py_int (after_equals out))) (\<lambda>on.
     bnd (poutput E ''ppc64_cpu --cores-present'') (\<lambda>out.
     bnd (lift (rbind (last_word (strip out)) py_int)) (\<lambda>present.
     ret \<lparr>cores_on = on, cores_present = present\<rparr>))))"

definition get_current_smt :: "'w pc_env \<Rightarrow> ('w, string) pc" where
  "get_current_smt E =
     try_except
       (bnd (poutput E ''ppc64_cpu --smt'') (\<lambda>out. lift (smt_of out)))
       (\<lambda>e. sq (log Error (''Failed to get current SMT: '' @ pc_err_text E e)) (ret ''unknown''))"


subsection \<open>Tests of both settings\<close>

definition set_smt :: "'w pc_env \<Rightarrow> string \<Rightarrow> ('w, unit) pc" where
  "set_smt E v = psystem E (''ppc64_cpu --smt='' @ v)"

definition set_smt_ignore :: "'w pc_env \<Rightarrow> string \<Rightarrow> ('w, unit) pc" where
  "set_smt_ignore E v = psystem_ignore E (''ppc64_cpu --smt='' @ v)"

definition set_cores :: "'w pc_env \<Rightarrow> int \<Rightarrow> ('w, unit) pc" where
  "set_cores E n = psystem E (''ppc64_cpu --cores-on='' @ str_int n)"

definition all_cores_on :: "'w pc_env \<Rightarrow> ('w, unit) pc" where
  "all_cores_on E = sq (psystem E ''ppc64_cpu --cores-on=all'') (sleep (VInt 1))"

text \<open>What the command should report after a mode was set.\<close>

definition expected_mode :: "int \<Rightarrow> string \<Rightarrow> string" where
  "expected_mode m v = (if v = ''off'' then ''off'' else if v \<noteq> ''on'' then v else str_int m)"

definition fail_if_recorded :: "string \<Rightarrow> ('w, unit) pc" where
  "fail_if_recorded what = bnd (gets failures) (\<lambda>fs. whenb (fs \<noteq> []) (fail (what @ '' test failed: '' @ str_names fs)))"

definition fixed_modes :: "string list" where
  "fixed_modes = [''off'', ''2'', ''4'', ''on'']"

definition percent_cores :: "int \<Rightarrow> int \<Rightarrow> int" where
  "percent_cores ncores p = max 1 (py_trunc (fl (of_int (ncores * p) / 100)))"

definition test_smt_with_core_operations :: "'w pc_env \<Rightarrow> ('w, unit) pc" where
  "test_smt_with_core_operations E =
     sq (log Info ''Testing SMT operations with core hotplug'')
    (bnd (get_cores_info E) (\<lambda>info.
     for_each (map (percent_cores (cores_present info)) [10, 25, 50, 75, 100]) (\<lambda>n.
       sq (log Info (newline # equals_line))
      (sq (log Info (''Testing with '' @ str_int n @ '' cores online''))
      (sq (log Info equals_line)
      (sq (set_cores E n)
          (for_each fixed_modes (\<lambda>v.
             sq (log Info (newline # ''Setting SMT='' @ v @ '' with '' @ str_int n @ '' cores''))
            (sq (set_smt E v)
            (bnd (verify_system_state E None (Some n)) (\<lambda>b.
             sq (whenb (\<not> b) (fail (''Verification failed for cores='' @ str_int n @ '', SMT='' @ v)))
                (sleep (VFloat (1 / 2))))))))))))))"

definition stress_both :: "'w pc_env \<Rightarrow> int \<Rightarrow> ('w, unit) pc" where
  "stress_both E ncores =
     bnd (random_choice E fixed_modes) (\<lambda>v.
     bnd (randint E 1 ncores) (\<lambda>n.
     sq (log Info (''Random SMT='' @ v @ '' and cores='' @ str_int n))
    (bnd (get_cores_info E) (\<lambda>before.
     sq (set_smt E v)
    (bnd (get_cores_info E) (\<lambda>after.
     sq (whenb (cores_on before \<noteq> cores_on after)
           (fail (''SMT change affected core count! Before: '' @ str_int (cores_on before) @ '', After: '' @
              str_int (cores_on after))))
        (set_cores E n)))))))"

definition stress_round :: "'w pc_env \<Rightarrow> int \<Rightarrow> int \<Rightarrow> int \<Rightarrow> ('w, unit) pc" where
  "stress_round E ncores iterations i =
     sq (log Info (newline # equals_line))
    (sq (log Info (''Stress Iteration '' @ str_int (i + 1) @ ''/'' @ str_int iterations))
    (sq (log Info equals_line)
    (bnd (random_choice E [''smt'', ''cores'', ''both'']) (\<lambda>operation.
     sq (if operation = ''smt'' then
           bnd (random_choice E fixed_modes) (\<lambda>v.
           sq (log Info (''Random SMT change: '' @ v)) (set_smt E v))
         else if operation = ''cores'' then
           bnd (randint E 1 ncores) (\<lambda>n.
           sq (log Info (''Random core change: '' @ str_int n @ '' cores'')) (set_cores E n))
         else stress_both E ncores)
    (bnd (verify_system_state E None None) (\<lambda>b.
     sq (whenb (\<not> b) (fail (''Verification failed at iteration '' @ str_int (i + 1))))
        (sleep (VFloat (3 / 10)))))))))"

definition test_parallel_smt_core_stress :: "'w pc_env \<Rightarrow> ('w, unit) pc" where
  "test_parallel_smt_core_stress E =
     bnd (lift (vint (pc_param E ''stress_iterations'' (VInt 20)))) (\<lambda>n.
     sq (log Info (''Running parallel SMT/core stress test with '' @ str_int n @ '' iterations''))
    (bnd (get_cores_info E) (\<lambda>info.
     sq (for_each (range1 n) (stress_round E (cores_present info) n))
        (log Info (newline # check_sign @ '' Stress test completed successfully!'')))))"

definition test_core_range_operations :: "'w pc_env \<Rightarrow> ('w, unit) pc" where
  "test_core_range_operations E =
     sq (log Info ''Testing core range operations'')
    (bnd (get_cores_info E) (\<lambda>info.
     let ncores = cores_present info in
     for_each [1, 2, min 4 ncores, min 8 ncores] (\<lambda>count.
       if count > ncores then ret ()
       else
         sq (log Info (newline # ''Testing with '' @ str_int count @ '' cores''))
        (sq (set_cores E count)
        (bnd (poutput E ''ppc64_cpu --cores-on'') (\<lambda>out.
         bnd (lift (py_int (after_equals out))) (\<lambda>actual.
         sq (whenb (actual \<noteq> count)
               (fail (''Core count mismatch! Expected: '' @ str_int count @ '', Got: '' @ str_int actual)))
        (bnd (verify_system_state E None (Some count)) (\<lambda>b.
         whenb (\<not> b) (fail (''Verification failed for '' @ str_int count @ '' cores'')))))))))))"

definition smt_operation :: "'w pc_env \<Rightarrow> string \<Rightarrow> ('w, unit) pc" where
  "smt_operation E v =
     sq (log Info (''Setting SMT='' @ v))
    (bnd (prun E (''ppc64_cpu --smt='' @ v)) (\<lambda>r.
     if exit_status r \<noteq> 0 then pc_failure (''Failed to set SMT='' @ v)
     else
       sq (sleep (VInt 1))
      (bnd (gets max_smt_value) (\<lambda>m.
       bnd (verify_system_state E (Some (expected_mode m v)) None) (\<lambda>b.
       sq (whenb (\<not> b) (pc_failure (''Verification failed for SMT='' @ v)))
          (log Info (''SMT='' @ v @ '' operation completed successfully'' @ [newline])))))))"

definition test_all_smt_operations :: "'w pc_env \<Rightarrow> ('w, unit) pc" where
  "test_all_smt_operations E =
     sq (log Info ''=== Testing ALL SMT Operations (Dynamic) ==='')
    (bnd (gets all_smt_values) (\<lambda>vals.
     sq (for_each vals (smt_operation E))
        (fail_if_recorded ''All SMT operations'')))"

text \<open>
  The scenarios: a fraction of the cores, rounded down, and one or two cores in front; a number that came
  before or is too large is left out.
\<close>

definition fraction_cores :: "int \<Rightarrow> rat \<Rightarrow> int" where
  "fraction_cores ncores pct = max 1 (py_trunc (fl_mul (fl (of_int ncores)) pct))"

definition fractions :: "rat list" where
  "fractions = [fl (1 / 10), 1 / 4, 1 / 2, 3 / 4, 1]"

definition all_scenarios :: "int \<Rightarrow> (int \<times> string) list" where
  "all_scenarios ncores =
     (1, ''Single core online'') # (if ncores > 1 then [(2, ''Two cores online'')] else []) @
     map (\<lambda>pct. (fraction_cores ncores pct, str_int (py_trunc (fl_mul pct 100)) @ ''% cores online'')) fractions"

fun unique_scenarios :: "int \<Rightarrow> int list \<Rightarrow> (int \<times> string) list \<Rightarrow> (int \<times> string) list" where
  "unique_scenarios ncores ks [] = []"
| "unique_scenarios ncores ks ((n, d) # rest) =
     (if n \<notin> set ks \<and> n \<le> ncores then (n, d) # unique_scenarios ncores (n # ks) rest
      else unique_scenarios ncores ks rest)"

definition core_scenario :: "'w pc_env \<Rightarrow> int \<times> string \<Rightarrow> ('w, unit) pc" where
  "core_scenario E = (\<lambda>(n, description).
     sq (log Info (''Test: '' @ description @ '' (cores='' @ str_int n @ '')''))
    (bnd (prun E (''ppc64_cpu --cores-on='' @ str_int n)) (\<lambda>r.
     if exit_status r \<noteq> 0 then pc_failure (''Failed to set cores-on='' @ str_int n)
     else
       sq (sleep (VInt 1))
      (bnd (verify_system_state E None (Some n)) (\<lambda>b.
       sq (whenb (\<not> b) (pc_failure (''Verification failed for cores-on='' @ str_int n)))
          (log Info (''Core operation completed: '' @ description @ [newline])))))))"

definition test_dynamic_core_operations :: "'w pc_env \<Rightarrow> ('w, unit) pc" where
  "test_dynamic_core_operations E =
     sq (log Info ''=== Testing Dynamic Core Operations ==='')
    (sq (all_cores_on E)
    (bnd (gets total_cores) (\<lambda>ncores.
     sq (for_each (unique_scenarios ncores [] (all_scenarios ncores)) (core_scenario E))
    (sq (all_cores_on E)
        (fail_if_recorded ''Dynamic core operations'')))))"

text \<open>The result of the verification is not looked at.\<close>

definition interaction_mode :: "'w pc_env \<Rightarrow> int \<Rightarrow> int \<Rightarrow> string \<Rightarrow> ('w, unit) pc" where
  "interaction_mode E n before v =
     sq (log Info (''  Testing SMT='' @ v @ '' with '' @ str_int n @ '' cores''))
    (sq (set_smt_ignore E v)
    (sq (sleep (VFloat (1 / 2)))
    (bnd (get_cores_info E) (\<lambda>after.
     sq (whenb (before \<noteq> cores_on after)
           (pc_failure (''SMT='' @ v @ '' changed core count from '' @ str_int before @ '' to '' @ str_int (cores_on after))))
    (bnd (gets max_smt_value) (\<lambda>m.
     sq (verify_system_state E (Some (expected_mode m v)) (Some n)) (ret ())))))))"

definition interaction_round :: "'w pc_env \<Rightarrow> int \<Rightarrow> int \<Rightarrow> ('w, unit) pc" where
  "interaction_round E rounds i =
     sq (log Info (''Iteration '' @ str_int (i + 1) @ ''/'' @ str_int rounds))
    (bnd (gets total_cores) (\<lambda>ncores.
     let n = max 1 (ncores div 2) in
     sq (set_cores E n)
    (sq (sleep (VInt 1))
    (bnd (get_cores_info E) (\<lambda>before.
     bnd (gets all_smt_values) (\<lambda>vals.
     sq (for_each vals (interaction_mode E n (cores_on before)))
        (all_cores_on E)))))))"

definition test_smt_core_interaction :: "'w pc_env \<Rightarrow> ('w, unit) pc" where
  "test_smt_core_interaction E =
     sq (log Info ''=== Testing SMT-Core Interaction ==='')
    (sq (reset_system_state E)
    (bnd (gets stress_iterations) (\<lambda>n.
     let rounds = min 5 (n div 4) in
     sq (for_each (range1 rounds) (interaction_round E rounds))
        (fail_if_recorded ''SMT-Core interaction''))))"

definition random_smt :: "'w pc_env \<Rightarrow> ('w, unit) pc" where
  "random_smt E =
     bnd (gets all_smt_values) (\<lambda>vals.
     bnd (random_choice E vals) (\<lambda>v.
     sq (log Info (''  -> Setting SMT='' @ v))
    (bnd (get_cores_info E) (\<lambda>before.
     sq (set_smt_ignore E v)
    (sq (sleep (VFloat (3 / 10)))
    (bnd (get_cores_info E) (\<lambda>after.
     whenb (cores_on before \<noteq> cores_on after)
       (pc_failure (''SMT change affected core count: was '' @ str_int (cores_on before) @ '', now '' @
          str_int (cores_on after))))))))))"

definition random_cores :: "'w pc_env \<Rightarrow> ('w, unit) pc" where
  "random_cores E =
     bnd (gets total_cores) (\<lambda>ncores.
     bnd (randint E 1 ncores) (\<lambda>n.
     sq (log Info (''  -> Setting cores-on='' @ str_int n))
    (bnd (get_current_smt E) (\<lambda>before.
     sq (psystem_ignore E (''ppc64_cpu --cores-on='' @ str_int n))
    (sq (sleep (VFloat (3 / 10)))
    (bnd (get_current_smt E) (\<lambda>after.
     whenb (before \<noteq> after)
       (pc_failure (''Core operation affected SMT: was '' @ before @ '', now '' @ after)))))))))"

definition random_round :: "'w pc_env \<Rightarrow> int \<Rightarrow> int \<Rightarrow> ('w, unit) pc" where
  "random_round E rounds i =
     sq (log Info (''Random iteration '' @ str_int (i + 1) @ ''/'' @ str_int rounds))
    (bnd (random_choice E [''smt'', ''core_count'', ''verify'']) (\<lambda>operation.
     if operation = ''smt'' then random_smt E
     else if operation = ''core_count'' then random_cores E
     else if operation = ''verify'' then
       sq (log Info ''  -> Comprehensive verification'')
      (bnd (verify_system_state E None None) (\<lambda>b.
       whenb (\<not> b) (pc_failure (''Verification failed at iteration '' @ str_int (i + 1)))))
     else ret ()))"

definition test_random_stress :: "'w pc_env \<Rightarrow> ('w, unit) pc" where
  "test_random_stress E =
     bnd (gets run_random_stress) (\<lambda>r.
     if \<not> truthy r then log Info ''Skipping random stress test (disabled in config)''
     else
       sq (log Info ''=== Random Stress Test ==='')
      (sq (reset_system_state E)
      (bnd (gets random_iterations) (\<lambda>n.
       sq (for_each (range1 n) (random_round E n))
      (sq (log Info ''Random stress test completed'')
          (fail_if_recorded ''Random stress''))))))"


definition single_core_mode :: "'w pc_env \<Rightarrow> string \<Rightarrow> ('w, unit) pc" where
  "single_core_mode E v =
     sq (log Info (''  Setting SMT='' @ v @ '' with 1 core''))
    (sq (set_smt_ignore E v)
    (sq (sleep (VFloat (1 / 2)))
    (bnd (gets max_smt_value) (\<lambda>m.
     bnd (verify_system_state E (Some (expected_mode m v)) (Some 1)) (\<lambda>b.
     whenb (\<not> b) (pc_failure (''Verification failed for SMT='' @ v @ '' with 1 core'')))))))"

definition add_new :: "int \<Rightarrow> int list \<Rightarrow> int list" where
  "add_new n xs = (if n \<in> set xs then xs else xs @ [n])"

definition progressive_counts :: "int \<Rightarrow> int list" where
  "progressive_counts ncores =
    (let start = (if 2 \<le> ncores then [2] else []) @ (if 3 \<le> ncores then [3] else []);
         half_cores = max 2 (ncores div 2);
         three_quarter_cores = max 2 (py_trunc (fl_mul (fl (of_int ncores)) (3 / 4)))
     in sort (add_new ncores (add_new three_quarter_cores (add_new half_cores start))))"

definition progressive_mode :: "'w pc_env \<Rightarrow> int \<Rightarrow> string \<Rightarrow> ('w, unit) pc" where
  "progressive_mode E actual v =
     sq (log Info (''  Testing SMT='' @ v @ '' with '' @ str_int actual @ '' cores''))
    (sq (set_smt_ignore E v)
    (sq (sleep (VFloat (1 / 2)))
    (bnd (get_cores_info E) (\<lambda>after.
     sq (whenb (cores_on after \<noteq> actual)
           (pc_failure (''SMT='' @ v @ '' changed core count from '' @ str_int actual @ '' to '' @ str_int (cores_on after))))
    (bnd (gets max_smt_value) (\<lambda>m.
     bnd (verify_system_state E (Some (expected_mode m v)) (Some actual)) (\<lambda>b.
     whenb (\<not> b) (pc_failure (''Verification failed for SMT='' @ v @ '' with '' @ str_int actual @ '' cores'')))))))))"

definition progressive_step :: "'w pc_env \<Rightarrow> int \<Rightarrow> ('w, unit) pc" where
  "progressive_step E n =
     sq (log Info (newline # ''--- Testing with '' @ str_int n @ '' cores online ---''))
    (sq (set_cores E n)
    (sq (sleep (VInt 1))
    (bnd (get_cores_info E) (\<lambda>info.
     sq (log Info (''Cores online: '' @ str_int (cores_on info) @ '', Cores offline: '' @
           str_int (cores_present info - cores_on info)))
    (bnd (gets all_smt_values) (\<lambda>vals. for_each vals (progressive_mode E (cores_on info))))))))"

definition test_progressive_core_online_with_smt :: "'w pc_env \<Rightarrow> ('w, unit) pc" where
  "test_progressive_core_online_with_smt E =
     sq (log Info ''=== Testing Progressive Core Online with SMT Operations ==='')
    (bnd (gets total_cores) (\<lambda>ncores.
     if ncores < 3 then log Info ''Skipping: Need at least 3 cores for this test''
     else
       sq (set_cores E 1)
      (sq (sleep (VInt 1))
      (sq (log Info ''Testing all SMT operations with 1 core online'')
      (bnd (gets all_smt_values) (\<lambda>vals.
       sq (for_each vals (single_core_mode E))
      (sq (log Info ''Progressively bringing cores online and testing SMT'')
      (sq (for_each (progressive_counts ncores) (progressive_step E))
      (sq (all_cores_on E)
          (fail_if_recorded ''Progressive core online''))))))))))"

text \<open>Between a fifth and two fifths of the cores, but at least two, and two stay online.\<close>

definition offline_range :: "int \<Rightarrow> int \<times> int" where
  "offline_range ncores =
     (max 2 (py_trunc (fl_mul (fl (of_int ncores)) (fl (1 / 5)))),
      min (ncores - 2) (py_trunc (fl_mul (fl (of_int ncores)) (fl (2 / 5)))))"

definition offline_mode :: "'w pc_env \<Rightarrow> int \<Rightarrow> string \<Rightarrow> ('w, unit) pc" where
  "offline_mode E actual v =
     sq (log Info (''  Testing SMT='' @ v))
    (sq (set_smt_ignore E v)
    (sq (sleep (VFloat (1 / 2)))
    (bnd (get_cores_info E) (\<lambda>after.
     sq (whenb (cores_on after \<noteq> actual)
           (pc_failure (''SMT='' @ v @ '' changed online core count from '' @ str_int actual @ '' to '' @
              str_int (cores_on after))))
    (bnd (gets max_smt_value) (\<lambda>m.
     bnd (verify_system_state E (Some (expected_mode m v)) (Some (cores_on after))) (\<lambda>b.
     whenb (\<not> b) (pc_failure (''Verification failed for SMT='' @ v @ '' with specific cores offline'')))))))))"

definition offline_round :: "'w pc_env \<Rightarrow> int \<Rightarrow> int \<Rightarrow> ('w, unit) pc" where
  "offline_round E rounds i =
     sq (log Info (newline # replicate 70 (CHR ''='')))
    (sq (log Info (''Iteration '' @ str_int (i + 1) @ ''/'' @ str_int rounds @ '': Specific Cores Offline with SMT''))
    (sq (log Info (replicate 70 (CHR ''='')))
    (sq (all_cores_on E)
    (bnd (gets total_cores) (\<lambda>ncores.
     bnd (randint E (fst (offline_range ncores)) (snd (offline_range ncores))) (\<lambda>n.
     bnd (call ''sample'' (map str_int (py_range3 1 ncores 1)) (pc_sample E (py_range3 1 ncores 1) n)) (\<lambda>offline.
     sq (log Info (''Randomly selected cores to offline: '' @ str_ints offline))
    (let cores_list = join '','' (map str_int (sort offline)) in
     bnd (prun E (''ppc64_cpu --offline-cores='' @ cores_list)) (\<lambda>r.
     if exit_status r \<noteq> 0 then log Warning (''Failed to offline cores '' @ cores_list)
     else
       sq (sleep (VInt 1))
      (bnd (get_cores_info E) (\<lambda>info.
       sq (log Info (''After offlining: '' @ str_int (cores_on info) @ '' cores online''))
      (sq (log Info ''Testing all SMT operations with offline cores'')
      (bnd (gets all_smt_values) (\<lambda>vals. for_each vals (offline_mode E (cores_on info))))))))))))))))"

definition test_specific_cores_offline_with_smt :: "'w pc_env \<Rightarrow> ('w, unit) pc" where
  "test_specific_cores_offline_with_smt E =
     sq (log Info ''=== Testing Specific Cores Offline with SMT Operations ==='')
    (bnd (gets total_cores) (\<lambda>ncores.
     if ncores < 5 then log Info ''Skipping: Need at least 5 cores for this test''
     else
       sq (reset_system_state E)
      (bnd (gets stress_iterations) (\<lambda>n.
       let rounds = min 3 (n div 10) in
       sq (for_each (range1 rounds) (offline_round E rounds))
      (sq (reset_system_state E)
          (fail_if_recorded ''Specific cores offline''))))))"

definition pc_tearDown :: "'w pc_env \<Rightarrow> ('w, unit) pc" where
  "pc_tearDown E =
     bnd (gets has_smt_str) (\<lambda>b.
     whenb b
       (sq (psystem_ignore E ''ppc64_cpu --cores-on=all'')
       (bnd (gets curr_smt) (\<lambda>c. bnd (lift (attr c)) (\<lambda>v.
        sq (call ''system_output'' [''ppc64_cpu --smt='' @ v] (pc_output_ignore E (''ppc64_cpu --smt='' @ v)))
       (sq (call ''system_output'' [''dmesg''] (pc_output_ignore E ''dmesg''))
           (ret ())))))))"

end
