(* ===== verification/Views.thy ===== *)
theory Views
  imports Avocado
begin

section \<open>Views of the system\<close>

text \<open>
  What a test can observe of the system is described by a view \<open>V\<close> of the world. \<open>acts V A g x\<close> says of an
  external operation that it always returns, that its answer is one of those \<open>A\<close> allows for the view, and
  that it changes the view by \<open>g\<close>. \<open>in_view V s v t\<close> says that the state \<open>t\<close> differs from \<open>s\<close> in the world and the
  trace only, and that the view is \<open>v\<close>. The rules step through a body under such descriptions.
\<close>

definition acts :: "('w \<Rightarrow> 'v) \<Rightarrow> ('v \<Rightarrow> 'a \<Rightarrow> bool) \<Rightarrow> ('v \<Rightarrow> 'v) \<Rightarrow> ('w, 'a) ext \<Rightarrow> bool" where
  "acts V A g x \<longleftrightarrow> (\<forall>w. \<exists>r w'. x w = (Inr r, w') \<and> A (V w) r \<and> V w' = g (V w))"

abbreviation tells :: "('w \<Rightarrow> 'v) \<Rightarrow> ('v \<Rightarrow> 'a) \<Rightarrow> ('w, 'a) ext \<Rightarrow> bool" where
  "tells V f \<equiv> acts V (\<lambda>v r. r = f v) (\<lambda>v. v)"

abbreviation does :: "('w \<Rightarrow> 'v) \<Rightarrow> ('v \<Rightarrow> 'v) \<Rightarrow> ('w, 'a) ext \<Rightarrow> bool" where
  "does V \<equiv> acts V (\<lambda>_ _. True)"

definition in_view :: "('w \<Rightarrow> 'v) \<Rightarrow> ('w, 'm) st_scheme \<Rightarrow> 'v \<Rightarrow> ('w, 'm) st_scheme \<Rightarrow> bool" where
  "in_view V s v t \<longleftrightarrow> (\<exists>w tr. t = s\<lparr>world := w, trace := tr\<rparr> \<and> V w = v)"

lemma in_viewI: "V w = v \<Longrightarrow> in_view V s v (s\<lparr>world := w, trace := tr\<rparr>)"
  unfolding in_view_def by blast

lemma in_view_start: "in_view V s (V (world s)) s"
  unfolding in_view_def by (intro exI[of _ "world s"] exI[of _ "trace s"]) simp

lemma in_view_view: "in_view V s v t \<Longrightarrow> V (world t) = v"
  by (auto simp: in_view_def)

lemma in_view_trans: "in_view V s v t \<Longrightarrow> in_view V t v' u \<Longrightarrow> in_view V s v' u"
  unfolding in_view_def by (elim exE conjE) (simp, blast)

text \<open>Attributes are those of the start.\<close>

lemma in_view_more: "in_view V s v t \<Longrightarrow> st.more t = st.more s"
  by (auto simp: in_view_def)

lemma wp_acts:
  assumes "acts V A g x" "in_view V s v t" "\<And>r u. A v r \<Longrightarrow> in_view V s (g v) u \<Longrightarrow> Q r u"
  shows "wp (call f as x) Q R t"
proof -
  obtain w tr where t: "t = s\<lparr>world := w, trace := tr\<rparr>" "V w = v" using assms(2) by (auto simp: in_view_def)
  obtain r w' where "x w = (Inr r, w')" "A (V w) r" "V w' = g (V w)" using assms(1) unfolding acts_def by meson
  then show ?thesis using t by (auto simp: wp intro!: assms(3) in_viewI)
qed

lemma wp_tells:
  assumes "tells V h x" "in_view V s v t" "\<And>u. in_view V s v u \<Longrightarrow> Q (h v) u"
  shows "wp (call f as x) Q R t"
  by (rule wp_acts[OF assms(1,2)]) (use assms(3) in auto)

lemma wp_does:
  assumes "does V g x" "in_view V s v t" "\<And>r u. in_view V s (g v) u \<Longrightarrow> Q r u"
  shows "wp (call f as x) Q R t"
  by (rule wp_acts[OF assms(1,2)]) (use assms(3) in auto)

lemma wp_in_view_log:
  assumes "in_view V s v t" "\<And>u. in_view V s v u \<Longrightarrow> Q () u"
  shows "wp (log l m) Q R t"
proof -
  obtain w tr where "t = s\<lparr>world := w, trace := tr\<rparr>" "V w = v" using assms(1) by (auto simp: in_view_def)
  then show ?thesis by (auto simp: wp intro!: assms(2) in_viewI)
qed

lemma wp_in_view_sleep:
  assumes "in_view V s v t" "num_of k = Some x" "0 \<le> exact x" "\<And>u. in_view V s v u \<Longrightarrow> Q () u"
  shows "wp (sleep k) Q R t"
proof -
  obtain w tr where "t = s\<lparr>world := w, trace := tr\<rparr>" "V w = v" using assms(1) by (auto simp: in_view_def)
  then show ?thesis using assms(2,3) by (auto simp: wp intro!: assms(4) in_viewI)
qed

text \<open>A loop whose rounds relate the views.\<close>

lemma wp_in_view_each:
  assumes "in_view V s v t" "P v"
    and "\<And>x v t. x \<in> set xs \<Longrightarrow> P v \<Longrightarrow> in_view V s v t \<Longrightarrow> wp (f x) (\<lambda>_ u. \<exists>v'. P v' \<and> in_view V s v' u) (\<lambda>_ _. False) t"
  shows "wp (for_each xs f) (\<lambda>_ u. \<exists>v'. P v' \<and> in_view V s v' u) (\<lambda>_ _. False) t"
  by (rule wp_for_each_inv) (use assms in auto)

text \<open>A loop whose rounds each decide a condition, and end in an error of the kind \<open>F\<close> when it does not hold.\<close>

lemma wp_each_decides:
  assumes "in_view V s v t"
    and step: "\<And>x t. x \<in> set xs \<Longrightarrow> in_view V s v t \<Longrightarrow>
      wp (f x) (\<lambda>_ u. P x \<and> in_view V s v u) (\<lambda>e _. \<not> P x \<and> F e) t"
  shows "wp (for_each xs f) (\<lambda>_ u. (\<forall>x \<in> set xs. P x) \<and> in_view V s v u) (\<lambda>e _. \<not> (\<forall>x \<in> set xs. P x) \<and> F e) t"
  using assms
proof (induction xs arbitrary: t)
  case Nil
  then show ?case by (simp add: wp)
next
  case (Cons x xs)
  show ?case unfolding for_each.simps
  proof (rule wp_sq_step[OF Cons.prems(2)[of x t]])
    fix u assume u: "P x \<and> in_view V s v u"
    then have "wp (for_each xs f) (\<lambda>_ u. (\<forall>x \<in> set xs. P x) \<and> in_view V s v u)
        (\<lambda>e _. \<not> (\<forall>x \<in> set xs. P x) \<and> F e) u"
      by (intro Cons.IH) (use Cons.prems(2) in auto)
    then show "wp (for_each xs f) (\<lambda>_ u. (\<forall>y \<in> set (x # xs). P y) \<and> in_view V s v u)
        (\<lambda>e _. \<not> (\<forall>y \<in> set (x # xs). P y) \<and> F e) u"
      by (rule wp_conseq) (use u in auto)
  qed (use Cons.prems(1) in auto)
qed

text \<open>The same, when the items of the loop stand for other values.\<close>

lemma wp_each_decides2:
  assumes "list_all2 R xs ys" "in_view V s v t"
    and "\<And>x y t. R x y \<Longrightarrow> in_view V s v t \<Longrightarrow> wp (f x) (\<lambda>_ u. P y \<and> in_view V s v u) (\<lambda>e _. \<not> P y \<and> F e) t"
  shows "wp (for_each xs f) (\<lambda>_ u. (\<forall>y \<in> set ys. P y) \<and> in_view V s v u) (\<lambda>e _. \<not> (\<forall>y \<in> set ys. P y) \<and> F e) t"
proof -
  have xs: "xs = map fst (zip xs ys)" and ys: "ys = map snd (zip xs ys)"
    using list_all2_lengthD[OF assms(1)] by simp_all
  have all: "(\<forall>y \<in> set ys. P y) \<longleftrightarrow> (\<forall>p \<in> set (zip xs ys). P (snd p))"
    by (subst ys) simp
  show ?thesis
    unfolding all by (subst xs, unfold for_each_map, rule wp_each_decides[OF assms(2)])
      (use assms(1,3) in \<open>auto simp: list_all2_iff\<close>)
qed

end
