(* ===== verification/Ppc64_Props.thy ===== *)
theory Ppc64_Props
  imports Ppc64_Cpu Views
begin

section \<open>What the tests of processor modes do\<close>

subsection \<open>The texts of the command\<close>

text \<open>
  \<open>report\<close> is what \<^verbatim>\<open>ppc64_cpu\<close> and the kernel say about the system: the mode (\<open>None\<close> is off), the number of
  online cores, the list of cores with their threads and whether they are online, the number of online
  processors. The four need not fit together.
\<close>

record report =
  r_mode :: "int option"
  r_on :: int
  r_cores :: "(int \<times> (int \<times> bool) list) list"
  r_cpus :: int

definition mode_word :: "int option \<Rightarrow> string" where
  "mode_word m = (case m of None \<Rightarrow> ''off'' | Some k \<Rightarrow> str_int k)"

definition smt_text :: "int option \<Rightarrow> string" where
  "smt_text m = (case m of None \<Rightarrow> ''SMT is off'' | Some k \<Rightarrow> ''SMT='' @ str_int k) @ [newline]"

definition cores_text :: "int \<Rightarrow> string" where
  "cores_text k = ''Number of cores online = '' @ str_int k @ [newline]"

definition present_text :: "int \<Rightarrow> string" where
  "present_text k = ''Number of cores present = '' @ str_int k @ [newline]"

definition cell :: "int \<times> bool \<Rightarrow> string" where
  "cell = (\<lambda>(t, on). spaces 4 @ str_int t @ [if on then CHR ''*'' else CHR '' ''])"

definition cells :: "(int \<times> bool) list \<Rightarrow> string" where
  "cells ts = concat (map cell ts)"

definition info_line :: "int \<times> (int \<times> bool) list \<Rightarrow> string" where
  "info_line = (\<lambda>(i, ts). ''Core '' @ spaces (3 - length (str_int i)) @ str_int i @ '':'' @ cells ts)"

definition info_text :: "(int \<times> (int \<times> bool) list) list \<Rightarrow> string" where
  "info_text cs = concat (map (\<lambda>c. info_line c @ [newline]) cs)"

definition online_threads :: "(int \<times> bool) list \<Rightarrow> int" where
  "online_threads ts = int (length (filter snd ts))"

definition numbered :: "(int \<times> (int \<times> bool) list) list \<Rightarrow> bool" where
  "numbered cs \<longleftrightarrow> cs \<noteq> [] \<and> distinct (map fst cs) \<and> list_all (\<lambda>(i, ts). 0 \<le> i \<and> ts \<noteq> [] \<and> list_all (\<lambda>(t, _). 0 \<le> t) ts) cs"

lemma is_space_simps [simp]: "is_space (CHR '' '')" "is_space newline" "\<not> is_space (CHR ''*'')" "\<not> is_space (CHR '':'')"
  "\<not> is_space (CHR ''S'')" "\<not> is_space (CHR ''C'')" "\<not> is_space (CHR ''N'')"
  by (simp_all add: is_space_def newline_def)

lemma is_digit_simps [simp]: "\<not> is_digit (CHR '':'')" "\<not> is_digit (CHR ''*'')" "\<not> is_digit (CHR ''='')"
  by (simp_all add: is_digit_def char_digit_def)

lemma contains_char: "contains [c] s \<longleftrightarrow> c \<in> set s"
  by (auto simp: contains_iff_sublist sublist_def in_set_conv_decomp)

lemma str_int_only_digits: "0 \<le> n \<Longrightarrow> c \<in> set (str_int n) \<Longrightarrow> is_digit c"
  by (simp add: str_int_def str_digits_chars)

definition thread_word :: "int \<times> bool \<Rightarrow> string" where
  "thread_word = (\<lambda>(t, on). str_int t @ (if on then ''*'' else []))"

lemma cells_words: "split_ws (cells ts) = map thread_word ts"
proof (induction ts)
  case Nil
  then show ?case by (simp add: cells_def split_ws_def)
next
  case (Cons x ts)
  obtain t on where x: "x = (t, on)" by (cases x)
  let ?u = "thread_word (t, on)" and ?r = "(if on then [] else '' '') @ cells ts"
  have "cells ts = [] \<or> is_space (hd (cells ts))"
    by (cases ts) (auto simp: cells_def cell_def spaces_def numeral_eq_Suc)
  then have r: "?r = [] \<or> is_space (hd ?r)" by auto
  have "split_ws (cells (x # ts)) = split_ws (spaces 4 @ ?u @ ?r)"
    by (simp add: cells_def cell_def x thread_word_def)
  also have "\<dots> = ?u # split_ws ?r"
    using r str_int_no_space
    by (subst split_ws_blanks, simp add: spaces_def, subst split_ws_word_then) (auto simp: thread_word_def split: if_splits)
  also have "split_ws ?r = split_ws (cells ts)"
    by (simp add: split_ws_blank)
  finally show ?case using Cons x by simp
qed

lemma online_word: "0 \<le> t \<Longrightarrow> contains ''*'' (thread_word (t, on)) \<longleftrightarrow> on"
  using str_int_only_digits[of t "CHR ''*''"] by (auto simp: contains_char thread_word_def)

lemma count_words: "list_all (\<lambda>(t, _). 0 \<le> t) ts \<Longrightarrow> count_online (map thread_word ts) = online_threads ts"
  by (induction ts) (auto simp: count_online_def online_threads_def online_word)

lemma core_line_form:
  assumes "0 \<le> i" "c \<noteq> []" "is_space (hd c)"
  shows "core_line (''Core '' @ spaces k @ str_int i @ '':'' @ c) = Some (i, split_ws c)"
proof -
  have digits: "\<And>x. x \<in> set (str_int i) \<Longrightarrow> is_digit x" using str_int_only_digits[OF assms(1)] .
  then have nosp: "\<not> is_space (hd (str_int i))" using is_digit_not_space by (cases "str_int i") auto
  have d: "dropWhile is_space ('' '' @ spaces k @ str_int i @ '':'' @ c) = str_int i @ '':'' @ c"
    using nosp by (cases "str_int i") (simp_all add: spaces_def dropWhile_append)
  have t: "takeWhile is_digit (str_int i @ '':'' @ c) = str_int i" "dropWhile is_digit (str_int i @ '':'' @ c) = '':'' @ c"
    using digits by (simp_all add: takeWhile_append dropWhile_append)
  have v: "digits_value 0 (str_int i) = i" using assms(1) by (simp add: str_int_def digits_value_str_digits)
  show ?thesis using d t v assms by (simp add: core_line_def startswith_def)
qed

lemma cells_start:
  assumes "ts \<noteq> []"
  shows "cells ts \<noteq> []" "is_space (hd (cells ts))" "rstrip (cells ts) \<noteq> []" "is_space (hd (rstrip (cells ts)))"
proof -
  show c: "cells ts \<noteq> []" "is_space (hd (cells ts))"
    using assms by (cases ts; auto simp: cells_def cell_def spaces_def numeral_eq_Suc)+
  show r: "rstrip (cells ts) \<noteq> []"
  proof
    assume "rstrip (cells ts) = []"
    then have "split_ws (cells ts) = split_ws []" using split_ws_rstrip by metis
    with assms show False unfolding cells_words by (simp add: split_ws_def)
  qed
  show "is_space (hd (rstrip (cells ts)))"
    using rstrip_split[of "cells ts"] c(2) r by (metis hd_append2)
qed

lemma core_line_info:
  assumes "0 \<le> i" "ts \<noteq> []"
  shows "core_line (info_line (i, ts)) = Some (i, map thread_word ts)"
    and "core_line (rstrip (info_line (i, ts))) = Some (i, map thread_word ts)"
proof -
  show "core_line (info_line (i, ts)) = Some (i, map thread_word ts)"
    using core_line_form[OF assms(1)] cells_start[OF assms(2)] by (simp add: info_line_def cells_words)
  have "rstrip (info_line (i, ts)) = ''Core '' @ spaces (3 - length (str_int i)) @ str_int i @ '':'' @ rstrip (cells ts)"
    using rstrip_append[OF cells_start(3)[OF assms(2)], of "''Core '' @ spaces (3 - length (str_int i)) @ str_int i @ '':''"]
    by (simp add: info_line_def)
  then show "core_line (rstrip (info_line (i, ts))) = Some (i, map thread_word ts)"
    using core_line_form[OF assms(1)] cells_start[OF assms(2)] by (simp add: split_ws_rstrip cells_words)
qed


lemma info_line_chars: "0 \<le> i \<Longrightarrow> list_all (\<lambda>(t, _). 0 \<le> t) ts \<Longrightarrow> c \<in> set (info_line (i, ts)) \<Longrightarrow> \<not> is_line_break c"
proof -
  assume i: "0 \<le> i" and ts: "list_all (\<lambda>(t, _). 0 \<le> t) ts" and "c \<in> set (info_line (i, ts))"
  then consider "c \<in> set ''Core: *''" | "c \<in> set (str_int i)" | t where "0 \<le> t" "c \<in> set (str_int t)"
    by (auto simp: info_line_def cells_def cell_def spaces_def list_all_iff split: if_splits)
  then show ?thesis
  proof cases
    case 1
    then show ?thesis by (auto simp: is_line_break_def)
  qed (use str_int_only_digits i is_digit_not_space in \<open>auto simp: is_space_def is_line_break_def\<close>)
qed

lemma info_text_lines:
  assumes "numbered cs"
  shows "map core_line (splitlines (strip (info_text cs))) = map (\<lambda>(i, ts). Some (i, map thread_word ts)) cs"
proof -
  obtain ds i ts where cs: "cs = ds @ [(i, ts)]" using assms by (cases cs rule: rev_cases) (auto simp: numbered_def)
  have ok: "0 \<le> j \<and> us \<noteq> [] \<and> list_all (\<lambda>(t, _). 0 \<le> t) us" if "(j, us) \<in> set cs" for j us
    using that assms by (auto simp: numbered_def list_all_iff)
  let ?l = "info_line (i, ts)" and ?p = "concat (map (\<lambda>c. info_line c @ [newline]) ds)"
  have its: "0 \<le> i" "ts \<noteq> []" "list_all (\<lambda>(t, _). 0 \<le> t) ts" using ok[of i ts] cs by auto
  have r: "rstrip ?l \<noteq> []"
    using core_line_info(2)[OF its(1,2)] by (auto simp: core_line_def startswith_def)
  have start: "\<not> is_space (hd (info_text cs))"
    using assms by (cases cs) (auto simp: info_text_def info_line_def numbered_def split: prod.splits)
  have "info_text cs = ?p @ (?l @ [newline])" by (simp add: info_text_def cs)
  then have "rstrip (info_text cs) = ?p @ rstrip (?l @ [newline])"
    using rstrip_append[of "?l @ [newline]" ?p] r by (simp add: rstrip_end)
  then have whole: "strip (info_text cs) = concat (map (\<lambda>l. l @ [newline]) (map info_line ds)) @ rstrip ?l"
    using strip_rstrip[of "info_text cs"] start by (simp add: rstrip_end comp_def)
  have sub: "set (rstrip ?l) \<subseteq> set ?l" using rstrip_split[of ?l] by (metis Un_iff set_append subsetI)
  have "splitlines (strip (info_text cs)) = map info_line ds @ [rstrip ?l]"
    unfolding whole
  proof (rule splitlines_last_line)
    fix l c assume "l \<in> set (map info_line ds @ [rstrip ?l])" "c \<in> set l"
    then obtain d where "d \<in> set cs" "c \<in> set (info_line d)" using cs sub by auto
    moreover obtain j us where d: "d = (j, us)" by (cases d)
    ultimately show "\<not> is_line_break c" using ok[of j us] info_line_chars[of j us c] by simp
  qed (use r in auto)
  moreover have "core_line (info_line d) = (\<lambda>(i, ts). Some (i, map thread_word ts)) d" if "d \<in> set ds" for d
  proof -
    obtain j us where d: "d = (j, us)" by (cases d)
    then have "(j, us) \<in> set cs" using that cs by simp
    then show ?thesis using ok[of j us] core_line_info(1)[of j us] d by simp
  qed
  ultimately show ?thesis using cs core_line_info(2)[OF its(1,2)] by simp
qed

lemma add_line_Some:
  "core_line l = Some (n, threads) \<Longrightarrow> add_line info l =
     (let info' = info\<lparr>info_cores := AList.update n (threads, count_online threads) (info_cores info)\<rparr>
      in if 0 < count_online threads then info'\<lparr>online_cores := online_cores info @ [n]\<rparr>
         else info'\<lparr>offline_cores := offline_cores info @ [n]\<rparr>)"
  by (simp add: add_line_def Let_def)

lemma add_lines:
  assumes "map core_line ls = map (\<lambda>(i, ts). Some (i, map thread_word ts)) cs" "distinct (map fst cs)"
    and "list_all (\<lambda>(i, ts). list_all (\<lambda>(t, _). 0 \<le> t) ts) cs"
  shows "foldl add_line no_info ls =
    no_info\<lparr>info_cores := map (\<lambda>(i, ts). (i, map thread_word ts, online_threads ts)) cs,
      online_cores := map fst (filter (\<lambda>(i, ts). 0 < online_threads ts) cs),
      offline_cores := map fst (filter (\<lambda>(i, ts). \<not> 0 < online_threads ts) cs)\<rparr>"
  using assms
proof (induction cs arbitrary: ls rule: rev_induct)
  case Nil
  then show ?case by (simp add: no_info_def)
next
  case (snoc c cs)
  obtain i ts where c: "c = (i, ts)" by (cases c)
  obtain ms l where ls: "ls = ms @ [l]" "map core_line ms = map (\<lambda>(i, ts). Some (i, map thread_word ts)) cs"
    "core_line l = Some (i, map thread_word ts)"
    using snoc.prems(1) c by (cases ls rule: rev_cases) auto
  have new: "i \<notin> fst ` set cs" using snoc.prems(2) c by auto
  have upd: "AList.update i v (map (\<lambda>(i, ts). (i, map thread_word ts, online_threads ts)) cs) =
      map (\<lambda>(i, ts). (i, map thread_word ts, online_threads ts)) cs @ [(i, v)]" for v
    using new by (induction cs) auto
  have "foldl add_line no_info ms =
    no_info\<lparr>info_cores := map (\<lambda>(i, ts). (i, map thread_word ts, online_threads ts)) cs,
      online_cores := map fst (filter (\<lambda>(i, ts). 0 < online_threads ts) cs),
      offline_cores := map fst (filter (\<lambda>(i, ts). \<not> 0 < online_threads ts) cs)\<rparr>"
    using snoc.IH[OF ls(2)] snoc.prems by auto
  moreover have "count_online (map thread_word ts) = online_threads ts"
    using snoc.prems(3) c by (intro count_words) (auto simp: list_all_iff)
  ultimately show ?case
    by (simp add: ls(1) add_line_Some[OF ls(3)] c upd)
qed

lemma online_counts_of:
  assumes "distinct (map fst cs)"
    and "info_cores info = map (\<lambda>(i, ts). (i, map thread_word ts, online_threads ts)) cs"
    and "online_cores info = map fst (filter (\<lambda>(i, ts). 0 < online_threads ts) cs)"
  shows "online_counts info = map (\<lambda>(i, ts). (i, online_threads ts)) (filter (\<lambda>(i, ts). 0 < online_threads ts) cs)"
proof -
  have look: "map_of (info_cores info) i = Some (map thread_word ts, online_threads ts)" if "(i, ts) \<in> set cs" for i ts
  proof (rule map_of_is_SomeI)
    show "distinct (map fst (info_cores info))" using assms(1,2) by (simp add: comp_def case_prod_unfold)
    show "(i, map thread_word ts, online_threads ts) \<in> set (info_cores info)" using that assms(2) by force
  qed
  have "foldl (\<lambda>d c. AList.update c (case map_of (info_cores info) c of Some (_, k) \<Rightarrow> k | None \<Rightarrow> 0) d) [] (map fst ds) =
      map (\<lambda>(i, ts). (i, online_threads ts)) ds" if "set ds \<subseteq> set cs" "distinct (map fst ds)" for ds
    using that
  proof (induction ds rule: rev_induct)
    case (snoc d ds)
    obtain i ts where d: "d = (i, ts)" by (cases d)
    have "i \<notin> fst ` set ds" using snoc.prems d by auto
    then have "AList.update i v (map (\<lambda>(i, ts). (i, online_threads ts)) ds) =
        map (\<lambda>(i, ts). (i, online_threads ts)) ds @ [(i, v)]" for v :: int
      by (induction ds) auto
    with snoc d look[of i ts] show ?case by simp
  qed simp
  moreover have "distinct (map fst (filter (\<lambda>(i, ts). 0 < online_threads ts) cs))"
    using assms(1) by (simp add: distinct_map_filter)
  ultimately show ?thesis unfolding online_counts_def assms(3) by (metis (no_types, lifting) filter_is_subset)
qed

text \<open>The numbers of online threads of the cores that have any.\<close>

definition thread_counts :: "(int \<times> (int \<times> bool) list) list \<Rightarrow> int list" where
  "thread_counts cs = filter (\<lambda>k. 0 < k) (map (online_threads \<circ> snd) cs)"

lemma parse_info_text:
  assumes "numbered cs"
  shows "parse_info (info_text cs) =
    \<lparr>info_cores = map (\<lambda>(i, ts). (i, map thread_word ts, online_threads ts)) cs, info_total = int (length cs),
     online_cores = map fst (filter (\<lambda>(i, ts). 0 < online_threads ts) cs),
     offline_cores = map fst (filter (\<lambda>(i, ts). \<not> 0 < online_threads ts) cs),
     smt_mode = (case remdups (thread_counts cs) of [k] \<Rightarrow> Some k | _ \<Rightarrow> None),
     inconsistent = (1 < length (remdups (thread_counts cs)))\<rparr>"
proof -
  let ?i = "foldl add_line no_info (splitlines (strip (info_text cs)))"
  have n: "distinct (map fst cs)" "list_all (\<lambda>(i, ts). list_all (\<lambda>(t, _). 0 \<le> t) ts) cs"
    using assms by (auto simp: numbered_def list_all_iff)
  note i = add_lines[OF info_text_lines[OF assms] n]
  have "online_counts ?i = map (\<lambda>(i, ts). (i, online_threads ts)) (filter (\<lambda>(i, ts). 0 < online_threads ts) cs)"
    by (rule online_counts_of[OF n(1)]) (simp_all add: i)
  then have "map snd (online_counts ?i) = thread_counts cs"
    by (simp add: thread_counts_def comp_def case_prod_unfold filter_map)
  then show ?thesis unfolding parse_info_def Let_def i by (simp add: no_info_def)
qed


subsection \<open>What the verification decides\<close>

text \<open>The external operations machine_says with what a view of the system says, by \<open>rep\<close>.\<close>

definition reports :: "'w pc_env \<Rightarrow> ('w \<Rightarrow> 'v) \<Rightarrow> ('v \<Rightarrow> report) \<Rightarrow> bool" where
  "reports E V rep \<longleftrightarrow>
     tells V (\<lambda>v. info_text (r_cores (rep v))) (pc_output E ''ppc64_cpu --info'') \<and>
     tells V (\<lambda>v. smt_text (r_mode (rep v))) (pc_output E ''ppc64_cpu --smt'') \<and>
     tells V (\<lambda>v. cores_text (r_on (rep v))) (pc_output E ''ppc64_cpu --cores-on'') \<and>
     tells V (\<lambda>v. r_cpus (rep v)) (pc_online_count E)"

definition sound :: "report \<Rightarrow> string option \<Rightarrow> int option \<Rightarrow> bool" where
  "sound r e c \<longleftrightarrow>
     e \<in> {None, Some (mode_word (r_mode r))} \<and> c \<in> {None, Some (r_on r)} \<and>
     (\<forall>j \<in> set (thread_counts (r_cores r)).
        (\<forall>k \<in> set (thread_counts (r_cores r)). j = k) \<and> (r_mode r \<noteq> None \<longrightarrow> r_cpus r = r_on r * j))"

lemma str_int_no_equals: "CHR ''='' \<notin> set (str_int k)"
  using str_digits_chars[of k "CHR ''=''"] str_digits_chars[of "- k" "CHR ''=''"]
  by (auto simp: str_int_def split: if_splits)

lemma strip_line:
  assumes "a \<noteq> []" "\<not> is_space (hd a)"
  shows "strip (a @ str_int k @ [newline]) = a @ str_int k"
proof -
  have "\<not> is_space (last (str_int k))" by (rule str_int_no_space[OF last_in_set[OF str_int_nonempty]])
  then show ?thesis
    unfolding strip_def using assms strip_by_both[of "[]" "[newline]" is_space "a @ str_int k"] by simp
qed

lemma str_int_not_word: "str_int k \<noteq> ''off''" "str_int k \<noteq> ''on''" "str_int k \<noteq> ''all''"
proof -
  have "py_int ''off'' = Inl ValueError" "py_int ''on'' = Inl ValueError" "py_int ''all'' = Inl ValueError" by code_simp+
  then show "str_int k \<noteq> ''off''" "str_int k \<noteq> ''on''" "str_int k \<noteq> ''all''" by (metis py_int_str_int sum.distinct(1))+
qed

lemma after_equals_text:
  assumes "a \<noteq> []" "\<not> is_space (hd a)" "CHR ''='' \<notin> set a" "CHR ''='' \<notin> set b"
  shows "after_equals (a @ CHR ''='' # b @ str_int k @ [newline]) = b @ str_int k"
  using strip_line[of "a @ CHR ''='' # b" k] assms
  by (simp add: after_equals_def split_on_append split_on_no_sep str_int_no_equals)

lemma last_word_number: "last_word (a @ '' '' @ str_int k) = Inr (str_int k)"
proof -
  have "split_ws (a @ '' '' @ str_int k) = split_ws a @ [str_int k]"
    using split_ws_at_blank[of "CHR '' ''" a "str_int k"] split_ws_word[of "str_int k"] str_int_no_space by simp
  then show ?thesis by (simp add: last_word_def py_nth_last)
qed

lemma smt_of_text: "smt_of (smt_text m) = Inr (mode_word m)"
proof (cases m)
  case None
  have "smt_of (''SMT is off'' @ [newline]) = Inr ''off''" by code_simp
  with None show ?thesis by (simp add: smt_text_def mode_word_def)
next
  case (Some k)
  have "after_equals (smt_text m) = str_int k"
    using after_equals_text[of "''SMT''" "[]" k] by (simp add: smt_text_def Some)
  moreover have "last_word (str_int k) = Inr (str_int k)"
    using split_ws_word[of "str_int k"] str_int_no_space by (simp add: last_word_def py_nth_last)
  ultimately show ?thesis by (simp add: smt_of_def mode_word_def Some)
qed

lemma cores_of_text: "py_int (after_equals (cores_text k)) = Inr k"
proof -
  have "after_equals (cores_text k) = '' '' @ str_int k"
    using after_equals_text[of "''Number of cores online ''" "'' ''" k] by (simp add: cores_text_def)
  moreover have "py_int ('' '' @ str_int k) = py_int (str_int k)"
    by (simp add: py_int_def strip_def strip_by_def)
  ultimately show ?thesis by simp
qed

lemma present_of_text: "rbind (last_word (strip (present_text k))) py_int = Inr k"
  using strip_line[of "''Number of cores present = ''" k] last_word_number[of "''Number of cores present =''" k]
  by (simp add: present_text_def)

lemma wp_parse:
  assumes "acts V A (\<lambda>v. v) (pc_output E ''ppc64_cpu --info'')" "in_view V s v t"
    and Q: "\<And>r u. A v r \<Longrightarrow> in_view V s v u \<Longrightarrow> Q (parse_info r) u"
  shows "wp (parse_ppc64_cpu_info E) Q R t"
  unfolding parse_ppc64_cpu_info_def poutput_def wp_try_except wp_bnd wp_Let Let_def
proof (rule wp_acts[OF assms(1,2)])
  fix r u assume "A v r" and u: "in_view V s v u"
  note q = Q[OF this(1)]
  show "wp (sq (whenb (inconsistent (parse_info r))
              (sq (log Warning ''INCONSISTENT SMT STATE among online cores!'')
                  (log Warning (''Online cores thread counts: '' @ str_counts (online_counts (parse_info r))))))
           (ret (parse_info r))) Q
           (\<lambda>e. wp (sq (log Error (''Failed to parse ppc64_cpu --info: '' @ pc_err_text E e)) (ret no_info)) Q R) u"
    unfolding wp_sq wp_whenb wp_ret using u by (auto intro!: q wp_in_view_log[of V s v])
qed

lemma wp_demand:
  assumes "in_view V s v t" "\<And>u. in_view V s v u \<Longrightarrow> Q (b \<and> p) u"
  shows "wp (demand b m p) Q R t"
  unfolding demand_def wp_if wp_sq wp_ret
  using assms by (auto intro!: wp_in_view_log[of V s v])

lemma wp_demand_opt:
  assumes "in_view V s v t" "\<And>u. in_view V s v u \<Longrightarrow> Q ((case x of None \<Rightarrow> True | Some e \<Rightarrow> b e) \<and> p) u"
  shows "wp (case x of None \<Rightarrow> ret p | Some e \<Rightarrow> demand (b e) (m e) p) Q R t"
  using assms by (cases x) (auto simp: wp_ret intro!: wp_demand[of V s v])

lemma wp_log_either:
  assumes "in_view V s v t" "\<And>u. in_view V s v u \<Longrightarrow> Q () u"
  shows "wp (if b then log l m else log l' m') Q R t"
  using assms by (auto intro!: wp_in_view_log[of V s v])

text \<open>What the verification computes from the texts, whatever they say.\<close>

definition text_verdict :: "core_info \<Rightarrow> string \<Rightarrow> int \<Rightarrow> int \<Rightarrow> string option \<Rightarrow> int option \<Rightarrow> bool" where
  "text_verdict info current cores cpus e c \<longleftrightarrow>
     (case cpus_expected current cores info of None \<Rightarrow> True | Some x \<Rightarrow> cpus = x) \<and> \<not> inconsistent info \<and>
     (case c of None \<Rightarrow> True | Some x \<Rightarrow> cores = x) \<and> (case e of None \<Rightarrow> True | Some x \<Rightarrow> current = x)"

lemma wp_verify_texts:
  assumes "acts V Ai (\<lambda>v. v) (pc_output E ''ppc64_cpu --info'')" "acts V Am (\<lambda>v. v) (pc_output E ''ppc64_cpu --smt'')"
    and "acts V Ac (\<lambda>v. v) (pc_output E ''ppc64_cpu --cores-on'')" "acts V An (\<lambda>v. v) (pc_online_count E)"
    and m: "\<And>r. Am v r \<Longrightarrow> smt_of r = Inr (m r)" and k: "\<And>r. Ac v r \<Longrightarrow> py_int (after_equals r) = Inr (k r)"
    and start: "in_view V s v t"
    and Q: "\<And>ri rm rc rn u. Ai v ri \<Longrightarrow> Am v rm \<Longrightarrow> Ac v rc \<Longrightarrow> An v rn \<Longrightarrow> in_view V s v u \<Longrightarrow>
              Q (text_verdict (parse_info ri) (m rm) (k rc) rn e c) u"
  shows "wp (verify_system_state E e c) Q R t"
  unfolding verify_system_state_def poutput_def wp_bnd wp_sq
proof (rule wp_in_view_log[OF start], (rule wp_in_view_log, assumption)+, rule wp_parse[OF assms(1)], assumption,
    rule wp_acts[OF assms(2)], assumption, simp only: m wp_lift sum.case,
    rule wp_acts[OF assms(3)], assumption, simp only: k wp_lift sum.case,
    rule wp_acts[OF assms(4)], assumption, (rule wp_in_view_log, assumption)+,
    rule wp_demand_opt, assumption, rule wp_demand_opt, assumption, rule wp_demand, assumption,
    rule wp_demand_opt, assumption, rule wp_in_view_log, assumption, rule wp_log_either, assumption,
    rule wp_in_view_log, assumption, unfold wp_ret)
qed (use Q in \<open>simp only: text_verdict_def simp_thms\<close>)

lemma remdups_same:
  assumes "\<forall>j \<in> set xs. j = k" "xs \<noteq> []"
  shows "remdups xs = [k]"
proof -
  have "set xs = {k}" using assms by (cases xs) auto
  then have "length (remdups xs) = 1" "set (remdups xs) = {k}" by (simp_all add: length_remdups_card_conv)
  then show ?thesis by (cases "remdups xs") auto
qed

lemma remdups_differ:
  assumes "i \<in> set xs" "j \<in> set xs" "i \<noteq> j"
  shows "1 < length (remdups xs)"
proof -
  have "card {i, j} \<le> card (set xs)" using assms by (intro card_mono) auto
  with assms(3) show ?thesis by (simp add: length_remdups_card_conv)
qed

lemma text_verdict_sound:
  assumes "numbered (r_cores r)"
  shows "text_verdict (parse_info (info_text (r_cores r))) (mode_word (r_mode r)) (r_on r) (r_cpus r) e c \<longleftrightarrow> sound r e c"
proof -
  let ?i = "parse_info (info_text (r_cores r))" and ?ks = "thread_counts (r_cores r)"
  note i = parse_info_text[OF assms]
  have off: "mode_word (r_mode r) \<noteq> ''off'' \<longleftrightarrow> r_mode r \<noteq> None"
    by (simp add: mode_word_def str_int_not_word split: option.split)
  consider "?ks = []" | k where "?ks \<noteq> []" "\<forall>j \<in> set ?ks. j = k" | j k where "j \<in> set ?ks" "k \<in> set ?ks" "j \<noteq> k"
    by (cases ?ks) auto
  then show ?thesis
  proof cases
    case 1
    then show ?thesis
      by (auto simp: text_verdict_def sound_def i cpus_expected_def split: option.splits)
  next
    case 2
    then have k: "remdups ?ks = [k]" "set ?ks = {k}" by (auto simp: remdups_same intro: hd_in_set)
    then have "k \<noteq> 0" by (auto simp: thread_counts_def)
    then have "cpus_expected (mode_word (r_mode r)) (r_on r) ?i = (if r_mode r \<noteq> None then Some (r_on r * k) else None)"
      using k off by (auto simp: i cpus_expected_def)
    then show ?thesis unfolding text_verdict_def sound_def using k by (auto simp: i split: option.splits)
  next
    case 3
    then show ?thesis using remdups_differ[OF 3]
      by (auto simp: text_verdict_def sound_def i)
  qed
qed

lemma wp_verify:
  assumes "reports E V rep" "numbered (r_cores (rep v))" "in_view V s v t"
    and "\<And>u. in_view V s v u \<Longrightarrow> Q (sound (rep v) e c) u"
  shows "wp (verify_system_state E e c) Q R t"
proof -
  note r = assms(1)[unfolded reports_def]
  show ?thesis
    by (rule wp_verify_texts[OF r[THEN conjunct1] r[THEN conjunct2, THEN conjunct1]
          r[THEN conjunct2, THEN conjunct2, THEN conjunct1] r[THEN conjunct2, THEN conjunct2, THEN conjunct2] _ _ assms(3),
          where m = "\<lambda>_. mode_word (r_mode (rep v))" and k = "\<lambda>_. r_on (rep v)"])
       (use assms(2,4) in \<open>simp_all add: smt_of_text cores_of_text text_verdict_sound\<close>)
qed

subsection \<open>A machine that obeys\<close>

text \<open>
  A machine of \<open>c\<close> cores with \<open>T\<close> threads each: its settings are the number \<open>t\<close> of threads that run on each
  online core and the number \<open>n\<close> of online cores. Changing one setting leaves the other as it is.
\<close>

definition reported :: "int \<Rightarrow> int \<Rightarrow> int \<times> int \<Rightarrow> report" where
  "reported c T = (\<lambda>(t, n). \<lparr>r_mode = (if t = 1 then None else Some t), r_on = n,
     r_cores = map (\<lambda>i. (i, map (\<lambda>j. (i * T + j, i < n \<and> j < t)) (range1 T))) (range1 c), r_cpus = n * t\<rparr>)"

definition mode_no :: "int \<Rightarrow> string \<Rightarrow> int" where
  "mode_no T v = (if v = ''off'' then 1 else if v = ''on'' then T else case py_int v of Inr k \<Rightarrow> k | Inl _ \<Rightarrow> 0)"

definition obeys :: "'w pc_env \<Rightarrow> ('w \<Rightarrow> int \<times> int) \<Rightarrow> int \<Rightarrow> int \<Rightarrow> bool" where
  "obeys E V c T \<longleftrightarrow>
     reports E V (reported c T) \<and> tells V (\<lambda>_. present_text c) (pc_output E ''ppc64_cpu --cores-present'') \<and>
     (\<forall>v \<in> set (generate_smt_values T).
        does V (\<lambda>(t, n). (mode_no T v, n)) (pc_system_ignore E (''ppc64_cpu --smt='' @ v)) \<and>
        acts V (\<lambda>_ r. exit_status r = 0) (\<lambda>(t, n). (mode_no T v, n)) (pc_run_ignore E (''ppc64_cpu --smt='' @ v))) \<and>
     (\<forall>k \<in> {1..c}.
        does V (\<lambda>(t, n). (t, k)) (pc_system E (''ppc64_cpu --cores-on='' @ str_int k)) \<and>
        acts V (\<lambda>_ r. exit_status r = 0) (\<lambda>(t, n). (t, k)) (pc_run_ignore E (''ppc64_cpu --cores-on='' @ str_int k))) \<and>
     does V (\<lambda>(t, n). (t, c)) (pc_system E ''ppc64_cpu --cores-on=all'')"

definition sane :: "int \<Rightarrow> int \<Rightarrow> int \<times> int \<Rightarrow> bool" where
  "sane c T = (\<lambda>(t, n). 1 \<le> t \<and> t \<le> T \<and> 1 \<le> n \<and> n \<le> c)"

lemma distinct_range1: "distinct (range1 b)"
  by (auto simp: py_range3_def distinct_map intro!: inj_onI)

lemma numbered_reported:
  assumes "1 \<le> c" "1 \<le> T"
  shows "numbered (r_cores (reported c T v))"
proof -
  have "range1 c \<noteq> []" "range1 T \<noteq> []" using assms set_py_range3_up[of 0 c] set_py_range3_up[of 0 T] by force+
  then show ?thesis using assms
    by (auto simp: numbered_def reported_def comp_def list_all_iff set_py_range3_up distinct_range1 split: prod.splits)
qed

lemma online_threads_machine:
  assumes "t \<le> T" "0 \<le> t"
  shows "online_threads (map (\<lambda>j. (a + j, on \<and> j < t)) (range1 T)) = (if on then t else 0)"
proof -
  have "length (filter (\<lambda>j. j < t) (range1 T)) = card (set (filter (\<lambda>j. j < t) (range1 T)))"
    by (rule distinct_card[OF distinct_filter[OF distinct_range1], symmetric])
  also have "set (filter (\<lambda>j. j < t) (range1 T)) = {0..<t}" using assms by (auto simp: set_py_range3_up)
  finally show ?thesis using assms by (simp add: online_threads_def filter_map comp_def)
qed

lemma thread_counts_machine:
  assumes "sane c T (t, n)"
  shows "set (thread_counts (r_cores (reported c T (t, n)))) \<subseteq> {t}"
  using assms online_threads_machine[of t T]
  by (auto simp: thread_counts_def reported_def sane_def)

lemma sound_machine:
  assumes "sane c T (t, n)"
  shows "sound (reported c T (t, n)) e k \<longleftrightarrow> e \<in> {None, Some (mode_word (if t = 1 then None else Some t))} \<and> k \<in> {None, Some n}"
proof -
  let ?ks = "set (thread_counts (r_cores (reported c T (t, n))))"
  have "j = k \<and> (r_mode (reported c T (t, n)) \<noteq> None \<longrightarrow> r_cpus (reported c T (t, n)) = r_on (reported c T (t, n)) * j)"
    if "j \<in> ?ks" "k \<in> ?ks" for j k
    using thread_counts_machine[OF assms] that by (auto simp: reported_def)
  then have "sound (reported c T (t, n)) e k \<longleftrightarrow>
      e \<in> {None, Some (mode_word (r_mode (reported c T (t, n))))} \<and> k \<in> {None, Some (r_on (reported c T (t, n)))}"
    unfolding sound_def by blast
  then show ?thesis by (simp add: reported_def)
qed

lemma expected_mode_machine:
  assumes "v \<in> set (generate_smt_values T)" "2 \<le> T"
  shows "expected_mode T v = mode_word (if mode_no T v = 1 then None else Some (mode_no T v))"
    and "1 \<le> mode_no T v" "mode_no T v \<le> T"
proof -
  consider "v = ''off''" | "v = ''on''" | k where "v = str_int k" "2 \<le> k" "k \<le> T"
    using assms(1) by (auto simp: generate_smt_values_def set_py_range3_up)
  note cases = this
  show "expected_mode T v = mode_word (if mode_no T v = 1 then None else Some (mode_no T v))"
    using cases by cases (use assms(2) str_int_not_word in \<open>auto simp: expected_mode_def mode_no_def mode_word_def\<close>)
  show "1 \<le> mode_no T v" "mode_no T v \<le> T"
    using cases by (cases; use assms(2) str_int_not_word in \<open>auto simp: mode_no_def\<close>)+
qed

lemma in_view_attrs:
  assumes "in_view V s v (t :: 'w pc_st)"
  shows "max_smt_value t = max_smt_value s" "failures t = failures s" "all_smt_values t = all_smt_values s"
    "total_cores t = total_cores s" "stress_iterations t = stress_iterations s"
  using assms by (auto simp: in_view_def)

lemma sane_mode: "v \<in> set (generate_smt_values T) \<Longrightarrow> 2 \<le> T \<Longrightarrow> sane c T (t, n) \<Longrightarrow> sane c T (mode_no T v, n)"
  by (simp add: sane_def expected_mode_machine)

lemma wp_verify_machine:
  assumes "obeys E V c T" "sane c T (t, n)" "in_view V s (t, n) u"
    and "e \<in> {None, Some (mode_word (if t = 1 then None else Some t))}" "k \<in> {None, Some n}"
    and "\<And>u. in_view V s (t, n) u \<Longrightarrow> Q True u"
  shows "wp (verify_system_state E e k) Q R u"
proof (rule wp_verify[where V = V and rep = "reported c T" and v = "(t, n)" and s = s])
  show "numbered (r_cores (reported c T (t, n)))"
    using assms(2) by (intro numbered_reported) (auto simp: sane_def)
qed (use assms in \<open>auto simp: obeys_def sound_machine\<close>)

lemma wp_cores_texts:
  assumes "tells V (\<lambda>v. cores_text (f v)) (pc_output E ''ppc64_cpu --cores-on'')"
    and "tells V (\<lambda>_. present_text c) (pc_output E ''ppc64_cpu --cores-present'')"
    and "in_view V s v u" "\<And>u. in_view V s v u \<Longrightarrow> Q \<lparr>cores_on = f v, cores_present = c\<rparr> u"
  shows "wp (get_cores_info E) Q R u"
  unfolding get_cores_info_def poutput_def wp_bnd wp_ret
  by (rule wp_tells[OF assms(1,3)], simp only: cores_of_text wp_lift sum.case,
      rule wp_tells[OF assms(2)], assumption, simp only: present_of_text wp_lift sum.case, rule assms(4))

lemma wp_cores_info:
  assumes "obeys E V c T" "in_view V s (t, n) u" "\<And>u. in_view V s (t, n) u \<Longrightarrow> Q \<lparr>cores_on = n, cores_present = c\<rparr> u"
  shows "wp (get_cores_info E) Q R u"
  using assms(1) by (intro wp_cores_texts[OF _ _ assms(2), of "r_on \<circ> reported c T" E c])
    (auto simp: obeys_def reports_def reported_def intro: assms(3))

lemma wp_half_second:
  assumes "in_view V s v t" "k \<in> {VInt 1, VFloat (1 / 2)}" "\<And>u. in_view V s v u \<Longrightarrow> Q () u"
  shows "wp (sleep k) Q R t"
  using assms by (auto intro!: wp_in_view_sleep[of V s v])

lemma wp_set_mode:
  assumes "obeys E V c T" "v \<in> set (generate_smt_values T)" "in_view V s (t, n) u"
    and "\<And>u. in_view V s (mode_no T v, n) u \<Longrightarrow> Q () u"
  shows "wp (set_smt_ignore E v) Q R u"
proof -
  have "does V (\<lambda>(t, n). (mode_no T v, n)) (pc_system_ignore E (''ppc64_cpu --smt='' @ v))"
    using assms(1,2) by (simp add: obeys_def)
  from wp_does[OF this assms(3)] show ?thesis
    unfolding set_smt_ignore_def psystem_ignore_def wp_sq wp_ret using assms(4) by simp
qed

lemma wp_run_mode:
  assumes "obeys E V c T" "v \<in> set (generate_smt_values T)" "in_view V s (t, n) u"
    and "\<And>r u. exit_status r = 0 \<Longrightarrow> in_view V s (mode_no T v, n) u \<Longrightarrow> Q r u"
  shows "wp (prun E (''ppc64_cpu --smt='' @ v)) Q R u"
proof -
  have "acts V (\<lambda>_ r. exit_status r = 0) (\<lambda>(t, n). (mode_no T v, n)) (pc_run_ignore E (''ppc64_cpu --smt='' @ v))"
    using assms(1,2) by (simp add: obeys_def)
  from wp_acts[OF this assms(3)] show ?thesis unfolding prun_def using assms(4) by simp
qed

lemma wp_run_cores:
  assumes "obeys E V c T" "1 \<le> k" "k \<le> c" "in_view V s (t, n) u"
    and "\<And>r u. exit_status r = 0 \<Longrightarrow> in_view V s (t, k) u \<Longrightarrow> Q r u"
  shows "wp (prun E (''ppc64_cpu --cores-on='' @ str_int k)) Q R u"
proof -
  have "acts V (\<lambda>_ r. exit_status r = 0) (\<lambda>(t, n). (t, k)) (pc_run_ignore E (''ppc64_cpu --cores-on='' @ str_int k))"
    using assms(1-3) by (simp add: obeys_def)
  from wp_acts[OF this assms(4)] show ?thesis unfolding prun_def using assms(5) by simp
qed

lemma wp_set_cores:
  assumes "obeys E V c T" "1 \<le> k" "k \<le> c" "in_view V s (t, n) u" "\<And>u. in_view V s (t, k) u \<Longrightarrow> Q () u"
  shows "wp (set_cores E k) Q R u"
proof -
  have "does V (\<lambda>(t, n). (t, k)) (pc_system E (''ppc64_cpu --cores-on='' @ str_int k))"
    using assms(1-3) by (simp add: obeys_def)
  from wp_does[OF this assms(4)] show ?thesis
    unfolding set_cores_def psystem_def wp_sq wp_ret using assms(5) by simp
qed

lemma wp_all_cores:
  assumes "obeys E V c T" "in_view V s (t, n) u" "\<And>u. in_view V s (t, c) u \<Longrightarrow> Q () u"
  shows "wp (all_cores_on E) Q R u"
proof -
  have d: "does V (\<lambda>(t, n). (t, c)) (pc_system E ''ppc64_cpu --cores-on=all'')" using assms(1) by (simp add: obeys_def)
  show ?thesis unfolding all_cores_on_def psystem_def wp_sq wp_ret
    by (rule wp_does[OF d assms(2)], simp, rule wp_half_second) (use assms(3) in auto)
qed

lemma wp_nothing_recorded:
  assumes "failures s = []" "in_view V s v u" "Q () u"
  shows "wp (fail_if_recorded what) Q R u"
  using assms in_view_attrs[OF assms(2)] by (simp add: fail_if_recorded_def wp)

lemma wp_smt_operation:
  assumes "obeys E V c T" "2 \<le> T" "max_smt_value s = T" "sane c T (t, n)" "v \<in> set (generate_smt_values T)" "in_view V s (t, n) u"
  shows "wp (smt_operation E v) (\<lambda>_. in_view V s (mode_no T v, n)) (\<lambda>_ _. False) u"
  unfolding smt_operation_def wp_sq wp_bnd wp_whenb wp_gets wp_if
  apply (rule wp_in_view_log[OF assms(6)])
  apply (rule wp_run_mode[OF assms(1,5)], assumption)
  apply (simp only: simp_thms if_False)
  apply (rule wp_half_second, assumption, simp)
  apply (rule wp_verify_machine[OF assms(1) sane_mode[OF assms(5,2,4)]], assumption)
    apply (use assms expected_mode_machine in \<open>simp add: in_view_attrs\<close>)
   apply simp
  apply simp
  apply (rule wp_in_view_log, assumption)
  apply assumption
  done

text \<open>Such a machine.\<close>

definition settle :: "int \<Rightarrow> int \<Rightarrow> string \<Rightarrow> int \<times> int \<Rightarrow> int \<times> int" where
  "settle c T cmd = (\<lambda>(t, n).
     if cmd = ''ppc64_cpu --cores-on=all'' then (t, c)
     else if startswith cmd ''ppc64_cpu --smt='' then (mode_no T (drop 16 cmd), n)
     else if startswith cmd ''ppc64_cpu --cores-on='' then
       (case py_int (drop 21 cmd) of Inr k \<Rightarrow> (t, k) | Inl _ \<Rightarrow> (t, n))
     else (t, n))"

definition machine_says :: "int \<Rightarrow> int \<Rightarrow> string \<Rightarrow> int \<times> int \<Rightarrow> string" where
  "machine_says c T cmd v =
     (if cmd = ''ppc64_cpu --info'' then info_text (r_cores (reported c T v))
      else if cmd = ''ppc64_cpu --smt'' then smt_text (r_mode (reported c T v))
      else if cmd = ''ppc64_cpu --cores-on'' then cores_text (r_on (reported c T v))
      else if cmd = ''ppc64_cpu --cores-present'' then present_text c else [])"

definition obedient :: "int \<Rightarrow> int \<Rightarrow> (int \<times> int) pc_env" where
  "obedient c T = \<lparr>pc_params = (\<lambda>_. None), pc_workdir = [], pc_arch = (\<lambda>w. (Inr ''ppc64le'', w)),
     pc_distro = (\<lambda>w. (Inr ''rhel'', w)), pc_check = (\<lambda>_ w. (Inr True, w)), pc_install = (\<lambda>_ w. (Inr True, w)),
     pc_exists = (\<lambda>_ w. (Inr False, w)), pc_system = (\<lambda>cmd w. (Inr 0, settle c T cmd w)),
     pc_system_ignore = (\<lambda>cmd w. (Inr 0, settle c T cmd w)), pc_output = (\<lambda>cmd w. (Inr (machine_says c T cmd w), settle c T cmd w)),
     pc_output_ignore = (\<lambda>cmd w. (Inr (machine_says c T cmd w), settle c T cmd w)),
     pc_run_ignore = (\<lambda>cmd w. (Inr \<lparr>exit_status = 0, stdout_text = [], stderr_text = []\<rparr>, settle c T cmd w)),
     pc_online_count = (\<lambda>w. (Inr (r_cpus (reported c T w)), w)), pc_read = (\<lambda>_ w. (Inr [], w)),
     pc_fetch = (\<lambda>_ w. (Inr [], w)), pc_extract = (\<lambda>_ w. (Inr (), w)), pc_chdir = (\<lambda>_ w. (Inr (), w)),
     pc_make = (\<lambda>_ _ w. (Inr (), w)), pc_choice = (\<lambda>_ w. (Inr 0, w)), pc_randint = (\<lambda>a _ w. (Inr a, w)),
     pc_sample = (\<lambda>xs k w. (Inr (take (nat k) xs), w)), pc_err_text = (\<lambda>_. [])\<rparr>"

lemma settle_simps:
  "settle c T ''ppc64_cpu --cores-on=all'' (t, n) = (t, c)"
  "settle c T (''ppc64_cpu --smt='' @ v) (t, n) = (mode_no T v, n)"
  "settle c T (''ppc64_cpu --cores-on='' @ str_int k) (t, n) = (t, k)"
  "cmd \<in> {''ppc64_cpu --info'', ''ppc64_cpu --smt'', ''ppc64_cpu --cores-on'', ''ppc64_cpu --cores-present''} \<Longrightarrow>
     settle c T cmd w = w"
  by (auto simp: settle_def startswith_def str_int_not_word)

lemma obedient_obeys: "obeys (obedient c T) (\<lambda>w. w) c T"
  by (auto simp: obeys_def reports_def acts_def obedient_def settle_simps settle_simps[simplified] machine_says_def)

definition test_object :: "int \<Rightarrow> int \<Rightarrow> 'w \<Rightarrow> 'w pc_st" where
  "test_object c T w = \<lparr>world = w, trace = [], has_smt_str = True, pc_loop = 100, run_type = VStr ''distro'',
     curr_smt = Some (str_int T), smt_subcores = 0, failures = [], smt_values = [(1, ''off'')], key = 0, smt_value = [],
     max_smt_value = T, total_cores = c, all_smt_values = generate_smt_values T, stress_iterations = 20,
     random_iterations = 50, run_random_stress = VBool True\<rparr>"

lemma wp_smt_operations:
  assumes "obeys E V c T" "2 \<le> T" "max_smt_value s = T" "sane c T (t, n)" "set vs \<subseteq> set (generate_smt_values T)"
    and "in_view V s (t, n) u"
  shows "wp (for_each vs (smt_operation E))
     (\<lambda>_. in_view V s (if vs = [] then t else mode_no T (last vs), n)) (\<lambda>_ _. False) u"
proof (rule wp_for_each[where I = "\<lambda>ys. in_view V s (if ys = [] then t else mode_no T (last ys), n)"])
  fix ys v u
  assume u: "in_view V s (if ys = [] then t else mode_no T (last ys), n) u" and v: "\<exists>zs. vs = ys @ v # zs"
  have vals: "v \<in> set (generate_smt_values T)" "ys \<noteq> [] \<Longrightarrow> last ys \<in> set (generate_smt_values T)"
    using v assms(5) last_in_set[of ys] by auto
  have "sane c T (if ys = [] then t else mode_no T (last ys), n)"
    using assms(4) sane_mode[OF vals(2) assms(2,4)] by simp
  from wp_smt_operation[OF assms(1-3) this vals(1) u]
  show "wp (smt_operation E v) (\<lambda>_. in_view V s (if ys @ [v] = [] then t else mode_no T (last (ys @ [v])), n)) (\<lambda>_ _. False) u"
    by simp
qed (use assms(6) in simp)

text \<open>
  C14. On a machine that obeys, the test of all modes passes; it ends with all threads running on as many
  cores as before, and has not changed the state of the test.
\<close>

theorem all_modes_pass:
  assumes "obeys E V c T" "2 \<le> T" "sane c T (V (world s))"
    and "max_smt_value s = T" "all_smt_values s = generate_smt_values T" "failures s = []"
  shows "\<exists>t. test_all_smt_operations E s = (Inr (), t) \<and> in_view V s (T, snd (V (world s))) t"
proof -
  obtain t n where v: "V (world s) = (t, n)" by (cases "V (world s)")
  have last: "mode_no T (last (generate_smt_values T)) = T" "generate_smt_values T \<noteq> []"
    by (simp_all add: generate_smt_values_def mode_no_def)
  have start: "in_view V s (t, n) s" using in_view_start[of V s] v by simp
  have "wp (test_all_smt_operations E) (\<lambda>_. in_view V s (T, n)) (\<lambda>_ _. False) s"
    unfolding test_all_smt_operations_def wp_sq wp_bnd wp_gets
  proof (rule wp_in_view_log[OF start])
    fix u assume u: "in_view V s (t, n) u"
    have "wp (for_each (all_smt_values u) (smt_operation E)) (\<lambda>_. in_view V s (T, n)) (\<lambda>_ _. False) u"
      using wp_smt_operations[OF assms(1,2,4), of t n "generate_smt_values T" u] u assms(3,5) v last
      by (simp add: in_view_attrs)
    then show "wp (for_each (all_smt_values u) (smt_operation E))
        (\<lambda>_. wp (fail_if_recorded ''All SMT operations'') (\<lambda>_. in_view V s (T, n)) (\<lambda>_ _. False)) (\<lambda>_ _. False) u"
      by (rule wp_conseq) (auto intro: wp_nothing_recorded[OF assms(6)])
  qed
  then show ?thesis using v by (simp add: wp_not_exn_iff)
qed

theorem all_modes_pass_witness:
  "\<exists>t. test_all_smt_operations (obedient 2 8) (test_object 2 8 (4, 1)) = (Inr (), t) \<and>
     in_view (\<lambda>w. w) (test_object 2 8 (4, 1)) (8, 1) t"
  using all_modes_pass[OF obedient_obeys, of 8 2 "test_object 2 8 (4, 1)"] by (simp add: test_object_def sane_def)

lemma unique_scenarios_range:
  "(k, d) \<in> set (unique_scenarios c ks xs) \<Longrightarrow> k \<le> c \<and> (k, d) \<in> set xs"
  by (induction c ks xs rule: unique_scenarios.induct) (auto split: if_splits)

lemma scenario_range:
  assumes "(k, d) \<in> set (unique_scenarios c [] (all_scenarios c))"
  shows "1 \<le> k" "k \<le> c"
proof -
  have "(k, d) \<in> set (all_scenarios c)" "k \<le> c" using unique_scenarios_range[OF assms] by auto
  then show "1 \<le> k" "k \<le> c" by (auto simp: all_scenarios_def fraction_cores_def split: if_splits)
qed

lemma wp_core_scenario:
  assumes "obeys E V c T" "sane c T (t, n)" "1 \<le> k" "k \<le> c" "in_view V s (t, n) u"
  shows "wp (core_scenario E (k, d)) (\<lambda>_. in_view V s (t, k)) (\<lambda>_ _. False) u"
  unfolding core_scenario_def prod.case wp_sq wp_bnd wp_whenb wp_if
proof (rule wp_in_view_log[OF assms(5)], rule wp_run_cores[OF assms(1,3,4)], assumption,
    simp only: simp_thms if_False, rule wp_half_second, assumption, simp, rule wp_verify_machine[OF assms(1)])
  show "sane c T (t, k)" using assms(2-4) by (simp add: sane_def)
qed (auto intro: wp_in_view_log[of V s "(t, k)"])

text \<open>
  C15. On a machine that obeys, the test that switches cores on and off passes; it ends with all cores online
  in the mode from before.
\<close>

theorem core_operations_pass:
  assumes "obeys E V c T" "sane c T (V (world s))" "total_cores s = c" "failures s = []"
  shows "\<exists>t. test_dynamic_core_operations E s = (Inr (), t) \<and> in_view V s (fst (V (world s)), c) t"
proof -
  obtain t n where v: "V (world s) = (t, n)" by (cases "V (world s)")
  have start: "in_view V s (t, n) s" using in_view_start[of V s] v by simp
  have sane: "sane c T (t, n)" "sane c T (t, c)" using assms(2) v by (auto simp: sane_def)
  let ?xs = "unique_scenarios c [] (all_scenarios c)"
  have loop: "wp (for_each ?xs (core_scenario E)) (\<lambda>_ u. \<exists>v. (sane c T v \<and> fst v = t) \<and> in_view V s v u) (\<lambda>_ _. False) u"
    if "in_view V s (t, c) u" for u
  proof (rule wp_in_view_each[OF that])
    fix x v u assume x: "x \<in> set ?xs" and v: "sane c T v \<and> fst v = t" and u: "in_view V s v u"
    obtain k d where k: "x = (k, d)" by (cases x)
    note range = scenario_range[OF x[unfolded k]]
    have "sane c T (t, snd v)" "in_view V s (t, snd v) u" using v u by (metis prod.collapse)+
    from wp_core_scenario[OF assms(1) this(1) range this(2), of d]
    show "wp (core_scenario E x) (\<lambda>_ u. \<exists>v'. (sane c T v' \<and> fst v' = t) \<and> in_view V s v' u) (\<lambda>_ _. False) u"
      unfolding k by (rule wp_conseq) (use range sane(1) in \<open>force simp: sane_def\<close>)+
  qed (use sane in simp)
  have "wp (test_dynamic_core_operations E) (\<lambda>_. in_view V s (t, c)) (\<lambda>_ _. False) s"
    unfolding test_dynamic_core_operations_def wp_sq wp_bnd wp_gets
  proof (rule wp_in_view_log[OF start], rule wp_all_cores[OF assms(1)], assumption)
    fix u assume u: "in_view V s (t, c) u"
    show "wp (for_each (unique_scenarios (total_cores u) [] (all_scenarios (total_cores u))) (core_scenario E))
        (\<lambda>_. wp (all_cores_on E) (\<lambda>_. wp (fail_if_recorded ''Dynamic core operations'') (\<lambda>_. in_view V s (t, c)) (\<lambda>_ _. False))
          (\<lambda>_ _. False)) (\<lambda>_ _. False) u"
      unfolding in_view_attrs(4)[OF u] assms(3)
    proof (rule wp_conseq[OF loop[OF u]], elim exE conjE)
      fix w v assume "fst v = t" "in_view V s v w"
      then have "in_view V s (t, snd v) w" by (metis prod.collapse)
      then show "wp (all_cores_on E) (\<lambda>_. wp (fail_if_recorded ''Dynamic core operations'') (\<lambda>_. in_view V s (t, c)) (\<lambda>_ _. False))
          (\<lambda>_ _. False) w"
        by (rule wp_all_cores[OF assms(1)]) (auto intro: wp_nothing_recorded[OF assms(4)])
    qed simp
  qed
  then show ?thesis using v by (simp add: wp_not_exn_iff)
qed

theorem core_operations_pass_witness:
  "\<exists>t. test_dynamic_core_operations (obedient 4 8) (test_object 4 8 (2, 1)) = (Inr (), t) \<and>
     in_view (\<lambda>w. w) (test_object 4 8 (2, 1)) (2, 4) t"
  using core_operations_pass[OF obedient_obeys, of 4 8 "test_object 4 8 (2, 1)"] by (simp add: test_object_def sane_def)

subsection \<open>What the verification finds out\<close>

text \<open>
  C13. Whatever the command and the kernel report, the verification says yes exactly if the expected mode and
  number of cores are the reported ones, all cores with online threads have equally many, and unless the mode
  is off the number of online processors is the number of online cores times that.
\<close>

theorem verification_decides:
  assumes "reports E V rep" "numbered (r_cores (rep (V (world s))))"
  shows "\<exists>t. verify_system_state E e c s = (Inr (sound (rep (V (world s))) e c), t) \<and> in_view V s (V (world s)) t"
  using wp_verify[OF assms in_view_start, of "\<lambda>b t. b = sound (rep (V (world s))) e c \<and> in_view V s (V (world s)) t" e c "\<lambda>_ _. False"]
  by (simp add: wp_not_exn_iff)

theorem verification_decides_witness:
  "\<exists>t. verify_system_state (obedient 2 4) (Some ''4'') (Some 1) (test_object 2 4 (2, 1)) = (Inr False, t)"
proof -
  have "reports (obedient 2 4) (\<lambda>w. w) (reported 2 4)" using obedient_obeys by (simp add: obeys_def)
  moreover have "str_int 2 \<noteq> ''4''" by code_simp
  then have "\<not> sound (reported 2 4 (2, 1)) (Some ''4'') (Some 1)" by (subst sound_machine) (auto simp: sane_def mode_word_def)
  ultimately show ?thesis
    using verification_decides[of "obedient 2 4" "\<lambda>w. w" "reported 2 4" "test_object 2 4 (2, 1)" "Some ''4''" "Some 1"]
      numbered_reported[of 2 4] by (auto simp: test_object_def)
qed

subsection \<open>How many cores are taken offline\<close>

text \<open>
  C18. The bounds of the random number of cores that go offline: with five cores or more there is always a
  number between them, it is at least two, and two cores stay online.
\<close>

theorem offline_range_bounds:
  assumes "5 \<le> n" "n \<le> 2 ^ 50"
  shows "2 \<le> fst (offline_range n) \<and> fst (offline_range n) \<le> snd (offline_range n) \<and> snd (offline_range n) \<le> n - 2"
proof -
  let ?x = "fl_mul (fl (of_int n)) (fl (1 / 5))" and ?y = "fl_mul (fl (of_int n)) (fl (2 / 5))"
  have n: "fl (of_int n) = (of_int n :: rat)" "fl (of_int (n - 2)) = (of_int (n - 2) :: rat)"
    using assms by (intro fl_of_int; simp)+
  have fifths: "0 \<le> fl (1 / 5)" "fl (1 / 5) \<le> 1 / 4" "2 / 5 \<le> fl (2 / 5)" "fl (1 / 5) \<le> fl (2 / 5)"
    by code_simp+
  have big: "(of_int n :: rat) \<ge> 5" using assms(1) by simp
  have lo: "?x \<le> of_int (n - 2)"
  proof -
    have "of_int n * fl (1 / 5) \<le> (of_int n :: rat) * (1 / 4)" using big fifths by (intro mult_left_mono) auto
    also have "\<dots> \<le> of_int (n - 2)" using big by simp
    finally show ?thesis unfolding fl_mul_def n(1) using n(2) by (intro fl_le_float) (simp_all add: is_float_def)
  qed
  have hi: "2 \<le> ?y"
  proof -
    have "2 \<le> (of_int n :: rat) * (2 / 5)" using big by simp
    also have "\<dots> \<le> of_int n * fl (2 / 5)" using big fifths by (intro mult_left_mono) auto
    finally show ?thesis unfolding fl_mul_def n(1) using is_float_of_int[of 2] by (intro fl_ge_float) simp_all
  qed
  have le: "?x \<le> ?y" unfolding fl_mul_def n(1) using big fifths by (intro fl_mono mult_left_mono) auto
  have pos: "0 \<le> ?x" unfolding fl_mul_def n(1) using big fifths by (intro fl_nonneg mult_nonneg_nonneg) auto
  have "py_trunc ?x \<le> py_trunc ?y" "py_trunc ?x \<le> n - 2" "2 \<le> py_trunc ?y"
    using le pos lo hi floor_mono[OF le] floor_mono[OF lo] floor_mono[OF hi] by (simp_all add: py_trunc_def)
  then show ?thesis using assms(1) by (simp add: offline_range_def)
qed

theorem offline_range_bounds_witness: "offline_range 12 = (2, 4) \<and> 2 \<le> fst (offline_range 12)"
proof
  show "offline_range 12 = (2, 4)" by code_simp
qed (use offline_range_bounds[of 12] in simp)

subsection \<open>A verification that is not looked at\<close>

text \<open>
  The cores obey; of the modes nothing is known: setting one may have no effect, and what the command reports
  about them is any text with a last word.
\<close>

definition obeys_cores :: "'w pc_env \<Rightarrow> ('w \<Rightarrow> int) \<Rightarrow> int \<Rightarrow> bool" where
  "obeys_cores E V c \<longleftrightarrow>
     acts V (\<lambda>_ _. True) (\<lambda>v. v) (pc_output E ''ppc64_cpu --info'') \<and>
     acts V (\<lambda>_ r. \<exists>w. smt_of r = Inr w) (\<lambda>v. v) (pc_output E ''ppc64_cpu --smt'') \<and>
     acts V (\<lambda>_ _. True) (\<lambda>v. v) (pc_online_count E) \<and>
     tells V (\<lambda>n. cores_text n) (pc_output E ''ppc64_cpu --cores-on'') \<and>
     tells V (\<lambda>_. present_text c) (pc_output E ''ppc64_cpu --cores-present'') \<and>
     (\<forall>v. does V (\<lambda>n. n) (pc_system_ignore E (''ppc64_cpu --smt='' @ v))) \<and>
     does V (\<lambda>n. n) (pc_system E ''ppc64_cpu --smt=on'') \<and>
     (\<forall>k \<in> {1..c}. does V (\<lambda>_. k) (pc_system E (''ppc64_cpu --cores-on='' @ str_int k))) \<and>
     does V (\<lambda>_. c) (pc_system E ''ppc64_cpu --cores-on=all'')"

lemma wp_verify_cores:
  assumes "obeys_cores E V c" "in_view V s n u" "\<And>b u. in_view V s n u \<Longrightarrow> Q b u"
  shows "wp (verify_system_state E e k) Q R u"
proof -
  have a: "acts V (\<lambda>_ _. True) (\<lambda>v. v) (pc_output E ''ppc64_cpu --info'')"
    "acts V (\<lambda>_ r. \<exists>w. smt_of r = Inr w) (\<lambda>v. v) (pc_output E ''ppc64_cpu --smt'')"
    "tells V (\<lambda>n. cores_text n) (pc_output E ''ppc64_cpu --cores-on'')"
    "acts V (\<lambda>_ _. True) (\<lambda>v. v) (pc_online_count E)"
    using assms(1) by (simp_all add: obeys_cores_def)
  show ?thesis
    by (rule wp_verify_texts[OF a _ _ assms(2), where m = "\<lambda>r. projr (smt_of r)" and k = "\<lambda>_. n"])
       (auto simp: cores_of_text intro: assms(3))
qed

lemma wp_interaction_mode:
  assumes "obeys_cores E V c" "in_view V s n u"
  shows "wp (interaction_mode E n n v) (\<lambda>_. in_view V s n) (\<lambda>_ _. False) u"
proof -
  have d: "does V (\<lambda>n. n) (pc_system_ignore E (''ppc64_cpu --smt='' @ v))"
    and c: "tells V (\<lambda>n. cores_text n) (pc_output E ''ppc64_cpu --cores-on'')"
    "tells V (\<lambda>_. present_text c) (pc_output E ''ppc64_cpu --cores-present'')"
    using assms(1) by (simp_all add: obeys_cores_def)
  show ?thesis
    unfolding interaction_mode_def set_smt_ignore_def psystem_ignore_def wp_sq wp_bnd wp_whenb wp_gets wp_ret
    by (rule wp_in_view_log[OF assms(2)], rule wp_does[OF d], assumption, rule wp_half_second, assumption, simp,
        rule wp_cores_texts[OF c], assumption, simp, rule wp_verify_cores[OF assms(1)])
qed

lemma wp_interaction_round:
  assumes "obeys_cores E V c" "1 \<le> c" "total_cores s = c" "in_view V s n u"
  shows "wp (interaction_round E rounds i) (\<lambda>_. in_view V s c) (\<lambda>_ _. False) u"
proof -
  let ?k = "max 1 (c div 2)"
  have k: "?k \<in> {1..c}" using assms(2) by simp
  have d: "does V (\<lambda>_. ?k) (pc_system E (''ppc64_cpu --cores-on='' @ str_int ?k))"
    "does V (\<lambda>_. c) (pc_system E ''ppc64_cpu --cores-on=all'')"
    using assms(1) k unfolding obeys_cores_def by blast+
  have c: "tells V (\<lambda>n. cores_text n) (pc_output E ''ppc64_cpu --cores-on'')"
    "tells V (\<lambda>_. present_text c) (pc_output E ''ppc64_cpu --cores-present'')"
    using assms(1) by (simp_all add: obeys_cores_def)
  have total: "total_cores u = c" if "in_view V s n u" for n u using that in_view_attrs(4) assms(3) by metis
  have loop: "wp (for_each vs (interaction_mode E ?k ?k)) (\<lambda>_. in_view V s ?k) (\<lambda>_ _. False) u" if "in_view V s ?k u" for vs u
    using that by (rule wp_for_each_inv) (rule wp_interaction_mode[OF assms(1)])
  show ?thesis
    unfolding interaction_round_def set_cores_def all_cores_on_def psystem_def wp_sq wp_bnd wp_gets wp_ret Let_def
  proof (rule wp_in_view_log[OF assms(4)], simp only: total, rule wp_does[OF d(1)], assumption,
      rule wp_half_second, assumption, simp, rule wp_cores_texts[OF c], assumption, simp only: cores_state.simps,
      rule wp_conseq[OF loop], assumption, rule wp_does[OF d(2)], assumption, rule wp_half_second, assumption, simp)
  qed
qed

text \<open>
  C16. The test of the interaction of modes and cores looks at the number of online cores only: if the cores
  obey it passes, even when setting a mode has no effect and the verification says so every time.
\<close>

theorem interaction_ignores_modes:
  assumes "obeys_cores E V c" "1 \<le> c" "total_cores s = c" "failures s = []"
  shows "\<exists>t. test_smt_core_interaction E s = (Inr (), t) \<and> in_view V s c t"
proof -
  have d: "does V (\<lambda>_. c) (pc_system E ''ppc64_cpu --cores-on=all'')" "does V (\<lambda>n. n) (pc_system E ''ppc64_cpu --smt=on'')"
    using assms(1) by (simp_all add: obeys_cores_def)
  have "wp (for_each xs (interaction_round E r)) (\<lambda>_. in_view V s c) (\<lambda>_ _. False) u" if "in_view V s c u" for xs r u
    using that by (rule wp_for_each_inv) (rule wp_interaction_round[OF assms(1-3)])
  note loop = wp_conseq[OF this]
  have "wp (test_smt_core_interaction E) (\<lambda>_. in_view V s c) (\<lambda>_ _. False) s"
    unfolding test_smt_core_interaction_def reset_system_state_def psystem_def wp_sq wp_bnd wp_gets wp_ret Let_def
    by (rule wp_in_view_log[OF in_view_start], rule wp_does[OF d(1)], assumption, rule wp_does[OF d(2)], assumption,
        rule wp_half_second, assumption, simp, rule loop, assumption, rule wp_nothing_recorded[OF assms(4)])
  then show ?thesis by (simp add: wp_not_exn_iff)
qed

text \<open>A machine whose mode is stuck.\<close>

definition stuck :: "int \<Rightarrow> int \<Rightarrow> (int \<times> int) pc_env" where
  "stuck c T = (obedient c T)\<lparr>pc_system_ignore := (\<lambda>_ w. (Inr 0, w))\<rparr>"

lemma stuck_obeys: "obeys_cores (stuck c T) snd c"
  by (auto simp: obeys_cores_def acts_def stuck_def obedient_def settle_simps settle_simps[simplified] machine_says_def
      smt_of_text reported_def)

theorem interaction_ignores_modes_witness:
  "\<exists>t. test_smt_core_interaction (stuck 4 8) (test_object 4 8 (1, 4)) = (Inr (), t) \<and>
     in_view snd (test_object 4 8 (1, 4)) 4 t"
  using interaction_ignores_modes[OF stuck_obeys, of 4 "test_object 4 8 (1, 4)"] by (simp add: test_object_def)

subsection \<open>The mode that is restored\<close>

definition mode_held :: "('w \<Rightarrow> 'v) \<Rightarrow> string option \<Rightarrow> 'v \<Rightarrow> 'w pc_st \<Rightarrow> bool" where
  "mode_held V m v t \<longleftrightarrow> V (world t) = v \<and> curr_smt t = m \<and> has_smt_str t"

lemma wp_held_acts:
  assumes "acts V A g x" "mode_held V m v t" "\<And>r u. A v r \<Longrightarrow> mode_held V m (g v) u \<Longrightarrow> Q r u"
  shows "wp (call f as x) Q R t"
proof (rule wp_acts[OF assms(1), of t v t])
  show "in_view V t v t" using in_view_start[of V t] assms(2) by (simp add: mode_held_def)
qed (use assms(2,3) in \<open>auto simp: mode_held_def in_view_def\<close>)

lemma wp_held_log:
  assumes "mode_held V m v t" "\<And>u. mode_held V m v u \<Longrightarrow> Q () u"
  shows "wp (log l msg) Q R t"
  using assms by (auto simp: wp mode_held_def)

lemma wp_held_modify:
  assumes "V (world (f t)) = v" "curr_smt (f t) = m" "has_smt_str (f t)" "\<And>u. mode_held V m v u \<Longrightarrow> Q () u"
  shows "wp (modify f) Q R t"
  using assms by (simp add: wp mode_held_def)

text \<open>With the default parameters and a machine that obeys.\<close>

definition plain_machine :: "'w pc_env \<Rightarrow> ('w \<Rightarrow> int \<times> int) \<Rightarrow> int \<Rightarrow> int \<Rightarrow> bool" where
  "plain_machine E V c T \<longleftrightarrow>
     obeys E V c T \<and> pc_params E = (\<lambda>_. None) \<and> acts V (\<lambda>_ a. contains ''ppc'' a) (\<lambda>v. v) (pc_arch E) \<and>
     tells V (\<lambda>_. True) (pc_check E ''powerpc-utils'') \<and>
     acts V (\<lambda>_ _. True) (\<lambda>v. v) (pc_exists E ''/sys/devices/system/cpu/subcores_per_core'') \<and>
     does V (\<lambda>(t, n). (T, n)) (pc_system E ''ppc64_cpu --smt=on'') \<and>
     does V (\<lambda>(t, n). (t, c)) (pc_system_ignore E ''ppc64_cpu --cores-on=all'') \<and>
     does V (\<lambda>(t, n). (T, n)) (pc_output_ignore E (''ppc64_cpu --smt='' @ str_int T)) \<and>
     does V (\<lambda>v. v) (pc_output_ignore E ''dmesg'')"

lemma not_refused:
  "\<not> contains ''is not SMT capable'' (smt_text (Some T))" "\<not> contains ''Inconsistent state'' (smt_text (Some T))"
proof -
  have "CHR '' '' \<notin> set (smt_text (Some T))"
    using str_int_no_space[of "CHR '' ''" T] by (auto simp: smt_text_def newline_def)
  then have "CHR '' '' \<in> set p \<Longrightarrow> \<not> contains p (smt_text (Some T))" for p
    by (auto simp: contains_iff_sublist dest: set_mono_sublist)
  then show "\<not> contains ''is not SMT capable'' (smt_text (Some T))" "\<not> contains ''Inconsistent state'' (smt_text (Some T))"
    by simp_all
qed

lemma wp_read_numbers:
  assumes "pc_params E = (\<lambda>_. None)" "mode_held V m v t" "\<And>u. mode_held V m v u \<Longrightarrow> Q () u"
  shows "wp (read_numbers E) Q R t"
  using assms(1,2) by (auto simp: read_numbers_def wp pc_param_def vfloat_def mode_held_def intro!: assms(3))

text \<open>
  C17. The set-up turns all threads on before it reads the mode that the tearDown restores: whatever mode the
  machine was in, set-up and tearDown leave it with all threads of all cores on.
\<close>

theorem tearDown_leaves_all_on:
  assumes "plain_machine E V c T" "2 \<le> T" "sane c T (V (world s))"
  shows "\<exists>t u. pc_setUp E s = (Inr (), t) \<and> pc_tearDown E t = (Inr (), u) \<and> V (world u) = (T, c)"
proof -
  obtain t n where v: "V (world s) = (t, n)" by (cases "V (world s)")
  have E: "obeys E V c T" "pc_params E = (\<lambda>_. None)" "acts V (\<lambda>_ a. contains ''ppc'' a) (\<lambda>v. v) (pc_arch E)"
    "tells V (\<lambda>_. True) (pc_check E ''powerpc-utils'')"
    "acts V (\<lambda>_ _. True) (\<lambda>v. v) (pc_exists E ''/sys/devices/system/cpu/subcores_per_core'')"
    "does V (\<lambda>(t, n). (T, n)) (pc_system E ''ppc64_cpu --smt=on'')"
    using assms(1) by (simp_all add: plain_machine_def)
  have out: "tells V (\<lambda>v. smt_text (r_mode (reported c T v))) (pc_output E ''ppc64_cpu --smt'')"
    "tells V (\<lambda>_. present_text c) (pc_output E ''ppc64_cpu --cores-present'')"
    using E(1) by (simp_all add: obeys_def reports_def)
  have mode: "r_mode (reported c T (T, n)) = Some T" using assms(2) by (simp add: reported_def)
  note keep = wp_held_modify[where V = V and v = "(T, n)" and m = "Some (str_int T)"]
  have up: "wp (pc_setUp E) (\<lambda>_. mode_held V (Some (str_int T)) (T, n)) (\<lambda>_ _. False) s"
    unfolding pc_setUp_def psystem_def poutput_def wp_bnd wp_sq wp_whenb wp_if wp_ret wp_lift wp_gets
    apply (rule wp_acts[OF E(3) in_view_start])
    apply (simp only: simp_thms if_False)
    apply (rule wp_tells[OF E(4)], assumption)
    apply (simp only: if_True E(2) pc_param_def option.case vint.simps sum.case)
    apply (rule wp_held_modify[where V = V and v = "(t, n)" and m = "curr_smt s"])
       apply (simp add: in_view_view v)
      apply (force simp: in_view_def)
     apply simp
    apply (rule wp_held_acts[OF E(6)], assumption, simp only: prod.case)
    apply (rule wp_held_acts[OF out(1)], assumption)
    apply (simp only: mode not_refused if_False smt_of_text sum.case mode_word_def option.case)
    apply (rule keep, simp add: mode_held_def, simp add: mode_held_def, simp add: mode_held_def)
    apply (rule wp_held_acts[OF E(5)], assumption)
    apply (rule keep, simp add: mode_held_def, simp add: mode_held_def, simp add: mode_held_def)
    apply (simp only: py_int_str_int sum.case)
    apply (rule keep, simp add: mode_held_def, simp add: mode_held_def, simp add: mode_held_def)
    apply (rule wp_held_acts[OF out(2)], assumption)
    apply (simp only: present_of_text sum.case)
    apply (rule keep, simp add: mode_held_def, simp add: mode_held_def, simp add: mode_held_def)
    apply (rule wp_read_numbers[OF E(2)], assumption)
    apply (rule wp_held_log, assumption)+
    apply assumption
    done
  have down: "wp (pc_tearDown E) (\<lambda>_ u. V (world u) = (T, c)) (\<lambda>_ _. False) t" if "mode_held V (Some (str_int T)) (T, n) t" for t
  proof -
    have t: "has_smt_str t" "\<And>u. mode_held V (Some (str_int T)) (T, c) u \<Longrightarrow> curr_smt u = Some (str_int T)"
      using that by (simp_all add: mode_held_def)
    have ends: "\<And>u. mode_held V (Some (str_int T)) (T, c) u \<Longrightarrow> V (world u) = (T, c)" by (simp add: mode_held_def)
    have D: "does V (\<lambda>(t, n). (t, c)) (pc_system_ignore E ''ppc64_cpu --cores-on=all'')"
      "does V (\<lambda>(t, n). (T, n)) (pc_output_ignore E (''ppc64_cpu --smt='' @ str_int T))"
      "does V (\<lambda>v. v) (pc_output_ignore E ''dmesg'')"
      using assms(1) by (simp_all add: plain_machine_def)
    show ?thesis
      unfolding pc_tearDown_def psystem_ignore_def wp_bnd wp_sq wp_whenb wp_if wp_ret wp_lift wp_gets
      by (simp only: t(1) if_True, rule wp_held_acts[OF D(1) that], simp only: t(2) prod.case attr_simps sum.case,
          rule wp_held_acts[OF D(2)], assumption, simp only: prod.case, rule wp_held_acts[OF D(3)], assumption, rule ends)
  qed
  obtain t where "pc_setUp E s = (Inr (), t)" "mode_held V (Some (str_int T)) (T, n) t"
    using up by (auto simp: wp_not_exn_iff)
  with down[of t] show ?thesis by (auto simp: wp_not_exn_iff)
qed

lemma obedient_plain: "plain_machine (obedient c T) (\<lambda>w. w) c T"
proof -
  have "settle c T ''ppc64_cpu --smt=on'' (t, n) = (T, n)" "settle c T (''ppc64_cpu --smt='' @ str_int T) (t, n) = (T, n)" for t n
    using settle_simps(2)[of c T "''on''" t n] settle_simps(2)[of c T "str_int T" t n]
    by (simp_all add: mode_no_def str_int_not_word)
  moreover have "settle c T ''dmesg'' w = w" for w by (cases w) (simp add: settle_def startswith_def)
  moreover have "contains ''ppc'' ''ppc64le''" by code_simp
  ultimately show ?thesis
    unfolding plain_machine_def using obedient_obeys[of c T]
    by (auto simp: acts_def obedient_def settle_simps simp del: append.simps)
qed

theorem tearDown_leaves_all_on_witness:
  "\<exists>t u. pc_setUp (obedient 4 8) (test_object 4 8 (1, 2)) = (Inr (), t) \<and>
     pc_tearDown (obedient 4 8) t = (Inr (), u) \<and> world u = (8, 4)"
  using tearDown_leaves_all_on[OF obedient_plain, of 8 4 "test_object 4 8 (1, 2)"] by (simp add: test_object_def sane_def)

end
