(* ===== verification/Sched_Tunables.thy ===== *)
theory Sched_Tunables
  imports Avocado Py_Json "HOL-Library.AList"
begin

section \<open>Scheduler tunables (cpu/scheduler_tunables_test.py)\<close>

text \<open>
  The test reads and writes files of the kernel that tune the scheduler, runs a workload under \<^verbatim>\<open>perf stat\<close>
  before and after, averages the counters and compares them. The files, the commands, the packages and the
  power function of the C library are the parameter \<open>su_env\<close>. Dictionaries are association lists in the order
  of insertion. The sum of floats is the plain one, from the left.
\<close>

subsection \<open>External operations and state\<close>

record 'w su_env =
  su_params :: "string \<Rightarrow> string \<Rightarrow> pyval option"
  su_check :: "string \<Rightarrow> ('w, bool) ext"
  su_install :: "string \<Rightarrow> ('w, bool) ext"
  su_online_count :: "('w, int) ext"
  su_ismount :: "string \<Rightarrow> ('w, bool) ext"
  su_exists :: "string \<Rightarrow> ('w, bool) ext"
  su_read :: "string \<Rightarrow> ('w, string) ext"
  su_write :: "string \<Rightarrow> string \<Rightarrow> ('w, unit) ext"
  su_run :: "string \<Rightarrow> ('w, cmd_result) ext"
  su_sudo :: "string \<Rightarrow> ('w, cmd_result) ext"
  su_pow :: "rat \<Rightarrow> rat \<Rightarrow> rat"
  su_err_text :: "exn \<Rightarrow> string"

type_synonym metrics = "(string \<times> num) list"

record 'w su_st = "'w st" +
  total_cpus :: int
  test_duration :: int
  stress_workers :: int
  original_tunables :: "(string \<times> string) list option"
  baseline_metrics :: "metrics option"

type_synonym ('w, 'a) su = "('w su_st, 'a) py"

definition su_param :: "'w su_env \<Rightarrow> string \<Rightarrow> string \<Rightarrow> pyval \<Rightarrow> pyval" where
  "su_param E path k d = (case su_params E path k of None \<Rightarrow> d | Some v \<Rightarrow> v)"

definition su_info :: "string \<Rightarrow> ('w, unit) su" where
  "su_info m = log Info m"

definition ruler :: string where "ruler = replicate 70 (CHR ''='')"

definition tick :: string where "tick = [CHR 0xE2, CHR 0x9C, CHR 0x93]"
definition warning_sign :: string where "warning_sign = [CHR 0xE2, CHR 0x9A, CHR 0xA0]"
definition plus_minus :: string where "plus_minus = [CHR 0xC2, CHR 0xB1]"
definition info_sign :: string where "info_sign = [CHR 0xE2, CHR 0x84, CHR 0xB9]"
definition long_dash :: string where "long_dash = [CHR 0xE2, CHR 0x80, CHR 0x94]"

definition headline :: "string \<Rightarrow> ('w, unit) su" where
  "headline m = sq (su_info (newline # ruler)) (sq (su_info m) (su_info ruler))"

definition ndiv :: "num \<Rightarrow> num \<Rightarrow> num result" where
  "ndiv x y = (if exact y = 0 then Inl ZeroDivisionError
     else Inr (NFloat (case (x, y) of (NInt m, NInt n) \<Rightarrow> fl (of_int m / of_int n) | _ \<Rightarrow> fl_div (to_float x) (to_float y))))"

text \<open>\<^verbatim>\<open>'%d' % x\<close>, \<^verbatim>\<open>'%.nf' % x\<close>, \<^verbatim>\<open>'%.0f' % x\<close>.\<close>

fun num_d :: "num \<Rightarrow> string" where
  "num_d (NInt n) = str_int n"
| "num_d (NFloat x) = str_int (py_trunc x)"

definition num_f :: "nat \<Rightarrow> num \<Rightarrow> string" where
  "num_f n x = fixed n (to_float x)"

definition num_f0 :: "num \<Rightarrow> string" where
  "num_f0 x = (let y = to_float x in (if y < 0 then ''-'' else []) @ str_digits (round_even \<bar>y\<bar>))"

subsection \<open>The files of the tunables\<close>

definition tunable_paths :: "string \<Rightarrow> string list" where
  "tunable_paths name =
     (if name = ''base_slice_ns'' then
        [''/sys/kernel/debug/sched/base_slice_ns'', ''/sys/kernel/debug/sched/latency_ns'', ''/proc/sys/kernel/sched_latency_ns'']
      else if name = ''sched_migration_cost_ns'' then
        [''/proc/sys/kernel/sched_migration_cost_ns'', ''/sys/kernel/debug/sched/migration_cost_ns'']
      else if name = ''sched_nr_migrate'' then
        [''/proc/sys/kernel/sched_nr_migrate'', ''/sys/kernel/debug/sched/nr_migrate'']
      else if name = ''sched_schedstats'' then [''/proc/sys/kernel/sched_schedstats'']
      else [])"

definition get_tunable_path :: "'w su_env \<Rightarrow> string \<Rightarrow> ('w, string option) su" where
  "get_tunable_path E name =
     for_ret (tunable_paths name) (\<lambda>path.
       bnd (call ''exists'' [path] (su_exists E path)) (\<lambda>b. ret (if b then Some path else None)))"

definition fallback_name :: "string \<Rightarrow> string option" where
  "fallback_name path =
     (if path = ''/sys/kernel/debug/sched/latency_ns'' then Some ''latency_ns''
      else if path = ''/proc/sys/kernel/sched_latency_ns'' then Some ''sched_latency_ns'' else None)"

definition read_tunable :: "'w su_env \<Rightarrow> string \<Rightarrow> ('w, string) su" where
  "read_tunable E path = bnd (call ''read_file'' [path] (su_read E path)) (\<lambda>t. ret (strip t))"

definition save_tunable :: "'w su_env \<Rightarrow> string \<Rightarrow> ('w, unit) su" where
  "save_tunable E name =
     bnd (get_tunable_path E name) (\<lambda>p. case p of
       None \<Rightarrow> su_info (''  - '' @ name @ '' NOT FOUND (not supported on this kernel, skipping)'')
     | Some path \<Rightarrow>
         try_except
           (bnd (read_tunable E path) (\<lambda>v.
            sq (modify (\<lambda>s. s\<lparr>original_tunables := map_option (AList.update path v) (original_tunables s)\<rparr>))
               (case fallback_name path of
                  Some alias \<Rightarrow> su_info (''  '' @ tick @ '' '' @ name @ '' (using '' @ alias @ '' on this kernel) = '' @ v)
                | None \<Rightarrow> su_info (''  '' @ tick @ '' '' @ name @ '' = '' @ v))))
           (\<lambda>e. log Warning (''  '' @ warning_sign @ '' Failed to read '' @ name @ '': '' @ su_err_text E e)))"

definition tunables :: "string list" where
  "tunables = [''base_slice_ns'', ''sched_migration_cost_ns'', ''sched_nr_migrate'', ''sched_schedstats'']"

definition check_and_save_tunables :: "'w su_env \<Rightarrow> ('w, unit) su" where
  "check_and_save_tunables E =
     sq (su_info (newline # ''--- Checking Top 4 Scheduler Tunables ---''))
    (sq (for_each tunables (save_tunable E))
        (su_info ruler))"

text \<open>\<^verbatim>\<open>if not tunable_path\<close>: no path is empty.\<close>

definition set_tunable :: "'w su_env \<Rightarrow> string \<Rightarrow> int \<Rightarrow> ('w, unit) su" where
  "set_tunable E name v =
     bnd (get_tunable_path E name) (\<lambda>p. case p of
       None \<Rightarrow> fail (''Tunable '' @ name @ '' not found'')
     | Some path \<Rightarrow>
         try_except
           (sq (call ''write_file'' [path, str_int v] (su_write E path (str_int v)))
               (su_info (''Set '' @ name @ '' = '' @ str_int v)))
           (\<lambda>e. fail (''Failed to set '' @ name @ '': '' @ su_err_text E e)))"

definition get_tunable :: "'w su_env \<Rightarrow> string \<Rightarrow> ('w, string option) su" where
  "get_tunable E name =
     bnd (get_tunable_path E name) (\<lambda>p. case p of
       None \<Rightarrow> ret None
     | Some path \<Rightarrow>
         try_except
           (bnd (read_tunable E path) (\<lambda>v. ret (Some v)))
           (\<lambda>e. sq (log Error (''Failed to read '' @ name @ '': '' @ su_err_text E e)) (ret None)))"

definition get_tunable_display_name :: "'w su_env \<Rightarrow> string \<Rightarrow> ('w, string) su" where
  "get_tunable_display_name E name =
     bnd (get_tunable_path E name) (\<lambda>p. ret (case p of
       None \<Rightarrow> name
     | Some path \<Rightarrow>
         if name = ''base_slice_ns'' then
           (case fallback_name path of Some alias \<Rightarrow> ''base_slice_ns('' @ alias @ '')'' | None \<Rightarrow> name)
         else name))"

definition NS_TO_MS :: int where "NS_TO_MS = 1000000"
definition MIN_BASE_SLICE_NS :: int where "MIN_BASE_SLICE_NS = 750000"
definition MIN_MIGRATION_COST_NS :: int where "MIN_MIGRATION_COST_NS = 50000"

definition in_ms :: "int \<Rightarrow> string" where
  "in_ms n = fixed 2 (fl (of_int n / of_int NS_TO_MS))"

definition log_tunable_change :: "string \<Rightarrow> int \<Rightarrow> int \<Rightarrow> string \<Rightarrow> ('w, unit) su" where
  "log_tunable_change name old_val new_val unit =
     (if unit = ''ns'' then
        su_info (''  '' @ name @ '': '' @ str_int old_val @ '' -> '' @ str_int new_val @ '' ('' @ in_ms old_val @ '' ms -> '' @
          in_ms new_val @ '' ms)'')
      else su_info (''  '' @ name @ '': '' @ str_int old_val @ '' -> '' @ str_int new_val @ '' '' @ unit))"

definition restore_tunables :: "'w su_env \<Rightarrow> ('w, unit) su" where
  "restore_tunables E =
     sq (su_info (newline # ''--- Restoring Original Tunables ---''))
    (bnd (gets original_tunables) (\<lambda>orig. bnd (lift (attr orig)) (\<lambda>saved.
     for_each saved (\<lambda>(path, v).
       try_except
         (sq (call ''write_file'' [path, v] (su_write E path v))
             (su_info (''  Restored '' @ path @ '' = '' @ v)))
         (\<lambda>e. log Warning (''  Failed to restore '' @ path @ '': '' @ su_err_text E e))))))"

definition mount_debugfs :: "'w su_env \<Rightarrow> ('w, unit) su" where
  "mount_debugfs E =
    (let unavailable = ''Some tunables under /sys/kernel/debug/sched/ may not be available. Tests will use procfs tunables where possible.''
     in bnd (call ''ismount'' [''/sys/kernel/debug''] (su_ismount E ''/sys/kernel/debug'')) (\<lambda>b.
        if b then su_info ''debugfs is mounted at /sys/kernel/debug''
        else
          sq (log Warning ''debugfs not mounted at /sys/kernel/debug'')
         (sq (su_info ''Attempting to mount debugfs...'')
             (try_except
               (bnd (call ''sudo'' [''mount -t debugfs none /sys/kernel/debug'']
                      (su_sudo E ''mount -t debugfs none /sys/kernel/debug'')) (\<lambda>r.
                if exit_status r \<noteq> 0 then log Warning (''Failed to mount debugfs. '' @ unavailable)
                else su_info ''Successfully mounted debugfs''))
               (\<lambda>e. log Warning (''Could not mount debugfs: '' @ su_err_text E e @ ''. '' @ unavailable))))))"

definition worker_count :: "'w su_env \<Rightarrow> int \<Rightarrow> ('w, int) su" where
  "worker_count E cpus =
    (let configured = su_param E [] ''stress_workers'' (VInt 0)
     in if \<not> truthy configured then
          let k = (if cpus \<le> 8 then 4 else 8) in
          sq (su_info (''Auto-calculating stress workers: '' @ str_int (cpus * k) @ '' ('' @ str_int k @ ''x '' @ str_int cpus @ '' CPUs)''))
             (ret (cpus * k))
        else
          bnd (lift (vint configured)) (\<lambda>n.
          sq (su_info (''Using configured stress workers: '' @ str_int n)) (ret n)))"

definition su_setUp :: "'w su_env \<Rightarrow> ('w, unit) su" where
  "su_setUp E =
     sq (for_each [''stress-ng'', ''perf''] (\<lambda>package.
           bnd (call ''check_installed'' [package] (su_check E package)) (\<lambda>b.
           if b then ret ()
           else bnd (call ''install'' [package] (su_install E package)) (\<lambda>b'.
                whenb (\<not> b') (cancel (''Failed to install '' @ package))))))
    (bnd (call ''online_count'' [] (su_online_count E)) (\<lambda>cpus.
     sq (modify (\<lambda>s. s\<lparr>total_cpus := cpus\<rparr>))
    (sq (su_info (''Total online CPUs: '' @ str_int cpus))
    (bnd (lift (vint (su_param E [] ''test_duration'' (VInt 10)))) (\<lambda>d.
     sq (modify (\<lambda>s. s\<lparr>test_duration := d\<rparr>))
    (bnd (worker_count E cpus) (\<lambda>k.
     sq (modify (\<lambda>s. s\<lparr>stress_workers := k, original_tunables := Some []\<rparr>))
    (sq (mount_debugfs E)
    (sq (headline ''TEST CONFIGURATION - TOP 4 TUNABLES'')
    (sq (su_info (''  Duration: '' @ str_int d @ '' seconds''))
    (sq (su_info (''  Workers: '' @ str_int k))
    (sq (su_info (''  CPUs: '' @ str_int cpus))
    (sq (su_info ruler)
        (check_and_save_tunables E))))))))))))))"

subsection \<open>Workloads and counters\<close>

definition build_stress_command :: "int \<Rightarrow> int \<Rightarrow> pyval \<Rightarrow> int \<Rightarrow> string \<times> string" where
  "build_stress_command stress_wk cpus workload_type duration =
    (let timeout = '' --timeout '' @ str_int duration @ ''s''
     in if workload_type = VStr ''cpu'' then
          (''stress-ng --cpu '' @ str_int stress_wk @ timeout, ''Running CPU-bound workload (tests base_slice_ns)'')
        else if workload_type = VStr ''context-switch'' then
          (''stress-ng --switch '' @ str_int (min stress_wk (cpus * 4)) @ timeout,
           ''Running context-switch workload (tests migration_cost_ns)'')
        else if workload_type = VStr ''fork'' then
          (''stress-ng --fork '' @ str_int (min (stress_wk div 2) 64) @ timeout,
           ''Running fork workload (tests sched_nr_migrate)'')
        else if workload_type = VStr ''mixed'' then
          (''stress-ng --cpu '' @ str_int (stress_wk div 2) @ '' --io '' @ str_int (stress_wk div 4) @ timeout,
           ''Running mixed CPU+I/O workload'')
        else (''stress-ng --cpu '' @ str_int stress_wk @ timeout, ''Running default workload''))"

definition parse_perf_rate :: "string \<Rightarrow> rat result" where
  "parse_perf_rate t = (case py_float t of Inl ValueError \<Rightarrow> Inr 0 | r \<Rightarrow> r)"

definition no_metrics :: metrics where
  "no_metrics = [(''context_switches'', NInt 0), (''cs_per_second'', NFloat 0), (''cpu_migrations'', NInt 0),
     (''migrations_per_second'', NFloat 0), (''page_faults'', NInt 0), (''task_clock_ms'', NFloat 0),
     (''cpus_utilized'', NFloat 0), (''branch_misses'', NInt 0), (''branch_miss_rate'', NFloat 0), (''branches'', NInt 0),
     (''cpu_cycles'', NInt 0), (''instructions'', NInt 0), (''insn_per_cycle'', NFloat 0), (''time_elapsed'', NFloat 0)]"

definition no_commas :: "string \<Rightarrow> string" where
  "no_commas = filter (\<lambda>c. c \<noteq> CHR '','')"

definition perf_count :: "string list \<Rightarrow> int result" where
  "perf_count parts = rbind (py_nth parts 0) (\<lambda>w. py_int (no_commas w))"

text \<open>The words in front of the words with \<open>mark\<close> whose index is greater than \<open>k\<close>; each sets the entry, so the last counts.\<close>

definition words_before :: "string \<Rightarrow> nat \<Rightarrow> string list \<Rightarrow> string list" where
  "words_before mark k parts = map (\<lambda>i. parts ! (i - 1)) (filter (\<lambda>i. k < i \<and> contains mark (parts ! i)) [0..<length parts])"

definition set_last :: "string \<Rightarrow> rat list \<Rightarrow> metrics \<Rightarrow> metrics" where
  "set_last key xs m = (if xs = [] then m else AList.update key (NFloat (last xs)) m)"

definition set_count :: "string \<Rightarrow> string list \<Rightarrow> metrics \<Rightarrow> metrics result" where
  "set_count key parts m = rbind (perf_count parts) (\<lambda>n. Inr (AList.update key (NInt n) m))"

definition set_rates :: "string \<Rightarrow> string list \<Rightarrow> metrics \<Rightarrow> metrics result" where
  "set_rates key parts m = rbind (mapM_r parse_perf_rate (words_before ''/sec'' 0 parts)) (\<lambda>xs. Inr (set_last key xs m))"

text \<open>A word that is no number is passed over.\<close>

fun float_words :: "string list \<Rightarrow> rat list result" where
  "float_words [] = Inr []"
| "float_words (w # ws) =
     (case py_float w of
        Inr x \<Rightarrow> rbind (float_words ws) (\<lambda>xs. Inr (x # xs))
      | Inl e \<Rightarrow> if e = ValueError then float_words ws else Inl e)"

definition parse_branches :: "string list \<Rightarrow> metrics \<Rightarrow> metrics result" where
  "parse_branches parts m =
     (if 2 \<le> length parts \<and> no_commas (parts ! 0) \<noteq> [] \<and> list_all is_digit (no_commas (parts ! 0)) then
        rbind (perf_count parts) (\<lambda>count.
        if parts ! 1 = ''branch-misses'' then
          rbind (mapM_r (\<lambda>w. py_float (filter (\<lambda>c. c \<noteq> CHR ''%'') w)) (filter (contains ''%'') parts)) (\<lambda>xs.
          Inr (set_last ''branch_miss_rate'' xs (AList.update ''branch_misses'' (NInt count) m)))
        else if parts ! 1 = ''branches'' then Inr (AList.update ''branches'' (NInt count) m)
        else Inr m)
      else Inr m)"

definition parse_perf_line :: "metrics \<Rightarrow> string \<Rightarrow> metrics result" where
  "parse_perf_line m raw =
    (let line = strip raw; parts = split_ws line
     in if contains ''context-switches'' line then
          rbind (set_count ''context_switches'' parts m) (set_rates ''cs_per_second'' parts)
        else if contains ''cpu-migrations'' line then
          rbind (set_count ''cpu_migrations'' parts m) (set_rates ''migrations_per_second'' parts)
        else if contains ''page-faults'' line then set_count ''page_faults'' parts m
        else if contains ''task-clock'' line then
          rbind (rbind (py_nth parts 0) (\<lambda>w. py_float (no_commas w))) (\<lambda>x.
          rbind (mapM_r py_float (words_before ''CPUs'' 0 parts)) (\<lambda>xs.
          Inr (set_last ''cpus_utilized'' xs (AList.update ''task_clock_ms'' (NFloat x) m))))
        else if contains ''branch'' line then parse_branches parts m
        else if contains ''cpu-cycles'' line then set_count ''cpu_cycles'' parts m
        else if contains ''instructions'' line then
          rbind (set_count ''instructions'' parts m) (\<lambda>m.
          rbind (float_words (words_before ''instructions'' 1 parts)) (\<lambda>xs. Inr (set_last ''insn_per_cycle'' xs m)))
        else if contains ''seconds time elapsed'' line then
          rbind (rbind (py_nth parts 0) py_float) (\<lambda>x. Inr (AList.update ''time_elapsed'' (NFloat x) m))
        else Inr m)"

definition parse_perf_output :: "string \<Rightarrow> metrics result" where
  "parse_perf_output out = foldl (\<lambda>r l. rbind r (\<lambda>m. parse_perf_line m l)) (Inr no_metrics) (split_on newline out)"

text \<open>\<^verbatim>\<open>m.get(k, 0)\<close>; what the parser returns has all keys, so this is \<^verbatim>\<open>m[k]\<close> too.\<close>

definition metric :: "metrics \<Rightarrow> string \<Rightarrow> num" where
  "metric m k = (case map_of m k of Some v \<Rightarrow> v | None \<Rightarrow> NInt 0)"

definition per_1000 :: "metrics \<Rightarrow> num result" where
  "per_1000 m = ndiv (nmul (metric m ''cpu_migrations'') (NFloat 1000)) (metric m ''context_switches'')"

definition log_metrics :: "metrics \<Rightarrow> ('w, unit) su" where
  "log_metrics m =
     sq (headline ''SCHEDULER METRICS (via perf stat)'')
    (sq (su_info (''Context switches: '' @ num_d (metric m ''context_switches'') @ '' ('' @ num_f 1 (metric m ''cs_per_second'') @
           '' cs/sec)''))
    (sq (su_info (''CPU migrations: '' @ num_d (metric m ''cpu_migrations'') @ '' ('' @
           num_f 1 (metric m ''migrations_per_second'') @ '' migrations/sec)''))
    (sq (su_info (''Page faults: '' @ num_d (metric m ''page_faults'')))
    (sq (su_info (''Task clock: '' @ num_f 2 (metric m ''task_clock_ms'') @ '' ms ('' @ num_f 1 (metric m ''cpus_utilized'') @
           '' CPUs utilized)''))
    (sq (su_info (''Instructions per cycle: '' @ num_f 2 (metric m ''insn_per_cycle'')))
    (sq (su_info (''Time elapsed: '' @ num_f 2 (metric m ''time_elapsed'') @ '' seconds''))
    (sq (whenb (0 < exact (metric m ''context_switches''))
          (bnd (lift (per_1000 m)) (\<lambda>r.
           sq (su_info (newline # ''Derived Metrics:''))
          (sq (su_info (''  Migrations per 1000 context switches: '' @ num_f 2 r))
              (whenb (1000 < exact r)
                (log Warning (''  '' @ warning_sign @ '' Unusually high migration ratio - may indicate system instability'')))))))
        (su_info ruler))))))))"

record single_run =
  run_ok :: bool
  run_metrics :: metrics
  raw_output :: string

definition run_workload_single :: "'w su_env \<Rightarrow> int option \<Rightarrow> pyval \<Rightarrow> ('w, single_run) su" where
  "run_workload_single E duration workload_type =
     bnd (gets test_duration) (\<lambda>td. bnd (gets stress_workers) (\<lambda>k. bnd (gets total_cpus) (\<lambda>cpus.
     let (stress_cmd, log_msg) = build_stress_command k cpus workload_type (case duration of None \<Rightarrow> td | Some d \<Rightarrow> d);
         perf_cmd = ''perf stat -e context-switches,cpu-migrations,page-faults,task-clock,branch-misses,branches,cpu-cycles,instructions '' @
           stress_cmd
     in sq (su_info log_msg)
       (sq (su_info (''Command: '' @ perf_cmd))
           (try_except
             (bnd (call ''run'' [perf_cmd] (su_run E perf_cmd)) (\<lambda>r.
              bnd (lift (parse_perf_output (stderr_text r))) (\<lambda>m.
              sq (log_metrics m)
                 (ret \<lparr>run_ok = (exit_status r = 0), run_metrics = m, raw_output = stderr_text r\<rparr>))))
             (\<lambda>e. sq (log Error (''Workload with perf failed: '' @ su_err_text E e))
                    (ret \<lparr>run_ok = False, run_metrics = [], raw_output = su_err_text E e\<rparr>)))))))"

text \<open>The average of a counter, and the standard deviation of three of them.\<close>

definition nsum :: "num list \<Rightarrow> num" where
  "nsum xs = foldl nadd (NInt 0) xs"

definition average_of :: "num list \<Rightarrow> num result" where
  "average_of xs = ndiv (nsum xs) (NInt (int (length xs)))"

definition deviation :: "(rat \<Rightarrow> rat \<Rightarrow> rat) \<Rightarrow> num list \<Rightarrow> num \<Rightarrow> num result" where
  "deviation pow xs mean =
     rbind (ndiv (nsum (map (\<lambda>x. NFloat (pow (to_float (nsub x mean)) 2)) xs)) (NInt (int (length xs)))) (\<lambda>v.
     Inr (NFloat (pow (to_float v) (1 / 2))))"

definition values_of :: "metrics list \<Rightarrow> string \<Rightarrow> num list" where
  "values_of runs k = concat (map (\<lambda>r. case map_of r k of None \<Rightarrow> [] | Some v \<Rightarrow> [v]) runs)"

definition averages :: "metrics list \<Rightarrow> string list \<Rightarrow> metrics result" where
  "averages runs ks =
     mapM_r (\<lambda>k. rbind (average_of (values_of runs k)) (\<lambda>v. Inr (k, v))) (filter (\<lambda>k. values_of runs k \<noteq> []) ks)"

definition deviations :: "(rat \<Rightarrow> rat \<Rightarrow> rat) \<Rightarrow> metrics list \<Rightarrow> metrics \<Rightarrow> metrics result" where
  "deviations pow runs avg =
     mapM_r (\<lambda>(k, mean). rbind (deviation pow (values_of runs k) mean) (\<lambda>v. Inr (k, v)))
       (filter (\<lambda>(k, _). k \<in> {''context_switches'', ''cpu_migrations'', ''page_faults''}) avg)"

record workload_result =
  w_success :: bool
  w_metrics :: metrics
  all_runs :: "metrics list"
  std_dev :: metrics

definition log_averages :: "int \<Rightarrow> metrics \<Rightarrow> metrics \<Rightarrow> ('w, unit) su" where
  "log_averages k avg dev =
    (let line = (\<lambda>what key. su_info (what @ '': '' @ num_f0 (metric avg key) @ '' ('' @ plus_minus @ num_f0 (metric dev key) @ '')''))
     in sq (headline (''AVERAGED METRICS ('' @ str_int k @ '' successful runs)''))
       (sq (line ''Context switches'' ''context_switches'')
       (sq (line ''CPU migrations'' ''cpu_migrations'')
       (sq (line ''Page faults'' ''page_faults'')
       (sq (su_info (''Task clock: '' @ num_f 2 (metric avg ''task_clock_ms'') @ '' ms''))
       (sq (su_info (''Instructions per cycle: '' @ num_f 2 (metric avg ''insn_per_cycle'')))
       (sq (whenb (0 < exact (metric avg ''context_switches''))
             (bnd (lift (per_1000 avg)) (\<lambda>r. su_info (''Migrations per 1000 context switches: '' @ num_f 2 r))))
           (su_info ruler))))))))"

definition run_workload :: "'w su_env \<Rightarrow> pyval \<Rightarrow> ('w, workload_result) su" where
  "run_workload E workload_type =
     bnd (gets test_duration) (\<lambda>duration.
     sq (su_info (newline # ''--- Running 10 iterations for reliable metrics ---''))
    (sq (su_info (''Using short duration ('' @ str_int duration @ ''s) per iteration to prevent resource exhaustion''))
    (bnd (for_acc (range1 10) (\<lambda>i runs.
            sq (su_info (''Iteration '' @ str_int (i + 1) @ ''/10...''))
           (bnd (run_workload_single E (Some duration) workload_type) (\<lambda>r.
            if run_ok r then ret (runs @ [run_metrics r])
            else sq (log Warning (''Iteration '' @ str_int (i + 1) @ '' failed'')) (ret runs)))) []) (\<lambda>runs.
     if runs = [] then ret \<lparr>w_success = False, w_metrics = [], all_runs = [], std_dev = []\<rparr>
     else
       bnd (lift (averages runs (map fst (hd runs)))) (\<lambda>avg.
       bnd (lift (deviations (su_pow E) runs avg)) (\<lambda>dev.
       sq (log_averages (int (length runs)) avg dev)
          (ret \<lparr>w_success = True, w_metrics = avg, all_runs = runs, std_dev = dev\<rparr>)))))))"

subsection \<open>Comparison and tests\<close>

definition signed_f1 :: "rat \<Rightarrow> string" where
  "signed_f1 x = (if x < 0 then [] else ''+'') @ fixed 1 x"

text \<open>The change in per cent, if the baseline is positive.\<close>

definition change_pct :: "num \<Rightarrow> num \<Rightarrow> num result" where
  "change_pct base v = rbind (ndiv (nsub v base) base) (\<lambda>q. Inr (nmul q (NInt 100)))"

definition compare_and_log_metrics :: "metrics \<Rightarrow> metrics \<Rightarrow> string \<Rightarrow> string \<Rightarrow> ('w, num option) su" where
  "compare_and_log_metrics base test name display =
    (let b = metric base name; v = metric test name
     in sq (su_info (newline # display @ '':''))
       (sq (su_info (''  Baseline: '' @ num_d b))
       (sq (su_info (''  Test: '' @ num_d v))
           (if 0 < exact b then
              bnd (lift (change_pct b v)) (\<lambda>c.
              sq (su_info (''  Change: '' @ signed_f1 (to_float c) @ ''%''))
                 (ret (Some c)))
            else ret None))))"

definition test_01_baseline :: "'w su_env \<Rightarrow> ('w, unit) su" where
  "test_01_baseline E =
    (let shown = (\<lambda>v. case v of None \<Rightarrow> ''None'' | Some t \<Rightarrow> t)
     in sq (headline ''TEST 1: DEFAULT TUNABLES Verification'')
       (sq (su_info (newline # ''Current tunable values:''))
       (bnd (get_tunable E ''base_slice_ns'') (\<lambda>a.
        bnd (get_tunable E ''sched_migration_cost_ns'') (\<lambda>b.
        bnd (get_tunable E ''sched_nr_migrate'') (\<lambda>c.
        bnd (get_tunable E ''sched_schedstats'') (\<lambda>d.
        sq (su_info (''  base_slice_ns = '' @ shown a))
       (sq (su_info (''  sched_migration_cost_ns = '' @ shown b))
       (sq (su_info (''  sched_nr_migrate = '' @ shown c))
       (sq (su_info (''  sched_schedstats = '' @ shown d))
       (sq (su_info (newline # ''Running workload with DEFAULT tunables...''))
       (bnd (run_workload E (su_param E ''/tests/baseline/*'' ''workload_type'' (VStr ''mixed''))) (\<lambda>r.
        if w_success r then
          let m = w_metrics r in
          sq (su_info (newline # ''--- VALIDATION: Default Tunable Behavior ---''))
         (sq (su_info (''Context switches: '' @ num_d (metric m ''context_switches'')))
         (sq (su_info (''CPU migrations: '' @ num_d (metric m ''cpu_migrations'')))
         (sq (if 0 < exact (metric m ''context_switches'') then su_info (tick @ '' Context switches detected (scheduler is working)'')
              else fail ''No context switches detected - scheduler may not be functioning correctly'')
         (sq (if 0 < exact (metric m ''cpu_migrations'') then su_info (tick @ '' CPU migrations detected (load balancing is working)'')
              else fail ''No CPU migrations detected - load balancing may not be functioning correctly'')
         (sq (modify (\<lambda>s. s\<lparr>baseline_metrics := Some m\<rparr>))
         (sq (su_info (newline # tick @ '' Default tunables test completed successfully''))
             (su_info (tick @ '' Baseline metrics stored for comparison in other tests''))))))))
        else fail ''Baseline test failed'')))))))))))))"

text \<open>What the two tests that change the slice and the cost do first.\<close>

definition show_current :: "string \<Rightarrow> string \<Rightarrow> ('w, unit) su" where
  "show_current name v =
     bnd (lift (py_int v)) (\<lambda>n. su_info (''  '' @ name @ '': '' @ str_int n @ '' ('' @ in_ms n @ '' ms)''))"

definition default_run :: "'w su_env \<Rightarrow> pyval \<Rightarrow> ('w, workload_result) su" where
  "default_run E workload_type =
     sq (su_info (newline # ''Running workload with DEFAULT tunables...''))
    (bnd (run_workload E workload_type) (\<lambda>r.
     sq (whenb (\<not> w_success r) (fail ''Baseline workload failed''))
        (ret r)))"

definition scaled :: "string \<Rightarrow> rat \<Rightarrow> int result" where
  "scaled v factor = rbind (py_float v) (\<lambda>x. Inr (py_trunc (fl_mul x factor)))"

definition log_change :: "string \<Rightarrow> string \<Rightarrow> int \<Rightarrow> string \<Rightarrow> ('w, unit) su" where
  "log_change name v new unit = bnd (lift (py_int v)) (\<lambda>n. log_tunable_change name n new unit)"

definition within_tolerance :: "rat \<Rightarrow> string" where
  "within_tolerance c = ''  '' @ tick @ '' WITHIN TOLERANCE: Context switch change '' @ fixed 1 c @ ''% is within '' @ plus_minus @
     ''5.0% noise threshold''"

definition judge_latency :: "rat \<Rightarrow> string" where
  "judge_latency c =
     (if 5 < c then ''  '' @ tick @ '' EXPECTED: More context switches with smaller time slices (+'' @ fixed 1 c @ ''%)''
      else if \<bar>c\<bar> \<le> 5 then within_tolerance c
      else ''  '' @ info_sign @ '' NOTE: Fewer context switches observed ('' @ fixed 1 c @ ''%) '' @ long_dash @
        '' normal for CPU-bound workloads with reduced latency_ns; check CPU migrations for tunable effect'')"

definition judge_throughput :: "rat \<Rightarrow> string" where
  "judge_throughput c =
     (if c < - 5 then ''  '' @ tick @ '' EXPECTED: Fewer context switches with larger time slices ('' @ fixed 1 c @ ''%)''
      else if \<bar>c\<bar> \<le> 5 then within_tolerance c
      else ''  '' @ info_sign @ '' NOTE: More context switches observed ('' @ fixed 1 c @ ''%) '' @ long_dash @
        '' may be workload-dominated; check CPU migrations for tunable effect'')"

definition validate_change :: "string \<Rightarrow> (rat \<Rightarrow> string) \<Rightarrow> workload_result \<Rightarrow> workload_result \<Rightarrow> ('w, unit) su" where
  "validate_change title judge base test =
     sq (headline title)
    (bnd (compare_and_log_metrics (w_metrics base) (w_metrics test) ''context_switches'' ''Context Switches'') (\<lambda>c.
     sq (case c of None \<Rightarrow> ret () | Some x \<Rightarrow> su_info (judge (to_float x)))
    (sq (compare_and_log_metrics (w_metrics base) (w_metrics test) ''cpu_migrations'' ''CPU Migrations'')
        (su_info ruler))))"

definition test_02_low_latency :: "'w su_env \<Rightarrow> ('w, unit) su" where
  "test_02_low_latency E =
     sq (headline ''TEST 2: LOW LATENCY Configuration'')
    (bnd (get_tunable E ''base_slice_ns'') (\<lambda>a.
     bnd (get_tunable E ''sched_migration_cost_ns'') (\<lambda>b.
     bnd (get_tunable_display_name E ''base_slice_ns'') (\<lambda>label.
     case (a, b) of
       (Some slice, Some cost) \<Rightarrow>
         if slice = [] \<or> cost = [] then
           cancel ''Required tunables (base_slice_ns/latency_ns and sched_migration_cost_ns) not available on this kernel''
         else
           sq (su_info (newline # ''--- STEP 1: Baseline (Default Tunables) ---''))
          (sq (su_info ''Current tunables:'')
          (sq (show_current label slice)
          (sq (show_current ''migration_cost_ns'' cost)
          (let workload_type = su_param E ''/tests/low_latency/*'' ''workload_type'' (VStr ''cpu'') in
           bnd (lift (vfloat (su_param E ''/tests/low_latency/tunables/*'' ''base_slice_ns_factor'' (VFloat (1 / 4))))) (\<lambda>f.
           bnd (lift (vfloat (su_param E ''/tests/low_latency/tunables/*'' ''migration_cost_ns_factor'' (VFloat (fl (1 / 10)))))) (\<lambda>g.
           bnd (default_run E workload_type) (\<lambda>base.
           sq (su_info (newline # ''--- STEP 2: Low Latency (Modified Tunables) ---''))
          (bnd (lift (scaled slice f)) (\<lambda>x.
           let low_slice = max MIN_BASE_SLICE_NS x in
           bnd (lift (scaled cost g)) (\<lambda>y.
           let low_cost = max MIN_MIGRATION_COST_NS y in
           sq (su_info ''Setting low latency tunables:'')
          (sq (log_change label slice low_slice ''ns'')
          (sq (log_change ''migration_cost_ns'' cost low_cost ''ns'')
          (sq (set_tunable E ''base_slice_ns'' low_slice)
          (sq (set_tunable E ''sched_migration_cost_ns'' low_cost)
          (sq (sleep (VInt 2))
          (sq (su_info (newline # ''Running workload with LOW LATENCY tunables...''))
          (bnd (run_workload E workload_type) (\<lambda>test.
           sq (whenb (w_success test) (validate_change ''VALIDATION: Comparing Baseline vs Low Latency'' judge_latency base test))
              (if w_success test then su_info (newline # tick @ '' Low latency test completed successfully'')
               else fail ''Low latency test failed'')))))))))))))))))))
     | _ \<Rightarrow>
         cancel ''Required tunables (base_slice_ns/latency_ns and sched_migration_cost_ns) not available on this kernel''))))"

definition test_03_high_throughput :: "'w su_env \<Rightarrow> ('w, unit) su" where
  "test_03_high_throughput E =
     sq (headline ''TEST 3: HIGH THROUGHPUT Configuration'')
    (bnd (get_tunable E ''base_slice_ns'') (\<lambda>a.
     bnd (get_tunable E ''sched_migration_cost_ns'') (\<lambda>b.
     bnd (get_tunable_display_name E ''base_slice_ns'') (\<lambda>label.
     case (a, b) of
       (Some slice, Some cost) \<Rightarrow>
         if slice = [] \<or> cost = [] then
           cancel ''Required tunables (base_slice_ns/latency_ns and sched_migration_cost_ns) not available on this kernel''
         else
           sq (su_info (newline # ''--- STEP 1: Baseline (Default Tunables) ---''))
          (sq (su_info ''Current tunables:'')
          (sq (show_current label slice)
          (sq (show_current ''migration_cost_ns'' cost)
          (let workload_type = su_param E ''/tests/high_throughput/*'' ''workload_type'' (VStr ''context-switch'') in
           bnd (lift (vfloat (su_param E ''/tests/high_throughput/tunables/*'' ''base_slice_ns_factor'' (VFloat 3)))) (\<lambda>f.
           bnd (lift (vfloat (su_param E ''/tests/high_throughput/tunables/*'' ''migration_cost_ns_factor'' (VFloat 2)))) (\<lambda>g.
           bnd (default_run E workload_type) (\<lambda>base.
           sq (su_info (newline # ''--- STEP 2: High Throughput (Modified Tunables) ---''))
          (bnd (lift (scaled slice f)) (\<lambda>high_slice.
           bnd (lift (scaled cost g)) (\<lambda>high_cost.
           sq (su_info ''Setting high throughput tunables:'')
          (sq (log_change label slice high_slice ''ns'')
          (sq (log_change ''migration_cost_ns'' cost high_cost ''ns'')
          (sq (set_tunable E ''base_slice_ns'' high_slice)
          (sq (set_tunable E ''sched_migration_cost_ns'' high_cost)
          (sq (sleep (VInt 2))
          (sq (su_info (newline # ''Running workload with HIGH THROUGHPUT tunables...''))
          (bnd (run_workload E workload_type) (\<lambda>test.
           sq (whenb (w_success test) (validate_change ''VALIDATION: Comparing Baseline vs High Throughput'' judge_throughput base test))
              (if w_success test then su_info (tick @ '' High throughput test completed successfully'')
               else fail ''High throughput test failed'')))))))))))))))))))
     | _ \<Rightarrow>
         cancel ''Required tunables (base_slice_ns/latency_ns and sched_migration_cost_ns) not available on this kernel''))))"

definition test_04_migration_behavior :: "'w su_env \<Rightarrow> ('w, unit) su" where
  "test_04_migration_behavior E =
     sq (headline ''TEST 4: MIGRATION BEHAVIOR Test'')
    (bnd (get_tunable E ''sched_nr_migrate'') (\<lambda>a.
     case a of
       None \<Rightarrow> cancel ''sched_nr_migrate tunable not available''
     | Some nr \<Rightarrow>
         if nr = [] then cancel ''sched_nr_migrate tunable not available''
         else
           let workload_type = su_param E ''/tests/migration_behavior/*'' ''workload_type'' (VStr ''fork'') in
           bnd (lift (vfloat (su_param E ''/tests/migration_behavior/tunables/*'' ''nr_migrate_factor'' (VFloat 2)))) (\<lambda>f.
           sq (su_info (newline # ''--- STEP 1: Baseline (Default Tunables) ---''))
          (sq (su_info (''  sched_nr_migrate = '' @ nr))
          (bnd (default_run E workload_type) (\<lambda>base.
           sq (su_info (newline # ''--- STEP 2: Aggressive Migration (Modified Tunable) ---''))
          (bnd (lift (scaled nr f)) (\<lambda>x.
           let aggressive = min 128 x in
           sq (su_info ''Setting aggressive migration:'')
          (sq (log_change ''sched_nr_migrate'' nr aggressive ''tasks'')
          (sq (su_info ''  Higher value = more tasks migrated at once = better load balancing'')
          (sq (set_tunable E ''sched_nr_migrate'' aggressive)
          (sq (sleep (VInt 2))
          (sq (su_info (newline # ''Running migration test workload...''))
          (bnd (run_workload E workload_type) (\<lambda>r.
           if w_success r then
             sq (su_info (newline # ''--- VALIDATION: Tunable Impact ---''))
            (sq (compare_and_log_metrics (w_metrics base) (w_metrics r) ''cpu_migrations'' ''CPU Migrations'')
            (sq (su_info ''sched_nr_migrate controls how many tasks are migrated per load balancing operation'')
            (sq (su_info ''Higher value can improve load distribution but may increase overhead'')
                (su_info (tick @ '' Migration behavior test completed successfully'')))))
           else fail ''Migration behavior test failed'')))))))))))))))"

definition su_tearDown :: "'w su_env \<Rightarrow> ('w, unit) su" where
  "su_tearDown E = sq (restore_tunables E) (headline ''TEST SUITE COMPLETED'')"

end
