(* ===== verification/Sched_Props.thy ===== *)
theory Sched_Props
  imports Sched_Tunables Views
begin

section \<open>What the tests of scheduler tunables do\<close>

subsection \<open>The files\<close>

text \<open>
  The view of the system is its files. Whether a file exists and what it holds is read as it is, an existing
  file is written, and workloads leave the files as they are, however they end.
\<close>

type_synonym files = "string \<Rightarrow> string option"

definition file_system :: "'w su_env \<Rightarrow> ('w \<Rightarrow> files) \<Rightarrow> bool" where
  "file_system E V \<longleftrightarrow>
     (\<forall>p. tells V (\<lambda>fs. fs p \<noteq> None) (su_exists E p)) \<and>
     (\<forall>p w. V (snd (su_read E p w)) = V w \<and> (\<forall>t. V w p = Some t \<longrightarrow> fst (su_read E p w) = Inr t)) \<and>
     (\<forall>p v w. V w p \<noteq> None \<longrightarrow> fst (su_write E p v w) = Inr () \<and> V (snd (su_write E p v w)) = (V w)(p \<mapsto> v)) \<and>
     (\<forall>c w. V (snd (su_run E c w)) = V w)"

text \<open>The file that holds a tunable, and the files that hold any.\<close>

definition tunable_file :: "files \<Rightarrow> string \<Rightarrow> string option" where
  "tunable_file fs name = find (\<lambda>p. fs p \<noteq> None) (tunable_paths name)"

definition tunable_files :: "files \<Rightarrow> string set" where
  "tunable_files fs = {p. \<exists>name \<in> set tunables. tunable_file fs name = Some p}"

lemma tunable_file_exists: "tunable_file fs name = Some p \<Longrightarrow> fs p \<noteq> None"
  by (auto simp: tunable_file_def find_Some_iff)

lemma tunable_file_dom: "dom fs = dom fs' \<Longrightarrow> tunable_file fs name = tunable_file fs' name"
proof -
  assume "dom fs = dom fs'"
  then have "(\<lambda>p. fs p \<noteq> None) = (\<lambda>p. fs' p \<noteq> None)" by (auto simp: dom_def set_eq_iff)
  then show ?thesis by (simp add: tunable_file_def)
qed

lemma tunable_files_dom: "dom fs = dom fs' \<Longrightarrow> tunable_files fs = tunable_files fs'"
  using tunable_file_dom[of fs fs'] by (simp add: tunable_files_def)

lemma wp_in_view_exists:
  assumes "file_system E V" "in_view V s fs t" "\<And>u. in_view V s fs u \<Longrightarrow> Q (tunable_file fs name) u"
  shows "wp (get_tunable_path E name) Q R t"
proof -
  have ex: "tells V (\<lambda>fs. fs p \<noteq> None) (su_exists E p)" for p using assms(1) by (simp add: file_system_def)
  have "wp (for_ret ps (\<lambda>path. bnd (call ''exists'' [path] (su_exists E path)) (\<lambda>b. ret (if b then Some path else None)))) Q R t"
    if "in_view V s fs t" "\<And>u. in_view V s fs u \<Longrightarrow> Q (find (\<lambda>p. fs p \<noteq> None) ps) u" for ps t
    using that
  proof (induction ps arbitrary: t)
    case Nil
    then show ?case by (simp add: wp_ret)
  next
    case (Cons p ps)
    show ?case unfolding for_ret.simps wp_bnd wp_ret
      by (rule wp_tells[OF ex Cons.prems(1)]) (use Cons in \<open>auto simp: wp_ret\<close>)
  qed
  then show ?thesis using assms(2,3) unfolding get_tunable_path_def tunable_file_def by blast
qed

subsection \<open>What the tests leave alone\<close>

text \<open>Which files exist, what those hold that hold no tunable, and the saved values.\<close>

definition others :: "files \<Rightarrow> string set \<times> files" where
  "others fs = (dom fs, fs |` (- tunable_files fs))"

definition su_frame :: "('w \<Rightarrow> files) \<Rightarrow> 'w su_st \<Rightarrow> (string \<times> string) list option \<times> string set \<times> files" where
  "su_frame V s = (original_tunables s, others (V (world s)))"

lemma others_write:
  assumes "p \<in> tunable_files fs"
  shows "others (fs(p \<mapsto> v)) = others fs"
proof -
  have "p \<in> dom fs" using assms tunable_file_exists by (auto simp: tunable_files_def)
  then have d: "dom (fs(p \<mapsto> v)) = dom fs" by auto
  then have "tunable_files (fs(p \<mapsto> v)) = tunable_files fs" by (rule tunable_files_dom)
  with d assms show ?thesis by (auto simp: others_def restrict_map_def)
qed

lemma keeps_frame_call:
  assumes "\<And>w. V (snd (x w)) = V w"
  shows "keeps (su_frame V) (call f as x)"
  unfolding keeps_def
proof
  fix s
  show "su_frame V (snd (call f as x s)) = su_frame V s"
    using assms[of "world s"] by (cases "x (world s)") (simp add: call_def su_frame_def)
qed

lemma keeps_frame_events:
  "keeps (su_frame V) (log l m)" "keeps (su_frame V) (sleep v)" "keeps (su_frame V) (su_info m)"
  by (simp_all add: keeps_def su_frame_def su_info_def log_def sleep_def emit_def py_defs split: option.split)

lemma keeps_frame_path:
  assumes "file_system E V"
  shows "keeps (su_frame V) (get_tunable_path E name)"
proof -
  have "V (snd (su_exists E p w)) = V w" for p w
    using assms unfolding file_system_def acts_def by (metis snd_conv)
  then show ?thesis unfolding get_tunable_path_def by (intro keeps keeps_frame_call)
qed

lemma keeps_frame_set:
  assumes "file_system E V" "name \<in> set tunables"
  shows "keeps (su_frame V) (set_tunable E name v)"
proof -
  have "wp (set_tunable E name v) (\<lambda>_ t. su_frame V t = su_frame V s) (\<lambda>_ t. su_frame V t = su_frame V s) s" for s
    unfolding set_tunable_def wp_bnd
  proof (rule wp_in_view_exists[OF assms(1) in_view_start])
    fix u assume u: "in_view V s (V (world s)) u"
    then have fu: "su_frame V u = su_frame V s" by (auto simp: in_view_def su_frame_def)
    show "wp (case tunable_file (V (world s)) name of None \<Rightarrow> fail (''Tunable '' @ name @ '' not found'')
     | Some path \<Rightarrow> try_except (sq (call ''write_file'' [path, str_int v] (su_write E path (str_int v)))
               (su_info (''Set '' @ name @ '' = '' @ str_int v)))
           (\<lambda>e. fail (''Failed to set '' @ name @ '': '' @ su_err_text E e)))
      (\<lambda>_ t. su_frame V t = su_frame V s) (\<lambda>_ t. su_frame V t = su_frame V s) u"
    proof (cases "tunable_file (V (world s)) name")
      case None
      then show ?thesis using fu by (simp add: wp)
    next
      case (Some p)
      have vu: "V (world u) = V (world s)" using u by (rule in_view_view)
      then have p: "p \<in> tunable_files (V (world u))" "V (world u) p \<noteq> None"
        using Some assms(2) tunable_file_exists by (auto simp: tunable_files_def)
      obtain w where w: "su_write E p (str_int v) (world u) = (Inr (), w)" "V w = (V (world u))(p \<mapsto> str_int v)"
        using assms(1) p(2) unfolding file_system_def by (metis prod.collapse)
      have "others (V w) = others (V (world u))" using others_write[OF p(1)] w(2) by simp
      then show ?thesis using Some w(1) fu by (simp add: wp su_info_def su_frame_def)
    qed
  qed
  then show ?thesis unfolding keeps_def wp_def by (metis (mono_tags, lifting) case_prod_beta' old.sum.exhaust old.sum.simps(5) old.sum.simps(6))
qed

lemma keeps_frame_get:
  assumes "file_system E V"
  shows "keeps (su_frame V) (read_tunable E p)" "keeps (su_frame V) (get_tunable E name)"
    "keeps (su_frame V) (get_tunable_display_name E name)"
proof -
  have "V (snd (su_read E p w)) = V w" for p w using assms by (simp add: file_system_def)
  then show r: "keeps (su_frame V) (read_tunable E p)" for p
    unfolding read_tunable_def by (intro keeps keeps_frame_call)
  show "keeps (su_frame V) (get_tunable E name)" "keeps (su_frame V) (get_tunable_display_name E name)"
    unfolding get_tunable_def get_tunable_display_name_def
    by (intro keeps keeps_frame_path[OF assms] r keeps_frame_events)+
qed

lemma keeps_frame_texts:
  "keeps (su_frame V) (headline m)" "keeps (su_frame V) (log_metrics ms)" "keeps (su_frame V) (log_averages k ms ds)"
  "keeps (su_frame V) (compare_and_log_metrics ms ds key d)" "keeps (su_frame V) (show_current name v)"
  "keeps (su_frame V) (log_change name v n u)"
proof -
  show h: "keeps (su_frame V) (headline m)" for m
    unfolding headline_def by (intro keeps keeps_frame_events)
  show "keeps (su_frame V) (log_metrics ms)" "keeps (su_frame V) (log_averages k ms ds)"
    unfolding log_metrics_def log_averages_def Let_def by (intro keeps keeps_frame_events h)+
  show "keeps (su_frame V) (compare_and_log_metrics ms ds key d)" "keeps (su_frame V) (show_current name v)"
    "keeps (su_frame V) (log_change name v n u)"
    unfolding compare_and_log_metrics_def show_current_def log_change_def log_tunable_change_def Let_def
    by (intro keeps keeps_frame_events)+
qed

lemma keeps_frame_workload:
  assumes "file_system E V"
  shows "keeps (su_frame V) (run_workload E wt)" "keeps (su_frame V) (default_run E wt)"
proof -
  have run: "V (snd (su_run E c w)) = V w" for c w using assms by (simp add: file_system_def)
  have single: "keeps (su_frame V) (run_workload_single E d wt)" for d
    unfolding run_workload_single_def Let_def case_prod_beta
    by (intro keeps keeps_frame_events keeps_frame_texts keeps_frame_call run)
  show w: "keeps (su_frame V) (run_workload E wt)"
    unfolding run_workload_def by (intro keeps keeps_frame_events keeps_frame_texts single)
  show "keeps (su_frame V) (default_run E wt)"
    unfolding default_run_def by (intro keeps keeps_frame_events w)
qed

lemma keeps_frame_validate: "keeps (su_frame V) (validate_change title judge base test)"
  unfolding validate_change_def by (intro keeps keeps_frame_events keeps_frame_texts)

definition tests :: "'w su_env \<Rightarrow> ('w, unit) su list" where
  "tests E = [test_01_baseline E, test_02_low_latency E, test_03_high_throughput E, test_04_migration_behavior E]"

lemma keeps_frame_tests:
  assumes "file_system E V" "m \<in> set (tests E)"
  shows "keeps (su_frame V) m"
proof -
  note steps = keeps_frame_events keeps_frame_texts keeps_frame_workload[OF assms(1)] keeps_frame_validate
    keeps_frame_get[OF assms(1)] keeps_frame_set[OF assms(1)]
  have set: "keeps (su_frame V) (set_tunable E ''base_slice_ns'' v)" "keeps (su_frame V) (set_tunable E ''sched_migration_cost_ns'' v)"
    "keeps (su_frame V) (set_tunable E ''sched_nr_migrate'' v)" for v
    by (rule keeps_frame_set[OF assms(1)], simp add: tunables_def)+
  have "keeps (su_frame V) (test_01_baseline E)"
    unfolding test_01_baseline_def Let_def by (intro keeps steps) (simp add: su_frame_def)
  moreover have "keeps (su_frame V) (test_02_low_latency E)" "keeps (su_frame V) (test_03_high_throughput E)"
    unfolding test_02_low_latency_def test_03_high_throughput_def Let_def prod.case by (intro keeps steps set)+
  moreover have "keeps (su_frame V) (test_04_migration_behavior E)"
    unfolding test_04_migration_behavior_def Let_def by (intro keeps steps set)
  ultimately show ?thesis using assms(2) by (auto simp: tests_def)
qed

subsection \<open>What set-up saves and tearDown writes back\<close>

definition save_one :: "files \<Rightarrow> (string \<times> string) list \<Rightarrow> string \<Rightarrow> (string \<times> string) list" where
  "save_one fs d name = (case tunable_file fs name of None \<Rightarrow> d | Some p \<Rightarrow> AList.update p (strip (the (fs p))) d)"

definition saved_of :: "files \<Rightarrow> string list \<Rightarrow> (string \<times> string) list" where
  "saved_of fs names = foldl (save_one fs) [] names"

lemma saved_of_snoc: "saved_of fs (names @ [name]) = save_one fs (saved_of fs names) name"
  by (simp add: saved_of_def)

lemma distinct_saved: "distinct (map fst (saved_of fs names))"
  by (induction names rule: rev_induct)
    (auto simp: saved_of_snoc save_one_def distinct_update saved_of_def[of fs "[]"] split: option.split)

lemma map_of_saved:
  "map_of (saved_of fs names) p =
     (if \<exists>name \<in> set names. tunable_file fs name = Some p then Some (strip (the (fs p))) else None)"
  by (induction names rule: rev_induct)
    (auto simp: saved_of_snoc save_one_def update_conv' saved_of_def[of fs "[]"] split: option.split)

definition has_saved :: "('w \<Rightarrow> files) \<Rightarrow> files \<Rightarrow> string list \<Rightarrow> 'w su_st \<Rightarrow> bool" where
  "has_saved V fs names s \<longleftrightarrow> V (world s) = fs \<and> original_tunables s = Some (saved_of fs names)"

lemma wp_save_tunable:
  assumes "file_system E V" "has_saved V fs names s"
  shows "wp (save_tunable E name) (\<lambda>_. has_saved V fs (names @ [name])) R s"
  unfolding save_tunable_def wp_bnd
proof (rule wp_in_view_exists[OF assms(1) in_view_start])
  fix u assume u: "in_view V s (V (world s)) u"
  let ?fs = "V (world s)"
  have vu: "V (world u) = ?fs" "original_tunables u = original_tunables s"
    using u in_view_view by (auto simp: in_view_def)
  show "wp (case tunable_file ?fs name of None \<Rightarrow> su_info (''  - '' @ name @ '' NOT FOUND (not supported on this kernel, skipping)'')
     | Some path \<Rightarrow> try_except (bnd (read_tunable E path) (\<lambda>v.
            sq (modify (\<lambda>s. s\<lparr>original_tunables := map_option (AList.update path v) (original_tunables s)\<rparr>))
               (case fallback_name path of
                  Some alias \<Rightarrow> su_info (''  '' @ tick @ '' '' @ name @ '' (using '' @ alias @ '' on this kernel) = '' @ v)
                | None \<Rightarrow> su_info (''  '' @ tick @ '' '' @ name @ '' = '' @ v))))
           (\<lambda>e. log Warning (''  '' @ warning_sign @ '' Failed to read '' @ name @ '': '' @ su_err_text E e)))
        (\<lambda>_. has_saved V fs (names @ [name])) R u"
  proof (cases "tunable_file ?fs name")
    case None
    then show ?thesis using assms(2) vu by (simp add: wp su_info_def has_saved_def saved_of_snoc save_one_def)
  next
    case (Some p)
    then obtain t where t: "V (world u) p = Some t" using tunable_file_exists vu by force
    then obtain w where w: "su_read E p (world u) = (Inr t, w)" "V w = V (world u)"
      using assms(1) unfolding file_system_def by (metis prod.collapse)
    have "wp (case fallback_name p of Some alias \<Rightarrow> su_info (m alias) | None \<Rightarrow> su_info n) (\<lambda>_. has_saved V fs ns) R' v"
      if "has_saved V fs ns v" for m n ns R' v
      using that by (auto simp: wp su_info_def has_saved_def split: option.split)
    then show ?thesis
      using Some w vu assms(2) t
      by (simp add: wp read_tunable_def has_saved_def saved_of_snoc save_one_def)
  qed
qed

lemma wp_check_and_save:
  assumes "file_system E V" "original_tunables s = Some []"
  shows "wp (check_and_save_tunables E) (\<lambda>_. has_saved V (V (world s)) tunables) (\<lambda>_ _. False) s"
proof -
  let ?fs = "V (world s)"
  have loop: "wp (for_each tunables (save_tunable E)) (\<lambda>_. has_saved V ?fs tunables) (\<lambda>_ _. False) u"
    if "has_saved V ?fs [] u" for u
    by (rule wp_for_each[where I = "has_saved V ?fs", OF that]) (rule wp_save_tunable[OF assms(1)])
  show ?thesis
    unfolding check_and_save_tunables_def wp_sq su_info_def wp_log
    by (rule wp_conseq[OF loop]) (use assms(2) in \<open>auto simp: has_saved_def saved_of_def\<close>)
qed

lemma setUp_saves:
  assumes "file_system E V" "su_setUp E s = (Inr (), t)"
  shows "has_saved V (V (world t)) tunables t"
proof -
  let ?O = "\<lambda>_ (t :: 'a su_st). original_tunables t = Some []"
  have quiet: "wp m ?O any_end u" if "keeps original_tunables m" "original_tunables u = Some []" for m :: "('a, 'b) su" and u
    using that by (auto intro: wp_keeps)
  have k: "keeps original_tunables (mount_debugfs E)" "keeps original_tunables (headline m)" "keeps original_tunables (su_info m)" for m
    unfolding mount_debugfs_def headline_def su_info_def Let_def by (intro keeps; simp)+
  have saves: "wp (check_and_save_tunables E) (\<lambda>_ t. has_saved V (V (world t)) tunables t) any_end u" if "original_tunables u = Some []" for u
    by (rule wp_conseq[OF wp_check_and_save[OF assms(1) that]]) (auto simp: has_saved_def)
  have "wp (su_setUp E) (\<lambda>_ t. has_saved V (V (world t)) tunables t) any_end s"
    unfolding su_setUp_def
    by (rule wp_sq_step[OF wp_True], rule wp_bnd_step[OF wp_True], (rule wp_sq_step[OF wp_True])+, rule wp_bnd_step[OF wp_True],
        rule wp_sq_step[OF wp_True], rule wp_bnd_step[OF wp_True], rule wp_sq_step[where P = ?O and R' = any_end], simp add: wp,
        rule wp_sq_step[OF quiet[OF k(1)]], assumption, rule wp_sq_step[OF quiet[OF k(2)]], assumption,
        (rule wp_sq_step[OF quiet[OF k(3)]], assumption)+, rule saves) simp_all
  from wp_okD[OF this assms(2)] show ?thesis .
qed

lemma tearDown_writes:
  assumes "file_system E V" "original_tunables s = Some saved" "distinct (map fst saved)" "fst ` set saved \<subseteq> dom (V (world s))"
  shows "\<exists>t. su_tearDown E s = (Inr (), t) \<and> V (world t) = V (world s) ++ map_of saved"
proof -
  let ?fs = "V (world s)"
  have "wp (for_each saved (\<lambda>(path, v). try_except
         (sq (call ''write_file'' [path, v] (su_write E path v)) (su_info (''  Restored '' @ path @ '' = '' @ v)))
         (\<lambda>e. log Warning (''  Failed to restore '' @ path @ '': '' @ su_err_text E e))))
       (\<lambda>_ u. V (world u) = ?fs ++ map_of saved) (\<lambda>_ _. False) (s\<lparr>trace := tr\<rparr>)" for tr
  proof (rule wp_for_each[where I = "\<lambda>ys u. V (world u) = ?fs ++ map_of ys"])
    fix ys x and u :: "'a su_st"
    assume u: "V (world u) = ?fs ++ map_of ys" and x: "\<exists>zs. saved = ys @ x # zs"
    obtain p v where pv: "x = (p, v)" by (cases x)
    have "p \<in> dom ?fs" using x pv assms(4) by auto
    moreover have "p \<notin> fst ` set ys" using x pv assms(3) by force
    ultimately have "p \<in> dom ?fs" "p \<notin> fst ` set ys" by simp_all
    then have "V (world u) p \<noteq> None" using u by (auto simp: map_add_dom_app_simps)
    then obtain w where w: "su_write E p v (world u) = (Inr (), w)" "V w = (V (world u))(p \<mapsto> v)"
      using assms(1) unfolding file_system_def by (metis prod.collapse)
    have "(?fs ++ map_of ys)(p \<mapsto> v) = ?fs ++ map_of (ys @ [x])"
      using map_of_eq_None_iff[of ys p] \<open>p \<notin> fst ` set ys\<close> pv
      by (auto simp: map_add_def fun_eq_iff simp del: map_of_eq_None_iff split: option.split)
    then show "wp (case x of (path, v) \<Rightarrow> try_except
         (sq (call ''write_file'' [path, v] (su_write E path v)) (su_info (''  Restored '' @ path @ '' = '' @ v)))
         (\<lambda>e. log Warning (''  Failed to restore '' @ path @ '': '' @ su_err_text E e)))
       (\<lambda>_ u. V (world u) = ?fs ++ map_of (ys @ [x])) (\<lambda>_ _. False) u"
      using pv w u by (simp add: wp su_info_def)
  qed simp
  note loop = this[unfolded su_info_def]
  have "wp (restore_tunables E) (\<lambda>_ u. V (world u) = ?fs ++ map_of saved) (\<lambda>_ _. False) s"
    unfolding restore_tunables_def su_info_def wp_sq wp_log wp_bnd wp_gets wp_lift using loop assms(2) by simp
  then have "wp (su_tearDown E) (\<lambda>_ u. V (world u) = ?fs ++ map_of saved) (\<lambda>_ _. False) s"
    unfolding su_tearDown_def by (rule wp_sq_step) (simp_all add: wp headline_def su_info_def)
  then show ?thesis by (simp add: wp_not_exn_iff)
qed

text \<open>
  C19. Whichever test runs after the set-up, and however it ends, the tearDown leaves every file that holds a
  tunable with its value from the end of the set-up, without blanks around it, and every other file as it was.
\<close>

theorem tunables_are_restored:
  assumes "file_system E V" "su_setUp E s = (Inr (), t)" "m \<in> set (tests E)" "m t = (r, u)"
  shows "\<exists>v. su_tearDown E u = (Inr (), v) \<and>
    V (world v) = (\<lambda>p. if p \<in> tunable_files (V (world t)) then map_option strip (V (world t) p) else V (world t) p)"
proof -
  let ?fs = "V (world t)"
  have o: "original_tunables t = Some (saved_of ?fs tunables)" using setUp_saves[OF assms(1,2)] by (simp add: has_saved_def)
  have same: "su_frame V u = su_frame V t" using keeps_frame_tests[OF assms(1,3)] assms(4) unfolding keeps_def by (metis snd_conv)
  then have u: "original_tunables u = Some (saved_of ?fs tunables)" "dom (V (world u)) = dom ?fs"
    "V (world u) |` (- tunable_files ?fs) = ?fs |` (- tunable_files ?fs)"
    using o tunable_files_dom[of "V (world u)" ?fs] by (auto simp: su_frame_def others_def)
  have saved: "map_of (saved_of ?fs tunables) p = (if p \<in> tunable_files ?fs then map_option strip (?fs p) else None)" for p
    using tunable_file_exists[of ?fs] by (fastforce simp: map_of_saved tunable_files_def)
  have "fst ` set (saved_of ?fs tunables) \<subseteq> dom (V (world u))"
  proof
    fix p assume "p \<in> fst ` set (saved_of ?fs tunables)"
    then have "map_of (saved_of ?fs tunables) p \<noteq> None" by (simp add: map_of_eq_None_iff)
    then show "p \<in> dom (V (world u))" using u(2) by (auto simp: saved split: if_splits)
  qed
  from tearDown_writes[OF assms(1) u(1) distinct_saved this] obtain v
    where v: "su_tearDown E u = (Inr (), v)" "V (world v) = V (world u) ++ map_of (saved_of ?fs tunables)" by blast
  have "V (world u) p = ?fs p" if "p \<notin> tunable_files ?fs" for p
    using fun_cong[OF u(3), of p] that by (simp add: restrict_map_def)
  moreover have "?fs p = None \<Longrightarrow> p \<notin> tunable_files ?fs" for p
    by (auto simp: tunable_files_def dest: tunable_file_exists)
  ultimately have "V (world v) = (\<lambda>p. if p \<in> tunable_files ?fs then map_option strip (?fs p) else ?fs p)"
    unfolding v(2) by (auto simp: fun_eq_iff map_add_def saved split: option.split)
  with v(1) show ?thesis by blast
qed

text \<open>A system with two of the tunables.\<close>

definition slice_file :: string where "slice_file = ''/sys/kernel/debug/sched/base_slice_ns''"
definition cost_file :: string where "cost_file = ''/proc/sys/kernel/sched_migration_cost_ns''"

definition two_files :: files where
  "two_files = Map.empty(slice_file \<mapsto> ''3000000'' @ [newline], cost_file \<mapsto> ''500000'' @ [newline])"

definition perf_report :: string where
  "perf_report = join [newline]
     [''     1,204      context-switches                 #   10.114 /sec'',
      ''        37      cpu-migrations                   #    0.311 /sec'',
      ''4,801,994,573      instructions                     #    0.50  insn per cycle'', []]"

definition small_system :: "files su_env" where
  "small_system = \<lparr>su_params = (\<lambda>_ _. None), su_check = (\<lambda>_ w. (Inr True, w)), su_install = (\<lambda>_ w. (Inr True, w)),
     su_online_count = (\<lambda>w. (Inr 4, w)), su_ismount = (\<lambda>_ w. (Inr True, w)), su_exists = (\<lambda>p w. (Inr (w p \<noteq> None), w)),
     su_read = (\<lambda>p w. (case w p of Some t \<Rightarrow> Inr t | None \<Rightarrow> Inl IOError, w)),
     su_write = (\<lambda>p v w. (if w p = None then (Inl IOError, w) else (Inr (), w(p \<mapsto> v)))),
     su_run = (\<lambda>_ w. (Inr \<lparr>exit_status = 0, stdout_text = [], stderr_text = perf_report\<rparr>, w)),
     su_sudo = (\<lambda>_ w. (Inr \<lparr>exit_status = 0, stdout_text = [], stderr_text = []\<rparr>, w)),
     su_pow = (\<lambda>x y. if y = 2 then fl_mul x x else x), su_err_text = (\<lambda>_. [])\<rparr>"

definition fresh :: "'w \<Rightarrow> 'w su_st" where
  "fresh w = \<lparr>world = w, trace = [], total_cpus = 0, test_duration = 0, stress_workers = 0, original_tunables = None,
     baseline_metrics = None\<rparr>"

lemma small_system_files: "file_system small_system (\<lambda>w. w)"
  by (auto simp: file_system_def acts_def small_system_def)

lemma small_setUp:
  obtains t where "su_setUp small_system (fresh two_files) = (Inr (), t)" "world t = two_files"
proof -
  have "wp (check_and_save_tunables small_system) (\<lambda>_ t. world t = two_files) (\<lambda>_ _. False) u"
    if "world u = two_files" "original_tunables u = Some []" for u
    by (rule wp_conseq[OF wp_check_and_save[OF small_system_files that(2)]]) (use that(1) in \<open>auto simp: has_saved_def\<close>)
  then have "wp (su_setUp small_system) (\<lambda>_ t. world t = two_files) (\<lambda>_ _. False) (fresh two_files)"
    unfolding su_setUp_def by (simp add: wp small_system_def su_param_def worker_count_def mount_debugfs_def headline_def su_info_def fresh_def)
  then show thesis using that by (auto simp: wp_not_exn_iff)
qed

theorem tunables_are_restored_witness:
  "\<exists>t u v r. su_setUp small_system (fresh two_files) = (Inr (), t) \<and> test_02_low_latency small_system t = (r, u) \<and>
     su_tearDown small_system u = (Inr (), v) \<and> world v slice_file = Some ''3000000''"
proof -
  obtain t where t: "su_setUp small_system (fresh two_files) = (Inr (), t)" "world t = two_files" by (rule small_setUp)
  obtain r u where u: "test_02_low_latency small_system t = (r, u)" by (cases "test_02_low_latency small_system t")
  have "test_02_low_latency small_system \<in> set (tests small_system)" by (simp add: tests_def)
  from tunables_are_restored[where V = "\<lambda>w. w", OF small_system_files t(1) this u] obtain v where
    v: "su_tearDown small_system u = (Inr (), v)"
      "world v = (\<lambda>p. if p \<in> tunable_files two_files then map_option strip (two_files p) else two_files p)"
    unfolding t(2) by blast
  have "tunable_file two_files ''base_slice_ns'' = Some slice_file"
    by (simp add: tunable_file_def tunable_paths_def slice_file_def two_files_def)
  then have "slice_file \<in> tunable_files two_files" by (auto simp: tunable_files_def tunables_def)
  moreover have "strip (''3000000'' @ [newline]) = ''3000000''" by code_simp
  moreover have "slice_file \<noteq> cost_file" by (simp add: slice_file_def cost_file_def)
  ultimately have "world v slice_file = Some ''3000000''" using v(2) by (simp add: two_files_def)
  with t(1) u v(1) show ?thesis by blast
qed

subsection \<open>The instructions per cycle\<close>

lemma map_of_update_other: "k \<noteq> k' \<Longrightarrow> map_of (AList.update k v m) k' = map_of m k'"
  by (simp add: update_conv')

text \<open>
  How \<^verbatim>\<open>perf stat\<close> prints the counter of instructions: the count, the name of the event, and then nothing or a
  comment \<^verbatim>\<open># 0.50 insn per cycle\<close>, possibly with the share of the time it was counted.
\<close>

definition number_word :: "string \<Rightarrow> bool" where
  "number_word w \<longleftrightarrow> list_all (\<lambda>c. c \<in> set ''0123456789.()%'') w"

fun ipc_comment :: "string list \<Rightarrow> bool" where
  "ipc_comment [] \<longleftrightarrow> True"
| "ipc_comment (h # rate # insn # per # cycle # share) \<longleftrightarrow>
     h = ''#'' \<and> number_word rate \<and> insn = ''insn'' \<and> per = ''per'' \<and> cycle = ''cycle'' \<and> list_all number_word share"
| "ipc_comment _ \<longleftrightarrow> False"

definition perf_line :: "string \<Rightarrow> bool" where
  "perf_line line \<longleftrightarrow> \<not> contains ''instructions'' (strip line) \<or>
     (case split_ws (strip line) of count # event # comment \<Rightarrow> ipc_comment comment | _ \<Rightarrow> False)"

lemma words_before_none:
  assumes "list_all (\<lambda>w. \<not> contains mark w) (drop (Suc k) parts)"
  shows "words_before mark k parts = []"
proof -
  have "\<not> contains mark (parts ! i)" if "k < i" "i < length parts" for i
  proof -
    have "drop (Suc k) parts ! (i - Suc k) = parts ! i" "i - Suc k < length (drop (Suc k) parts)" using that by auto
    then show ?thesis using assms by (metis list_all_length)
  qed
  then show ?thesis by (auto simp: words_before_def filter_empty_conv)
qed

lemma number_word_plain:
  assumes "number_word w"
  shows "\<not> contains ''instructions'' w"
proof
  assume "contains ''instructions'' w"
  then have "CHR ''i'' \<in> set w"
    by (metis contains_iff_sublist list.set_intros(1) set_mono_sublist subsetD)
  moreover have "CHR ''i'' \<notin> set ''0123456789.()%''" by simp
  ultimately show False using assms unfolding number_word_def list_all_iff by blast
qed

lemma ipc_comment_plain: "ipc_comment ws \<Longrightarrow> list_all (\<lambda>w. \<not> contains ''instructions'' w) ws"
proof (induction ws rule: ipc_comment.induct)
  case (2 h rate insn per cycle share)
  have "\<not> contains ''instructions'' ''#''" "\<not> contains ''instructions'' ''insn''" "\<not> contains ''instructions'' ''per''"
    "\<not> contains ''instructions'' ''cycle''" by code_simp+
  with 2 show ?case by (auto simp: number_word_plain elim!: list.pred_mono_strong)
qed simp_all

lemma parse_perf_line_ipc:
  assumes "parse_perf_line m line = Inr m'" "perf_line line"
  shows "map_of m' ''insn_per_cycle'' = map_of m ''insn_per_cycle''"
proof -
  have none: "words_before ''instructions'' 1 (split_ws (strip line)) = []" if "contains ''instructions'' (strip line)"
    by (rule words_before_none)
       (use assms(2) that in \<open>auto simp: perf_line_def ipc_comment_plain split: list.splits\<close>)
  show ?thesis
    using assms(1) none
    by (auto simp: parse_perf_line_def Let_def rbind_def set_count_def set_rates_def set_last_def
        parse_branches_def map_of_update_other split: if_splits sum.splits)
qed

text \<open>
  C20. The number of instructions per cycle that \<^verbatim>\<open>perf\<close> reports is never read: the parser looks for the rate in
  front of a third or later word that names the counter, but \<^verbatim>\<open>perf\<close> names it in the second and calls the rate
  \<^verbatim>\<open>insn per cycle\<close>. In every report whose lines are printed this way (\<open>perf_line\<close>) the metric stays 0, whatever
  the rate in it.
\<close>

theorem ipc_is_never_read:
  assumes "parse_perf_output out = Inr m" "list_all perf_line (split_on newline out)"
  shows "metric m ''insn_per_cycle'' = NFloat 0"
proof -
  have err: "foldl (\<lambda>r l. rbind r (\<lambda>m. parse_perf_line m l)) (Inl e) ls = Inl e" for e ls
    by (induction ls) simp_all
  have "map_of m' ''insn_per_cycle'' = map_of m0 ''insn_per_cycle''"
    if "foldl (\<lambda>r l. rbind r (\<lambda>m. parse_perf_line m l)) (Inr m0) ls = Inr m'" "list_all perf_line ls" for m0 m' ls
    using that
  proof (induction ls arbitrary: m0)
    case (Cons l ls)
    obtain m1 where m1: "parse_perf_line m0 l = Inr m1"
      using Cons.prems(1) err by (cases "parse_perf_line m0 l") auto
    with Cons parse_perf_line_ipc[OF m1] show ?case by simp
  qed simp
  from this[OF assms(1)[unfolded parse_perf_output_def] assms(2)] show ?thesis
    by (simp add: metric_def no_metrics_def)
qed

theorem ipc_is_never_read_witness:
  "\<exists>m. parse_perf_output perf_report = Inr m \<and> metric m ''instructions'' = NInt 4801994573 \<and>
     metric m ''insn_per_cycle'' = NFloat 0"
proof -
  have "case parse_perf_output perf_report of Inr m \<Rightarrow> metric m ''instructions'' = NInt 4801994573 | Inl _ \<Rightarrow> False"
    by code_simp
  then obtain m where m: "parse_perf_output perf_report = Inr m" "metric m ''instructions'' = NInt 4801994573"
    by (auto split: sum.splits)
  have "list_all perf_line (split_on newline perf_report)" by code_simp
  from ipc_is_never_read[OF m(1) this] m show ?thesis by blast
qed

subsection \<open>Averages\<close>

lemma nsum_ints: "nsum (map NInt xs) = NInt (sum_list xs)"
proof -
  have "foldl nadd (NInt a) (map NInt xs) = NInt (a + sum_list xs)" for a
    by (induction xs arbitrary: a) (simp_all add: nadd_def narith_def add.assoc)
  then show ?thesis by (simp add: nsum_def)
qed

text \<open>
  The average of counters, rounded as it is, lies between any bounds of the single counts.
\<close>

theorem average_in_bounds:
  assumes "xs \<noteq> []" "\<And>x. x \<in> set xs \<Longrightarrow> a \<le> x \<and> x \<le> b" "\<bar>a\<bar> \<le> 2 ^ 53" "\<bar>b\<bar> \<le> 2 ^ 53"
  shows "\<exists>q. average_of (map NInt xs) = Inr (NFloat q) \<and> of_int a \<le> q \<and> q \<le> of_int b"
proof -
  let ?n = "int (length xs)" and ?q = "(of_int (sum_list xs) :: rat) / of_int (int (length xs))"
  have n: "0 < ?n" using assms(1) by simp
  have "a * ?n \<le> sum_list xs \<and> sum_list xs \<le> b * ?n"
    using assms(2)
  proof (induction xs)
    case (Cons x xs)
    then have "a * int (length xs) \<le> sum_list xs \<and> sum_list xs \<le> b * int (length xs)" "a \<le> x" "x \<le> b" by auto
    then show ?case by (simp add: algebra_simps)
  qed simp
  then have "of_int (a * ?n) \<le> (of_int (sum_list xs) :: rat)" "(of_int (sum_list xs) :: rat) \<le> of_int (b * ?n)"
    by (simp_all only: of_int_le_iff)
  then have "of_int a \<le> ?q" "?q \<le> of_int b" using n by (simp_all add: field_simps)
  then have "of_int a \<le> fl ?q" "fl ?q \<le> of_int b"
    using is_float_of_int[OF assms(3)] is_float_of_int[OF assms(4)] by (simp_all add: fl_ge_float fl_le_float)
  moreover have "average_of (map NInt xs) = Inr (NFloat (fl ?q))"
    using n by (simp add: average_of_def nsum_ints ndiv_def)
  ultimately show ?thesis by blast
qed

theorem average_in_bounds_witness:
  "\<exists>q. average_of (map NInt [1204, 1200, 1210]) = Inr (NFloat q) \<and> 1200 \<le> q \<and> q \<le> 1210"
proof -
  have "x \<in> set [1204, 1200, 1210] \<Longrightarrow> 1200 \<le> x \<and> x \<le> (1210 :: int)" for x by auto
  from average_in_bounds[of "[1204, 1200, 1210]" 1200 1210, OF _ this] show ?thesis by simp
qed

end
