(* ===== verification/Json_Text.thy ===== *)
theory Json_Text
  imports Py_Json "HOL-Library.AList"
begin

section \<open>The text of JSON\<close>

text \<open>
  \<^verbatim>\<open>json.loads\<close>: the grammar of JSON as Python reads it. The names of infinity and NaN, which Python accepts,
  have no value in the model. Texts are UTF-8, so an escape \<^verbatim>\<open>\u\<close> becomes one to four characters; a pair of
  surrogates is one code point. When a key comes twice the last value counts.
\<close>

definition skip_ws :: "string \<Rightarrow> string" where
  "skip_ws = dropWhile (\<lambda>c. c \<in> {CHR '' '', CHR 0x09, CHR 0x0A, CHR 0x0D})"

abbreviation bad_json :: "'a result" where "bad_json \<equiv> Inl JSONDecodeError"

fun hex4 :: "string \<Rightarrow> (int \<times> string) option" where
  "hex4 (a # b # c # d # r) =
     (case (hex_value a, hex_value b, hex_value c, hex_value d) of
        (Some w, Some x, Some y, Some z) \<Rightarrow> Some (((w * 16 + x) * 16 + y) * 16 + z, r)
      | _ \<Rightarrow> None)"
| "hex4 _ = None"

definition utf8 :: "int \<Rightarrow> string" where
  "utf8 n =
     (if n < 0x80 then [char_of n]
      else if n < 0x800 then [char_of (0xC0 + n div 64), char_of (0x80 + n mod 64)]
      else if n < 0x10000 then [char_of (0xE0 + n div 4096), char_of (0x80 + n div 64 mod 64), char_of (0x80 + n mod 64)]
      else [char_of (0xF0 + n div 262144), char_of (0x80 + n div 4096 mod 64), char_of (0x80 + n div 64 mod 64),
            char_of (0x80 + n mod 64)])"

text \<open>What follows \<^verbatim>\<open>\u\<close>: four hexadecimal digits, and those of a low surrogate after a high one.\<close>

definition unicode_escape :: "string \<Rightarrow> (string \<times> string) option" where
  "unicode_escape s =
     (case hex4 s of
        None \<Rightarrow> None
      | Some (n, r) \<Rightarrow>
          if 0xD800 \<le> n \<and> n < 0xDC00 \<and> take 2 r = [CHR 0x5C, CHR ''u''] then
            (case hex4 (drop 2 r) of
               None \<Rightarrow> None
             | Some (m, r') \<Rightarrow>
                 if 0xDC00 \<le> m \<and> m < 0xE000 then Some (utf8 (0x10000 + (n - 0xD800) * 1024 + (m - 0xDC00)), r')
                 else Some (utf8 n, r))
          else Some (utf8 n, r))"

definition simple_escape :: "char \<Rightarrow> char option" where
  "simple_escape c =
     (if c \<in> {CHR 0x22, CHR 0x5C, CHR ''/''} then Some c
      else if c = CHR ''b'' then Some (CHR 0x08)
      else if c = CHR ''f'' then Some (CHR 0x0C)
      else if c = CHR ''n'' then Some (CHR 0x0A)
      else if c = CHR ''r'' then Some (CHR 0x0D)
      else if c = CHR ''t'' then Some (CHR 0x09)
      else None)"

text \<open>The rest of a string behind its opening quote; \<open>k\<close> bounds the characters read.\<close>

fun json_string :: "nat \<Rightarrow> string \<Rightarrow> string \<Rightarrow> (string \<times> string) result" where
  "json_string 0 acc s = Inl NoReturn"
| "json_string (Suc k) acc [] = bad_json"
| "json_string (Suc k) acc (c # r) =
     (if c = CHR 0x22 then Inr (acc, r)
      else if (of_char c :: int) < 32 then bad_json
      else if c \<noteq> CHR 0x5C then json_string k (acc @ [c]) r
      else case r of
          [] \<Rightarrow> bad_json
        | e # r' \<Rightarrow>
            if e = CHR ''u'' then
              (case unicode_escape r' of None \<Rightarrow> bad_json | Some (t, r'') \<Rightarrow> json_string k (acc @ t) r'')
            else
              (case simple_escape e of None \<Rightarrow> bad_json | Some x \<Rightarrow> json_string k (acc @ [x]) r'))"

definition digits_of :: "string \<Rightarrow> string" where
  "digits_of = takeWhile is_digit"

text \<open>The integer part of a number, its fraction and its exponent, as far as they go.\<close>

definition number_int :: "string \<Rightarrow> string option" where
  "number_int s =
     (let sign = (if startswith s ''-'' then ''-'' else []); ds = digits_of (drop (length sign) s)
      in if ds = [] then None else if hd ds = CHR ''0'' then Some (sign @ ''0'') else Some (sign @ ds))"

definition number_frac :: "string \<Rightarrow> string" where
  "number_frac s = (if startswith s ''.'' \<and> digits_of (tl s) \<noteq> [] then ''.'' @ digits_of (tl s) else [])"

definition number_exp :: "string \<Rightarrow> string" where
  "number_exp s =
     (if startswith s ''e'' \<or> startswith s ''E'' then
        let sign = (if startswith (tl s) ''-'' \<or> startswith (tl s) ''+'' then take 1 (tl s) else []);
            ds = digits_of (drop (length sign) (tl s))
        in if ds = [] then [] else take 1 s @ sign @ ds
      else [])"

definition json_number :: "string \<Rightarrow> (json \<times> string) result" where
  "json_number s =
     (case number_int s of
        None \<Rightarrow> bad_json
      | Some i \<Rightarrow>
          let f = number_frac (drop (length i) s); e = number_exp (drop (length i + length f) s);
              r = drop (length i + length f + length e) s
          in if f = [] \<and> e = [] then rbind (py_int i) (\<lambda>n. Inr (JInt n, r))
             else rbind (py_float (i @ f @ e)) (\<lambda>x. Inr (JVal (VFloat x), r)))"

definition json_word :: "string \<Rightarrow> (json \<times> string) result" where
  "json_word s =
     (if startswith s ''null'' then Inr (JNone, drop 4 s)
      else if startswith s ''true'' then Inr (JVal (VBool True), drop 4 s)
      else if startswith s ''false'' then Inr (JVal (VBool False), drop 5 s)
      else if startswith s ''NaN'' \<or> startswith s ''Infinity'' \<or> startswith s ''-Infinity'' then Inl (LibError ''inf or nan'')
      else json_number s)"

text \<open>
  A value; the members of an object and the elements of a list up to the closing bracket. The fuel bounds the
  number of brackets and commas passed.
\<close>

fun json_value :: "nat \<Rightarrow> string \<Rightarrow> (json \<times> string) result"
  and json_members :: "nat \<Rightarrow> (string \<times> json) list \<Rightarrow> string \<Rightarrow> (json \<times> string) result"
  and json_elements :: "nat \<Rightarrow> json list \<Rightarrow> string \<Rightarrow> (json \<times> string) result" where
  "json_value 0 s = Inl NoReturn"
| "json_value (Suc k) s =
     (if startswith s [CHR 0x22] then rbind (json_string (length s) [] (tl s)) (\<lambda>(t, r). Inr (JStr t, r))
      else if startswith s ''{'' then
        (let r = skip_ws (tl s) in if startswith r ''}'' then Inr (JObj [], tl r) else json_members k [] r)
      else if startswith s ''['' then
        (let r = skip_ws (tl s) in if startswith r '']'' then Inr (JArr [], tl r) else json_elements k [] r)
      else json_word s)"
| "json_members 0 acc s = Inl NoReturn"
| "json_members (Suc k) acc s =
     (if \<not> startswith s [CHR 0x22] then bad_json
      else rbind (json_string (length s) [] (tl s)) (\<lambda>(key, r).
        if \<not> startswith (skip_ws r) '':'' then bad_json
        else rbind (json_value k (skip_ws (tl (skip_ws r)))) (\<lambda>(v, r).
          if startswith (skip_ws r) ''}'' then Inr (JObj (AList.update key v acc), tl (skip_ws r))
          else if startswith (skip_ws r) '','' then json_members k (AList.update key v acc) (skip_ws (tl (skip_ws r)))
          else bad_json)))"
| "json_elements 0 acc s = Inl NoReturn"
| "json_elements (Suc k) acc s =
     rbind (json_value k s) (\<lambda>(v, r).
       if startswith (skip_ws r) '']'' then Inr (JArr (acc @ [v]), tl (skip_ws r))
       else if startswith (skip_ws r) '','' then json_elements k (acc @ [v]) (skip_ws (tl (skip_ws r)))
       else bad_json)"

definition json_loads :: "string \<Rightarrow> json result" where
  "json_loads s =
     rbind (json_value (2 * length s + 1) (skip_ws s)) (\<lambda>(v, r). if skip_ws r = [] then Inr v else bad_json)"


subsection \<open>Reading ends\<close>

lemma skip_ws_length: "length (skip_ws s) \<le> length s"
  unfolding skip_ws_def by (rule length_dropWhile_le)

lemma hex4_length: "hex4 s = Some (n, r) \<Longrightarrow> length r < length s"
  by (induction s rule: hex4.induct) (auto split: option.splits)

lemma unicode_escape_length: "unicode_escape s = Some (t, r) \<Longrightarrow> length r < length s"
  unfolding unicode_escape_def
  by (auto split: option.splits if_splits dest!: hex4_length)

text \<open>A result that does not run out of fuel and leaves fewer than \<open>n\<close> characters.\<close>

definition ends :: "nat \<Rightarrow> ('a \<times> string) result \<Rightarrow> bool" where
  "ends n x \<longleftrightarrow> x \<noteq> Inl NoReturn \<and> (\<forall>v r. x = Inr (v, r) \<longrightarrow> length r < n)"

lemma ends_simps [simp]: "ends n (Inl e) \<longleftrightarrow> e \<noteq> NoReturn" "ends n (Inr (v, r)) \<longleftrightarrow> length r < n"
  by (auto simp: ends_def)

lemma ends_mono: "ends m x \<Longrightarrow> m \<le> n \<Longrightarrow> ends n x"
  by (auto simp: ends_def)

lemma ends_rbind: "ends m x \<Longrightarrow> (\<And>v r. length r < m \<Longrightarrow> ends n (f (v, r))) \<Longrightarrow> ends n (rbind x f)"
  by (cases x) (auto simp: ends_def)

lemma json_string_ends: "length s < k \<Longrightarrow> ends (length s) (json_string k acc s)"
proof (induction k acc s rule: json_string.induct)
  case (3 k acc c r)
  have plain: "ends (length (c # r)) (json_string k (acc @ [c]) r)"
    if "c \<noteq> CHR 0x22" "\<not> (of_char c :: int) < 32" "c \<noteq> CHR 0x5C"
    by (rule ends_mono[OF "3.IH"(1)]) (use that 3 in auto)
  have escaped: "ends (length (c # r)) (case r of [] \<Rightarrow> bad_json
        | e # r' \<Rightarrow> if e = CHR ''u'' then (case unicode_escape r' of None \<Rightarrow> bad_json | Some (t, r'') \<Rightarrow> json_string k (acc @ t) r'')
            else (case simple_escape e of None \<Rightarrow> bad_json | Some x \<Rightarrow> json_string k (acc @ [x]) r'))"
    if c: "c \<noteq> CHR 0x22" "\<not> (of_char c :: int) < 32" "\<not> c \<noteq> CHR 0x5C"
  proof (cases r)
    case (Cons e r')
    show ?thesis
    proof (cases "e = CHR ''u''")
      case True
      show ?thesis
      proof (cases "unicode_escape r'")
        case (Some p)
        obtain t r'' where p: "p = (t, r'')" by (cases p)
        have l: "length r'' < length r'" using unicode_escape_length Some p by blast
        have "ends (length r'') (json_string k (acc @ t) r'')"
          using "3.IH"(2)[OF c Cons True Some p[symmetric]] l "3.prems" Cons by simp
        then have "ends (length (c # r)) (json_string k (acc @ t) r'')" by (rule ends_mono) (use l Cons in simp)
        then show ?thesis by (simp add: Cons True Some p)
      qed (simp add: Cons True)
    next
      case False
      show ?thesis
      proof (cases "simple_escape e")
        case (Some x)
        have "ends (length r') (json_string k (acc @ [x]) r')"
          using "3.IH"(3)[OF c Cons False Some] "3.prems" Cons by simp
        then have "ends (length (c # r)) (json_string k (acc @ [x]) r')" by (rule ends_mono) (use Cons in simp)
        then show ?thesis by (simp add: Cons False Some)
      qed (simp add: Cons False)
    qed
  qed simp
  show ?case unfolding json_string.simps using plain escaped by simp
qed simp_all

lemma py_int_ends: "py_int s \<noteq> Inl NoReturn"
  by (simp add: py_int_def Let_def split: option.split)

lemma rbind_ends: "x \<noteq> Inl NoReturn \<Longrightarrow> (\<And>v. f v \<noteq> Inl NoReturn) \<Longrightarrow> rbind x f \<noteq> Inl NoReturn"
  by (cases x) auto

lemma py_float_ends: "py_float s \<noteq> Inl NoReturn"
proof -
  have ex: "snd (case xs of [m] \<Rightarrow> (m, Inr 0) | [m, x] \<Rightarrow> (m, if x = strip x then py_int x else Inl ValueError)
      | _ \<Rightarrow> ([], Inl ValueError)) \<noteq> Inl NoReturn" for xs :: "string list"
    by (simp add: py_int_ends split: list.split)
  have "py_float_body t \<noteq> Inl NoReturn" for t
  proof -
    let ?c = "case split_on (CHR ''e'') (map (\<lambda>c. if c = CHR ''E'' then CHR ''e'' else c) t) of
        [m] \<Rightarrow> (m, Inr 0) | [m, x] \<Rightarrow> (m, if x = strip x then py_int x else Inl ValueError) | _ \<Rightarrow> ([], Inl ValueError)"
    obtain mant r where c: "?c = (mant, r)" by (cases ?c)
    have r: "r \<noteq> Inl NoReturn" using ex[of "split_on (CHR ''e'') (map (\<lambda>c. if c = CHR ''E'' then CHR ''e'' else c) t)"] c by simp
    obtain ip fp where d: "(case split_on (CHR ''.'') mant of [i] \<Rightarrow> (i, []) | [i, f] \<Rightarrow> (i, f) | _ \<Rightarrow> ([], [])) = (ip, fp)"
      by fastforce
    show ?thesis unfolding py_float_body_def Let_def c prod.case d
      by (split if_split, intro conjI impI rbind_ends r) (simp_all split: option.split)
  qed
  then show ?thesis
    unfolding py_float_def Let_def by (split if_split, intro conjI impI rbind_ends) simp_all
qed

lemma number_int_length:
  assumes "number_int s = Some i"
  shows "0 < length i" "i = take (length i) s"
proof -
  define sign where "sign = (if startswith s ''-'' then ''-'' else [])"
  define ds where "ds = digits_of (drop (length sign) s)"
  have i: "ds \<noteq> []" "i = sign @ (if hd ds = CHR ''0'' then ''0'' else ds)"
    using assms unfolding number_int_def Let_def sign_def[symmetric] ds_def[symmetric] by (auto split: if_splits)
  have sign: "take (length sign) s = sign" by (auto simp: sign_def startswith_def)
  have ds: "take (length ds) (drop (length sign) s) = ds" unfolding ds_def digits_of_def by (simp add: takeWhile_eq_take[symmetric])
  show "0 < length i" using i by (auto split: if_splits)
  have "take (length t) (drop (length sign) s) = t" if "t = ds \<or> t = ''0'' \<and> hd ds = CHR ''0''" for t
    using that ds i(1) by (cases ds; cases "drop (length sign) s") (auto split: if_splits)
  then show "i = take (length i) s"
    using i(2) sign by (auto simp: take_add)
qed

lemma json_word_ends: "ends (length s) (json_word s)"
proof -
  have word: "startswith s w \<Longrightarrow> w \<noteq> [] \<Longrightarrow> length (drop (length w) s) < length s" for w
  proof -
    assume "startswith s w" "w \<noteq> []"
    then have "s \<noteq> []" "0 < length w" by (auto simp: startswith_def)
    then show ?thesis by simp
  qed
  have "ends (length s) (json_number s)"
  proof (cases "number_int s")
    case (Some i)
    then have i: "0 < length i" "length i \<le> length s" using number_int_length[OF Some] by (metis nat_le_linear take_all)+
    have "length s - (length i + n) < length s" "length s - (length i + m + n) < length s" for m n using i by linarith+
    then show ?thesis
      unfolding json_number_def Some option.case Let_def rbind_def
      using py_int_ends[of i] py_float_ends by (auto split: sum.split)
  qed (simp add: json_number_def)
  then show ?thesis
    using word[of "''null''"] word[of "''true''"] word[of "''false''"] by (auto simp: json_word_def)
qed

lemma startswith_tl: "startswith s w \<Longrightarrow> w \<noteq> [] \<Longrightarrow> s \<noteq> []"
  by (auto simp: startswith_def)

lemma tl_length: "startswith s [c] \<Longrightarrow> length (skip_ws (tl s)) < length s"
  using skip_ws_length[of "tl s"] by (cases s) (auto simp: startswith_def)

lemma string_ends: "startswith s [c] \<Longrightarrow> ends (length s) (json_string (length s) acc (tl s))"
  by (rule ends_mono[OF json_string_ends]) (cases s; simp add: startswith_def)+

lemma after_value_ends:
  assumes "length q < n" "\<not> startswith (skip_ws q) e \<Longrightarrow> startswith (skip_ws q) '','' \<Longrightarrow> ends (length (skip_ws (tl (skip_ws q)))) m"
  shows "ends n (if startswith (skip_ws q) e then Inr (v, tl (skip_ws q))
     else if startswith (skip_ws q) '','' then m else bad_json)"
proof -
  have "length (tl (skip_ws q)) < n" using assms(1) skip_ws_length[of q] by simp
  moreover have "ends n m" if c: "\<not> startswith (skip_ws q) e" "startswith (skip_ws q) '',''"
    by (rule ends_mono[OF assms(2)[OF c]]) (use tl_length[OF c(2)] skip_ws_length[of q] assms(1) in linarith)
  ultimately show ?thesis by simp
qed

lemma json_value_ends:
  "2 * length s + 1 \<le> k \<Longrightarrow> ends (length s) (json_value k s)"
  "2 * length s + 2 \<le> k \<Longrightarrow> ends (length s) (json_members k ms s)"
  "2 * length s + 2 \<le> k \<Longrightarrow> ends (length s) (json_elements k es s)"
proof (induction k s and k ms s and k es s rule: json_value_json_members_json_elements.induct)
  case (2 k s)
  have str: "startswith s [CHR 0x22] \<Longrightarrow> ends (length s) (rbind (json_string (length s) [] (tl s)) (\<lambda>(t, r). Inr (JStr t, r)))"
    by (rule ends_rbind[OF string_ends]) auto
  have obj: "ends (length s) (let r = skip_ws (tl s) in if startswith r ''}'' then Inr (JObj [], tl r) else json_members k [] r)"
    if c: "\<not> startswith s [CHR 0x22]" "startswith s ''{''"
    unfolding Let_def
  proof (split if_split, intro conjI impI)
    assume "startswith (skip_ws (tl s)) ''}''"
    then show "ends (length s) (Inr (JObj [], tl (skip_ws (tl s))))" using tl_length[OF c(2)] by simp
  next
    assume n: "\<not> startswith (skip_ws (tl s)) ''}''"
    show "ends (length s) (json_members k [] (skip_ws (tl s)))"
      by (rule ends_mono[OF "2.IH"(1)[OF c refl n]]) (use tl_length[OF c(2)] "2.prems" in auto)
  qed
  have arr: "ends (length s) (let r = skip_ws (tl s) in if startswith r '']'' then Inr (JArr [], tl r) else json_elements k [] r)"
    if c: "\<not> startswith s [CHR 0x22]" "\<not> startswith s ''{''" "startswith s ''[''"
    unfolding Let_def
  proof (split if_split, intro conjI impI)
    assume "startswith (skip_ws (tl s)) '']''"
    then show "ends (length s) (Inr (JArr [], tl (skip_ws (tl s))))" using tl_length[OF c(3)] by simp
  next
    assume n: "\<not> startswith (skip_ws (tl s)) '']''"
    show "ends (length s) (json_elements k [] (skip_ws (tl s)))"
      by (rule ends_mono[OF "2.IH"(2)[OF c refl n]]) (use tl_length[OF c(3)] "2.prems" in auto)
  qed
  show ?case unfolding json_value.simps using str obj arr json_word_ends by simp
next
  case (4 k acc s)
  show ?case
  proof (cases "startswith s [CHR 0x22]")
    case True
    show ?thesis unfolding json_members.simps using True
    proof (simp only: not_True_eq_False if_False, intro ends_rbind[OF string_ends[OF True]], simp only: prod.case)
      fix key r assume r: "length (r :: string) < length s"
      let ?v = "skip_ws (tl (skip_ws r))"
      have closer: "length (skip_ws (tl (skip_ws q))) < length q" if "startswith (skip_ws q) [c]" for q c
        using tl_length[OF that] skip_ws_length[of q] by linarith
      show "ends (length s) (if \<not> startswith (skip_ws r) '':'' then bad_json
        else rbind (json_value k ?v) (\<lambda>(v, r).
          if startswith (skip_ws r) ''}'' then Inr (JObj (AList.update key v acc), tl (skip_ws r))
          else if startswith (skip_ws r) '','' then json_members k (AList.update key v acc) (skip_ws (tl (skip_ws r)))
          else bad_json))"
      proof (cases "startswith (skip_ws r) '':''")
        case colon: True
        have "ends (length ?v) (json_value k ?v)"
          by (rule "4.IH"(1)) (use True colon closer[OF colon] r "4.prems" in auto)
        then show ?thesis
        proof (simp only: colon not_True_eq_False if_False, elim ends_rbind, simp only: prod.case)
          fix v q assume q: "length (q :: string) < length ?v"
          then have less: "length q < length s" using closer[OF colon] r by linarith
          show "ends (length s) (if startswith (skip_ws q) ''}'' then Inr (JObj (AList.update key v acc), tl (skip_ws q))
            else if startswith (skip_ws q) '','' then json_members k (AList.update key v acc) (skip_ws (tl (skip_ws q)))
            else bad_json)"
            by (rule after_value_ends[OF less], rule "4.IH"(2))
              (use True colon closer[of q "CHR '',''"] less "4.prems" in auto)
        qed
      qed simp
    qed
  qed simp
next
  case (6 k acc s)
  have "ends (length s) (json_value k s)" by (rule "6.IH"(1)) (use "6.prems" in simp)
  then show ?case unfolding json_elements.simps
  proof (elim ends_rbind, simp only: prod.case)
    fix v q assume q: "length (q :: string) < length s"
    have closer: "length (skip_ws (tl (skip_ws q))) < length q" if "startswith (skip_ws q) [c]" for c
      using tl_length[OF that] skip_ws_length[of q] by linarith
    show "ends (length s) (if startswith (skip_ws q) '']'' then Inr (JArr (acc @ [v]), tl (skip_ws q))
       else if startswith (skip_ws q) '','' then json_elements k (acc @ [v]) (skip_ws (tl (skip_ws q)))
       else bad_json)"
      by (rule after_value_ends[OF q], rule "6.IH"(2)) (use closer[of "CHR '',''"] q "6.prems" in auto)
  qed
qed simp_all

text \<open>
  The fuel is enough: reading the text of JSON ends, in a value or an error, whatever the text is.
\<close>

theorem json_loads_ends: "json_loads s \<noteq> Inl NoReturn"
proof -
  have "2 * length (skip_ws s) + 1 \<le> 2 * length s + 1" using skip_ws_length[of s] by simp
  from json_value_ends(1)[OF this] show ?thesis
    by (auto simp: json_loads_def rbind_def ends_def split: sum.splits)
qed

end
