(* ===== verification/Nvme_Tcp.thy ===== *)
theory Nvme_Tcp
  imports Avocado Json_Text
begin

section \<open>NVMe over TCP, initiator (io/disk/nvmetcp/nvme_tcp_initiator.py)\<close>

text \<open>
  The test gives the host its addresses, discovers and connects the targets, turns multipath on, makes the
  configuration persistent and validates it by the JSON that \<^verbatim>\<open>nvme\<close> prints, of which nothing is known but
  that it is a text. Commands, files, modules, services, packages and network interfaces are the parameter
  \<open>nt_env\<close>. Parameters have the type that the YAML file gives them.
\<close>

subsection \<open>External operations and state\<close>

record 'w nt_env =
  nt_params :: "string \<Rightarrow> pyval option"
  nt_distro :: "('w, string) ext"
  nt_release :: "('w, string) ext"
  nt_install :: "string \<Rightarrow> string list \<Rightarrow> ('w, bool) ext"
  nt_check :: "string \<Rightarrow> ('w, bool) ext"
  nt_is_loaded :: "string \<Rightarrow> ('w, bool) ext"
  nt_load :: "string \<Rightarrow> ('w, unit) ext"
  nt_exists :: "string \<Rightarrow> ('w, bool) ext"
  nt_read :: "string \<Rightarrow> ('w, string) ext"
  nt_write :: "string \<Rightarrow> string \<Rightarrow> ('w, unit) ext"
  nt_remove :: "string \<Rightarrow> ('w, unit) ext"
  nt_makedirs :: "string \<Rightarrow> ('w, unit) ext"
  nt_add_ip :: "string \<Rightarrow> pyval \<Rightarrow> pyval \<Rightarrow> ('w, unit) ext"
  nt_bring_up :: "string \<Rightarrow> ('w, unit) ext"
  nt_save :: "string \<Rightarrow> pyval \<Rightarrow> pyval \<Rightarrow> ('w, unit) ext"
  nt_link_up :: "string \<Rightarrow> ('w, bool) ext"
  nt_ping :: "string \<Rightarrow> string \<Rightarrow> ('w, unit) ext"
  nt_interface_of :: "pyval \<Rightarrow> ('w, string option) ext"
  nt_default_interfaces :: "('w, string list) ext"
  nt_run :: "string \<Rightarrow> ('w, cmd_result) ext"
  nt_run_ignore :: "string \<Rightarrow> ('w, cmd_result) ext"
  nt_output :: "string \<Rightarrow> ('w, string) ext"
  nt_system :: "string \<Rightarrow> ('w, int) ext"
  nt_enable :: "string \<Rightarrow> ('w, bool) ext"
  nt_disable :: "string \<Rightarrow> ('w, bool) ext"
  nt_err_text :: "exn \<Rightarrow> string"

record 'w nt_st = "'w st" +
  primary_ip :: pyval
  primary_interface :: pyval
  primary_subnet :: pyval
  primary_gateway :: pyval
  secondary_ip :: pyval
  secondary_interface :: pyval
  secondary_subnet :: pyval
  secondary_gateway :: pyval
  target_ips :: "string list"
  subsystem_nqn :: pyval
  target_port :: pyval
  network_mode :: string
  connected_controllers :: "json list"
  nt_namespaces :: "json list"
  multipath_enabled :: bool
  os_family :: string

type_synonym ('w, 'a) nt = "('w nt_st, 'a) py"

definition nt_param :: "'w nt_env \<Rightarrow> string \<Rightarrow> pyval \<Rightarrow> pyval" where
  "nt_param E k d = (case nt_params E k of None \<Rightarrow> d | Some v \<Rightarrow> v)"

definition nt_info :: "string \<Rightarrow> ('w, unit) nt" where
  "nt_info m = log Info m"

definition nt_rule :: string where "nt_rule = replicate 70 (CHR ''='')"

text \<open>\<^verbatim>\<open>except\<close> with a tuple of classes. A missing file is an operating system error too.\<close>

definition except_when :: "(exn \<Rightarrow> bool) \<Rightarrow> ('w, 'a) nt \<Rightarrow> (string \<Rightarrow> ('w, 'a) nt) \<Rightarrow> 'w nt_env \<Rightarrow> ('w, 'a) nt" where
  "except_when P m h E = try_except m (\<lambda>e. if P e then h (nt_err_text E e) else raise e)"

definition cmd_error :: "exn \<Rightarrow> bool" where
  "cmd_error e = (case e of CmdError _ \<Rightarrow> True | _ \<Rightarrow> False)"

definition os_error :: "exn \<Rightarrow> bool" where
  "os_error e \<longleftrightarrow> e = IOError \<or> e = FileNotFoundError"

definition json_error :: "exn \<Rightarrow> bool" where
  "json_error e \<longleftrightarrow> cmd_error e \<or> e = JSONDecodeError"

definition json_or_key_error :: "exn \<Rightarrow> bool" where
  "json_or_key_error e \<longleftrightarrow> json_error e \<or> e = KeyError"

definition noutput_sudo :: "'w nt_env \<Rightarrow> string \<Rightarrow> ('w, string) nt" where
  "noutput_sudo E cmd = call ''sudo_output'' [cmd] (nt_output E cmd)"

text \<open>\<^verbatim>\<open>'%d' % port\<close>.\<close>

definition port_text :: "('w, string) nt" where
  "port_text = bnd (gets target_port) (\<lambda>p. lift (fmt_d p))"

definition str_list :: "string list \<Rightarrow> string" where
  "str_list xs = brackets (map repr_str xs)"

subsection \<open>Values of the output\<close>

text \<open>\<^verbatim>\<open>j.get(k, d)\<close>, \<^verbatim>\<open>len(j)\<close>, \<^verbatim>\<open>j in js\<close>.\<close>

definition jdefault :: "json \<Rightarrow> string \<Rightarrow> json \<Rightarrow> json result" where
  "jdefault j k d =
     (case j of JObj kvs \<Rightarrow> Inr (case map_of kvs k of None \<Rightarrow> d | Some v \<Rightarrow> v) | _ \<Rightarrow> Inl AttributeError)"

definition jlen :: "json \<Rightarrow> int result" where
  "jlen j =
     (case j of
        JArr xs \<Rightarrow> Inr (int (length xs))
      | JObj kvs \<Rightarrow> Inr (int (length kvs))
      | JVal (VStr s) \<Rightarrow> Inr (int (length s))
      | _ \<Rightarrow> Inl TypeError)"

definition jmember :: "json \<Rightarrow> json list \<Rightarrow> bool" where
  "jmember j js = list_ex (jeq j) js"

definition list_subsys :: "'w nt_env \<Rightarrow> ('w, json) nt" where
  "list_subsys E = bnd (noutput_sudo E ''nvme list-subsys -o json'') (\<lambda>out. lift (json_loads out))"

text \<open>The subsystems of all hosts, the paths of a subsystem, and whether it is ours.\<close>

definition subsystems_of :: "json \<Rightarrow> json list result" where
  "subsystems_of host = rbind (jdefault host ''Subsystems'' (JArr [])) jiter"

definition is_ours :: "pyval \<Rightarrow> json \<Rightarrow> bool result" where
  "is_ours nqn subsys = rbind (jdefault subsys ''NQN'' JNone) (\<lambda>v. Inr (jeq v (JVal nqn)))"

text \<open>The names of the paths of our subsystems, those that have one.\<close>

definition path_name :: "json \<Rightarrow> json list result" where
  "path_name path = rbind (jdefault path ''Name'' JNone) (\<lambda>n. Inr (if jtruthy n then [n] else []))"

definition names_of :: "json \<Rightarrow> json list result" where
  "names_of paths = rbind (jiter paths) (\<lambda>ps. rbind (mapM_r path_name ps) (\<lambda>ns. Inr (concat ns)))"

definition controllers_in :: "pyval \<Rightarrow> json \<Rightarrow> json list result" where
  "controllers_in nqn data =
     rbind (jiter data) (\<lambda>hosts.
     rbind (mapM_r (\<lambda>host.
        rbind (subsystems_of host) (\<lambda>subs.
        rbind (mapM_r (\<lambda>sub.
           rbind (is_ours nqn sub) (\<lambda>ours.
           if ours then rbind (jdefault sub ''Paths'' (JArr [])) names_of else Inr [])) subs) (\<lambda>xs. Inr (concat xs)))) hosts)
       (\<lambda>xs. Inr (concat xs)))"

definition get_connected_controllers :: "'w nt_env \<Rightarrow> ('w, json list) nt" where
  "get_connected_controllers E =
     except_when json_or_key_error
       (bnd (list_subsys E) (\<lambda>data. bnd (gets subsystem_nqn) (\<lambda>nqn. lift (controllers_in nqn data))))
       (\<lambda>msg. sq (log Warning (''Failed to get connected controllers: '' @ msg)) (ret [])) E"

subsection \<open>Set-up\<close>

definition install_required_packages :: "'w nt_env \<Rightarrow> ('w, unit) nt" where
  "install_required_packages E =
     bnd (gets os_family) (\<lambda>fam.
     let packages = [''nvme-cli'', ''util-linux'', if fam = ''rhel'' then ''iproute'' else ''iproute2'']
     in bnd (call ''distro.detect'' [] (nt_distro E)) (\<lambda>name.
        sq (nt_info ''Installing required packages for NVMe/TCP initiator...'')
       (bnd (call ''install_distro_packages'' (lower name # packages) (nt_install E (lower name) packages)) (\<lambda>b.
        sq (if b then nt_info ''Packages installed successfully''
            else nt_info ''Packages already installed or installation skipped'')
       (bnd (call ''check_installed'' [''nvme-cli''] (nt_check E ''nvme-cli'')) (\<lambda>ok.
        whenb (\<not> ok) (cancel ''nvme-cli package is required but not installed. Please install it manually and retry.'')))))))"

definition load_nvme_modules :: "'w nt_env \<Rightarrow> ('w, unit) nt" where
  "load_nvme_modules E =
     except_when cmd_error
       (bnd (call ''module_is_loaded'' [''nvme-tcp''] (nt_is_loaded E ''nvme-tcp'')) (\<lambda>b.
        sq (if \<not> b then
              sq (nt_info ''Loading nvme-tcp module...'')
             (sq (call ''load_module'' [''nvme-tcp''] (nt_load E ''nvme-tcp''))
                 (nt_info ''nvme-tcp module loaded successfully''))
            else nt_info ''nvme-tcp module already loaded'')
       (bnd (call ''module_is_loaded'' [''nvme-fabrics''] (nt_is_loaded E ''nvme-fabrics'')) (\<lambda>b'.
        if b' then nt_info ''nvme-fabrics module is loaded''
        else log Warning ''nvme-fabrics module not loaded - may load automatically''))))
       (\<lambda>msg. cancel (''Failed to load nvme-tcp module: '' @ msg)) E"

definition configure_module_autoload :: "'w nt_env \<Rightarrow> ('w, unit) nt" where
  "configure_module_autoload E =
    (let conf = ''/etc/modules-load.d/nvme-tcp.conf''
     in bnd (call ''exists'' [conf] (nt_exists E conf)) (\<lambda>b.
        if \<not> b then
          sq (nt_info ''Configuring nvme-tcp module auto-load...'')
             (except_when os_error
               (sq (call ''write_file'' [conf, ''nvme-tcp'' @ [newline]] (nt_write E conf (''nvme-tcp'' @ [newline])))
                   (nt_info (''Created '' @ conf)))
               (\<lambda>msg. log Warning (''Failed to create module auto-load config: '' @ msg)) E)
        else nt_info ''Module auto-load already configured''))"

definition validate_prerequisites :: "'w nt_env \<Rightarrow> ('w, unit) nt" where
  "validate_prerequisites E =
     sq (nt_info ''Validating prerequisites...'')
    (bnd (call ''uname'' [] (nt_release E)) (\<lambda>v.
     sq (nt_info (''Kernel version: '' @ v))
    (sq (install_required_packages E)
    (sq (load_nvme_modules E)
        (configure_module_autoload E)))))"

definition detect_family :: "string \<Rightarrow> ('w, unit) nt" where
  "detect_family name =
     (if name \<in> {''rhel'', ''centos'', ''rocky'', ''alma'', ''fedora''} then
        sq (modify (\<lambda>s. s\<lparr>os_family := ''rhel''\<rparr>)) (nt_info (''Detected RHEL-based distribution: '' @ name))
      else if name \<in> {''suse'', ''sles'', ''opensuse'', ''opensuse-leap''} then
        sq (modify (\<lambda>s. s\<lparr>os_family := ''suse''\<rparr>)) (nt_info (''Detected SUSE-based distribution: '' @ name))
      else cancel (''Unsupported OS: '' @ name))"

definition split_param :: "pyval \<Rightarrow> string list result" where
  "split_param v = (case v of VStr s \<Rightarrow> Inr (split_ws s) | _ \<Rightarrow> Inl AttributeError)"

definition nt_setUp :: "'w nt_env \<Rightarrow> ('w, unit) nt" where
  "nt_setUp E =
    (let p = (\<lambda>k. nt_param E k VNone); targets = nt_param E ''target_ips'' (VStr []) in
     sq (modify (\<lambda>s. s\<lparr>primary_ip := p ''primary_ip'', primary_interface := p ''primary_interface'',
           primary_subnet := p ''primary_subnet'', primary_gateway := p ''primary_gateway'',
           secondary_ip := p ''secondary_ip'', secondary_interface := p ''secondary_interface'',
           secondary_subnet := p ''secondary_subnet'', secondary_gateway := p ''secondary_gateway'',
           subsystem_nqn := p ''subsystem_nqn'', target_port := nt_param E ''target_port'' (VInt 4420)\<rparr>))
    (sq (whenb (\<not> truthy (p ''primary_ip'')) (cancel ''primary_ip parameter is required''))
    (sq (whenb (\<not> truthy targets) (cancel ''target_ips parameter is required''))
    (sq (whenb (\<not> truthy (p ''subsystem_nqn'')) (cancel ''subsystem_nqn parameter is required''))
    (bnd (lift (split_param targets)) (\<lambda>ips.
     let mode = (if truthy (p ''secondary_ip'') then ''multi_path'' else ''single_path'') in
     sq (modify (\<lambda>s. s\<lparr>target_ips := ips, network_mode := mode, connected_controllers := [], nt_namespaces := [],
           multipath_enabled := False\<rparr>))
    (sq (nt_info (''Network mode: '' @ mode))
    (sq (nt_info (''Primary IP: '' @ vstr (p ''primary_ip'')))
    (sq (whenb (truthy (p ''primary_interface'')) (nt_info (''Primary Interface: '' @ vstr (p ''primary_interface''))))
    (sq (whenb (truthy (p ''secondary_ip''))
          (sq (nt_info (''Secondary IP: '' @ vstr (p ''secondary_ip'')))
              (whenb (truthy (p ''secondary_interface''))
                (nt_info (''Secondary Interface: '' @ vstr (p ''secondary_interface''))))))
    (sq (nt_info (''Target IPs: '' @ str_list ips))
    (sq (nt_info (''Subsystem NQN: '' @ vstr (p ''subsystem_nqn'')))
    (bnd (call ''distro.detect'' [] (nt_distro E)) (\<lambda>name.
     sq (detect_family (lower name))
        (validate_prerequisites E)))))))))))))))"

subsection \<open>Network\<close>

definition configure_ip_on_interface :: "'w nt_env \<Rightarrow> pyval \<Rightarrow> pyval \<Rightarrow> pyval \<Rightarrow> pyval \<Rightarrow> ('w, unit) nt" where
  "configure_ip_on_interface E ip interface subnet gateway =
    (let i = vstr interface
     in sq (nt_info (''Configuring IP '' @ vstr ip @ '' on interface '' @ i))
       (try_except
         (sq (call ''add_ipaddr'' [i, vstr ip, vstr subnet] (nt_add_ip E i ip subnet))
         (sq (nt_info (''Added IP '' @ vstr ip @ ''/'' @ vstr subnet @ '' to '' @ i))
         (sq (call ''bring_up'' [i] (nt_bring_up E i))
         (sq (nt_info (''Brought interface '' @ i @ '' UP''))
         (sq (whenb (truthy gateway)
               (nt_info (''Gateway '' @ vstr gateway @ '' specified but NOT configured to preserve existing routing and prevent management connection loss. Configure gateway manually if needed for specific routes.'')))
         (sq (nt_info (''Successfully configured IP '' @ vstr ip @ '' on '' @ i))
             (try_except
               (sq (nt_info ''Saving network configuration to make it persistent...'')
               (sq (call ''save'' [i, vstr ip, vstr subnet] (nt_save E i ip subnet))
                   (nt_info (''Network configuration saved persistently for '' @ i))))
               (\<lambda>e. if e = NWException then
                      log Warning (''Failed to save persistent network config: '' @ nt_err_text E e @ ''. IP is configured but may not survive reboot.'')
                    else log Warning (''Unexpected error saving network config: '' @ nt_err_text E e)))))))))
         (\<lambda>e. if e = NWException then log Warning (''Network configuration failed: '' @ nt_err_text E e)
              else log Warning (''Failed to configure IP: '' @ nt_err_text E e))))"

text \<open>An empty name of an interface counts as none.\<close>

definition interface_of :: "'w nt_env \<Rightarrow> pyval \<Rightarrow> ('w, string option) nt" where
  "interface_of E ip = call ''get_interface_by_ipaddr'' [vstr ip] (nt_interface_of E ip)"

definition validate_ip_on_interface :: "'w nt_env \<Rightarrow> pyval \<Rightarrow> pyval \<Rightarrow> ('w, pyval) nt" where
  "validate_ip_on_interface E ip interface =
     try_except
       (bnd (interface_of E ip) (\<lambda>d. case d of
          Some name \<Rightarrow>
            sq (whenb (truthy interface \<and> VStr name \<noteq> interface)
                 (log Warning (''IP '' @ vstr ip @ '' found on '' @ name @ '', not on specified '' @ vstr interface)))
           (sq (nt_info (''Validated IP '' @ vstr ip @ '' on interface '' @ name))
               (ret (VStr name)))
        | None \<Rightarrow> sq (nt_info (''IP '' @ vstr ip @ '' not found on any interface'')) (ret VNone)))
       (\<lambda>e. sq (if e = NWException then log Warning (''Failed to validate IP: '' @ nt_err_text E e)
               else log Warning (''Unexpected error during IP validation: '' @ nt_err_text E e))
              (ret VNone))"

definition verify_interface_status :: "'w nt_env \<Rightarrow> pyval \<Rightarrow> pyval \<Rightarrow> ('w, unit) nt" where
  "verify_interface_status E ip interface =
     sq (nt_info (''Verifying IP '' @ vstr ip @ '' configuration...''))
    (bnd (interface_of E ip) (\<lambda>d. case d of
       None \<Rightarrow> fail (''IP '' @ vstr ip @ '' not found on any interface after configuration'')
     | Some name \<Rightarrow>
         sq (whenb (VStr name \<noteq> interface)
              (sq (log Warning (''IP '' @ vstr ip @ '' found on '' @ name @ '' instead of specified '' @ vstr interface @ ''. Using '' @
                     name @ '' for this test.''))
              (bnd (gets primary_ip) (\<lambda>p. bnd (gets secondary_ip) (\<lambda>q.
               if veq ip p then modify (\<lambda>s. s\<lparr>primary_interface := VStr name\<rparr>)
               else if veq ip q then modify (\<lambda>s. s\<lparr>secondary_interface := VStr name\<rparr>)
               else ret ())))))
        (bnd (call ''is_link_up'' [name] (nt_link_up E name)) (\<lambda>b.
         sq (whenb (\<not> b) (fail (''Interface '' @ name @ '' with IP '' @ vstr ip @ '' is not UP'')))
            (nt_info (''Verified: IP '' @ vstr ip @ '' on interface '' @ name @ '' is UP''))))))"

text \<open>One address: found, or configured on the interface of the parameters. The result is the interface to use.\<close>

definition ensure_ip :: "'w nt_env \<Rightarrow> string \<Rightarrow> pyval \<Rightarrow> pyval \<Rightarrow> pyval \<Rightarrow> pyval \<Rightarrow> ('w, pyval) nt" where
  "ensure_ip E which ip interface subnet gateway =
     bnd (validate_ip_on_interface E ip interface) (\<lambda>d.
     bnd (if \<not> truthy d \<and> truthy interface then
            if truthy subnet then
              sq (nt_info (''IP '' @ vstr ip @ '' not found, configuring on '' @ vstr interface @ ''...''))
             (sq (configure_ip_on_interface E ip interface subnet gateway)
                 (ret interface))
            else fail (''IP '' @ vstr ip @ '' not found and no subnet provided for configuration'')
          else ret d) (\<lambda>d.
     if \<not> truthy interface \<and> truthy d then
       sq (nt_info (''Auto-detected '' @ which @ '' interface: '' @ vstr d)) (ret d)
     else ret interface))"

definition validate_network_configuration :: "'w nt_env \<Rightarrow> ('w, unit) nt" where
  "validate_network_configuration E =
     sq (nt_info ''Validating network configuration...'')
    (bnd (gets id) (\<lambda>s.
     bnd (ensure_ip E ''primary'' (primary_ip s) (primary_interface s) (primary_subnet s) (primary_gateway s)) (\<lambda>i.
     sq (modify (\<lambda>s. s\<lparr>primary_interface := i\<rparr>))
    (sq (whenb (truthy (secondary_ip s))
          (bnd (ensure_ip E ''secondary'' (secondary_ip s) (secondary_interface s) (secondary_subnet s) (secondary_gateway s)) (\<lambda>j.
           modify (\<lambda>s. s\<lparr>secondary_interface := j\<rparr>))))
    (sq (sleep (VInt 2))
    (sq (nt_info ''Waiting for network interfaces to stabilize...'')
    (sq (verify_interface_status E (primary_ip s) i)
    (bnd (gets secondary_interface) (\<lambda>j.
     sq (whenb (truthy (secondary_ip s) \<and> truthy j) (verify_interface_status E (secondary_ip s) j))
        (nt_info ''Network configuration validated successfully''))))))))))"

definition ping_target :: "'w nt_env \<Rightarrow> string \<Rightarrow> pyval \<Rightarrow> ('w, bool) nt" where
  "ping_target E target source =
    (let ping = (\<lambda>i. sq (call ''ping_check'' [i, target] (nt_ping E i target))
                    (sq (nt_info (''Ping to '' @ target @ '' from '' @ i @ '' successful'')) (ret True)))
     in try_except
          (if \<not> truthy source then
             bnd (call ''get_default_route_interface'' [] (nt_default_interfaces E)) (\<lambda>ds.
             if ds \<noteq> [] then ping (hd ds)
             else
               sq (log Warning ''No default route interface found, using system default'')
              (sq (call ''sudo'' [''ping -c 3 -W 2 '' @ target] (nt_run E (''ping -c 3 -W 2 '' @ target)))
              (sq (nt_info (''Ping to '' @ target @ '' successful''))
                  (ret True))))
           else ping (vstr source))
          (\<lambda>e. sq (if e = NWException \<or> cmd_error e then log Warning (''Ping to '' @ target @ '' failed: '' @ nt_err_text E e)
                  else log Warning (''Ping test failed: '' @ nt_err_text E e))
                 (ret False)))"

definition test_port_connectivity :: "'w nt_env \<Rightarrow> string \<Rightarrow> ('w, bool) nt" where
  "test_port_connectivity E target =
     bnd port_text (\<lambda>port.
     let cmd = ''timeout 5 bash -c '' @ [CHR 0x27] @ ''cat < /dev/null > /dev/tcp/'' @ target @ ''/'' @ port @ [CHR 0x27];
         cmd_alt = ''nc -zv -w 5 '' @ target @ '' '' @ port;
         outcome = (\<lambda>via r.
           if exit_status r = 0 then
             sq (nt_info (''Port '' @ port @ '' on '' @ target @ '' is reachable'' @ via)) (ret True)
           else sq (log Warning (''Port '' @ port @ '' on '' @ target @ '' is not reachable'')) (ret False))
     in except_when cmd_error
          (bnd (call ''run'' [cmd] (nt_run_ignore E cmd)) (outcome []))
          (\<lambda>_. except_when cmd_error
             (bnd (call ''run'' [cmd_alt] (nt_run_ignore E cmd_alt)) (outcome '' (via nc)''))
             (\<lambda>msg. sq (log Warning (''Port connectivity test failed: '' @ msg)) (ret False)) E) E)"

definition source_interface :: "pyval \<Rightarrow> pyval \<Rightarrow> nat \<Rightarrow> pyval" where
  "source_interface p q i = (if i = 0 then p else if i = 1 \<and> truthy q then q else VNone)"

definition check_target :: "'w nt_env \<Rightarrow> nat \<times> string \<Rightarrow> bool \<Rightarrow> ('w, bool) nt" where
  "check_target E = (\<lambda>(i, target) reachable.
     sq (nt_info (''Testing connectivity to target '' @ target @ ''...''))
    (bnd (gets primary_interface) (\<lambda>p. bnd (gets secondary_interface) (\<lambda>q.
     bnd (ping_target E target (source_interface p q i)) (\<lambda>ping.
     sq (whenb (\<not> ping) (log Warning (''ICMP ping to '' @ target @ '' failed (may be blocked by firewall)'')))
    (bnd (test_port_connectivity E target) (\<lambda>ok.
     bnd port_text (\<lambda>port.
     if \<not> ok then sq (log Error (''Port '' @ port @ '' on '' @ target @ '' is not reachable'')) (ret False)
     else sq (nt_info (''Target '' @ target @ '':'' @ port @ '' is reachable'')) (ret reachable)))))))))"

definition validate_connectivity :: "'w nt_env \<Rightarrow> ('w, unit) nt" where
  "validate_connectivity E =
     sq (nt_info ''Testing connectivity to targets...'')
    (bnd (gets target_ips) (\<lambda>ips.
     bnd (for_acc (enumerate 0 ips) (check_target E) True) (\<lambda>reachable.
     sq (whenb (\<not> reachable)
          (bnd port_text (\<lambda>port. fail (''One or more targets are not reachable on port '' @ port))))
        (nt_info ''All targets are reachable''))))"

subsection \<open>Discovery and connection\<close>

definition discover_single_target :: "'w nt_env \<Rightarrow> string \<Rightarrow> ('w, string) nt" where
  "discover_single_target E target =
     bnd port_text (\<lambda>port.
     let cmd = ''nvme discover -t tcp -a '' @ target @ '' -s '' @ port
     in except_when cmd_error
          (bnd (noutput_sudo E cmd) (\<lambda>out.
           sq (nt_info (''Discovery output for '' @ target @ '':'' @ newline # out))
          (bnd (gets subsystem_nqn) (\<lambda>nqn. bnd (lift (as_str nqn)) (\<lambda>n.
           sq (whenb (\<not> contains n out)
                (log Warning (''Subsystem NQN '' @ n @ '' not found in discovery log for '' @ target)))
              (ret out))))))
          (\<lambda>msg. fail (''Discovery failed for '' @ target @ '': '' @ msg)) E)"

definition discover_targets :: "'w nt_env \<Rightarrow> ('w, unit) nt" where
  "discover_targets E =
     sq (nt_info ''Discovering NVMe/TCP targets...'')
    (bnd (gets target_ips) (\<lambda>ips.
     for_each ips (\<lambda>target. sq (discover_single_target E target) (ret ()))))"

definition connect_to_single_target :: "'w nt_env \<Rightarrow> string \<Rightarrow> ('w, unit) nt" where
  "connect_to_single_target E target =
     bnd (gets subsystem_nqn) (\<lambda>nqn. bnd port_text (\<lambda>port.
     let cmd = ''nvme connect -t tcp -n '' @ vstr nqn @ '' -a '' @ target @ '' -s '' @ port
     in except_when cmd_error
          (bnd (noutput_sudo E cmd) (\<lambda>out. nt_info (''Connection output for '' @ target @ '': '' @ out)))
          (\<lambda>msg. fail (''Connection failed for '' @ target @ '': '' @ msg)) E))"

definition connect_to_subsystem :: "'w nt_env \<Rightarrow> ('w, unit) nt" where
  "connect_to_subsystem E =
     bnd (gets subsystem_nqn) (\<lambda>nqn.
     sq (nt_info (''Connecting to subsystem '' @ vstr nqn @ ''...''))
    (bnd (get_connected_controllers E) (\<lambda>existing.
     if existing \<noteq> [] then
       sq (nt_info nt_rule)
      (sq (nt_info ''NVMe/TCP configuration already exists for subsystem:'')
      (sq (nt_info (''  Subsystem NQN: '' @ vstr nqn))
      (sq (nt_info (''  Connected Controllers: '' @ jstr (JArr existing)))
      (sq (nt_info ''  Status: ACTIVE'')
      (sq (nt_info ''Skipping connection - using existing configuration'')
      (sq (nt_info nt_rule)
          (modify (\<lambda>s. s\<lparr>connected_controllers := existing\<rparr>))))))))
     else
       bnd (gets target_ips) (\<lambda>ips.
       sq (for_each ips (connect_to_single_target E))
      (sq (sleep (VInt 5))
      (bnd (get_connected_controllers E) (\<lambda>cs.
       sq (modify (\<lambda>s. s\<lparr>connected_controllers := cs\<rparr>))
      (sq (whenb (cs = []) (fail ''No controllers created after connection''))
          (nt_info (''Successfully connected controllers: '' @ jstr (JArr cs)))))))))))"

subsection \<open>Multipath, persistence, validation\<close>

text \<open>The number of live and of optimized paths; each path is logged.\<close>

definition count_path :: "json \<Rightarrow> int \<times> int \<Rightarrow> ('w, int \<times> int) nt" where
  "count_path path = (\<lambda>(live, optimized).
     bnd (lift (jdefault path ''State'' (JStr ''unknown''))) (\<lambda>state.
     bnd (lift (jdefault path ''ANAState'' (JStr ''unknown''))) (\<lambda>ana.
     bnd (lift (jdefault path ''Name'' JNone)) (\<lambda>name.
     sq (nt_info (''Path '' @ jstr name @ '': state='' @ jstr state @ '', ana_state='' @ jstr ana))
        (ret (if jeq state (JStr ''live'') then live + 1 else live,
              if jeq ana (JStr ''optimized'') then optimized + 1 else optimized))))))"

definition judge_paths :: "json \<Rightarrow> ('w, unit) nt" where
  "judge_paths paths =
     bnd (lift (jlen paths)) (\<lambda>n.
     sq (nt_info (''Found '' @ str_int n @ '' paths for subsystem''))
    (sq (whenb (n < 2) (fail (''Expected at least 2 paths for multipath, found '' @ str_int n)))
    (bnd (lift (jiter paths)) (\<lambda>ps.
     bnd (for_acc ps count_path (0, 0)) (\<lambda>(live, optimized).
     if 0 < optimized then
       nt_info (''Multipath validation successful: '' @ str_int optimized @ '' optimized paths (ANA-aware)'')
     else if 2 \<le> live then
       nt_info (''Multipath validation successful: '' @ str_int live @ '' live paths (non-ANA target)'')
     else fail (''Insufficient active paths: '' @ str_int live @ '' live, '' @ str_int optimized @ '' optimized''))))))"

definition validate_multipath_paths :: "'w nt_env \<Rightarrow> ('w, unit) nt" where
  "validate_multipath_paths E =
     bnd (gets multipath_enabled) (\<lambda>enabled.
     whenb enabled
       (sq (nt_info ''Validating multipath paths...'')
           (except_when json_or_key_error
             (bnd (list_subsys E) (\<lambda>data.
              bnd (gets subsystem_nqn) (\<lambda>nqn.
              bnd (lift (jiter data)) (\<lambda>hosts.
              for_each hosts (\<lambda>host.
                bnd (lift (subsystems_of host)) (\<lambda>subs.
                for_each subs (\<lambda>sub.
                  bnd (lift (is_ours nqn sub)) (\<lambda>ours.
                  whenb ours (bnd (lift (jdefault sub ''Paths'' (JArr []))) judge_paths)))))))))
             (\<lambda>msg. log Warning (''Failed to validate multipath: '' @ msg)) E)))"

definition configure_multipath :: "'w nt_env \<Rightarrow> ('w, unit) nt" where
  "configure_multipath E =
    (let param = ''/sys/module/nvme_core/parameters/multipath''
     in bnd (gets network_mode) (\<lambda>mode.
        if mode \<noteq> ''multi_path'' then nt_info ''Skipping multipath configuration (single_path mode)''
        else
          sq (nt_info ''Configuring NVMe multipath...'')
         (sq (except_when os_error
               (bnd (call ''read_file'' [param] (nt_read E param)) (\<lambda>t.
                if strip t = ''Y'' then
                  sq (nt_info ''NVMe multipath already enabled'') (modify (\<lambda>s. s\<lparr>multipath_enabled := True\<rparr>))
                else
                  sq (nt_info ''Enabling NVMe multipath...'')
                 (sq (call ''write_file'' [param, ''Y''] (nt_write E param ''Y''))
                 (sq (modify (\<lambda>s. s\<lparr>multipath_enabled := True\<rparr>))
                     (nt_info ''NVMe multipath enabled'')))))
               (\<lambda>msg. log Warning (''Failed to enable multipath: '' @ msg)) E)
             (validate_multipath_paths E))))"

definition discovery_lines :: "string list \<Rightarrow> string \<Rightarrow> string" where
  "discovery_lines ips port = concat (map (\<lambda>ip. ''-t tcp -a '' @ ip @ '' -s '' @ port @ [newline]) ips)"

definition enable_service :: "'w nt_env \<Rightarrow> string \<Rightarrow> ('w, unit option) nt" where
  "enable_service E name =
     try_except
       (bnd (call ''enable'' [name] (nt_enable E name)) (\<lambda>b.
        if b then sq (nt_info (''Enabled '' @ name @ ''.service'')) (ret (Some ()))
        else ret None))
       (\<lambda>e. sq (log Debug (''Could not enable '' @ name @ ''.service: '' @ nt_err_text E e)) (ret None))"

definition configure_persistence :: "'w nt_env \<Rightarrow> ('w, unit) nt" where
  "configure_persistence E =
    (let conf = ''/etc/nvme/discovery.conf''
     in sq (nt_info ''Configuring persistence...'')
       (sq (call ''makedirs'' [''/etc/nvme''] (nt_makedirs E ''/etc/nvme''))
       (bnd (gets target_ips) (\<lambda>ips.
        bnd (if ips = [] then ret [] else port_text) (\<lambda>port.
        let text = discovery_lines ips port in
        sq (except_when os_error
              (sq (call ''write_file'' [conf, text] (nt_write E conf text))
              (sq (nt_info (''Created '' @ conf @ '' for discovery controllers''))
                  (nt_info (''Discovery config: '' @ strip text))))
              (\<lambda>msg. log Warning (''Failed to create discovery.conf: '' @ msg)) E)
       (bnd (for_ret [''nvme-connect'', ''nvmf-autoconnect''] (enable_service E)) (\<lambda>r.
        whenb (r = None)
          (nt_info ''No systemd service available (nvme-connect or nvmf-autoconnect). Persistence relies on discovery.conf only.''))))))))"

text \<open>The state of the first path with the name of the controller; it is only logged.\<close>

definition state_of :: "json list \<Rightarrow> json \<Rightarrow> json result" where
  "state_of paths ctrl =
     rbind (mapM_r (\<lambda>p. rbind (jdefault p ''Name'' JNone) (\<lambda>n. Inr (jeq n ctrl, p))) paths) (\<lambda>ps.
     case find fst ps of None \<Rightarrow> Inr (JStr ''unknown'') | Some (_, p) \<Rightarrow> jdefault p ''State'' JNone)"

definition validate_subsystem :: "json \<Rightarrow> ('w, unit) nt" where
  "validate_subsystem sub =
     bnd (lift (jdefault sub ''Paths'' (JArr []))) (\<lambda>paths.
     bnd (lift (names_of paths)) (\<lambda>found.
     bnd (gets connected_controllers) (\<lambda>cs.
     for_each cs (\<lambda>ctrl.
       if jmember ctrl found then
         bnd (lift (rbind (jiter paths) (\<lambda>ps. state_of ps ctrl))) (\<lambda>state.
         nt_info (''Controller '' @ jstr ctrl @ '' validated: state='' @ jstr state))
       else fail (''Controller '' @ jstr ctrl @ '' not found in subsystem'')))))"

definition validate_controllers :: "'w nt_env \<Rightarrow> ('w, unit) nt" where
  "validate_controllers E =
     sq (nt_info ''Validating controllers...'')
    (bnd (gets connected_controllers) (\<lambda>cs. bnd (gets target_ips) (\<lambda>ips. bnd (gets subsystem_nqn) (\<lambda>nqn.
     sq (whenb (cs = []) (fail ''No connected controllers found''))
    (sq (whenb (length cs \<noteq> length ips)
          (log Warning (''Controller count mismatch: expected='' @ str_int (int (length ips)) @ '', actual='' @ str_int (int (length cs)))))
        (except_when json_error
          (bnd (list_subsys E) (\<lambda>data.
           bnd (lift (jiter data)) (\<lambda>hosts.
           bnd (for_ret hosts (\<lambda>host.
                  bnd (lift (subsystems_of host)) (\<lambda>subs.
                  for_ret subs (\<lambda>sub.
                    bnd (lift (is_ours nqn sub)) (\<lambda>ours.
                    if ours then sq (validate_subsystem sub) (ret (Some ())) else ret None))))) (\<lambda>r.
           whenb (r = None) (fail (''Subsystem '' @ vstr nqn @ '' not found in nvme list-subsys''))))))
          (\<lambda>msg. log Warning (''Failed to validate controllers: '' @ msg)) E))))))"

definition add_namespace :: "json \<Rightarrow> ('w, unit) nt" where
  "add_namespace device =
     bnd (lift (jdefault device ''DevicePath'' JNone)) (\<lambda>path.
     whenb (jtruthy path)
       (sq (modify (\<lambda>s. s\<lparr>nt_namespaces := nt_namespaces s @ [path]\<rparr>))
       (bnd (lift (jdefault device ''Size'' (JStr ''unknown''))) (\<lambda>size.
        nt_info (''Found namespace: '' @ jstr path @ '' (size: '' @ jstr size @ '')'')))))"

definition validate_namespaces :: "'w nt_env \<Rightarrow> ('w, unit) nt" where
  "validate_namespaces E =
     sq (nt_info ''Validating namespaces...'')
        (except_when json_error
          (bnd (noutput_sudo E ''nvme list -o json'') (\<lambda>out.
           bnd (lift (json_loads out)) (\<lambda>data.
           sq (modify (\<lambda>s. s\<lparr>nt_namespaces := []\<rparr>))
          (bnd (lift (rbind (jdefault data ''Devices'' (JArr [])) jiter)) (\<lambda>devices.
           sq (for_each devices add_namespace)
          (bnd (gets nt_namespaces) (\<lambda>ns.
           sq (whenb (ns = []) (fail ''No namespaces found''))
              (nt_info (''Found '' @ str_int (int (length ns)) @ '' namespace(s)'')))))))))
          (\<lambda>msg. fail (''Failed to validate namespaces: '' @ msg)) E)"

definition validate_configuration :: "'w nt_env \<Rightarrow> ('w, unit) nt" where
  "validate_configuration E =
     sq (nt_info ''Validating configuration...'')
    (sq (validate_controllers E)
    (sq (validate_namespaces E)
    (bnd (gets multipath_enabled) (\<lambda>b.
     sq (whenb b (validate_multipath_paths E))
        (nt_info ''Configuration validation successful'')))))"

subsection \<open>Report, removal, tests\<close>

definition optional_line :: "string \<Rightarrow> pyval \<Rightarrow> string list" where
  "optional_line label v = (if truthy v then [''  '' @ label @ '': '' @ vstr v] else [])"

definition report_lines :: "'w nt_st \<Rightarrow> string \<Rightarrow> string \<Rightarrow> string list" where
  "report_lines s release port =
    (let bar = replicate 60 (CHR ''='')
     in [bar, ''NVMe/TCP Initiator Configuration Report'', bar, [], ''Status: SUCCESS'', [], ''System Information:'',
         ''  OS Family: '' @ os_family s, ''  Kernel: '' @ release, [], ''Network Configuration:'',
         ''  Network Mode: '' @ network_mode s, ''  Primary IP: '' @ vstr (primary_ip s)] @
        optional_line ''Primary Interface'' (primary_interface s) @ optional_line ''Primary Subnet'' (primary_subnet s) @
        optional_line ''Primary Gateway'' (primary_gateway s) @
        (if truthy (secondary_ip s) then
           [''  Secondary IP: '' @ vstr (secondary_ip s)] @ optional_line ''Secondary Interface'' (secondary_interface s) @
           optional_line ''Secondary Subnet'' (secondary_subnet s) @ optional_line ''Secondary Gateway'' (secondary_gateway s)
         else []) @
        [[], ''Target Configuration:'', ''  Subsystem NQN: '' @ vstr (subsystem_nqn s),
         ''  Target IPs: '' @ join '', '' (target_ips s), ''  Port: '' @ port, [], ''Connected Controllers:''] @
        map (\<lambda>c. ''  - '' @ jstr c) (connected_controllers s) @ [[], ''Namespaces:''] @
        map (\<lambda>n. ''  - '' @ jstr n) (nt_namespaces s) @
        [[], ''Multipath Status:'', ''  Enabled: '' @ (if multipath_enabled s then ''yes'' else ''no''), [], ''Persistence:'',
         ''  Discovery Config: /etc/nvme/discovery.conf (configured)'',
         ''  Systemd Service: nvme-connect.service (enabled)'', ''  Module Auto-load: nvme-tcp (configured)'', [], bar])"

definition generate_status_report :: "'w nt_env \<Rightarrow> ('w, string) nt" where
  "generate_status_report E =
     bnd (call ''uname'' [] (nt_release E)) (\<lambda>release.
     bnd port_text (\<lambda>port.
     bnd (gets id) (\<lambda>s. ret (join [newline] (report_lines s release port)))))"

definition disconnect :: "'w nt_env \<Rightarrow> json \<Rightarrow> int \<Rightarrow> ('w, int) nt" where
  "disconnect E ctrl n =
    (let cmd = ''nvme disconnect -d /dev/'' @ jstr ctrl
     in except_when cmd_error
          (sq (nt_info (''Disconnecting controller '' @ jstr ctrl @ ''...''))
          (sq (call ''sudo'' [cmd] (nt_system E cmd))
          (sq (nt_info (''Successfully disconnected '' @ jstr ctrl))
              (ret (n + 1)))))
          (\<lambda>msg. sq (log Warning (''Failed to disconnect '' @ jstr ctrl @ '': '' @ msg)) (ret n)) E)"

definition remove_persistence :: "'w nt_env \<Rightarrow> ('w, unit) nt" where
  "remove_persistence E =
    (let conf = ''/etc/nvme/discovery.conf''
     in sq (nt_info ''Removing persistence configuration...'')
       (bnd (call ''exists'' [conf] (nt_exists E conf)) (\<lambda>b.
        sq (whenb b
              (except_when os_error
                (sq (call ''remove'' [conf] (nt_remove E conf)) (nt_info (''Removed '' @ conf)))
                (\<lambda>msg. log Warning (''Failed to remove '' @ conf @ '': '' @ msg)) E))
           (try_except
             (bnd (call ''disable'' [''nvme-connect''] (nt_disable E ''nvme-connect'')) (\<lambda>b.
              if b then nt_info ''Disabled nvme-connect.service''
              else nt_info ''nvme-connect.service not enabled or does not exist''))
             (\<lambda>e. nt_info (''Could not disable nvme-connect.service: '' @ nt_err_text E e))))))"

definition deconfigure_nvme_tcp :: "'w nt_env \<Rightarrow> ('w, unit) nt" where
  "deconfigure_nvme_tcp E =
     sq (nt_info nt_rule)
    (sq (nt_info ''Deconfiguring NVMe/TCP Initiator'')
    (sq (nt_info nt_rule)
    (bnd (get_connected_controllers E) (\<lambda>cs.
     bnd (gets subsystem_nqn) (\<lambda>nqn.
     if cs = [] then nt_info (''No controllers found for subsystem '' @ vstr nqn @ '' - already clean'')
     else
       sq (nt_info (''Found '' @ str_int (int (length cs)) @ '' controller(s) to disconnect: '' @ jstr (JArr cs)))
      (bnd (for_acc cs (disconnect E) 0) (\<lambda>n.
       sq (sleep (VInt 2))
      (sq (remove_persistence E)
      (bnd (get_connected_controllers E) (\<lambda>rest.
       sq (if rest \<noteq> [] then log Warning (''Some controllers still connected: '' @ jstr (JArr rest))
           else nt_info ''All controllers successfully disconnected'')
      (sq (nt_info nt_rule)
      (sq (nt_info ''Deconfiguration Summary:'')
      (sq (nt_info (''  Subsystem NQN: '' @ vstr nqn))
      (sq (nt_info (''  Controllers Disconnected: '' @ str_int n @ ''/'' @ str_int (int (length cs))))
      (sq (nt_info ''  Persistence Removed: Yes'')
      (sq (nt_info (''  Status: '' @ (if rest = [] then ''CLEAN'' else ''PARTIAL'')))
          (nt_info nt_rule)))))))))))))))))"

definition test_00_cleanup_existing_configuration :: "'w nt_env \<Rightarrow> ('w, unit) nt" where
  "test_00_cleanup_existing_configuration E =
     sq (nt_info (newline # nt_rule))
    (sq (nt_info ''CLEANUP TEST: Removing existing NVMe/TCP configuration'')
    (sq (nt_info nt_rule)
        (try_except
          (sq (deconfigure_nvme_tcp E) (nt_info ''Cleanup completed successfully''))
          (\<lambda>e. sq (log Warning (''Cleanup encountered issues: '' @ nt_err_text E e))
                 (log Warning ''Continuing anyway - main test will handle any remaining config'')))))"

definition test_initiator_configuration :: "'w nt_env \<Rightarrow> ('w, unit) nt" where
  "test_initiator_configuration E =
     sq (validate_network_configuration E)
    (sq (validate_connectivity E)
    (sq (discover_targets E)
    (sq (connect_to_subsystem E)
    (sq (configure_multipath E)
    (sq (configure_persistence E)
    (sq (validate_configuration E)
    (bnd (generate_status_report E) (\<lambda>report.
     nt_info (newline # report)))))))))"

definition nt_tearDown :: "('w, unit) nt" where
  "nt_tearDown = nt_info ''Test completed. Controllers remain connected for persistence.''"

end
