(* ===== verification/Nvme_Tcp_Props.thy ===== *)
theory Nvme_Tcp_Props
  imports Nvme_Tcp Views
begin

section \<open>What the initiator test decides\<close>

subsection \<open>The cleanup\<close>

text \<open>
  The cleanup test ends normally whatever the commands, files and services do, errors of the program itself
  included.
\<close>

theorem cleanup_always_passes: "\<exists>t. test_00_cleanup_existing_configuration E s = (Inr (), t)"
proof -
  have "wp (test_00_cleanup_existing_configuration E) (\<lambda>_ _. True) (\<lambda>_ _. False) s"
    unfolding test_00_cleanup_existing_configuration_def nt_info_def wp_sq wp_log wp_try_except
    by (rule wp_conseq[OF wp_True]) simp_all
  then show ?thesis by (simp add: wp_not_exn_iff)
qed

subsection \<open>Subsystems in JSON\<close>

text \<open>
  A path is its name, state and ANA state, a subsystem its qualified name and its paths, and hosts are lists of
  subsystems. A key may be absent: a target that is not aware of ANA prints no ANA state, for one. Other keys
  may be there, in any order.
\<close>

type_synonym path = "string option \<times> string option \<times> string option"
type_synonym subsystem = "string option \<times> path list"

fun json_path :: "json \<Rightarrow> path \<Rightarrow> bool" where
  "json_path (JObj kvs) (name, state, ana) \<longleftrightarrow>
     map_of kvs ''Name'' = map_option JStr name \<and> map_of kvs ''State'' = map_option JStr state \<and>
     map_of kvs ''ANAState'' = map_option JStr ana"
| "json_path _ _ \<longleftrightarrow> False"

definition json_items :: "(json \<Rightarrow> 'a \<Rightarrow> bool) \<Rightarrow> json option \<Rightarrow> 'a list \<Rightarrow> bool" where
  "json_items R j xs \<longleftrightarrow> (case j of None \<Rightarrow> xs = [] | Some (JArr js) \<Rightarrow> list_all2 R js xs | _ \<Rightarrow> False)"

fun json_subsystem :: "json \<Rightarrow> subsystem \<Rightarrow> bool" where
  "json_subsystem (JObj kvs) (nqn, paths) \<longleftrightarrow>
     map_of kvs ''NQN'' = map_option JStr nqn \<and> json_items json_path (map_of kvs ''Paths'') paths"
| "json_subsystem _ _ \<longleftrightarrow> False"

fun json_host :: "json \<Rightarrow> subsystem list \<Rightarrow> bool" where
  "json_host (JObj kvs) subs \<longleftrightarrow> json_items json_subsystem (map_of kvs ''Subsystems'') subs"
| "json_host _ _ \<longleftrightarrow> False"

definition json_hosts :: "json \<Rightarrow> subsystem list list \<Rightarrow> bool" where
  "json_hosts j hosts \<longleftrightarrow> json_items json_host (Some j) hosts"

lemma json_itemsE:
  assumes "json_items R (map_of kvs k) xs"
  obtains js where "jdefault (JObj kvs) k (JArr []) = Inr (JArr js)" "list_all2 R js xs"
  using assms by (auto simp: json_items_def jdefault_def split: option.splits json.splits)

lemma json_pathD:
  assumes "json_path j (name, state, ana)"
  shows "jdefault j ''Name'' d = Inr (case name of None \<Rightarrow> d | Some x \<Rightarrow> JStr x)"
    and "jdefault j ''State'' d = Inr (case state of None \<Rightarrow> d | Some x \<Rightarrow> JStr x)"
    and "jdefault j ''ANAState'' d = Inr (case ana of None \<Rightarrow> d | Some x \<Rightarrow> JStr x)"
  using assms by (cases j; auto simp: jdefault_def split: option.splits)+

lemma json_subsystemE:
  assumes "json_subsystem j (nqn, paths)"
  obtains js where "is_ours (VStr n) j = Inr (nqn = Some n)" "jdefault j ''Paths'' (JArr []) = Inr (JArr js)"
    "list_all2 json_path js paths"
proof -
  from assms obtain kvs where j: "j = JObj kvs" "map_of kvs ''NQN'' = map_option JStr nqn"
    "json_items json_path (map_of kvs ''Paths'') paths" by (cases j) auto
  from json_itemsE[OF j(3)] obtain js where "jdefault j ''Paths'' (JArr []) = Inr (JArr js)" "list_all2 json_path js paths"
    unfolding j(1) .
  moreover have "is_ours (VStr n) j = Inr (nqn = Some n)"
    using j(1,2) by (cases nqn) (auto simp: is_ours_def jdefault_def veq_def)
  ultimately show thesis using that by blast
qed

lemma json_hostE:
  assumes "json_host j subs"
  obtains js where "subsystems_of j = Inr js" "list_all2 json_subsystem js subs"
proof -
  from assms obtain kvs where j: "j = JObj kvs" "json_items json_subsystem (map_of kvs ''Subsystems'') subs"
    by (cases j) auto
  from json_itemsE[OF j(2)] obtain js where "jdefault j ''Subsystems'' (JArr []) = Inr (JArr js)"
    "list_all2 json_subsystem js subs" unfolding j(1) .
  then show thesis by (intro that[of js]) (simp_all add: subsystems_of_def jiter_def)
qed

lemma json_hostsE:
  assumes "json_hosts j hosts"
  obtains js where "jiter j = Inr js" "list_all2 json_host js hosts"
  using assms by (auto simp: json_hosts_def json_items_def jiter_def split: json.splits)

text \<open>What multipath needs: two paths, and one of them optimized or two of them live.\<close>

definition enough_paths :: "path list \<Rightarrow> bool" where
  "enough_paths paths \<longleftrightarrow> 2 \<le> length paths \<and>
     ((\<exists>p \<in> set paths. snd (snd p) = Some ''optimized'') \<or> 2 \<le> length (filter (\<lambda>p. fst (snd p) = Some ''live'') paths))"

lemma wp_count_path:
  assumes "json_path j p" "in_view V s v t"
    and "\<And>u. in_view V s v u \<Longrightarrow>
      Q (if fst (snd p) = Some ''live'' then a + 1 else a, if snd (snd p) = Some ''optimized'' then b + 1 else b) u"
  shows "wp (count_path j (a, b)) Q R t"
proof -
  obtain name state ana where p: "p = (name, state, ana)" by (cases p)
  have "jeq (case x of None \<Rightarrow> JStr a | Some x \<Rightarrow> JStr x) (JStr b) \<longleftrightarrow> x = Some b" if "a \<noteq> b" for x a b
    using that by (cases x) (simp_all add: veq_def)
  then have eq: "jeq (case x of None \<Rightarrow> JStr ''unknown'' | Some x \<Rightarrow> JStr x) (JStr ''live'') \<longleftrightarrow> x = Some ''live''"
    "jeq (case x of None \<Rightarrow> JStr ''unknown'' | Some x \<Rightarrow> JStr x) (JStr ''optimized'') \<longleftrightarrow> x = Some ''optimized''" for x
    by (simp_all del: jeq.simps)
  show ?thesis
    unfolding count_path_def prod.case wp_bnd wp_lift wp_sq nt_info_def wp_ret json_pathD[OF assms(1)[unfolded p]] sum.case eq
    by (rule wp_in_view_log[OF assms(2)]) (use assms(3) p in simp)
qed

lemma wp_count_paths:
  assumes "list_all2 json_path js paths" "in_view V s v t"
    and "\<And>u. in_view V s v u \<Longrightarrow> Q (a + int (length (filter (\<lambda>p. fst (snd p) = Some ''live'') paths)),
           b + int (length (filter (\<lambda>p. snd (snd p) = Some ''optimized'') paths))) u"
  shows "wp (for_acc js count_path (a, b)) Q R t"
  using assms
proof (induction js paths arbitrary: a b t rule: list_all2_induct)
  case Nil
  then show ?case by (simp add: wp)
next
  case (Cons j js p ps)
  show ?case unfolding for_acc.simps wp_bnd
    by (rule wp_count_path[OF Cons.hyps(1) Cons.prems(1)], rule Cons.IH, assumption)
       (use Cons.prems(2) in \<open>auto simp: add.assoc\<close>)
qed

lemma judge_paths_ends:
  assumes "list_all2 json_path js paths" "in_view V s v t"
  shows "wp (judge_paths (JArr js)) (\<lambda>_ u. enough_paths paths \<and> in_view V s v u)
     (\<lambda>e u. \<not> enough_paths paths \<and> (\<exists>m. e = TestFail m)) t"
proof -
  let ?live = "filter (\<lambda>p. fst (snd p) = Some ''live'') paths" and ?opt = "filter (\<lambda>p. snd (snd p) = Some ''optimized'') paths"
  have len: "length js = length paths" using assms(1) by (rule list_all2_lengthD)
  have enough: "enough_paths paths \<longleftrightarrow> 2 \<le> length paths \<and> (?opt \<noteq> [] \<or> 2 \<le> length ?live)"
    by (auto simp: enough_paths_def filter_empty_conv)
  have verdict: "wp (if 0 < int (length ?opt) then nt_info m else if 2 \<le> int (length ?live) then nt_info m' else fail m'')
      (\<lambda>_ u. enough_paths paths \<and> in_view V s v u) (\<lambda>e u. \<not> enough_paths paths \<and> (\<exists>m. e = TestFail m)) u"
    if "in_view V s v u" "2 \<le> length paths" for u m m' m''
    using that unfolding nt_info_def wp_if wp_fail enough by (auto intro: wp_in_view_log[OF that(1)])
  show ?thesis
    unfolding judge_paths_def jlen_def jiter_def json.case sum.case len wp_bnd wp_lift wp_sq wp_whenb wp_fail
  proof (unfold nt_info_def, rule wp_in_view_log[OF assms(2)], split if_split, intro conjI impI)
    fix u assume u: "in_view V s v u" and n: "\<not> int (length paths) < 2"
    have "2 \<le> length paths" using n by simp
    with u show "wp (for_acc js count_path (0, 0)) (\<lambda>x. wp (case x of (live, optimized) \<Rightarrow>
        if 0 < optimized then log Info (''Multipath validation successful: '' @ str_int optimized @ '' optimized paths (ANA-aware)'')
        else if 2 \<le> live then log Info (''Multipath validation successful: '' @ str_int live @ '' live paths (non-ANA target)'')
        else fail (''Insufficient active paths: '' @ str_int live @ '' live, '' @ str_int optimized @ '' optimized''))
          (\<lambda>_ u. enough_paths paths \<and> in_view V s v u) (\<lambda>e u. \<not> enough_paths paths \<and> (\<exists>m. e = TestFail m)))
        (\<lambda>e u. \<not> enough_paths paths \<and> (\<exists>m. e = TestFail m)) u"
      by (intro wp_count_paths[OF assms(1), of V s v]) (simp_all only: prod.case add_0 verdict[unfolded nt_info_def])
  qed (auto simp: enough simp del: append.simps)
qed

text \<open>The verdict on the hosts: each subsystem with the name has enough paths.\<close>

definition all_enough :: "string \<Rightarrow> subsystem list list \<Rightarrow> bool" where
  "all_enough n hosts \<longleftrightarrow> (\<forall>(nqn, paths) \<in> set (concat hosts). nqn = Some n \<longrightarrow> enough_paths paths)"

definition judging :: "string \<Rightarrow> json \<Rightarrow> ('w, unit) nt" where
  "judging n j =
     bnd (lift (jiter j)) (\<lambda>hosts. for_each hosts (\<lambda>host. bnd (lift (subsystems_of host)) (\<lambda>subs.
       for_each subs (\<lambda>sub. bnd (lift (is_ours (VStr n) sub)) (\<lambda>ours.
         whenb ours (bnd (lift (jdefault sub ''Paths'' (JArr []))) judge_paths))))))"

lemma judge_hosts_ends:
  assumes "json_hosts j hosts" "in_view V s v t"
  shows "wp (judging n j)
    (\<lambda>_ u. all_enough n hosts \<and> in_view V s v u) (\<lambda>e _. \<not> all_enough n hosts \<and> (\<exists>m. e = TestFail m)) t"
proof -
  let ?ok = "\<lambda>(nqn, paths). nqn = Some n \<longrightarrow> enough_paths paths" and ?F = "\<lambda>e. \<exists>m. e = TestFail m"
  have sub: "wp (bnd (lift (is_ours (VStr n) sub)) (\<lambda>ours.
      whenb ours (bnd (lift (jdefault sub ''Paths'' (JArr []))) judge_paths)))
      (\<lambda>_ u. ?ok p \<and> in_view V s v u) (\<lambda>e _. \<not> ?ok p \<and> ?F e) t"
    if "json_subsystem sub p" "in_view V s v t" for sub p t
  proof -
    obtain nqn paths where p: "p = (nqn, paths)" by (cases p)
    from json_subsystemE[OF that(1)[unfolded p], of n] obtain js where js: "is_ours (VStr n) sub = Inr (nqn = Some n)"
      "jdefault sub ''Paths'' (JArr []) = Inr (JArr js)" "list_all2 json_path js paths" .
    show ?thesis
      unfolding p wp_bnd wp_lift js(1,2) sum.case wp_whenb prod.case
      using judge_paths_ends[OF js(3) that(2)] that(2) by (auto elim: wp_conseq)
  qed
  have host: "wp (bnd (lift (subsystems_of host)) (\<lambda>subs. for_each subs (\<lambda>sub. bnd (lift (is_ours (VStr n) sub)) (\<lambda>ours.
        whenb ours (bnd (lift (jdefault sub ''Paths'' (JArr []))) judge_paths)))))
      (\<lambda>_ u. (\<forall>p \<in> set ps. ?ok p) \<and> in_view V s v u) (\<lambda>e _. \<not> (\<forall>p \<in> set ps. ?ok p) \<and> ?F e) t"
    if "json_host host ps" "in_view V s v t" for host ps t
  proof -
    from json_hostE[OF that(1)] obtain js where js: "subsystems_of host = Inr js" "list_all2 json_subsystem js ps" .
    show ?thesis
      by (subst wp_bnd, unfold wp_lift js(1) sum.case, rule wp_each_decides2[OF js(2) that(2)]) (rule sub)
  qed
  from json_hostsE[OF assms(1)] obtain js where js: "jiter j = Inr js" "list_all2 json_host js hosts" .
  have all: "all_enough n hosts \<longleftrightarrow> (\<forall>ps \<in> set hosts. \<forall>p \<in> set ps. ?ok p)" by (auto simp: all_enough_def)
  show ?thesis
    unfolding all judging_def by (subst wp_bnd, unfold wp_lift js(1) sum.case, rule wp_each_decides2[OF js(2) assms(2)]) (rule host)
qed

lemma wp_validate:
  fixes s :: "'w nt_st"
  assumes "multipath_enabled s" "subsystem_nqn s = VStr n"
    and "nt_output E ''nvme list-subsys -o json'' (world s) = (answer, w)"
    and "u = s\<lparr>world := w, trace := trace s @ [Log Info ''Validating multipath paths...'',
      Call ''sudo_output'' [''nvme list-subsys -o json'']]\<rparr>"
    and "H = (\<lambda>e. if (\<exists>m. e = CmdError m) \<or> e = JSONDecodeError \<or> e = KeyError
      then log Warning (''Failed to validate multipath: '' @ nt_err_text E e) else raise e)"
    and "case rbind answer json_loads of Inl e \<Rightarrow> wp (H e) Q R u | Inr j \<Rightarrow> wp (judging n j) Q (\<lambda>e. wp (H e) Q R) u"
  shows "wp (validate_multipath_paths E) Q R s"
proof -
  let ?t = "s\<lparr>trace := trace s @ [Log Info ''Validating multipath paths...'']\<rparr>"
  have ls: "wp (list_subsys E) P X ?t \<longleftrightarrow> (case rbind answer json_loads of Inl e \<Rightarrow> X e u | Inr j \<Rightarrow> P j u)" for P X
    using assms(3) unfolding list_subsys_def noutput_sudo_def
    by (cases answer) (simp_all add: wp assms(4) split: sum.split)
  have caught: "json_or_key_error e \<longleftrightarrow> (\<exists>m. e = CmdError m) \<or> e = JSONDecodeError \<or> e = KeyError" for e
    by (cases e) (simp_all add: json_or_key_error_def json_error_def cmd_error_def)
  have nqn: "subsystem_nqn u = VStr n" using assms(2,4) by simp
  show ?thesis
    using assms(6)
    unfolding validate_multipath_paths_def except_when_def caught nt_info_def judging_def wp_bnd wp_gets wp_whenb wp_sq
      wp_log wp_try_except if_P[OF assms(1)] ls assms(5)
    by (cases "rbind answer json_loads") (simp_all only: sum.case nqn)
qed

text \<open>
  C22. The full decision of the multipath test, on whatever the listing command answers. Without multipath it passes.
  When the command fails with its own error, or prints no JSON, it logs a warning and passes; any other error of the
  command is passed on. When it prints hosts, with whatever keys absent, the test passes exactly if every
  listed subsystem with the name of the parameters has two paths, of which one is optimized or two are live, and
  fails otherwise: a path without state or ANA state counts as neither live nor optimized, and other states, an
  inaccessible path among them, do not matter, and neither does a list without the subsystem. The name is a
  text, and of JSON that is no listing of hosts the theorem says nothing.
\<close>

theorem multipath_test_decides:
  fixes s :: "'w nt_st"
  assumes "subsystem_nqn s = VStr n" "nt_output E ''nvme list-subsys -o json'' (world s) = (answer, w)"
  shows "\<exists>r t. validate_multipath_paths E s = (r, t) \<and>
    (if \<not> multipath_enabled s then r = Inr ()
     else case rbind answer json_loads of
       Inl e \<Rightarrow> if (\<exists>m. e = CmdError m) \<or> e = JSONDecodeError \<or> e = KeyError
         then r = Inr () \<and> (\<exists>m. last (trace t) = Log Warning m) else r = Inl e
     | Inr j \<Rightarrow> \<forall>hosts. json_hosts j hosts \<longrightarrow>
         (if \<forall>(nqn, paths) \<in> set (concat hosts). nqn = Some n \<longrightarrow> enough_paths paths
          then r = Inr () else \<exists>m. r = Inl (TestFail m)))"
proof -
  let ?caught = "\<lambda>e. (\<exists>m. e = CmdError m) \<or> e = JSONDecodeError \<or> e = KeyError"
  show ?thesis
  proof (cases "multipath_enabled s")
    case False
    then show ?thesis by (simp add: validate_multipath_paths_def py_defs)
  next
    case True
    note run = wp_validate[OF True assms refl refl]
    show ?thesis
    proof (cases "rbind answer json_loads")
      case (Inl e)
      have "wp (validate_multipath_paths E) (\<lambda>_ t. ?caught e \<and> (\<exists>m. last (trace t) = Log Warning m))
          (\<lambda>x _. \<not> ?caught e \<and> x = e) s"
        by (rule run) (simp add: Inl wp)
      then show ?thesis using True Inl
        by (cases "validate_multipath_paths E s") (auto simp: wp_def split: sum.splits)
    next
      case (Inr j)
      have "wp (validate_multipath_paths E) (\<lambda>_ _. all_enough n hosts) (\<lambda>e _. \<not> all_enough n hosts \<and> (\<exists>m. e = TestFail m)) s"
        if "json_hosts j hosts" for hosts
        by (rule run, unfold Inr sum.case,
            rule wp_conseq[OF judge_hosts_ends[OF that in_view_start[where V = "\<lambda>_. ()"]]]) (auto simp: wp)
      moreover obtain r t where rt: "validate_multipath_paths E s = (r, t)" by (cases "validate_multipath_paths E s")
      ultimately have "if all_enough n hosts then r = Inr () else \<exists>m. r = Inl (TestFail m)" if "json_hosts j hosts" for hosts
        using that by (cases r) (force simp: wp_def)+
      then show ?thesis
        unfolding Inr sum.case all_enough_def[symmetric] using True rt by simp
    qed
  qed
qed

text \<open>A target that is not aware of ANA, with two live paths.\<close>

definition two_paths :: string where
  "two_paths = ''[{\"HostNQN\":\"nqn.h\",\"Subsystems\":[{\"Name\":\"nvme-subsys0\",\"NQN\":\"nqn.t\",\"Paths\":['' @
     ''{\"Name\":\"nvme0\",\"Transport\":\"tcp\",\"State\":\"live\"},{\"Name\":\"nvme1\",\"Transport\":\"tcp\",\"State\":\"live\"}]}]}]''"

definition two_path_hosts :: "subsystem list list" where
  "two_path_hosts = [[(Some ''nqn.t'', [(Some ''nvme0'', Some ''live'', None), (Some ''nvme1'', Some ''live'', None)])]]"

definition initiator :: "string \<Rightarrow> 'w nt_env" where
  "initiator listing = \<lparr>nt_params = (\<lambda>_. None), nt_distro = Pair (Inr ''rhel''), nt_release = Pair (Inr ''6.12''),
     nt_install = (\<lambda>_ _. Pair (Inr True)), nt_check = (\<lambda>_. Pair (Inr True)), nt_is_loaded = (\<lambda>_. Pair (Inr True)),
     nt_load = (\<lambda>_. Pair (Inr ())), nt_exists = (\<lambda>_. Pair (Inr False)), nt_read = (\<lambda>_. Pair (Inr ''Y'')),
     nt_write = (\<lambda>_ _. Pair (Inr ())), nt_remove = (\<lambda>_. Pair (Inr ())), nt_makedirs = (\<lambda>_. Pair (Inr ())),
     nt_add_ip = (\<lambda>_ _ _. Pair (Inr ())), nt_bring_up = (\<lambda>_. Pair (Inr ())), nt_save = (\<lambda>_ _ _. Pair (Inr ())),
     nt_link_up = (\<lambda>_. Pair (Inr True)), nt_ping = (\<lambda>_ _. Pair (Inr ())), nt_interface_of = (\<lambda>_. Pair (Inr (Some ''eth0''))),
     nt_default_interfaces = Pair (Inr []), nt_run = (\<lambda>_. Pair (Inr \<lparr>exit_status = 0, stdout_text = [], stderr_text = []\<rparr>)),
     nt_run_ignore = (\<lambda>_. Pair (Inr \<lparr>exit_status = 0, stdout_text = [], stderr_text = []\<rparr>)),
     nt_output = (\<lambda>_. Pair (Inr listing)), nt_system = (\<lambda>_. Pair (Inr 0)), nt_enable = (\<lambda>_. Pair (Inr True)),
     nt_disable = (\<lambda>_. Pair (Inr True)), nt_err_text = (\<lambda>_. [])\<rparr>"

definition attached :: "'w \<Rightarrow> 'w nt_st" where
  "attached w = \<lparr>world = w, trace = [], primary_ip = VNone, primary_interface = VNone, primary_subnet = VNone,
     primary_gateway = VNone, secondary_ip = VNone, secondary_interface = VNone, secondary_subnet = VNone,
     secondary_gateway = VNone, target_ips = [], subsystem_nqn = VStr ''nqn.t'', target_port = VInt 4420,
     network_mode = ''multi_path'', connected_controllers = [], nt_namespaces = [], multipath_enabled = True, os_family = ''rhel''\<rparr>"

theorem multipath_test_decides_witness: "\<exists>t. validate_multipath_paths (initiator two_paths) (attached ()) = (Inr (), t)"
proof -
  have "case json_loads two_paths of Inr j \<Rightarrow> json_hosts j two_path_hosts | Inl _ \<Rightarrow> False" by code_simp
  then obtain j where j: "json_loads two_paths = Inr j" "json_hosts j two_path_hosts" by (auto split: sum.splits)
  have "subsystem_nqn (attached ()) = VStr ''nqn.t''" "multipath_enabled (attached ())"
    "nt_output (initiator two_paths) ''nvme list-subsys -o json'' (world (attached ())) = (Inr two_paths, ())"
    by (simp_all add: attached_def initiator_def)
  moreover have "\<forall>(nqn, paths) \<in> set (concat two_path_hosts). nqn = Some ''nqn.t'' \<longrightarrow> enough_paths paths"
    by (simp add: two_path_hosts_def enough_paths_def)
  ultimately show ?thesis
    using multipath_test_decides[of "attached ()" "''nqn.t''" "initiator two_paths" "Inr two_paths" "()"] j by auto
qed

subsection \<open>Listings of older versions\<close>

text \<open>
  C23. When the listing is an object, as that of nvme-cli 1 is, looking for connected controllers ends in an
  AttributeError, which the handler of that method does not catch.
\<close>

theorem object_listing_is_an_error:
  assumes "acts V (\<lambda>_ t. \<exists>k v kvs. json_loads t = Inr (JObj ((k, v) # kvs))) (\<lambda>v. v) (nt_output E ''nvme list-subsys -o json'')"
  shows "\<exists>t. get_connected_controllers E s = (Inl AttributeError, t)"
proof -
  have first: "controllers_in nqn (JObj ((k, v) # kvs)) = Inl AttributeError" for nqn k v kvs
    by (simp add: controllers_in_def jiter_def subsystems_of_def jdefault_def)
  have "wp (get_connected_controllers E) (\<lambda>_ _. False) (\<lambda>e _. e = AttributeError) s"
    unfolding get_connected_controllers_def except_when_def wp_try_except wp_bnd list_subsys_def noutput_sudo_def
    by (rule wp_acts[OF assms in_view_start])
      (auto simp: wp first json_or_key_error_def json_error_def cmd_error_def)
  then show ?thesis
    by (cases "get_connected_controllers E s") (auto simp: wp_def split: sum.splits)
qed

theorem object_listing_is_an_error_witness:
  "\<exists>t. get_connected_controllers (initiator ''{\"Subsystems\" : []}'') (attached ()) = (Inl AttributeError, t)"
proof -
  have "json_loads ''{\"Subsystems\" : []}'' = Inr (JObj [(''Subsystems'', JArr [])])" by code_simp
  then have "acts (\<lambda>_. ()) (\<lambda>_ t. \<exists>k v kvs. json_loads t = Inr (JObj ((k, v) # kvs))) (\<lambda>v. v)
      (nt_output (initiator ''{\"Subsystems\" : []}'') ''nvme list-subsys -o json'')"
    by (simp add: acts_def initiator_def)
  then show ?thesis by (rule object_listing_is_an_error)
qed


subsection \<open>Disconnecting\<close>

text \<open>The command prints a text that reads as these hosts.\<close>

definition lists :: "'w nt_env \<Rightarrow> ('w \<Rightarrow> subsystem list list) \<Rightarrow> bool" where
  "lists E V \<longleftrightarrow>
     acts V (\<lambda>hosts t. \<exists>j. json_loads t = Inr j \<and> json_hosts j hosts) (\<lambda>h. h) (nt_output E ''nvme list-subsys -o json'')"

lemma wp_list_subsys:
  assumes "lists E V" "in_view V s hosts t" "\<And>j u. json_hosts j hosts \<Longrightarrow> in_view V s hosts u \<Longrightarrow> Q j u"
  shows "wp (list_subsys E) Q R t"
  unfolding list_subsys_def noutput_sudo_def wp_bnd wp_lift
  by (rule wp_acts[OF assms(1)[unfolded lists_def] assms(2)]) (use assms(3) in auto)

text \<open>The named paths of a subsystem, and the hosts without the paths of some names.\<close>

definition path_names :: "path list \<Rightarrow> string list" where
  "path_names paths = filter (\<lambda>m. m \<noteq> []) (List.map_filter fst paths)"

definition our_paths :: "string \<Rightarrow> subsystem list list \<Rightarrow> string list" where
  "our_paths n hosts = concat (map (\<lambda>(nqn, paths). if nqn = Some n then path_names paths else []) (concat hosts))"

definition without :: "string set \<Rightarrow> subsystem list list \<Rightarrow> subsystem list list" where
  "without names = map (map (\<lambda>(nqn, paths). (nqn, filter (\<lambda>p. fst p \<notin> Some ` names) paths)))"

text \<open>The operation leaves the view alone and fails with errors of the kind \<open>P\<close> only.\<close>

definition may_fail :: "('w \<Rightarrow> 'v) \<Rightarrow> (exn \<Rightarrow> bool) \<Rightarrow> ('w, 'a) ext \<Rightarrow> bool" where
  "may_fail V P x \<longleftrightarrow> (\<forall>w. V (snd (x w)) = V w \<and> (\<forall>e. fst (x w) = Inl e \<longrightarrow> P e))"

lemma wp_may_fail:
  assumes "may_fail V P x" "in_view V s v t" "\<And>r u. in_view V s v u \<Longrightarrow> Q r u" "\<And>e u. P e \<Longrightarrow> in_view V s v u \<Longrightarrow> R e u"
  shows "wp (call f as x) Q R t"
proof -
  obtain w tr where t: "t = s\<lparr>world := w, trace := tr\<rparr>" "V w = v" using assms(2) by (auto simp: in_view_def)
  obtain r w' where r: "x w = (r, w')" by (cases "x w")
  with assms(1)[unfolded may_fail_def, rule_format, of w] t(2) have "V w' = v" "\<And>e. r = Inl e \<Longrightarrow> P e" by auto
  then show ?thesis using t r by (cases r) (auto simp: wp intro!: assms(3,4) in_viewI)
qed

text \<open>A controller that is disconnected is gone from the list; nothing else touches the list.\<close>

definition disconnects :: "'w nt_env \<Rightarrow> ('w \<Rightarrow> subsystem list list) \<Rightarrow> bool" where
  "disconnects E V \<longleftrightarrow> lists E V \<and> (\<forall>m. does V (without {m}) (nt_system E (''nvme disconnect -d /dev/'' @ m))) \<and>
     (\<forall>p. does V (\<lambda>h. h) (nt_exists E p)) \<and> (\<forall>p. may_fail V os_error (nt_remove E p)) \<and>
     (\<forall>p. may_fail V (\<lambda>_. True) (nt_disable E p))"

lemma without_simps [simp]:
  "without {} hosts = hosts" "without A (without B hosts) = without (A \<union> B) hosts"
  by (induction hosts) (auto simp: without_def filter_filter conj_commute split_def image_Un intro: map_idI)

lemma names_of_paths:
  assumes "list_all2 json_path js paths"
  shows "names_of (JArr js) = Inr (map JStr (path_names paths))"
proof -
  have "mapM_r path_name js = Inr (map (\<lambda>p. case fst p of None \<Rightarrow> [] | Some m \<Rightarrow> if m \<noteq> [] then [JStr m] else []) paths)"
    using assms
  proof (induction js paths rule: list_all2_induct)
    case (Cons j js p ps)
    obtain name state ana where p: "p = (name, state, ana)" by (cases p)
    show ?case
      using Cons by (cases name) (auto simp: p path_name_def json_pathD(1)[OF Cons.hyps(1)[unfolded p]])
  qed simp
  moreover have "concat (map (\<lambda>p. case fst p of None \<Rightarrow> [] | Some m \<Rightarrow> if m \<noteq> [] then [JStr m] else []) paths) =
      map JStr (path_names paths)"
    by (induction paths) (auto simp: path_names_def map_filter_simps split: option.split)
  ultimately show ?thesis by (simp add: names_of_def jiter_def)
qed

lemma mapM_r_rel:
  assumes "list_all2 R js xs" "\<And>j x. R j x \<Longrightarrow> f j = Inr (g x)"
  shows "mapM_r f js = Inr (map g xs)"
  using assms(1) by (induction rule: list_all2_induct) (simp_all add: assms(2))

lemma controllers_in_hosts:
  assumes "json_hosts j hosts"
  shows "controllers_in (VStr n) j = Inr (map JStr (our_paths n hosts))"
proof -
  let ?f = "\<lambda>(nqn, paths). if nqn = Some n then path_names paths else []"
  let ?sub = "\<lambda>sub. rbind (is_ours (VStr n) sub) (\<lambda>ours.
      if ours then rbind (jdefault sub ''Paths'' (JArr [])) names_of else Inr [])"
  have sub: "?sub s = Inr (map JStr (?f p))" if "json_subsystem s p" for s p
  proof -
    obtain nqn paths where p: "p = (nqn, paths)" by (cases p)
    from json_subsystemE[OF that[unfolded p], of n] obtain js where "is_ours (VStr n) s = Inr (nqn = Some n)"
      "jdefault s ''Paths'' (JArr []) = Inr (JArr js)" "list_all2 json_path js paths" .
    then show ?thesis by (simp add: p names_of_paths)
  qed
  have host: "rbind (subsystems_of h) (\<lambda>subs. rbind (mapM_r ?sub subs) (\<lambda>xs. Inr (concat xs))) =
      Inr (map JStr (concat (map ?f subs)))" if "json_host h subs" for h subs
  proof -
    from json_hostE[OF that] obtain js where js: "subsystems_of h = Inr js" "list_all2 json_subsystem js subs" .
    have "mapM_r ?sub js = Inr (map (\<lambda>p. map JStr (?f p)) subs)" by (rule mapM_r_rel[OF js(2)]) (rule sub)
    then show ?thesis by (simp add: js(1) map_concat o_def)
  qed
  from json_hostsE[OF assms] obtain js where js: "jiter j = Inr js" "list_all2 json_host js hosts" .
  have "concat (map (\<lambda>subs. map JStr (concat (map ?f subs))) hosts) = map JStr (our_paths n hosts)"
    by (induction hosts) (simp_all add: our_paths_def map_concat)
  then show ?thesis unfolding controllers_in_def js(1) by (simp add: mapM_r_rel[OF js(2) host])
qed

lemma our_paths_without: "our_paths n (without A hosts) = filter (\<lambda>m. m \<notin> A) (our_paths n hosts)"
proof -
  have "path_names (filter (\<lambda>p. fst p \<notin> Some ` A) ps) = filter (\<lambda>m. m \<notin> A) (path_names ps)" for ps
    by (induction ps) (auto simp: path_names_def map_filter_simps split: option.splits)
  then have "our_paths n (without A [subs]) = filter (\<lambda>m. m \<notin> A) (our_paths n [subs])" for subs
    by (induction subs) (auto simp: our_paths_def without_def)
  then show ?thesis
    by (induction hosts) (auto simp: our_paths_def without_def)
qed

lemma wp_connected:
  assumes "lists E V" "in_view V s hosts t" "subsystem_nqn s = VStr n"
    and "\<And>u. in_view V s hosts u \<Longrightarrow> Q (map JStr (our_paths n hosts)) u"
  shows "wp (get_connected_controllers E) Q R t"
  unfolding get_connected_controllers_def except_when_def wp_try_except wp_bnd wp_gets wp_lift
proof (rule wp_list_subsys[OF assms(1,2)])
  fix j u assume j: "json_hosts j hosts" and u: "in_view V s hosts u"
  then have "subsystem_nqn u = VStr n" using assms(3) by (auto simp: in_view_def)
  then show "case controllers_in (subsystem_nqn u) j of
      Inl e \<Rightarrow> wp (if json_or_key_error e then sq (log Warning (''Failed to get connected controllers: '' @ nt_err_text E e)) (ret [])
        else raise e) Q R u | Inr x \<Rightarrow> Q x u"
    using assms(4)[OF u] by (simp add: controllers_in_hosts[OF j])
qed

lemma wp_disconnect:
  assumes "disconnects E V" "in_view V s hosts t" "\<And>u. in_view V s (without {m} hosts) u \<Longrightarrow> Q (k + 1) u"
  shows "wp (disconnect E (JStr m) k) Q R t"
proof -
  have "does V (without {m}) (nt_system E (''nvme disconnect -d /dev/'' @ m))" using assms(1) by (simp add: disconnects_def)
  note step = wp_does[OF this]
  have name: "jstr (JStr m) = m" by simp
  show ?thesis
    unfolding disconnect_def Let_def except_when_def wp_try_except wp_sq nt_info_def wp_ret name
    by (rule wp_in_view_log[OF assms(2)], rule step, assumption, rule wp_in_view_log, assumption, rule assms(3))
qed

lemma wp_disconnect_all:
  assumes "disconnects E V" "in_view V s hosts t" "\<And>n u. in_view V s (without (set ms) hosts) u \<Longrightarrow> Q n u"
  shows "wp (for_acc (map JStr ms) (disconnect E) k) Q R t"
  using assms(2,3)
proof (induction ms arbitrary: k t hosts)
  case (Cons m ms)
  show ?case unfolding list.map for_acc.simps wp_bnd
    by (rule wp_disconnect[OF assms(1) Cons.prems(1)], rule Cons.IH, assumption, rule Cons.prems(2)) (simp add: Un_commute)
qed (simp add: wp)

lemma wp_remove_persistence:
  assumes "disconnects E V" "in_view V s v t" "\<And>u. in_view V s v u \<Longrightarrow> Q () u"
  shows "wp (remove_persistence E) Q R t"
proof -
  have exts: "does V (\<lambda>h. h) (nt_exists E p)" "may_fail V os_error (nt_remove E p)" "may_fail V (\<lambda>_. True) (nt_disable E p)" for p
    using assms(1) by (auto simp: disconnects_def)
  note quiet = wp_in_view_log[of V s v]
  have disable: "wp (try_except
        (bnd (call ''disable'' [''nvme-connect''] (nt_disable E ''nvme-connect'')) (\<lambda>b.
          if b then log Info a else log Info b')) (\<lambda>e. log Info (c e))) Q R u" if "in_view V s v u" for u a b' c
    unfolding wp_try_except wp_bnd wp_if
    by (rule wp_may_fail[OF exts(3) that]) (auto intro: quiet assms(3))
  show ?thesis
    unfolding remove_persistence_def Let_def nt_info_def wp_sq wp_bnd wp_whenb except_when_def wp_try_except[where m = "sq _ _"]
    apply (rule quiet[OF assms(2)], rule wp_does[OF exts(1)], assumption, split if_split, intro conjI impI)
     apply (rule wp_may_fail[OF exts(2)], assumption, rule quiet, assumption, rule disable, assumption)
     apply (simp add: quiet disable)
    apply (rule disable, assumption)
    done
qed

text \<open>
  C21. With a listing that shows the paths, and a command that disconnects the one it names, deconfiguring ends
  normally with no controller of the subsystem left, and with every path of another name still there.
\<close>

theorem deconfigure_disconnects_all:
  assumes "disconnects E V" "subsystem_nqn s = VStr n"
  shows "\<exists>t. deconfigure_nvme_tcp E s = (Inr (), t) \<and> our_paths n (V (world t)) = [] \<and>
    V (world t) = without (set (our_paths n (V (world s)))) (V (world s))"
proof -
  let ?hosts = "V (world s)" and ?ours = "our_paths n (V (world s))"
  let ?Q = "\<lambda>_ t. V (world t) = without (set ?ours) ?hosts"
  have lists: "lists E V" using assms(1) by (simp add: disconnects_def)
  note connected = wp_connected[OF lists _ assms(2)]
  have two: "num_of (VInt 2) = Some (NInt 2)" by simp
  have "wp (deconfigure_nvme_tcp E) ?Q (\<lambda>_ _. False) s"
    unfolding deconfigure_nvme_tcp_def nt_info_def wp_sq wp_bnd wp_gets wp_if
    apply (rule wp_in_view_log[OF in_view_start], rule wp_in_view_log, assumption, rule wp_in_view_log, assumption)
    apply (rule connected, assumption, split if_split, intro conjI impI)
     apply (rule wp_in_view_log, assumption, simp add: in_view_view)
    apply (rule wp_in_view_log, assumption, rule wp_disconnect_all[OF assms(1)], assumption)
    apply (rule wp_in_view_sleep[OF _ two], assumption, simp, rule wp_remove_persistence[OF assms(1)], assumption)
    apply (rule connected, assumption)
    by (split if_split, intro conjI impI; (rule wp_in_view_log, assumption)+; simp add: in_view_view)
  then obtain t where t: "deconfigure_nvme_tcp E s = (Inr (), t)" "?Q () t" by (auto simp: wp_not_exn_iff)
  then show ?thesis by (auto simp: our_paths_without filter_empty_conv)
qed

text \<open>A system with one path, which is there or not.\<close>

definition one_path :: "bool \<Rightarrow> subsystem list list" where
  "one_path b = [[(Some ''nqn.t'', if b then [(Some ''nvme0'', Some ''live'', Some ''optimized'')] else [])]]"

definition one_path_text :: "bool \<Rightarrow> string" where
  "one_path_text b = ''[{\"Subsystems\":[{\"NQN\":\"nqn.t\",\"Paths\":['' @
     (if b then ''{\"Name\":\"nvme0\",\"State\":\"live\",\"ANAState\":\"optimized\"}'' else []) @ '']}]}]''"

definition one_path_system :: "bool nt_env" where
  "one_path_system = (initiator [])\<lparr>nt_output := (\<lambda>_ b. (Inr (one_path_text b), b)),
     nt_system := (\<lambda>c b. (Inr 0, b \<and> c \<noteq> ''nvme disconnect -d /dev/nvme0''))\<rparr>"

theorem deconfigure_disconnects_all_witness:
  "\<exists>t. deconfigure_nvme_tcp one_path_system (attached True) = (Inr (), t) \<and> \<not> world t"
proof -
  have "case json_loads (one_path_text True) of Inr j \<Rightarrow> json_hosts j (one_path True) | Inl _ \<Rightarrow> False"
    "case json_loads (one_path_text False) of Inr j \<Rightarrow> json_hosts j (one_path False) | Inl _ \<Rightarrow> False" by code_simp+
  then have "\<exists>j. json_loads (one_path_text b) = Inr j \<and> json_hosts j (one_path b)" for b
    by (cases b) (auto split: sum.splits)
  moreover have "one_path (b \<and> m \<noteq> ''nvme0'') = without {m} (one_path b)" for b m
    by (auto simp: one_path_def without_def)
  ultimately have "disconnects one_path_system one_path"
    by (auto simp: disconnects_def lists_def acts_def may_fail_def one_path_system_def initiator_def)
  from deconfigure_disconnects_all[OF this, of "attached True" "''nqn.t''"] obtain t where
    t: "deconfigure_nvme_tcp one_path_system (attached True) = (Inr (), t)" "our_paths ''nqn.t'' (one_path (world t)) = []"
    by (auto simp: attached_def)
  from t(2) have "\<not> world t" by (auto simp: our_paths_def one_path_def path_names_def map_filter_simps split: if_splits)
  with t(1) show ?thesis by blast
qed

end
