(* ===== verification/Spec2Isabelle.thy ===== *)
theory Spec2Isabelle
  imports Dlpar_Props Cpu_Hotplug Nvme Raid_Props Raid_Life Die_Props Irq_Props Mem_Props Nd_Types Vnic_Props Ppc64_Props Sched_Props Nvme_Tcp_Props
begin

text \<open>
  \<^bold>\<open>The program.\<close> The repository is a collection of Avocado tests: Python classes whose \<^verbatim>\<open>setUp\<close>, test
  methods and \<^verbatim>\<open>tearDown\<close> configure a machine through commands and files, compare what they read back,
  and end normally or in an exception that says failed, cancelled or broken. Each test is a
  component of its own; what they share is the Avocado library, which is not under \<^verbatim>\<open>src/\<close>.

  \<^bold>\<open>The common model.\<close> \<open>Prelude\<close> defines the state and exception monad \<open>py\<close> of a Python method
  (\<open>bnd\<close>, \<open>sq\<close>, \<open>try_except\<close>, \<open>try_finally\<close>, \<open>for_each\<close>, \<open>for_acc\<close>, \<open>for_ret\<close>) and its weakest precondition
  \<open>wp\<close>, with one postcondition for the normal end and one for exceptions, and the rules by which all
  proofs step through a method. \<open>Py_Str\<close>, \<open>Py_Float\<close> and \<open>Py_Val\<close> model the parts of Python the tests use:
  strings, \<^verbatim>\<open>int()\<close> and \<^verbatim>\<open>float()\<close>, binary64 numbers as rationals with explicit rounding \<open>fl\<close>, the
  printing of floats, and the dynamically typed values of parameters. \<open>Avocado\<close> has the trace of log
  messages and external calls, the exceptions \<open>TestFail\<close> and \<open>TestCancel\<close>, \<^verbatim>\<open>wait_for\<close>, and frame predicates
  (\<open>keeps\<close>, \<open>adds\<close>, \<open>emits\<close>) about state and trace. Every external operation (a command, a file, the
  management console) is a function from an abstract world to a result, which may be an exception,
  and a new world; the environment records (\<open>dlpar_env\<close>, \<open>hp_env\<close>, \<open>nv_env\<close>, \<open>rd_env\<close>, \<open>dt_env\<close>, \<open>ib_env\<close>, \<open>mh_env\<close>, \<open>nd_env\<close>,
  \<open>vn_env\<close>, \<open>pc_env\<close>, \<open>su_env\<close>, \<open>nt_env\<close>) collect them.
  What a theorem assumes about them it states as a hypothesis.

  \<^bold>\<open>The components.\<close>
  \<^item> \<open>Dlpar_Api\<close> is \<^verbatim>\<open>dlpar/dlpar_api/api.py\<close>: the connections, the commands for the console, the validation
    of the numbers before and after, and the classes \<^verbatim>\<open>DedicatedCpu\<close>, \<^verbatim>\<open>CpuUnit\<close>, \<^verbatim>\<open>Memory\<close>.
    \<open>Dlpar_Payload\<close>, \<open>Dlpar_Main\<close>, \<open>Dlpar_File\<close> and \<open>Dlpar_Tests\<close> are \<^verbatim>\<open>dlpar/dlpar_main.py\<close>: the lists of amounts
    to add and remove, the test methods, the payload file, the SMT and persistence tests. \<open>Dlpar_Spec\<close>
    states as the locale \<open>resource_ops\<close> what adding and removing a resource promises, proves the client
    lemmas in it and interprets it on dedicated processors, virtual processors and memory. \<open>Dlpar_Trace\<close> has
    the commands that a body sends to the console, in their order.
  \<^item> \<open>Cpu_Hotplug\<close> is \<^verbatim>\<open>cpu/cpuhotplug.py\<close>: the loops that switch processors on and off.
  \<^item> \<open>Nvme\<close> is \<^verbatim>\<open>io/disk/ssd/nvmetest.py\<close>: namespaces, formats, firmware slots.
  \<^item> \<open>Raid\<close> is \<^verbatim>\<open>io/disk/softwareraid.py\<close>: arrays, logical volumes, the rebuild; its theorems are in \<open>Raid_Props\<close>,
    and \<open>Raid_Life\<close> follows the array through the rebuild test as a step relation.
  \<^item> \<open>Die_Topology\<close> is \<^verbatim>\<open>cpu/cpu_die_topology.py\<close>: the consistency of dies and packages and the choice of
    processors for a benchmark; its theorems are in \<open>Die_Props\<close>.
  \<^item> \<open>Irq_Balance\<close> is \<^verbatim>\<open>io/net/irqbalance.py\<close>: the affinity of interrupts, processes under \<^verbatim>\<open>taskset\<close>, SMT
    levels; its theorems are in \<open>Irq_Props\<close>.
  \<^item> \<open>Mem_Hotplug\<close> is \<^verbatim>\<open>memory/memhotplug.py\<close>: memory blocks off and on; its theorems are in \<open>Mem_Props\<close>.
  \<^item> \<open>Ndctl\<close> is \<^verbatim>\<open>memory/ndctl.py\<close>: regions, namespaces, info blocks of persistent memory, on the values
    from JSON of \<open>Py_Json\<close>; its theorems are in \<open>Nd_Props\<close>, and \<open>Nd_Types\<close> is a type system for its bodies.
  \<^item> \<open>Vnic\<close> is \<^verbatim>\<open>io/net/virt-net/network_virtualization.py\<close>: virtual adapters with several backing devices, made
    and switched through the management console; its theorems are in \<open>Vnic_Props\<close>.
  \<^item> \<open>Ppc64_Cpu\<close> is \<^verbatim>\<open>cpu/ppc64_cpu_test.py\<close>: the modes of processors and the number of online cores; its theorems
    are in \<open>Ppc64_Props\<close>, on the rules of \<open>Views\<close>, by which a body is stepped through when the external
    operations act on a view of the system.
  \<^item> \<open>Sched_Tunables\<close> is \<^verbatim>\<open>cpu/scheduler_tunables_test.py\<close>: files of the kernel that tune the scheduler, the counters
    of \<^verbatim>\<open>perf stat\<close> and their averages; its theorems are in \<open>Sched_Props\<close>.
  \<^item> \<open>Nvme_Tcp\<close> is \<^verbatim>\<open>io/disk/nvmetcp/nvme_tcp_initiator.py\<close>: addresses, discovery, connection, multipath and
    removal; the listings it reads are texts, which \<open>Json_Text\<close>, a model of \<^verbatim>\<open>json.loads\<close> of Python's standard
    library, reads; theorems are in \<open>Nvme_Tcp_Props\<close>.
  \<^item> \<open>Switching\<close> states as the locale \<open>switches\<close> what the three hotplug tests rely on, units that go down and up
    without touching each other; it is interpreted on processors (\<open>Cpu_Hotplug\<close>, \<open>Irq_Props\<close>) and on
    memory blocks (\<open>Mem_Props\<close>). \<open>Protocol\<close> has runs of a step relation over the events of a test, with the
    locale \<open>protocol\<close> that follows a body through the states.

  \<^bold>\<open>What the theorems show.\<close> For DLPAR: the lists are the greedy ones and stay within the limits, every
  loop ends, a whole test changes the partition by exactly what it reports and writes, the mixed
  test sends exactly the pairs of commands that restore it, up to the step that fails, the file reads back, and the operations refine the abstract contract. For
  hotplug: which processors are touched and in which state the test leaves them. For NVMe: sizes,
  the preference of formats, which commands the firmware loop gives and which of them it counts as passed. For RAID: the invariant of the
  flags over a whole run with its tearDown, the exact sequence of commands of a rebuild that passes,
  that the command that stops the array is the last however the rebuild ends, and stops it where the tool does,
  the size of the volume. For the topology: each test decides exactly the property of the files it
  is named after. For interrupts: the affinity test decides contiguity of the processor numbers, the
  parser reads back what was printed, the ping process follows its protocol at every end, the SMT
  level is not restored. For memory: how many blocks are taken and which are online after a run. For persistent
  memory: how a region is divided, which region is taken, what the tests of modes and capabilities decide and
  leave behind, that no test ends in an error of types when the library keeps to its types and a size is none
  or fits, and that another size does end so.
  For virtual adapters: the listing of the console reads back, the failover test passes and leaves the adapter
  as it was, the lists of devices stay in step, and tearDown does not restore the device it means to.
  For processor modes: what the verification of the state decides from the texts of the command, that the
  tests pass on a machine that obeys, that one test passes on a machine whose mode is stuck, and what
  tearDown restores.
  For scheduler tunables: that tearDown restores them however a test ends, what the parser of counters never
  reads, and bounds of the averages.
  For the NVMe/TCP initiator: the verdict of the multipath test on every answer of the listing command, that
  deconfiguring leaves no controller, and which listings are an uncaught error.
  Where the code does something else than it means to, a theorem says what it does.

  \<^bold>\<open>Loops, bounds and fuel.\<close> Loops over lists and ranges are structural. The loops of the payloads that may not
  end are \<open>partial_function (option)\<close>, and the theorems state that they return. The random split has
  as fuel the sum that is left, which is enough because every value drawn is at least 1; that this is
  so is proved from the contract of \<^verbatim>\<open>randint\<close>. \<^verbatim>\<open>wait_for\<close> is bounded by the number of polls that the
  time allows, a parameter. The reader of JSON has as fuel twice the length of its text and one more, and
  \<open>json_loads_ends\<close> says that this is enough. Numeric bounds such as 2 ^ 40 or 2 ^ 50 keep values in the range in which a
  float holds integers exactly.

  \<^bold>\<open>Not modelled.\<close> Time, apart from calls that sleep; concurrency between processes, apart from what the
  world does between two calls; NaN and the infinities; \<^verbatim>\<open>eval\<close> of a payload line that is not a literal list of
  numbers, which the tests never write. The other tests of the repository are not
  modelled: most build and run an external suite and look for words in its output.
\<close>

end
